(* ===== verification/Go_Prelude.thy ===== *)
theory Go_Prelude
  imports Main "HOL-Library.Word" "HOL-Library.Sublist"
begin

text \<open>
  What the components share of the Go language and its standard library.

  \<^item> A Go \<^verbatim>\<open>string\<close> or \<^verbatim>\<open>[]byte\<close> is a list of bytes; Isabelle's \<^typ>\<open>string\<close> is a list of
    8-bit characters, so \<^verbatim>\<open>len\<close> is \<^const>\<open>length\<close> and indexing is by byte.
  \<^item> \<^verbatim>\<open>int\<close> and \<^verbatim>\<open>int64\<close> values are \<^typ>\<open>int\<close>; where the code adds to one the result goes
    through \<open>wrap_i64\<close>.  \<^verbatim>\<open>uint32\<close> and \<^verbatim>\<open>uint64\<close> are words of that width.
  \<^item> A \<^verbatim>\<open>time.Time\<close> is its instant in nanoseconds since the zero time, so \<^verbatim>\<open>IsZero\<close> is
    equality with 0, \<^verbatim>\<open>Equal\<close> is equality and \<^verbatim>\<open>After\<close> is the order.  Locations and
    monotonic readings, which neither of those methods exposes here, are left out.
  \<^item> A pointer to a struct that the code only reads or replaces is an \<^typ>\<open>'a option\<close>; \<^verbatim>\<open>nil\<close>
    is \<^const>\<open>None\<close>.
  \<^item> An \<^verbatim>\<open>error\<close> result is an option of \<open>gerror\<close>; a pair of value and error is a sum.
    A run-time panic is the error value \<open>Panic\<close>, kept apart from every returned error, and \<open>NotFound\<close> is the
    typed \<^verbatim>\<open>NotFoundError\<close> with its resource, which callers tell apart with \<^verbatim>\<open>IsNotFound\<close>.
\<close>

subsection \<open>Errors, results and guards\<close>

datatype gerror = Err string | NotFound string | Panic

type_synonym 'a result = "gerror + 'a"

type_synonym time = int

type_synonym bytes = string

named_theorems guard_simps "characterisations of guard chains"
named_theorems go_defs "definitions unfolded to evaluate the model on concrete input"

text \<open>A sequence of \<^verbatim>\<open>if cond { return errors.New(msg) }\<close> statements.\<close>

fun checks :: "(bool \<times> string) list \<Rightarrow> gerror option" where
  "checks [] = None"
| "checks ((c, m) # gs) = (if c then Some (Err m) else checks gs)"

text \<open>\<^verbatim>\<open>if err := e; err != nil { return err }\<close> followed by the rest.\<close>

definition on_err :: "gerror option \<Rightarrow> 'a result \<Rightarrow> 'a result" where
  "on_err e k = (case e of Some m \<Rightarrow> Inl m | None \<Rightarrow> k)"

definition then_err :: "gerror option \<Rightarrow> gerror option \<Rightarrow> gerror option" where
  "then_err e k = (case e of Some m \<Rightarrow> Some m | None \<Rightarrow> k)"

definition bind_r :: "'a result \<Rightarrow> ('a \<Rightarrow> 'b result) \<Rightarrow> 'b result" where
  "bind_r r f = (case r of Inl e \<Rightarrow> Inl e | Inr x \<Rightarrow> f x)"

definition opt_ex :: "('a \<Rightarrow> bool) \<Rightarrow> 'a option \<Rightarrow> bool" where
  "opt_ex P v = (case v of None \<Rightarrow> False | Some x \<Rightarrow> P x)"

text \<open>The comparison of two pointers by the values they point to, as the code's
  \<^verbatim>\<open>equal...\<close> and \<^verbatim>\<open>same...\<close> helpers do it.\<close>

definition eq_ptr :: "('a \<Rightarrow> 'a \<Rightarrow> bool) \<Rightarrow> 'a option \<Rightarrow> 'a option \<Rightarrow> bool" where
  "eq_ptr eq l r = (case l of None \<Rightarrow> r = None
     | Some x \<Rightarrow> (case r of None \<Rightarrow> False | Some y \<Rightarrow> eq x y))"

definition wrap_i64 :: "int \<Rightarrow> int" where
  "wrap_i64 x = (x + 2 ^ 63) mod 2 ^ 64 - 2 ^ 63"

definition in_i64 :: "int \<Rightarrow> bool" where
  "in_i64 x = (- (2 ^ 63) \<le> x \<and> x < 2 ^ 63)"

subsection \<open>Strings\<close>

definition HasPrefix :: "string \<Rightarrow> string \<Rightarrow> bool" where
  "HasPrefix s p = (take (length p) s = p)"

definition HasSuffix :: "string \<Rightarrow> string \<Rightarrow> bool" where
  "HasSuffix s p = (length p \<le> length s \<and> drop (length s - length p) s = p)"

definition TrimPrefix :: "string \<Rightarrow> string \<Rightarrow> string" where
  "TrimPrefix s p = (if HasPrefix s p then drop (length p) s else s)"

definition TrimSuffix :: "string \<Rightarrow> string \<Rightarrow> string" where
  "TrimSuffix s p = (if HasSuffix s p then take (length s - length p) s else s)"

definition ContainsAny :: "string \<Rightarrow> string \<Rightarrow> bool" where
  "ContainsAny s cs = list_ex (\<lambda>c. c \<in> set cs) s"

text \<open>The ASCII part of \<^verbatim>\<open>strings.ToLower\<close>.  Every caller also requires the string to consist
  of hexadecimal digits and hyphens, so the case mapping of other code points never
  decides a result.\<close>

definition lower_char :: "char \<Rightarrow> char" where
  "lower_char c = (let n = of_char c :: nat in if 65 \<le> n \<and> n \<le> 90 then char_of (n + 32) else c)"

definition ToLower :: "string \<Rightarrow> string" where
  "ToLower s = map lower_char s"

definition is_hex_char :: "char \<Rightarrow> bool" where
  "is_hex_char c = (let n = of_char c :: nat in
     (48 \<le> n \<and> n \<le> 57) \<or> (97 \<le> n \<and> n \<le> 102) \<or> (65 \<le> n \<and> n \<le> 70))"

text \<open>\<^verbatim>\<open>hex.DecodeString\<close> succeeds on an even number of hexadecimal digits of either case.\<close>

definition hex_decodes :: "string \<Rightarrow> bool" where
  "hex_decodes s = (even (length s) \<and> list_all is_hex_char s)"

text \<open>\<^verbatim>\<open>unicode.IsSpace\<close> on the UTF-8 encodings it accepts: the width of the white-space code
  point a byte string starts with, 0 if there is none.\<close>

fun space_width :: "nat list \<Rightarrow> nat" where
  "space_width (a # b # c # _) =
     (if a = 32 \<or> (9 \<le> a \<and> a \<le> 13) then 1
      else if a = 194 \<and> (b = 133 \<or> b = 160) then 2
      else if a = 225 \<and> b = 154 \<and> c = 128 then 3
      else if a = 226 \<and> b = 128 \<and> ((128 \<le> c \<and> c \<le> 138) \<or> c = 168 \<or> c = 169 \<or> c = 175) then 3
      else if a = 226 \<and> b = 129 \<and> c = 159 then 3
      else if a = 227 \<and> b = 128 \<and> c = 128 then 3 else 0)"
| "space_width [a, b] =
     (if a = 32 \<or> (9 \<le> a \<and> a \<le> 13) then 1
      else if a = 194 \<and> (b = 133 \<or> b = 160) then 2 else 0)"
| "space_width [a] = (if a = 32 \<or> (9 \<le> a \<and> a \<le> 13) then 1 else 0)"
| "space_width [] = 0"

lemma space_width_le: "space_width s \<le> length s"
  by (cases s rule: space_width.cases) auto

function trim_left :: "nat list \<Rightarrow> nat list" where
  "trim_left s = (if space_width s = 0 then s else trim_left (drop (space_width s) s))"
  by pat_completeness auto
termination
proof (relation "measure length", simp)
  fix s :: "nat list"
  assume "space_width s \<noteq> 0"
  moreover have "s \<noteq> []" using calculation by (cases s) auto
  ultimately show "(drop (space_width s) s, s) \<in> measure length" by simp
qed

declare trim_left.simps [simp del]

text \<open>The width of the white-space code point a byte string ends with.  The last code point
  is found by stepping back over continuation bytes, so only the three encodings below
  can match.\<close>

definition space_width_end :: "nat list \<Rightarrow> nat" where
  "space_width_end s =
     (let n = length s in
      if 1 \<le> n \<and> space_width (drop (n - 1) s) = 1 then 1
      else if 2 \<le> n \<and> space_width (drop (n - 2) s) = 2 then 2
      else if 3 \<le> n \<and> space_width (drop (n - 3) s) = 3 then 3 else 0)"

lemma space_width_end_pos: "space_width_end s \<noteq> 0 \<Longrightarrow> s \<noteq> []"
  by (auto simp: space_width_end_def)

function trim_right :: "nat list \<Rightarrow> nat list" where
  "trim_right s = (if space_width_end s = 0 then s
     else trim_right (take (length s - space_width_end s) s))"
  by pat_completeness auto
termination
proof (relation "measure length", simp)
  fix s :: "nat list"
  assume "space_width_end s \<noteq> 0"
  then show "(take (length s - space_width_end s) s, s) \<in> measure length"
    using space_width_end_pos [of s] by auto
qed

declare trim_right.simps [simp del]

definition TrimSpace :: "string \<Rightarrow> string" where
  "TrimSpace s = map char_of (trim_right (trim_left (map of_char s)))"

text \<open>\<^verbatim>\<open>strings.TrimSpace(value) == ""\<close>, the only use the modelled code makes of it.\<close>

definition blank :: "string \<Rightarrow> bool" where
  "blank s = (TrimSpace s = [])"

subsection \<open>Decimal printing\<close>

fun nat_digits :: "nat \<Rightarrow> string" where
  "nat_digits n = (if n < 10 then [char_of (48 + n)] else nat_digits (n div 10) @ [char_of (48 + n mod 10)])"

declare nat_digits.simps [simp del]

definition FormatInt :: "int \<Rightarrow> string" where
  "FormatInt i = (if i < 0 then CHR ''-'' # nat_digits (nat (- i)) else nat_digits (nat i))"

subsection \<open>Lemmas on guards, pointers and results\<close>

lemma checks_None_iff [guard_simps]: "checks gs = None \<longleftrightarrow> (\<forall>g \<in> set gs. \<not> fst g)"
  by (induction gs rule: checks.induct) auto

lemma checks_not_Panic [simp]: "checks gs \<noteq> Some Panic"
  by (induction gs rule: checks.induct) auto

lemma checks_append: "checks (gs @ hs) = then_err (checks gs) (checks hs)"
  by (induction gs rule: checks.induct) (auto simp: then_err_def)

lemma then_err_None_iff [guard_simps]: "then_err e k = None \<longleftrightarrow> e = None \<and> k = None"
  by (auto simp: then_err_def split: option.splits)

lemma then_err_None_left [simp]: "then_err None k = k"
  by (simp add: then_err_def)

lemma then_err_Some_left [simp]: "then_err (Some e) k = Some e"
  by (simp add: then_err_def)

lemma on_err_Inr_iff [guard_simps]: "on_err e k = Inr x \<longleftrightarrow> e = None \<and> k = Inr x"
  by (auto simp: on_err_def split: option.splits)

lemma on_err_None [simp]: "on_err None k = k"
  by (simp add: on_err_def)

lemma on_err_Some [simp]: "on_err (Some m) k = Inl m"
  by (simp add: on_err_def)

lemma bind_r_Inr_iff [guard_simps]: "bind_r r f = Inr y \<longleftrightarrow> (\<exists>x. r = Inr x \<and> f x = Inr y)"
  by (auto simp: bind_r_def split: sum.splits)

lemma bind_r_Inr [simp]: "bind_r (Inr x) f = f x"
  by (simp add: bind_r_def)

lemma bind_r_Inl [simp]: "bind_r (Inl e) f = Inl e"
  by (simp add: bind_r_def)

lemma opt_ex_None [simp]: "\<not> opt_ex P None"
  by (simp add: opt_ex_def)

lemma opt_ex_Some [simp]: "opt_ex P (Some x) = P x"
  by (simp add: opt_ex_def)

lemma opt_ex_iff: "opt_ex P v \<longleftrightarrow> (\<exists>x. v = Some x \<and> P x)"
  by (cases v) auto

lemma if_False_neg: "(if c then False else p) = (\<not> c \<and> p)"
  by simp

lemma eq_ptr_None [simp]: "eq_ptr eq None r = (r = None)" "eq_ptr eq l None = (l = None)"
  by (cases l; auto simp: eq_ptr_def)+

lemma eq_ptr_Some [simp]: "eq_ptr eq (Some x) (Some y) = eq x y"
  by (simp add: eq_ptr_def)

text \<open>A pointer comparison by an equality that is extensional is equality of options.\<close>

lemma eq_ptr_iff_eq: "(\<And>x y. eq x y = (x = y)) \<Longrightarrow> eq_ptr eq l r = (l = r)"
  by (cases l; cases r) auto

lemma wrap_i64_id: "in_i64 x \<Longrightarrow> wrap_i64 x = x"
  unfolding wrap_i64_def in_i64_def by (subst mod_pos_pos_trivial) auto

lemma wrap_i64_range: "in_i64 (wrap_i64 x)"
proof -
  have "0 \<le> (x + 2 ^ 63) mod (2 ^ 64 :: int)" "(x + 2 ^ 63) mod (2 ^ 64 :: int) < 2 ^ 64"
    by (rule pos_mod_sign, simp) (rule pos_mod_bound, simp)
  then show ?thesis by (simp add: wrap_i64_def in_i64_def)
qed

lemma wrap_i64_max: "wrap_i64 (2 ^ 63 - 1 + 1) = - (2 ^ 63)"
  by (simp add: wrap_i64_def)

subsection \<open>Lemmas on white space\<close>

lemma blank_Nil [simp]: "blank []"
  by (simp add: blank_def TrimSpace_def trim_left.simps trim_right.simps space_width_end_def)

lemma space_width_head:
  "space_width (a # s) \<noteq> 0 \<Longrightarrow> a \<in> {9, 10, 11, 12, 13, 32, 194, 225, 226, 227}"
  by (cases "a # s" rule: space_width.cases) (auto split: if_splits)

lemma trim_right_keeps_head:
  "a \<notin> {9, 10, 11, 12, 13, 32, 194, 225, 226, 227} \<Longrightarrow> s = a # t \<Longrightarrow> trim_right s \<noteq> []"
proof (induction s arbitrary: t rule: trim_right.induct)
  case (1 s)
  show ?case
  proof (cases "space_width_end s = 0")
    case True
    then show ?thesis using 1 by (subst trim_right.simps) simp
  next
    case False
    let ?w = "space_width_end s"
    have sw: "space_width (drop (length s - ?w) s) = ?w" "?w \<le> length s"
      using False by (auto simp: space_width_end_def Let_def split: if_splits)
    have "?w \<noteq> length s"
    proof
      assume "?w = length s"
      then have "space_width (a # t) \<noteq> 0" using sw False 1(3) by simp
      then show False using space_width_head 1(2) by blast
    qed
    then obtain k where k: "length s - ?w = Suc k" using sw(2) by (cases "length s - ?w") auto
    then have "take (length s - ?w) s = a # take k t" using 1(3) by simp
    then have "trim_right (take (length s - ?w) s) \<noteq> []" using 1(1)[OF False] 1(2) by blast
    then show ?thesis using False by (subst trim_right.simps) simp
  qed
qed

text \<open>A string whose first byte starts no white-space code point is not blank.\<close>

lemma not_blank_head:
  assumes "(of_char c :: nat) \<notin> {9, 10, 11, 12, 13, 32, 194, 225, 226, 227}"
  shows "\<not> blank (c # s)"
proof -
  have "space_width (of_char c # map of_char s) = 0"
    using space_width_head [of "of_char c" "map of_char s"] assms by blast
  then have "trim_left (map of_char (c # s)) = of_char c # map of_char s"
    by (subst trim_left.simps) simp
  then show ?thesis
    using trim_right_keeps_head [OF assms] by (simp add: blank_def TrimSpace_def)
qed

lemma not_blank_Cons [simp]:
  "(of_char c :: nat) < 127 \<Longrightarrow> 32 < (of_char c :: nat) \<Longrightarrow> \<not> blank (c # s)"
  by (rule not_blank_head) auto

subsection \<open>Hexadecimal encoding\<close>

definition hex_digit :: "nat \<Rightarrow> char" where
  "hex_digit n = char_of (if n < 10 then 48 + n else 87 + n)"

definition EncodeToString :: "bytes \<Rightarrow> string" where
  "EncodeToString bs = concat (map (\<lambda>c. let n = of_char c in [hex_digit (n div 16), hex_digit (n mod 16)]) bs)"

lemma hex_digit_props:
  assumes "n < 16"
  shows "is_hex_char (hex_digit n)" "lower_char (hex_digit n) = hex_digit n"
    and "(of_char (hex_digit n) :: nat) < 127" "32 < (of_char (hex_digit n) :: nat)"
  using assms
  by (cases "n < 10"; simp add: is_hex_char_def hex_digit_def lower_char_def)+

lemma length_EncodeToString [simp]: "length (EncodeToString bs) = 2 * length bs"
  by (induction bs) (auto simp: EncodeToString_def Let_def)

lemma of_char_nibbles: "(of_char c :: nat) div 16 < 16" "(of_char c :: nat) mod 16 < 16"
proof -
  have "(of_char c :: nat) \<in> range of_char" by (rule rangeI)
  then have "(of_char c :: nat) < 256" using range_nat_of_char by simp
  then show "(of_char c :: nat) div 16 < 16" "(of_char c :: nat) mod 16 < 16" by arith+
qed

lemma EncodeToString_chars:
  "c \<in> set (EncodeToString bs) \<Longrightarrow> \<exists>n < 16. c = hex_digit n"
  by (auto simp: EncodeToString_def Let_def) (use of_char_nibbles in blast)+

lemma EncodeToString_hex [simp]: "hex_decodes (EncodeToString bs)"
  using EncodeToString_chars hex_digit_props(1) by (fastforce simp: hex_decodes_def list_all_iff)

lemma EncodeToString_lower [simp]: "ToLower (EncodeToString bs) = EncodeToString bs"
  using EncodeToString_chars hex_digit_props(2) by (fastforce simp: ToLower_def intro: map_idI)

end
