(* ===== verification/Go_Json.thy ===== *)
theory Go_Json
  imports Go_Prelude
begin

text \<open>
  The part of \<^verbatim>\<open>encoding/json\<close> the run journal relies on: the scanner behind \<^verbatim>\<open>json.Valid\<close> and
  \<^verbatim>\<open>json.Unmarshal\<close>, the compaction that \<^verbatim>\<open>Marshal\<close> applies to a \<^verbatim>\<open>RawMessage\<close>, the quoting and
  unquoting of strings, and the case-insensitive lookup of struct members.

  A parsed value keeps its strings and numbers as the bytes of the token, so that printing
  a value is compaction of the text it was parsed from.
\<close>

datatype json =
    JNull
  | JBool bool
  | JNum string
  | JStr string
  | JArr "json list"
  | JObj "(string \<times> json) list"

type_synonym RawMessage = "bytes option"

definition rm_bytes :: "RawMessage \<Rightarrow> bytes" where
  "rm_bytes m = (case m of None \<Rightarrow> [] | Some b \<Rightarrow> b)"

subsection \<open>Tokens\<close>

definition is_ws :: "char \<Rightarrow> bool" where
  "is_ws c = (c = CHR '' '' \<or> c = CHR 0x09 \<or> c = CHR 0x0A \<or> c = CHR 0x0D)"

fun skip_ws :: "string \<Rightarrow> string" where
  "skip_ws [] = []"
| "skip_ws (c # s) = (if is_ws c then skip_ws s else c # s)"

definition is_digit :: "char \<Rightarrow> bool" where
  "is_digit c = (let n = of_char c :: nat in 48 \<le> n \<and> n \<le> 57)"

definition is_simple_escape :: "char \<Rightarrow> bool" where
  "is_simple_escape c = (c = CHR 0x22 \<or> c = CHR 0x5C \<or> c = CHR ''/'' \<or> c = CHR ''b'' \<or> c = CHR ''f''
     \<or> c = CHR ''n'' \<or> c = CHR ''r'' \<or> c = CHR ''t'')"

definition is_plain :: "char \<Rightarrow> bool" where
  "is_plain c = (32 \<le> (of_char c :: nat) \<and> c \<noteq> CHR 0x22 \<and> c \<noteq> CHR 0x5C)"

definition cons_fst :: "string \<Rightarrow> (string \<times> 'a) option \<Rightarrow> (string \<times> 'a) option" where
  "cons_fst p r = map_option (\<lambda>(t, x). (p @ t, x)) r"

text \<open>The body of a string after its opening quote: the raw bytes before the closing quote
  and what follows it.\<close>

fun scan_string :: "string \<Rightarrow> (string \<times> string) option" where
  "scan_string [] = None"
| "scan_string (c # s) =
     (if c = CHR 0x22 then Some ([], s)
      else if c = CHR 0x5C then
        (case s of [] \<Rightarrow> None
         | e # t \<Rightarrow>
           if is_simple_escape e then cons_fst [c, e] (scan_string t)
           else if e = CHR ''u'' then
             (case t of h1 # h2 # h3 # h4 # t' \<Rightarrow>
                if is_hex_char h1 \<and> is_hex_char h2 \<and> is_hex_char h3 \<and> is_hex_char h4
                then cons_fst [c, e, h1, h2, h3, h4] (scan_string t') else None
              | _ \<Rightarrow> None)
           else None)
      else if is_plain c then cons_fst [c] (scan_string s) else None)"

definition span_digits :: "string \<Rightarrow> string \<times> string" where
  "span_digits s = (takeWhile is_digit s, dropWhile is_digit s)"

text \<open>A number token: sign, integer part without leading zeros, fraction, exponent.\<close>

definition scan_int :: "string \<Rightarrow> (string \<times> string) option" where
  "scan_int s = (case s of [] \<Rightarrow> None
     | c # t \<Rightarrow> if c = CHR ''0'' then Some ([c], t)
                else if is_digit c then Some (span_digits s) else None)"

definition scan_frac :: "string \<Rightarrow> (string \<times> string) option" where
  "scan_frac s = (case s of [] \<Rightarrow> Some ([], [])
     | c # t \<Rightarrow> if c = CHR ''.''
                then (let (d, r) = span_digits t in if d = [] then None else Some (c # d, r))
                else Some ([], s))"

definition scan_exp :: "string \<Rightarrow> (string \<times> string) option" where
  "scan_exp s = (case s of [] \<Rightarrow> Some ([], [])
     | c # t \<Rightarrow>
        if c = CHR ''e'' \<or> c = CHR ''E'' then
          (let (sg, t') = (case t of [] \<Rightarrow> ([], [])
                | x # u \<Rightarrow> if x = CHR ''+'' \<or> x = CHR ''-'' then ([x], u) else ([], t));
               (d, r) = span_digits t'
           in if d = [] then None else Some (c # sg @ d, r))
        else Some ([], s))"

definition scan_unsigned :: "string \<Rightarrow> (string \<times> string) option" where
  "scan_unsigned s = (case scan_int s of None \<Rightarrow> None
     | Some (i, r1) \<Rightarrow> (case scan_frac r1 of None \<Rightarrow> None
        | Some (f, r2) \<Rightarrow> (case scan_exp r2 of None \<Rightarrow> None
           | Some (e, r3) \<Rightarrow> Some (i @ f @ e, r3))))"

definition scan_number :: "string \<Rightarrow> (string \<times> string) option" where
  "scan_number s = (case s of [] \<Rightarrow> None
     | c # t \<Rightarrow> if c = CHR ''-'' then cons_fst [c] (scan_unsigned t) else scan_unsigned s)"

definition scan_literal :: "string \<Rightarrow> json \<Rightarrow> string \<Rightarrow> (json \<times> string) option" where
  "scan_literal l v s = (if HasPrefix s l then Some (v, drop (length l) s) else None)"

subsection \<open>Values\<close>

text \<open>Recursive descent with fuel.  The second argument is the nesting the scanner still
  admits (\<^verbatim>\<open>maxNestingDepth\<close> is 10000).\<close>

fun parse_value :: "nat \<Rightarrow> nat \<Rightarrow> string \<Rightarrow> (json \<times> string) option"
and parse_elems :: "nat \<Rightarrow> nat \<Rightarrow> string \<Rightarrow> (json list \<times> string) option"
and parse_members :: "nat \<Rightarrow> nat \<Rightarrow> string \<Rightarrow> ((string \<times> json) list \<times> string) option"
where
  "parse_value 0 d s = None"
| "parse_value (Suc n) d s =
     (case skip_ws s of [] \<Rightarrow> None
      | c # r \<Rightarrow>
        if c = CHR ''{'' then
          (if d = 0 then None
           else (case skip_ws r of [] \<Rightarrow> None
             | c' # r' \<Rightarrow> if c' = CHR ''}'' then Some (JObj [], r')
                 else (case parse_members n (d - 1) (c' # r') of None \<Rightarrow> None
                       | Some (ms, t) \<Rightarrow> Some (JObj ms, t))))
        else if c = CHR ''['' then
          (if d = 0 then None
           else (case skip_ws r of [] \<Rightarrow> None
             | c' # r' \<Rightarrow> if c' = CHR '']'' then Some (JArr [], r')
                 else (case parse_elems n (d - 1) (c' # r') of None \<Rightarrow> None
                       | Some (vs, t) \<Rightarrow> Some (JArr vs, t))))
        else if c = CHR 0x22 then
          (case scan_string r of None \<Rightarrow> None | Some (raw, t) \<Rightarrow> Some (JStr raw, t))
        else if c = CHR ''t'' then scan_literal ''true'' (JBool True) (c # r)
        else if c = CHR ''f'' then scan_literal ''false'' (JBool False) (c # r)
        else if c = CHR ''n'' then scan_literal ''null'' JNull (c # r)
        else (case scan_number (c # r) of None \<Rightarrow> None | Some (tok, t) \<Rightarrow> Some (JNum tok, t)))"
| "parse_elems 0 d s = None"
| "parse_elems (Suc n) d s =
     (case parse_value n d s of None \<Rightarrow> None
      | Some (v, r) \<Rightarrow>
        (case skip_ws r of [] \<Rightarrow> None
         | c # r' \<Rightarrow>
           if c = CHR '']'' then Some ([v], r')
           else if c = CHR '','' then
             (case parse_elems n d r' of None \<Rightarrow> None | Some (vs, t) \<Rightarrow> Some (v # vs, t))
           else None))"
| "parse_members 0 d s = None"
| "parse_members (Suc n) d s =
     (case skip_ws s of [] \<Rightarrow> None
      | q # r \<Rightarrow>
        if q \<noteq> CHR 0x22 then None
        else (case scan_string r of None \<Rightarrow> None
          | Some (k, r1) \<Rightarrow>
            (case skip_ws r1 of [] \<Rightarrow> None
             | c # r2 \<Rightarrow>
               if c \<noteq> CHR '':'' then None
               else (case parse_value n d r2 of None \<Rightarrow> None
                 | Some (v, r3) \<Rightarrow>
                   (case skip_ws r3 of [] \<Rightarrow> None
                    | c' # r4 \<Rightarrow>
                      if c' = CHR ''}'' then Some ([(k, v)], r4)
                      else if c' = CHR '','' then
                        (case parse_members n d r4 of None \<Rightarrow> None
                         | Some (ms, t) \<Rightarrow> Some ((k, v) # ms, t))
                      else None)))))"

text \<open>Every recursive call but one consumes a byte, so twice the length is enough fuel.\<close>

definition parse_depth :: "nat \<Rightarrow> string \<Rightarrow> json option" where
  "parse_depth d s = (case parse_value (2 * length s + 2) d s of None \<Rightarrow> None
     | Some (v, r) \<Rightarrow> if skip_ws r = [] then Some v else None)"

definition parse_json :: "string \<Rightarrow> json option" where
  "parse_json s = parse_depth 10000 s"

definition json_Valid :: "bytes \<Rightarrow> bool" where
  "json_Valid s = (parse_json s \<noteq> None)"

subsection \<open>Printing\<close>

fun intercalate :: "string \<Rightarrow> string list \<Rightarrow> string" where
  "intercalate sep [] = []"
| "intercalate sep [x] = x"
| "intercalate sep (x # y # ys) = x @ sep @ intercalate sep (y # ys)"

text \<open>The escapes that compaction adds when HTML escaping is on: the three HTML
  metacharacters and the line and paragraph separators.\<close>

fun html_escape :: "string \<Rightarrow> string" where
  "html_escape (a # b # c # s) =
     (if a = CHR ''<'' then [CHR 0x5C] @ ''u003c'' @ html_escape (b # c # s)
      else if a = CHR ''>'' then [CHR 0x5C] @ ''u003e'' @ html_escape (b # c # s)
      else if a = CHR ''&'' then [CHR 0x5C] @ ''u0026'' @ html_escape (b # c # s)
      else if a = CHR 0xE2 \<and> b = CHR 0x80 \<and> c = CHR 0xA8 then [CHR 0x5C] @ ''u2028'' @ html_escape s
      else if a = CHR 0xE2 \<and> b = CHR 0x80 \<and> c = CHR 0xA9 then [CHR 0x5C] @ ''u2029'' @ html_escape s
      else a # html_escape (b # c # s))"
| "html_escape (a # s) =
     (if a = CHR ''<'' then [CHR 0x5C] @ ''u003c'' @ html_escape s
      else if a = CHR ''>'' then [CHR 0x5C] @ ''u003e'' @ html_escape s
      else if a = CHR ''&'' then [CHR 0x5C] @ ''u0026'' @ html_escape s
      else a # html_escape s)"
| "html_escape [] = []"

definition print_string :: "bool \<Rightarrow> string \<Rightarrow> string" where
  "print_string esc raw = CHR 0x22 # (if esc then html_escape raw else raw) @ [CHR 0x22]"

fun print_json :: "bool \<Rightarrow> json \<Rightarrow> string" where
  "print_json esc JNull = ''null''"
| "print_json esc (JBool b) = (if b then ''true'' else ''false'')"
| "print_json esc (JNum t) = t"
| "print_json esc (JStr raw) = print_string esc raw"
| "print_json esc (JArr vs) = ''['' @ intercalate '','' (map (print_json esc) vs) @ '']''"
| "print_json esc (JObj ms) =
     ''{'' @ intercalate '','' (map (\<lambda>(k, v). print_string esc k @ '':'' @ print_json esc v) ms) @ ''}''"

text \<open>\<^verbatim>\<open>RawMessage.MarshalJSON\<close> followed by compaction: \<^verbatim>\<open>nil\<close> is written as \<^verbatim>\<open>null\<close>, anything that
  is not a JSON value is an encoding error.\<close>

definition marshal_raw :: "bool \<Rightarrow> RawMessage \<Rightarrow> string option" where
  "marshal_raw esc m = (case m of None \<Rightarrow> Some ''null''
     | Some b \<Rightarrow> map_option (print_json esc) (parse_json b))"

subsection \<open>Quoting strings\<close>

definition cont :: "nat \<Rightarrow> bool" where
  "cont b = (128 \<le> b \<and> b \<le> 191)"

text \<open>\<^verbatim>\<open>utf8.DecodeRune\<close>: the code point at the start of a byte string and its width; an invalid
  encoding gives no code point and stands for one byte.\<close>

fun decode_rune :: "nat list \<Rightarrow> (nat \<times> nat) option" where
  "decode_rune [] = None"
| "decode_rune (a # s) =
     (if a < 128 then Some (a, 1)
      else (case s of [] \<Rightarrow> None
        | b # s1 \<Rightarrow>
          if 194 \<le> a \<and> a \<le> 223 then
            (if cont b then Some ((a - 192) * 64 + (b - 128), 2) else None)
          else (case s1 of [] \<Rightarrow> None
            | c # s2 \<Rightarrow>
              if 224 \<le> a \<and> a \<le> 239 then
                (if cont b \<and> cont c \<and> (a = 224 \<longrightarrow> 160 \<le> b) \<and> (a = 237 \<longrightarrow> b \<le> 159)
                 then Some ((a - 224) * 4096 + (b - 128) * 64 + (c - 128), 3) else None)
              else (case s2 of [] \<Rightarrow> None
                | e # _ \<Rightarrow>
                  if 240 \<le> a \<and> a \<le> 244 \<and> cont b \<and> cont c \<and> cont e
                     \<and> (a = 240 \<longrightarrow> 144 \<le> b) \<and> (a = 244 \<longrightarrow> b \<le> 143)
                  then Some ((a - 240) * 262144 + (b - 128) * 4096 + (c - 128) * 64 + (e - 128), 4)
                  else None))))"

lemma decode_rune_width:
  "decode_rune s = Some (r, w) \<Longrightarrow> 0 < w \<and> w \<le> length s"
  by (cases s rule: decode_rune.cases) (auto split: if_splits list.splits)

definition hex4 :: "nat \<Rightarrow> string" where
  "hex4 n = map (\<lambda>i. hex_digit (n div 16 ^ i mod 16)) [3, 2, 1, 0]"

definition unicode_escape :: "nat \<Rightarrow> string" where
  "unicode_escape n = [CHR 0x5C, CHR ''u''] @ hex4 n"

definition quote_ascii :: "bool \<Rightarrow> nat \<Rightarrow> string" where
  "quote_ascii esc b =
     (if b = 34 \<or> b = 92 then [CHR 0x5C, char_of b]
      else if b = 8 then [CHR 0x5C, CHR ''b'']
      else if b = 12 then [CHR 0x5C, CHR ''f'']
      else if b = 10 then [CHR 0x5C, CHR ''n'']
      else if b = 13 then [CHR 0x5C, CHR ''r'']
      else if b = 9 then [CHR 0x5C, CHR ''t'']
      else if b < 32 \<or> esc \<and> (b = 60 \<or> b = 62 \<or> b = 38) then unicode_escape b
      else [char_of b])"

text \<open>The encoder's \<^verbatim>\<open>appendString\<close> without the quotes.\<close>

function quote_bytes :: "bool \<Rightarrow> nat list \<Rightarrow> string" where
  "quote_bytes esc s =
     (case decode_rune s of
        None \<Rightarrow> (case s of [] \<Rightarrow> [] | b # t \<Rightarrow> unicode_escape 0xFFFD @ quote_bytes esc t)
      | Some (r, w) \<Rightarrow>
          (if w = 1 then quote_ascii esc r
           else if r = 0x2028 \<or> r = 0x2029 then unicode_escape r
           else map char_of (take w s)) @ quote_bytes esc (drop w s))"
  by pat_completeness auto
termination
  by (relation "measure (\<lambda>(e, s). length s)") (auto dest!: decode_rune_width)

declare quote_bytes.simps [simp del]

definition quote_raw :: "bool \<Rightarrow> string \<Rightarrow> string" where
  "quote_raw esc s = quote_bytes esc (map of_char s)"

definition marshal_string :: "bool \<Rightarrow> string \<Rightarrow> string" where
  "marshal_string esc s = CHR 0x22 # quote_raw esc s @ [CHR 0x22]"

subsection \<open>Unquoting strings\<close>

definition hex_val :: "char \<Rightarrow> nat" where
  "hex_val c = (let n = of_char c :: nat in
     if n \<le> 57 then n - 48 else if n \<le> 70 then n - 55 else n - 87)"

definition encode_rune :: "nat \<Rightarrow> nat list" where
  "encode_rune r =
     (if r < 128 then [r]
      else if r < 2048 then [192 + r div 64, 128 + r mod 64]
      else if r < 65536 then [224 + r div 4096, 128 + r div 64 mod 64, 128 + r mod 64]
      else [240 + r div 262144, 128 + r div 4096 mod 64, 128 + r div 64 mod 64, 128 + r mod 64])"

definition is_surrogate :: "nat \<Rightarrow> bool" where
  "is_surrogate r = (0xD800 \<le> r \<and> r < 0xE000)"

definition escape_byte :: "char \<Rightarrow> nat" where
  "escape_byte e = (if e = CHR ''b'' then 8 else if e = CHR ''f'' then 12 else if e = CHR ''n'' then 10
     else if e = CHR ''r'' then 13 else if e = CHR ''t'' then 9 else of_char e)"

definition hex4_val :: "string \<Rightarrow> nat" where
  "hex4_val h = foldl (\<lambda>a c. 16 * a + hex_val c) 0 h"

text \<open>\<^verbatim>\<open>unquoteBytes\<close> on the raw body of a scanned string: escapes are replaced, a surrogate pair
  is joined, a lone surrogate and an invalid UTF-8 byte become U+FFFD.\<close>

function unquote :: "string \<Rightarrow> nat list" where
  "unquote s =
     (case s of [] \<Rightarrow> []
      | c # t \<Rightarrow>
        if c = CHR 0x5C then
          (case t of [] \<Rightarrow> []
           | e # u \<Rightarrow>
             if e = CHR ''u'' then
               (let r = hex4_val (take 4 u); v = drop 4 u in
                if is_surrogate r then
                  (let r2 = hex4_val (take 4 (drop 2 v)) in
                   if take 2 v = [CHR 0x5C, CHR ''u''] \<and> r < 0xDC00 \<and> 0xDC00 \<le> r2 \<and> r2 < 0xE000
                   then encode_rune (0x10000 + (r - 0xD800) * 1024 + (r2 - 0xDC00)) @ unquote (drop 6 v)
                   else encode_rune 0xFFFD @ unquote v)
                else encode_rune r @ unquote v)
             else escape_byte e # unquote u)
        else (case decode_rune (map of_char s) of
                None \<Rightarrow> encode_rune 0xFFFD @ unquote t
              | Some (r, w) \<Rightarrow> map of_char (take w s) @ unquote (drop w s)))"
  by pat_completeness auto
termination
  by (relation "measure length") (auto dest!: decode_rune_width simp: less_Suc_eq_le simp del: decode_rune.simps)

declare unquote.simps [simp del]

definition unquote_string :: "string \<Rightarrow> string" where
  "unquote_string raw = map char_of (unquote raw)"

subsection \<open>Members of a struct\<close>

text \<open>Member names match a struct tag exactly or up to case folding; besides the ASCII letters
  the Kelvin sign folds to k and the long s to s.\<close>

fun fold_name :: "nat list \<Rightarrow> nat list" where
  "fold_name [] = []"
| "fold_name (a # s) =
     (if 65 \<le> a \<and> a \<le> 90 then (a + 32) # fold_name s
      else if a = 197 \<and> take 1 s = [191] then 115 # fold_name (drop 1 s)
      else if a = 226 \<and> take 2 s = [132, 170] then 107 # fold_name (drop 2 s)
      else a # fold_name s)"

definition names_field :: "string \<Rightarrow> string \<Rightarrow> bool" where
  "names_field f raw = (fold_name (unquote raw) = fold_name (map of_char f))"

text \<open>Decoding into string fields: a member that names a field must be a string or null, the
  last string wins and null leaves the field as it is.\<close>

fun string_field :: "string \<Rightarrow> (string \<times> json) list \<Rightarrow> string" where
  "string_field f [] = []"
| "string_field f ((k, v) # ms) =
     (let later = filter (\<lambda>(k', v'). names_field f k' \<and> v' \<noteq> JNull) ms in
      if later \<noteq> [] then string_field f ms
      else if names_field f k then (case v of JStr raw \<Rightarrow> unquote_string raw | _ \<Rightarrow> [])
      else [])"

definition is_string_or_null :: "json \<Rightarrow> bool" where
  "is_string_or_null v = (case v of JStr _ \<Rightarrow> True | JNull \<Rightarrow> True | _ \<Rightarrow> False)"

definition unmarshal_strings :: "string list \<Rightarrow> bytes \<Rightarrow> (string \<Rightarrow> string) option" where
  "unmarshal_strings fs data = (case parse_json data of
     None \<Rightarrow> None
   | Some JNull \<Rightarrow> Some (\<lambda>_. [])
   | Some (JObj ms) \<Rightarrow>
       if list_all (\<lambda>(k, v). list_ex (\<lambda>f. names_field f k) fs \<longrightarrow> is_string_or_null v) ms
       then Some (\<lambda>f. string_field f ms) else None
   | Some _ \<Rightarrow> None)"

text \<open>Decoding into a \<^verbatim>\<open>map[string]json.RawMessage\<close>: decoded keys, the last value of a key wins.\<close>

definition unmarshal_map :: "bytes \<Rightarrow> (string \<times> json) list option" where
  "unmarshal_map data = (case parse_json data of
     None \<Rightarrow> None
   | Some JNull \<Rightarrow> Some []
   | Some (JObj ms) \<Rightarrow> Some (map (\<lambda>(k, v). (unquote_string k, v)) ms)
   | Some _ \<Rightarrow> None)"

fun last_lookup :: "string \<Rightarrow> (string \<times> json) list \<Rightarrow> json option" where
  "last_lookup k [] = None"
| "last_lookup k ((k', v) # ms) =
     (case last_lookup k ms of Some w \<Rightarrow> Some w | None \<Rightarrow> if k' = k then Some v else None)"

subsection \<open>Duplicate members\<close>

fun no_dup_members :: "json \<Rightarrow> bool" where
  "no_dup_members (JArr vs) = list_all no_dup_members vs"
| "no_dup_members (JObj ms) =
     (distinct (map (\<lambda>m. unquote_string (fst m)) ms) \<and> list_all (\<lambda>(k, v). no_dup_members v) ms)"
| "no_dup_members _ = True"

end
