(* ===== verification/Go_Json_Props.thy ===== *)
theory Go_Json_Props
  imports Go_Json
begin

text \<open>
  The scanner and the printer fit together: printing a value built from well-formed tokens
  and scanning it again gives the value back, with the fuel the parser runs with.
\<close>

subsection \<open>String tokens\<close>

lemma cons_fst_Some_iff: "cons_fst p r = Some (t, x) \<longleftrightarrow> (\<exists>u. r = Some (u, x) \<and> t = p @ u)"
  by (auto simp: cons_fst_def)

text \<open>What was scanned is the raw body, the closing quote and the rest; more input after the
  closing quote changes nothing.\<close>

lemma scan_string_extend:
  "scan_string s = Some (t, r) \<Longrightarrow> scan_string (t @ CHR 0x22 # r') = Some (t, r') \<and> s = t @ CHR 0x22 # r"
proof (induction s arbitrary: t r rule: scan_string.induct)
  case (2 c s)
  show ?case
  proof (cases "c = CHR 0x22 \<or> c \<noteq> CHR 0x5C")
    case True
    then show ?thesis using 2 by (auto simp: cons_fst_Some_iff split: if_splits)
  next
    case False
    then obtain e u where s: "s = e # u" using 2(4) by (auto split: list.splits)
    show ?thesis
    proof (cases "is_simple_escape e")
      case True
      then show ?thesis using 2(1)[of e u] 2(4) False s by (auto simp: cons_fst_Some_iff)
    next
      case simple: False
      then obtain h1 h2 h3 h4 v where u: "u = h1 # h2 # h3 # h4 # v" "e = CHR ''u''"
        "is_hex_char h1 \<and> is_hex_char h2 \<and> is_hex_char h3 \<and> is_hex_char h4"
        using 2(4) False s by (auto split: list.splits if_splits)
      then show ?thesis using 2(2)[of e u] 2(4) False s simple by (auto simp: cons_fst_Some_iff)
    qed
  qed
qed simp

definition raw_ok :: "string \<Rightarrow> bool" where
  "raw_ok t = (scan_string (t @ [CHR 0x22]) = Some (t, []))"

lemma raw_ok_scan [simp]: "raw_ok t \<Longrightarrow> scan_string (t @ CHR 0x22 # r) = Some (t, r)"
  using scan_string_extend [of "t @ [CHR 0x22]" t "[]" r] by (simp add: raw_ok_def)

lemma scan_string_raw_ok: "scan_string s = Some (t, r) \<Longrightarrow> raw_ok t"
  using scan_string_extend [of s t r "[]"] by (simp add: raw_ok_def)

lemma raw_ok_Nil [simp]: "raw_ok []"
  by (simp add: raw_ok_def)

lemma raw_ok_plain: "is_plain c \<Longrightarrow> raw_ok t \<Longrightarrow> raw_ok (c # t)"
  by (simp add: raw_ok_def is_plain_def cons_fst_def)

lemma raw_ok_plain_append: "list_all is_plain p \<Longrightarrow> raw_ok t \<Longrightarrow> raw_ok (p @ t)"
  by (induction p) (auto intro: raw_ok_plain)

lemma raw_ok_simple: "is_simple_escape e \<Longrightarrow> raw_ok t \<Longrightarrow> raw_ok (CHR 0x5C # e # t)"
  by (simp add: raw_ok_def cons_fst_def)

lemma hex4_hex: "hex4 n = [h1, h2, h3, h4] \<Longrightarrow> is_hex_char h1 \<and> is_hex_char h2 \<and> is_hex_char h3 \<and> is_hex_char h4"
  by (auto simp: hex4_def intro!: hex_digit_props(1))

lemma hex4_cases: obtains h1 h2 h3 h4 where "hex4 n = [h1, h2, h3, h4]"
  by (simp add: hex4_def)

lemma raw_ok_unicode: "raw_ok t \<Longrightarrow> raw_ok (unicode_escape n @ t)"
  by (rule hex4_cases [of n], frule hex4_hex)
    (auto simp: raw_ok_def unicode_escape_def is_simple_escape_def cons_fst_def)

lemma char_of_quote_backslash [simp]: "char_of (34 :: nat) = CHR 0x22" "char_of (92 :: nat) = CHR 0x5C"
  by (simp_all add: char_of_eq_iff take_bit_eq_mod)

lemma is_plain_char_of:
  assumes "32 \<le> b" "b < 256" "b \<noteq> 34" "b \<noteq> 92"
  shows "is_plain (char_of (b :: nat))"
proof -
  have ob: "(of_char (char_of b :: char) :: nat) = b" using assms(2) by simp
  have "char_of b \<noteq> CHR 0x22" "char_of b \<noteq> CHR 0x5C"
    using assms by (auto simp: char_of_eq_iff take_bit_eq_mod)
  then show ?thesis using assms ob by (simp add: is_plain_def)
qed

lemma raw_ok_quote_ascii:
  assumes "b < 128" "raw_ok t"
  shows "raw_ok (quote_ascii esc b @ t)"
proof -
  consider "b = 34" | "b = 92" | "b \<in> {8, 9, 10, 12, 13}"
    | "b \<notin> {34, 92, 8, 9, 10, 12, 13}" "b < 32 \<or> esc \<and> (b = 60 \<or> b = 62 \<or> b = 38)"
    | "b \<notin> {34, 92, 8, 9, 10, 12, 13}" "\<not> (b < 32 \<or> esc \<and> (b = 60 \<or> b = 62 \<or> b = 38))"
    by blast
  then show ?thesis
  proof cases
    case 4
    then have "quote_ascii esc b = unicode_escape b" by (auto simp: quote_ascii_def)
    then show ?thesis using assms(2) raw_ok_unicode by simp
  next
    case 5
    then have "quote_ascii esc b = [char_of b]" by (auto simp: quote_ascii_def)
    then show ?thesis using assms 5 is_plain_char_of [of b] raw_ok_plain by auto
  qed (use assms(2) in \<open>auto simp: quote_ascii_def intro!: raw_ok_simple, simp_all add: is_simple_escape_def\<close>)
qed

lemma decode_rune_wide_bytes:
  "decode_rune s = Some (r, w) \<Longrightarrow> w \<noteq> 1 \<Longrightarrow> b \<in> set (take w s) \<Longrightarrow> 128 \<le> b \<and> b < 256"
  by (cases s rule: decode_rune.cases) (auto simp: cont_def split: if_splits list.splits)

lemma decode_rune_ascii: "decode_rune s = Some (r, 1) \<Longrightarrow> r < 128"
  by (cases s rule: decode_rune.cases) (auto split: if_splits list.splits)

lemma raw_ok_quote_bytes: "raw_ok (quote_bytes esc s)"
proof (induction esc s rule: quote_bytes.induct)
  case (1 esc s)
  show ?case
  proof (cases "decode_rune s")
    case None
    then show ?thesis using 1(1) by (subst quote_bytes.simps) (auto split: list.splits intro: raw_ok_unicode)
  next
    case (Some rw)
    obtain r w where rw: "rw = (r, w)" by (cases rw)
    have ih: "raw_ok (quote_bytes esc (drop w s))" using 1(2) Some rw by simp
    have "list_all is_plain (map char_of (take w s))" if "w \<noteq> 1"
      using decode_rune_wide_bytes [of s r w] Some rw that
      by (fastforce simp: list_all_iff intro!: is_plain_char_of)
    then show ?thesis
      using ih Some rw decode_rune_ascii [of s r]
      by (subst quote_bytes.simps)
        (auto intro: raw_ok_unicode raw_ok_quote_ascii raw_ok_plain_append)
  qed
qed

lemma raw_ok_quote_raw [simp]: "raw_ok (quote_raw esc s)"
  by (simp add: quote_raw_def raw_ok_quote_bytes)

subsection \<open>Number tokens\<close>

text \<open>A token is followed by a byte that cannot extend it.\<close>

definition delim :: "string \<Rightarrow> bool" where
  "delim r = (r = [] \<or> hd r = CHR '','' \<or> hd r = CHR '']'' \<or> hd r = CHR ''}'')"

definition nondigit :: "string \<Rightarrow> bool" where
  "nondigit r = (r = [] \<or> \<not> is_digit (hd r))"

lemma span_digits_append: "list_all is_digit d \<Longrightarrow> nondigit r \<Longrightarrow> span_digits (d @ r) = (d, r)"
  by (cases r) (auto simp: span_digits_def nondigit_def list_all_iff)

lemma span_digits_split: "span_digits s = (d, r) \<Longrightarrow> s = d @ r \<and> list_all is_digit d \<and> nondigit r"
  by (auto simp: span_digits_def nondigit_def list_all_iff hd_dropWhile dest: set_takeWhileD)

lemma delim_nondigit: "delim r \<Longrightarrow> nondigit r"
  by (cases r) (auto simp: delim_def nondigit_def is_digit_def)

lemma scan_int_token:
  assumes "scan_int s = Some (i, r)"
  shows "s = i @ r \<and> (nondigit r' \<longrightarrow> scan_int (i @ r') = Some (i, r'))
    \<and> i \<noteq> [] \<and> is_digit (hd i)"
proof -
  obtain c t where s: "s = c # t" using assms by (auto simp: scan_int_def split: list.splits)
  show ?thesis
  proof (cases "c = CHR ''0''")
    case True
    then show ?thesis using assms s by (auto simp: scan_int_def is_digit_def)
  next
    case False
    then have sp: "is_digit c" "span_digits s = (i, r)"
      using assms s by (auto simp: scan_int_def split: if_splits)
    then have i: "s = i @ r" "list_all is_digit i" "i \<noteq> []"
      using span_digits_split [of s i r] s by (auto simp: span_digits_def)
    then obtain i' where "i = c # i'" using s by (cases i) auto
    then show ?thesis using i sp(1) False span_digits_append [of i r']
      by (simp add: scan_int_def)
  qed
qed

lemma scan_frac_token:
  assumes "scan_frac s = Some (f, r)"
  shows "s = f @ r \<and> (nondigit r' \<and> (r' = [] \<or> hd r' \<noteq> CHR ''.'') \<longrightarrow> scan_frac (f @ r') = Some (f, r'))
    \<and> (f = [] \<or> hd f = CHR ''.'')"
proof (cases s)
  case Nil
  then show ?thesis using assms by (cases r') (auto simp: scan_frac_def)
next
  case (Cons c t)
  show ?thesis
  proof (cases "c = CHR ''.''")
    case True
    then obtain d where d: "span_digits t = (d, r)" "d \<noteq> []" "f = c # d"
      using assms Cons by (auto simp: scan_frac_def split: prod.splits if_splits)
    then show ?thesis using Cons True span_digits_split [OF d(1)] span_digits_append [of d r']
      by (auto simp: scan_frac_def)
  next
    case False
    then show ?thesis using assms Cons by (cases r') (auto simp: scan_frac_def)
  qed
qed

lemma scan_exp_token:
  assumes "scan_exp s = Some (e, r)"
  shows "s = e @ r \<and> (delim r' \<longrightarrow> scan_exp (e @ r') = Some (e, r'))
    \<and> (e = [] \<or> hd e = CHR ''e'' \<or> hd e = CHR ''E'')"
proof (cases s)
  case Nil
  then show ?thesis using assms by (cases r') (auto simp: scan_exp_def delim_def)
next
  case (Cons c t)
  show ?thesis
  proof (cases "c = CHR ''e'' \<or> c = CHR ''E''")
    case True
    define sp where "sp = (case t of [] \<Rightarrow> ([], [])
        | x # u \<Rightarrow> if x = CHR ''+'' \<or> x = CHR ''-'' then ([x], u) else ([], t))"
    obtain sg t' where sg: "sp = (sg, t')" by (cases sp)
    obtain d where d: "span_digits t' = (d, r)" "d \<noteq> []" "e = c # sg @ d"
      using assms Cons True sg unfolding scan_exp_def sp_def by (auto split: prod.splits if_splits)
    have split: "t = sg @ t'" "sg = [] \<or> sg = [CHR ''+''] \<or> sg = [CHR ''-'']"
      using sg unfolding sp_def by (auto split: list.splits if_splits)
    obtain d1 d2 where d12: "d = d1 # d2" "is_digit d1"
      using d(2) span_digits_split [OF d(1)] by (cases d) auto
    have "d1 \<noteq> CHR ''+''" "d1 \<noteq> CHR ''-''" using d12(2) by (auto simp: is_digit_def)
    then show ?thesis
      using Cons True d split d12 span_digits_split [OF d(1)] span_digits_append [of d r'] delim_nondigit [of r']
      by (auto simp: scan_exp_def)
  next
    case False
    then show ?thesis using assms Cons by (cases r') (auto simp: scan_exp_def delim_def)
  qed
qed

lemma scan_unsigned_token:
  assumes "scan_unsigned s = Some (t, r)"
  shows "s = t @ r \<and> (delim r' \<longrightarrow> scan_unsigned (t @ r') = Some (t, r')) \<and> t \<noteq> [] \<and> is_digit (hd t)"
proof -
  obtain i r1 f r2 e where ife: "scan_int s = Some (i, r1)" "scan_frac r1 = Some (f, r2)"
      "scan_exp r2 = Some (e, r)" "t = i @ f @ e"
    using assms by (auto simp: scan_unsigned_def split: option.splits prod.splits)
  note ti = scan_int_token [OF ife(1)] and tf = scan_frac_token [OF ife(2)] and te = scan_exp_token [OF ife(3)]
  have "scan_unsigned (t @ r') = Some (t, r')" if d: "delim r'"
  proof -
    have x: "scan_exp (e @ r') = Some (e, r')" using te d by blast
    have he: "e = [] \<or> hd e = CHR ''e'' \<or> hd e = CHR ''E''" using te by blast
    have nd1: "nondigit (e @ r')"
      using he d by (cases e; cases r') (auto simp: nondigit_def is_digit_def delim_def)
    have nd2: "e @ r' = [] \<or> hd (e @ r') \<noteq> CHR ''.''"
      using he d by (cases e; cases r') (auto simp: delim_def)
    have y: "scan_frac (f @ e @ r') = Some (f, e @ r')" using tf nd1 nd2 by blast
    have "f = [] \<or> hd f = CHR ''.''" using tf by blast
    then have "nondigit (f @ e @ r')" using nd1 by (cases f) (auto simp: nondigit_def is_digit_def)
    then have "scan_int (i @ f @ e @ r') = Some (i, f @ e @ r')" using ti by blast
    then show ?thesis using x y ife(4) by (simp add: scan_unsigned_def)
  qed
  moreover have "s = t @ r" using ti tf te ife(4) by (metis append.assoc)
  moreover have "t \<noteq> []" "is_digit (hd t)" using ti [of "[]"] ife(4) by auto
  ultimately show ?thesis by blast
qed

definition num_ok :: "string \<Rightarrow> bool" where
  "num_ok t = (scan_number t = Some (t, []))"

lemma scan_number_token:
  assumes "scan_number s = Some (t, r)"
  shows "s = t @ r \<and> (delim r' \<longrightarrow> scan_number (t @ r') = Some (t, r'))
    \<and> t \<noteq> [] \<and> (is_digit (hd t) \<or> hd t = CHR ''-'')"
proof -
  obtain c u where s: "s = c # u" using assms by (auto simp: scan_number_def split: list.splits)
  show ?thesis
  proof (cases "c = CHR ''-''")
    case True
    then obtain v where "scan_unsigned u = Some (v, r)" "t = c # v"
      using assms s by (auto simp: scan_number_def cons_fst_Some_iff)
    then show ?thesis using scan_unsigned_token [of u v r r'] True s
      by (auto simp: scan_number_def cons_fst_def)
  next
    case False
    then have u: "scan_unsigned s = Some (t, r)" using assms s by (simp add: scan_number_def)
    have "hd t \<noteq> CHR ''-''" using scan_unsigned_token [OF u] by (auto simp: is_digit_def)
    then show ?thesis using scan_unsigned_token [OF u, of r'] by (cases t) (auto simp: scan_number_def)
  qed
qed

lemma num_ok_scan: "num_ok t \<Longrightarrow> delim r \<Longrightarrow> scan_number (t @ r) = Some (t, r)"
  using scan_number_token [of t t "[]" r] by (simp add: num_ok_def)

lemma scan_number_num_ok: "scan_number s = Some (t, r) \<Longrightarrow> num_ok t"
  using scan_number_token [of s t r "[]"] by (simp add: num_ok_def delim_def)

lemma num_ok_head: "num_ok t \<Longrightarrow> \<exists>c u. t = c # u \<and> (is_digit c \<or> c = CHR ''-'')"
  using scan_number_token [of t t "[]"] by (cases t) (auto simp: num_ok_def)

lemma nat_digits_digits: "list_all is_digit (nat_digits n) \<and> nat_digits n \<noteq> []
    \<and> (n \<noteq> 0 \<longrightarrow> hd (nat_digits n) \<noteq> CHR ''0'')"
proof (induction n rule: nat_digits.induct)
  case (1 n)
  have dig: "is_digit (char_of (48 + k))" "k \<noteq> 0 \<Longrightarrow> char_of (48 + k) \<noteq> CHR ''0''" if "k < 10" for k :: nat
    using that by (auto simp: is_digit_def char_of_eq_iff take_bit_eq_mod)
  show ?case
  proof (cases "n < 10")
    case True
    then show ?thesis using dig [of n] by (subst (1 2 3) nat_digits.simps) auto
  next
    case False
    then show ?thesis using 1 dig [of "n mod 10"] by (subst (1 2 3) nat_digits.simps) auto
  qed
qed

lemma nat_digits_0: "nat_digits 0 = [char_of (48 :: nat)]"
  by (subst nat_digits.simps) simp

lemma num_ok_nat_digits: "num_ok (nat_digits n) \<and> scan_unsigned (nat_digits n) = Some (nat_digits n, [])"
proof -
  obtain c t where ct: "nat_digits n = c # t" using nat_digits_digits by (cases "nat_digits n") auto
  have d: "is_digit c" "list_all is_digit (c # t)" using nat_digits_digits [of n] ct by auto
  have "c \<noteq> CHR ''0'' \<or> t = []"
  proof (cases "n = 0")
    case True
    then show ?thesis using ct nat_digits_0 by simp
  qed (use nat_digits_digits [of n] ct in auto)
  then have "scan_int (c # t) = Some (c # t, [])"
    using d span_digits_append [of "c # t" "[]"] by (auto simp: scan_int_def nondigit_def)
  then have "scan_unsigned (c # t) = Some (c # t, [])"
    by (simp add: scan_unsigned_def scan_frac_def scan_exp_def)
  moreover have "c \<noteq> CHR ''-''" using d(1) by (auto simp: is_digit_def)
  ultimately show ?thesis using ct by (simp add: num_ok_def scan_number_def)
qed

lemma num_ok_neg: "scan_unsigned t = Some (t, []) \<Longrightarrow> num_ok (CHR ''-'' # t)"
  by (simp add: num_ok_def scan_number_def cons_fst_def)

lemma num_ok_FormatInt [simp]: "num_ok (FormatInt i)"
proof (cases "i < 0")
  case True
  then show ?thesis using num_ok_neg [OF conjunct2 [OF num_ok_nat_digits]] by (simp add: FormatInt_def)
next
  case False
  then show ?thesis using conjunct1 [OF num_ok_nat_digits] by (simp add: FormatInt_def)
qed

subsection \<open>Values\<close>

fun wf_json :: "json \<Rightarrow> bool" where
  "wf_json (JNum t) = num_ok t"
| "wf_json (JStr raw) = raw_ok raw"
| "wf_json (JArr vs) = list_all wf_json vs"
| "wf_json (JObj ms) = list_all (\<lambda>(k, v). raw_ok k \<and> wf_json v) ms"
| "wf_json _ = True"

fun json_depth :: "json \<Rightarrow> nat" where
  "json_depth (JArr vs) = Suc (fold max (map json_depth vs) 0)"
| "json_depth (JObj ms) = Suc (fold max (map (\<lambda>(k, v). json_depth v) ms) 0)"
| "json_depth _ = 0"

text \<open>The fuel a value needs.\<close>

fun json_fuel :: "json \<Rightarrow> nat" where
  "json_fuel (JArr vs) = Suc (sum_list (map (\<lambda>v. Suc (json_fuel v)) vs))"
| "json_fuel (JObj ms) = Suc (sum_list (map (\<lambda>(k, v). Suc (json_fuel v)) ms))"
| "json_fuel _ = 1"

lemma delim_cases: "delim (CHR '','' # r)" "delim (CHR '']'' # r)" "delim (CHR ''}'' # r)" "delim []"
  by (simp_all add: delim_def)

lemma skip_ws_delim: "delim r \<Longrightarrow> skip_ws r = r"
  by (cases r) (auto simp: delim_def is_ws_def)

lemma fold_max_le: "fold max xs (a :: nat) \<le> d \<longleftrightarrow> a \<le> d \<and> (\<forall>x \<in> set xs. x \<le> d)"
  by (induction xs arbitrary: a) auto

text \<open>Printed values do not start with white space.\<close>

lemma print_json_head: "wf_json j \<Longrightarrow> \<exists>c u. print_json False j = c # u \<and> \<not> is_ws c \<and> c \<noteq> CHR '']'' \<and> c \<noteq> CHR ''}''"
proof (cases j)
  case (JNum t)
  assume "wf_json j"
  then obtain c u where "t = c # u" "is_digit c \<or> c = CHR ''-''" using JNum num_ok_head by fastforce
  then show ?thesis using JNum by (auto simp: is_ws_def is_digit_def)
qed (auto simp: is_ws_def print_string_def)

definition parses_back :: "json \<Rightarrow> bool" where
  "parses_back j = (\<forall>n d r. json_fuel j \<le> n \<longrightarrow> json_depth j \<le> d \<longrightarrow> delim r \<longrightarrow>
     parse_value n d (print_json False j @ r) = Some (j, r))"

lemma parse_elems_print:
  assumes "\<forall>v \<in> set (v # vs). wf_json v \<and> parses_back v \<and> json_depth v \<le> d"
    and "sum_list (map (\<lambda>v. Suc (json_fuel v)) (v # vs)) \<le> n"
  shows "parse_elems n d (intercalate '','' (map (print_json False) (v # vs)) @ CHR '']'' # r) = Some (v # vs, r)"
  using assms
proof (induction vs arbitrary: v n)
  case Nil
  then obtain m where n: "n = Suc m" by (cases n) auto
  then have "parse_value m d (print_json False v @ CHR '']'' # r) = Some (v, CHR '']'' # r)"
    using Nil delim_cases by (auto simp: parses_back_def)
  then show ?case using n by (simp add: is_ws_def)
next
  case (Cons w vs)
  then obtain m where n: "n = Suc m" by (cases n) auto
  let ?rest = "intercalate '','' (map (print_json False) (w # vs)) @ CHR '']'' # r"
  have v: "parse_value m d (print_json False v @ CHR '','' # ?rest) = Some (v, CHR '','' # ?rest)"
    using Cons.prems n delim_cases by (auto simp: parses_back_def)
  have "parse_elems m d ?rest = Some (w # vs, r)"
    using Cons.IH [of w m] Cons.prems n by auto
  then show ?case using n v by (simp add: is_ws_def)
qed

lemma parse_members_print:
  assumes "\<forall>(k, v) \<in> set (m # ms). raw_ok k \<and> wf_json v \<and> parses_back v \<and> json_depth v \<le> d"
    and "sum_list (map (\<lambda>(k, v). Suc (json_fuel v)) (m # ms)) \<le> n"
  shows "parse_members n d (intercalate '','' (map (\<lambda>(k, v). print_string False k @ '':'' @ print_json False v) (m # ms))
      @ CHR ''}'' # r) = Some (m # ms, r)"
  using assms
proof (induction ms arbitrary: m n)
  case Nil
  obtain k v where m: "m = (k, v)" by (cases m)
  obtain n' where n: "n = Suc n'" using Nil m by (cases n) auto
  then have "parse_value n' d (print_json False v @ CHR ''}'' # r) = Some (v, CHR ''}'' # r)"
    using Nil m delim_cases by (auto simp: parses_back_def)
  then show ?case using n m Nil by (simp add: is_ws_def print_string_def)
next
  case (Cons m2 ms)
  obtain k v where m: "m = (k, v)" by (cases m)
  obtain n' where n: "n = Suc n'" using Cons.prems m by (cases n) auto
  let ?rest = "intercalate '','' (map (\<lambda>(k, v). print_string False k @ '':'' @ print_json False v) (m2 # ms)) @ CHR ''}'' # r"
  have v: "parse_value n' d (print_json False v @ CHR '','' # ?rest) = Some (v, CHR '','' # ?rest)"
    using Cons.prems n m delim_cases by (auto simp: parses_back_def)
  have "parse_members n' d ?rest = Some (m2 # ms, r)"
    using Cons.IH [of m2 n'] Cons.prems n m by auto
  then show ?case using n v m Cons.prems by (simp add: is_ws_def print_string_def)
qed

lemma parses_back_JNum: "num_ok t \<Longrightarrow> parses_back (JNum t)"
  unfolding parses_back_def
proof (intro allI impI)
  fix n d r
  assume t: "num_ok t" and n: "json_fuel (JNum t) \<le> n" and r: "delim r"
  obtain m where n: "n = Suc m" using n by (cases n) auto
  obtain c u where cu: "t = c # u" "is_digit c \<or> c = CHR ''-''" using num_ok_head [OF t] by blast
  have "c \<notin> {CHR ''{'', CHR ''['', CHR 0x22, CHR ''t'', CHR ''f'', CHR ''n''}" "\<not> is_ws c"
    using cu(2) by (auto simp: is_digit_def is_ws_def)
  then show "parse_value n d (print_json False (JNum t) @ r) = Some (JNum t, r)"
    using num_ok_scan [OF t r] n cu(1) by simp
qed

lemma parses_back_JArr:
  assumes "\<And>v. v \<in> set vs \<Longrightarrow> wf_json v \<and> parses_back v"
  shows "parses_back (JArr vs)"
  unfolding parses_back_def
proof (intro allI impI)
  fix n d r
  assume n: "json_fuel (JArr vs) \<le> n" and d: "json_depth (JArr vs) \<le> d" and "delim r"
  obtain m where m: "n = Suc m" using n by (cases n) auto
  obtain d' where d': "d = Suc d'" using d by (cases d) auto
  show "parse_value n d (print_json False (JArr vs) @ r) = Some (JArr vs, r)"
  proof (cases vs)
    case Nil
    then show ?thesis using m d' by (simp add: is_ws_def)
  next
    case (Cons v ws)
    obtain c u where cu: "print_json False v = c # u" "\<not> is_ws c" "c \<noteq> CHR '']''"
      using print_json_head [of v] assms [of v] Cons by auto
    have "\<exists>t. intercalate '','' (map (print_json False) vs) = c # t"
      using cu(1) Cons by (cases ws) auto
    moreover have "parse_elems m d' (intercalate '','' (map (print_json False) vs) @ CHR '']'' # r) = Some (vs, r)"
      unfolding Cons
    proof (rule parse_elems_print)
      show "\<forall>v \<in> set (v # ws). wf_json v \<and> parses_back v \<and> json_depth v \<le> d'"
        using assms Cons d d' by (auto simp: fold_max_le)
      show "sum_list (map (\<lambda>v. Suc (json_fuel v)) (v # ws)) \<le> m" using n m Cons by simp
    qed
    ultimately show ?thesis using m d' cu by (auto simp: is_ws_def)
  qed
qed

lemma parses_back_JObj:
  assumes "\<And>k v. (k, v) \<in> set ms \<Longrightarrow> raw_ok k \<and> wf_json v \<and> parses_back v"
  shows "parses_back (JObj ms)"
  unfolding parses_back_def
proof (intro allI impI)
  fix n d r
  assume n: "json_fuel (JObj ms) \<le> n" and d: "json_depth (JObj ms) \<le> d" and "delim r"
  obtain m where m: "n = Suc m" using n by (cases n) auto
  obtain d' where d': "d = Suc d'" using d by (cases d) auto
  show "parse_value n d (print_json False (JObj ms) @ r) = Some (JObj ms, r)"
  proof (cases ms)
    case Nil
    then show ?thesis using m d' by (simp add: is_ws_def)
  next
    case (Cons kv ws)
    let ?p = "\<lambda>(k, v). print_string False k @ '':'' @ print_json False v"
    have "\<exists>t. intercalate '','' (map ?p ms) = CHR 0x22 # t"
      using Cons by (cases ws; cases kv) (auto simp: print_string_def)
    moreover have "parse_members m d' (intercalate '','' (map ?p ms) @ CHR ''}'' # r) = Some (ms, r)"
      unfolding Cons
    proof (rule parse_members_print)
      show "\<forall>(k, v) \<in> set (kv # ws). raw_ok k \<and> wf_json v \<and> parses_back v \<and> json_depth v \<le> d'"
        using assms Cons d d' by (fastforce simp: fold_max_le)
      show "sum_list (map (\<lambda>(k, v). Suc (json_fuel v)) (kv # ws)) \<le> m" using n m Cons by simp
    qed
    ultimately show ?thesis using m d' by (auto simp: is_ws_def)
  qed
qed

lemma parses_back_wf: "wf_json j \<Longrightarrow> parses_back j"
proof (induction j rule: wf_json.induct)
  case (1 t)
  then show ?case by (simp add: parses_back_JNum)
next
  case (3 vs)
  then show ?case by (intro parses_back_JArr) (auto simp: list_all_iff)
next
  case (4 ms)
  then show ?case by (intro parses_back_JObj) (auto simp: list_all_iff)
qed (auto simp: parses_back_def is_ws_def print_string_def scan_literal_def HasPrefix_def
      gr0_conv_Suc Suc_le_eq)

subsection \<open>The parser's fuel is enough\<close>

lemma num_ok_length: "num_ok t \<Longrightarrow> 1 \<le> length t"
  using num_ok_head by fastforce

lemma sum_fuel_bound:
  assumes "\<And>x. x \<in> set xs \<Longrightarrow> f x \<le> 2 * length (g x)"
  shows "xs \<noteq> [] \<Longrightarrow> sum_list (map (\<lambda>x. Suc (f x)) xs) \<le> 2 * length (intercalate '','' (map g xs)) + 1"
  using assms
proof (induction xs)
  case (Cons x xs)
  show ?case
  proof (cases xs)
    case Nil
    then show ?thesis using Cons.prems(2) [of x] by simp
  next
    case (Cons y ys)
    have "sum_list (map (\<lambda>x. Suc (f x)) xs) \<le> 2 * length (intercalate '','' (map g xs)) + 1"
      using Cons.IH Cons.prems Cons by simp
    then show ?thesis using Cons Cons.prems(2) [of x] by simp
  qed
qed simp

lemma json_fuel_bound: "wf_json j \<Longrightarrow> json_fuel j \<le> 2 * length (print_json False j)"
proof (induction j rule: wf_json.induct)
  case (1 t)
  then show ?case using num_ok_length [of t] by simp
next
  case (3 vs)
  then show ?case
    using sum_fuel_bound [of vs json_fuel "print_json False"] by (cases "vs = []") (auto simp: list_all_iff)
next
  case (4 ms)
  let ?g = "\<lambda>(k, v). print_string False k @ '':'' @ print_json False v"
  have "(case x of (k, v) \<Rightarrow> json_fuel v) \<le> 2 * length (?g x)" if "x \<in> set ms" for x
    using 4 that by (fastforce simp: list_all_iff split: prod.splits)
  then show ?case
    using sum_fuel_bound [of ms "\<lambda>(k, v). json_fuel v" ?g] by (cases "ms = []") (auto simp: case_prod_unfold)
qed (auto simp: print_string_def)

theorem parse_depth_print:
  assumes "wf_json j" "json_depth j \<le> d"
  shows "parse_depth d (print_json False j) = Some j"
proof -
  have "json_fuel j \<le> 2 * length (print_json False j) + 2"
    using json_fuel_bound [OF assms(1)] by simp
  then have "parse_value (2 * length (print_json False j) + 2) d (print_json False j @ []) = Some (j, [])"
    using parses_back_wf [OF assms(1)] assms(2) delim_cases(4) unfolding parses_back_def by blast
  then show ?thesis by (simp add: parse_depth_def)
qed

lemma parse_json_print: "wf_json j \<Longrightarrow> json_depth j \<le> 10000 \<Longrightarrow> parse_json (print_json False j) = Some j"
  by (simp add: parse_json_def parse_depth_print)

lemma json_Valid_print: "wf_json j \<Longrightarrow> json_depth j \<le> 10000 \<Longrightarrow> json_Valid (print_json False j)"
  by (simp add: json_Valid_def parse_json_print)

end
