(* ===== verification/Ensures.thy ===== *)
theory Ensures
  imports Go_Prelude
begin

text \<open>
  A small calculus for operations that return a result: \<open>ensures r P\<close> says that if \<open>r\<close> is a value, the value
  satisfies \<open>P\<close>.  The introduction rules follow the shape of the operations and drop their guards, which is
  enough for frame properties; the equations keep the guards.
\<close>

definition ensures :: "'a result \<Rightarrow> ('a \<Rightarrow> bool) \<Rightarrow> bool" where
  "ensures r P = (case r of Inl _ \<Rightarrow> True | Inr x \<Rightarrow> P x)"

named_theorems frame_intros "introduction rules for ensures that drop guards"
named_theorems ensures_simps "equations for ensures that keep guards"

lemma ensures_iff: "ensures r P \<longleftrightarrow> (\<forall>x. r = Inr x \<longrightarrow> P x)"
  by (cases r) (auto simp: ensures_def)

lemma ensuresD: "ensures r P \<Longrightarrow> r = Inr x \<Longrightarrow> P x"
  by (simp add: ensures_def)

lemma ensures_Inl [frame_intros, simp, ensures_simps]: "ensures (Inl e) P"
  by (simp add: ensures_def)

lemma ensures_Inr [simp, ensures_simps]: "ensures (Inr x) P = P x"
  by (simp add: ensures_def)

lemma ensures_InrI [frame_intros]: "P x \<Longrightarrow> ensures (Inr x) P"
  by simp

lemma ensures_on_err [ensures_simps]: "ensures (on_err e k) P = (e = None \<longrightarrow> ensures k P)"
  by (cases e) auto

lemma ensures_on_errI [frame_intros]: "ensures k P \<Longrightarrow> ensures (on_err e k) P"
  by (simp add: ensures_on_err)

lemma ensures_on_err_cond: "(e = None \<Longrightarrow> ensures k P) \<Longrightarrow> ensures (on_err e k) P"
  by (simp add: ensures_on_err)

lemma ensures_bind [ensures_simps]: "ensures (bind_r r f) P = ensures r (\<lambda>x. ensures (f x) P)"
  by (cases r) auto

lemma ensures_bindI [frame_intros]: "ensures r (\<lambda>x. ensures (f x) P) \<Longrightarrow> ensures (bind_r r f) P"
  by (simp add: ensures_bind)

text \<open>For a result nothing needs to be known about.\<close>

lemma ensures_True [simp]: "ensures r (\<lambda>x. True)"
  by (cases r) auto

lemma ensures_any: "(\<And>x. P x) \<Longrightarrow> ensures r P"
  by (cases r) auto

lemma ensures_if [ensures_simps]: "ensures (if c then a else b) P = ((c \<longrightarrow> ensures a P) \<and> (\<not> c \<longrightarrow> ensures b P))"
  by simp

lemma ensures_ifI [frame_intros]: "ensures a P \<Longrightarrow> ensures b P \<Longrightarrow> ensures (if c then a else b) P"
  by simp

lemma ensures_if_cond: "(c \<Longrightarrow> ensures a P) \<Longrightarrow> (\<not> c \<Longrightarrow> ensures b P) \<Longrightarrow> ensures (if c then a else b) P"
  by simp

lemma ensures_caseI [frame_intros]:
  "(v = None \<Longrightarrow> ensures a P) \<Longrightarrow> (\<And>x. v = Some x \<Longrightarrow> ensures (f x) P) \<Longrightarrow> ensures (case v of None \<Rightarrow> a | Some x \<Rightarrow> f x) P"
  by (cases v) auto

lemma ensures_case_sumI [frame_intros]:
  "(\<And>e. ensures (g e) P) \<Longrightarrow> (\<And>x. v = Inr x \<Longrightarrow> ensures (f x) P) \<Longrightarrow> ensures (case v of Inl e \<Rightarrow> g e | Inr x \<Rightarrow> f x) P"
  by (cases v) auto

lemma ensures_case_prodI [frame_intros]: "(\<And>a b. ensures (f a b) P) \<Longrightarrow> ensures (case p of (a, b) \<Rightarrow> f a b) P"
  by (cases p) auto

lemma ensures_case_boolI [frame_intros]: "ensures a P \<Longrightarrow> ensures b P \<Longrightarrow> ensures (case c of True \<Rightarrow> a | False \<Rightarrow> b) P"
  by (cases c) auto

lemma ensures_LetI [frame_intros]: "(\<And>x. x = v \<Longrightarrow> ensures (f x) P) \<Longrightarrow> ensures (Let v f) P"
  by (simp add: Let_def)

lemma ensures_mono: "ensures r P \<Longrightarrow> (\<And>x. P x \<Longrightarrow> Q x) \<Longrightarrow> ensures r Q"
  by (cases r) auto

text \<open>Sequencing two operations that satisfy a transitive relation.\<close>

lemma ensures_bind_trans:
  assumes "ensures r (R j)" "\<And>x. R j x \<Longrightarrow> ensures (f x) (R x)"
    and "\<And>x y. R j x \<Longrightarrow> R x y \<Longrightarrow> R j y"
  shows "ensures (bind_r r f) (R j)"
proof (cases r)
  case (Inr x)
  then have "R j x" using assms(1) by simp
  then show ?thesis using ensures_mono [OF assms(2) assms(3)] Inr by simp
qed simp

end
