(* ===== verification/Protocol.thy ===== *)
theory Protocol
  imports Go_Json_Props
begin

text \<open>
  The wire structs of \<^verbatim>\<open>internal/protocol\<close> that the run journal stores, and the scan for
  duplicate JSON members that guards every stored payload
  (\<^verbatim>\<open>RejectDuplicateJSONMembers\<close>, \<^verbatim>\<open>scanJSONValue\<close>).
\<close>

record Fence =
  f_RuntimeID :: string
  f_RuntimeEpoch :: int
  f_Generation :: int
  f_ClaimID :: string
  f_LeaseToken :: string

record RunEvent =
  ev_EventID :: string
  ev_Sequence :: int
  ev_Kind :: string
  ev_OccurredAt :: time
  ev_Payload :: RawMessage

record StateTransitionRequest =
  tr_Fence :: Fence
  tr_TransitionID :: string
  tr_State :: string
  tr_Payload :: RawMessage

record CommandAcknowledgement =
  ack_Fence :: Fence
  ack_RunID :: string
  ack_CommandID :: string
  ack_Outcome :: string
  ack_AckID :: string

text \<open>\<^verbatim>\<open>Work\<close> without the unexported \<^verbatim>\<open>present\<close> set, which only response validation reads.\<close>

record Work =
  w_Goal :: string
  w_AgentProfile :: string
  w_Workspace :: string
  w_Input :: RawMessage
  w_RequiredCapabilities :: "(string \<times> bool) list"

definition zero_fence :: Fence where
  "zero_fence = \<lparr> f_RuntimeID = [], f_RuntimeEpoch = 0, f_Generation = 0, f_ClaimID = [], f_LeaseToken = [] \<rparr>"

subsection \<open>Duplicate members\<close>

text \<open>The recursive scan with the set of keys seen so far in each object; true when it meets no
  duplicate.\<close>

fun scanJSONValue :: "json \<Rightarrow> bool"
and scanJSONMembers :: "string list \<Rightarrow> (string \<times> json) list \<Rightarrow> bool" where
  "scanJSONValue (JObj ms) = scanJSONMembers [] ms"
| "scanJSONValue (JArr vs) = list_all scanJSONValue vs"
| "scanJSONValue JNull = True"
| "scanJSONValue (JBool b) = True"
| "scanJSONValue (JNum t) = True"
| "scanJSONValue (JStr t) = True"
| "scanJSONMembers seen [] = True"
| "scanJSONMembers seen ((raw, v) # ms) =
     (let key = unquote_string raw in
      if key \<in> set seen then False
      else if \<not> scanJSONValue v then False
      else scanJSONMembers (key # seen) ms)"

text \<open>The token stream has no nesting limit of its own, so the whole length of the input is
  allowed.  The returned text leaves out the member name and path the source formats in.\<close>

definition RejectDuplicateJSONMembers :: "bytes \<Rightarrow> gerror option" where
  "RejectDuplicateJSONMembers data = (case parse_depth (length data) data of
     None \<Rightarrow> Some (Err ''trailing JSON data'')
   | Some v \<Rightarrow> if scanJSONValue v then None else Some (Err ''duplicate JSON object member''))"

text \<open>The scan agrees with the reference: no object, at any depth, has two members with the same
  decoded name.\<close>

lemma scanJSON_no_dup:
  "scanJSONValue v = no_dup_members v"
  "scanJSONMembers seen ms =
     (distinct (map (\<lambda>m. unquote_string (fst m)) ms) \<and>
      set (map (\<lambda>m. unquote_string (fst m)) ms) \<inter> set seen = {} \<and>
      list_all (\<lambda>(k, v). no_dup_members v) ms)"
  by (induction v and seen ms rule: scanJSONValue_scanJSONMembers.induct) (auto simp: Let_def list_all_iff)

subsection \<open>Encodings used for digests\<close>

definition json_member :: "string \<Rightarrow> string \<Rightarrow> string" where
  "json_member name enc = marshal_string False name @ '':'' @ enc"

definition json_object :: "(string \<times> string) list \<Rightarrow> string" where
  "json_object ms = ''{'' @ intercalate '','' (map (\<lambda>(n, e). json_member n e) ms) @ ''}''"

definition fence_members :: "Fence \<Rightarrow> (string \<times> string) list" where
  "fence_members f = [
     (''runtime_id'', marshal_string False (f_RuntimeID f)),
     (''runtime_epoch'', FormatInt (f_RuntimeEpoch f)),
     (''generation'', FormatInt (f_Generation f)),
     (''claim_id'', marshal_string False (f_ClaimID f)),
     (''lease_token'', marshal_string False (f_LeaseToken f))]"

text \<open>\<^verbatim>\<open>map[string]string{"command_id": id}\<close> as \<^verbatim>\<open>json.Marshal\<close> writes it.\<close>

definition command_id_payload :: "string \<Rightarrow> RawMessage" where
  "command_id_payload cid = Some (print_json False (JObj [(''command_id'', JStr (quote_raw True cid))]))"

definition validRawMessage :: "RawMessage \<Rightarrow> bool" where
  "validRawMessage m = (let b = rm_bytes m in
     b = [] \<or> (json_Valid b \<and> RejectDuplicateJSONMembers b = None))"

lemma parse_depth_le_length: "wf_json j \<Longrightarrow> json_depth j \<le> length (print_json False j)"
proof (induction j rule: wf_json.induct)
  case (3 vs)
  have "length (print_json False v) \<le> length (intercalate '','' (map (print_json False) vs))" if "v \<in> set vs" for v
    using that
  proof (induction vs)
    case (Cons a vs)
    then show ?case by (cases vs) auto
  qed simp
  then show ?case using 3 by (force simp: fold_max_le list_all_iff)
next
  case (4 ms)
  let ?p = "\<lambda>(k, v). print_string False k @ '':'' @ print_json False v"
  have "length (print_json False v) \<le> length (intercalate '','' (map ?p ms))" if "(k, v) \<in> set ms" for k v
    using that
  proof (induction ms)
    case (Cons a ms)
    then show ?case by (cases ms) auto
  qed simp
  then show ?case using 4 by (force simp: fold_max_le list_all_iff)
qed auto

lemma validRawMessage_print:
  assumes "wf_json j" "json_depth j \<le> 10000" "no_dup_members j"
  shows "validRawMessage (Some (print_json False j))"
  using assms json_Valid_print parse_depth_print parse_depth_le_length
  by (simp add: validRawMessage_def rm_bytes_def RejectDuplicateJSONMembers_def scanJSON_no_dup Let_def)

lemma plain_ascii_raw_ok: "list_all is_plain s \<Longrightarrow> raw_ok s"
  using raw_ok_plain_append [of s "[]"] by simp

lemma validRawMessage_command_id [simp]: "validRawMessage (command_id_payload cid)"
proof -
  have "raw_ok ''command_id''" by (intro plain_ascii_raw_ok) (simp add: is_plain_def)
  then show ?thesis unfolding command_id_payload_def
    by (intro validRawMessage_print) auto
qed

end
