(* ===== verification/Sha256.thy ===== *)
theory Sha256
  imports Go_Prelude
begin

unbundle bit_operations_syntax

text \<open>
  SHA-256 (FIPS 180-4) as \<^verbatim>\<open>crypto/sha256.Sum256\<close> computes it, and the lower-case hexadecimal
  encoding of \<^verbatim>\<open>encoding/hex.EncodeToString\<close>.  The journal names its files and freezes
  terminal intents by these digests.
\<close>

type_synonym w32 = "32 word"

definition rotr :: "nat \<Rightarrow> w32 \<Rightarrow> w32" where
  "rotr n x = drop_bit n x OR push_bit (32 - n) x"

definition sha_k :: "w32 list" where
  "sha_k = [1116352408, 1899447441, 3049323471, 3921009573, 961987163, 1508970993, 2453635748, 2870763221,
    3624381080, 310598401, 607225278, 1426881987, 1925078388, 2162078206, 2614888103, 3248222580,
    3835390401, 4022224774, 264347078, 604807628, 770255983, 1249150122, 1555081692, 1996064986,
    2554220882, 2821834349, 2952996808, 3210313671, 3336571891, 3584528711, 113926993, 338241895,
    666307205, 773529912, 1294757372, 1396182291, 1695183700, 1986661051, 2177026350, 2456956037,
    2730485921, 2820302411, 3259730800, 3345764771, 3516065817, 3600352804, 4094571909, 275423344,
    430227734, 506948616, 659060556, 883997877, 958139571, 1322822218, 1537002063, 1747873779,
    1955562222, 2024104815, 2227730452, 2361852424, 2428436474, 2756734187, 3204031479, 3329325298]"

definition sha_h0 :: "w32 list" where
  "sha_h0 = [1779033703, 3144134277, 1013904242, 2773480762, 1359893119, 2600822924, 528734635, 1541459225]"

definition be_word :: "nat list \<Rightarrow> w32" where
  "be_word bs = foldl (\<lambda>acc b. push_bit 8 acc OR of_nat b) 0 bs"

definition be_bytes :: "w32 \<Rightarrow> nat list" where
  "be_bytes x = map (\<lambda>i. unat (drop_bit (24 - 8 * i) x AND 255)) [0, 1, 2, 3]"

definition sha_pad :: "nat list \<Rightarrow> nat list" where
  "sha_pad m = (let l = length m; z = (119 - l mod 64) mod 64 in
     m @ [128] @ replicate z 0 @ map (\<lambda>i. nat ((8 * int l) div 256 ^ (7 - i) mod 256)) [0, 1, 2, 3, 4, 5, 6, 7])"

fun chunks :: "nat \<Rightarrow> 'a list \<Rightarrow> 'a list list" where
  "chunks n [] = []"
| "chunks 0 xs = [xs]"
| "chunks (Suc n) (x # xs) = (x # take n xs) # chunks (Suc n) (drop n xs)"

text \<open>The message schedule, extended one word at a time; the list is kept newest first.\<close>

primrec sha_extend :: "nat \<Rightarrow> w32 list \<Rightarrow> w32 list" where
  "sha_extend 0 ws = ws"
| "sha_extend (Suc n) ws =
     (let w15 = ws ! 14; w2 = ws ! 1;
          s0 = rotr 7 w15 XOR rotr 18 w15 XOR drop_bit 3 w15;
          s1 = rotr 17 w2 XOR rotr 19 w2 XOR drop_bit 10 w2
      in sha_extend n ((s1 + ws ! 6 + s0 + ws ! 15) # ws))"

fun sha_round :: "w32 list \<Rightarrow> w32 \<times> w32 \<Rightarrow> w32 list" where
  "sha_round [a, b, c, d, e, f, g, h] (k, w) =
     (let s1 = rotr 6 e XOR rotr 11 e XOR rotr 25 e;
          ch = (e AND f) XOR (NOT e AND g);
          t1 = h + s1 + ch + k + w;
          s0 = rotr 2 a XOR rotr 13 a XOR rotr 22 a;
          maj = (a AND b) XOR (a AND c) XOR (b AND c)
      in [t1 + s0 + maj, a, b, c, d + t1, e, f, g])"
| "sha_round st _ = st"

definition sha_block :: "w32 list \<Rightarrow> nat list \<Rightarrow> w32 list" where
  "sha_block hs blk = (let ws = rev (sha_extend 48 (rev (map be_word (chunks 4 blk))))
     in map2 (+) hs (foldl sha_round hs (zip sha_k ws)))"

definition Sum256 :: "bytes \<Rightarrow> bytes" where
  "Sum256 m = map char_of (concat (map be_bytes
     (foldl sha_block sha_h0 (chunks 64 (sha_pad (map of_char m))))))"

definition sha_hex :: "bytes \<Rightarrow> string" where
  "sha_hex m = EncodeToString (Sum256 m)"

subsection \<open>Shape of a digest\<close>

lemma length_sha_round [simp]: "length (sha_round st kw) = length st"
  by (cases "(st, kw)" rule: sha_round.cases) (auto simp: Let_def)

lemma length_sha_rounds [simp]: "length (foldl sha_round st kws) = length st"
  by (induction kws arbitrary: st) auto

lemma length_sha_blocks: "length hs = 8 \<Longrightarrow> length (foldl sha_block hs blks) = 8"
  by (induction blks arbitrary: hs) (auto simp: sha_block_def Let_def)

lemma length_Sum256 [simp]: "length (Sum256 m) = 32"
proof -
  have "length (concat (map be_bytes ws)) = 4 * length ws" for ws
    by (induction ws) (auto simp: be_bytes_def)
  then show ?thesis
    using length_sha_blocks [of sha_h0] by (simp add: Sum256_def sha_h0_def)
qed

lemma length_sha_hex [simp]: "length (sha_hex m) = 64"
  by (simp add: sha_hex_def)

lemma sha_hex_hex [simp]: "hex_decodes (sha_hex m)" "ToLower (sha_hex m) = sha_hex m"
  by (simp_all add: sha_hex_def)

lemma sha_hex_not_blank [simp]: "\<not> blank (sha_hex m)"
proof -
  obtain c s where cs: "sha_hex m = c # s" by (cases "sha_hex m") (use length_sha_hex [of m] in auto)
  then have "c \<in> set (EncodeToString (Sum256 m))" by (simp add: sha_hex_def)
  then obtain n where "n < 16" "c = hex_digit n" using EncodeToString_chars by blast
  then show ?thesis using hex_digit_props(3,4) cs by simp
qed

lemma sha_hex_not_Nil [simp]: "sha_hex m \<noteq> []"
  using length_sha_hex [of m] by (metis list.size(3) zero_neq_numeral)

end
