(* ===== verification/Authority.thy ===== *)
theory Authority
  imports Go_Prelude
begin

text \<open>
  \<^verbatim>\<open>internal/authority\<close>: the durable bindings from which a process-containment boundary is
  recovered.  The structs are records with the source's fields, \<^verbatim>\<open>Validate\<close> and \<^verbatim>\<open>ValidateFor\<close>
  return the error they return, \<^verbatim>\<open>Equal\<close> and \<^verbatim>\<open>ValidFor\<close> are predicates.  \<^verbatim>\<open>Clone\<close> methods copy
  values that have no aliases here and are the identity.  The clone-workspace structs are
  in \<^verbatim>\<open>Authority_Clone\<close>.
\<close>

subsection \<open>Shape predicates\<close>

definition TokenBytes :: nat where "TokenBytes = 16"
definition SecretBytes :: nat where "SecretBytes = 32"

definition validBounded :: "string \<Rightarrow> nat \<Rightarrow> bool" where
  "validBounded v limit = (\<not> blank v \<and> length v \<le> limit)"

definition validOptionalBounded :: "string \<Rightarrow> nat \<Rightarrow> bool" where
  "validOptionalBounded v limit = (v = [] \<or> validBounded v limit)"

definition validHex :: "string \<Rightarrow> nat \<Rightarrow> bool" where
  "validHex v n = (length v = n \<and> hex_decodes v)"

definition validLowerHex :: "string \<Rightarrow> nat \<Rightarrow> bool" where
  "validLowerHex v n = (v = ToLower v \<and> validHex v n)"

definition validOptionalHex :: "string \<Rightarrow> nat \<Rightarrow> bool" where
  "validOptionalHex v n = (v = [] \<or> validHex v n)"

definition OwnerKindLinuxHelper :: string where "OwnerKindLinuxHelper = ''linux_helper''"
definition OwnerKindLegacyWindows :: string where "OwnerKindLegacyWindows = ''legacy_windows''"

definition validOwner :: "string \<Rightarrow> string \<Rightarrow> bool" where
  "validOwner kind context =
     (if kind = [] then context = []
      else if kind \<noteq> OwnerKindLinuxHelper \<and> kind \<noteq> OwnerKindLegacyWindows then False
      else validBounded context 4096)"

text \<open>\<^verbatim>\<open>path.Clean\<close> by components: empty and \<^verbatim>\<open>.\<close> components go, \<^verbatim>\<open>..\<close> removes the component before
  it, and at the root it disappears.\<close>

fun split_on :: "char \<Rightarrow> string \<Rightarrow> string list" where
  "split_on c [] = [[]]"
| "split_on c (x # s) = (if x = c then [] # split_on c s
     else (case split_on c s of [] \<Rightarrow> [[x]] | w # ws \<Rightarrow> (x # w) # ws))"

definition path_IsAbs :: "string \<Rightarrow> bool" where
  "path_IsAbs p = (p \<noteq> [] \<and> hd p = CHR ''/'')"

definition clean_step :: "bool \<Rightarrow> string list \<Rightarrow> string \<Rightarrow> string list" where
  "clean_step rooted st w =
     (if w = [] \<or> w = ''.'' then st
      else if w = ''..'' then
        (case st of t # st' \<Rightarrow> if t \<noteq> ''..'' then st' else w # st
         | [] \<Rightarrow> if rooted then [] else [w])
      else w # st)"

fun join_slash :: "string list \<Rightarrow> string" where
  "join_slash [] = []"
| "join_slash [w] = w"
| "join_slash (w # v # ws) = w @ ''/'' @ join_slash (v # ws)"

definition path_Clean :: "string \<Rightarrow> string" where
  "path_Clean p = (let rooted = path_IsAbs p;
       body = join_slash (rev (foldl (clean_step rooted) [] (split_on (CHR ''/'') p)));
       out = (if rooted then ''/'' @ body else body)
     in if out = [] then ''.'' else out)"

definition validBootID :: "string \<Rightarrow> bool" where
  "validBootID v =
     (if length v \<noteq> 36 \<or> v ! 8 \<noteq> CHR ''-'' \<or> v ! 13 \<noteq> CHR ''-'' \<or> v ! 18 \<noteq> CHR ''-'' \<or> v ! 23 \<noteq> CHR ''-''
         \<or> v \<noteq> ToLower v then False
      else validHex (filter (\<lambda>c. c \<noteq> CHR ''-'') v) 32)"

definition validCanonicalCgroupPath :: "string \<Rightarrow> bool" where
  "validCanonicalCgroupPath v =
     (validBounded v 4096 \<and> v \<noteq> ''/'' \<and> CHR 0x00 \<notin> set v \<and> CHR 0x5C \<notin> set v \<and> path_IsAbs v \<and> path_Clean v = v)"

definition validRandomLeafName :: "string \<Rightarrow> bool" where
  "validRandomLeafName v =
     (length v = TokenBytes * 2 \<and> v = ToLower v \<and> validHex v (TokenBytes * 2)
      \<and> \<not> ContainsAny v [CHR ''/'', CHR 0x5C, CHR ''.''])"

subsection \<open>Cgroup and process identities\<close>

record LinuxCgroupParentIdentity =
  cp_BootID :: string
  cp_MountID :: "64 word"
  cp_Device :: "64 word"
  cp_Inode :: "64 word"
  cp_Path :: string

record LinuxCgroupIdentity =
  ci_Version :: int
  ci_Parent :: LinuxCgroupParentIdentity
  ci_LeafName :: string
  ci_LeafDevice :: "64 word"
  ci_LeafInode :: "64 word"

record LinuxCgroupProcessIdentity =
  pi_PID :: int
  pi_Identity :: string

definition LinuxCgroupParentIdentity_Validate :: "LinuxCgroupParentIdentity \<Rightarrow> gerror option" where
  "LinuxCgroupParentIdentity_Validate v = checks [
     (\<not> validBootID (cp_BootID v) \<or> cp_MountID v = 0 \<or> cp_Device v = 0 \<or> cp_Inode v = 0 \<or>
      \<not> validCanonicalCgroupPath (cp_Path v), ''Linux cgroup parent identity is invalid'')]"

definition LinuxCgroupIdentity_Validate :: "LinuxCgroupIdentity \<Rightarrow> gerror option" where
  "LinuxCgroupIdentity_Validate v = checks [
     (ci_Version v \<noteq> 2 \<or> LinuxCgroupParentIdentity_Validate (ci_Parent v) \<noteq> None \<or>
      \<not> validRandomLeafName (ci_LeafName v) \<or>
      length (cp_Path (ci_Parent v)) + 1 + length (ci_LeafName v) > 4096 \<or>
      ci_LeafDevice v = 0 \<or> ci_LeafInode v = 0, ''Linux cgroup leaf identity is invalid'')]"

definition LinuxCgroupProcessIdentity_Validate :: "LinuxCgroupProcessIdentity \<Rightarrow> gerror option" where
  "LinuxCgroupProcessIdentity_Validate v = checks [
     (pi_PID v \<le> 0 \<or> \<not> validBounded (pi_Identity v) 4096, ''Linux process identity is invalid'')]"

text \<open>The \<^verbatim>\<open>Equal\<close> methods of these three structs are Go's \<^verbatim>\<open>==\<close>, which on them is equality.\<close>

subsection \<open>Exit proofs\<close>

datatype LinuxCgroupExitProof = LinuxCgroupExitProof
  (xp_Version: int)
  (xp_Process: LinuxCgroupProcessIdentity)
  (xp_Witness: LinuxCgroupProcessIdentity)
  (xp_Waited: bool)
  (xp_Reaped: bool)
  (xp_HelperExit: "LinuxCgroupExitProof option")

fun LinuxCgroupExitProof_Validate :: "LinuxCgroupExitProof \<Rightarrow> gerror option" where
  "LinuxCgroupExitProof_Validate (LinuxCgroupExitProof ver proc wit waited reaped helper) =
     (if ver \<noteq> 2 \<or> LinuxCgroupProcessIdentity_Validate proc \<noteq> None \<or>
         LinuxCgroupProcessIdentity_Validate wit \<noteq> None \<or> \<not> waited \<or> \<not> reaped
      then Some (Err ''Linux exact wait proof is invalid'')
      else (case helper of None \<Rightarrow> None
        | Some h \<Rightarrow> if xp_HelperExit h \<noteq> None \<or> LinuxCgroupExitProof_Validate h \<noteq> None
                    then Some (Err ''Linux adopted-child helper exit proof is invalid'') else None))"

fun LinuxCgroupExitProof_Equal :: "LinuxCgroupExitProof \<Rightarrow> LinuxCgroupExitProof \<Rightarrow> bool" where
  "LinuxCgroupExitProof_Equal (LinuxCgroupExitProof v1 p1 w1 a1 r1 h1) (LinuxCgroupExitProof v2 p2 w2 a2 r2 h2) =
     (v1 = v2 \<and> p1 = p2 \<and> w1 = w2 \<and> a1 = a2 \<and> r1 = r2 \<and>
      (case h1 of None \<Rightarrow> h2 = None
       | Some x \<Rightarrow> (case h2 of None \<Rightarrow> False | Some y \<Rightarrow> LinuxCgroupExitProof_Equal x y)))"

definition LinuxCgroupExitProof_ValidFor ::
  "LinuxCgroupExitProof \<Rightarrow> LinuxCgroupProcessIdentity \<Rightarrow> LinuxCgroupProcessIdentity \<Rightarrow> bool" where
  "LinuxCgroupExitProof_ValidFor v process witness =
     (LinuxCgroupExitProof_Validate v = None \<and> xp_HelperExit v = None \<and>
      xp_Process v = process \<and> xp_Witness v = witness)"

definition ValidForOwnedDescendant ::
  "LinuxCgroupExitProof \<Rightarrow> LinuxCgroupProcessIdentity \<Rightarrow> LinuxCgroupProcessIdentity \<Rightarrow> LinuxCgroupProcessIdentity \<Rightarrow>
   LinuxCgroupExitProof option \<Rightarrow> bool" where
  "ValidForOwnedDescendant v process helper anchor helperExit =
     (if LinuxCgroupExitProof_Validate v \<noteq> None \<or> xp_Process v \<noteq> process then False
      else if xp_Witness v = helper then xp_HelperExit v = None
      else xp_Witness v = anchor \<and>
        opt_ex (\<lambda>he. opt_ex (\<lambda>vh. LinuxCgroupExitProof_ValidFor he helper anchor \<and>
                                  LinuxCgroupExitProof_Equal vh he) (xp_HelperExit v)) helperExit)"

subsection \<open>Pre-gate stop evidence\<close>

record LinuxCgroupGateProductionResult =
  gr_Version :: int
  gr_LaunchToken :: string
  gr_Launcher :: LinuxCgroupProcessIdentity
  gr_Outcome :: string
  gr_Authenticator :: string

record LinuxCgroupPreGateStopProof =
  pg_Version :: int
  pg_Kind :: string
  pg_Issuer :: LinuxCgroupProcessIdentity
  pg_Reaper :: LinuxCgroupProcessIdentity
  pg_PinnedLeafFD :: bool
  pg_CgroupKillAcknowledged :: bool
  pg_CgroupPopulatedZero :: bool
  pg_NoMigrationObserved :: bool
  pg_ProducerFenced :: bool
  pg_DescendantsReaped :: bool
  pg_LauncherExit :: LinuxCgroupExitProof
  pg_HelperExit :: "LinuxCgroupExitProof option"
  pg_GateOutcome :: LinuxCgroupGateProductionResult

record LinuxCgroupPreGateStopReceipt =
  pr_Version :: int
  pr_LaunchToken :: string
  pr_CgroupIdentity :: LinuxCgroupIdentity
  pr_OwnerUID :: "32 word"
  pr_LauncherUID :: "32 word"
  pr_Anchor :: LinuxCgroupProcessIdentity
  pr_Helper :: LinuxCgroupProcessIdentity
  pr_Launcher :: LinuxCgroupProcessIdentity
  pr_Mirror :: LinuxCgroupProcessIdentity
  pr_Proof :: LinuxCgroupPreGateStopProof

record LinuxCgroupPreGateReleaseProof =
  prp_Version :: int
  prp_Receipt :: LinuxCgroupPreGateStopReceipt
  prp_LeafDisposition :: string

definition LinuxCgroupStopProofHelper :: string where "LinuxCgroupStopProofHelper = ''helper''"
definition LinuxCgroupStopProofMirror :: string where "LinuxCgroupStopProofMirror = ''mirror''"
definition LinuxCgroupGateOutcomeNeverCreated :: string where
  "LinuxCgroupGateOutcomeNeverCreated = ''never_created''"
definition LinuxCgroupLeafRemoved :: string where "LinuxCgroupLeafRemoved = ''removed''"
definition LinuxCgroupLeafAbsentAfterReceipt :: string where
  "LinuxCgroupLeafAbsentAfterReceipt = ''absent_after_receipt''"

definition GateProductionResult_ValidateFor ::
  "LinuxCgroupGateProductionResult \<Rightarrow> string \<Rightarrow> LinuxCgroupProcessIdentity \<Rightarrow> gerror option" where
  "GateProductionResult_ValidateFor v launchToken launcher = checks [
     (gr_Version v \<noteq> 2 \<or> gr_LaunchToken v \<noteq> launchToken \<or>
      \<not> validLowerHex (gr_LaunchToken v) (TokenBytes * 2) \<or> gr_Launcher v \<noteq> launcher \<or>
      LinuxCgroupProcessIdentity_Validate (gr_Launcher v) \<noteq> None \<or>
      gr_Outcome v \<noteq> LinuxCgroupGateOutcomeNeverCreated \<or> \<not> validLowerHex (gr_Authenticator v) 64,
      ''Linux cgroup no-gate launcher result is invalid'')]"

definition GateProductionResult_Equal ::
  "LinuxCgroupGateProductionResult \<Rightarrow> LinuxCgroupGateProductionResult \<Rightarrow> bool" where
  "GateProductionResult_Equal v w = (gr_Version v = gr_Version w \<and> gr_LaunchToken v = gr_LaunchToken w \<and>
     gr_Launcher v = gr_Launcher w \<and> gr_Outcome v = gr_Outcome w \<and> gr_Authenticator v = gr_Authenticator w)"

definition PreGateStopProof_ValidateFor ::
  "LinuxCgroupPreGateStopProof \<Rightarrow> LinuxCgroupPreGateStopReceipt \<Rightarrow> gerror option" where
  "PreGateStopProof_ValidateFor proof receipt =
     (let helperExit = pg_HelperExit proof in
      checks [
       (pg_Version proof \<noteq> 2 \<or>
        (pg_Kind proof \<noteq> LinuxCgroupStopProofHelper \<and> pg_Kind proof \<noteq> LinuxCgroupStopProofMirror) \<or>
        LinuxCgroupProcessIdentity_Validate (pg_Issuer proof) \<noteq> None \<or>
        LinuxCgroupProcessIdentity_Validate (pg_Reaper proof) \<noteq> None \<or>
        \<not> pg_PinnedLeafFD proof \<or> \<not> pg_CgroupKillAcknowledged proof \<or> \<not> pg_CgroupPopulatedZero proof \<or>
        \<not> pg_NoMigrationObserved proof \<or> \<not> pg_ProducerFenced proof \<or> \<not> pg_DescendantsReaped proof \<or>
        GateProductionResult_ValidateFor (pg_GateOutcome proof) (pr_LaunchToken receipt) (pr_Launcher receipt) \<noteq> None \<or>
        \<not> ValidForOwnedDescendant (pg_LauncherExit proof) (pr_Launcher receipt) (pr_Helper receipt) (pr_Anchor receipt) helperExit,
        ''Linux pre-gate cgroup stop proof is invalid''),
       (pg_Kind proof = LinuxCgroupStopProofHelper \<and>
        (pg_Issuer proof \<noteq> pr_Helper receipt \<or> pg_Reaper proof \<noteq> pr_Helper receipt \<or> pg_HelperExit proof \<noteq> None \<or>
         \<not> ValidForOwnedDescendant (pg_LauncherExit proof) (pr_Launcher receipt) (pr_Helper receipt) (pr_Anchor receipt) None),
        ''Linux pre-gate helper stop proof identity is invalid''),
       (pg_Kind proof = LinuxCgroupStopProofMirror \<and>
        (pg_Issuer proof \<noteq> pr_Mirror receipt \<or> pg_Reaper proof \<noteq> pr_Anchor receipt \<or>
         \<not> opt_ex (\<lambda>he. LinuxCgroupExitProof_ValidFor he (pr_Helper receipt) (pr_Anchor receipt)) (pg_HelperExit proof)),
        ''Linux pre-gate mirror stop proof identity is invalid'')])"

definition PreGateStopProof_Equal :: "LinuxCgroupPreGateStopProof \<Rightarrow> LinuxCgroupPreGateStopProof \<Rightarrow> bool" where
  "PreGateStopProof_Equal v w = (pg_Version v = pg_Version w \<and> pg_Kind v = pg_Kind w \<and> pg_Issuer v = pg_Issuer w \<and>
     pg_Reaper v = pg_Reaper w \<and> pg_PinnedLeafFD v = pg_PinnedLeafFD w \<and>
     pg_CgroupKillAcknowledged v = pg_CgroupKillAcknowledged w \<and>
     pg_CgroupPopulatedZero v = pg_CgroupPopulatedZero w \<and> pg_NoMigrationObserved v = pg_NoMigrationObserved w \<and>
     pg_ProducerFenced v = pg_ProducerFenced w \<and> pg_DescendantsReaped v = pg_DescendantsReaped w \<and>
     LinuxCgroupExitProof_Equal (pg_LauncherExit v) (pg_LauncherExit w) \<and>
     eq_ptr LinuxCgroupExitProof_Equal (pg_HelperExit v) (pg_HelperExit w) \<and>
     GateProductionResult_Equal (pg_GateOutcome v) (pg_GateOutcome w))"

definition PreGateStopReceipt_Validate :: "LinuxCgroupPreGateStopReceipt \<Rightarrow> gerror option" where
  "PreGateStopReceipt_Validate r = checks [
     (pr_Version r \<noteq> 2 \<or> \<not> validLowerHex (pr_LaunchToken r) (TokenBytes * 2) \<or>
      LinuxCgroupIdentity_Validate (pr_CgroupIdentity r) \<noteq> None \<or> pr_OwnerUID r = 0 \<or> pr_LauncherUID r \<noteq> 0 \<or>
      LinuxCgroupProcessIdentity_Validate (pr_Anchor r) \<noteq> None \<or>
      LinuxCgroupProcessIdentity_Validate (pr_Helper r) \<noteq> None \<or>
      LinuxCgroupProcessIdentity_Validate (pr_Launcher r) \<noteq> None \<or>
      LinuxCgroupProcessIdentity_Validate (pr_Mirror r) \<noteq> None \<or> ci_LeafName (pr_CgroupIdentity r) = [] \<or>
      PreGateStopProof_ValidateFor (pr_Proof r) r \<noteq> None,
      ''Linux pre-gate cgroup stop receipt is invalid''),
     (pr_Anchor r = pr_Helper r \<or> pr_Anchor r = pr_Launcher r \<or> pr_Anchor r = pr_Mirror r \<or>
      pr_Helper r = pr_Launcher r \<or> pr_Helper r = pr_Mirror r \<or> pr_Launcher r = pr_Mirror r,
      ''Linux pre-gate cgroup producer roles alias'')]"

definition PreGateStopReceipt_Equal :: "LinuxCgroupPreGateStopReceipt \<Rightarrow> LinuxCgroupPreGateStopReceipt \<Rightarrow> bool" where
  "PreGateStopReceipt_Equal v w = (pr_Version v = pr_Version w \<and> pr_LaunchToken v = pr_LaunchToken w \<and>
     pr_CgroupIdentity v = pr_CgroupIdentity w \<and> pr_OwnerUID v = pr_OwnerUID w \<and> pr_LauncherUID v = pr_LauncherUID w \<and>
     pr_Anchor v = pr_Anchor w \<and> pr_Helper v = pr_Helper w \<and> pr_Launcher v = pr_Launcher w \<and>
     pr_Mirror v = pr_Mirror w \<and> PreGateStopProof_Equal (pr_Proof v) (pr_Proof w))"

definition PreGateStopReceipt_ValidFor ::
  "LinuxCgroupPreGateStopReceipt \<Rightarrow> string \<Rightarrow> LinuxCgroupIdentity \<Rightarrow> 32 word \<Rightarrow> 32 word \<Rightarrow>
   LinuxCgroupProcessIdentity \<Rightarrow> LinuxCgroupProcessIdentity \<Rightarrow> LinuxCgroupProcessIdentity \<Rightarrow> LinuxCgroupProcessIdentity \<Rightarrow>
   LinuxCgroupExitProof \<Rightarrow> LinuxCgroupExitProof option \<Rightarrow> bool" where
  "PreGateStopReceipt_ValidFor r launchToken identity ownerUID launcherUID anchor helper launcher mirror launcherExit helperExit =
     (PreGateStopReceipt_Validate r = None \<and> pr_LaunchToken r = launchToken \<and> pr_CgroupIdentity r = identity \<and>
      pr_OwnerUID r = ownerUID \<and> pr_LauncherUID r = launcherUID \<and> pr_Anchor r = anchor \<and> pr_Helper r = helper \<and>
      pr_Launcher r = launcher \<and> pr_Mirror r = mirror \<and>
      LinuxCgroupExitProof_Equal (pg_LauncherExit (pr_Proof r)) launcherExit \<and>
      eq_ptr LinuxCgroupExitProof_Equal (pg_HelperExit (pr_Proof r)) helperExit)"

definition PreGateReleaseProof_Validate :: "LinuxCgroupPreGateReleaseProof \<Rightarrow> gerror option" where
  "PreGateReleaseProof_Validate p = checks [
     (prp_Version p \<noteq> 2 \<or> PreGateStopReceipt_Validate (prp_Receipt p) \<noteq> None \<or>
      (prp_LeafDisposition p \<noteq> LinuxCgroupLeafRemoved \<and> prp_LeafDisposition p \<noteq> LinuxCgroupLeafAbsentAfterReceipt),
      ''Linux pre-gate cgroup release proof is invalid'')]"

definition PreGateReleaseProof_ValidFor :: "LinuxCgroupPreGateReleaseProof \<Rightarrow> LinuxCgroupPreGateStopReceipt \<Rightarrow> bool" where
  "PreGateReleaseProof_ValidFor p r = (PreGateReleaseProof_Validate p = None \<and> PreGateStopReceipt_Equal (prp_Receipt p) r)"

definition PreGateReleaseProof_Equal :: "LinuxCgroupPreGateReleaseProof \<Rightarrow> LinuxCgroupPreGateReleaseProof \<Rightarrow> bool" where
  "PreGateReleaseProof_Equal v w = (prp_Version v = prp_Version w \<and>
     PreGateStopReceipt_Equal (prp_Receipt v) (prp_Receipt w) \<and> prp_LeafDisposition v = prp_LeafDisposition w)"

end
