(* ===== verification/Authority_Supervisor.thy ===== *)
theory Authority_Supervisor
  imports Authority
begin

text \<open>
  The second half of \<^verbatim>\<open>internal/authority\<close>: gate identities, reservation abort proofs, stop
  proofs and receipts, the committed \<^verbatim>\<open>Supervisor\<close> authority, the pre-authority
  \<^verbatim>\<open>SupervisorHandoff\<close> and the proofs that release or abort it.
\<close>

subsection \<open>Gates and reservation aborts\<close>

record LinuxCgroupGateIdentity =
  gi_Process :: LinuxCgroupProcessIdentity
  gi_HostUID :: "32 word"
  gi_ObservedAt :: time
  gi_BirthKind :: string
  gi_Cgroup :: LinuxCgroupIdentity
  gi_BornInLeaf :: bool
  gi_TrustedImage :: bool

definition LinuxCgroupTargetBirthTrustedAGate :: string where
  "LinuxCgroupTargetBirthTrustedAGate = ''trusted_a_gate''"

definition GateIdentity_Validate :: "LinuxCgroupGateIdentity \<Rightarrow> gerror option" where
  "GateIdentity_Validate v = checks [
     (LinuxCgroupProcessIdentity_Validate (gi_Process v) \<noteq> None \<or> gi_HostUID v = 0 \<or> gi_ObservedAt v = 0 \<or>
      gi_BirthKind v \<noteq> LinuxCgroupTargetBirthTrustedAGate \<or> LinuxCgroupIdentity_Validate (gi_Cgroup v) \<noteq> None \<or>
      \<not> gi_BornInLeaf v \<or> \<not> gi_TrustedImage v, ''Linux trusted gate identity is invalid'')]"

definition GateIdentity_Equal :: "LinuxCgroupGateIdentity \<Rightarrow> LinuxCgroupGateIdentity \<Rightarrow> bool" where
  "GateIdentity_Equal v w = (gi_Process v = gi_Process w \<and> gi_HostUID v = gi_HostUID w \<and>
     gi_ObservedAt v = gi_ObservedAt w \<and> gi_BirthKind v = gi_BirthKind w \<and> gi_Cgroup v = gi_Cgroup w \<and>
     gi_BornInLeaf v = gi_BornInLeaf w \<and> gi_TrustedImage v = gi_TrustedImage w)"

record LinuxCgroupReservationAbortProof =
  ra_Version :: int
  ra_LaunchToken :: string
  ra_Parent :: LinuxCgroupParentIdentity
  ra_LeafName :: string
  ra_CreateStarted :: bool
  ra_LauncherGrantPossible :: bool
  ra_LeafIdentity :: "LinuxCgroupIdentity option"
  ra_LeafDisposition :: string
  ra_OwnerUID :: "32 word"
  ra_Anchor :: LinuxCgroupProcessIdentity
  ra_Mirror :: LinuxCgroupProcessIdentity
  ra_Helper :: "LinuxCgroupProcessIdentity option"
  ra_Launcher :: "LinuxCgroupProcessIdentity option"
  ra_Witness :: LinuxCgroupProcessIdentity
  ra_HelperExit :: "LinuxCgroupExitProof option"
  ra_LauncherExit :: "LinuxCgroupExitProof option"
  ra_CreatorFenced :: bool
  ra_NoProducerCanAct :: bool
  ra_ParentUnchanged :: bool
  ra_LeafEmpty :: bool
  ra_LeafAbsent :: bool
  ra_LeafNeverAppeared :: bool
  ra_RmdirSucceeded :: bool
  ra_RmdirOutcomeUnknown :: bool

definition LinuxCgroupAbortLeafNeverCreated :: string where
  "LinuxCgroupAbortLeafNeverCreated = ''never_created''"
definition LinuxCgroupAbortLeafRemovedEmpty :: string where
  "LinuxCgroupAbortLeafRemovedEmpty = ''removed_empty''"
definition LinuxCgroupAbortLeafAbsentAfterRmdir :: string where
  "LinuxCgroupAbortLeafAbsentAfterRmdir = ''absent_after_rmdir''"

definition ReservationAbortProof_Validate :: "LinuxCgroupReservationAbortProof \<Rightarrow> gerror option" where
  "ReservationAbortProof_Validate p = then_err (checks [
     (ra_Version p \<noteq> 2 \<or> \<not> validLowerHex (ra_LaunchToken p) (TokenBytes * 2) \<or>
      LinuxCgroupParentIdentity_Validate (ra_Parent p) \<noteq> None \<or> \<not> validRandomLeafName (ra_LeafName p) \<or>
      ra_OwnerUID p = 0 \<or> LinuxCgroupProcessIdentity_Validate (ra_Anchor p) \<noteq> None \<or>
      LinuxCgroupProcessIdentity_Validate (ra_Mirror p) \<noteq> None \<or>
      LinuxCgroupProcessIdentity_Validate (ra_Witness p) \<noteq> None \<or> \<not> ra_CreatorFenced p \<or>
      \<not> ra_NoProducerCanAct p \<or> \<not> ra_ParentUnchanged p \<or> ra_LauncherGrantPossible p,
      ''Linux cgroup reservation abort proof is invalid'')])
    (if ra_LeafDisposition p = LinuxCgroupAbortLeafNeverCreated then checks [
       (ra_LeafIdentity p \<noteq> None \<or> \<not> ra_LeafAbsent p \<or> ra_LeafEmpty p \<or>
        ra_LeafNeverAppeared p \<noteq> ra_CreateStarted p \<or> ra_RmdirSucceeded p \<or> ra_RmdirOutcomeUnknown p \<or>
        ra_HelperExit p \<noteq> None \<or> ra_Helper p \<noteq> None \<or> ra_Launcher p \<noteq> None \<or> ra_LauncherExit p \<noteq> None,
        ''Linux never-created leaf abort proof is invalid'')]
     else if ra_LeafDisposition p = LinuxCgroupAbortLeafRemovedEmpty \<or>
             ra_LeafDisposition p = LinuxCgroupAbortLeafAbsentAfterRmdir then checks [
       (\<not> ra_CreateStarted p \<or>
        \<not> opt_ex (\<lambda>l. LinuxCgroupIdentity_Validate l = None \<and> ci_LeafName l = ra_LeafName p \<and>
                      ci_Parent l = ra_Parent p) (ra_LeafIdentity p) \<or>
        \<not> ra_LeafEmpty p \<or> \<not> ra_LeafAbsent p \<or> ra_LeafNeverAppeared p \<or>
        opt_ex (\<lambda>h. LinuxCgroupProcessIdentity_Validate h \<noteq> None) (ra_Helper p) \<or>
        opt_ex (\<lambda>l. LinuxCgroupProcessIdentity_Validate l \<noteq> None) (ra_Launcher p) \<or>
        opt_ex (\<lambda>x. \<not> opt_ex (\<lambda>h. LinuxCgroupExitProof_ValidFor x h (ra_Anchor p)) (ra_Helper p)) (ra_HelperExit p) \<or>
        opt_ex (\<lambda>x. \<not> opt_ex (\<lambda>l. opt_ex (\<lambda>h.
           ValidForOwnedDescendant x l h (ra_Anchor p) (ra_HelperExit p)) (ra_Helper p)) (ra_Launcher p)) (ra_LauncherExit p),
        ''Linux removed-leaf abort proof is invalid''),
       (ra_LeafDisposition p = LinuxCgroupAbortLeafRemovedEmpty \<and> (\<not> ra_RmdirSucceeded p \<or> ra_RmdirOutcomeUnknown p),
        ''Linux removed-leaf abort proof has no successful removal''),
       (ra_LeafDisposition p = LinuxCgroupAbortLeafAbsentAfterRmdir \<and> (ra_RmdirSucceeded p \<or> \<not> ra_RmdirOutcomeUnknown p),
        ''Linux absent-after-rmdir abort proof has no unknown rmdir outcome'')]
     else Some (Err ''Linux cgroup reservation abort disposition is invalid''))"

definition ReservationAbortProof_ValidFor ::
  "LinuxCgroupReservationAbortProof \<Rightarrow> string \<Rightarrow> LinuxCgroupParentIdentity \<Rightarrow> string \<Rightarrow> bool \<Rightarrow> 32 word \<Rightarrow>
   LinuxCgroupProcessIdentity \<Rightarrow> LinuxCgroupProcessIdentity \<Rightarrow> LinuxCgroupProcessIdentity option \<Rightarrow>
   LinuxCgroupProcessIdentity option \<Rightarrow> bool" where
  "ReservationAbortProof_ValidFor p launchToken parent leafName createStarted ownerUID anchor mirror helper launcher =
     (ReservationAbortProof_Validate p = None \<and> ra_LaunchToken p = launchToken \<and> ra_Parent p = parent \<and>
      ra_LeafName p = leafName \<and> ra_CreateStarted p = createStarted \<and> ra_OwnerUID p = ownerUID \<and>
      ra_Anchor p = anchor \<and> ra_Mirror p = mirror \<and> eq_ptr (=) (ra_Helper p) helper \<and>
      eq_ptr (=) (ra_Launcher p) launcher \<and> ra_Witness p = anchor)"

definition ReservationAbortProof_Equal ::
  "LinuxCgroupReservationAbortProof \<Rightarrow> LinuxCgroupReservationAbortProof \<Rightarrow> bool" where
  "ReservationAbortProof_Equal p q = (ra_Version p = ra_Version q \<and> ra_LaunchToken p = ra_LaunchToken q \<and>
     ra_Parent p = ra_Parent q \<and> ra_LeafName p = ra_LeafName q \<and> ra_CreateStarted p = ra_CreateStarted q \<and>
     ra_LauncherGrantPossible p = ra_LauncherGrantPossible q \<and>
     eq_ptr (=) (ra_LeafIdentity p) (ra_LeafIdentity q) \<and> ra_LeafDisposition p = ra_LeafDisposition q \<and>
     ra_OwnerUID p = ra_OwnerUID q \<and> ra_Anchor p = ra_Anchor q \<and> ra_Mirror p = ra_Mirror q \<and>
     eq_ptr (=) (ra_Helper p) (ra_Helper q) \<and> eq_ptr (=) (ra_Launcher p) (ra_Launcher q) \<and>
     ra_Witness p = ra_Witness q \<and>
     eq_ptr LinuxCgroupExitProof_Equal (ra_HelperExit p) (ra_HelperExit q) \<and>
     eq_ptr LinuxCgroupExitProof_Equal (ra_LauncherExit p) (ra_LauncherExit q) \<and>
     ra_CreatorFenced p = ra_CreatorFenced q \<and> ra_NoProducerCanAct p = ra_NoProducerCanAct q \<and>
     ra_ParentUnchanged p = ra_ParentUnchanged q \<and> ra_LeafEmpty p = ra_LeafEmpty q \<and>
     ra_LeafAbsent p = ra_LeafAbsent q \<and> ra_LeafNeverAppeared p = ra_LeafNeverAppeared q \<and>
     ra_RmdirSucceeded p = ra_RmdirSucceeded q \<and> ra_RmdirOutcomeUnknown p = ra_RmdirOutcomeUnknown q)"

subsection \<open>Stop receipts and the supervisor authority\<close>

record LinuxCgroupStopProof =
  sp_Version :: int
  sp_Kind :: string
  sp_Issuer :: LinuxCgroupProcessIdentity
  sp_Reaper :: LinuxCgroupProcessIdentity
  sp_PinnedLeafFD :: bool
  sp_CgroupKillAcknowledged :: bool
  sp_CgroupPopulatedZero :: bool
  sp_NoMigrationObserved :: bool
  sp_ProducerFenced :: bool
  sp_DescendantsReaped :: bool
  sp_LauncherExit :: LinuxCgroupExitProof
  sp_GateExit :: LinuxCgroupExitProof
  sp_HelperExit :: "LinuxCgroupExitProof option"

record StopReceipt =
  sr_Version :: int
  sr_Status :: string
  sr_OwnerKind :: string
  sr_OwnerContext :: string
  sr_TargetPID :: int
  sr_TargetIdentity :: string
  sr_OwnerUID :: "32 word"
  sr_LauncherUID :: "32 word"
  sr_PipeToken :: string
  sr_JobID :: string
  sr_SupervisorPID :: int
  sr_SupervisorIdentity :: string
  sr_ActiveProcesses :: "32 word"
  sr_TargetBirthKind :: string
  sr_CgroupIdentity :: "LinuxCgroupIdentity option"
  sr_LinuxProof :: "LinuxCgroupStopProof option"

record Supervisor =
  su_Version :: int
  su_Secret :: string
  su_LaunchToken :: string
  su_OwnerKind :: string
  su_OwnerContext :: string
  su_TargetPID :: int
  su_TargetIdentity :: string
  su_OwnerUID :: "32 word"
  su_LauncherUID :: "32 word"
  su_PipeToken :: string
  su_JobID :: string
  su_SupervisorPID :: int
  su_SupervisorIdentity :: string
  su_TargetBirthKind :: string
  su_CgroupIdentity :: "LinuxCgroupIdentity option"
  su_AnchorPID :: int
  su_AnchorIdentity :: string
  su_LauncherPID :: int
  su_LauncherIdentity :: string
  su_LauncherExit :: "LinuxCgroupExitProof option"
  su_Mirror :: "LinuxCgroupProcessIdentity option"
  su_CreatorSessionID :: "32 word option"
  su_StopReceipt :: "StopReceipt option"

definition StopProof_ValidateFor :: "LinuxCgroupStopProof \<Rightarrow> Supervisor \<Rightarrow> gerror option" where
  "StopProof_ValidateFor p v = then_err (checks [
     (su_Version v \<noteq> 2 \<or> sp_Version p \<noteq> 2 \<or> LinuxCgroupProcessIdentity_Validate (sp_Issuer p) \<noteq> None \<or>
      LinuxCgroupProcessIdentity_Validate (sp_Reaper p) \<noteq> None \<or> \<not> sp_PinnedLeafFD p \<or>
      \<not> sp_CgroupKillAcknowledged p \<or> \<not> sp_CgroupPopulatedZero p \<or> \<not> sp_NoMigrationObserved p \<or>
      \<not> sp_ProducerFenced p \<or> \<not> sp_DescendantsReaped p \<or>
      \<not> opt_ex (\<lambda>x. LinuxCgroupExitProof_Equal (sp_LauncherExit p) x) (su_LauncherExit v),
      ''Linux cgroup stop proof is invalid'')])
    (let helper = \<lparr> pi_PID = su_SupervisorPID v, pi_Identity = su_SupervisorIdentity v \<rparr>;
         anchor = \<lparr> pi_PID = su_AnchorPID v, pi_Identity = su_AnchorIdentity v \<rparr>;
         launcher = \<lparr> pi_PID = su_LauncherPID v, pi_Identity = su_LauncherIdentity v \<rparr>;
         target = \<lparr> pi_PID = su_TargetPID v, pi_Identity = su_TargetIdentity v \<rparr>
     in then_err
       (if sp_Kind p = LinuxCgroupStopProofHelper then checks [
          (sp_Issuer p \<noteq> helper \<or> sp_Reaper p \<noteq> helper \<or> sp_HelperExit p \<noteq> None \<or>
           \<not> ValidForOwnedDescendant (sp_GateExit p) target helper anchor None \<or>
           \<not> ValidForOwnedDescendant (sp_LauncherExit p) launcher helper anchor None,
           ''Linux helper stop proof identity is invalid'')]
        else if sp_Kind p = LinuxCgroupStopProofMirror then checks [
          (\<not> opt_ex (\<lambda>m. sp_Issuer p = m) (su_Mirror v) \<or> sp_Reaper p \<noteq> anchor \<or>
           \<not> opt_ex (\<lambda>he. LinuxCgroupExitProof_ValidFor he helper anchor) (sp_HelperExit p) \<or>
           \<not> ValidForOwnedDescendant (sp_GateExit p) target helper anchor (sp_HelperExit p) \<or>
           \<not> ValidForOwnedDescendant (sp_LauncherExit p) launcher helper anchor (sp_HelperExit p),
           ''Linux mirror stop proof identity is invalid'')]
        else Some (Err ''Linux cgroup stop proof kind is invalid''))
       (checks [
          (LinuxCgroupExitProof_Validate (sp_LauncherExit p) \<noteq> None \<or> xp_Process (sp_LauncherExit p) \<noteq> launcher,
           ''Linux launcher stop proof identity is invalid'')]))"

definition StopProof_Equal :: "LinuxCgroupStopProof \<Rightarrow> LinuxCgroupStopProof \<Rightarrow> bool" where
  "StopProof_Equal p q =
     (if sp_Version p \<noteq> sp_Version q \<or> sp_Kind p \<noteq> sp_Kind q \<or> sp_Issuer p \<noteq> sp_Issuer q \<or>
         sp_Reaper p \<noteq> sp_Reaper q \<or> sp_PinnedLeafFD p \<noteq> sp_PinnedLeafFD q \<or>
         sp_CgroupKillAcknowledged p \<noteq> sp_CgroupKillAcknowledged q \<or>
         sp_CgroupPopulatedZero p \<noteq> sp_CgroupPopulatedZero q \<or> sp_NoMigrationObserved p \<noteq> sp_NoMigrationObserved q \<or>
         sp_ProducerFenced p \<noteq> sp_ProducerFenced q \<or> sp_DescendantsReaped p \<noteq> sp_DescendantsReaped q \<or>
         \<not> LinuxCgroupExitProof_Equal (sp_LauncherExit p) (sp_LauncherExit q) \<or>
         \<not> LinuxCgroupExitProof_Equal (sp_GateExit p) (sp_GateExit q)
      then False
      else eq_ptr LinuxCgroupExitProof_Equal (sp_HelperExit p) (sp_HelperExit q))"

definition equalStopReceipt :: "StopReceipt \<Rightarrow> StopReceipt \<Rightarrow> bool" where
  "equalStopReceipt l r = (sr_Version l = sr_Version r \<and> sr_Status l = sr_Status r \<and> sr_OwnerKind l = sr_OwnerKind r \<and>
     sr_OwnerContext l = sr_OwnerContext r \<and> sr_TargetPID l = sr_TargetPID r \<and>
     sr_TargetIdentity l = sr_TargetIdentity r \<and> sr_PipeToken l = sr_PipeToken r \<and> sr_JobID l = sr_JobID r \<and>
     sr_SupervisorPID l = sr_SupervisorPID r \<and> sr_SupervisorIdentity l = sr_SupervisorIdentity r \<and>
     sr_ActiveProcesses l = sr_ActiveProcesses r \<and> sr_TargetBirthKind l = sr_TargetBirthKind r \<and>
     sr_OwnerUID l = sr_OwnerUID r \<and> sr_LauncherUID l = sr_LauncherUID r \<and>
     eq_ptr (=) (sr_CgroupIdentity l) (sr_CgroupIdentity r) \<and> eq_ptr StopProof_Equal (sr_LinuxProof l) (sr_LinuxProof r))"

definition StopReceipt_ValidFor :: "StopReceipt \<Rightarrow> Supervisor \<Rightarrow> bool" where
  "StopReceipt_ValidFor r v =
     (if su_Version v = 2 then
        sr_Version r = 2 \<and> sr_Status r = ''stopped'' \<and> sr_ActiveProcesses r = 0 \<and>
        sr_OwnerKind r = su_OwnerKind v \<and> sr_OwnerContext r = su_OwnerContext v \<and>
        sr_TargetPID r = su_TargetPID v \<and> sr_TargetIdentity r = su_TargetIdentity v \<and>
        sr_OwnerUID r = su_OwnerUID v \<and> sr_LauncherUID r = su_LauncherUID v \<and>
        sr_PipeToken r = su_PipeToken v \<and> sr_JobID r = su_JobID v \<and>
        sr_SupervisorPID r = su_SupervisorPID v \<and> sr_SupervisorIdentity r = su_SupervisorIdentity v \<and>
        sr_TargetBirthKind r = su_TargetBirthKind v \<and> eq_ptr (=) (sr_CgroupIdentity r) (su_CgroupIdentity v) \<and>
        opt_ex (\<lambda>p. StopProof_ValidateFor p v = None) (sr_LinuxProof r)
      else
        sr_Version r = 1 \<and> sr_Status r = ''stopped'' \<and> sr_ActiveProcesses r = 0 \<and>
        sr_OwnerKind r = su_OwnerKind v \<and> sr_OwnerContext r = su_OwnerContext v \<and>
        sr_TargetPID r = su_TargetPID v \<and> sr_TargetIdentity r = su_TargetIdentity v \<and>
        sr_OwnerUID r = 0 \<and> sr_LauncherUID r = 0 \<and>
        sr_PipeToken r = su_PipeToken v \<and> sr_JobID r = su_JobID v \<and>
        sr_SupervisorPID r = su_SupervisorPID v \<and> sr_SupervisorIdentity r = su_SupervisorIdentity v \<and>
        sr_TargetBirthKind r = [] \<and> sr_CgroupIdentity r = None \<and> sr_LinuxProof r = None)"

definition validateV2SupervisorFields ::
  "string \<Rightarrow> string \<Rightarrow> string \<Rightarrow> int \<Rightarrow> string \<Rightarrow> int \<Rightarrow> string \<Rightarrow> string \<Rightarrow> 32 word \<Rightarrow> 32 word \<Rightarrow>
   LinuxCgroupIdentity option \<Rightarrow> int \<Rightarrow> string \<Rightarrow> int \<Rightarrow> string \<Rightarrow> LinuxCgroupExitProof option \<Rightarrow>
   LinuxCgroupProcessIdentity option \<Rightarrow> 32 word option \<Rightarrow> bool \<Rightarrow> gerror option" where
  "validateV2SupervisorFields launchToken ownerKind ownerContext targetPID targetIdentity supervisorPID supervisorIdentity
     targetBirthKind ownerUID launcherUID cgroup anchorPID anchorIdentity launcherPID launcherIdentity launcherExit
     mirror creatorSessionID requireHelper =
     then_err (checks [
       (\<not> validLowerHex launchToken (TokenBytes * 2) \<or> ownerKind \<noteq> OwnerKindLinuxHelper \<or> \<not> validBounded ownerContext 4096 \<or>
        targetPID \<le> 0 \<or> \<not> validBounded targetIdentity 4096 \<or> targetBirthKind \<noteq> LinuxCgroupTargetBirthTrustedAGate \<or>
        ownerUID = 0 \<or> launcherUID \<noteq> 0 \<or> \<not> opt_ex (\<lambda>c. LinuxCgroupIdentity_Validate c = None) cgroup \<or>
        anchorPID \<le> 0 \<or> \<not> validBounded anchorIdentity 4096 \<or> launcherPID \<le> 0 \<or> \<not> validBounded launcherIdentity 4096 \<or>
        launcherExit = None \<or> creatorSessionID \<noteq> None, ''Linux cgroup supervisor identity is invalid'')])
     (let launcher = \<lparr> pi_PID = launcherPID, pi_Identity = launcherIdentity \<rparr>;
          anchor = \<lparr> pi_PID = anchorPID, pi_Identity = anchorIdentity \<rparr>;
          target = \<lparr> pi_PID = targetPID, pi_Identity = targetIdentity \<rparr>;
          lx = the launcherExit
      in then_err (checks [
          (LinuxCgroupExitProof_Validate lx \<noteq> None \<or> xp_Process lx \<noteq> launcher,
           ''Linux cgroup launcher exit identity is invalid''),
          (xp_Witness lx = anchor \<and>
           \<not> opt_ex (\<lambda>he. LinuxCgroupExitProof_ValidFor he (xp_Process he) anchor) (xp_HelperExit lx),
           ''Linux launcher anchor wait lacks exact helper-death adoption proof''),
          (xp_Witness lx \<noteq> anchor \<and> xp_HelperExit lx \<noteq> None,
           ''Linux launcher helper wait unexpectedly carries helper-death proof''),
          (target = anchor \<or> target = launcher \<or> anchor = launcher,
           ''Linux cgroup producer roles alias one process identity''),
          (supervisorPID < 0 \<or> (supervisorPID = 0) \<noteq> blank supervisorIdentity \<or>
           \<not> validOptionalBounded supervisorIdentity 4096 \<or> (requireHelper \<and> supervisorPID = 0),
           ''Linux cgroup helper identity is invalid'')])
        (if supervisorPID = 0 then checks [(mirror \<noteq> None, ''Linux cgroup mirror cannot precede helper binding'')]
         else (let helper = \<lparr> pi_PID = supervisorPID, pi_Identity = supervisorIdentity \<rparr> in
           then_err (checks [
             (LinuxCgroupProcessIdentity_Validate helper \<noteq> None \<or>
              \<not> opt_ex (\<lambda>m. LinuxCgroupProcessIdentity_Validate m = None) mirror,
              ''Linux cgroup mirror identity is invalid'')])
           (checks [
             (xp_Witness lx = anchor \<and>
              \<not> opt_ex (\<lambda>he. LinuxCgroupExitProof_ValidFor he helper anchor) (xp_HelperExit lx),
              ''Linux launcher anchor witness does not identify the exact helper exit''),
             (\<not> ValidForOwnedDescendant lx launcher helper anchor (xp_HelperExit lx),
              ''Linux launcher exit witness does not match the exact helper or adopted child''),
             (target = helper \<or> opt_ex (\<lambda>m. target = m) mirror \<or> anchor = helper \<or> opt_ex (\<lambda>m. anchor = m) mirror \<or>
              helper = launcher \<or> opt_ex (\<lambda>m. helper = m) mirror \<or> opt_ex (\<lambda>m. launcher = m) mirror,
              ''Linux cgroup producer roles alias one process identity'')]))))"

definition hasV2SupervisorFields ::
  "string \<Rightarrow> LinuxCgroupIdentity option \<Rightarrow> int \<Rightarrow> string \<Rightarrow> int \<Rightarrow> string \<Rightarrow> LinuxCgroupExitProof option \<Rightarrow>
   LinuxCgroupProcessIdentity option \<Rightarrow> bool" where
  "hasV2SupervisorFields targetBirthKind cgroup anchorPID anchorIdentity launcherPID launcherIdentity launcherExit mirror =
     (targetBirthKind \<noteq> [] \<or> cgroup \<noteq> None \<or> anchorPID \<noteq> 0 \<or> anchorIdentity \<noteq> [] \<or>
      launcherPID \<noteq> 0 \<or> launcherIdentity \<noteq> [] \<or> launcherExit \<noteq> None \<or> mirror \<noteq> None)"

definition Supervisor_Validate :: "Supervisor \<Rightarrow> gerror option" where
  "Supervisor_Validate v =
     (if su_Version v = 2 then checks [
        (validateV2SupervisorFields (su_LaunchToken v) (su_OwnerKind v) (su_OwnerContext v) (su_TargetPID v)
           (su_TargetIdentity v) (su_SupervisorPID v) (su_SupervisorIdentity v) (su_TargetBirthKind v) (su_OwnerUID v)
           (su_LauncherUID v) (su_CgroupIdentity v) (su_AnchorPID v) (su_AnchorIdentity v) (su_LauncherPID v)
           (su_LauncherIdentity v) (su_LauncherExit v) (su_Mirror v) (su_CreatorSessionID v) True \<noteq> None,
         ''supervisor authority is invalid''),
        (\<not> validLowerHex (su_Secret v) (SecretBytes * 2) \<or> \<not> validLowerHex (su_PipeToken v) (TokenBytes * 2) \<or>
         \<not> validLowerHex (su_JobID v) (TokenBytes * 2), ''supervisor authority token is invalid''),
        (opt_ex (\<lambda>r. \<not> StopReceipt_ValidFor r v) (su_StopReceipt v), ''supervisor authority stop receipt is invalid'')]
      else checks [
        (su_Version v \<noteq> 1 \<or> su_TargetPID v \<le> 0 \<or> su_SupervisorPID v \<le> 0 \<or> su_OwnerUID v \<noteq> 0 \<or> su_LauncherUID v \<noteq> 0 \<or>
         hasV2SupervisorFields (su_TargetBirthKind v) (su_CgroupIdentity v) (su_AnchorPID v) (su_AnchorIdentity v)
           (su_LauncherPID v) (su_LauncherIdentity v) (su_LauncherExit v) (su_Mirror v),
         ''supervisor authority is invalid''),
        (\<not> validOwner (su_OwnerKind v) (su_OwnerContext v), ''supervisor authority owner is invalid''),
        (su_OwnerKind v = OwnerKindLinuxHelper \<and> su_CreatorSessionID v \<noteq> None,
         ''Linux supervisor authority cannot carry a Windows creator session''),
        (\<not> validHex (su_Secret v) (SecretBytes * 2) \<or> \<not> validOptionalHex (su_LaunchToken v) (TokenBytes * 2) \<or>
         \<not> validHex (su_PipeToken v) (TokenBytes * 2) \<or> \<not> validHex (su_JobID v) (TokenBytes * 2),
         ''supervisor authority token is invalid''),
        (\<not> validBounded (su_TargetIdentity v) 4096 \<or> \<not> validBounded (su_SupervisorIdentity v) 4096,
         ''supervisor authority process identity is invalid''),
        (opt_ex (\<lambda>r. \<not> StopReceipt_ValidFor r v) (su_StopReceipt v), ''supervisor authority stop receipt is invalid'')])"

definition Supervisor_Equal :: "Supervisor \<Rightarrow> Supervisor \<Rightarrow> bool" where
  "Supervisor_Equal v w =
     (if su_Version v \<noteq> su_Version w \<or> su_Secret v \<noteq> su_Secret w \<or> su_LaunchToken v \<noteq> su_LaunchToken w \<or>
         su_OwnerKind v \<noteq> su_OwnerKind w \<or> su_OwnerContext v \<noteq> su_OwnerContext w \<or> su_TargetPID v \<noteq> su_TargetPID w \<or>
         su_TargetIdentity v \<noteq> su_TargetIdentity w \<or> su_PipeToken v \<noteq> su_PipeToken w \<or> su_JobID v \<noteq> su_JobID w \<or>
         su_SupervisorPID v \<noteq> su_SupervisorPID w \<or> su_SupervisorIdentity v \<noteq> su_SupervisorIdentity w \<or>
         su_TargetBirthKind v \<noteq> su_TargetBirthKind w \<or> su_OwnerUID v \<noteq> su_OwnerUID w \<or> su_LauncherUID v \<noteq> su_LauncherUID w \<or>
         su_AnchorPID v \<noteq> su_AnchorPID w \<or> su_AnchorIdentity v \<noteq> su_AnchorIdentity w \<or>
         su_LauncherPID v \<noteq> su_LauncherPID w \<or> su_LauncherIdentity v \<noteq> su_LauncherIdentity w \<or>
         \<not> eq_ptr (=) (su_CgroupIdentity v) (su_CgroupIdentity w) \<or>
         \<not> eq_ptr LinuxCgroupExitProof_Equal (su_LauncherExit v) (su_LauncherExit w) \<or>
         \<not> eq_ptr (=) (su_Mirror v) (su_Mirror w) \<or>
         \<not> eq_ptr (=) (su_CreatorSessionID v) (su_CreatorSessionID w)
      then False
      else eq_ptr equalStopReceipt (su_StopReceipt v) (su_StopReceipt w))"

subsection \<open>Handoffs\<close>

record SupervisorScanUpdate =
  sc_SupervisorPID :: int
  sc_SupervisorIdentity :: string
  sc_MirrorIdentity :: string
  sc_Owner :: string
  sc_Sequence :: "64 word"
  sc_Phase :: string
  sc_FailureKind :: string

record SupervisorHandoff =
  ho_Version :: int
  ho_LaunchToken :: string
  ho_Secret :: string
  ho_OwnerKind :: string
  ho_OwnerContext :: string
  ho_TargetPID :: int
  ho_TargetIdentity :: string
  ho_OwnerUID :: "32 word"
  ho_LauncherUID :: "32 word"
  ho_PipeToken :: string
  ho_JobID :: string
  ho_SupervisorPID :: int
  ho_SupervisorIdentity :: string
  ho_TargetBirthKind :: string
  ho_CgroupIdentity :: "LinuxCgroupIdentity option"
  ho_AnchorPID :: int
  ho_AnchorIdentity :: string
  ho_LauncherPID :: int
  ho_LauncherIdentity :: string
  ho_LauncherExit :: "LinuxCgroupExitProof option"
  ho_Mirror :: "LinuxCgroupProcessIdentity option"
  ho_CreatorSessionID :: "32 word option"
  ho_StopReceipt :: "StopReceipt option"
  ho_ScanUpdate :: "SupervisorScanUpdate option"

definition supervisorFromHandoff :: "SupervisorHandoff \<Rightarrow> Supervisor" where
  "supervisorFromHandoff v = \<lparr>
     su_Version = ho_Version v, su_Secret = ho_Secret v, su_LaunchToken = ho_LaunchToken v,
     su_OwnerKind = ho_OwnerKind v, su_OwnerContext = ho_OwnerContext v, su_TargetPID = ho_TargetPID v,
     su_TargetIdentity = ho_TargetIdentity v, su_OwnerUID = ho_OwnerUID v, su_LauncherUID = ho_LauncherUID v,
     su_PipeToken = ho_PipeToken v, su_JobID = ho_JobID v, su_SupervisorPID = ho_SupervisorPID v,
     su_SupervisorIdentity = ho_SupervisorIdentity v, su_TargetBirthKind = ho_TargetBirthKind v,
     su_CgroupIdentity = ho_CgroupIdentity v, su_AnchorPID = ho_AnchorPID v, su_AnchorIdentity = ho_AnchorIdentity v,
     su_LauncherPID = ho_LauncherPID v, su_LauncherIdentity = ho_LauncherIdentity v,
     su_LauncherExit = ho_LauncherExit v, su_Mirror = ho_Mirror v, su_CreatorSessionID = ho_CreatorSessionID v,
     su_StopReceipt = None \<rparr>"

definition StopReceipt_ValidForHandoff :: "StopReceipt \<Rightarrow> SupervisorHandoff \<Rightarrow> bool" where
  "StopReceipt_ValidForHandoff r v =
     (if ho_Version v = 2 then
        ho_SupervisorPID v > 0 \<and> ho_Mirror v \<noteq> None \<and> sr_Version r = 2 \<and> sr_Status r = ''stopped'' \<and> sr_ActiveProcesses r = 0 \<and>
        sr_OwnerKind r = ho_OwnerKind v \<and> sr_OwnerContext r = ho_OwnerContext v \<and>
        sr_TargetPID r = ho_TargetPID v \<and> sr_TargetIdentity r = ho_TargetIdentity v \<and>
        sr_OwnerUID r = ho_OwnerUID v \<and> sr_LauncherUID r = ho_LauncherUID v \<and>
        sr_PipeToken r = ho_PipeToken v \<and> sr_JobID r = ho_JobID v \<and>
        sr_SupervisorPID r = ho_SupervisorPID v \<and> sr_SupervisorIdentity r = ho_SupervisorIdentity v \<and>
        sr_TargetBirthKind r = ho_TargetBirthKind v \<and> eq_ptr (=) (sr_CgroupIdentity r) (ho_CgroupIdentity v) \<and>
        opt_ex (\<lambda>p. StopProof_ValidateFor p (supervisorFromHandoff v) = None) (sr_LinuxProof r)
      else
        sr_Version r = 1 \<and> sr_Status r = ''stopped'' \<and> sr_ActiveProcesses r = 0 \<and>
        sr_OwnerKind r = ho_OwnerKind v \<and> sr_OwnerContext r = ho_OwnerContext v \<and>
        sr_TargetPID r = ho_TargetPID v \<and> sr_TargetIdentity r = ho_TargetIdentity v \<and>
        sr_OwnerUID r = 0 \<and> sr_LauncherUID r = 0 \<and>
        sr_PipeToken r = ho_PipeToken v \<and> sr_JobID r = ho_JobID v \<and>
        sr_SupervisorPID r = ho_SupervisorPID v \<and> sr_SupervisorIdentity r = ho_SupervisorIdentity v \<and>
        sr_TargetBirthKind r = [] \<and> sr_CgroupIdentity r = None \<and> sr_LinuxProof r = None)"

definition SupervisorScanOwnerHelper :: string where "SupervisorScanOwnerHelper = ''helper''"
definition SupervisorScanOwnerMirror :: string where "SupervisorScanOwnerMirror = ''mirror''"

text \<open>The request-only part of \<^verbatim>\<open>SupervisorHandoff.Validate\<close> for a scan update.\<close>

definition validateScanUpdate :: "SupervisorHandoff \<Rightarrow> SupervisorScanUpdate \<Rightarrow> gerror option" where
  "validateScanUpdate v u = then_err (checks [
     (ho_OwnerKind v \<noteq> OwnerKindLinuxHelper \<or> ho_SupervisorPID v \<noteq> 0 \<or> ho_SupervisorIdentity v \<noteq> [] \<or>
      length (sc_MirrorIdentity u) \<noteq> TokenBytes * 2 \<or> \<not> validHex (sc_MirrorIdentity u) (TokenBytes * 2) \<or> sc_Sequence u = 0,
      ''supervisor scan update identity is invalid'')])
   (if sc_Phase u = ''initialize'' then checks [
      (sc_Owner u \<noteq> SupervisorScanOwnerMirror \<or> sc_Sequence u \<noteq> 1 \<or> sc_SupervisorPID u \<noteq> 0 \<or>
       sc_SupervisorIdentity u \<noteq> [] \<or> sc_FailureKind u \<noteq> [], ''supervisor mirror scan initialization is invalid'')]
    else then_err (checks [
      (sc_SupervisorPID u \<le> 0 \<or> \<not> validBounded (sc_SupervisorIdentity u) 4096 \<or>
       (sc_Owner u \<noteq> SupervisorScanOwnerHelper \<and> sc_Owner u \<noteq> SupervisorScanOwnerMirror),
       ''supervisor scan update owner identity is invalid'')])
     (if sc_Phase u \<in> {''begin'', ''clean'', ''retire'', ''seal'', ''assert_clean'', ''assert_sealed'', ''assert_all_sealed''}
      then checks [(sc_FailureKind u \<noteq> [], ''supervisor scan update has an unexpected failure kind'')]
      else if sc_Phase u = ''unproven''
      then checks [(\<not> validBounded (sc_FailureKind u) 128, ''supervisor scan update failure kind is invalid'')]
      else Some (Err ''supervisor scan update phase is invalid'')))"

definition SupervisorHandoff_Validate :: "SupervisorHandoff \<Rightarrow> gerror option" where
  "SupervisorHandoff_Validate v =
     (if ho_Version v = 2 then checks [
        (ho_ScanUpdate v \<noteq> None \<or>
         validateV2SupervisorFields (ho_LaunchToken v) (ho_OwnerKind v) (ho_OwnerContext v) (ho_TargetPID v)
           (ho_TargetIdentity v) (ho_SupervisorPID v) (ho_SupervisorIdentity v) (ho_TargetBirthKind v) (ho_OwnerUID v)
           (ho_LauncherUID v) (ho_CgroupIdentity v) (ho_AnchorPID v) (ho_AnchorIdentity v) (ho_LauncherPID v)
           (ho_LauncherIdentity v) (ho_LauncherExit v) (ho_Mirror v) (ho_CreatorSessionID v) False \<noteq> None,
         ''supervisor handoff is invalid''),
        (\<not> validLowerHex (ho_Secret v) (SecretBytes * 2) \<or> \<not> validLowerHex (ho_PipeToken v) (TokenBytes * 2) \<or>
         \<not> validLowerHex (ho_JobID v) (TokenBytes * 2), ''supervisor handoff token is invalid''),
        (opt_ex (\<lambda>r. ho_SupervisorPID v \<le> 0 \<or> ho_Mirror v = None \<or> \<not> StopReceipt_ValidForHandoff r v) (ho_StopReceipt v),
         ''supervisor handoff stop receipt is invalid'')]
      else then_err (checks [
        (ho_Version v \<noteq> 1 \<or> \<not> validHex (ho_LaunchToken v) (TokenBytes * 2) \<or> ho_TargetPID v \<le> 0,
         ''supervisor handoff is invalid''),
        (ho_OwnerUID v \<noteq> 0 \<or> ho_LauncherUID v \<noteq> 0 \<or>
         hasV2SupervisorFields (ho_TargetBirthKind v) (ho_CgroupIdentity v) (ho_AnchorPID v) (ho_AnchorIdentity v)
           (ho_LauncherPID v) (ho_LauncherIdentity v) (ho_LauncherExit v) (ho_Mirror v),
         ''supervisor handoff is invalid''),
        (\<not> validHex (ho_Secret v) (SecretBytes * 2) \<or> \<not> validHex (ho_PipeToken v) (TokenBytes * 2) \<or>
         \<not> validHex (ho_JobID v) (TokenBytes * 2), ''supervisor handoff token is invalid''),
        (\<not> validBounded (ho_TargetIdentity v) 4096, ''supervisor handoff target identity is invalid''),
        (\<not> validOwner (ho_OwnerKind v) (ho_OwnerContext v), ''supervisor handoff owner is invalid''),
        (ho_OwnerKind v = OwnerKindLinuxHelper \<and> ho_CreatorSessionID v \<noteq> None,
         ''Linux supervisor handoff cannot carry a Windows creator session''),
        ((ho_SupervisorPID v = 0) \<noteq> blank (ho_SupervisorIdentity v) \<or> ho_SupervisorPID v < 0 \<or>
         \<not> validOptionalBounded (ho_SupervisorIdentity v) 4096, ''supervisor handoff helper identity is invalid''),
        (opt_ex (\<lambda>r. ho_SupervisorPID v \<le> 0 \<or> \<not> StopReceipt_ValidForHandoff r v) (ho_StopReceipt v),
         ''supervisor handoff stop receipt is invalid'')])
       (case ho_ScanUpdate v of None \<Rightarrow> None | Some u \<Rightarrow> validateScanUpdate v u))"

definition ToSupervisor :: "SupervisorHandoff \<Rightarrow> Supervisor result" where
  "ToSupervisor v = on_err (SupervisorHandoff_Validate v) (on_err (checks [
     (ho_ScanUpdate v \<noteq> None, ''supervisor scan update is not a durable authority''),
     (ho_SupervisorPID v \<le> 0 \<or> blank (ho_SupervisorIdentity v), ''supervisor handoff helper identity is not bound'')])
   (let result = (supervisorFromHandoff v)\<lparr> su_StopReceipt := ho_StopReceipt v \<rparr>
    in on_err (Supervisor_Validate result) (Inr result)))"

definition SupervisorHandoff_Equal :: "SupervisorHandoff \<Rightarrow> SupervisorHandoff \<Rightarrow> bool" where
  "SupervisorHandoff_Equal v w =
     (if ho_Version v \<noteq> ho_Version w \<or> ho_LaunchToken v \<noteq> ho_LaunchToken w \<or> ho_Secret v \<noteq> ho_Secret w \<or>
         ho_OwnerKind v \<noteq> ho_OwnerKind w \<or> ho_OwnerContext v \<noteq> ho_OwnerContext w \<or> ho_TargetPID v \<noteq> ho_TargetPID w \<or>
         ho_TargetIdentity v \<noteq> ho_TargetIdentity w \<or> ho_PipeToken v \<noteq> ho_PipeToken w \<or> ho_JobID v \<noteq> ho_JobID w \<or>
         ho_SupervisorPID v \<noteq> ho_SupervisorPID w \<or> ho_SupervisorIdentity v \<noteq> ho_SupervisorIdentity w \<or>
         ho_TargetBirthKind v \<noteq> ho_TargetBirthKind w \<or> ho_OwnerUID v \<noteq> ho_OwnerUID w \<or> ho_LauncherUID v \<noteq> ho_LauncherUID w \<or>
         ho_AnchorPID v \<noteq> ho_AnchorPID w \<or> ho_AnchorIdentity v \<noteq> ho_AnchorIdentity w \<or>
         ho_LauncherPID v \<noteq> ho_LauncherPID w \<or> ho_LauncherIdentity v \<noteq> ho_LauncherIdentity w \<or>
         \<not> eq_ptr (=) (ho_CgroupIdentity v) (ho_CgroupIdentity w) \<or>
         \<not> eq_ptr LinuxCgroupExitProof_Equal (ho_LauncherExit v) (ho_LauncherExit w) \<or>
         \<not> eq_ptr (=) (ho_Mirror v) (ho_Mirror w) \<or>
         \<not> eq_ptr (=) (ho_CreatorSessionID v) (ho_CreatorSessionID w)
      then False
      else eq_ptr equalStopReceipt (ho_StopReceipt v) (ho_StopReceipt w))"

definition SameLaunch :: "SupervisorHandoff \<Rightarrow> SupervisorHandoff \<Rightarrow> bool" where
  "SameLaunch v w = (ho_Version v = ho_Version w \<and> ho_LaunchToken v = ho_LaunchToken w \<and> ho_Secret v = ho_Secret w \<and>
     ho_OwnerKind v = ho_OwnerKind w \<and> ho_OwnerContext v = ho_OwnerContext w \<and> ho_TargetPID v = ho_TargetPID w \<and>
     ho_TargetIdentity v = ho_TargetIdentity w \<and> ho_PipeToken v = ho_PipeToken w \<and> ho_JobID v = ho_JobID w \<and>
     ho_TargetBirthKind v = ho_TargetBirthKind w \<and> ho_OwnerUID v = ho_OwnerUID w \<and> ho_LauncherUID v = ho_LauncherUID w \<and>
     eq_ptr (=) (ho_CgroupIdentity v) (ho_CgroupIdentity w) \<and>
     ho_AnchorPID v = ho_AnchorPID w \<and> ho_AnchorIdentity v = ho_AnchorIdentity w \<and>
     ho_LauncherPID v = ho_LauncherPID w \<and> ho_LauncherIdentity v = ho_LauncherIdentity w \<and>
     eq_ptr LinuxCgroupExitProof_Equal (ho_LauncherExit v) (ho_LauncherExit w) \<and>
     eq_ptr (=) (ho_CreatorSessionID v) (ho_CreatorSessionID w))"

subsection \<open>Release and abort proofs of a handoff\<close>

record SupervisorHandoffReleaseProof =
  rp_Version :: int
  rp_Status :: string
  rp_LaunchToken :: string
  rp_OwnerKind :: string
  rp_OwnerContext :: string
  rp_TargetPID :: int
  rp_TargetIdentity :: string
  rp_OwnerUID :: "32 word"
  rp_LauncherUID :: "32 word"
  rp_PipeToken :: string
  rp_JobID :: string
  rp_SupervisorPID :: int
  rp_SupervisorIdentity :: string
  rp_TargetBirthKind :: string
  rp_CgroupIdentity :: "LinuxCgroupIdentity option"
  rp_AnchorPID :: int
  rp_AnchorIdentity :: string
  rp_LauncherPID :: int
  rp_LauncherIdentity :: string
  rp_LauncherExit :: "LinuxCgroupExitProof option"
  rp_Mirror :: "LinuxCgroupProcessIdentity option"
  rp_LeafDisposition :: string
  rp_StopReceipt :: "StopReceipt option"
  rp_CreatorSessionID :: "32 word option"

definition ReleaseProof_Equal :: "SupervisorHandoffReleaseProof \<Rightarrow> SupervisorHandoffReleaseProof \<Rightarrow> bool" where
  "ReleaseProof_Equal p q = (rp_Version p = rp_Version q \<and> rp_Status p = rp_Status q \<and> rp_LaunchToken p = rp_LaunchToken q \<and>
     rp_OwnerKind p = rp_OwnerKind q \<and> rp_OwnerContext p = rp_OwnerContext q \<and> rp_TargetPID p = rp_TargetPID q \<and>
     rp_TargetIdentity p = rp_TargetIdentity q \<and> rp_OwnerUID p = rp_OwnerUID q \<and> rp_LauncherUID p = rp_LauncherUID q \<and>
     rp_PipeToken p = rp_PipeToken q \<and> rp_JobID p = rp_JobID q \<and> rp_SupervisorPID p = rp_SupervisorPID q \<and>
     rp_SupervisorIdentity p = rp_SupervisorIdentity q \<and> rp_TargetBirthKind p = rp_TargetBirthKind q \<and>
     eq_ptr (=) (rp_CgroupIdentity p) (rp_CgroupIdentity q) \<and> rp_AnchorPID p = rp_AnchorPID q \<and>
     rp_AnchorIdentity p = rp_AnchorIdentity q \<and> rp_LauncherPID p = rp_LauncherPID q \<and>
     rp_LauncherIdentity p = rp_LauncherIdentity q \<and>
     eq_ptr LinuxCgroupExitProof_Equal (rp_LauncherExit p) (rp_LauncherExit q) \<and>
     eq_ptr (=) (rp_Mirror p) (rp_Mirror q) \<and> rp_LeafDisposition p = rp_LeafDisposition q \<and>
     eq_ptr equalStopReceipt (rp_StopReceipt p) (rp_StopReceipt q) \<and>
     eq_ptr (=) (rp_CreatorSessionID p) (rp_CreatorSessionID q))"

definition supervisorFromReleaseProof :: "SupervisorHandoffReleaseProof \<Rightarrow> Supervisor" where
  "supervisorFromReleaseProof p = \<lparr>
     su_Version = 2, su_Secret = [], su_LaunchToken = rp_LaunchToken p,
     su_OwnerKind = rp_OwnerKind p, su_OwnerContext = rp_OwnerContext p, su_TargetPID = rp_TargetPID p,
     su_TargetIdentity = rp_TargetIdentity p, su_OwnerUID = rp_OwnerUID p, su_LauncherUID = rp_LauncherUID p,
     su_PipeToken = rp_PipeToken p, su_JobID = rp_JobID p, su_SupervisorPID = rp_SupervisorPID p,
     su_SupervisorIdentity = rp_SupervisorIdentity p, su_TargetBirthKind = rp_TargetBirthKind p,
     su_CgroupIdentity = rp_CgroupIdentity p, su_AnchorPID = rp_AnchorPID p, su_AnchorIdentity = rp_AnchorIdentity p,
     su_LauncherPID = rp_LauncherPID p, su_LauncherIdentity = rp_LauncherIdentity p,
     su_LauncherExit = rp_LauncherExit p, su_Mirror = rp_Mirror p, su_CreatorSessionID = None,
     su_StopReceipt = rp_StopReceipt p \<rparr>"

definition ReleaseProof_Validate :: "SupervisorHandoffReleaseProof \<Rightarrow> gerror option" where
  "ReleaseProof_Validate p =
     (if rp_Version p = 2 then checks [
        (rp_Status p \<noteq> ''released'' \<or> \<not> validLowerHex (rp_LaunchToken p) (TokenBytes * 2) \<or>
         validateV2SupervisorFields (rp_LaunchToken p) (rp_OwnerKind p) (rp_OwnerContext p) (rp_TargetPID p)
           (rp_TargetIdentity p) (rp_SupervisorPID p) (rp_SupervisorIdentity p) (rp_TargetBirthKind p) (rp_OwnerUID p)
           (rp_LauncherUID p) (rp_CgroupIdentity p) (rp_AnchorPID p) (rp_AnchorIdentity p) (rp_LauncherPID p)
           (rp_LauncherIdentity p) (rp_LauncherExit p) (rp_Mirror p) (rp_CreatorSessionID p) True \<noteq> None \<or>
         (rp_LeafDisposition p \<noteq> LinuxCgroupLeafRemoved \<and> rp_LeafDisposition p \<noteq> LinuxCgroupLeafAbsentAfterReceipt),
         ''supervisor handoff release proof is invalid''),
        (\<not> validLowerHex (rp_PipeToken p) (TokenBytes * 2) \<or> \<not> validLowerHex (rp_JobID p) (TokenBytes * 2),
         ''supervisor handoff release proof is invalid''),
        (\<not> opt_ex (\<lambda>r. StopReceipt_ValidFor r (supervisorFromReleaseProof p)) (rp_StopReceipt p),
         ''supervisor handoff release proof lacks its exact durable stop receipt'')]
      else checks [
        (rp_Version p \<noteq> 1 \<or> rp_Status p \<noteq> ''released'' \<or> \<not> validHex (rp_LaunchToken p) (TokenBytes * 2) \<or>
         rp_TargetPID p \<le> 0 \<or> rp_SupervisorPID p < 0 \<or> \<not> validOwner (rp_OwnerKind p) (rp_OwnerContext p),
         ''supervisor handoff release proof is invalid''),
        (rp_OwnerUID p \<noteq> 0 \<or> rp_LauncherUID p \<noteq> 0 \<or> rp_StopReceipt p \<noteq> None \<or>
         hasV2SupervisorFields (rp_TargetBirthKind p) (rp_CgroupIdentity p) (rp_AnchorPID p) (rp_AnchorIdentity p)
           (rp_LauncherPID p) (rp_LauncherIdentity p) (rp_LauncherExit p) (rp_Mirror p) \<or> rp_LeafDisposition p \<noteq> [],
         ''supervisor handoff release proof is invalid''),
        (\<not> validHex (rp_PipeToken p) (TokenBytes * 2) \<or> \<not> validHex (rp_JobID p) (TokenBytes * 2) \<or>
         \<not> validBounded (rp_TargetIdentity p) 4096 \<or> (rp_SupervisorPID p = 0) \<noteq> blank (rp_SupervisorIdentity p) \<or>
         \<not> validOptionalBounded (rp_SupervisorIdentity p) 4096, ''supervisor handoff release proof is invalid''),
        (rp_OwnerKind p = OwnerKindLinuxHelper \<and> rp_CreatorSessionID p \<noteq> None,
         ''Linux supervisor release proof cannot carry a Windows creator session'')])"

definition ReleaseProof_ValidFor :: "SupervisorHandoffReleaseProof \<Rightarrow> SupervisorHandoff \<Rightarrow> bool" where
  "ReleaseProof_ValidFor p v =
     (if ho_Version v = 2 then
        rp_Version p = 2 \<and> rp_Status p = ''released'' \<and>
        rp_LaunchToken p = ho_LaunchToken v \<and> rp_OwnerKind p = ho_OwnerKind v \<and> rp_OwnerContext p = ho_OwnerContext v \<and>
        rp_TargetPID p = ho_TargetPID v \<and> rp_TargetIdentity p = ho_TargetIdentity v \<and>
        rp_OwnerUID p = ho_OwnerUID v \<and> rp_LauncherUID p = ho_LauncherUID v \<and>
        rp_PipeToken p = ho_PipeToken v \<and> rp_JobID p = ho_JobID v \<and>
        rp_SupervisorPID p = ho_SupervisorPID v \<and> rp_SupervisorIdentity p = ho_SupervisorIdentity v \<and>
        rp_TargetBirthKind p = ho_TargetBirthKind v \<and> eq_ptr (=) (rp_CgroupIdentity p) (ho_CgroupIdentity v) \<and>
        rp_AnchorPID p = ho_AnchorPID v \<and> rp_AnchorIdentity p = ho_AnchorIdentity v \<and>
        rp_LauncherPID p = ho_LauncherPID v \<and> rp_LauncherIdentity p = ho_LauncherIdentity v \<and>
        eq_ptr LinuxCgroupExitProof_Equal (rp_LauncherExit p) (ho_LauncherExit v) \<and>
        eq_ptr (=) (rp_Mirror p) (ho_Mirror v) \<and>
        (rp_LeafDisposition p = LinuxCgroupLeafRemoved \<or> rp_LeafDisposition p = LinuxCgroupLeafAbsentAfterReceipt) \<and>
        opt_ex (\<lambda>x. opt_ex (\<lambda>y. equalStopReceipt x y) (ho_StopReceipt v)) (rp_StopReceipt p)
      else
        rp_Version p = 1 \<and> rp_Status p = ''released'' \<and>
        rp_LaunchToken p = ho_LaunchToken v \<and> rp_OwnerKind p = ho_OwnerKind v \<and> rp_OwnerContext p = ho_OwnerContext v \<and>
        rp_TargetPID p = ho_TargetPID v \<and> rp_TargetIdentity p = ho_TargetIdentity v \<and>
        rp_PipeToken p = ho_PipeToken v \<and> rp_JobID p = ho_JobID v \<and>
        rp_SupervisorPID p = ho_SupervisorPID v \<and> rp_SupervisorIdentity p = ho_SupervisorIdentity v \<and>
        eq_ptr (=) (rp_CreatorSessionID p) (ho_CreatorSessionID v) \<and> rp_OwnerUID p = 0 \<and> rp_LauncherUID p = 0 \<and>
        rp_LeafDisposition p = [] \<and> rp_StopReceipt p = None \<and>
        \<not> hasV2SupervisorFields (rp_TargetBirthKind p) (rp_CgroupIdentity p) (rp_AnchorPID p) (rp_AnchorIdentity p)
            (rp_LauncherPID p) (rp_LauncherIdentity p) (rp_LauncherExit p) (rp_Mirror p))"

definition ReleaseProof_ValidForSupervisor :: "SupervisorHandoffReleaseProof \<Rightarrow> Supervisor \<Rightarrow> bool" where
  "ReleaseProof_ValidForSupervisor p v =
     (su_Version v = 2 \<and> rp_Version p = 2 \<and> rp_Status p = ''released'' \<and> rp_LaunchToken p = su_LaunchToken v \<and>
      rp_OwnerKind p = su_OwnerKind v \<and> rp_OwnerContext p = su_OwnerContext v \<and>
      rp_TargetPID p = su_TargetPID v \<and> rp_TargetIdentity p = su_TargetIdentity v \<and>
      rp_OwnerUID p = su_OwnerUID v \<and> rp_LauncherUID p = su_LauncherUID v \<and>
      rp_PipeToken p = su_PipeToken v \<and> rp_JobID p = su_JobID v \<and>
      rp_SupervisorPID p = su_SupervisorPID v \<and> rp_SupervisorIdentity p = su_SupervisorIdentity v \<and>
      rp_TargetBirthKind p = su_TargetBirthKind v \<and> eq_ptr (=) (rp_CgroupIdentity p) (su_CgroupIdentity v) \<and>
      rp_AnchorPID p = su_AnchorPID v \<and> rp_AnchorIdentity p = su_AnchorIdentity v \<and>
      rp_LauncherPID p = su_LauncherPID v \<and> rp_LauncherIdentity p = su_LauncherIdentity v \<and>
      eq_ptr LinuxCgroupExitProof_Equal (rp_LauncherExit p) (su_LauncherExit v) \<and>
      eq_ptr (=) (rp_Mirror p) (su_Mirror v) \<and>
      (rp_LeafDisposition p = LinuxCgroupLeafRemoved \<or> rp_LeafDisposition p = LinuxCgroupLeafAbsentAfterReceipt) \<and>
      opt_ex (\<lambda>x. opt_ex (\<lambda>y. equalStopReceipt x y) (su_StopReceipt v)) (rp_StopReceipt p))"

text \<open>\<^verbatim>\<open>SupervisorHandoff.ReleaseProof\<close>: the legacy proof of a version 1 handoff, the zero value for
  every other version.\<close>

definition Handoff_ReleaseProof :: "SupervisorHandoff \<Rightarrow> SupervisorHandoffReleaseProof" where
  "Handoff_ReleaseProof v = (let z = \<lparr>
       rp_Version = 0, rp_Status = [], rp_LaunchToken = [], rp_OwnerKind = [], rp_OwnerContext = [], rp_TargetPID = 0,
       rp_TargetIdentity = [], rp_OwnerUID = 0, rp_LauncherUID = 0, rp_PipeToken = [], rp_JobID = [],
       rp_SupervisorPID = 0, rp_SupervisorIdentity = [], rp_TargetBirthKind = [], rp_CgroupIdentity = None,
       rp_AnchorPID = 0, rp_AnchorIdentity = [], rp_LauncherPID = 0, rp_LauncherIdentity = [],
       rp_LauncherExit = None, rp_Mirror = None, rp_LeafDisposition = [], rp_StopReceipt = None,
       rp_CreatorSessionID = None \<rparr>
     in if ho_Version v \<noteq> 1 then z
        else z\<lparr> rp_Version := 1, rp_Status := ''released'', rp_LaunchToken := ho_LaunchToken v,
          rp_OwnerKind := ho_OwnerKind v, rp_OwnerContext := ho_OwnerContext v, rp_TargetPID := ho_TargetPID v,
          rp_TargetIdentity := ho_TargetIdentity v, rp_OwnerUID := ho_OwnerUID v, rp_LauncherUID := ho_LauncherUID v,
          rp_PipeToken := ho_PipeToken v, rp_JobID := ho_JobID v, rp_SupervisorPID := ho_SupervisorPID v,
          rp_SupervisorIdentity := ho_SupervisorIdentity v, rp_CreatorSessionID := ho_CreatorSessionID v \<rparr>)"

record SupervisorHandoffAbortProof =
  ap_Version :: int
  ap_Disposition :: string
  ap_LaunchToken :: string
  ap_JobID :: string
  ap_OwnerKind :: string
  ap_OwnerContext :: string
  ap_TargetPID :: int
  ap_TargetIdentity :: string
  ap_SupervisorPID :: int
  ap_SupervisorIdentity :: string
  ap_CreatorSessionID :: "32 word option"

definition AbortProof_Validate :: "SupervisorHandoffAbortProof \<Rightarrow> gerror option" where
  "AbortProof_Validate p = checks [
     (ap_Version p \<noteq> 1 \<or> ap_Disposition p \<noteq> ''preauth_aborted'' \<or> \<not> validHex (ap_LaunchToken p) (TokenBytes * 2) \<or>
      \<not> validHex (ap_JobID p) (TokenBytes * 2) \<or> ap_TargetPID p \<le> 0 \<or> ap_SupervisorPID p < 0 \<or>
      \<not> validOwner (ap_OwnerKind p) (ap_OwnerContext p), ''supervisor handoff abort proof is invalid''),
     (\<not> validBounded (ap_TargetIdentity p) 4096 \<or> (ap_SupervisorPID p = 0) \<noteq> blank (ap_SupervisorIdentity p) \<or>
      \<not> validOptionalBounded (ap_SupervisorIdentity p) 4096, ''supervisor handoff abort proof is invalid''),
     (ap_OwnerKind p = OwnerKindLinuxHelper \<and> ap_CreatorSessionID p \<noteq> None,
      ''Linux supervisor abort proof cannot carry a Windows creator session''),
     (ap_OwnerKind p \<noteq> OwnerKindLinuxHelper \<and> ap_CreatorSessionID p = None, ''supervisor handoff abort proof is invalid'')]"

definition AbortProof_ValidFor :: "SupervisorHandoffAbortProof \<Rightarrow> SupervisorHandoff \<Rightarrow> bool" where
  "AbortProof_ValidFor p v = (ho_Version v = 1 \<and> ap_Version p = 1 \<and> ap_Disposition p = ''preauth_aborted'' \<and>
     ap_LaunchToken p = ho_LaunchToken v \<and> ap_JobID p = ho_JobID v \<and> ap_OwnerKind p = ho_OwnerKind v \<and>
     ap_OwnerContext p = ho_OwnerContext v \<and> ap_TargetPID p = ho_TargetPID v \<and> ap_TargetIdentity p = ho_TargetIdentity v \<and>
     ap_SupervisorPID p = ho_SupervisorPID v \<and> ap_SupervisorIdentity p = ho_SupervisorIdentity v \<and>
     (ap_OwnerKind p = OwnerKindLinuxHelper \<or> (ap_CreatorSessionID p \<noteq> None \<and> ho_CreatorSessionID v \<noteq> None)) \<and>
     eq_ptr (=) (ap_CreatorSessionID p) (ho_CreatorSessionID v))"

subsection \<open>Equality methods are equality\<close>

lemma LinuxCgroupExitProof_Equal_iff [simp]: "LinuxCgroupExitProof_Equal x y = (x = y)"
  by (induction x y rule: LinuxCgroupExitProof_Equal.induct) (auto split: option.splits)

lemma eq_ptr_refl_eq [simp]: "eq_ptr (=) l r = (l = r)"
  by (rule eq_ptr_iff_eq) simp

lemma eq_ptr_exit [simp]: "eq_ptr LinuxCgroupExitProof_Equal l r = (l = r)"
  by (rule eq_ptr_iff_eq) simp

lemma GateProductionResult_Equal_iff [simp]: "GateProductionResult_Equal x y = (x = y)"
  by (cases x; cases y) (simp add: GateProductionResult_Equal_def)

lemma PreGateStopProof_Equal_iff [simp]: "PreGateStopProof_Equal x y = (x = y)"
  by (cases x; cases y) (simp add: PreGateStopProof_Equal_def)

lemma PreGateStopReceipt_Equal_iff [simp]: "PreGateStopReceipt_Equal x y = (x = y)"
  by (cases x; cases y) (simp add: PreGateStopReceipt_Equal_def)

lemma PreGateReleaseProof_Equal_iff [simp]: "PreGateReleaseProof_Equal x y = (x = y)"
  by (cases x; cases y) (simp add: PreGateReleaseProof_Equal_def)

lemma GateIdentity_Equal_iff [simp]: "GateIdentity_Equal x y = (x = y)"
  by (cases x; cases y) (simp add: GateIdentity_Equal_def)

lemma ReservationAbortProof_Equal_iff [simp]: "ReservationAbortProof_Equal x y = (x = y)"
  by (cases x; cases y) (simp add: ReservationAbortProof_Equal_def)

lemma StopProof_Equal_iff [simp]: "StopProof_Equal x y = (x = y)"
  by (cases x; cases y) (auto simp: StopProof_Equal_def)

lemma eq_ptr_stop_proof [simp]: "eq_ptr StopProof_Equal l r = (l = r)"
  by (rule eq_ptr_iff_eq) simp

lemma equalStopReceipt_iff [simp]: "equalStopReceipt x y = (x = y)"
  by (cases x; cases y) (simp add: equalStopReceipt_def conj_ac)

lemma eq_ptr_stop_receipt [simp]: "eq_ptr equalStopReceipt l r = (l = r)"
  by (rule eq_ptr_iff_eq) simp

lemma Supervisor_Equal_iff [simp]: "Supervisor_Equal x y = (x = y)"
  by (cases x; cases y) (simp add: Supervisor_Equal_def if_False_neg conj_ac)

lemma ReleaseProof_Equal_iff [simp]: "ReleaseProof_Equal x y = (x = y)"
  by (cases x; cases y) (simp add: ReleaseProof_Equal_def)

text \<open>A handoff comparison ignores only the request-only scan update.\<close>

lemma SupervisorHandoff_Equal_iff: "SupervisorHandoff_Equal x y = (x\<lparr> ho_ScanUpdate := None \<rparr> = y\<lparr> ho_ScanUpdate := None \<rparr>)"
  by (cases x; cases y) (simp add: SupervisorHandoff_Equal_def if_False_neg conj_ac)

end
