(* ===== verification/Authority_Clone.thy ===== *)
theory Authority_Clone
  imports Authority_Supervisor Sha256
begin

text \<open>
  The clone-workspace structs of \<^verbatim>\<open>internal/authority\<close>: the intent for one B-owned clone, its
  seed, checkout and promotion receipts, the abort proof, and the cleanup intent with its
  removal and final proofs.  The run-keyed refs are derived with SHA-256.
\<close>

subsection \<open>Shape predicates\<close>

definition isASCIIAlphaNumeric :: "char \<Rightarrow> bool" where
  "isASCIIAlphaNumeric c = (let n = of_char c :: nat in
     (65 \<le> n \<and> n \<le> 90) \<or> (97 \<le> n \<and> n \<le> 122) \<or> (48 \<le> n \<and> n \<le> 57))"

definition validLinuxCloneRunID :: "string \<Rightarrow> bool" where
  "validLinuxCloneRunID v =
     (if length v = 0 \<or> length v > 128 \<or> \<not> isASCIIAlphaNumeric (v ! 0) then False
      else list_all (\<lambda>c. isASCIIAlphaNumeric c \<or> c = CHR ''.'' \<or> c = CHR ''_'' \<or> c = CHR ''-'') (tl v))"

definition validLinuxCloneGitObjectID :: "string \<Rightarrow> bool" where
  "validLinuxCloneGitObjectID v = ((length v = 40 \<or> length v = 64) \<and> validLowerHex v (length v))"

text \<open>The loop \<^verbatim>\<open>for index := range value\<close> steps by code point and tests the byte at each start; a
  byte that starts no code point belongs to a code point whose first byte fails the test.\<close>

definition lower_hex_byte :: "char \<Rightarrow> bool" where
  "lower_hex_byte c = (let n = of_char c :: nat in (48 \<le> n \<and> n \<le> 57) \<or> (97 \<le> n \<and> n \<le> 102))"

definition validLinuxCloneResourceID :: "string \<Rightarrow> bool" where
  "validLinuxCloneResourceID v =
     (if length v \<noteq> 36 \<or> v ! 8 \<noteq> CHR ''-'' \<or> v ! 13 \<noteq> CHR ''-'' \<or> v ! 18 \<noteq> CHR ''-'' \<or> v ! 23 \<noteq> CHR ''-'' then False
      else list_all (\<lambda>i. i = 8 \<or> i = 13 \<or> i = 18 \<or> i = 23 \<or> lower_hex_byte (v ! i)) [0..<36])"

definition validLinuxCloneDigest :: "string \<Rightarrow> bool" where
  "validLinuxCloneDigest v = (length v = length ''sha256:'' + 64 \<and> HasPrefix v ''sha256:'' \<and>
     validLowerHex (drop (length ''sha256:'') v) 64)"

definition validLinuxClonePath :: "string \<Rightarrow> bool" where
  "validLinuxClonePath v = (length v > 1 \<and> length v \<le> 32768 \<and> path_IsAbs v \<and> path_Clean v = v \<and>
     \<not> ContainsAny v [CHR 0x00, CHR 0x0D, CHR 0x0A])"

definition linuxClonePathsOverlap :: "string \<Rightarrow> string \<Rightarrow> bool" where
  "linuxClonePathsOverlap l r = (l = r \<or> HasPrefix l (r @ ''/'') \<or> HasPrefix r (l @ ''/''))"

definition promoted_prefix :: string where
  "promoted_prefix = ''refs/heads/symmetry/clone-v2/promoted/''"

definition base_prefix :: string where
  "base_prefix = ''refs/heads/symmetry/clone-v2/base/''"

definition validLinuxClonePromotionRef :: "string \<Rightarrow> bool" where
  "validLinuxClonePromotionRef v =
     (if \<not> HasPrefix v promoted_prefix then False else validLowerHex (TrimPrefix v promoted_prefix) 64)"

definition LinuxCloneRunKeyHash :: "string \<Rightarrow> int \<Rightarrow> string result" where
  "LinuxCloneRunKeyHash runID generation =
     on_err (checks [(\<not> validLinuxCloneRunID runID \<or> generation \<le> 0, ''Linux clone RunKey is invalid'')])
       (Inr (sha_hex (runID @ [CHR 0x00] @ FormatInt generation)))"

definition LinuxCloneBaseRef :: "string \<Rightarrow> int \<Rightarrow> string result" where
  "LinuxCloneBaseRef runID generation =
     bind_r (LinuxCloneRunKeyHash runID generation) (\<lambda>h. Inr (base_prefix @ h))"

definition LinuxClonePromotionRef :: "string \<Rightarrow> int \<Rightarrow> string result" where
  "LinuxClonePromotionRef runID generation =
     bind_r (LinuxCloneRunKeyHash runID generation) (\<lambda>h. Inr (promoted_prefix @ h))"

subsection \<open>Intent and receipts\<close>

record LinuxCloneIntent =
  li_Version :: int
  li_RunID :: string
  li_Generation :: int
  li_BindingKey :: string
  li_ResourceID :: string
  li_BaseCommit :: string
  li_BaseTreeDigest :: string
  li_Nonce :: string
  li_SeedPath :: string
  li_Target :: string

definition linuxCloneWorkspaceRootFromIntent :: "LinuxCloneIntent \<Rightarrow> string result" where
  "linuxCloneWorkspaceRootFromIntent v =
     (let suffix = ''/binding-'' @ li_BindingKey v @ ''/run-'' @ li_RunID v @ ''/generation-'' @ FormatInt (li_Generation v) in
      on_err (checks [(\<not> HasSuffix (li_Target v) suffix,
                       ''Linux clone Target does not follow the deterministic RunRef layout'')])
      (let root0 = TrimSuffix (li_Target v) suffix;
           root = (if root0 = [] then ''/'' else root0) in
       on_err (checks [(\<not> validLinuxClonePath root \<or> root = ''/'', ''Linux clone workspace root is invalid'')])
         (Inr root)))"

definition LinuxCloneIntent_validate :: "bool \<Rightarrow> LinuxCloneIntent \<Rightarrow> gerror option" where
  "LinuxCloneIntent_validate requireRunRefLayout v = checks [
     (li_Version v \<noteq> 2 \<or> \<not> validLinuxCloneRunID (li_RunID v) \<or> li_Generation v \<le> 0 \<or>
      \<not> validLinuxCloneRunID (li_BindingKey v) \<or> \<not> validLinuxCloneResourceID (li_ResourceID v) \<or>
      \<not> validLinuxCloneGitObjectID (li_BaseCommit v) \<or> \<not> validLinuxCloneDigest (li_BaseTreeDigest v) \<or>
      \<not> validLowerHex (li_Nonce v) 64 \<or> \<not> validLinuxClonePath (li_SeedPath v) \<or> \<not> validLinuxClonePath (li_Target v) \<or>
      linuxClonePathsOverlap (li_SeedPath v) (li_Target v), ''Linux clone intent is invalid''),
     (requireRunRefLayout \<and> isl (linuxCloneWorkspaceRootFromIntent v),
      ''Linux clone target does not match its binding RunRef layout'')]"

definition LinuxCloneIntent_Validate :: "LinuxCloneIntent \<Rightarrow> gerror option" where
  "LinuxCloneIntent_Validate v = LinuxCloneIntent_validate True v"

definition LinuxCloneIntent_ValidateForJournal :: "LinuxCloneIntent \<Rightarrow> gerror option" where
  "LinuxCloneIntent_ValidateForJournal v = LinuxCloneIntent_validate False v"

definition LinuxCloneIntent_Equal :: "LinuxCloneIntent \<Rightarrow> LinuxCloneIntent \<Rightarrow> bool" where
  "LinuxCloneIntent_Equal v w = (li_Version v = li_Version w \<and> li_RunID v = li_RunID w \<and>
     li_Generation v = li_Generation w \<and> li_BindingKey v = li_BindingKey w \<and> li_ResourceID v = li_ResourceID w \<and>
     li_BaseCommit v = li_BaseCommit w \<and> li_BaseTreeDigest v = li_BaseTreeDigest w \<and> li_Nonce v = li_Nonce w \<and>
     li_SeedPath v = li_SeedPath w \<and> li_Target v = li_Target w)"

definition LinuxCloneWorkspaceRoot :: "LinuxCloneIntent \<Rightarrow> string result" where
  "LinuxCloneWorkspaceRoot v = on_err (LinuxCloneIntent_Validate v) (linuxCloneWorkspaceRootFromIntent v)"

record LinuxCloneSeedReceipt =
  ls_Version :: int
  ls_BaseCommit :: string
  ls_Digest :: string
  ls_Size :: int
  ls_Device :: "64 word"
  ls_Inode :: "64 word"

definition LinuxCloneMaxSeedBytes :: int where "LinuxCloneMaxSeedBytes = 512 * 2 ^ 20"

definition SeedReceipt_Validate :: "LinuxCloneSeedReceipt \<Rightarrow> gerror option" where
  "SeedReceipt_Validate v = checks [
     (ls_Version v \<noteq> 2 \<or> \<not> validLinuxCloneGitObjectID (ls_BaseCommit v) \<or> \<not> validLinuxCloneDigest (ls_Digest v) \<or>
      ls_Size v \<le> 0 \<or> ls_Size v > LinuxCloneMaxSeedBytes \<or> ls_Inode v = 0, ''Linux clone seed receipt is invalid'')]"

definition SeedReceipt_Equal :: "LinuxCloneSeedReceipt \<Rightarrow> LinuxCloneSeedReceipt \<Rightarrow> bool" where
  "SeedReceipt_Equal v w = (ls_Version v = ls_Version w \<and> ls_BaseCommit v = ls_BaseCommit w \<and> ls_Digest v = ls_Digest w \<and>
     ls_Size v = ls_Size w \<and> ls_Device v = ls_Device w \<and> ls_Inode v = ls_Inode w)"

record LinuxCloneGrant =
  lg_Intent :: LinuxCloneIntent
  lg_Seed :: LinuxCloneSeedReceipt

definition LinuxCloneGrant_Validate :: "LinuxCloneGrant \<Rightarrow> gerror option" where
  "LinuxCloneGrant_Validate v = checks [
     (LinuxCloneIntent_Validate (lg_Intent v) \<noteq> None \<or> SeedReceipt_Validate (lg_Seed v) \<noteq> None \<or>
      ls_BaseCommit (lg_Seed v) \<noteq> li_BaseCommit (lg_Intent v), ''Linux clone grant is invalid'')]"

definition LinuxCloneGrant_Equal :: "LinuxCloneGrant \<Rightarrow> LinuxCloneGrant \<Rightarrow> bool" where
  "LinuxCloneGrant_Equal v w =
     (LinuxCloneIntent_Equal (lg_Intent v) (lg_Intent w) \<and> SeedReceipt_Equal (lg_Seed v) (lg_Seed w))"

record LinuxCloneCheckoutReceipt =
  lc_Version :: int
  lc_RunID :: string
  lc_Generation :: int
  lc_BindingKey :: string
  lc_ResourceID :: string
  lc_Target :: string
  lc_Nonce :: string
  lc_SeedDigest :: string
  lc_BaseCommit :: string
  lc_TargetDevice :: "64 word"
  lc_TargetInode :: "64 word"

definition CheckoutReceipt_Validate :: "LinuxCloneCheckoutReceipt \<Rightarrow> gerror option" where
  "CheckoutReceipt_Validate v = checks [
     (lc_Version v \<noteq> 2 \<or> \<not> validLinuxCloneRunID (lc_RunID v) \<or> lc_Generation v \<le> 0 \<or>
      \<not> validLinuxCloneRunID (lc_BindingKey v) \<or> \<not> validLinuxCloneResourceID (lc_ResourceID v) \<or>
      \<not> validLinuxClonePath (lc_Target v) \<or> \<not> validLowerHex (lc_Nonce v) 64 \<or> \<not> validLinuxCloneDigest (lc_SeedDigest v) \<or>
      \<not> validLinuxCloneGitObjectID (lc_BaseCommit v) \<or> lc_TargetInode v = 0, ''Linux clone checkout receipt is invalid'')]"

definition CheckoutReceipt_Equal :: "LinuxCloneCheckoutReceipt \<Rightarrow> LinuxCloneCheckoutReceipt \<Rightarrow> bool" where
  "CheckoutReceipt_Equal v w = (lc_Version v = lc_Version w \<and> lc_RunID v = lc_RunID w \<and>
     lc_Generation v = lc_Generation w \<and> lc_BindingKey v = lc_BindingKey w \<and> lc_ResourceID v = lc_ResourceID w \<and>
     lc_Target v = lc_Target w \<and> lc_Nonce v = lc_Nonce w \<and> lc_SeedDigest v = lc_SeedDigest w \<and>
     lc_BaseCommit v = lc_BaseCommit w \<and> lc_TargetDevice v = lc_TargetDevice w \<and> lc_TargetInode v = lc_TargetInode w)"

record LinuxClonePromotionReceipt =
  lp_Version :: int
  lp_Commit :: string
  lp_TreeDigest :: string
  lp_Ref :: string

definition PromotionReceipt_Validate :: "LinuxClonePromotionReceipt \<Rightarrow> gerror option" where
  "PromotionReceipt_Validate v = checks [
     (lp_Version v \<noteq> 2 \<or> \<not> validLinuxCloneGitObjectID (lp_Commit v) \<or> \<not> validLinuxCloneDigest (lp_TreeDigest v) \<or>
      \<not> validLinuxClonePromotionRef (lp_Ref v), ''Linux clone promotion receipt is invalid'')]"

definition PromotionReceipt_Equal :: "LinuxClonePromotionReceipt \<Rightarrow> LinuxClonePromotionReceipt \<Rightarrow> bool" where
  "PromotionReceipt_Equal v w = (lp_Version v = lp_Version w \<and> lp_Commit v = lp_Commit w \<and>
     lp_TreeDigest v = lp_TreeDigest w \<and> lp_Ref v = lp_Ref w)"

record LinuxClonePromotionIntent =
  ln_Version :: int
  ln_ResourceID :: string
  ln_Commit :: string
  ln_TreeDigest :: string

definition PromotionIntent_Validate :: "LinuxClonePromotionIntent \<Rightarrow> gerror option" where
  "PromotionIntent_Validate v = checks [
     (ln_Version v \<noteq> 2 \<or> \<not> validLinuxCloneResourceID (ln_ResourceID v) \<or> \<not> validLinuxCloneGitObjectID (ln_Commit v) \<or>
      \<not> validLinuxCloneDigest (ln_TreeDigest v), ''Linux clone promotion intent is invalid'')]"

definition PromotionIntent_Equal :: "LinuxClonePromotionIntent \<Rightarrow> LinuxClonePromotionIntent \<Rightarrow> bool" where
  "PromotionIntent_Equal v w = (ln_Version v = ln_Version w \<and> ln_ResourceID v = ln_ResourceID w \<and>
     ln_Commit v = ln_Commit w \<and> ln_TreeDigest v = ln_TreeDigest w)"

subsection \<open>Abort proof\<close>

record LinuxCloneAbortProof =
  la_Version :: int
  la_Intent :: LinuxCloneIntent
  la_SeedReceipt :: "LinuxCloneSeedReceipt option"
  la_PreGateReleaseProof :: "LinuxCgroupPreGateReleaseProof option"
  la_CgroupAbortProof :: "LinuxCgroupReservationAbortProof option"
  la_NormalReleaseProof :: "SupervisorHandoffReleaseProof option"
  la_BaseRef :: string
  la_PromotionRef :: string
  la_TargetAbsent :: bool
  la_SeedAbsent :: bool
  la_BaseRefAbsent :: bool
  la_PromotionRefAbsent :: bool

definition countLinuxCloneAbortHistories :: "LinuxCloneAbortProof \<Rightarrow> nat" where
  "countLinuxCloneAbortHistories p =
     (if la_PreGateReleaseProof p \<noteq> None then 1 else 0) + (if la_CgroupAbortProof p \<noteq> None then 1 else 0) +
     (if la_NormalReleaseProof p \<noteq> None then 1 else 0)"

definition LinuxCloneAbortProof_validate :: "bool \<Rightarrow> LinuxCloneAbortProof \<Rightarrow> gerror option" where
  "LinuxCloneAbortProof_validate allowLegacy p =
     (let baseRef = LinuxCloneBaseRef (li_RunID (la_Intent p)) (li_Generation (la_Intent p));
          promotionRef = LinuxClonePromotionRef (li_RunID (la_Intent p)) (li_Generation (la_Intent p));
          intentErr = (if allowLegacy then LinuxCloneIntent_ValidateForJournal (la_Intent p)
                       else LinuxCloneIntent_Validate (la_Intent p))
      in checks [
       (la_Version p \<noteq> 2 \<or> intentErr \<noteq> None \<or> isl baseRef \<or> isl promotionRef \<or>
        Inr (la_BaseRef p) \<noteq> baseRef \<or> Inr (la_PromotionRef p) \<noteq> promotionRef \<or> \<not> la_TargetAbsent p \<or> \<not> la_SeedAbsent p \<or>
        \<not> la_BaseRefAbsent p \<or> \<not> la_PromotionRefAbsent p \<or> countLinuxCloneAbortHistories p > 1 \<or>
        opt_ex (\<lambda>s. SeedReceipt_Validate s \<noteq> None \<or> ls_BaseCommit s \<noteq> li_BaseCommit (la_Intent p)) (la_SeedReceipt p) \<or>
        opt_ex (\<lambda>x. PreGateReleaseProof_Validate x \<noteq> None) (la_PreGateReleaseProof p) \<or>
        opt_ex (\<lambda>x. ReservationAbortProof_Validate x \<noteq> None) (la_CgroupAbortProof p) \<or>
        opt_ex (\<lambda>x. ReleaseProof_Validate x \<noteq> None \<or> rp_Version x \<noteq> 2 \<or> rp_StopReceipt x = None \<or> \<not> allowLegacy)
          (la_NormalReleaseProof p), ''Linux clone abort proof is invalid'')])"

definition LinuxCloneAbortProof_Validate :: "LinuxCloneAbortProof \<Rightarrow> gerror option" where
  "LinuxCloneAbortProof_Validate p = LinuxCloneAbortProof_validate False p"

definition LinuxCloneAbortProof_ValidateForJournal :: "LinuxCloneAbortProof \<Rightarrow> gerror option" where
  "LinuxCloneAbortProof_ValidateForJournal p = LinuxCloneAbortProof_validate True p"

definition LinuxCloneAbortProof_Equal :: "LinuxCloneAbortProof \<Rightarrow> LinuxCloneAbortProof \<Rightarrow> bool" where
  "LinuxCloneAbortProof_Equal p q = (la_Version p = la_Version q \<and> LinuxCloneIntent_Equal (la_Intent p) (la_Intent q) \<and>
     eq_ptr SeedReceipt_Equal (la_SeedReceipt p) (la_SeedReceipt q) \<and>
     eq_ptr PreGateReleaseProof_Equal (la_PreGateReleaseProof p) (la_PreGateReleaseProof q) \<and>
     eq_ptr ReservationAbortProof_Equal (la_CgroupAbortProof p) (la_CgroupAbortProof q) \<and>
     eq_ptr ReleaseProof_Equal (la_NormalReleaseProof p) (la_NormalReleaseProof q) \<and>
     la_BaseRef p = la_BaseRef q \<and> la_PromotionRef p = la_PromotionRef q \<and>
     la_TargetAbsent p = la_TargetAbsent q \<and> la_SeedAbsent p = la_SeedAbsent q \<and>
     la_BaseRefAbsent p = la_BaseRefAbsent q \<and> la_PromotionRefAbsent p = la_PromotionRefAbsent q)"

subsection \<open>Cleanup\<close>

record LinuxCloneCleanupIntent =
  lk_Version :: int
  lk_Intent :: LinuxCloneIntent
  lk_FenceDigest :: string
  lk_RootPath :: string
  lk_BaseRef :: string
  lk_SeedReceipt :: LinuxCloneSeedReceipt
  lk_CheckoutReceipt :: LinuxCloneCheckoutReceipt
  lk_PromotionIntent :: LinuxClonePromotionIntent
  lk_PromotionReceipt :: LinuxClonePromotionReceipt
  lk_NormalReleaseProof :: SupervisorHandoffReleaseProof
  lk_ArtifactEvidenceID :: string
  lk_ArtifactEvidenceKey :: string
  lk_ArtifactSubjectHash :: string
  lk_ArtifactDeliveryDigest :: string

definition CleanupIntent_Validate :: "LinuxCloneCleanupIntent \<Rightarrow> gerror option" where
  "CleanupIntent_Validate v =
     (let it = lk_Intent v;
          root = LinuxCloneWorkspaceRoot it;
          baseRef = LinuxCloneBaseRef (li_RunID it) (li_Generation it);
          promotionRef = LinuxClonePromotionRef (li_RunID it) (li_Generation it)
      in checks [
       (lk_Version v \<noteq> 2 \<or> LinuxCloneIntent_Validate it \<noteq> None \<or> isl root \<or>
        Inr (lk_RootPath v) \<noteq> root \<or> isl baseRef \<or> isl promotionRef \<or> Inr (lk_BaseRef v) \<noteq> baseRef \<or>
        \<not> validLinuxCloneDigest (lk_FenceDigest v) \<or>
        SeedReceipt_Validate (lk_SeedReceipt v) \<noteq> None \<or> ls_BaseCommit (lk_SeedReceipt v) \<noteq> li_BaseCommit it \<or>
        CheckoutReceipt_Validate (lk_CheckoutReceipt v) \<noteq> None \<or>
        \<not> CheckoutReceipt_Equal (lk_CheckoutReceipt v) \<lparr>
            lc_Version = 2, lc_RunID = li_RunID it, lc_Generation = li_Generation it,
            lc_BindingKey = li_BindingKey it, lc_ResourceID = li_ResourceID it, lc_Target = li_Target it,
            lc_Nonce = li_Nonce it, lc_SeedDigest = ls_Digest (lk_SeedReceipt v), lc_BaseCommit = li_BaseCommit it,
            lc_TargetDevice = lc_TargetDevice (lk_CheckoutReceipt v), lc_TargetInode = lc_TargetInode (lk_CheckoutReceipt v) \<rparr> \<or>
        PromotionIntent_Validate (lk_PromotionIntent v) \<noteq> None \<or>
        ln_ResourceID (lk_PromotionIntent v) \<noteq> li_ResourceID it \<or>
        length (ln_Commit (lk_PromotionIntent v)) \<noteq> length (li_BaseCommit it) \<or>
        PromotionReceipt_Validate (lk_PromotionReceipt v) \<noteq> None \<or>
        lp_Commit (lk_PromotionReceipt v) \<noteq> ln_Commit (lk_PromotionIntent v) \<or>
        lp_TreeDigest (lk_PromotionReceipt v) \<noteq> ln_TreeDigest (lk_PromotionIntent v) \<or>
        Inr (lp_Ref (lk_PromotionReceipt v)) \<noteq> promotionRef \<or>
        ReleaseProof_Validate (lk_NormalReleaseProof v) \<noteq> None \<or> rp_Version (lk_NormalReleaseProof v) \<noteq> 2 \<or>
        rp_StopReceipt (lk_NormalReleaseProof v) = None \<or> \<not> validLinuxCloneResourceID (lk_ArtifactEvidenceID v) \<or>
        \<not> validBounded (lk_ArtifactEvidenceKey v) 4096 \<or> \<not> validLinuxCloneDigest (lk_ArtifactSubjectHash v) \<or>
        \<not> validLowerHex (lk_ArtifactDeliveryDigest v) 64, ''Linux clone cleanup intent is invalid'')])"

definition CleanupIntent_Equal :: "LinuxCloneCleanupIntent \<Rightarrow> LinuxCloneCleanupIntent \<Rightarrow> bool" where
  "CleanupIntent_Equal v w = (lk_Version v = lk_Version w \<and> LinuxCloneIntent_Equal (lk_Intent v) (lk_Intent w) \<and>
     lk_FenceDigest v = lk_FenceDigest w \<and> lk_RootPath v = lk_RootPath w \<and> lk_BaseRef v = lk_BaseRef w \<and>
     SeedReceipt_Equal (lk_SeedReceipt v) (lk_SeedReceipt w) \<and>
     CheckoutReceipt_Equal (lk_CheckoutReceipt v) (lk_CheckoutReceipt w) \<and>
     PromotionIntent_Equal (lk_PromotionIntent v) (lk_PromotionIntent w) \<and>
     PromotionReceipt_Equal (lk_PromotionReceipt v) (lk_PromotionReceipt w) \<and>
     ReleaseProof_Equal (lk_NormalReleaseProof v) (lk_NormalReleaseProof w) \<and>
     lk_ArtifactEvidenceID v = lk_ArtifactEvidenceID w \<and> lk_ArtifactEvidenceKey v = lk_ArtifactEvidenceKey w \<and>
     lk_ArtifactSubjectHash v = lk_ArtifactSubjectHash w \<and> lk_ArtifactDeliveryDigest v = lk_ArtifactDeliveryDigest w)"

record LinuxCloneTargetRemovalProof =
  lt_Version :: int
  lt_Intent :: LinuxCloneCleanupIntent
  lt_RootDevice :: "64 word"
  lt_RootInode :: "64 word"
  lt_TargetDevice :: "64 word"
  lt_TargetInode :: "64 word"
  lt_Disposition :: string
  lt_PathRewalkVerified :: bool
  lt_BOwnedMountConfined :: bool
  lt_TargetNlinkZero :: bool
  lt_RootDeleterUID :: "32 word"
  lt_RootDeleter :: LinuxCgroupProcessIdentity
  lt_RootDeleterExit :: LinuxCgroupExitProof

definition TargetRemovalProof_Validate :: "LinuxCloneTargetRemovalProof \<Rightarrow> gerror option" where
  "TargetRemovalProof_Validate p =
     (let witness = \<lparr> pi_PID = rp_AnchorPID (lk_NormalReleaseProof (lt_Intent p)),
                      pi_Identity = rp_AnchorIdentity (lk_NormalReleaseProof (lt_Intent p)) \<rparr>
      in checks [
       (lt_Version p \<noteq> 2 \<or> CleanupIntent_Validate (lt_Intent p) \<noteq> None \<or> lt_RootInode p = 0 \<or>
        lt_TargetDevice p \<noteq> lc_TargetDevice (lk_CheckoutReceipt (lt_Intent p)) \<or>
        lt_TargetInode p \<noteq> lc_TargetInode (lk_CheckoutReceipt (lt_Intent p)) \<or> lt_TargetInode p = 0 \<or>
        lt_Disposition p \<noteq> ''removed'' \<or> \<not> lt_TargetNlinkZero p \<or>
        \<not> lt_PathRewalkVerified p \<or> \<not> lt_BOwnedMountConfined p \<or> lt_RootDeleterUID p \<noteq> 0 \<or>
        LinuxCgroupProcessIdentity_Validate (lt_RootDeleter p) \<noteq> None \<or>
        LinuxCgroupExitProof_Validate (lt_RootDeleterExit p) \<noteq> None \<or>
        lt_RootDeleter p = witness \<or> \<not> LinuxCgroupExitProof_ValidFor (lt_RootDeleterExit p) (lt_RootDeleter p) witness,
        ''Linux clone target removal proof is invalid'')])"

definition TargetRemovalProof_Equal :: "LinuxCloneTargetRemovalProof \<Rightarrow> LinuxCloneTargetRemovalProof \<Rightarrow> bool" where
  "TargetRemovalProof_Equal p q = (lt_Version p = lt_Version q \<and> CleanupIntent_Equal (lt_Intent p) (lt_Intent q) \<and>
     lt_RootDevice p = lt_RootDevice q \<and> lt_RootInode p = lt_RootInode q \<and>
     lt_TargetDevice p = lt_TargetDevice q \<and> lt_TargetInode p = lt_TargetInode q \<and>
     lt_Disposition p = lt_Disposition q \<and> lt_PathRewalkVerified p = lt_PathRewalkVerified q \<and>
     lt_BOwnedMountConfined p = lt_BOwnedMountConfined q \<and> lt_TargetNlinkZero p = lt_TargetNlinkZero q \<and>
     lt_RootDeleterUID p = lt_RootDeleterUID q \<and> lt_RootDeleter p = lt_RootDeleter q \<and>
     LinuxCgroupExitProof_Equal (lt_RootDeleterExit p) (lt_RootDeleterExit q))"

record LinuxCloneCleanupProof =
  lf_Version :: int
  lf_Intent :: LinuxCloneCleanupIntent
  lf_TargetRemovalProof :: LinuxCloneTargetRemovalProof
  lf_SeedAbsent :: bool
  lf_BaseRefAbsent :: bool
  lf_ScratchAbsent :: bool
  lf_PromotionRefPresent :: bool

definition CleanupProof_Validate :: "LinuxCloneCleanupProof \<Rightarrow> gerror option" where
  "CleanupProof_Validate p = checks [
     (lf_Version p \<noteq> 2 \<or> CleanupIntent_Validate (lf_Intent p) \<noteq> None \<or>
      TargetRemovalProof_Validate (lf_TargetRemovalProof p) \<noteq> None \<or>
      \<not> CleanupIntent_Equal (lt_Intent (lf_TargetRemovalProof p)) (lf_Intent p) \<or>
      \<not> lf_SeedAbsent p \<or> \<not> lf_BaseRefAbsent p \<or> \<not> lf_ScratchAbsent p \<or> \<not> lf_PromotionRefPresent p,
      ''Linux clone cleanup proof is invalid'')]"

definition CleanupProof_Equal :: "LinuxCloneCleanupProof \<Rightarrow> LinuxCloneCleanupProof \<Rightarrow> bool" where
  "CleanupProof_Equal p q = (lf_Version p = lf_Version q \<and> CleanupIntent_Equal (lf_Intent p) (lf_Intent q) \<and>
     TargetRemovalProof_Equal (lf_TargetRemovalProof p) (lf_TargetRemovalProof q) \<and> lf_SeedAbsent p = lf_SeedAbsent q \<and>
     lf_BaseRefAbsent p = lf_BaseRefAbsent q \<and> lf_ScratchAbsent p = lf_ScratchAbsent q \<and>
     lf_PromotionRefPresent p = lf_PromotionRefPresent q)"

subsection \<open>Equality methods are equality\<close>

lemma LinuxCloneIntent_Equal_iff [simp]: "LinuxCloneIntent_Equal x y = (x = y)"
  by (cases x; cases y) (simp add: LinuxCloneIntent_Equal_def)

lemma SeedReceipt_Equal_iff [simp]: "SeedReceipt_Equal x y = (x = y)"
  by (cases x; cases y) (simp add: SeedReceipt_Equal_def)

lemma LinuxCloneGrant_Equal_iff [simp]: "LinuxCloneGrant_Equal x y = (x = y)"
  by (cases x; cases y) (simp add: LinuxCloneGrant_Equal_def)

lemma CheckoutReceipt_Equal_iff [simp]: "CheckoutReceipt_Equal x y = (x = y)"
  by (cases x; cases y) (simp add: CheckoutReceipt_Equal_def)

lemma PromotionReceipt_Equal_iff [simp]: "PromotionReceipt_Equal x y = (x = y)"
  by (cases x; cases y) (simp add: PromotionReceipt_Equal_def)

lemma PromotionIntent_Equal_iff [simp]: "PromotionIntent_Equal x y = (x = y)"
  by (cases x; cases y) (simp add: PromotionIntent_Equal_def)

lemma eq_ptr_clone_parts [simp]:
  "eq_ptr SeedReceipt_Equal l1 r1 = (l1 = r1)"
  "eq_ptr PreGateReleaseProof_Equal l2 r2 = (l2 = r2)"
  "eq_ptr ReservationAbortProof_Equal l3 r3 = (l3 = r3)"
  "eq_ptr ReleaseProof_Equal l4 r4 = (l4 = r4)"
  by (rule eq_ptr_iff_eq, simp)+

lemma LinuxCloneAbortProof_Equal_iff [simp]: "LinuxCloneAbortProof_Equal x y = (x = y)"
  by (cases x; cases y) (simp add: LinuxCloneAbortProof_Equal_def)

lemma CleanupIntent_Equal_iff [simp]: "CleanupIntent_Equal x y = (x = y)"
  by (cases x; cases y) (simp add: CleanupIntent_Equal_def)

lemma TargetRemovalProof_Equal_iff [simp]: "TargetRemovalProof_Equal x y = (x = y)"
  by (cases x; cases y) (simp add: TargetRemovalProof_Equal_def)

lemma CleanupProof_Equal_iff [simp]: "CleanupProof_Equal x y = (x = y)"
  by (cases x; cases y) (simp add: CleanupProof_Equal_def)

end
