(* ===== verification/Goal_Records.thy ===== *)
theory Goal_Records
  imports Protocol Sha256 Authority_Clone "HOL-Library.Char_ord" "HOL-Library.List_Lexorder"
begin

text \<open>
  The Goal records of \<^verbatim>\<open>internal/protocol\<close> that a run journal keeps for delivery: the subject with
  its canonical hash (\<^verbatim>\<open>goal_subject.go\<close>), the field validators (\<^verbatim>\<open>goal_validation.go\<close>), evidence
  receipts and usage (\<^verbatim>\<open>goal_results.go\<close>).  Messages that the source builds with a quoted
  argument keep the format directive in its place.
\<close>

subsection \<open>Field validators\<close>

definition MaxJSONSafeInteger :: int where "MaxJSONSafeInteger = 9007199254740991"

definition lower_hex_digit :: "char \<Rightarrow> bool" where
  "lower_hex_digit c = (let n = of_char c :: nat in (48 \<le> n \<and> n \<le> 57) \<or> (97 \<le> n \<and> n \<le> 102))"

fun uuid_chars :: "string \<Rightarrow> nat \<Rightarrow> string \<Rightarrow> gerror option" where
  "uuid_chars field i [] = None"
| "uuid_chars field i (c # s) =
     (if i = 8 \<or> i = 13 \<or> i = 18 \<or> i = 23 then
        (if c \<noteq> CHR ''-'' then Some (Err (field @ '' must be a canonical UUID'')) else uuid_chars field (i + 1) s)
      else if 65 \<le> (of_char c :: nat) \<and> (of_char c :: nat) \<le> 70
        then Some (Err (field @ '' must use lowercase hexadecimal UUID digits''))
      else if \<not> is_hex_char c then Some (Err (field @ '' must be a canonical UUID''))
      else uuid_chars field (i + 1) s)"

definition validateUUID :: "string \<Rightarrow> string \<Rightarrow> gerror option" where
  "validateUUID v field =
     (if length v \<noteq> 36 then Some (Err (field @ '' must be a canonical UUID''))
      else then_err (uuid_chars field 0 v) (checks [
        ((of_char (v ! 14) :: nat) < 49 \<or> (of_char (v ! 14) :: nat) > 53, field @ '' must use a supported UUID version''),
        (v ! 19 \<notin> set ''89ab'', field @ '' must use a supported UUID variant'')]))"

definition validateGitObjectID :: "string \<Rightarrow> gerror option" where
  "validateGitObjectID v = checks [
     (length v \<noteq> 40 \<and> length v \<noteq> 64, ''commit must be a full Git object ID''),
     (\<not> list_all lower_hex_digit v, ''commit must be a full Git object ID'')]"

definition validateSHA256 :: "string \<Rightarrow> string \<Rightarrow> gerror option" where
  "validateSHA256 v field = checks [
     (length v \<noteq> 7 + 64 \<or> \<not> HasPrefix v ''sha256:'', field @ '' must be sha256:<64 lowercase hex characters>''),
     (\<not> list_all lower_hex_digit (drop 7 v), field @ '' must be sha256:<64 lowercase hex characters>'')]"

definition validateSafeNonNegativeInt :: "int \<Rightarrow> string \<Rightarrow> gerror option" where
  "validateSafeNonNegativeInt v field = checks [
     (v < 0 \<or> v > MaxJSONSafeInteger, field @ '' must be a non-negative JSON-safe integer'')]"

definition validateShortIdentifier :: "string \<Rightarrow> string \<Rightarrow> gerror option" where
  "validateShortIdentifier v field = checks [
     (length v < 1 \<or> length v > 128, field @ '' must contain 1..128 characters''),
     (\<not> isASCIIAlphaNumeric (hd v), field @ '' has an invalid identifier''),
     (\<not> list_all (\<lambda>c. isASCIIAlphaNumeric c \<or> c \<in> set ''._:-'') (tl v), field @ '' has an invalid identifier'')]"

text \<open>\<^verbatim>\<open>utf8.ValidString\<close> and \<^verbatim>\<open>utf8.RuneCountInString\<close> in one pass.\<close>

function rune_count :: "nat list \<Rightarrow> nat option" where
  "rune_count s = (if s = [] then Some 0
     else (case decode_rune s of None \<Rightarrow> None
       | Some (r, w) \<Rightarrow> map_option Suc (rune_count (drop w s))))"
  by pat_completeness auto
termination
  by (relation "measure length") (auto dest!: decode_rune_width)

declare rune_count.simps [simp del]

definition validateLongText :: "string \<Rightarrow> string \<Rightarrow> gerror option" where
  "validateLongText v field = (case rune_count (map of_char v) of
     None \<Rightarrow> Some (Err (field @ '' must contain valid UTF-8''))
   | Some n \<Rightarrow> checks [(n < 1 \<or> n > 16384, field @ '' must contain 1..16384 characters'')])"

definition has_infix :: "string \<Rightarrow> string \<Rightarrow> bool" where
  "has_infix s p = list_ex (\<lambda>i. HasPrefix (drop i s) p) [0..<Suc (length s)]"

definition validateCommitPath :: "string \<Rightarrow> gerror option" where
  "validateCommitPath v = (case rune_count (map of_char v) of
     None \<Rightarrow> Some (Err ''path is not a normalized relative commit path'')
   | Some n \<Rightarrow> checks [
       (n < 1 \<or> n > 1024 \<or> hd v = CHR ''/'' \<or> CHR 0x00 \<in> set v \<or> CHR 0x5C \<in> set v \<or> has_infix v ''//'',
        ''path is not a normalized relative commit path''),
       (''..'' \<in> set (split_on (CHR ''/'') v), ''path must not traverse parent directories'')])"

definition digits_val :: "string \<Rightarrow> int" where
  "digits_val s = foldl (\<lambda>a c. 10 * a + (of_char c - 48)) 0 s"

definition ValidateMicroUSD :: "string \<Rightarrow> gerror option" where
  "ValidateMicroUSD v = checks [
     (v = [], ''microusd must be a non-empty decimal string''),
     (length v > 19, ''microusd must contain at most 19 digits''),
     (length v > 1 \<and> hd v = CHR ''0'', ''microusd must not contain leading zeroes''),
     (\<not> list_all is_digit v, ''microusd must be a non-negative decimal string''),
     (digits_val v \<ge> 2 ^ 63, ''microusd exceeds signed bigint range: %w'')]"

text \<open>\<^verbatim>\<open>time.Parse(time.RFC3339Nano, value)\<close> on a value that ends in Z.  The layout parser, which
  decides when the strict fast path fails, takes one or two digits for the hour, a comma or
  a period before the fraction, and any number of fraction digits.\<close>

definition take_digits :: "nat \<Rightarrow> string \<Rightarrow> (int \<times> string) option" where
  "take_digits n s = (if n \<le> length s \<and> list_all is_digit (take n s) then Some (digits_val (take n s), drop n s) else None)"

definition take_char :: "char \<Rightarrow> string \<Rightarrow> string option" where
  "take_char c s = (case s of [] \<Rightarrow> None | x # t \<Rightarrow> if x = c then Some t else None)"

definition take_hour :: "string \<Rightarrow> (int \<times> string) option" where
  "take_hour s = (case take_digits 2 s of Some r \<Rightarrow> Some r | None \<Rightarrow> take_digits 1 s)"

definition skip_fraction :: "string \<Rightarrow> string" where
  "skip_fraction s = (case s of c # d # t \<Rightarrow>
       if (c = CHR ''.'' \<or> c = CHR '','') \<and> is_digit d then dropWhile is_digit (d # t) else s
     | _ \<Rightarrow> s)"

definition leap_year :: "int \<Rightarrow> bool" where
  "leap_year y = (y mod 4 = 0 \<and> (y mod 100 \<noteq> 0 \<or> y mod 400 = 0))"

definition days_in :: "int \<Rightarrow> int \<Rightarrow> int" where
  "days_in m y = (if m = 2 then (if leap_year y then 29 else 28)
     else if m = 4 \<or> m = 6 \<or> m = 9 \<or> m = 11 then 30 else 31)"

definition parses_rfc3339_utc :: "string \<Rightarrow> bool" where
  "parses_rfc3339_utc s = opt_ex (\<lambda>_. True)
    (Option.bind (take_digits 4 s) (\<lambda>(y, s). Option.bind (take_char (CHR ''-'') s) (\<lambda>s.
     Option.bind (take_digits 2 s) (\<lambda>(mo, s). Option.bind (take_char (CHR ''-'') s) (\<lambda>s.
     Option.bind (take_digits 2 s) (\<lambda>(d, s). Option.bind (take_char (CHR ''T'') s) (\<lambda>s.
     Option.bind (take_hour s) (\<lambda>(h, s). Option.bind (take_char (CHR '':'') s) (\<lambda>s.
     Option.bind (take_digits 2 s) (\<lambda>(mi, s). Option.bind (take_char (CHR '':'') s) (\<lambda>s.
     Option.bind (take_digits 2 s) (\<lambda>(sec, s).
       if 1 \<le> mo \<and> mo \<le> 12 \<and> 1 \<le> d \<and> d \<le> days_in mo y \<and> h < 24 \<and> mi < 60 \<and> sec < 60 \<and> skip_fraction s = ''Z''
       then Some () else None))))))))))))"

definition validateUTCTimestamp :: "string \<Rightarrow> string \<Rightarrow> gerror option" where
  "validateUTCTimestamp v field = checks [
     (blank v \<or> \<not> HasSuffix v ''Z'', field @ '' must be an RFC3339 UTC timestamp''),
     (\<not> parses_rfc3339_utc v, field @ '' must be an RFC3339 UTC timestamp: %w'')]"

end
