(* ===== verification/Goal_Evidence.thy ===== *)
theory Goal_Evidence
  imports Goal_Records
begin

text \<open>
  Subjects, evidence receipts and usage of \<^verbatim>\<open>internal/protocol\<close>: the structs, their validation
  and the JSON value \<^verbatim>\<open>json.Marshal\<close> writes for each.  A struct's unexported \<^verbatim>\<open>present\<close> map, filled
  from the decoded text, is an association list from member names to raw values.
\<close>

subsection \<open>Canonical JSON\<close>

text \<open>\<^verbatim>\<open>normalizeJSONStringLineSeparators\<close> restores the two separators the encoder always escapes.\<close>

fun normalizeJSONStringLineSeparators :: "string \<Rightarrow> string" where
  "normalizeJSONStringLineSeparators [] = []"
| "normalizeJSONStringLineSeparators (c # s) =
     (if c \<noteq> CHR 0x5C then c # normalizeJSONStringLineSeparators s
      else (case s of [] \<Rightarrow> [c]
        | e # t \<Rightarrow>
          if e \<in> set ([CHR 0x5C, CHR 0x22] @ ''/bfnrt'') then c # e # normalizeJSONStringLineSeparators t
          else if e = CHR ''u'' then
            (case t of h1 # h2 # h3 # h4 # t' \<Rightarrow>
               (if [h1, h2, h3, h4] = ''2028'' then [CHR 0xE2, CHR 0x80, CHR 0xA8]
                else if [h1, h2, h3, h4] = ''2029'' then [CHR 0xE2, CHR 0x80, CHR 0xA9]
                else [c, e, h1, h2, h3, h4]) @ normalizeJSONStringLineSeparators t'
             | _ \<Rightarrow> c # normalizeJSONStringLineSeparators s)
          else c # normalizeJSONStringLineSeparators s))"

definition marshalJSONString :: "string \<Rightarrow> string" where
  "marshalJSONString v = normalizeJSONStringLineSeparators (marshal_string False v)"

text \<open>A decoded object is a Go map: the last member of a name counts, and the encoder visits the
  names in byte order.\<close>

fun map_members :: "(string \<times> 'v) list \<Rightarrow> (string \<times> 'v) list" where
  "map_members [] = []"
| "map_members ((k, v) # ms) = (if k \<in> fst ` set ms then map_members ms else (k, v) # map_members ms)"

fun writeCanonicalJSON :: "json \<Rightarrow> string" where
  "writeCanonicalJSON JNull = ''null''"
| "writeCanonicalJSON (JBool b) = (if b then ''true'' else ''false'')"
| "writeCanonicalJSON (JStr raw) = marshalJSONString (unquote_string raw)"
| "writeCanonicalJSON (JNum t) = (if t = ''-0'' then ''0'' else t)"
| "writeCanonicalJSON (JArr vs) = ''['' @ intercalate '','' (map writeCanonicalJSON vs) @ '']''"
| "writeCanonicalJSON (JObj ms) =
     ''{'' @ intercalate '','' (map (\<lambda>(k, e). marshalJSONString k @ '':'' @ e)
        (sort_key fst (map_members (map (\<lambda>(k, v). (unquote_string k, writeCanonicalJSON v)) ms)))) @ ''}''"

definition CanonicalizeJSON :: "bytes \<Rightarrow> bytes result" where
  "CanonicalizeJSON data = (case rune_count (map of_char data) of
     None \<Rightarrow> Inl (Err ''JSON must contain valid UTF-8'')
   | Some _ \<Rightarrow> (case parse_json data of None \<Rightarrow> Inl (Err ''decode JSON: %w'')
       | Some v \<Rightarrow> Inr (writeCanonicalJSON v)))"

subsection \<open>Writing structs\<close>

definition jstr :: "string \<Rightarrow> json" where "jstr s = JStr (quote_raw True s)"

definition jint :: "int \<Rightarrow> json" where "jint i = JNum (FormatInt i)"

definition jptr :: "('a \<Rightarrow> json) \<Rightarrow> 'a option \<Rightarrow> json" where
  "jptr f p = (case p of None \<Rightarrow> JNull | Some x \<Rightarrow> f x)"

text \<open>A pointer member tagged \<^verbatim>\<open>omitempty\<close>.\<close>

definition omit_nil :: "string \<Rightarrow> ('a \<Rightarrow> json) \<Rightarrow> 'a option \<Rightarrow> (string \<times> json) list" where
  "omit_nil name f p = (case p of None \<Rightarrow> [] | Some x \<Rightarrow> [(name, f x)])"

definition Fence_json :: "Fence \<Rightarrow> json" where
  "Fence_json f = JObj [(''runtime_id'', jstr (f_RuntimeID f)), (''runtime_epoch'', jint (f_RuntimeEpoch f)),
     (''generation'', jint (f_Generation f)), (''claim_id'', jstr (f_ClaimID f)), (''lease_token'', jstr (f_LeaseToken f))]"

subsection \<open>Subjects\<close>

record Subject =
  sj_ResourceID :: string
  sj_Commit :: string
  sj_TreeDigest :: string

definition Subject_Validate :: "Subject \<Rightarrow> gerror option" where
  "Subject_Validate s = then_err (validateUUID (sj_ResourceID s) ''resource_id'')
     (then_err (validateGitObjectID (sj_Commit s)) (validateSHA256 (sj_TreeDigest s) ''tree_digest''))"

definition Subject_json :: "Subject \<Rightarrow> json" where
  "Subject_json s = JObj [(''resource_id'', jstr (sj_ResourceID s)), (''commit'', jstr (sj_Commit s)),
     (''tree_digest'', jstr (sj_TreeDigest s))]"

definition Subject_CanonicalJSON :: "Subject \<Rightarrow> bytes result" where
  "Subject_CanonicalJSON s = on_err (Subject_Validate s) (CanonicalizeJSON (print_json False (Subject_json s)))"

definition Subject_Hash :: "Subject \<Rightarrow> string result" where
  "Subject_Hash s = bind_r (Subject_CanonicalJSON s) (\<lambda>c. Inr (''sha256:'' @ sha_hex c))"

subsection \<open>Evidence\<close>

definition EvidenceCheck :: string where "EvidenceCheck = ''check''"
definition EvidenceArtifact :: string where "EvidenceArtifact = ''artifact''"
definition EvidenceReview :: string where "EvidenceReview = ''review''"
definition EvidenceObservation :: string where "EvidenceObservation = ''observation''"

definition validEvidenceKind :: "string \<Rightarrow> bool" where
  "validEvidenceKind k = (k \<in> {EvidenceCheck, EvidenceArtifact, EvidenceReview, EvidenceObservation})"

definition validateEvidenceVerdict :: "string \<Rightarrow> string \<Rightarrow> gerror option" where
  "validateEvidenceVerdict v field = checks [
     (v \<notin> {''passed'', ''failed'', ''unknown'', ''not_applicable''}, field @ '' %q is invalid'')]"

text \<open>\<^verbatim>\<open>if p != nil { if err := validate(*p); err != nil { return err } }\<close>\<close>

definition when_some :: "('a \<Rightarrow> gerror option) \<Rightarrow> 'a option \<Rightarrow> gerror option" where
  "when_some f p = (case p of None \<Rightarrow> None | Some x \<Rightarrow> f x)"

text \<open>\<^verbatim>\<open>fmt.Errorf("prefix: %w", err)\<close>\<close>

definition wrap_err :: "string \<Rightarrow> gerror option \<Rightarrow> gerror option" where
  "wrap_err p e = (case e of Some (Err m) \<Rightarrow> Some (Err (p @ m)) | r \<Rightarrow> r)"

definition has_field :: "(string \<times> bytes) list \<Rightarrow> string \<Rightarrow> bool" where
  "has_field present name = (map_of present name \<noteq> None)"

definition has_null_field :: "(string \<times> bytes) list \<Rightarrow> string \<Rightarrow> bool" where
  "has_null_field present name = (case map_of present name of None \<Rightarrow> False | Some v \<Rightarrow> TrimSpace v = ''null'')"

record SourceRef =
  sf_Kind :: string
  sf_Ref :: string
  sf_ValidatorProfile :: "string option"
  sf_SubjectHash :: "string option"
  sf_ResourceID :: "string option"
  sf_Commit :: "string option"
  sf_Path :: "string option"
  sf_ReviewTaskID :: "string option"
  sf_ExternalRef :: "string option"
  sf_present :: "(string \<times> bytes) list"

definition SourceRef_Validate :: "SourceRef \<Rightarrow> gerror option" where
  "SourceRef_Validate s =
     then_err (checks [(\<not> validEvidenceKind (sf_Kind s), ''source_ref.kind %q is invalid'')])
    (then_err (validateShortIdentifier (sf_Ref s) ''source_ref.ref'')
    (then_err (when_some (\<lambda>v. validateUUID v ''source_ref.resource_id'') (sf_ResourceID s))
    (then_err (checks [(has_null_field (sf_present s) ''resource_id'' \<or> has_null_field (sf_present s) ''commit'',
        ''source_ref optional identity fields must be strings when present'')])
    (then_err (when_some (\<lambda>v. wrap_err ''source_ref.commit: '' (validateGitObjectID v)) (sf_Commit s))
    (then_err (when_some (\<lambda>v. validateShortIdentifier v ''source_ref.validator_profile'') (sf_ValidatorProfile s))
    (then_err (when_some (\<lambda>v. validateSHA256 v ''source_ref.subject_hash'') (sf_SubjectHash s))
    (then_err (when_some validateCommitPath (sf_Path s))
    (then_err (when_some (\<lambda>v. validateUUID v ''source_ref.review_task_id'') (sf_ReviewTaskID s))
    (when_some (\<lambda>v. validateLongText v ''source_ref.external_ref'') (sf_ExternalRef s))))))))))"

definition SourceRef_json :: "SourceRef \<Rightarrow> json" where
  "SourceRef_json s = JObj ([(''kind'', jstr (sf_Kind s)), (''ref'', jstr (sf_Ref s))]
     @ omit_nil ''validator_profile'' jstr (sf_ValidatorProfile s) @ omit_nil ''subject_hash'' jstr (sf_SubjectHash s)
     @ omit_nil ''resource_id'' jstr (sf_ResourceID s) @ omit_nil ''commit'' jstr (sf_Commit s)
     @ omit_nil ''path'' jstr (sf_Path s) @ omit_nil ''review_task_id'' jstr (sf_ReviewTaskID s)
     @ omit_nil ''external_ref'' jstr (sf_ExternalRef s))"

definition hasArtifactIdentity :: "SourceRef \<Rightarrow> bool" where
  "hasArtifactIdentity s = (sf_ResourceID s \<noteq> None \<or> sf_Commit s \<noteq> None \<or> sf_Path s \<noteq> None
     \<or> has_field (sf_present s) ''resource_id'' \<or> has_field (sf_present s) ''commit'' \<or> has_field (sf_present s) ''path'')"

definition hasReviewIdentity :: "SourceRef \<Rightarrow> bool" where
  "hasReviewIdentity s = (sf_ReviewTaskID s \<noteq> None \<or> has_field (sf_present s) ''review_task_id'')"

definition hasObservationIdentity :: "SourceRef \<Rightarrow> bool" where
  "hasObservationIdentity s = (sf_ExternalRef s \<noteq> None \<or> has_field (sf_present s) ''external_ref'')"

record OutputRef =
  or_Kind :: string
  or_Value :: string

definition OutputRef_Validate :: "OutputRef \<Rightarrow> gerror option" where
  "OutputRef_Validate r = then_err (checks [(or_Kind r \<noteq> ''inline'' \<and> or_Kind r \<noteq> ''artifact'', ''output_ref.kind %q is invalid'')])
     (validateLongText (or_Value r) ''output_ref.value'')"

record ReviewFinding =
  rf_Severity :: string
  rf_Code :: "string option"
  rf_Summary :: string
  rf_Detail :: "string option"
  rf_present :: "(string \<times> bytes) list"

definition ReviewFinding_Validate :: "ReviewFinding \<Rightarrow> gerror option" where
  "ReviewFinding_Validate f =
     then_err (checks [(rf_Severity f \<notin> {''info'', ''low'', ''medium'', ''high'', ''critical''},
        ''review finding severity %q is invalid'')])
    (then_err (validateLongText (rf_Summary f) ''review finding summary'')
    (then_err (when_some (\<lambda>v. validateShortIdentifier v ''review finding code'') (rf_Code f))
    (then_err (checks [(has_null_field (rf_present f) ''code'' \<or> has_null_field (rf_present f) ''detail'',
        ''review finding optional fields must be strings when present'')])
    (when_some (\<lambda>v. validateLongText v ''review finding detail'') (rf_Detail f)))))"

definition OutputRef_json :: "OutputRef \<Rightarrow> json" where
  "OutputRef_json r = JObj [(''kind'', jstr (or_Kind r)), (''value'', jstr (or_Value r))]"

definition ReviewFinding_json :: "ReviewFinding \<Rightarrow> json" where
  "ReviewFinding_json f = JObj ([(''severity'', jstr (rf_Severity f))] @ omit_nil ''code'' jstr (rf_Code f)
     @ [(''summary'', jstr (rf_Summary f))] @ omit_nil ''detail'' jstr (rf_Detail f))"

end
