(* ===== verification/Goal_Receipts.thy ===== *)
theory Goal_Receipts
  imports Goal_Evidence
begin

text \<open>
  Evidence receipts, evidence and usage (\<^verbatim>\<open>goal_results.go\<close>): the receipt shape each evidence kind
  admits, the binding of an evidence record to its subject and source, and usage accounting.
\<close>

record Receipt =
  rc_PredicateID :: "string option"
  rc_Subject :: "Subject option"
  rc_ProfileDigest :: "string option"
  rc_CommandArgvDigest :: "string option"
  rc_ExitCode :: "int option"
  rc_SubjectHash :: "string option"
  rc_StartedAt :: "string option"
  rc_FinishedAt :: "string option"
  rc_OutputRef :: "OutputRef option"
  rc_ResourceID :: "string option"
  rc_Commit :: "string option"
  rc_Path :: "string option"
  rc_ContentDigest :: "string option"
  rc_ReviewTaskID :: "string option"
  rc_Findings :: "ReviewFinding list option"
  rc_Verdict :: "string option"
  rc_ExternalRef :: "string option"
  rc_ObservedAt :: "string option"
  rc_Note :: "string option"
  rc_present :: "(string \<times> bytes) list"

text \<open>\<^verbatim>\<open>omitempty\<close> drops an empty slice as well as a nil one.\<close>

definition omit_empty :: "string \<Rightarrow> ('a \<Rightarrow> json) \<Rightarrow> 'a list option \<Rightarrow> (string \<times> json) list" where
  "omit_empty name f p = (case p of None \<Rightarrow> [] | Some xs \<Rightarrow> if xs = [] then [] else [(name, JArr (map f xs))])"

definition receipt_members :: "Receipt \<Rightarrow> (string \<times> json) list" where
  "receipt_members r =
     omit_nil ''predicate_id'' jstr (rc_PredicateID r) @ omit_nil ''subject'' Subject_json (rc_Subject r)
     @ omit_nil ''profile_digest'' jstr (rc_ProfileDigest r) @ omit_nil ''command_argv_digest'' jstr (rc_CommandArgvDigest r)
     @ omit_nil ''exit_code'' jint (rc_ExitCode r) @ omit_nil ''subject_hash'' jstr (rc_SubjectHash r)
     @ omit_nil ''started_at'' jstr (rc_StartedAt r) @ omit_nil ''finished_at'' jstr (rc_FinishedAt r)
     @ omit_nil ''output_ref'' OutputRef_json (rc_OutputRef r) @ omit_nil ''resource_id'' jstr (rc_ResourceID r)
     @ omit_nil ''commit'' jstr (rc_Commit r) @ omit_nil ''path'' jstr (rc_Path r)
     @ omit_nil ''content_digest'' jstr (rc_ContentDigest r) @ omit_nil ''review_task_id'' jstr (rc_ReviewTaskID r)
     @ omit_empty ''findings'' ReviewFinding_json (rc_Findings r) @ omit_nil ''verdict'' jstr (rc_Verdict r)
     @ omit_nil ''external_ref'' jstr (rc_ExternalRef r) @ omit_nil ''observed_at'' jstr (rc_ObservedAt r)
     @ omit_nil ''note'' jstr (rc_Note r)"

definition Receipt_json :: "Receipt \<Rightarrow> json" where
  "Receipt_json r = JObj (receipt_members r)"

definition receipt_fields :: "string \<Rightarrow> string list" where
  "receipt_fields kind =
     (if kind = EvidenceCheck then [''predicate_id'', ''subject'', ''subject_hash'', ''profile_digest'', ''command_argv_digest'',
        ''exit_code'', ''started_at'', ''finished_at'', ''output_ref'']
      else if kind = EvidenceArtifact then [''predicate_id'', ''subject'', ''subject_hash'', ''resource_id'', ''commit'', ''path'', ''content_digest'']
      else if kind = EvidenceReview then [''predicate_id'', ''subject'', ''subject_hash'', ''review_task_id'', ''findings'', ''verdict'']
      else if kind = EvidenceObservation then [''predicate_id'', ''subject'', ''subject_hash'', ''external_ref'', ''observed_at'', ''note'']
      else [])"

text \<open>A dereference the preceding guard has made safe; a nil pointer would panic.\<close>

definition deref :: "'a option \<Rightarrow> ('a \<Rightarrow> gerror option) \<Rightarrow> gerror option" where
  "deref p f = (case p of None \<Rightarrow> Some Panic | Some x \<Rightarrow> f x)"

fun findings_Validate :: "nat \<Rightarrow> ReviewFinding list \<Rightarrow> gerror option" where
  "findings_Validate i [] = None"
| "findings_Validate i (f # fs) =
     then_err (wrap_err (''payload.findings['' @ nat_digits i @ '']: '') (ReviewFinding_Validate f)) (findings_Validate (i + 1) fs)"

definition receipt_check :: "Receipt \<Rightarrow> gerror option" where
  "receipt_check r =
     then_err (checks [(rc_ProfileDigest r = None \<or> rc_CommandArgvDigest r = None \<or> rc_ExitCode r = None \<or> rc_StartedAt r = None
        \<or> rc_FinishedAt r = None \<or> rc_OutputRef r = None, ''check payload is missing a required field'')])
    (then_err (deref (rc_ProfileDigest r) (\<lambda>v. validateSHA256 v ''payload.profile_digest''))
    (then_err (deref (rc_CommandArgvDigest r) (\<lambda>v. validateSHA256 v ''payload.command_argv_digest''))
    (then_err (deref (rc_ExitCode r) (\<lambda>v. checks [(v < 0 \<or> v > 255, ''payload.exit_code must be between 0 and 255'')]))
    (then_err (deref (rc_StartedAt r) (\<lambda>v. validateUTCTimestamp v ''payload.started_at''))
    (then_err (deref (rc_FinishedAt r) (\<lambda>v. validateUTCTimestamp v ''payload.finished_at''))
    (deref (rc_OutputRef r) OutputRef_Validate))))))"

definition receipt_artifact :: "Receipt \<Rightarrow> gerror option" where
  "receipt_artifact r =
     then_err (checks [(rc_ResourceID r = None \<or> rc_Commit r = None \<or> rc_Path r = None \<or> rc_ContentDigest r = None,
        ''artifact payload is missing a required field'')])
    (then_err (deref (rc_ResourceID r) (\<lambda>v. validateUUID v ''payload.resource_id''))
    (then_err (deref (rc_Commit r) validateGitObjectID)
    (then_err (deref (rc_Path r) validateCommitPath)
    (deref (rc_ContentDigest r) (\<lambda>v. validateSHA256 v ''payload.content_digest'')))))"

definition receipt_review :: "Receipt \<Rightarrow> gerror option" where
  "receipt_review r =
     then_err (checks [(rc_ReviewTaskID r = None \<or> rc_Verdict r = None \<or> rc_Findings r = None
        \<or> \<not> has_field (rc_present r) ''findings'', ''review payload is missing a required field'')])
    (then_err (deref (rc_ReviewTaskID r) (\<lambda>v. validateUUID v ''payload.review_task_id''))
    (then_err (deref (rc_Verdict r) (\<lambda>v. validateEvidenceVerdict v ''payload.verdict''))
    (deref (rc_Findings r) (\<lambda>fs. then_err (checks [(length fs > 512, ''payload.findings must contain at most 512 items'')])
       (findings_Validate 0 fs)))))"

definition receipt_observation :: "Receipt \<Rightarrow> gerror option" where
  "receipt_observation r =
     then_err (checks [(rc_ExternalRef r = None \<or> rc_ObservedAt r = None \<or> rc_Note r = None,
        ''observation payload is missing a required field'')])
    (then_err (deref (rc_ExternalRef r) (\<lambda>v. validateLongText v ''payload.external_ref''))
    (then_err (deref (rc_ObservedAt r) (\<lambda>v. validateUTCTimestamp v ''payload.observed_at''))
    (deref (rc_Note r) (\<lambda>v. validateLongText v ''payload.note''))))"

definition validateForKind :: "Receipt \<Rightarrow> string \<Rightarrow> gerror option" where
  "validateForKind r kind =
     then_err (checks [(\<not> list_all (\<lambda>(f, _). f \<in> set (receipt_fields kind)) (rc_present r),
        ''payload field %q is not allowed for kind %q''),
       (rc_PredicateID r = None, ''payload.predicate_id is required'')])
    (then_err (deref (rc_PredicateID r) (\<lambda>v. validateShortIdentifier v ''payload.predicate_id''))
    (then_err (checks [(rc_Subject r = None \<or> rc_SubjectHash r = None, ''payload subject and subject_hash are required'')])
    (then_err (deref (rc_Subject r) (\<lambda>s. wrap_err ''payload.subject: '' (Subject_Validate s)))
    (then_err (deref (rc_SubjectHash r) (\<lambda>v. validateSHA256 v ''payload.subject_hash''))
    (if kind = EvidenceCheck then receipt_check r
     else if kind = EvidenceArtifact then receipt_artifact r
     else if kind = EvidenceReview then receipt_review r
     else if kind = EvidenceObservation then receipt_observation r
     else Some (Err ''kind %q is invalid''))))))"

record Evidence =
  e_SchemaVersion :: string
  e_EvidenceID :: string
  e_RunID :: string
  e_EvidenceKey :: string
  e_Kind :: string
  e_Subject :: Subject
  e_SubjectHash :: string
  e_SourceRef :: SourceRef
  e_SourceRevision :: string
  e_ValidatorProfile :: "string option"
  e_Verdict :: string
  e_Payload :: Receipt
  e_ObservedAt :: string

definition Evidence_json :: "Evidence \<Rightarrow> json" where
  "Evidence_json e = JObj [(''schema_version'', jstr (e_SchemaVersion e)), (''evidence_id'', jstr (e_EvidenceID e)),
     (''run_id'', jstr (e_RunID e)), (''evidence_key'', jstr (e_EvidenceKey e)), (''kind'', jstr (e_Kind e)),
     (''subject'', Subject_json (e_Subject e)), (''subject_hash'', jstr (e_SubjectHash e)),
     (''source_ref'', SourceRef_json (e_SourceRef e)), (''source_revision'', jstr (e_SourceRevision e)),
     (''validator_profile'', jptr jstr (e_ValidatorProfile e)), (''verdict'', jstr (e_Verdict e)),
     (''payload'', Receipt_json (e_Payload e)), (''observed_at'', jstr (e_ObservedAt e))]"

text \<open>The checks that tie the source reference to the evidence kind.\<close>

definition evidence_source_kind :: "Evidence \<Rightarrow> gerror option" where
  "evidence_source_kind e = (let s = e_SourceRef e in
     if e_Kind e = EvidenceCheck then checks [
       (sf_ValidatorProfile s = None, ''check source_ref.validator_profile is required''),
       (hasArtifactIdentity s \<or> hasReviewIdentity s \<or> hasObservationIdentity s, ''source_ref identity fields are not valid for check evidence'')]
     else if e_Kind e = EvidenceArtifact then checks [
       (sf_ResourceID s = None \<or> sf_Commit s = None \<or> sf_Path s = None, ''artifact source_ref requires resource_id, commit, and path''),
       (has_field (sf_present s) ''validator_profile'' \<or> hasReviewIdentity s \<or> hasObservationIdentity s,
        ''source_ref identity fields are not valid for artifact evidence'')]
     else if e_Kind e = EvidenceReview then checks [
       (sf_ReviewTaskID s = None, ''review source_ref.review_task_id is required''),
       (has_field (sf_present s) ''validator_profile'' \<or> hasArtifactIdentity s \<or> hasObservationIdentity s,
        ''source_ref identity fields are not valid for review evidence'')]
     else if e_Kind e = EvidenceObservation then checks [
       (sf_ExternalRef s = None, ''observation source_ref.external_ref is required''),
       (has_field (sf_present s) ''validator_profile'' \<or> hasArtifactIdentity s \<or> hasReviewIdentity s,
        ''source_ref identity fields are not valid for observation evidence'')]
     else None)"

text \<open>Two pointers of which neither is nil and whose values agree.\<close>

definition same_set :: "'a option \<Rightarrow> 'a option \<Rightarrow> bool" where
  "same_set p q = (p \<noteq> None \<and> p = q)"

definition evidence_payload_identity :: "Evidence \<Rightarrow> gerror option" where
  "evidence_payload_identity e = (let s = e_SourceRef e; p = e_Payload e in
     if e_Kind e = EvidenceArtifact then checks [
       (\<not> same_set (sf_ResourceID s) (rc_ResourceID p) \<or> \<not> same_set (sf_Commit s) (rc_Commit p) \<or> \<not> same_set (sf_Path s) (rc_Path p),
        ''artifact source_ref and payload identity must match''),
       (rc_ResourceID p \<noteq> Some (sj_ResourceID (e_Subject e)), ''artifact payload.resource_id must match evidence.subject.resource_id''),
       (rc_Commit p \<noteq> Some (sj_Commit (e_Subject e)), ''artifact payload.commit must match evidence.subject.commit'')]
     else if e_Kind e = EvidenceReview then checks [
       (\<not> same_set (sf_ReviewTaskID s) (rc_ReviewTaskID p), ''review source_ref and payload identity must match'')]
     else if e_Kind e = EvidenceObservation then checks [
       (\<not> same_set (sf_ExternalRef s) (rc_ExternalRef p), ''observation source_ref and payload identity must match'')]
     else None)"

definition Evidence_Validate :: "Evidence \<Rightarrow> gerror option" where
  "Evidence_Validate e = (let s = e_SourceRef e; p = e_Payload e in
     then_err (checks [(e_SchemaVersion e \<noteq> ''symmetry.evidence.v1'', ''schema_version must be %q'')])
    (then_err (validateUUID (e_EvidenceID e) ''evidence_id'')
    (then_err (validateUUID (e_RunID e) ''run_id'')
    (then_err (validateShortIdentifier (e_EvidenceKey e) ''evidence_key'')
    (then_err (checks [(\<not> validEvidenceKind (e_Kind e), ''kind %q is invalid'')])
    (then_err (validateSHA256 (e_SubjectHash e) ''subject_hash'')
    (then_err (wrap_err ''subject: '' (Subject_Validate (e_Subject e)))
    (case Subject_Hash (e_Subject e) of Inl x \<Rightarrow> Some x
     | Inr computed \<Rightarrow>
     then_err (checks [(computed \<noteq> e_SubjectHash e, ''subject_hash does not match canonical subject'')])
    (then_err (SourceRef_Validate s)
    (then_err (checks [
       (sf_Kind s \<noteq> e_Kind e, ''source_ref.kind %q does not match evidence kind %q''),
       (sf_SubjectHash s \<noteq> Some (e_SubjectHash e), ''source_ref.subject_hash must match evidence.subject_hash''),
       (e_Kind e \<in> {EvidenceCheck, EvidenceArtifact, EvidenceReview} \<and> e_ValidatorProfile e = None,
        ''validator_profile is required for %s evidence'')])
    (then_err (when_some (\<lambda>v. validateShortIdentifier v ''validator_profile'') (e_ValidatorProfile e))
    (then_err (checks [
       (sf_ValidatorProfile s \<noteq> None \<and> e_ValidatorProfile e \<noteq> None \<and> sf_ValidatorProfile s \<noteq> e_ValidatorProfile e,
        ''source_ref.validator_profile must match validator_profile''),
       (e_Kind e = EvidenceCheck \<and> sf_ValidatorProfile s = None, ''check source_ref.validator_profile is required'')])
    (then_err (evidence_source_kind e)
    (then_err (validateShortIdentifier (e_SourceRevision e) ''source_revision'')
    (then_err (when_some (\<lambda>v. validateShortIdentifier v ''validator_profile'') (e_ValidatorProfile e))
    (then_err (validateEvidenceVerdict (e_Verdict e) ''verdict'')
    (then_err (validateForKind p (e_Kind e))
    (then_err (checks [
       (e_Kind e = EvidenceReview \<and> rc_Verdict p \<noteq> None \<and> rc_Verdict p \<noteq> Some (e_Verdict e),
        ''payload.verdict must match evidence.verdict for review evidence''),
       (rc_Subject p \<noteq> Some (e_Subject e) \<or> rc_SubjectHash p \<noteq> Some (e_SubjectHash e),
        ''payload subject and hashes must match evidence subject'')])
    (then_err (evidence_payload_identity e)
    (then_err (checks [
       (e_Kind e \<in> {EvidenceCheck, EvidenceReview} \<and> rc_SubjectHash p \<noteq> Some (e_SubjectHash e),
        ''payload.subject_hash must match evidence.subject_hash'')])
    (validateUTCTimestamp (e_ObservedAt e) ''observed_at'')))))))))))))))))))))"

record Usage =
  u_SchemaVersion :: string
  u_UsageID :: string
  u_RunID :: string
  u_UsageKey :: string
  u_Provider :: string
  u_Model :: string
  u_InputTokens :: "int option"
  u_OutputTokens :: "int option"
  u_CachedInputTokens :: "int option"
  u_CostMicrousd :: "string option"
  u_CostBasis :: string
  u_PriceVersion :: "string option"
  u_SupersedesID :: "string option"
  u_ObservedAt :: string

definition Usage_json :: "Usage \<Rightarrow> json" where
  "Usage_json u = JObj [(''schema_version'', jstr (u_SchemaVersion u)), (''usage_id'', jstr (u_UsageID u)), (''run_id'', jstr (u_RunID u)),
     (''usage_key'', jstr (u_UsageKey u)), (''provider'', jstr (u_Provider u)), (''model'', jstr (u_Model u)),
     (''input_tokens'', jptr jint (u_InputTokens u)), (''output_tokens'', jptr jint (u_OutputTokens u)),
     (''cached_input_tokens'', jptr jint (u_CachedInputTokens u)), (''cost_microusd'', jptr jstr (u_CostMicrousd u)),
     (''cost_basis'', jstr (u_CostBasis u)), (''price_version'', jptr jstr (u_PriceVersion u)),
     (''supersedes_id'', jptr jstr (u_SupersedesID u)), (''observed_at'', jstr (u_ObservedAt u))]"

text \<open>The three token counts are visited in map order, which Go leaves open; which of several bad
  counts is reported is fixed here to the order of the literal.\<close>

definition Usage_Validate :: "Usage \<Rightarrow> gerror option" where
  "Usage_Validate u =
     then_err (checks [(u_SchemaVersion u \<noteq> ''symmetry.usage.v1'', ''schema_version must be %q'')])
    (then_err (validateUUID (u_UsageID u) ''usage_id'')
    (then_err (validateUUID (u_RunID u) ''run_id'')
    (then_err (validateShortIdentifier (u_UsageKey u) ''usage_key'')
    (then_err (validateShortIdentifier (u_Provider u) ''provider'')
    (then_err (validateShortIdentifier (u_Model u) ''model'')
    (then_err (when_some (\<lambda>v. validateSafeNonNegativeInt v ''input_tokens'') (u_InputTokens u))
    (then_err (when_some (\<lambda>v. validateSafeNonNegativeInt v ''output_tokens'') (u_OutputTokens u))
    (then_err (when_some (\<lambda>v. validateSafeNonNegativeInt v ''cached_input_tokens'') (u_CachedInputTokens u))
    (then_err (if u_CostBasis u \<in> {''reported'', ''estimated''} then
         then_err (checks [(u_CostMicrousd u = None, ''cost_microusd is required when cost_basis is %q'')])
           (deref (u_CostMicrousd u) ValidateMicroUSD)
       else if u_CostBasis u = ''unknown'' then checks [(u_CostMicrousd u \<noteq> None, ''cost_microusd must be null when cost_basis is %q'')]
       else Some (Err ''cost_basis %q is invalid''))
    (then_err (when_some (\<lambda>v. validateShortIdentifier v ''price_version'') (u_PriceVersion u))
    (then_err (when_some (\<lambda>v. validateUUID v ''supersedes_id'') (u_SupersedesID u))
    (validateUTCTimestamp (u_ObservedAt u) ''observed_at''))))))))))))"

subsection \<open>What a stored receipt keeps\<close>

lemma deref_None_iff [guard_simps]: "deref p f = None \<longleftrightarrow> (\<exists>x. p = Some x \<and> f x = None)"
  by (auto simp: deref_def split: option.splits)

lemma when_some_None_iff [guard_simps]: "when_some f p = None \<longleftrightarrow> (\<forall>x. p = Some x \<longrightarrow> f x = None)"
  by (auto simp: when_some_def split: option.splits)

lemma wrap_err_None_iff [guard_simps]: "wrap_err p e = None \<longleftrightarrow> e = None"
  by (auto simp: wrap_err_def split: option.splits gerror.splits)

end
