(* ===== verification/Goal_Delivery.thy ===== *)
theory Goal_Delivery
  imports Goal_Receipts
begin

text \<open>
  The Goal outbox record of \<^verbatim>\<open>internal/state/goal_delivery.go\<close>: an immutable delivery with its
  digest, the preparation that every queueing operation runs and the validation of the
  pending, delivered and retired records of one journal.
\<close>

definition validRequiredString :: "string \<Rightarrow> nat \<Rightarrow> bool" where
  "validRequiredString v limit = (\<not> blank v \<and> length v \<le> limit)"

text \<open>The loop runs before the version and variant checks; a bad character ends it.\<close>

definition validGoalSessionUUID :: "string \<Rightarrow> bool" where
  "validGoalSessionUUID v = (length v = 36
     \<and> list_all (\<lambda>i. if i = 8 \<or> i = 13 \<or> i = 18 \<or> i = 23 then v ! i = CHR ''-'' else lower_hex_digit (v ! i)) [0..<36]
     \<and> 49 \<le> (of_char (v ! 14) :: nat) \<and> (of_char (v ! 14) :: nat) \<le> 53 \<and> v ! 19 \<in> set ''89ab'')"

definition GoalDeliverySessionAttach :: string where "GoalDeliverySessionAttach = ''session_attach''"
definition GoalDeliverySessionStopped :: string where "GoalDeliverySessionStopped = ''session_stopped''"
definition GoalDeliveryEvidence :: string where "GoalDeliveryEvidence = ''evidence''"
definition GoalDeliveryUsage :: string where "GoalDeliveryUsage = ''usage''"

record GoalSessionAttachDelivery =
  ga_GoalID :: string
  ga_LocalHandleID :: string
  ga_BindingID :: string
  ga_ServerIssuedBinding :: bool
  ga_HarnessKind :: string
  ga_HarnessVersion :: string
  ga_AdapterVersion :: string
  ga_WorkspaceFingerprint :: string
  ga_Workspace :: string
  ga_RepositoryResourceID :: "string option"

record GoalSessionStoppedDelivery =
  gs_SessionID :: string
  gs_LocalHandleID :: string
  gs_BindingID :: string

record GoalDelivery =
  gd_Kind :: string
  gd_DeliveryID :: string
  gd_PayloadDigest :: string
  gd_Fence :: Fence
  gd_Ready :: bool
  gd_SessionAttach :: "GoalSessionAttachDelivery option"
  gd_SessionStopped :: "GoalSessionStoppedDelivery option"
  gd_Evidence :: "Evidence option"
  gd_Usage :: "Usage option"

record GoalDeliveryRetirement =
  gr_Delivery :: GoalDelivery
  gr_StatusCode :: int
  gr_Code :: string
  gr_Message :: string
  gr_RetiredAt :: time

definition ErrGoalDeliveryConflict :: gerror where
  "ErrGoalDeliveryConflict = Err ''goal delivery conflicts with pending receipt''"

definition validGoalDeliveryKind :: "string \<Rightarrow> bool" where
  "validGoalDeliveryKind k = (k = GoalDeliverySessionAttach \<or> k = GoalDeliverySessionStopped
     \<or> k = GoalDeliveryEvidence \<or> k = GoalDeliveryUsage)"

definition validGoalDeliveryDigest :: "string \<Rightarrow> bool" where
  "validGoalDeliveryDigest v = (length v = 64 \<and> hex_decodes v)"

definition validateGoalSessionAttachDelivery :: "GoalSessionAttachDelivery \<Rightarrow> gerror option" where
  "validateGoalSessionAttachDelivery p =
    (if \<not> validRequiredString (ga_GoalID p) 4096 \<or> \<not> validGoalSessionUUID (ga_LocalHandleID p)
        \<or> \<not> validRequiredString (ga_HarnessKind p) 256 \<or> \<not> validRequiredString (ga_HarnessVersion p) 4096
        \<or> \<not> validRequiredString (ga_AdapterVersion p) 4096 \<or> \<not> validRequiredString (ga_WorkspaceFingerprint p) 4096
        \<or> \<not> validRequiredString (ga_Workspace p) 32768
     then Some (Err ''Goal session attach delivery payload is invalid'')
     else if ga_BindingID p \<noteq> [] \<and> \<not> validGoalSessionUUID (ga_BindingID p)
     then Some (Err ''Goal session attach delivery binding ID is invalid'')
     else if ga_BindingID p = [] \<and> \<not> ga_ServerIssuedBinding p then None
     else checks [
       (ga_BindingID p \<noteq> [] \<and> ga_ServerIssuedBinding p, ''Goal session attach delivery binding authority is invalid''),
       (opt_ex (\<lambda>r. \<not> validRequiredString r 4096) (ga_RepositoryResourceID p),
        ''Goal session attach delivery repository resource ID is invalid'')])"

definition validateGoalSessionStoppedDelivery :: "GoalSessionStoppedDelivery \<Rightarrow> gerror option" where
  "validateGoalSessionStoppedDelivery p = checks [
     (\<not> validGoalSessionUUID (gs_SessionID p) \<or> \<not> validGoalSessionUUID (gs_LocalHandleID p) \<or> \<not> validGoalSessionUUID (gs_BindingID p),
      ''Goal session stopped delivery is invalid'')]"

subsection \<open>Digest and comparison\<close>

definition GoalSessionAttachDelivery_json :: "GoalSessionAttachDelivery \<Rightarrow> json" where
  "GoalSessionAttachDelivery_json p = JObj ([(''goal_id'', jstr (ga_GoalID p)), (''local_handle_id'', jstr (ga_LocalHandleID p))]
     @ (if ga_BindingID p = [] then [] else [(''binding_id'', jstr (ga_BindingID p))])
     @ (if ga_ServerIssuedBinding p then [(''server_issued_binding'', JBool True)] else [])
     @ [(''harness_kind'', jstr (ga_HarnessKind p)), (''harness_version'', jstr (ga_HarnessVersion p)),
        (''adapter_version'', jstr (ga_AdapterVersion p)), (''workspace_fingerprint'', jstr (ga_WorkspaceFingerprint p)),
        (''workspace'', jstr (ga_Workspace p))]
     @ omit_nil ''repository_resource_id'' jstr (ga_RepositoryResourceID p))"

definition GoalSessionStoppedDelivery_json :: "GoalSessionStoppedDelivery \<Rightarrow> json" where
  "GoalSessionStoppedDelivery_json p = JObj [(''session_id'', jstr (gs_SessionID p)), (''local_handle_id'', jstr (gs_LocalHandleID p)),
     (''binding_id'', jstr (gs_BindingID p))]"

definition goalDeliveryDigest :: "GoalDelivery \<Rightarrow> string" where
  "goalDeliveryDigest d = sha_hex (print_json False (JObj (
     [(''Kind'', jstr (gd_Kind d)), (''DeliveryID'', jstr (gd_DeliveryID d)), (''Fence'', Fence_json (gd_Fence d)),
      (''SessionAttach'', jptr GoalSessionAttachDelivery_json (gd_SessionAttach d))]
     @ (if gd_Kind d = GoalDeliverySessionStopped
        then [(''SessionStopped'', jptr GoalSessionStoppedDelivery_json (gd_SessionStopped d))] else [])
     @ [(''Evidence'', jptr Evidence_json (gd_Evidence d)), (''Usage'', jptr Usage_json (gd_Usage d))])))"

definition GoalDelivery_json :: "GoalDelivery \<Rightarrow> json" where
  "GoalDelivery_json d = JObj ([(''kind'', jstr (gd_Kind d)), (''delivery_id'', jstr (gd_DeliveryID d)),
      (''payload_digest'', jstr (gd_PayloadDigest d)), (''fence'', Fence_json (gd_Fence d))]
     @ (if gd_Ready d then [(''ready'', JBool True)] else [])
     @ omit_nil ''session_attach'' GoalSessionAttachDelivery_json (gd_SessionAttach d)
     @ omit_nil ''session_stopped'' GoalSessionStoppedDelivery_json (gd_SessionStopped d)
     @ omit_nil ''evidence'' Evidence_json (gd_Evidence d) @ omit_nil ''usage'' Usage_json (gd_Usage d))"

definition equalGoalDelivery :: "GoalDelivery \<Rightarrow> GoalDelivery \<Rightarrow> bool" where
  "equalGoalDelivery l r =
     (print_json False (GoalDelivery_json (l\<lparr> gd_Ready := False \<rparr>)) = print_json False (GoalDelivery_json (r\<lparr> gd_Ready := False \<rparr>)))"

subsection \<open>Preparation and validation\<close>

definition goalDeliveryBody :: "string \<Rightarrow> GoalDelivery \<Rightarrow> gerror option" where
  "goalDeliveryBody runID d =
    (if gd_Kind d = GoalDeliverySessionAttach then
       (if gd_SessionAttach d = None \<or> gd_SessionStopped d \<noteq> None \<or> gd_Evidence d \<noteq> None \<or> gd_Usage d \<noteq> None
           \<or> \<not> opt_ex (\<lambda>a. gd_DeliveryID d = ga_LocalHandleID a) (gd_SessionAttach d)
        then Some (Err ''Goal session attach delivery is invalid'')
        else deref (gd_SessionAttach d) validateGoalSessionAttachDelivery)
     else if gd_Kind d = GoalDeliverySessionStopped then
       (if gd_SessionAttach d \<noteq> None \<or> gd_SessionStopped d = None \<or> gd_Evidence d \<noteq> None \<or> gd_Usage d \<noteq> None \<or> \<not> gd_Ready d
           \<or> \<not> opt_ex (\<lambda>a. gd_DeliveryID d = gs_BindingID a) (gd_SessionStopped d)
        then Some (Err ''Goal session stopped delivery is invalid'')
        else deref (gd_SessionStopped d) validateGoalSessionStoppedDelivery)
     else if gd_Kind d = GoalDeliveryEvidence then
       (if gd_SessionAttach d \<noteq> None \<or> gd_SessionStopped d \<noteq> None \<or> gd_Evidence d = None \<or> gd_Usage d \<noteq> None \<or> \<not> gd_Ready d
           \<or> \<not> opt_ex (\<lambda>e. gd_DeliveryID d = e_EvidenceKey e \<and> e_RunID e = runID) (gd_Evidence d)
        then Some (Err ''Goal evidence delivery is invalid'')
        else deref (gd_Evidence d) (\<lambda>e. wrap_err ''Goal evidence delivery: '' (Evidence_Validate e)))
     else if gd_Kind d = GoalDeliveryUsage then
       (if gd_SessionAttach d \<noteq> None \<or> gd_SessionStopped d \<noteq> None \<or> gd_Evidence d \<noteq> None \<or> gd_Usage d = None \<or> \<not> gd_Ready d
           \<or> \<not> opt_ex (\<lambda>u. gd_DeliveryID d = u_UsageKey u \<and> u_RunID u = runID) (gd_Usage d)
        then Some (Err ''Goal usage delivery is invalid'')
        else deref (gd_Usage d) (\<lambda>u. wrap_err ''Goal usage delivery: '' (Usage_Validate u)))
     else None)"

definition prepareGoalDelivery :: "string \<Rightarrow> GoalDelivery \<Rightarrow> GoalDelivery result" where
  "prepareGoalDelivery runID d =
     on_err (checks [
       (gd_Fence d = zero_fence, ''Goal delivery fence is invalid''),
       (\<not> validGoalDeliveryKind (gd_Kind d) \<or> \<not> validRequiredString (gd_DeliveryID d) 4096, ''Goal delivery is invalid'')])
    (on_err (goalDeliveryBody runID d)
    (let digest = goalDeliveryDigest d in
     if gd_PayloadDigest d \<noteq> [] \<and> gd_PayloadDigest d \<noteq> digest then Inl ErrGoalDeliveryConflict
     else Inr (d\<lparr> gd_PayloadDigest := digest \<rparr>)))"

definition validatePersistedGoalDelivery :: "string \<Rightarrow> GoalDelivery \<Rightarrow> gerror option" where
  "validatePersistedGoalDelivery runID d =
     (if \<not> validGoalDeliveryDigest (gd_PayloadDigest d) then Some (Err ''Goal delivery payload digest is invalid'')
      else (case prepareGoalDelivery runID (d\<lparr> gd_PayloadDigest := [] \<rparr>) of
         Inl e \<Rightarrow> Some e
       | Inr p \<Rightarrow> if gd_PayloadDigest p \<noteq> gd_PayloadDigest d then Some ErrGoalDeliveryConflict else None))"

definition validateGoalDeliveryRetirement :: "string \<Rightarrow> Fence \<Rightarrow> GoalDeliveryRetirement \<Rightarrow> gerror option" where
  "validateGoalDeliveryRetirement runID fence r =
     then_err (checks [(gr_StatusCode r < 400 \<or> gr_StatusCode r > 599 \<or> \<not> validRequiredString (gr_Code r) 256
       \<or> \<not> validRequiredString (gr_Message r) 4096 \<or> gr_RetiredAt r = 0 \<or> gd_Fence (gr_Delivery r) \<noteq> fence,
       ''Goal delivery retirement is invalid'')])
     (validatePersistedGoalDelivery runID (gr_Delivery r))"

text \<open>The identity under which a delivery may occur once in a journal.\<close>

definition goalDeliveryIdentity :: "GoalDelivery \<Rightarrow> string" where
  "goalDeliveryIdentity d = gd_Kind d @ [CHR 0x00] @ gd_DeliveryID d"

text \<open>One loop of \<^verbatim>\<open>validateGoalDeliveries\<close>: each record is checked, then its identity must be new.
  The result carries the identities seen so far to the next loop.\<close>

fun goal_delivery_loop :: "('a \<Rightarrow> gerror option) \<Rightarrow> ('a \<Rightarrow> string) \<Rightarrow> string list \<Rightarrow> 'a list \<Rightarrow> string list result" where
  "goal_delivery_loop check idf seen [] = Inr seen"
| "goal_delivery_loop check idf seen (d # ds) =
     on_err (check d)
       (if idf d \<in> set seen then Inl (Err ''Goal delivery is duplicated'')
        else goal_delivery_loop check idf (idf d # seen) ds)"

definition pendingGoalDelivery_check :: "string \<Rightarrow> Fence \<Rightarrow> GoalDelivery \<Rightarrow> gerror option" where
  "pendingGoalDelivery_check runID fence d =
     then_err (checks [(gd_Fence d \<noteq> fence, ''Goal delivery fence does not match journal'')]) (validatePersistedGoalDelivery runID d)"

definition deliveredGoalDelivery_check :: "string \<Rightarrow> Fence \<Rightarrow> GoalDelivery \<Rightarrow> gerror option" where
  "deliveredGoalDelivery_check runID fence d =
     then_err (checks [(\<not> gd_Ready d \<or> gd_Fence d \<noteq> fence, ''Goal delivered record is invalid'')]) (validatePersistedGoalDelivery runID d)"

definition goal_deliveries_valid ::
  "string \<Rightarrow> Fence \<Rightarrow> GoalDelivery list \<Rightarrow> GoalDelivery list \<Rightarrow> GoalDeliveryRetirement list \<Rightarrow> bool \<Rightarrow> gerror option" where
  "goal_deliveries_valid runID fence pending delivered retired enabled =
    (case bind_r (goal_delivery_loop (pendingGoalDelivery_check runID fence) goalDeliveryIdentity [] pending) (\<lambda>seen.
          bind_r (goal_delivery_loop (deliveredGoalDelivery_check runID fence) goalDeliveryIdentity seen delivered) (\<lambda>seen.
          goal_delivery_loop (validateGoalDeliveryRetirement runID fence) (\<lambda>r. goalDeliveryIdentity (gr_Delivery r)) seen retired))
     of Inl e \<Rightarrow> Some e
      | Inr _ \<Rightarrow> checks [(\<not> enabled \<and> (pending \<noteq> [] \<or> delivered \<noteq> [] \<or> retired \<noteq> []), ''Goal delivery marker is invalid'')])"

subsection \<open>Lemmas\<close>

lemma goal_delivery_loop_Inr_iff:
  "goal_delivery_loop check idf seen ds = Inr s \<longleftrightarrow>
     (\<forall>d \<in> set ds. check d = None) \<and> distinct (map idf ds) \<and> set (map idf ds) \<inter> set seen = {} \<and> s = rev (map idf ds) @ seen"
  by (induction ds arbitrary: seen) (auto simp: guard_simps)

text \<open>What the three loops establish together: every record passes its check and no identity
  occurs twice among pending, delivered and retired records.\<close>

lemma goal_deliveries_valid_iff:
  "goal_deliveries_valid runID fence p d r en = None \<longleftrightarrow>
     (\<forall>x \<in> set p. pendingGoalDelivery_check runID fence x = None) \<and>
     (\<forall>x \<in> set d. deliveredGoalDelivery_check runID fence x = None) \<and>
     (\<forall>x \<in> set r. validateGoalDeliveryRetirement runID fence x = None) \<and>
     distinct (map goalDeliveryIdentity (p @ d @ map gr_Delivery r)) \<and>
     (en \<or> p = [] \<and> d = [] \<and> r = [])"
proof -
  have c: "(case x of Inl e \<Rightarrow> Some e | Inr _ \<Rightarrow> k) = None \<longleftrightarrow> (\<exists>y. x = Inr y) \<and> k = None" for x :: "'a result" and k :: "gerror option"
    by (cases x) auto
  show ?thesis
    unfolding goal_deliveries_valid_def c
    by (simp add: guard_simps goal_delivery_loop_Inr_iff comp_def) (auto simp: comp_def)
qed

lemma goalDeliveryDigest_ready [simp]:
  "goalDeliveryDigest (d\<lparr> gd_Ready := b \<rparr>) = goalDeliveryDigest d"
  "goalDeliveryDigest (d\<lparr> gd_PayloadDigest := x \<rparr>) = goalDeliveryDigest d"
  by (simp_all add: goalDeliveryDigest_def)

lemma validGoalDeliveryDigest_digest [simp]: "validGoalDeliveryDigest (goalDeliveryDigest d)"
  by (simp add: validGoalDeliveryDigest_def goalDeliveryDigest_def length_sha_hex)

lemma goalDeliveryDigest_not_Nil [simp]: "goalDeliveryDigest d \<noteq> []"
  by (simp add: goalDeliveryDigest_def sha_hex_not_Nil)

lemma goalDeliveryBody_digest [simp]: "goalDeliveryBody r (d\<lparr> gd_PayloadDigest := x \<rparr>) = goalDeliveryBody r d"
  by (cases d) (simp only: goalDeliveryBody_def GoalDelivery.select_convs GoalDelivery.update_convs)

lemma prepareGoalDelivery_Inr_iff:
  "prepareGoalDelivery r d = Inr p \<longleftrightarrow>
     gd_Fence d \<noteq> zero_fence \<and> validGoalDeliveryKind (gd_Kind d) \<and> validRequiredString (gd_DeliveryID d) 4096 \<and>
     goalDeliveryBody r d = None \<and> gd_PayloadDigest d \<in> {[], goalDeliveryDigest d} \<and>
     p = d\<lparr> gd_PayloadDigest := goalDeliveryDigest d \<rparr>"
  by (auto simp: prepareGoalDelivery_def guard_simps Let_def)

lemma validatePersisted_iff:
  "validatePersistedGoalDelivery r d = None \<longleftrightarrow>
     prepareGoalDelivery r d = Inr d"
proof
  assume v: "validatePersistedGoalDelivery r d = None"
  then obtain p where p: "prepareGoalDelivery r (d\<lparr> gd_PayloadDigest := [] \<rparr>) = Inr p" "gd_PayloadDigest p = gd_PayloadDigest d"
    by (auto simp: validatePersistedGoalDelivery_def split: if_splits sum.splits)
  have g: "gd_PayloadDigest d = goalDeliveryDigest d"
    using p by (auto simp: prepareGoalDelivery_Inr_iff)
  then have "d = d\<lparr> gd_PayloadDigest := goalDeliveryDigest d \<rparr>" by (cases d) simp
  then show "prepareGoalDelivery r d = Inr d"
    using p g by (auto simp: prepareGoalDelivery_Inr_iff)
next
  assume "prepareGoalDelivery r d = Inr d"
  then have p: "gd_Fence d \<noteq> zero_fence" "validGoalDeliveryKind (gd_Kind d)" "validRequiredString (gd_DeliveryID d) 4096"
     "goalDeliveryBody r d = None" "d = d\<lparr> gd_PayloadDigest := goalDeliveryDigest d \<rparr>"
    by (auto simp: prepareGoalDelivery_Inr_iff)
  have g: "gd_PayloadDigest d = goalDeliveryDigest d" by (subst p(5)) simp
  have "prepareGoalDelivery r (d\<lparr> gd_PayloadDigest := [] \<rparr>) = Inr d"
    using p by (simp add: prepareGoalDelivery_Inr_iff)
  then show "validatePersistedGoalDelivery r d = None"
    by (simp add: validatePersistedGoalDelivery_def g)
qed

end
