(* ===== verification/Goal_Session.thy ===== *)
theory Goal_Session
  imports Ensures Goal_Delivery
begin

text \<open>
  The native Goal session journal (\<^verbatim>\<open>internal/state/goal_session.go\<close>): the launch intent, the recovery record with its
  stop certificates and Control attachment lineage, the predicates that read it and its validation.  The struct the
  source embeds is the field \<open>sj_Intent\<close>.
\<close>

subsection \<open>States\<close>

abbreviation GoalSessionStateAvailable :: string where "GoalSessionStateAvailable \<equiv> ''available''"
abbreviation GoalSessionStateBusy :: string where "GoalSessionStateBusy \<equiv> ''busy''"
abbreviation GoalSessionStateUnavailable :: string where "GoalSessionStateUnavailable \<equiv> ''unavailable''"
abbreviation GoalSessionStateClosed :: string where "GoalSessionStateClosed \<equiv> ''closed''"

abbreviation GoalSessionLaunchStateIntent :: string where "GoalSessionLaunchStateIntent \<equiv> ''intent''"
abbreviation GoalSessionLaunchStateLaunching :: string where "GoalSessionLaunchStateLaunching \<equiv> ''launching''"
abbreviation GoalSessionLaunchStateAttached :: string where "GoalSessionLaunchStateAttached \<equiv> ''attached''"
abbreviation GoalSessionLaunchStateUncertain :: string where "GoalSessionLaunchStateUncertain \<equiv> ''uncertain''"
abbreviation GoalSessionLaunchStateClosed :: string where "GoalSessionLaunchStateClosed \<equiv> ''closed''"

abbreviation GoalSessionModeFresh :: string where "GoalSessionModeFresh \<equiv> ''fresh''"
abbreviation GoalSessionModeResume :: string where "GoalSessionModeResume \<equiv> ''resume''"
abbreviation GoalSessionModeHandoff :: string where "GoalSessionModeHandoff \<equiv> ''handoff''"

abbreviation goalSessionConsumedStopLimit :: nat where "goalSessionConsumedStopLimit \<equiv> 4096"

abbreviation ErrGoalSessionConflict :: gerror where "ErrGoalSessionConflict \<equiv> Err ''goal session journal conflict''"
abbreviation ErrGoalSessionUncertain :: gerror where "ErrGoalSessionUncertain \<equiv> Err ''goal session launch is uncertain''"
abbreviation ErrGoalSessionOwnerMismatch :: gerror where "ErrGoalSessionOwnerMismatch \<equiv> Err ''goal session owner mismatch''"
abbreviation ErrGoalSessionVersionMismatch :: gerror where "ErrGoalSessionVersionMismatch \<equiv> Err ''goal session version mismatch''"
abbreviation ErrGoalSessionWorkspaceMismatch :: gerror where "ErrGoalSessionWorkspaceMismatch \<equiv> Err ''goal session workspace mismatch''"
abbreviation ErrGoalSessionClosed :: gerror where "ErrGoalSessionClosed \<equiv> Err ''goal session is closed''"
abbreviation ErrGoalSessionNotAttached :: gerror where "ErrGoalSessionNotAttached \<equiv> Err ''goal session native handle is not attached''"
abbreviation ErrGoalSessionCompatibilityIncomplete :: gerror where
  "ErrGoalSessionCompatibilityIncomplete \<equiv> Err ''goal session compatibility is incomplete''"

subsection \<open>Records\<close>

record GoalSessionKey =
  sk_GoalID :: string
  sk_LocalHandleID :: string

record GoalSessionLineageKey =
  lk_GoalID :: string
  lk_WorkItemID :: string
  lk_TaskID :: string

record WorkspaceOwnerRunKey =
  wo_RunID :: string
  wo_Generation :: int

record GoalSessionLaunchIntent =
  si_LaunchIntentID :: string
  si_GoalID :: string
  si_GoalRevision :: int
  si_WorkItemID :: string
  si_TaskID :: string
  si_RunID :: string
  si_Generation :: int
  si_AdmissionID :: string
  si_HandoffSourceRunID :: string
  si_LocalHandleID :: string
  si_BindingID :: string
  si_OwnerID :: string
  si_MachineID :: string
  si_RuntimeID :: string
  si_RuntimeEpoch :: int
  si_DaemonInstanceID :: string
  si_HarnessKind :: string
  si_HarnessVersion :: string
  si_AdapterVersion :: string
  si_AdapterProtocolVersion :: int
  si_WorkspaceFingerprint :: string
  si_WorkspacePath :: string
  si_WorkspaceOwnerRunKey :: WorkspaceOwnerRunKey
  si_RepositoryResourceID :: string
  si_SessionMode :: string

record GoalSessionControlAttachment =
  ca_RunID :: string
  ca_Generation :: int
  ca_TaskID :: string
  ca_AdmissionID :: string
  ca_SessionID :: string
  ca_BindingID :: string
  ca_ReceiptID :: string

record GoalSessionControlAttachmentLineage =
  cl_Original :: GoalSessionControlAttachment
  cl_Current :: GoalSessionControlAttachment

record GoalSessionStopCertificate =
  sc_RunID :: string
  sc_Generation :: int
  sc_SessionID :: string
  sc_LocalHandleID :: string
  sc_BindingID :: string
  sc_DeliveryDigest :: string
  sc_ReceiptID :: string

record GoalSessionJournal =
  sj_Intent :: GoalSessionLaunchIntent
  sj_SchemaVersion :: int
  sj_SessionState :: string
  sj_LaunchState :: string
  sj_LaunchAttempted :: bool
  sj_LaunchAttemptedAt :: time
  sj_RecoveryRequired :: bool
  sj_NativeSessionID :: string
  sj_NativeSessionFilename :: string
  sj_ControlSessionID :: string
  sj_ControlAttachmentReceiptID :: string
  sj_ControlAttachmentLineage :: "GoalSessionControlAttachmentLineage option"
  sj_ResumeSourceStopCertificate :: "GoalSessionStopCertificate option"
  sj_ConsumedStopCertificates :: "GoalSessionStopCertificate list option"
  sj_ResumeStartPending :: bool
  sj_ResumeNativeStopKnown :: bool
  sj_ResumeTerminalReason :: string
  sj_StopCertificate :: "GoalSessionStopCertificate option"
  sj_UncertainReason :: string
  sj_CreatedAt :: time
  sj_UpdatedAt :: time

record GoalSessionHandle =
  hn_NativeSessionID :: string
  hn_NativeSessionFilename :: string

record GoalSessionCompatibility =
  gc_OwnerID :: string
  gc_MachineID :: string
  gc_RuntimeID :: string
  gc_RuntimeEpoch :: int
  gc_DaemonInstanceID :: string
  gc_HarnessKind :: string
  gc_HarnessVersion :: string
  gc_AdapterVersion :: string
  gc_AdapterProtocolVersion :: int
  gc_WorkspaceFingerprint :: string
  gc_RepositoryResourceID :: string

record GoalSessionResumeRebind =
  rb_RunID :: string
  rb_Generation :: int
  rb_TaskID :: string
  rb_AdmissionID :: string
  rb_BindingID :: string
  rb_ExactStopCertificate :: GoalSessionStopCertificate
  rb_Compatibility :: GoalSessionCompatibility

record GoalSessionControlProjection =
  cp_GoalID :: string
  cp_GoalRevision :: int
  cp_WorkItemID :: string
  cp_TaskID :: string
  cp_RunID :: string
  cp_Generation :: int
  cp_AdmissionID :: string
  cp_LocalHandleID :: string
  cp_OwnerID :: string
  cp_MachineID :: string
  cp_RuntimeID :: string
  cp_RuntimeEpoch :: int
  cp_HarnessKind :: string
  cp_HarnessVersion :: string
  cp_AdapterVersion :: string
  cp_AdapterProtocolVersion :: int
  cp_WorkspaceFingerprint :: string
  cp_SessionState :: string
  cp_LaunchState :: string
  cp_RecoveryRequired :: bool

subsection \<open>Reading a journal\<close>

definition intent_Key :: "GoalSessionLaunchIntent \<Rightarrow> GoalSessionKey" where
  "intent_Key i = \<lparr> sk_GoalID = si_GoalID i, sk_LocalHandleID = si_LocalHandleID i \<rparr>"

definition intent_LineageKey :: "GoalSessionLaunchIntent \<Rightarrow> GoalSessionLineageKey" where
  "intent_LineageKey i = \<lparr> lk_GoalID = si_GoalID i, lk_WorkItemID = si_WorkItemID i, lk_TaskID = si_TaskID i \<rparr>"

definition session_Compatibility :: "GoalSessionJournal \<Rightarrow> GoalSessionCompatibility" where
  "session_Compatibility j = (let i = sj_Intent j in \<lparr> gc_OwnerID = si_OwnerID i, gc_MachineID = si_MachineID i,
     gc_RuntimeID = si_RuntimeID i, gc_RuntimeEpoch = si_RuntimeEpoch i, gc_DaemonInstanceID = si_DaemonInstanceID i,
     gc_HarnessKind = si_HarnessKind i, gc_HarnessVersion = si_HarnessVersion i, gc_AdapterVersion = si_AdapterVersion i,
     gc_AdapterProtocolVersion = si_AdapterProtocolVersion i, gc_WorkspaceFingerprint = si_WorkspaceFingerprint i,
     gc_RepositoryResourceID = si_RepositoryResourceID i \<rparr>)"

definition NeedsReconciliation :: "GoalSessionJournal \<Rightarrow> bool" where
  "NeedsReconciliation j = (sj_RecoveryRequired j \<or> (sj_LaunchAttempted j
     \<and> sj_LaunchState j \<noteq> GoalSessionLaunchStateAttached \<and> sj_LaunchState j \<noteq> GoalSessionLaunchStateClosed))"

definition validGoalSessionStopCertificate :: "GoalSessionStopCertificate \<Rightarrow> bool" where
  "validGoalSessionStopCertificate c = (validRequiredString (sc_RunID c) 4096 \<and> sc_Generation c > 0
     \<and> validGoalSessionUUID (sc_SessionID c) \<and> validGoalSessionUUID (sc_LocalHandleID c)
     \<and> validGoalSessionUUID (sc_BindingID c) \<and> validGoalDeliveryDigest (sc_DeliveryDigest c) \<and> validGoalSessionUUID (sc_ReceiptID c))"

definition validGoalSessionConsumedStopCertificateHistory :: "GoalSessionStopCertificate list \<Rightarrow> bool" where
  "validGoalSessionConsumedStopCertificateHistory cs = (cs \<noteq> [] \<and> length cs \<le> goalSessionConsumedStopLimit
     \<and> list_all validGoalSessionStopCertificate cs \<and> distinct cs)"

definition validWorkspaceOwnerRunKey :: "WorkspaceOwnerRunKey \<Rightarrow> bool" where
  "validWorkspaceOwnerRunKey k = (validRequiredString (wo_RunID k) 4096 \<and> wo_Generation k > 0)"

definition validGoalSessionControlAttachment :: "GoalSessionControlAttachment \<Rightarrow> bool" where
  "validGoalSessionControlAttachment a = (validRequiredString (ca_RunID a) 4096 \<and> ca_Generation a > 0
     \<and> validRequiredString (ca_TaskID a) 4096 \<and> validRequiredString (ca_AdmissionID a) 4096
     \<and> validGoalSessionUUID (ca_SessionID a) \<and> validGoalSessionUUID (ca_BindingID a) \<and> validGoalSessionUUID (ca_ReceiptID a))"

definition validGoalSessionControlAttachmentLineage :: "GoalSessionControlAttachmentLineage \<Rightarrow> bool" where
  "validGoalSessionControlAttachmentLineage l = (validGoalSessionControlAttachment (cl_Original l)
     \<and> validGoalSessionControlAttachment (cl_Current l) \<and> ca_SessionID (cl_Original l) = ca_SessionID (cl_Current l))"

definition goalSessionControlAttachment :: "GoalSessionJournal \<Rightarrow> string \<Rightarrow> string \<Rightarrow> string \<Rightarrow> GoalSessionControlAttachment" where
  "goalSessionControlAttachment j sessionID bindingID receiptID = (let i = sj_Intent j in
     \<lparr> ca_RunID = si_RunID i, ca_Generation = si_Generation i, ca_TaskID = si_TaskID i, ca_AdmissionID = si_AdmissionID i,
       ca_SessionID = sessionID, ca_BindingID = bindingID, ca_ReceiptID = receiptID \<rparr>)"

definition matchesGoalSessionControlAttachment :: "GoalSessionControlAttachment \<Rightarrow> GoalSessionJournal \<Rightarrow> bool" where
  "matchesGoalSessionControlAttachment a j = (ca_RunID a = si_RunID (sj_Intent j) \<and> ca_Generation a = si_Generation (sj_Intent j)
     \<and> ca_TaskID a = si_TaskID (sj_Intent j) \<and> ca_AdmissionID a = si_AdmissionID (sj_Intent j)
     \<and> ca_SessionID a = sj_ControlSessionID j \<and> ca_BindingID a = si_BindingID (sj_Intent j)
     \<and> ca_ReceiptID a = sj_ControlAttachmentReceiptID j)"

definition HasVerifiedControlAttachment :: "GoalSessionJournal \<Rightarrow> bool" where
  "HasVerifiedControlAttachment j = (sj_LaunchState j = GoalSessionLaunchStateAttached \<and> sj_NativeSessionID j \<noteq> []
     \<and> validGoalSessionUUID (sj_ControlSessionID j) \<and> validGoalSessionUUID (si_BindingID (sj_Intent j))
     \<and> validGoalSessionUUID (sj_ControlAttachmentReceiptID j)
     \<and> opt_ex (\<lambda>l. validGoalSessionControlAttachmentLineage l \<and> matchesGoalSessionControlAttachment (cl_Current l) j)
         (sj_ControlAttachmentLineage j))"

definition IsLegacyControlAttachment :: "GoalSessionJournal \<Rightarrow> bool" where
  "IsLegacyControlAttachment j = (sj_LaunchState j = GoalSessionLaunchStateAttached \<and> sj_NativeSessionID j \<noteq> []
     \<and> validGoalSessionUUID (sj_ControlSessionID j) \<and> validGoalSessionUUID (si_BindingID (sj_Intent j))
     \<and> sj_ControlAttachmentLineage j = None)"

definition IsUncertainLaunch :: "GoalSessionJournal \<Rightarrow> bool" where
  "IsUncertainLaunch j = (sj_LaunchState j = GoalSessionLaunchStateUncertain \<or> NeedsReconciliation j)"

definition HasKnownRetainedResumeNativeStop :: "GoalSessionJournal \<Rightarrow> bool" where
  "HasKnownRetainedResumeNativeStop j = (sj_ResumeNativeStopKnown j \<and> si_SessionMode (sj_Intent j) = GoalSessionModeResume
     \<and> sj_ResumeSourceStopCertificate j \<noteq> None \<and> sj_StopCertificate j = None
     \<and> sj_SessionState j = GoalSessionStateUnavailable \<and> sj_LaunchState j = GoalSessionLaunchStateAttached
     \<and> sj_NativeSessionID j \<noteq> [] \<and> \<not> NeedsReconciliation j)"

definition ControlProjection :: "GoalSessionJournal \<Rightarrow> GoalSessionControlProjection" where
  "ControlProjection j = (let i = sj_Intent j in \<lparr> cp_GoalID = si_GoalID i, cp_GoalRevision = si_GoalRevision i,
     cp_WorkItemID = si_WorkItemID i, cp_TaskID = si_TaskID i, cp_RunID = si_RunID i, cp_Generation = si_Generation i,
     cp_AdmissionID = si_AdmissionID i, cp_LocalHandleID = si_LocalHandleID i, cp_OwnerID = si_OwnerID i,
     cp_MachineID = si_MachineID i, cp_RuntimeID = si_RuntimeID i, cp_RuntimeEpoch = si_RuntimeEpoch i,
     cp_HarnessKind = si_HarnessKind i, cp_HarnessVersion = si_HarnessVersion i, cp_AdapterVersion = si_AdapterVersion i,
     cp_AdapterProtocolVersion = si_AdapterProtocolVersion i, cp_WorkspaceFingerprint = si_WorkspaceFingerprint i,
     cp_SessionState = sj_SessionState j, cp_LaunchState = sj_LaunchState j, cp_RecoveryRequired = NeedsReconciliation j \<rparr>)"

subsection \<open>Validation\<close>

definition validateGoalSessionKey :: "GoalSessionKey \<Rightarrow> gerror option" where
  "validateGoalSessionKey k = checks [
     (\<not> validRequiredString (sk_GoalID k) 4096 \<or> \<not> validRequiredString (sk_LocalHandleID k) 4096, ''goal session key is invalid'')]"

definition validateGoalSessionLineageKey :: "GoalSessionLineageKey \<Rightarrow> gerror option" where
  "validateGoalSessionLineageKey l = checks [
     (\<not> validRequiredString (lk_GoalID l) 4096 \<or> length (lk_WorkItemID l) > 4096 \<or> length (lk_TaskID l) > 4096,
      ''goal session lineage key is invalid'')]"

definition validateGoalSessionHandle :: "GoalSessionHandle \<Rightarrow> gerror option" where
  "validateGoalSessionHandle h = checks [
     (\<not> validRequiredString (hn_NativeSessionID h) 65536 \<or> length (hn_NativeSessionFilename h) > 32768,
      ''goal session native handle is invalid'')]"

definition validGoalSessionState :: "string \<Rightarrow> bool" where
  "validGoalSessionState v = (v = GoalSessionStateAvailable \<or> v = GoalSessionStateBusy \<or> v = GoalSessionStateUnavailable
     \<or> v = GoalSessionStateClosed)"

definition validGoalSessionLaunchState :: "string \<Rightarrow> bool" where
  "validGoalSessionLaunchState v = (v = GoalSessionLaunchStateIntent \<or> v = GoalSessionLaunchStateLaunching
     \<or> v = GoalSessionLaunchStateAttached \<or> v = GoalSessionLaunchStateUncertain \<or> v = GoalSessionLaunchStateClosed)"

definition validGoalSessionMode :: "string \<Rightarrow> bool" where
  "validGoalSessionMode v = (v = GoalSessionModeFresh \<or> v = GoalSessionModeResume \<or> v = GoalSessionModeHandoff)"

definition zero_owner_run_key :: WorkspaceOwnerRunKey where
  "zero_owner_run_key = \<lparr> wo_RunID = [], wo_Generation = 0 \<rparr>"

definition validateGoalSessionIntent :: "GoalSessionLaunchIntent \<Rightarrow> gerror option" where
  "validateGoalSessionIntent i = checks [
     (validateGoalSessionKey (intent_Key i) \<noteq> None \<or> \<not> validRequiredString (si_LaunchIntentID i) 4096 \<or> si_GoalRevision i \<le> 0
      \<or> si_Generation i < 0 \<or> length (si_WorkItemID i) > 4096 \<or> length (si_TaskID i) > 4096 \<or> length (si_RunID i) > 4096
      \<or> length (si_AdmissionID i) > 4096 \<or> length (si_HandoffSourceRunID i) > 36 \<or> length (si_WorkspacePath i) > 32768,
      ''goal session launch intent is invalid''),
     (si_RunID i \<noteq> [] \<and> si_Generation i \<le> 0, ''goal session generation is invalid''),
     (length (si_OwnerID i) > 4096 \<or> length (si_MachineID i) > 4096 \<or> length (si_RuntimeID i) > 4096
      \<or> length (si_DaemonInstanceID i) > 4096
      \<or> (si_OwnerID i = [] \<and> si_MachineID i = [] \<and> si_RuntimeID i = [] \<and> si_DaemonInstanceID i = []), ''goal session owner is invalid''),
     (si_RuntimeEpoch i < 0 \<or> \<not> validRequiredString (si_HarnessKind i) 4096 \<or> \<not> validRequiredString (si_HarnessVersion i) 4096
      \<or> \<not> validRequiredString (si_AdapterVersion i) 4096 \<or> si_AdapterProtocolVersion i \<le> 0
      \<or> \<not> validRequiredString (si_WorkspaceFingerprint i) 4096 \<or> \<not> validGoalSessionMode (si_SessionMode i),
      ''goal session launch identity is invalid''),
     (si_RepositoryResourceID i \<noteq> [] \<and> \<not> validGoalSessionUUID (si_RepositoryResourceID i),
      ''goal session repository resource ID is invalid''),
     (si_WorkspaceOwnerRunKey i \<noteq> zero_owner_run_key \<and> \<not> validWorkspaceOwnerRunKey (si_WorkspaceOwnerRunKey i),
      ''goal session workspace owner Run key is invalid''),
     (si_BindingID i \<noteq> [] \<and> \<not> validGoalSessionUUID (si_BindingID i), ''goal session binding ID is invalid''),
     (si_SessionMode i = GoalSessionModeHandoff \<and> \<not> validGoalSessionUUID (si_HandoffSourceRunID i)
      \<or> (si_SessionMode i = GoalSessionModeFresh \<or> si_SessionMode i = GoalSessionModeResume) \<and> si_HandoffSourceRunID i \<noteq> [],
      ''goal session handoff source Run ID is invalid'')]"

definition session_launch_checks :: "GoalSessionJournal \<Rightarrow> (bool \<times> string) list" where
  "session_launch_checks j = [
     (\<not> validGoalSessionState (sj_SessionState j) \<or> \<not> validGoalSessionLaunchState (sj_LaunchState j)
      \<or> length (sj_NativeSessionID j) > 65536 \<or> length (sj_NativeSessionFilename j) > 32768 \<or> length (sj_UncertainReason j) > 4096
      \<or> (sj_ControlSessionID j \<noteq> [] \<and> \<not> validGoalSessionUUID (sj_ControlSessionID j))
      \<or> (sj_ControlAttachmentReceiptID j \<noteq> [] \<and> \<not> validGoalSessionUUID (sj_ControlAttachmentReceiptID j)),
      ''goal session journal is invalid''),
     ((sj_LaunchAttemptedAt j = 0) \<noteq> (\<not> sj_LaunchAttempted j), ''goal session launch attempt metadata is invalid''),
     (sj_LaunchState j = GoalSessionLaunchStateIntent \<and> sj_LaunchAttempted j, ''goal session launch state is invalid''),
     (sj_LaunchState j = GoalSessionLaunchStateLaunching \<and> \<not> sj_LaunchAttempted j, ''goal session launch state is invalid''),
     (sj_LaunchState j = GoalSessionLaunchStateAttached \<and> (\<not> sj_LaunchAttempted j \<or> sj_NativeSessionID j = []),
      ''goal session native handle is invalid''),
     (sj_LaunchState j = GoalSessionLaunchStateUncertain \<and> \<not> NeedsReconciliation j, ''goal session uncertainty is invalid''),
     (sj_LaunchState j = GoalSessionLaunchStateClosed \<and> sj_SessionState j \<noteq> GoalSessionStateClosed, ''goal session closed state is invalid''),
     (sj_RecoveryRequired j \<noteq> NeedsReconciliation j, ''goal session recovery marker is invalid''),
     (sj_LaunchState j = GoalSessionLaunchStateAttached \<and> sj_UncertainReason j \<noteq> [], ''goal session uncertainty reason is invalid''),
     (sj_LaunchState j \<noteq> GoalSessionLaunchStateAttached \<and> (sj_NativeSessionID j \<noteq> [] \<or> sj_NativeSessionFilename j \<noteq> []),
      ''goal session native handle is invalid''),
     ((sj_ControlSessionID j \<noteq> [] \<or> sj_ControlAttachmentReceiptID j \<noteq> [])
      \<and> (sj_LaunchState j \<noteq> GoalSessionLaunchStateAttached \<or> si_BindingID (sj_Intent j) = [] \<or> sj_ControlSessionID j = []),
      ''goal session control attachment is invalid'')]"

definition session_resume_checks :: "GoalSessionJournal \<Rightarrow> (bool \<times> string) list" where
  "session_resume_checks j = [
     (opt_ex (\<lambda>l. \<not> validGoalSessionControlAttachmentLineage l) (sj_ControlAttachmentLineage j),
      ''goal session control attachment lineage is invalid''),
     (opt_ex (\<lambda>l. sj_ControlSessionID j \<noteq> [] \<and> (ca_SessionID (cl_Original l) \<noteq> sj_ControlSessionID j
         \<or> ca_SessionID (cl_Current l) \<noteq> sj_ControlSessionID j)) (sj_ControlAttachmentLineage j),
      ''goal session control attachment lineage is invalid''),
     (opt_ex (\<lambda>c. \<not> validGoalSessionStopCertificate c) (sj_ResumeSourceStopCertificate j), ''goal session resume source receipt is invalid''),
     (opt_ex (\<lambda>cs. \<not> validGoalSessionConsumedStopCertificateHistory cs) (sj_ConsumedStopCertificates j),
      ''goal session consumed stop receipt history is invalid''),
     (opt_ex (\<lambda>c. opt_ex (\<lambda>cs. c \<notin> set cs) (sj_ConsumedStopCertificates j)) (sj_ResumeSourceStopCertificate j),
      ''goal session resume source receipt history is invalid''),
     (sj_ResumeStartPending j \<and> (si_SessionMode (sj_Intent j) \<noteq> GoalSessionModeResume \<or> sj_ResumeSourceStopCertificate j = None
        \<or> sj_StopCertificate j \<noteq> None \<or> sj_SessionState j \<noteq> GoalSessionStateBusy \<or> sj_LaunchState j \<noteq> GoalSessionLaunchStateAttached
        \<or> sj_NativeSessionID j = []), ''goal session resume pre-start state is invalid''),
     (sj_ResumeNativeStopKnown j \<and> \<not> HasKnownRetainedResumeNativeStop j, ''goal session retained native stop state is invalid''),
     (sj_ResumeTerminalReason j \<noteq> [] \<and> (\<not> HasKnownRetainedResumeNativeStop j \<or> sj_ResumeTerminalReason j \<noteq> ''resume_rejected''),
      ''goal session retained resume terminal reason is invalid''),
     (opt_ex (\<lambda>c. \<not> validGoalSessionStopCertificate c \<or> sj_SessionState j \<noteq> GoalSessionStateAvailable
        \<or> sj_ControlSessionID j \<noteq> sc_SessionID c \<or> si_BindingID (sj_Intent j) \<noteq> sc_BindingID c \<or> si_RunID (sj_Intent j) \<noteq> sc_RunID c
        \<or> si_Generation (sj_Intent j) \<noteq> sc_Generation c \<or> si_LocalHandleID (sj_Intent j) \<noteq> sc_LocalHandleID c) (sj_StopCertificate j),
      ''goal session stop receipt is invalid'')]"

definition validateGoalSessionJournal :: "GoalSessionJournal \<Rightarrow> gerror option" where
  "validateGoalSessionJournal j =
     then_err (checks [(sj_SchemaVersion j \<noteq> 1 \<or> sj_CreatedAt j = 0 \<or> sj_UpdatedAt j = 0, ''goal session journal is invalid'')])
    (then_err (validateGoalSessionIntent (sj_Intent j))
    (then_err (checks (session_launch_checks j)) (checks (session_resume_checks j))))"

end
