(* ===== verification/Goal_Session_Ops.thy ===== *)
theory Goal_Session_Ops
  imports Goal_Session
begin

text \<open>
  The mutations of a Goal session journal (\<^verbatim>\<open>internal/state/goal_session.go\<close>).  Each definition is the closure the store
  applies to the loaded journal, with the checks of its arguments in front; \<open>now\<close> is \<^verbatim>\<open>time.Now().UTC()\<close>.  The variadic
  arguments of the source are lists.
\<close>

subsection \<open>Identity comparison\<close>

definition compareGoalSessionIdentity :: "GoalSessionJournal \<Rightarrow> GoalSessionCompatibility \<Rightarrow> gerror option" where
  "compareGoalSessionIdentity j e = (let i = sj_Intent j in
     if gc_OwnerID e \<noteq> [] \<and> si_OwnerID i \<noteq> gc_OwnerID e then Some ErrGoalSessionOwnerMismatch
     else if gc_MachineID e \<noteq> [] \<and> si_MachineID i \<noteq> gc_MachineID e then Some ErrGoalSessionOwnerMismatch
     else if gc_RuntimeID e \<noteq> [] \<and> si_RuntimeID i \<noteq> gc_RuntimeID e then Some ErrGoalSessionOwnerMismatch
     else if gc_RuntimeEpoch e > 0 \<and> si_RuntimeEpoch i \<noteq> gc_RuntimeEpoch e then Some ErrGoalSessionOwnerMismatch
     else if gc_DaemonInstanceID e \<noteq> [] \<and> si_DaemonInstanceID i \<noteq> gc_DaemonInstanceID e then Some ErrGoalSessionOwnerMismatch
     else if (gc_HarnessKind e \<noteq> [] \<and> si_HarnessKind i \<noteq> gc_HarnessKind e)
        \<or> (gc_HarnessVersion e \<noteq> [] \<and> si_HarnessVersion i \<noteq> gc_HarnessVersion e)
        \<or> (gc_AdapterVersion e \<noteq> [] \<and> si_AdapterVersion i \<noteq> gc_AdapterVersion e)
        \<or> (gc_AdapterProtocolVersion e > 0 \<and> si_AdapterProtocolVersion i \<noteq> gc_AdapterProtocolVersion e)
     then Some ErrGoalSessionVersionMismatch
     else if gc_WorkspaceFingerprint e \<noteq> [] \<and> si_WorkspaceFingerprint i \<noteq> gc_WorkspaceFingerprint e then Some ErrGoalSessionWorkspaceMismatch
     else if gc_RepositoryResourceID e \<noteq> [] \<and> si_RepositoryResourceID i \<noteq> gc_RepositoryResourceID e then Some ErrGoalSessionWorkspaceMismatch
     else None)"

definition zero_compatibility :: GoalSessionCompatibility where
  "zero_compatibility = \<lparr> gc_OwnerID = [], gc_MachineID = [], gc_RuntimeID = [], gc_RuntimeEpoch = 0, gc_DaemonInstanceID = [],
     gc_HarnessKind = [], gc_HarnessVersion = [], gc_AdapterVersion = [], gc_AdapterProtocolVersion = 0,
     gc_WorkspaceFingerprint = [], gc_RepositoryResourceID = [] \<rparr>"

definition compareGoalSessionIdentityStrict :: "GoalSessionJournal \<Rightarrow> GoalSessionCompatibility \<Rightarrow> gerror option" where
  "compareGoalSessionIdentityStrict j e = (let r = session_Compatibility j in
     if e = zero_compatibility
        \<or> (gc_OwnerID r \<noteq> [] \<and> gc_OwnerID e = []) \<or> (gc_MachineID r \<noteq> [] \<and> gc_MachineID e = [])
        \<or> (gc_RuntimeID r \<noteq> [] \<and> gc_RuntimeID e = []) \<or> (gc_RuntimeEpoch r > 0 \<and> gc_RuntimeEpoch e \<le> 0)
        \<or> (gc_DaemonInstanceID r \<noteq> [] \<and> gc_DaemonInstanceID e = []) \<or> (gc_HarnessKind r \<noteq> [] \<and> gc_HarnessKind e = [])
        \<or> (gc_HarnessVersion r \<noteq> [] \<and> gc_HarnessVersion e = []) \<or> (gc_AdapterVersion r \<noteq> [] \<and> gc_AdapterVersion e = [])
        \<or> (gc_AdapterProtocolVersion r > 0 \<and> gc_AdapterProtocolVersion e \<le> 0)
        \<or> (gc_WorkspaceFingerprint r \<noteq> [] \<and> gc_WorkspaceFingerprint e = [])
        \<or> (gc_RepositoryResourceID r \<noteq> [] \<and> gc_RepositoryResourceID e = [])
     then Some ErrGoalSessionCompatibilityIncomplete
     else if gc_OwnerID e \<noteq> gc_OwnerID r \<or> gc_MachineID e \<noteq> gc_MachineID r \<or> gc_RuntimeID e \<noteq> gc_RuntimeID r
        \<or> gc_RuntimeEpoch e \<noteq> gc_RuntimeEpoch r \<or> gc_DaemonInstanceID e \<noteq> gc_DaemonInstanceID r
     then Some ErrGoalSessionOwnerMismatch
     else if gc_HarnessKind e \<noteq> gc_HarnessKind r \<or> gc_HarnessVersion e \<noteq> gc_HarnessVersion r
        \<or> gc_AdapterVersion e \<noteq> gc_AdapterVersion r \<or> gc_AdapterProtocolVersion e \<noteq> gc_AdapterProtocolVersion r
     then Some ErrGoalSessionVersionMismatch
     else if gc_WorkspaceFingerprint e \<noteq> gc_WorkspaceFingerprint r \<or> gc_RepositoryResourceID e \<noteq> gc_RepositoryResourceID r
     then Some ErrGoalSessionWorkspaceMismatch
     else None)"

definition compareGoalSessionCompatibility :: "GoalSessionJournal \<Rightarrow> GoalSessionCompatibility \<Rightarrow> gerror option" where
  "compareGoalSessionCompatibility j e = then_err (compareGoalSessionIdentity j e)
    (if sj_LaunchState j = GoalSessionLaunchStateClosed \<or> sj_SessionState j = GoalSessionStateClosed then Some ErrGoalSessionClosed
     else if NeedsReconciliation j then Some ErrGoalSessionUncertain
     else if IsLegacyControlAttachment j \<or> \<not> HasVerifiedControlAttachment j then Some ErrGoalSessionCompatibilityIncomplete
     else if sj_LaunchState j \<noteq> GoalSessionLaunchStateAttached \<or> sj_NativeSessionID j = [] then Some ErrGoalSessionNotAttached
     else None)"

definition completeGoalSessionResumeCompatibility :: "GoalSessionCompatibility \<Rightarrow> bool" where
  "completeGoalSessionResumeCompatibility v = (validRequiredString (gc_MachineID v) 4096 \<and> validRequiredString (gc_RuntimeID v) 4096
     \<and> validRequiredString (gc_HarnessKind v) 4096 \<and> validRequiredString (gc_HarnessVersion v) 4096
     \<and> validRequiredString (gc_AdapterVersion v) 4096 \<and> gc_AdapterProtocolVersion v > 0
     \<and> validRequiredString (gc_WorkspaceFingerprint v) 4096 \<and> validGoalSessionUUID (gc_RepositoryResourceID v))"

definition compareGoalSessionResumeCompatibilityFields :: "GoalSessionJournal \<Rightarrow> GoalSessionCompatibility \<Rightarrow> gerror option" where
  "compareGoalSessionResumeCompatibilityFields j e = (let i = sj_Intent j in
     if \<not> completeGoalSessionResumeCompatibility e \<or> \<not> completeGoalSessionResumeCompatibility (session_Compatibility j)
     then Some ErrGoalSessionCompatibilityIncomplete
     else if si_MachineID i \<noteq> gc_MachineID e \<or> si_RuntimeID i \<noteq> gc_RuntimeID e then Some ErrGoalSessionOwnerMismatch
     else if si_HarnessKind i \<noteq> gc_HarnessKind e \<or> si_HarnessVersion i \<noteq> gc_HarnessVersion e
        \<or> si_AdapterVersion i \<noteq> gc_AdapterVersion e \<or> si_AdapterProtocolVersion i \<noteq> gc_AdapterProtocolVersion e
     then Some ErrGoalSessionVersionMismatch
     else if si_WorkspaceFingerprint i \<noteq> gc_WorkspaceFingerprint e \<or> si_RepositoryResourceID i \<noteq> gc_RepositoryResourceID e
     then Some ErrGoalSessionWorkspaceMismatch
     else None)"

definition compareGoalSessionResumeCompatibility :: "GoalSessionJournal \<Rightarrow> GoalSessionCompatibility \<Rightarrow> gerror option" where
  "compareGoalSessionResumeCompatibility j e = then_err (compareGoalSessionResumeCompatibilityFields j e)
     (if si_RuntimeEpoch (sj_Intent j) \<noteq> gc_RuntimeEpoch e then Some ErrGoalSessionOwnerMismatch else None)"

subsection \<open>Launch\<close>

text \<open>\<^verbatim>\<open>ids\<close> are the two identifiers the source draws when the intent leaves them empty.\<close>

definition normalizeGoalSessionIntent :: "string result \<times> string result \<Rightarrow> GoalSessionLaunchIntent \<Rightarrow> GoalSessionLaunchIntent result" where
  "normalizeGoalSessionIntent ids i =
     bind_r (if si_LaunchIntentID i = [] then bind_r (fst ids) (\<lambda>v. Inr (i\<lparr> si_LaunchIntentID := v \<rparr>)) else Inr i) (\<lambda>i1.
     bind_r (if si_LocalHandleID i1 = [] then bind_r (snd ids) (\<lambda>v. Inr (i1\<lparr> si_LocalHandleID := v \<rparr>)) else Inr i1) (\<lambda>i2.
     let i3 = (if si_SessionMode i2 = [] then i2\<lparr> si_SessionMode := GoalSessionModeFresh \<rparr> else i2);
         i4 = (if si_WorkspaceOwnerRunKey i3 = zero_owner_run_key \<and> si_RunID i3 \<noteq> [] \<and> si_Generation i3 > 0
               then i3\<lparr> si_WorkspaceOwnerRunKey := \<lparr> wo_RunID = si_RunID i3, wo_Generation = si_Generation i3 \<rparr> \<rparr> else i3)
     in on_err (validateGoalSessionIntent i4) (Inr i4)))"

definition new_session :: "time \<Rightarrow> GoalSessionLaunchIntent \<Rightarrow> GoalSessionJournal" where
  "new_session now i = \<lparr> sj_Intent = i, sj_SchemaVersion = 1, sj_SessionState = GoalSessionStateBusy,
     sj_LaunchState = GoalSessionLaunchStateIntent, sj_LaunchAttempted = False, sj_LaunchAttemptedAt = 0, sj_RecoveryRequired = False,
     sj_NativeSessionID = [], sj_NativeSessionFilename = [], sj_ControlSessionID = [], sj_ControlAttachmentReceiptID = [],
     sj_ControlAttachmentLineage = None, sj_ResumeSourceStopCertificate = None, sj_ConsumedStopCertificates = None,
     sj_ResumeStartPending = False, sj_ResumeNativeStopKnown = False, sj_ResumeTerminalReason = [], sj_StopCertificate = None,
     sj_UncertainReason = [], sj_CreatedAt = now, sj_UpdatedAt = now \<rparr>"

definition MarkGoalSessionLaunchStarted :: "time \<Rightarrow> time list \<Rightarrow> GoalSessionJournal \<Rightarrow> GoalSessionJournal result" where
  "MarkGoalSessionLaunchStarted now at j =
    (if length at > 1 then Inl (Err ''launch start time is invalid'')
     else (let when = (case at of [t] \<Rightarrow> t | _ \<Rightarrow> now) in
       if when = 0 then Inl (Err ''launch start time is invalid'')
       else if sj_LaunchState j = GoalSessionLaunchStateClosed \<or> sj_SessionState j = GoalSessionStateClosed then Inl ErrGoalSessionClosed
       else if NeedsReconciliation j then Inl ErrGoalSessionUncertain
       else if sj_LaunchState j = GoalSessionLaunchStateAttached then Inl (Err ''goal session native handle is already attached'')
       else Inr (j\<lparr> sj_LaunchState := GoalSessionLaunchStateLaunching, sj_SessionState := GoalSessionStateBusy, sj_LaunchAttempted := True,
                   sj_LaunchAttemptedAt := when, sj_RecoveryRequired := True, sj_UpdatedAt := when \<rparr>)))"

text \<open>The block that closes a session whose native start is known not to have happened.\<close>

definition close_unstarted :: "time \<Rightarrow> GoalSessionJournal \<Rightarrow> GoalSessionJournal" where
  "close_unstarted now j = j\<lparr> sj_LaunchState := GoalSessionLaunchStateClosed, sj_SessionState := GoalSessionStateClosed,
     sj_RecoveryRequired := False, sj_UncertainReason := [], sj_UpdatedAt := now \<rparr>"

definition unstarted_intent :: "GoalSessionJournal \<Rightarrow> bool" where
  "unstarted_intent j = (sj_LaunchState j = GoalSessionLaunchStateIntent \<and> \<not> sj_LaunchAttempted j \<and> \<not> sj_RecoveryRequired j
     \<and> sj_NativeSessionID j = [] \<and> sj_NativeSessionFilename j = [])"

definition AbortGoalSessionLaunchBeforeNativeStart :: "time \<Rightarrow> GoalSessionJournal \<Rightarrow> GoalSessionJournal result" where
  "AbortGoalSessionLaunchBeforeNativeStart now j =
    (if sj_LaunchState j = GoalSessionLaunchStateClosed \<and> sj_SessionState j = GoalSessionStateClosed then Inr j
     else if unstarted_intent j then Inr (close_unstarted now j)
     else if sj_LaunchState j \<noteq> GoalSessionLaunchStateLaunching \<or> \<not> sj_LaunchAttempted j \<or> sj_NativeSessionID j \<noteq> []
        \<or> sj_NativeSessionFilename j \<noteq> [] then Inl ErrGoalSessionUncertain
     else Inr (close_unstarted now j))"

definition attempted_at :: "time \<Rightarrow> GoalSessionJournal \<Rightarrow> time" where
  "attempted_at now j = (if sj_LaunchAttemptedAt j = 0 then now else sj_LaunchAttemptedAt j)"

definition PersistGoalSessionHandle ::
  "time \<Rightarrow> GoalSessionHandle \<Rightarrow> GoalSessionCompatibility list \<Rightarrow> GoalSessionJournal \<Rightarrow> GoalSessionJournal result" where
  "PersistGoalSessionHandle now h expected j =
     on_err (validateGoalSessionHandle h)
    (if length expected > 1 then Inl (Err ''goal session compatibility is invalid'')
     else on_err (case expected of [e] \<Rightarrow> compareGoalSessionIdentity j e | _ \<Rightarrow> None)
    (if sj_LaunchState j = GoalSessionLaunchStateClosed \<or> sj_SessionState j = GoalSessionStateClosed then Inl ErrGoalSessionClosed
     else if sj_LaunchState j = GoalSessionLaunchStateUncertain
        \<or> (NeedsReconciliation j \<and> sj_LaunchState j \<noteq> GoalSessionLaunchStateLaunching) then Inl ErrGoalSessionUncertain
     else if sj_LaunchState j = GoalSessionLaunchStateAttached then
       (if sj_NativeSessionID j = hn_NativeSessionID h \<and> sj_NativeSessionFilename j = hn_NativeSessionFilename h then Inr j
        else Inl ErrGoalSessionConflict)
     else Inr (j\<lparr> sj_NativeSessionID := hn_NativeSessionID h, sj_NativeSessionFilename := hn_NativeSessionFilename h,
                 sj_LaunchState := GoalSessionLaunchStateAttached, sj_LaunchAttempted := True,
                 sj_LaunchAttemptedAt := attempted_at now j, sj_RecoveryRequired := False, sj_UncertainReason := [],
                 sj_UpdatedAt := now \<rparr>)))"

definition PersistGoalSessionControlAttachment ::
  "time \<Rightarrow> string \<Rightarrow> string \<Rightarrow> string \<Rightarrow> bool \<Rightarrow> GoalSessionJournal \<Rightarrow> GoalSessionJournal result" where
  "PersistGoalSessionControlAttachment now controlSessionID bindingID receiptID serverIssuedBinding j =
    (if \<not> validGoalSessionUUID controlSessionID \<or> \<not> validGoalSessionUUID bindingID \<or> \<not> validGoalSessionUUID receiptID
     then Inl (Err ''Goal session control attachment is invalid'')
     else if NeedsReconciliation j then Inl ErrGoalSessionUncertain
     else if sj_LaunchState j \<noteq> GoalSessionLaunchStateAttached \<or> sj_NativeSessionID j = [] then Inl ErrGoalSessionNotAttached
     else if si_BindingID (sj_Intent j) \<noteq> [] \<and> si_BindingID (sj_Intent j) \<noteq> bindingID then Inl ErrGoalSessionConflict
     else if si_BindingID (sj_Intent j) = [] \<and> \<not> serverIssuedBinding then Inl ErrGoalSessionConflict
     else if sj_ControlSessionID j \<noteq> [] \<and> sj_ControlSessionID j \<noteq> controlSessionID then Inl ErrGoalSessionConflict
     else if sj_ControlAttachmentReceiptID j \<noteq> [] \<and> sj_ControlAttachmentReceiptID j \<noteq> receiptID then Inl ErrGoalSessionConflict
     else bind_r (let attachment = goalSessionControlAttachment j controlSessionID bindingID receiptID in
         case sj_ControlAttachmentLineage j of
           Some l \<Rightarrow> if ca_SessionID (cl_Original l) \<noteq> controlSessionID then Inl ErrGoalSessionConflict
                     else Inr (l\<lparr> cl_Current := attachment \<rparr>)
         | None \<Rightarrow> Inr \<lparr> cl_Original = attachment, cl_Current = attachment \<rparr>) (\<lambda>l.
       Inr (j\<lparr> sj_ControlAttachmentLineage := Some l, sj_ControlSessionID := controlSessionID,
              sj_ControlAttachmentReceiptID := receiptID, sj_Intent := (sj_Intent j)\<lparr> si_BindingID := bindingID \<rparr>, sj_UpdatedAt := now \<rparr>)))"

subsection \<open>Resume\<close>

definition validateGoalSessionResumeRebind :: "GoalSessionResumeRebind \<Rightarrow> gerror option" where
  "validateGoalSessionResumeRebind r =
    (if \<not> validRequiredString (rb_RunID r) 4096 \<or> rb_Generation r \<le> 0 \<or> \<not> validRequiredString (rb_TaskID r) 4096
        \<or> \<not> validRequiredString (rb_AdmissionID r) 4096 \<or> \<not> validGoalSessionUUID (rb_BindingID r)
        \<or> \<not> validGoalSessionStopCertificate (rb_ExactStopCertificate r) then Some (Err ''goal session resume rebind is invalid'')
     else if gc_RuntimeEpoch (rb_Compatibility r) \<le> 0 then Some ErrGoalSessionCompatibilityIncomplete
     else if \<not> completeGoalSessionResumeCompatibility (rb_Compatibility r) then Some ErrGoalSessionCompatibilityIncomplete
     else if rb_RunID r = sc_RunID (rb_ExactStopCertificate r) \<or> rb_BindingID r = sc_BindingID (rb_ExactStopCertificate r)
     then Some ErrGoalSessionConflict else None)"

definition sameGoalSessionResumeTarget :: "GoalSessionJournal \<Rightarrow> GoalSessionResumeRebind \<Rightarrow> bool" where
  "sameGoalSessionResumeTarget j r = (si_RunID (sj_Intent j) = rb_RunID r \<and> si_Generation (sj_Intent j) = rb_Generation r
     \<and> si_TaskID (sj_Intent j) = rb_TaskID r \<and> si_AdmissionID (sj_Intent j) = rb_AdmissionID r
     \<and> si_BindingID (sj_Intent j) = rb_BindingID r \<and> si_SessionMode (sj_Intent j) = GoalSessionModeResume
     \<and> sj_SessionState j = GoalSessionStateBusy \<and> sj_LaunchState j = GoalSessionLaunchStateAttached
     \<and> sj_StopCertificate j = None \<and> sj_ControlAttachmentReceiptID j = []
     \<and> sj_ResumeSourceStopCertificate j = Some (rb_ExactStopCertificate r)
     \<and> sj_ResumeStartPending j \<and> sj_NativeSessionID j \<noteq> [] \<and> \<not> NeedsReconciliation j)"

definition validateGoalSessionResumeSource :: "GoalSessionJournal \<Rightarrow> GoalSessionResumeRebind \<Rightarrow> gerror option" where
  "validateGoalSessionResumeSource j r =
    (if sj_LaunchState j = GoalSessionLaunchStateClosed \<or> sj_SessionState j = GoalSessionStateClosed then Some ErrGoalSessionClosed
     else if NeedsReconciliation j then Some ErrGoalSessionUncertain
     else if sj_ResumeSourceStopCertificate j \<noteq> None then Some ErrGoalSessionConflict
     else if sj_SessionState j \<noteq> GoalSessionStateAvailable \<or> sj_LaunchState j \<noteq> GoalSessionLaunchStateAttached
        \<or> sj_NativeSessionID j = [] \<or> \<not> HasVerifiedControlAttachment j \<or> sj_StopCertificate j = None
        \<or> \<not> validWorkspaceOwnerRunKey (si_WorkspaceOwnerRunKey (sj_Intent j)) \<or> si_RepositoryResourceID (sj_Intent j) = []
     then Some ErrGoalSessionCompatibilityIncomplete
     else if sj_StopCertificate j \<noteq> Some (rb_ExactStopCertificate r) then Some ErrGoalSessionConflict
     else then_err (compareGoalSessionResumeCompatibilityFields j (rb_Compatibility r))
       (if gc_RuntimeEpoch (rb_Compatibility r) < si_RuntimeEpoch (sj_Intent j) then Some ErrGoalSessionOwnerMismatch else None))"

definition sameGoalSessionCertificateExecution :: "GoalSessionStopCertificate \<Rightarrow> GoalSessionStopCertificate \<Rightarrow> bool" where
  "sameGoalSessionCertificateExecution l r = (sc_RunID l = sc_RunID r \<and> sc_Generation l = sc_Generation r
     \<and> sc_SessionID l = sc_SessionID r \<and> sc_LocalHandleID l = sc_LocalHandleID r)"

definition consumed_list :: "GoalSessionJournal \<Rightarrow> GoalSessionStopCertificate list" where
  "consumed_list j = (case sj_ConsumedStopCertificates j of None \<Rightarrow> [] | Some cs \<Rightarrow> cs)"

definition appendConsumedStopCertificate :: "GoalSessionStopCertificate \<Rightarrow> GoalSessionJournal \<Rightarrow> GoalSessionJournal result" where
  "appendConsumedStopCertificate c j =
    (if \<not> validGoalSessionStopCertificate c then Inl (Err ''goal session consumed stop receipt is invalid'')
     else if c \<in> set (consumed_list j) then Inl ErrGoalSessionConflict
     else if length (consumed_list j) \<ge> goalSessionConsumedStopLimit then Inl ErrGoalSessionConflict
     else Inr (j\<lparr> sj_ConsumedStopCertificates := Some (consumed_list j @ [c]) \<rparr>))"

text \<open>The pairs are (consumed, exact); the loop stops at the first certificate of the same execution.\<close>

fun consumed_in :: "GoalSessionStopCertificate \<Rightarrow> GoalSessionStopCertificate list \<Rightarrow> bool \<times> bool" where
  "consumed_in c [] = (False, False)"
| "consumed_in c (e # es) = (if e = c then (True, True) else if sameGoalSessionCertificateExecution e c then (True, False)
     else consumed_in c es)"

definition consumedStopCertificate :: "GoalSessionStopCertificate \<Rightarrow> GoalSessionJournal \<Rightarrow> bool \<times> bool" where
  "consumedStopCertificate c j = (case sj_ConsumedStopCertificates j of
     Some cs \<Rightarrow> consumed_in c cs
   | None \<Rightarrow> (case sj_ResumeSourceStopCertificate j of None \<Rightarrow> (False, False) | Some e \<Rightarrow> consumed_in c [e]))"

definition resumeTargetConflictsWithConsumedHistory :: "GoalSessionJournal \<Rightarrow> GoalSessionResumeRebind \<Rightarrow> bool" where
  "resumeTargetConflictsWithConsumedHistory j r =
     list_ex (\<lambda>c. rb_RunID r = sc_RunID c \<or> rb_BindingID r = sc_BindingID c) (consumed_list j)"

text \<open>What a rebind writes into the journal once its guards hold.\<close>

definition rebound_intent :: "GoalSessionResumeRebind \<Rightarrow> GoalSessionLaunchIntent \<Rightarrow> GoalSessionLaunchIntent" where
  "rebound_intent r i = i\<lparr> si_RunID := rb_RunID r, si_Generation := rb_Generation r, si_TaskID := rb_TaskID r,
     si_AdmissionID := rb_AdmissionID r, si_BindingID := rb_BindingID r, si_RuntimeEpoch := gc_RuntimeEpoch (rb_Compatibility r),
     si_SessionMode := GoalSessionModeResume, si_HandoffSourceRunID := [] \<rparr>"

definition rebind_session :: "time \<Rightarrow> GoalSessionResumeRebind \<Rightarrow> GoalSessionJournal \<Rightarrow> GoalSessionJournal result" where
  "rebind_session now r j = bind_r (appendConsumedStopCertificate (rb_ExactStopCertificate r)
       (j\<lparr> sj_Intent := rebound_intent r (sj_Intent j), sj_ControlAttachmentReceiptID := [],
          sj_ResumeSourceStopCertificate := Some (rb_ExactStopCertificate r) \<rparr>)) (\<lambda>j1.
     Inr (j1\<lparr> sj_ResumeStartPending := True, sj_ResumeNativeStopKnown := False, sj_ResumeTerminalReason := [],
             sj_StopCertificate := None, sj_SessionState := GoalSessionStateBusy, sj_LaunchState := GoalSessionLaunchStateAttached,
             sj_LaunchAttempted := True, sj_RecoveryRequired := False, sj_UncertainReason := [], sj_UpdatedAt := now \<rparr>))"

definition MarkGoalSessionResumeStartAttempted :: "time \<Rightarrow> GoalSessionJournal \<Rightarrow> GoalSessionJournal result" where
  "MarkGoalSessionResumeStartAttempted now j =
    (if sj_LaunchState j = GoalSessionLaunchStateClosed \<or> sj_SessionState j = GoalSessionStateClosed then Inl ErrGoalSessionClosed
     else if NeedsReconciliation j then Inl ErrGoalSessionUncertain
     else if si_SessionMode (sj_Intent j) \<noteq> GoalSessionModeResume \<or> sj_ResumeSourceStopCertificate j = None \<or> sj_StopCertificate j \<noteq> None
        \<or> sj_ResumeNativeStopKnown j \<or> sj_SessionState j \<noteq> GoalSessionStateBusy \<or> sj_LaunchState j \<noteq> GoalSessionLaunchStateAttached
        \<or> sj_NativeSessionID j = [] then Inl ErrGoalSessionConflict
     else if \<not> sj_ResumeStartPending j then Inr j
     else Inr (j\<lparr> sj_ResumeStartPending := False, sj_UpdatedAt := now \<rparr>))"

text \<open>The guards the two native-stop operations share.\<close>

definition resume_stop_guard :: "GoalSessionJournal \<Rightarrow> gerror option" where
  "resume_stop_guard j =
    (if sj_LaunchState j = GoalSessionLaunchStateClosed \<or> sj_SessionState j = GoalSessionStateClosed then Some ErrGoalSessionClosed
     else if NeedsReconciliation j then Some ErrGoalSessionUncertain
     else if si_SessionMode (sj_Intent j) \<noteq> GoalSessionModeResume \<or> sj_ResumeSourceStopCertificate j = None \<or> sj_StopCertificate j \<noteq> None
        \<or> sj_LaunchState j \<noteq> GoalSessionLaunchStateAttached \<or> sj_NativeSessionID j = []
        \<or> (sj_SessionState j \<noteq> GoalSessionStateBusy \<and> sj_SessionState j \<noteq> GoalSessionStateUnavailable)
     then Some ErrGoalSessionConflict else None)"

definition resume_stopped :: "time \<Rightarrow> string \<Rightarrow> GoalSessionJournal \<Rightarrow> GoalSessionJournal" where
  "resume_stopped now reason j = j\<lparr> sj_SessionState := GoalSessionStateUnavailable, sj_ResumeStartPending := False,
     sj_ResumeNativeStopKnown := True, sj_ResumeTerminalReason := reason, sj_UpdatedAt := now \<rparr>"

definition MarkGoalSessionResumeNativeStopped :: "time \<Rightarrow> GoalSessionJournal \<Rightarrow> GoalSessionJournal result" where
  "MarkGoalSessionResumeNativeStopped now j = on_err (resume_stop_guard j)
     (if sj_ResumeNativeStopKnown j then Inr j else Inr (resume_stopped now [] j))"

definition MarkGoalSessionResumeRejected :: "time \<Rightarrow> GoalSessionJournal \<Rightarrow> GoalSessionJournal result" where
  "MarkGoalSessionResumeRejected now j = on_err (resume_stop_guard j)
     (if sj_ResumeNativeStopKnown j then
        (if sj_ResumeTerminalReason j = ''resume_rejected'' then Inr j
         else if sj_ResumeTerminalReason j \<noteq> [] then Inl ErrGoalSessionConflict
         else Inr (j\<lparr> sj_ResumeTerminalReason := ''resume_rejected'', sj_UpdatedAt := now \<rparr>))
      else Inr (resume_stopped now ''resume_rejected'' j))"

subsection \<open>Stop, uncertainty and close\<close>

definition MarkGoalSessionStoppedPending :: "time \<Rightarrow> GoalSessionJournal \<Rightarrow> GoalSessionJournal result" where
  "MarkGoalSessionStoppedPending now j =
    (if NeedsReconciliation j then Inl ErrGoalSessionUncertain
     else if sj_LaunchState j \<noteq> GoalSessionLaunchStateAttached \<or> sj_NativeSessionID j = [] then Inl ErrGoalSessionNotAttached
     else if IsLegacyControlAttachment j \<or> \<not> HasVerifiedControlAttachment j then Inl ErrGoalSessionCompatibilityIncomplete
     else if sj_ResumeStartPending j then Inl ErrGoalSessionConflict
     else if \<not> validGoalSessionUUID (sj_ControlSessionID j) \<or> \<not> validGoalSessionUUID (si_BindingID (sj_Intent j)) then Inl ErrGoalSessionConflict
     else if sj_SessionState j \<noteq> GoalSessionStateBusy \<and> sj_SessionState j \<noteq> GoalSessionStateUnavailable then Inl ErrGoalSessionConflict
     else Inr (j\<lparr> sj_SessionState := GoalSessionStateUnavailable,
                 sj_ResumeNativeStopKnown := (if si_SessionMode (sj_Intent j) = GoalSessionModeResume then True else sj_ResumeNativeStopKnown j),
                 sj_UpdatedAt := now \<rparr>))"

definition MarkGoalSessionAvailable :: "time \<Rightarrow> GoalSessionStopCertificate \<Rightarrow> GoalSessionJournal \<Rightarrow> GoalSessionJournal result" where
  "MarkGoalSessionAvailable now c j =
    (if \<not> validGoalSessionStopCertificate c then Inl (Err ''Goal session availability receipt is invalid'')
     else (case consumedStopCertificate c j of
       (True, exact) \<Rightarrow> if exact then Inr j else Inl ErrGoalSessionConflict
     | (False, _) \<Rightarrow>
       if NeedsReconciliation j then Inl ErrGoalSessionUncertain
       else if IsLegacyControlAttachment j \<or> \<not> HasVerifiedControlAttachment j then Inl ErrGoalSessionCompatibilityIncomplete
       else if sj_LaunchState j \<noteq> GoalSessionLaunchStateAttached \<or> sj_NativeSessionID j = [] \<or> sj_ControlSessionID j \<noteq> sc_SessionID c
          \<or> si_BindingID (sj_Intent j) \<noteq> sc_BindingID c \<or> si_RunID (sj_Intent j) \<noteq> sc_RunID c
          \<or> si_Generation (sj_Intent j) \<noteq> sc_Generation c \<or> si_LocalHandleID (sj_Intent j) \<noteq> sc_LocalHandleID c then Inl ErrGoalSessionConflict
       else if sj_StopCertificate j \<noteq> None then (if sj_StopCertificate j = Some c then Inr j else Inl ErrGoalSessionConflict)
       else if sj_SessionState j \<noteq> GoalSessionStateUnavailable \<and> sj_SessionState j \<noteq> GoalSessionStateAvailable then Inl ErrGoalSessionConflict
       else bind_r (case sj_ResumeSourceStopCertificate j of
             Some source \<Rightarrow> if sj_ConsumedStopCertificates j = None then appendConsumedStopCertificate source j else Inr j
           | None \<Rightarrow> Inr j) (\<lambda>j1.
         Inr (j1\<lparr> sj_SessionState := GoalSessionStateAvailable, sj_StopCertificate := Some c, sj_ResumeSourceStopCertificate := None,
                 sj_ResumeStartPending := False, sj_ResumeNativeStopKnown := False, sj_ResumeTerminalReason := [], sj_UpdatedAt := now \<rparr>))))"

text \<open>The fields every operation clears that gives up the native handle.\<close>

definition drop_native :: "GoalSessionJournal \<Rightarrow> GoalSessionJournal" where
  "drop_native j = j\<lparr> sj_NativeSessionID := [], sj_NativeSessionFilename := [], sj_ControlSessionID := [],
     sj_ControlAttachmentReceiptID := [], sj_StopCertificate := None, sj_ResumeStartPending := False,
     sj_ResumeNativeStopKnown := False, sj_ResumeTerminalReason := [] \<rparr>"

definition MarkGoalSessionUncertain :: "time \<Rightarrow> string \<Rightarrow> GoalSessionJournal \<Rightarrow> GoalSessionJournal result" where
  "MarkGoalSessionUncertain now reason j =
    (if \<not> validRequiredString reason 4096 then Inl (Err ''uncertain launch reason is invalid'')
     else if sj_LaunchState j = GoalSessionLaunchStateClosed \<or> sj_SessionState j = GoalSessionStateClosed then Inl ErrGoalSessionClosed
     else if unstarted_intent j then Inr (close_unstarted now j)
     else Inr ((drop_native j)\<lparr> sj_LaunchState := GoalSessionLaunchStateUncertain, sj_SessionState := GoalSessionStateUnavailable,
                 sj_LaunchAttempted := True, sj_LaunchAttemptedAt := attempted_at now j, sj_RecoveryRequired := True,
                 sj_UncertainReason := reason, sj_UpdatedAt := now \<rparr>))"

definition ResolveGoalSessionUncertain ::
  "time \<Rightarrow> GoalSessionHandle \<Rightarrow> GoalSessionCompatibility \<Rightarrow> GoalSessionJournal \<Rightarrow> GoalSessionJournal result" where
  "ResolveGoalSessionUncertain now h expected j =
     on_err (validateGoalSessionHandle h)
    (on_err (compareGoalSessionIdentityStrict j expected)
    (if \<not> NeedsReconciliation j then Inl (Err ''goal session is not awaiting reconciliation'')
     else Inr (j\<lparr> sj_NativeSessionID := hn_NativeSessionID h, sj_NativeSessionFilename := hn_NativeSessionFilename h,
                 sj_LaunchState := GoalSessionLaunchStateAttached, sj_SessionState := GoalSessionStateBusy, sj_ResumeStartPending := False,
                 sj_ResumeNativeStopKnown := False, sj_ResumeTerminalReason := [], sj_RecoveryRequired := False, sj_UncertainReason := [],
                 sj_LaunchAttempted := True, sj_LaunchAttemptedAt := attempted_at now j, sj_UpdatedAt := now \<rparr>)))"

definition ResolveGoalSessionUncertainStopped :: "time \<Rightarrow> GoalSessionCompatibility \<Rightarrow> GoalSessionJournal \<Rightarrow> GoalSessionJournal result" where
  "ResolveGoalSessionUncertainStopped now expected j =
     on_err (compareGoalSessionIdentityStrict j expected)
    (if \<not> NeedsReconciliation j then
       (if sj_LaunchState j = GoalSessionLaunchStateClosed \<and> sj_SessionState j = GoalSessionStateClosed then Inr j
        else Inl (Err ''goal session is not awaiting reconciliation''))
     else Inr ((drop_native j)\<lparr> sj_SessionState := GoalSessionStateClosed, sj_LaunchState := GoalSessionLaunchStateClosed,
                 sj_RecoveryRequired := False, sj_UncertainReason := [], sj_UpdatedAt := now \<rparr>))"

definition CloseGoalSession :: "time \<Rightarrow> GoalSessionJournal \<Rightarrow> GoalSessionJournal result" where
  "CloseGoalSession now j =
    (if sj_LaunchState j = GoalSessionLaunchStateClosed \<and> sj_SessionState j = GoalSessionStateClosed then Inr j
     else if NeedsReconciliation j then Inl ErrGoalSessionUncertain
     else if sj_LaunchState j \<noteq> GoalSessionLaunchStateAttached \<or> sj_NativeSessionID j = [] then Inl ErrGoalSessionNotAttached
     else Inr ((drop_native j)\<lparr> sj_SessionState := GoalSessionStateClosed, sj_LaunchState := GoalSessionLaunchStateClosed,
                 sj_UpdatedAt := now \<rparr>))"

definition SetGoalSessionState :: "time \<Rightarrow> string \<Rightarrow> GoalSessionJournal \<Rightarrow> GoalSessionJournal result" where
  "SetGoalSessionState now sessionState j =
    (if \<not> validGoalSessionState sessionState then Inl (Err ''goal session state is invalid'')
     else if sessionState = GoalSessionStateClosed then CloseGoalSession now j
     else if sessionState = GoalSessionStateAvailable then Inl (Err ''available Goal session state requires a stop certificate'')
     else if sj_LaunchState j = GoalSessionLaunchStateClosed \<or> sj_SessionState j = GoalSessionStateClosed then Inl ErrGoalSessionClosed
     else if sj_ResumeStartPending j \<and> sessionState \<noteq> GoalSessionStateBusy then Inl ErrGoalSessionConflict
     else Inr (j\<lparr> sj_SessionState := sessionState, sj_UpdatedAt := now \<rparr>))"

end
