(* ===== verification/Files.thy ===== *)
theory Files
  imports Ensures
begin

text \<open>
  A directory of the state store and the file operations the store performs on it.  A file is kept as the value its bytes
  decode to, and reading returns the value last written: encoding and decoding are taken as the identity on what the store writes, although
  \<^verbatim>\<open>encoding/json\<close> compacts raw messages, writes a nil one as \<^verbatim>\<open>null\<close> and replaces invalid UTF-8.  \<^verbatim>\<open>writeAtomic\<close> (\<^verbatim>\<open>internal/state/state.go\<close>) writes a temporary
  file and renames it, so a write has three outcomes: done; failed before the rename, which leaves the directory as it was;
  failed after the rename, in the sync of the directory, which returns an error although the new file is in place.  The
  outcomes are drawn from the list \<open>d_faults\<close>; a write beyond its end succeeds.  A process that stops in the middle of an
  operation leaves the directory an operation leaves whose remaining writes all fail before the rename, so the outcomes
  cover crashes.  Temporary files are not part of the directory: no reader opens them.
\<close>

datatype write_outcome = Written | NotWritten | NotSynced

record 'f Dir =
  d_open :: bool
  d_files :: "(string \<times> 'f) list"
  d_faults :: "write_outcome list"

type_synonym ('f, 'a) io = "'f Dir \<Rightarrow> 'a result \<times> 'f Dir"

subsection \<open>Sequencing\<close>

definition io_return :: "'a \<Rightarrow> ('f, 'a) io" where
  "io_return x = (\<lambda>d. (Inr x, d))"

definition io_fail :: "gerror \<Rightarrow> ('f, 'a) io" where
  "io_fail e = (\<lambda>d. (Inl e, d))"

definition io_bind :: "('f, 'a) io \<Rightarrow> ('a \<Rightarrow> ('f, 'b) io) \<Rightarrow> ('f, 'b) io" where
  "io_bind m f = (\<lambda>d. case m d of (Inl e, d') \<Rightarrow> (Inl e, d') | (Inr x, d') \<Rightarrow> f x d')"

definition io_lift :: "'a result \<Rightarrow> ('f, 'a) io" where
  "io_lift r = (\<lambda>d. (r, d))"

definition io_check :: "gerror option \<Rightarrow> ('f, 'a) io \<Rightarrow> ('f, 'a) io" where
  "io_check e m = (case e of None \<Rightarrow> m | Some x \<Rightarrow> io_fail x)"

definition io_read :: "('f Dir \<Rightarrow> 'a result) \<Rightarrow> ('f, 'a) io" where
  "io_read r = (\<lambda>d. (r d, d))"

text \<open>Running a step whose error the caller drops.\<close>

definition io_ignore :: "('f, 'a) io \<Rightarrow> ('f, unit) io" where
  "io_ignore m = (\<lambda>d. (Inr (), snd (m d)))"

subsection \<open>Files\<close>

fun put_file :: "string \<Rightarrow> 'f \<Rightarrow> (string \<times> 'f) list \<Rightarrow> (string \<times> 'f) list" where
  "put_file n f [] = [(n, f)]"
| "put_file n f (p # ps) = (if fst p = n then (n, f) # ps else p # put_file n f ps)"

definition del_file :: "string \<Rightarrow> (string \<times> 'f) list \<Rightarrow> (string \<times> 'f) list" where
  "del_file n ps = filter (\<lambda>p. fst p \<noteq> n) ps"

definition next_fault :: "'f Dir \<Rightarrow> write_outcome \<times> 'f Dir" where
  "next_fault d = (case d_faults d of [] \<Rightarrow> (Written, d) | w # ws \<Rightarrow> (w, d\<lparr> d_faults := ws \<rparr>))"

definition commit_files :: "gerror \<Rightarrow> ((string \<times> 'f) list \<Rightarrow> (string \<times> 'f) list) \<Rightarrow> ('f, unit) io" where
  "commit_files e change = (\<lambda>d. case next_fault d of
     (Written, d') \<Rightarrow> (Inr (), d'\<lparr> d_files := change (d_files d') \<rparr>)
   | (NotWritten, d') \<Rightarrow> (Inl e, d')
   | (NotSynced, d') \<Rightarrow> (Inl e, d'\<lparr> d_files := change (d_files d') \<rparr>))"

definition writeAtomic :: "gerror \<Rightarrow> string \<Rightarrow> 'f \<Rightarrow> ('f, unit) io" where
  "writeAtomic e n f = commit_files e (put_file n f)"

definition remove_file :: "gerror \<Rightarrow> string \<Rightarrow> ('f, unit) io" where
  "remove_file e n = commit_files e (del_file n)"

definition ensureOpenLocked :: "'f Dir \<Rightarrow> gerror option" where
  "ensureOpenLocked d = checks [(\<not> d_open d, ''state store is closed'')]"

text \<open>What the mutations of the three kinds of journals share: the store must be open; load one document, change it, write it.\<close>

definition io_open :: "('f, 'a) io \<Rightarrow> ('f, 'a) io" where
  "io_open m = (\<lambda>d. io_check (ensureOpenLocked d) m d)"

definition update_document :: "('k \<Rightarrow> 'f Dir \<Rightarrow> 'j result) \<Rightarrow> ('j \<Rightarrow> ('f, unit) io) \<Rightarrow> 'k \<Rightarrow> ('j \<Rightarrow> 'j result) \<Rightarrow> ('f, 'j) io" where
  "update_document load save k f = io_bind (io_read (load k)) (\<lambda>j. io_bind (io_lift (f j)) (\<lambda>j'. io_bind (save j') (\<lambda>_. io_return j')))"

subsection \<open>Lemmas\<close>

lemma map_of_put_file [simp]: "map_of (put_file n f ps) = (map_of ps)(n \<mapsto> f)"
  by (induction n f ps rule: put_file.induct) (auto simp: fun_eq_iff)

lemma fst_put_file: "set (map fst (put_file n f ps)) = insert n (set (map fst ps))"
  by (induction n f ps rule: put_file.induct) auto

lemma distinct_put_file: "distinct (map fst ps) \<Longrightarrow> distinct (map fst (put_file n f ps))"
proof (induction n f ps rule: put_file.induct)
  case (2 n f p ps)
  then show ?case using fst_put_file [of n f ps] by auto
qed simp

lemma distinct_del_file: "distinct (map fst ps) \<Longrightarrow> distinct (map fst (del_file n ps))"
  by (simp add: del_file_def distinct_map_filter)

lemma map_of_del_file [simp]: "map_of (del_file n ps) = (map_of ps)(n := None)"
  by (induction ps) (auto simp: del_file_def fun_eq_iff)

lemma io_bind_read: "io_bind (io_read r) f d = (case r d of Inl e \<Rightarrow> (Inl e, d) | Inr x \<Rightarrow> f x d)"
  by (simp add: io_bind_def io_read_def split: sum.split)

text \<open>A change of one file does not change what a filter shows that rejects the old and the new content.\<close>

lemma filter_put_file:
  "\<not> P (n, f) \<Longrightarrow> (\<And>g. map_of ps n = Some g \<Longrightarrow> \<not> P (n, g)) \<Longrightarrow> filter P (put_file n f ps) = filter P ps"
  by (induction ps) auto

lemma filter_del_file:
  "distinct (map fst ps) \<Longrightarrow> (\<And>g. map_of ps n = Some g \<Longrightarrow> \<not> P (n, g)) \<Longrightarrow> filter P (del_file n ps) = filter P ps"
  unfolding del_file_def filter_filter by (rule filter_cong) (auto dest: map_of_is_SomeI)

text \<open>What a state holds after a run, whatever the faults: a calculus in the style of \<^const>\<open>ensures\<close> that follows the
  directory on both the value and the error branch.\<close>

definition runs :: "('f, 'a) io \<Rightarrow> ('f Dir \<Rightarrow> bool) \<Rightarrow> ('a \<Rightarrow> 'f Dir \<Rightarrow> bool) \<Rightarrow> ('f Dir \<Rightarrow> bool) \<Rightarrow> bool" where
  "runs m P Q R = (\<forall>d. P d \<longrightarrow> (case m d of (Inl e, d') \<Rightarrow> R d' | (Inr x, d') \<Rightarrow> Q x d'))"

named_theorems runs_intros "introduction rules for runs"

lemma runs_return [runs_intros]: "(\<And>d. P d \<Longrightarrow> Q x d) \<Longrightarrow> runs (io_return x) P Q R"
  by (simp add: runs_def io_return_def)

lemma runs_fail [runs_intros]: "(\<And>d. P d \<Longrightarrow> R d) \<Longrightarrow> runs (io_fail e) P Q R"
  by (simp add: runs_def io_fail_def)

lemma runs_bind: "runs m P Q' R \<Longrightarrow> (\<And>x. runs (f x) (Q' x) Q R) \<Longrightarrow> runs (io_bind m f) P Q R"
  by (fastforce simp: runs_def io_bind_def split: prod.splits sum.splits)

lemma runs_check [runs_intros]: "(\<And>x d. e = Some x \<Longrightarrow> P d \<Longrightarrow> R d) \<Longrightarrow> (e = None \<Longrightarrow> runs m P Q R) \<Longrightarrow> runs (io_check e m) P Q R"
  by (cases e) (auto simp: io_check_def intro: runs_fail)

lemma runs_if [runs_intros]: "(c \<Longrightarrow> runs a P Q R) \<Longrightarrow> (\<not> c \<Longrightarrow> runs b P Q R) \<Longrightarrow> runs (if c then a else b) P Q R"
  by simp

lemma runs_ignore: "runs m P (\<lambda>x. Q) Q \<Longrightarrow> runs (io_ignore m) P (\<lambda>x. Q) R"
  unfolding runs_def io_ignore_def by (simp add: case_prod_beta split: sum.splits)

lemma runs_conseq: "runs m P' Q' R' \<Longrightarrow> (\<And>d. P d \<Longrightarrow> P' d) \<Longrightarrow> (\<And>x d. Q' x d \<Longrightarrow> Q x d) \<Longrightarrow> (\<And>d. R' d \<Longrightarrow> R d) \<Longrightarrow> runs m P Q R"
  by (fastforce simp: runs_def split: prod.splits sum.splits)

lemma runs_read: "(\<And>d e. P d \<Longrightarrow> r d = Inl e \<Longrightarrow> R d) \<Longrightarrow> (\<And>d x. P d \<Longrightarrow> r d = Inr x \<Longrightarrow> Q x d) \<Longrightarrow> runs (io_read r) P Q R"
  by (auto simp: runs_def io_read_def split: sum.splits)

lemma runs_lift: "(\<And>d e. P d \<Longrightarrow> r = Inl e \<Longrightarrow> R d) \<Longrightarrow> (\<And>d x. P d \<Longrightarrow> r = Inr x \<Longrightarrow> Q x d) \<Longrightarrow> runs (io_lift r) P Q R"
  by (auto simp: runs_def io_lift_def split: sum.splits)

text \<open>The faults left over do not matter to a predicate on the files and the open flag.\<close>

lemma runs_commit:
  assumes "\<And>d fs. P d \<Longrightarrow> R (d\<lparr> d_faults := fs \<rparr>)"
    and "\<And>d fs. P d \<Longrightarrow> Q () (d\<lparr> d_faults := fs, d_files := change (d_files d) \<rparr>)"
    and "\<And>d fs. P d \<Longrightarrow> R (d\<lparr> d_faults := fs, d_files := change (d_files d) \<rparr>)"
    and "\<And>d. P d \<Longrightarrow> Q () (d\<lparr> d_files := change (d_files d) \<rparr>)"
  shows "runs (commit_files e change) P Q R"
  using assms by (auto simp: runs_def commit_files_def next_fault_def split: list.split write_outcome.split)

end
