(* ===== verification/Documents.thy ===== *)
theory Documents
  imports Files
begin

text \<open>
  The contract between the store's file format and its operations.  \<open>keyed_documents\<close> says what loading and
  saving one document per key promise whatever the outcomes of the writes; the lemmas below it follow a document through
  \<^const>\<open>update_document\<close>, the load-change-save that all mutations of the store share.  \<open>exact_documents\<close> adds that a
  load compares the key of what it read, so that two keys whose file names agree never see one another's documents.
\<close>

subsection \<open>One atomic write\<close>

lemma writeAtomic_open [simp]: "d_open (snd (writeAtomic e n f d)) = d_open d"
  by (simp add: writeAtomic_def commit_files_def next_fault_def split: list.split write_outcome.split)

lemma writeAtomic_frame: "m \<noteq> n \<Longrightarrow> map_of (d_files (snd (writeAtomic e n f d))) m = map_of (d_files d) m"
  by (simp add: writeAtomic_def commit_files_def next_fault_def split: list.split write_outcome.split)

lemma writeAtomic_done: "fst (writeAtomic e n f d) = Inr u \<Longrightarrow> map_of (d_files (snd (writeAtomic e n f d))) n = Some f"
  by (auto simp: writeAtomic_def commit_files_def next_fault_def split: list.splits write_outcome.splits)

lemma writeAtomic_failed:
  "fst (writeAtomic e n f d) = Inl x \<Longrightarrow> map_of (d_files (snd (writeAtomic e n f d))) n = Some f \<or> d_files (snd (writeAtomic e n f d)) = d_files d"
  by (auto simp: writeAtomic_def commit_files_def next_fault_def split: list.splits write_outcome.splits)

lemma writeAtomic_no_faults: "d_faults d = [] \<Longrightarrow> fst (writeAtomic e n f d) = Inr () \<and> d_faults (snd (writeAtomic e n f d)) = []"
  by (simp add: writeAtomic_def commit_files_def next_fault_def)

lemma remove_file_outcome:
  assumes "remove_file e n d = (s, d')"
  shows "d_open d' = d_open d \<and> (map_of (d_files d') = (map_of (d_files d))(n := None) \<or> (\<exists>x. s = Inl x) \<and> d_files d' = d_files d)"
  using assms by (auto simp: remove_file_def commit_files_def next_fault_def split: list.splits write_outcome.splits)

subsection \<open>Documents by key\<close>

text \<open>A directory as the map from keys to the documents a load returns.\<close>

definition holds :: "('k \<Rightarrow> 'f Dir \<Rightarrow> 'j result) \<Rightarrow> 'f Dir \<Rightarrow> 'k \<rightharpoonup> 'j" where
  "holds load d k = (case load k d of Inl _ \<Rightarrow> None | Inr j \<Rightarrow> Some j)"

lemma holds_iff: "holds load d k = Some j \<longleftrightarrow> load k d = Inr j"
  by (simp add: holds_def split: sum.split)

locale keyed_documents =
  fixes path :: "'k \<Rightarrow> string"
    and load :: "'k \<Rightarrow> 'f Dir \<Rightarrow> 'j result"
    and save :: "'j \<Rightarrow> ('f, unit) io"
    and key :: "'j \<Rightarrow> 'k"
  assumes load_local: "map_of (d_files d) (path k) = map_of (d_files d') (path k) \<Longrightarrow> load k d = load k d'"
    and load_path: "load k d = Inr j \<Longrightarrow> path (key j) = path k"
    and load_key: "load k d = Inr j \<Longrightarrow> load (key j) d' = Inr j' \<longleftrightarrow> load k d' = Inr j'"
    and load_unique: "load k d = Inr j \<Longrightarrow> load k' d = Inr j' \<Longrightarrow> path k' = path k \<Longrightarrow> j' = j"
    and save_open: "d_open (snd (save j d)) = d_open d"
    and save_frame: "n \<noteq> path (key j) \<Longrightarrow> map_of (d_files (snd (save j d))) n = map_of (d_files d) n"
    and save_done: "fst (save j d) = Inr () \<Longrightarrow> load (key j) (snd (save j d)) = Inr j"
    and save_failed: "fst (save j d) = Inl e \<Longrightarrow> load (key j) (snd (save j d)) = Inr j \<or> d_files (snd (save j d)) = d_files d"
begin

lemma load_files: "d_files d = d_files d' \<Longrightarrow> load k d = load k d'"
  by (rule load_local) simp

lemma holds_files: "d_files d = d_files d' \<Longrightarrow> holds load d = holds load d'"
  by (simp add: fun_eq_iff holds_def load_files [of d d'])

lemma save_other: "path k \<noteq> path (key j) \<Longrightarrow> holds load (snd (save j d)) k = holds load d k"
  using load_local [OF save_frame [of "path k" j d]] by (simp add: holds_def)

lemma save_same:
  assumes "load k d0 = Inr j0" "key j = key j0"
  shows "fst (save j d) = Inr () \<Longrightarrow> holds load (snd (save j d)) k = Some j"
    and "fst (save j d) = Inl e \<Longrightarrow> holds load (snd (save j d)) k = Some j \<or> d_files (snd (save j d)) = d_files d"
  using save_done [of j d] save_failed [of j d] load_key [OF assms(1), of _ j] assms(2) by (auto simp: holds_iff)

text \<open>What is left of a mutation: the value it returns is the change of what was loaded and is what a load now returns;
  an error leaves the old document or the whole new one; files of other names are as they were.\<close>

lemma update_cases [consumes 2, case_names updated refused failed]:
  assumes keeps_key: "\<forall>j j'. load k d = Inr j \<longrightarrow> f j = Inr j' \<longrightarrow> key j' = key j"
    and run: "update_document load save k f d = (r, d')"
  obtains (updated) j j' where "r = Inr j'" "holds load d k = Some j" "f j = Inr j'" "holds load d' k = Some j'" "save j' d = (Inr (), d')"
  | (refused) e where "r = Inl e" "d' = d"
  | (failed) e j j' where "r = Inl e" "holds load d k = Some j" "f j = Inr j'" "save j' d = (Inl e, d')"
      "holds load d' k = Some j' \<or> d_files d' = d_files d"
proof (cases "load k d")
  case (Inl e)
  then show ?thesis using run refused [of e] by (simp add: update_document_def io_bind_def io_read_def)
next
  case load: (Inr j)
  show ?thesis
  proof (cases "f j")
    case (Inl e)
    then show ?thesis using run refused [of e] load by (simp add: update_document_def io_bind_def io_read_def io_lift_def)
  next
    case change: (Inr j')
    have "key j' = key j" using keeps_key load change by blast
    note same = save_same [OF load this]
    show ?thesis
    proof (cases "save j' d")
      case (Pair s d1)
      then show ?thesis
        using run load change same [of d] updated [of j' j] failed [of _ j j']
        by (cases s) (auto simp: update_document_def io_bind_def io_read_def io_lift_def io_return_def holds_iff)
    qed
  qed
qed

lemma update_frame:
  assumes keeps_key: "\<forall>j j'. load k d = Inr j \<longrightarrow> f j = Inr j' \<longrightarrow> key j' = key j"
    and run: "update_document load save k f d = (r, d')"
    and other: "n \<noteq> path k"
  shows "map_of (d_files d') n = map_of (d_files d) n"
proof -
  have go: "map_of (d_files d1) n = map_of (d_files d) n" if "holds load d k = Some j" "f j = Inr j'" "save j' d = (s, d1)" for j j' s d1
  proof -
    have "path (key j') = path k" using that keeps_key load_path by (metis holds_iff)
    then show ?thesis using save_frame [of n j' d] that(3) other by simp
  qed
  from keeps_key run show ?thesis by (cases rule: update_cases) (auto intro: go)
qed

lemma update_open:
  assumes "\<forall>j j'. load k d = Inr j \<longrightarrow> f j = Inr j' \<longrightarrow> key j' = key j" "update_document load save k f d = (r, d')"
  shows "d_open d' = d_open d"
  using assms by (cases rule: update_cases) (use save_open in \<open>metis snd_conv\<close>)+

end

subsection \<open>Documents that carry their key\<close>

locale exact_documents = keyed_documents +
  assumes load_exact: "load k d = Inr j \<Longrightarrow> key j = k"
begin

lemma holds_key: "holds load d k = Some j \<Longrightarrow> key j = k"
  by (simp add: holds_iff load_exact)

text \<open>A key whose file name is that of another key's document holds nothing.\<close>

lemma holds_collision: "holds load d k = Some j \<Longrightarrow> path k' = path k \<Longrightarrow> k' \<noteq> k \<Longrightarrow> holds load d k' = None"
  using load_unique holds_key by (metis holds_iff not_None_eq)

lemma holds_saved:
  assumes alone: "\<And>k'. path k' = path k \<Longrightarrow> k' \<noteq> k \<Longrightarrow> holds load d k' = None"
    and saved: "holds load (snd (save j' d)) k = Some j'"
  shows "holds load (snd (save j' d)) = (holds load d)(k \<mapsto> j')"
proof
  fix k'
  show "holds load (snd (save j' d)) k' = ((holds load d)(k \<mapsto> j')) k'"
    using saved alone [of k'] save_other [of k' j' d] holds_collision [OF saved, of k'] holds_key [OF saved] by (cases "path k' = path k") auto
qed

text \<open>A save where no other key of the same file name holds a document.\<close>

lemma save_refines:
  assumes alone: "\<And>k'. path k' = path (key j) \<Longrightarrow> k' \<noteq> key j \<Longrightarrow> holds load d k' = None" and run: "save j d = (s, d')"
  shows "holds load d' = (holds load d)(key j \<mapsto> j) \<or> (\<exists>e. s = Inl e) \<and> holds load d' = holds load d"
proof -
  have "holds load d' (key j) = Some j \<or> (\<exists>e. s = Inl e) \<and> d_files d' = d_files d"
    using save_done [of j d] save_failed [of j d] run by (cases s) (auto simp: holds_iff)
  then show ?thesis using holds_saved [of "key j" d j] alone run holds_files [of d' d] by auto
qed

text \<open>The store as a map from keys to documents: a mutation is a map update, or leaves the map as it was.\<close>

lemma update_refines:
  assumes keeps_key: "\<forall>j j'. load k d = Inr j \<longrightarrow> f j = Inr j' \<longrightarrow> key j' = key j"
    and run: "update_document load save k f d = (r, d')"
  shows "(\<exists>j j'. r = Inr j' \<and> holds load d k = Some j \<and> f j = Inr j' \<and> holds load d' = (holds load d)(k \<mapsto> j'))
       \<or> (\<exists>e. r = Inl e \<and> (holds load d' = holds load d \<or> (\<exists>j j'. holds load d k = Some j \<and> f j = Inr j' \<and> holds load d' = (holds load d)(k \<mapsto> j'))))"
  using keeps_key run
proof (cases rule: update_cases)
  case (updated j j')
  then show ?thesis using holds_saved [of k d j'] holds_collision [of d k j] by auto
next
  case (failed e j j')
  then show ?thesis using holds_saved [of k d j'] holds_collision [of d k j] holds_files [of d' d] by auto
qed auto

end

subsection \<open>One file per document\<close>

text \<open>How the store provides the contract: a load decodes the file of the key's name and validates and compares it; a save
  either refuses the document or writes it with one atomic write.\<close>

locale file_documents =
  fixes path :: "'k \<Rightarrow> string"
    and load :: "'k \<Rightarrow> 'f Dir \<Rightarrow> 'j result"
    and save :: "'j \<Rightarrow> ('f, unit) io"
    and key :: "'j \<Rightarrow> 'k"
    and wrap :: "'j \<Rightarrow> 'f"
    and valid :: "'j \<Rightarrow> bool"
    and matches :: "'k \<Rightarrow> 'j \<Rightarrow> bool"
    and err :: gerror
  assumes load_by_name: "map_of (d_files d) (path k) = map_of (d_files d') (path k) \<Longrightarrow> load k d = load k d'"
    and load_iff: "load k d = Inr j \<longleftrightarrow> map_of (d_files d) (path k) = Some (wrap j) \<and> valid j \<and> matches k j"
    and wrap_inject: "wrap j = wrap j' \<Longrightarrow> j = j'"
    and matches_self: "valid j \<Longrightarrow> matches (key j) j"
    and matches_path: "matches k j \<Longrightarrow> path (key j) = path k"
    and matches_same: "matches k j \<Longrightarrow> matches (key j) j' \<longleftrightarrow> matches k j'"
    and save_writes: "valid j \<and> save j d = writeAtomic err (path (key j)) (wrap j) d \<or> (\<exists>e. save j d = (Inl e, d))"

sublocale file_documents \<subseteq> keyed_documents
proof
  fix d d' :: "'f Dir" and k k' j j' n e
  show "map_of (d_files d) (path k) = map_of (d_files d') (path k) \<Longrightarrow> load k d = load k d'" by (rule load_by_name)
  show "path (key j) = path k" if "load k d = Inr j" using that matches_path by (simp add: load_iff)
  show "load (key j) d' = Inr j' \<longleftrightarrow> load k d' = Inr j'" if "load k d = Inr j"
    using that matches_path matches_same by (auto simp: load_iff)
  show "j' = j" if "load k d = Inr j" "load k' d = Inr j'" "path k' = path k" using that wrap_inject by (auto simp: load_iff)
  show "d_open (snd (save j d)) = d_open d" using save_writes [of j d] by auto
  show "n \<noteq> path (key j) \<Longrightarrow> map_of (d_files (snd (save j d))) n = map_of (d_files d) n"
    using save_writes [of j d] by (auto simp: writeAtomic_frame)
  show "load (key j) (snd (save j d)) = Inr j" if "fst (save j d) = Inr ()"
    using that save_writes [of j d] writeAtomic_done [of err "path (key j)" "wrap j" d] by (auto simp: load_iff matches_self)
  show "load (key j) (snd (save j d)) = Inr j \<or> d_files (snd (save j d)) = d_files d" if "fst (save j d) = Inl e"
    using that save_writes [of j d] writeAtomic_failed [of err "path (key j)" "wrap j" d] by (auto simp: load_iff matches_self)
qed

locale exact_file_documents = file_documents +
  assumes matches_exact: "matches k j \<Longrightarrow> key j = k"

sublocale exact_file_documents \<subseteq> exact_documents
  by unfold_locales (simp add: load_iff matches_exact)

end
