(* ===== verification/Goal_Session_Store.thy ===== *)
theory Goal_Session_Store
  imports Goal_Session_Ops Documents "HOL-Library.Char_ord" "HOL-Library.List_Lexorder" "HOL-Library.Product_Lexorder"
begin

text \<open>
  The session directory (\<^verbatim>\<open>internal/state/goal_session.go\<close>): one journal file per session, named by the digest of its
  key, and one derived index file per lineage, named by the digest of the lineage.  The index caches which sessions of a
  lineage block a new launch; it is marked dirty before a journal changes and rebuilt from the journals afterwards.
  Every operation that touches the directory is given as a whole, with the faults of \<open>Files\<close> at each write.
\<close>

subsection \<open>Lineage index\<close>

abbreviation GoalSessionLineageStateFree :: string where "GoalSessionLineageStateFree \<equiv> ''free''"
abbreviation GoalSessionLineageStateReserved :: string where "GoalSessionLineageStateReserved \<equiv> ''reserved''"
abbreviation GoalSessionLineageStateLaunching :: string where "GoalSessionLineageStateLaunching \<equiv> ''launching''"
abbreviation GoalSessionLineageStateAttached :: string where "GoalSessionLineageStateAttached \<equiv> ''attached''"
abbreviation GoalSessionLineageStateUncertain :: string where "GoalSessionLineageStateUncertain \<equiv> ''uncertain''"

record goalSessionLineageEntry =
  le_SessionKey :: GoalSessionKey
  le_State :: string
  le_UpdatedAt :: time

record goalSessionLineageIndex =
  lx_SchemaVersion :: int
  lx_Lineage :: GoalSessionLineageKey
  lx_Dirty :: bool
  lx_Entries :: "goalSessionLineageEntry list"

record GoalSessionLineageStatus =
  ls_Lineage :: GoalSessionLineageKey
  ls_State :: string
  ls_Blocking :: bool
  ls_SessionKeys :: "GoalSessionKey list"

definition goalSessionLineageStateForJournal :: "GoalSessionJournal \<Rightarrow> string" where
  "goalSessionLineageStateForJournal j =
    (if sj_LaunchState j = GoalSessionLaunchStateClosed \<and> sj_SessionState j = GoalSessionStateClosed then GoalSessionLineageStateFree
     else if sj_LaunchState j = GoalSessionLaunchStateUncertain \<or> NeedsReconciliation j then GoalSessionLineageStateUncertain
     else if sj_LaunchState j = GoalSessionLaunchStateIntent then GoalSessionLineageStateReserved
     else if sj_LaunchState j = GoalSessionLaunchStateLaunching then GoalSessionLineageStateLaunching
     else if sj_LaunchState j = GoalSessionLaunchStateAttached then GoalSessionLineageStateAttached
     else GoalSessionLineageStateUncertain)"

definition lineageStateRank :: "string \<Rightarrow> nat" where
  "lineageStateRank s = (if s = GoalSessionLineageStateReserved then 1 else if s = GoalSessionLineageStateAttached then 2
     else if s = GoalSessionLineageStateLaunching then 3 else if s = GoalSessionLineageStateUncertain then 4 else 0)"

definition validGoalSessionLineageState :: "string \<Rightarrow> bool" where
  "validGoalSessionLineageState s = (s = GoalSessionLineageStateReserved \<or> s = GoalSessionLineageStateLaunching
     \<or> s = GoalSessionLineageStateAttached \<or> s = GoalSessionLineageStateUncertain)"

definition validateGoalSessionLineageIndex :: "goalSessionLineageIndex \<Rightarrow> gerror option" where
  "validateGoalSessionLineageIndex x = checks [
     (lx_SchemaVersion x \<noteq> 1 \<or> validateGoalSessionLineageKey (lx_Lineage x) \<noteq> None \<or> length (lx_Entries x) > 4096,
      ''goal session lineage index is invalid''),
     (\<not> list_all (\<lambda>e. validateGoalSessionKey (le_SessionKey e) = None \<and> validGoalSessionLineageState (le_State e)
         \<and> le_State e \<noteq> GoalSessionLineageStateFree \<and> le_UpdatedAt e \<noteq> 0) (lx_Entries x)
      \<or> \<not> distinct (map le_SessionKey (lx_Entries x)), ''goal session lineage index is invalid'')]"

definition key_order :: "GoalSessionKey \<Rightarrow> string \<times> string" where
  "key_order k = (sk_GoalID k, sk_LocalHandleID k)"

definition goalSessionLineageStatus :: "goalSessionLineageIndex \<Rightarrow> GoalSessionLineageStatus" where
  "goalSessionLineageStatus x = (if lx_Entries x = []
     then \<lparr> ls_Lineage = lx_Lineage x, ls_State = GoalSessionLineageStateFree, ls_Blocking = False, ls_SessionKeys = [] \<rparr>
     else \<lparr> ls_Lineage = lx_Lineage x,
       ls_State = foldl (\<lambda>s e. if lineageStateRank (le_State e) > lineageStateRank s then le_State e else s)
                    GoalSessionLineageStateFree (lx_Entries x),
       ls_Blocking = True, ls_SessionKeys = sort_key key_order (map le_SessionKey (lx_Entries x)) \<rparr>)"

subsection \<open>Names and loads\<close>

datatype session_file = SessionFile GoalSessionJournal | LineageFile goalSessionLineageIndex

type_synonym SessionDir = "session_file Dir"

definition goalSessionPath :: "GoalSessionKey \<Rightarrow> string" where
  "goalSessionPath k = ''session-'' @ sha_hex (sk_GoalID k @ [CHR 0x00] @ sk_LocalHandleID k) @ ''.json''"

definition goalSessionLineagePath :: "GoalSessionLineageKey \<Rightarrow> string" where
  "goalSessionLineagePath l =
     ''lineage-'' @ sha_hex (lk_GoalID l @ [CHR 0x00] @ lk_WorkItemID l @ [CHR 0x00] @ lk_TaskID l) @ ''.json''"

definition isGoalSessionFile :: "string \<Rightarrow> bool" where
  "isGoalSessionFile name = (prefix ''session-'' name \<and> suffix ''.json'' name \<and> length name = 8 + 64 + 5
     \<and> hex_decodes (take 64 (drop 8 name)))"

definition loadGoalSessionPathLocked :: "string \<Rightarrow> SessionDir \<Rightarrow> GoalSessionJournal result" where
  "loadGoalSessionPathLocked path d = (case map_of (d_files d) path of
     None \<Rightarrow> Inl (NotFound ''goal session journal'')
   | Some (LineageFile _) \<Rightarrow> Inl (Err ''decode goal session journal'')
   | Some (SessionFile j) \<Rightarrow>
       if validateGoalSessionJournal j \<noteq> None then Inl (Err ''invalid goal session journal'')
       else if path \<noteq> goalSessionPath (intent_Key (sj_Intent j)) then Inl (Err ''goal session journal does not match requested key'')
       else Inr j)"

fun load_all :: "('a \<Rightarrow> 'b result) \<Rightarrow> 'a list \<Rightarrow> 'b list result" where
  "load_all f [] = Inr []"
| "load_all f (x # xs) = bind_r (f x) (\<lambda>y. bind_r (load_all f xs) (\<lambda>ys. Inr (y # ys)))"

definition listGoalSessionsLocked :: "SessionDir \<Rightarrow> GoalSessionJournal list result" where
  "listGoalSessionsLocked d =
     bind_r (load_all (\<lambda>n. loadGoalSessionPathLocked n d) (filter isGoalSessionFile (sort (map fst (d_files d))))) (\<lambda>js.
       Inr (sort_key (\<lambda>j. key_order (intent_Key (sj_Intent j))) js))"

definition loadGoalSessionLineageIndexLocked :: "GoalSessionLineageKey \<Rightarrow> SessionDir \<Rightarrow> goalSessionLineageIndex result" where
  "loadGoalSessionLineageIndexLocked l d = on_err (validateGoalSessionLineageKey l)
    (case map_of (d_files d) (goalSessionLineagePath l) of
       None \<Rightarrow> Inl (NotFound ''goal session lineage index'')
     | Some (SessionFile _) \<Rightarrow> Inl (Err ''decode goal session lineage index'')
     | Some (LineageFile x) \<Rightarrow>
         if validateGoalSessionLineageIndex x \<noteq> None then Inl (Err ''invalid goal session lineage index'')
         else if lx_Lineage x \<noteq> l \<or> goalSessionLineagePath l \<noteq> goalSessionLineagePath (lx_Lineage x)
         then Inl (Err ''goal session lineage index does not match requested lineage'')
         else Inr x)"

subsection \<open>Writes\<close>

definition saveGoalSessionJournalLocked :: "GoalSessionJournal \<Rightarrow> (session_file, unit) io" where
  "saveGoalSessionJournalLocked j = io_check (validateGoalSessionJournal j)
     (writeAtomic (Err ''write goal session journal'') (goalSessionPath (intent_Key (sj_Intent j))) (SessionFile j))"

definition saveGoalSessionLineageIndexLocked :: "goalSessionLineageIndex \<Rightarrow> (session_file, unit) io" where
  "saveGoalSessionLineageIndexLocked x = io_check (validateGoalSessionLineageIndex x)
     (writeAtomic (Err ''write goal session lineage index'') (goalSessionLineagePath (lx_Lineage x)) (LineageFile x))"

definition beginGoalSessionLineageMutationLocked :: "GoalSessionLineageKey \<Rightarrow> (session_file, unit) io" where
  "beginGoalSessionLineageMutationLocked l = io_check (validateGoalSessionLineageKey l)
     (saveGoalSessionLineageIndexLocked \<lparr> lx_SchemaVersion = 1, lx_Lineage = l, lx_Dirty = True, lx_Entries = [] \<rparr>)"

definition lineage_entry :: "GoalSessionJournal \<Rightarrow> goalSessionLineageEntry" where
  "lineage_entry j = \<lparr> le_SessionKey = intent_Key (sj_Intent j), le_State = goalSessionLineageStateForJournal j,
     le_UpdatedAt = sj_UpdatedAt j \<rparr>"

definition lineage_entries :: "GoalSessionLineageKey \<Rightarrow> GoalSessionJournal list \<Rightarrow> goalSessionLineageEntry list" where
  "lineage_entries l js = sort_key (\<lambda>e. key_order (le_SessionKey e)) (map lineage_entry
     (filter (\<lambda>j. intent_LineageKey (sj_Intent j) = l \<and> goalSessionLineageStateForJournal j \<noteq> GoalSessionLineageStateFree) js))"

definition refreshGoalSessionLineageIndexLocked :: "GoalSessionLineageKey \<Rightarrow> (session_file, unit) io" where
  "refreshGoalSessionLineageIndexLocked l = io_check (validateGoalSessionLineageKey l)
     (io_bind (io_read listGoalSessionsLocked) (\<lambda>js.
       saveGoalSessionLineageIndexLocked \<lparr> lx_SchemaVersion = 1, lx_Lineage = l, lx_Dirty = False, lx_Entries = lineage_entries l js \<rparr>))"

definition checkGoalSessionLineageLocked :: "GoalSessionLineageKey \<Rightarrow> (session_file, GoalSessionLineageStatus) io" where
  "checkGoalSessionLineageLocked l = (\<lambda>d.
     let r = loadGoalSessionLineageIndexLocked l d in
     io_bind (if (case r of Inl (NotFound _) \<Rightarrow> True | Inr x \<Rightarrow> lx_Dirty x | _ \<Rightarrow> False)
         then io_bind (refreshGoalSessionLineageIndexLocked l) (\<lambda>_. io_read (loadGoalSessionLineageIndexLocked l))
         else io_lift r)
       (\<lambda>x. io_return (goalSessionLineageStatus x)) d)"

definition block_error :: "GoalSessionLineageStatus \<Rightarrow> gerror" where
  "block_error s = (if ls_State s = GoalSessionLineageStateUncertain \<or> ls_State s = GoalSessionLineageStateLaunching
     then ErrGoalSessionUncertain else ErrGoalSessionConflict)"

definition require_free :: "GoalSessionLineageKey \<Rightarrow> (session_file, unit) io" where
  "require_free l = io_bind (checkGoalSessionLineageLocked l) (\<lambda>s. if ls_Blocking s then io_fail (block_error s) else io_return ())"

fun handle_conflict :: "GoalSessionLaunchIntent \<Rightarrow> GoalSessionJournal list \<Rightarrow> gerror option" where
  "handle_conflict i [] = None"
| "handle_conflict i (j # js) = (let e = sj_Intent j in
     if si_LocalHandleID e = si_LocalHandleID i \<and> intent_Key e \<noteq> intent_Key i then Some ErrGoalSessionConflict
     else if si_GoalID e = si_GoalID i \<and> si_WorkItemID e = si_WorkItemID i \<and> si_TaskID e = si_TaskID i \<and> si_RunID e = si_RunID i
        \<and> si_Generation e = si_Generation i \<and> sj_LaunchState j \<noteq> GoalSessionLaunchStateClosed \<and> sj_SessionState j \<noteq> GoalSessionStateClosed
     then Some (if NeedsReconciliation j then ErrGoalSessionUncertain else ErrGoalSessionConflict)
     else handle_conflict i js)"

definition ensureLocalHandleAvailableLocked :: "GoalSessionLaunchIntent \<Rightarrow> (session_file, unit) io" where
  "ensureLocalHandleAvailableLocked i = io_bind (require_free (intent_LineageKey i)) (\<lambda>_.
     io_bind (io_read listGoalSessionsLocked) (\<lambda>js. io_check (handle_conflict i js) (io_return ())))"

subsection \<open>Operations\<close>

text \<open>The new journal of \<^verbatim>\<open>SaveGoalSessionLaunchIntent\<close> is written by \<open>publish_session\<close>, which \<open>mutateGoalSession\<close> shares:
  mark the lineage dirty, write the journal, rebuild the index and drop an error of the rebuild.\<close>

definition publish_session :: "GoalSessionJournal \<Rightarrow> (session_file, GoalSessionJournal) io" where
  "publish_session j = (let l = intent_LineageKey (sj_Intent j) in
     io_bind (beginGoalSessionLineageMutationLocked l) (\<lambda>_.
     io_bind (saveGoalSessionJournalLocked j) (\<lambda>_.
     io_bind (io_ignore (refreshGoalSessionLineageIndexLocked l)) (\<lambda>_. io_return j))))"

text \<open>The source returns the existing journal together with the error for an uncertain replay; the error is kept.\<close>

definition SaveGoalSessionLaunchIntent ::
  "time \<Rightarrow> string result \<times> string result \<Rightarrow> GoalSessionLaunchIntent \<Rightarrow> (session_file, GoalSessionJournal) io" where
  "SaveGoalSessionLaunchIntent now ids intent = io_bind (io_lift (normalizeGoalSessionIntent ids intent)) (\<lambda>i. io_open (\<lambda>d.
     case loadGoalSessionPathLocked (goalSessionPath (intent_Key i)) d of
       Inr existing \<Rightarrow>
         if sj_Intent existing = i then
           (if NeedsReconciliation existing then io_fail ErrGoalSessionUncertain d else io_return existing d)
         else io_fail ErrGoalSessionConflict d
     | Inl (NotFound _) \<Rightarrow>
         io_bind (ensureLocalHandleAvailableLocked i) (\<lambda>_.
           io_check (validateGoalSessionJournal (new_session now i)) (publish_session (new_session now i))) d
     | Inl e \<Rightarrow> io_fail e d))"

definition mutateGoalSession ::
  "GoalSessionKey \<Rightarrow> (GoalSessionJournal \<Rightarrow> GoalSessionJournal result) \<Rightarrow> (session_file, GoalSessionJournal) io" where
  "mutateGoalSession k f = io_check (validateGoalSessionKey k) (io_open (
     io_bind (io_read (loadGoalSessionPathLocked (goalSessionPath k))) (\<lambda>j.
     io_bind (io_lift (f j)) (\<lambda>j'. io_check (validateGoalSessionJournal j') (publish_session j')))))"

definition AttachGoalSession ::
  "time \<Rightarrow> GoalSessionKey \<Rightarrow> GoalSessionHandle \<Rightarrow> GoalSessionCompatibility list \<Rightarrow> (session_file, GoalSessionJournal) io" where
  "AttachGoalSession now k h expected = mutateGoalSession k (PersistGoalSessionHandle now h expected)"

definition RebindGoalSessionForResume :: "time \<Rightarrow> GoalSessionKey \<Rightarrow> GoalSessionResumeRebind \<Rightarrow> (session_file, GoalSessionJournal) io" where
  "RebindGoalSessionForResume now k r = io_check (validateGoalSessionKey k) (io_check (validateGoalSessionResumeRebind r) (io_open (
     io_bind (io_read (loadGoalSessionPathLocked (goalSessionPath k))) (\<lambda>j.
     if resumeTargetConflictsWithConsumedHistory j r then io_fail ErrGoalSessionConflict
     else if sameGoalSessionResumeTarget j r
     then io_check (compareGoalSessionResumeCompatibility j (rb_Compatibility r)) (io_return j)
     else io_check (validateGoalSessionResumeSource j r)
      (let previous = intent_LineageKey (sj_Intent j); target = previous\<lparr> lk_TaskID := rb_TaskID r \<rparr> in
       io_bind (if target \<noteq> previous then require_free target else io_return ()) (\<lambda>_.
       io_bind (beginGoalSessionLineageMutationLocked previous) (\<lambda>_.
       io_bind (if target \<noteq> previous then beginGoalSessionLineageMutationLocked target else io_return ()) (\<lambda>_.
       io_bind (io_lift (rebind_session now r j)) (\<lambda>j'.
       io_check (validateGoalSessionJournal j') (
       io_bind (saveGoalSessionJournalLocked j') (\<lambda>_.
       io_bind (io_ignore (refreshGoalSessionLineageIndexLocked previous)) (\<lambda>_.
       io_bind (if target \<noteq> previous then io_ignore (refreshGoalSessionLineageIndexLocked target) else io_return ()) (\<lambda>_.
       io_return j')))))))))))))"

definition DeleteGoalSession :: "GoalSessionKey \<Rightarrow> (session_file, unit) io" where
  "DeleteGoalSession k = io_check (validateGoalSessionKey k) (io_open (
     io_bind (io_read (loadGoalSessionPathLocked (goalSessionPath k))) (\<lambda>j.
     if NeedsReconciliation j then io_fail ErrGoalSessionUncertain
     else if sj_SessionState j \<noteq> GoalSessionStateClosed \<and> sj_LaunchState j \<noteq> GoalSessionLaunchStateClosed
     then io_fail (Err ''goal session is not closed'')
     else (let l = intent_LineageKey (sj_Intent j) in
       io_bind (beginGoalSessionLineageMutationLocked l) (\<lambda>_.
       io_bind (remove_file (Err ''delete goal session journal'') (goalSessionPath k)) (\<lambda>_.
       io_ignore (refreshGoalSessionLineageIndexLocked l)))))))"

definition LoadGoalSession :: "GoalSessionKey \<Rightarrow> (session_file, GoalSessionJournal) io" where
  "LoadGoalSession k = io_check (validateGoalSessionKey k) (io_open (io_read (loadGoalSessionPathLocked (goalSessionPath k))))"

definition LoadGoalSessionByHandle :: "string \<Rightarrow> (session_file, GoalSessionJournal) io" where
  "LoadGoalSessionByHandle h = (if \<not> validRequiredString h 4096 then io_fail (Err ''local handle ID is invalid'')
     else io_open (io_bind (io_read listGoalSessionsLocked) (\<lambda>js.
       case find (\<lambda>j. si_LocalHandleID (sj_Intent j) = h) js of
         Some j \<Rightarrow> io_return j | None \<Rightarrow> io_fail (NotFound ''goal session journal''))))"

definition LoadGoalSessionByControlSessionID :: "string \<Rightarrow> (session_file, GoalSessionJournal) io" where
  "LoadGoalSessionByControlSessionID c = (if \<not> validGoalSessionUUID c then io_fail (Err ''Control session ID is invalid'')
     else io_open (io_bind (io_read listGoalSessionsLocked) (\<lambda>js.
       case filter (\<lambda>j. sj_ControlSessionID j = c) js of
         [] \<Rightarrow> io_fail (NotFound ''goal session journal'') | [j] \<Rightarrow> io_return j | _ \<Rightarrow> io_fail ErrGoalSessionConflict)))"

definition ListGoalSessions :: "(session_file, GoalSessionJournal list) io" where
  "ListGoalSessions = io_open (io_read listGoalSessionsLocked)"

definition CheckGoalSessionLineage :: "GoalSessionLineageKey \<Rightarrow> (session_file, GoalSessionLineageStatus) io" where
  "CheckGoalSessionLineage l = io_check (validateGoalSessionLineageKey l) (io_open (checkGoalSessionLineageLocked l))"

definition EnsureGoalSessionLineageAvailable :: "GoalSessionLineageKey \<Rightarrow> (session_file, unit) io" where
  "EnsureGoalSessionLineageAvailable l =
     io_bind (CheckGoalSessionLineage l) (\<lambda>s. if ls_Blocking s then io_fail (block_error s) else io_return ())"

definition CheckGoalSessionCompatibility :: "GoalSessionKey \<Rightarrow> GoalSessionCompatibility \<Rightarrow> (session_file, unit) io" where
  "CheckGoalSessionCompatibility k e =
     io_bind (LoadGoalSession k) (\<lambda>j. io_check (compareGoalSessionCompatibility j e) (io_return ()))"

subsection \<open>Session journals and lineage indexes as documents\<close>

interpretation session_docs: file_documents goalSessionPath "\<lambda>k. loadGoalSessionPathLocked (goalSessionPath k)" saveGoalSessionJournalLocked
  "\<lambda>j. intent_Key (sj_Intent j)" SessionFile "\<lambda>j. validateGoalSessionJournal j = None"
  "\<lambda>k j. goalSessionPath (intent_Key (sj_Intent j)) = goalSessionPath k" "Err ''write goal session journal''"
  by unfold_locales (auto simp: loadGoalSessionPathLocked_def saveGoalSessionJournalLocked_def io_check_def io_fail_def
    split: option.splits session_file.splits if_splits)

interpretation lineage_docs: exact_file_documents goalSessionLineagePath loadGoalSessionLineageIndexLocked saveGoalSessionLineageIndexLocked
  lx_Lineage LineageFile "\<lambda>x. validateGoalSessionLineageIndex x = None"
  "\<lambda>l x. lx_Lineage x = l \<and> validateGoalSessionLineageKey l = None" "Err ''write goal session lineage index''"
  by unfold_locales (auto simp: loadGoalSessionLineageIndexLocked_def saveGoalSessionLineageIndexLocked_def io_check_def io_fail_def on_err_def
    validateGoalSessionLineageIndex_def
    split: option.splits session_file.splits if_splits)

end
