(* ===== verification/Goal_Session_Inv.thy ===== *)
theory Goal_Session_Inv
  imports Goal_Session_Store "HOL-Library.Multiset"
begin

text \<open>
  Invariants of Goal sessions.  First the journal alone: every mutation keeps the identity of the session and what is
  recorded once, and a closed session stays closed.  Then the directory: under any faults, an index that is not marked dirty
  agrees with the journals, and a lineage has at most one session that blocks a new launch.
\<close>

subsection \<open>The journal\<close>

inductive session_mutation :: "(GoalSessionJournal \<Rightarrow> GoalSessionJournal result) \<Rightarrow> bool" where
  "session_mutation (MarkGoalSessionLaunchStarted now at)"
| "session_mutation (AbortGoalSessionLaunchBeforeNativeStart now)"
| "session_mutation (PersistGoalSessionHandle now h expected)"
| "session_mutation (PersistGoalSessionControlAttachment now session binding receipt issued)"
| "session_mutation (MarkGoalSessionResumeStartAttempted now)"
| "session_mutation (MarkGoalSessionResumeNativeStopped now)"
| "session_mutation (MarkGoalSessionResumeRejected now)"
| "session_mutation (MarkGoalSessionStoppedPending now)"
| "session_mutation (MarkGoalSessionAvailable now c)"
| "session_mutation (MarkGoalSessionUncertain now reason)"
| "session_mutation (ResolveGoalSessionUncertain now h expectation)"
| "session_mutation (ResolveGoalSessionUncertainStopped now expectation)"
| "session_mutation (CloseGoalSession now)"
| "session_mutation (SetGoalSessionState now state)"

abbreviation free_session :: "GoalSessionJournal \<Rightarrow> bool" where
  "free_session j \<equiv> sj_LaunchState j = GoalSessionLaunchStateClosed \<and> sj_SessionState j = GoalSessionStateClosed"

text \<open>The identity a session keeps for its whole life, and what a rebind may replace.\<close>

definition session_identity :: "GoalSessionLaunchIntent \<Rightarrow> GoalSessionLaunchIntent" where
  "session_identity i = i\<lparr> si_RunID := [], si_Generation := 0, si_TaskID := [], si_AdmissionID := [], si_BindingID := [],
     si_RuntimeEpoch := 0, si_SessionMode := [], si_HandoffSourceRunID := [] \<rparr>"

definition session_kept :: "GoalSessionJournal \<Rightarrow> GoalSessionJournal \<Rightarrow> bool" where
  "session_kept j j' = (session_identity (sj_Intent j') = session_identity (sj_Intent j)
     \<and> si_RuntimeEpoch (sj_Intent j) \<le> si_RuntimeEpoch (sj_Intent j')
     \<and> prefix (consumed_list j) (consumed_list j') \<and> sj_CreatedAt j' = sj_CreatedAt j
     \<and> (\<forall>l. sj_ControlAttachmentLineage j = Some l \<longrightarrow> (\<exists>l'. sj_ControlAttachmentLineage j' = Some l' \<and> cl_Original l' = cl_Original l)))"

lemma session_kept_refl [simp]: "session_kept j j"
  by (simp add: session_kept_def)

lemma session_kept_trans: "session_kept j k \<Longrightarrow> session_kept k l \<Longrightarrow> session_kept j l"
  unfolding session_kept_def by (metis order_trans prefix_order.trans)

text \<open>A mutation other than a rebind changes no more of the intent than an empty binding.\<close>

definition binding_only :: "GoalSessionJournal \<Rightarrow> GoalSessionJournal \<Rightarrow> bool" where
  "binding_only j j' = (\<exists>b. sj_Intent j' = (sj_Intent j)\<lparr> si_BindingID := b \<rparr> \<and> (si_BindingID (sj_Intent j) = [] \<or> b = si_BindingID (sj_Intent j)))"

lemma binding_only_same [simp]: "sj_Intent j' = sj_Intent j \<Longrightarrow> binding_only j j'"
  by (auto simp: binding_only_def intro!: exI [of _ "si_BindingID (sj_Intent j)"])

lemmas session_frame_defs = close_unstarted_def resume_stopped_def drop_native_def

lemmas session_op_defs = MarkGoalSessionLaunchStarted_def AbortGoalSessionLaunchBeforeNativeStart_def PersistGoalSessionHandle_def
  MarkGoalSessionResumeStartAttempted_def MarkGoalSessionResumeNativeStopped_def MarkGoalSessionResumeRejected_def
  MarkGoalSessionStoppedPending_def MarkGoalSessionUncertain_def ResolveGoalSessionUncertain_def
  ResolveGoalSessionUncertainStopped_def CloseGoalSession_def SetGoalSessionState_def

definition session_step_ok :: "GoalSessionJournal \<Rightarrow> GoalSessionJournal \<Rightarrow> bool" where
  "session_step_ok j j' = (session_kept j j' \<and> binding_only j j')"

lemma session_step_okI:
  assumes "sj_Intent j' = sj_Intent j" "sj_ConsumedStopCertificates j' = sj_ConsumedStopCertificates j"
    "sj_CreatedAt j' = sj_CreatedAt j" "sj_ControlAttachmentLineage j' = sj_ControlAttachmentLineage j"
  shows "session_step_ok j j'"
  using assms by (simp add: session_step_ok_def session_kept_def consumed_list_def)

lemma simple_ops_ok:
  "ensures (MarkGoalSessionLaunchStarted now1 at1 j) (session_step_ok j)"
  "ensures (AbortGoalSessionLaunchBeforeNativeStart now2 j) (session_step_ok j)"
  "ensures (PersistGoalSessionHandle now3 h3 expected3 j) (session_step_ok j)"
  "ensures (MarkGoalSessionResumeStartAttempted now4 j) (session_step_ok j)"
  "ensures (MarkGoalSessionResumeNativeStopped now5 j) (session_step_ok j)"
  "ensures (MarkGoalSessionResumeRejected now6 j) (session_step_ok j)"
  "ensures (MarkGoalSessionStoppedPending now7 j) (session_step_ok j)"
  "ensures (MarkGoalSessionUncertain now8 reason8 j) (session_step_ok j)"
  "ensures (ResolveGoalSessionUncertain now9 h9 expected9 j) (session_step_ok j)"
  "ensures (ResolveGoalSessionUncertainStopped now10 expected10 j) (session_step_ok j)"
  "ensures (CloseGoalSession now11 j) (session_step_ok j)"
  "ensures (SetGoalSessionState now12 state12 j) (session_step_ok j)"
  unfolding session_op_defs
  by (intro frame_intros session_step_okI; simp add: session_frame_defs)+

lemma attached_step:
  assumes "si_BindingID (sj_Intent j) = [] \<or> b = si_BindingID (sj_Intent j)"
    "\<forall>l0. sj_ControlAttachmentLineage j = Some l0 \<longrightarrow> cl_Original l = cl_Original l0"
  shows "session_step_ok j (j\<lparr> sj_ControlAttachmentLineage := Some l, sj_ControlSessionID := c,
    sj_ControlAttachmentReceiptID := r, sj_Intent := (sj_Intent j)\<lparr> si_BindingID := b \<rparr>, sj_UpdatedAt := t \<rparr>)"
  using assms by (simp add: session_step_ok_def session_kept_def session_identity_def consumed_list_def binding_only_def) blast

lemma attachment_ok: "ensures (PersistGoalSessionControlAttachment now session binding receipt issued j) (session_step_ok j)"
  unfolding PersistGoalSessionControlAttachment_def Let_def
  by (intro ensures_if_cond ensures_Inl ensures_bindI ensures_caseI ensures_InrI attached_step) auto

lemma append_consumed:
  "ensures (appendConsumedStopCertificate c j) (\<lambda>j'. j' = j\<lparr> sj_ConsumedStopCertificates := Some (consumed_list j @ [c]) \<rparr> \<and> c \<notin> set (consumed_list j))"
  by (simp add: appendConsumedStopCertificate_def)

lemma consumed_step: "session_step_ok j (j\<lparr> sj_ConsumedStopCertificates := Some (consumed_list j @ cs), sj_SessionState := a, sj_StopCertificate := b,
    sj_ResumeSourceStopCertificate := c, sj_ResumeStartPending := d, sj_ResumeNativeStopKnown := e, sj_ResumeTerminalReason := f, sj_UpdatedAt := g \<rparr>)"
  by (simp add: session_step_ok_def session_kept_def consumed_list_def)

lemma available_ok: "ensures (MarkGoalSessionAvailable now c j) (session_step_ok j)"
  unfolding MarkGoalSessionAvailable_def
  by (intro frame_intros ensures_mono [OF append_consumed]) (auto intro: consumed_step session_step_okI)

lemma session_mutation_ok: "session_mutation f \<Longrightarrow> ensures (f j) (session_step_ok j)"
  by (erule session_mutation.cases) (simp_all only: simple_ops_ok attachment_ok available_ok)

text \<open>A closed session needs no reconciliation, and no mutation reopens it.\<close>

definition settled :: "GoalSessionJournal \<Rightarrow> bool" where
  "settled j = (sj_LaunchState j = GoalSessionLaunchStateClosed \<longrightarrow> \<not> sj_RecoveryRequired j)"

definition session_ok :: "GoalSessionJournal \<Rightarrow> bool" where
  "session_ok j = (validateGoalSessionJournal j = None \<and> settled j)"

definition closes :: "GoalSessionJournal \<Rightarrow> GoalSessionJournal \<Rightarrow> bool" where
  "closes j j' = (settled j' \<and> (free_session j \<longrightarrow> free_session j'))"

lemma closes_refl: "settled j \<Longrightarrow> closes j j"
  by (simp add: closes_def)

lemma closes_open: "sj_LaunchState j' \<noteq> GoalSessionLaunchStateClosed \<Longrightarrow> \<not> free_session j \<Longrightarrow> closes j j'"
  by (simp add: closes_def settled_def)

lemma closes_closed: "free_session j' \<Longrightarrow> \<not> sj_RecoveryRequired j' \<Longrightarrow> closes j j'"
  by (simp add: closes_def settled_def)

lemma not_reconciling: "settled j \<Longrightarrow> NeedsReconciliation j \<Longrightarrow> sj_LaunchState j \<noteq> GoalSessionLaunchStateClosed"
  by (auto simp: NeedsReconciliation_def settled_def)

lemmas closes_intros = ensures_if_cond ensures_on_err_cond ensures_bindI ensures_caseI ensures_Inl ensures_InrI ensures_case_prodI
  ensures_case_boolI

lemma launch_ops_close:
  assumes "settled j"
  shows "ensures (MarkGoalSessionLaunchStarted now1 at1 j) (closes j)"
    and "ensures (AbortGoalSessionLaunchBeforeNativeStart now2 j) (closes j)"
    and "ensures (PersistGoalSessionHandle now3 h3 expected3 j) (closes j)"
    and "ensures (MarkGoalSessionUncertain now4 reason4 j) (closes j)"
    and "ensures (CloseGoalSession now5 j) (closes j)"
  unfolding MarkGoalSessionLaunchStarted_def AbortGoalSessionLaunchBeforeNativeStart_def PersistGoalSessionHandle_def
    MarkGoalSessionUncertain_def CloseGoalSession_def Let_def
  using assms by (intro closes_intros; auto simp: closes_def settled_def session_frame_defs unstarted_intent_def NeedsReconciliation_def)+

lemma stop_ops_close:
  assumes "settled j"
  shows "ensures (MarkGoalSessionResumeStartAttempted now1 j) (closes j)"
    and "ensures (MarkGoalSessionResumeNativeStopped now2 j) (closes j)"
    and "ensures (MarkGoalSessionResumeRejected now3 j) (closes j)"
    and "ensures (MarkGoalSessionStoppedPending now4 j) (closes j)"
    and "ensures (SetGoalSessionState now5 state5 j) (closes j)"
  unfolding MarkGoalSessionResumeStartAttempted_def MarkGoalSessionResumeNativeStopped_def MarkGoalSessionResumeRejected_def
    MarkGoalSessionStoppedPending_def SetGoalSessionState_def
  using assms launch_ops_close(5) [OF assms]
  by (intro closes_intros; auto simp: closes_def settled_def resume_stopped_def resume_stop_guard_def split: if_splits)+

lemma resolve_ops_close:
  assumes "settled j"
  shows "ensures (ResolveGoalSessionUncertain now1 h1 expected1 j) (closes j)"
    and "ensures (ResolveGoalSessionUncertainStopped now2 expected2 j) (closes j)"
    and "ensures (PersistGoalSessionControlAttachment now3 session binding receipt issued j) (closes j)"
  unfolding ResolveGoalSessionUncertain_def ResolveGoalSessionUncertainStopped_def PersistGoalSessionControlAttachment_def Let_def
  using assms not_reconciling [OF assms]
  by (intro closes_intros; auto simp: closes_def settled_def drop_native_def)+

lemma available_closes:
  assumes "settled j"
  shows "ensures (MarkGoalSessionAvailable now c j) (closes j)"
  unfolding MarkGoalSessionAvailable_def
  using assms by (intro closes_intros ensures_mono [OF append_consumed]; auto simp: closes_def settled_def)

lemma session_mutation_closes: "session_mutation f \<Longrightarrow> settled j \<Longrightarrow> ensures (f j) (closes j)"
  by (erule session_mutation.cases) (simp_all only: launch_ops_close stop_ops_close resolve_ops_close available_closes)

subsection \<open>Rebinding\<close>

lemma rebind_shape:
  "ensures (rebind_session now r j) (\<lambda>j'. sj_Intent j' = rebound_intent r (sj_Intent j)
     \<and> consumed_list j' = consumed_list j @ [rb_ExactStopCertificate r] \<and> rb_ExactStopCertificate r \<notin> set (consumed_list j)
     \<and> sj_CreatedAt j' = sj_CreatedAt j \<and> sj_ControlAttachmentLineage j' = sj_ControlAttachmentLineage j
     \<and> sj_LaunchState j' = GoalSessionLaunchStateAttached)"
  unfolding rebind_session_def
  by (intro ensures_bindI ensures_mono [OF append_consumed] ensures_InrI) (auto simp: consumed_list_def)

lemma session_identity_rebound [simp]: "session_identity (rebound_intent r i) = session_identity i"
  by (simp add: session_identity_def rebound_intent_def)

lemma source_epoch: "validateGoalSessionResumeSource j r = None \<Longrightarrow> si_RuntimeEpoch (sj_Intent j) \<le> gc_RuntimeEpoch (rb_Compatibility r)"
  by (auto simp: validateGoalSessionResumeSource_def then_err_None_iff split: if_splits)

lemma rebind_kept:
  assumes "validateGoalSessionResumeSource j r = None" "rebind_session now r j = Inr j'"
  shows "session_kept j j'"
  using ensuresD [OF rebind_shape assms(2)] source_epoch [OF assms(1)]
  by (simp add: session_kept_def rebound_intent_def [of r "sj_Intent j"] del: session_identity_rebound)
     (simp add: session_identity_def)

end
