(* ===== verification/Goal_Session_Dir.thy ===== *)
theory Goal_Session_Dir
  imports Goal_Session_Inv
begin

text \<open>
  The session directory under faults.  \<open>dir_ok\<close> is the invariant of the directory; every whole operation keeps it whatever
  its writes do.  The journals of a directory are taken as a multiset, since no operation depends on their order.
\<close>

subsection \<open>Journals of a directory\<close>

fun journals_of :: "(string \<times> session_file) list \<Rightarrow> GoalSessionJournal list" where
  "journals_of [] = []"
| "journals_of ((n, SessionFile j) # ps) = j # journals_of ps"
| "journals_of ((n, LineageFile x) # ps) = journals_of ps"

definition sessions :: "SessionDir \<Rightarrow> GoalSessionJournal multiset" where
  "sessions d = mset (journals_of (d_files d))"

definition blocks :: "GoalSessionLineageKey \<Rightarrow> GoalSessionJournal \<Rightarrow> bool" where
  "blocks l j = (intent_LineageKey (sj_Intent j) = l \<and> \<not> free_session j)"

abbreviation blocking :: "GoalSessionLineageKey \<Rightarrow> SessionDir \<Rightarrow> GoalSessionJournal multiset" where
  "blocking l d \<equiv> filter_mset (blocks l) (sessions d)"

definition is_session :: "session_file option \<Rightarrow> bool" where
  "is_session f = (case f of Some (SessionFile j) \<Rightarrow> True | _ \<Rightarrow> False)"

lemma journals_put_lineage: "\<not> is_session (map_of ps n) \<Longrightarrow> journals_of (put_file n (LineageFile x) ps) = journals_of ps"
  by (induction ps rule: journals_of.induct) (auto simp: is_session_def split: if_splits)

lemma journals_put_new: "map_of ps n = None \<Longrightarrow> journals_of (put_file n (SessionFile j) ps) = journals_of ps @ [j]"
  by (induction ps rule: journals_of.induct) (auto split: if_splits)

lemma journals_put_old:
  "map_of ps n = Some (SessionFile j0) \<Longrightarrow> add_mset j0 (mset (journals_of (put_file n (SessionFile j) ps))) = add_mset j (mset (journals_of ps))"
  by (induction ps rule: journals_of.induct) (auto split: if_splits simp: add_mset_commute)

lemma journals_del:
  "distinct (map fst ps) \<Longrightarrow> map_of ps n = Some (SessionFile j) \<Longrightarrow> add_mset j (mset (journals_of (del_file n ps))) = mset (journals_of ps)"
proof (induction ps rule: journals_of.induct)
  case (2 m j' ps)
  then show ?case
    by (cases "m = n") (auto simp: del_file_def add_mset_commute filter_id_conv image_iff intro!: arg_cong [where f = "\<lambda>x. mset (journals_of x)"])
next
  case (3 m x ps)
  then show ?case by (cases "m = n") (auto simp: del_file_def)
qed simp

lemma journals_in: "j \<in> set (journals_of ps) \<longleftrightarrow> (\<exists>n. (n, SessionFile j) \<in> set ps)"
  by (induction ps rule: journals_of.induct) auto

lemma journals_set: "distinct (map fst ps) \<Longrightarrow> j \<in> set (journals_of ps) \<longleftrightarrow> (\<exists>n. map_of ps n = Some (SessionFile j))"
  by (simp add: journals_in)

subsection \<open>The invariant\<close>

definition index_ok :: "SessionDir \<Rightarrow> goalSessionLineageIndex \<Rightarrow> bool" where
  "index_ok d x = (lx_Dirty x \<or> mset (lx_Entries x) = image_mset lineage_entry (blocking (lx_Lineage x) d))"

definition dir_ok :: "SessionDir \<Rightarrow> bool" where
  "dir_ok d = (distinct (map fst (d_files d))
     \<and> (\<forall>n j. map_of (d_files d) n = Some (SessionFile j) \<longrightarrow> n = goalSessionPath (intent_Key (sj_Intent j)) \<and> session_ok j)
     \<and> (\<forall>n x. map_of (d_files d) n = Some (LineageFile x) \<longrightarrow> n = goalSessionLineagePath (lx_Lineage x) \<and> index_ok d x)
     \<and> (\<forall>l. size (blocking l d) \<le> 1))"

lemma paths_apart [simp]: "goalSessionLineagePath l \<noteq> goalSessionPath k" "goalSessionPath k \<noteq> goalSessionLineagePath l"
  by (simp_all add: goalSessionPath_def goalSessionLineagePath_def)

lemma session_file_name: "isGoalSessionFile (goalSessionPath k)"
  by (simp add: isGoalSessionFile_def goalSessionPath_def length_sha_hex suffix_def)

lemma lineage_file_name: "\<not> isGoalSessionFile (goalSessionLineagePath l)"
  by (simp add: isGoalSessionFile_def goalSessionLineagePath_def)

lemma dir_okD:
  assumes "dir_ok d"
  shows "distinct (map fst (d_files d))"
    and "map_of (d_files d) n = Some (SessionFile j) \<Longrightarrow> n = goalSessionPath (intent_Key (sj_Intent j)) \<and> session_ok j"
    and "map_of (d_files d) n = Some (LineageFile x) \<Longrightarrow> n = goalSessionLineagePath (lx_Lineage x) \<and> index_ok d x"
    and "size (blocking l d) \<le> 1"
  using assms unfolding dir_ok_def by blast+

lemma sessions_iff:
  assumes "dir_ok d"
  shows "j \<in># sessions d \<longleftrightarrow> map_of (d_files d) (goalSessionPath (intent_Key (sj_Intent j))) = Some (SessionFile j)"
  using journals_set [OF dir_okD(1) [OF assms]] dir_okD(2) [OF assms] by (auto simp: sessions_def)

lemma load_session:
  assumes "dir_ok d"
  shows "loadGoalSessionPathLocked n d = Inr j \<longleftrightarrow> map_of (d_files d) n = Some (SessionFile j)"
  using dir_okD(2) [OF assms, of n] by (auto simp: loadGoalSessionPathLocked_def session_ok_def split: option.split session_file.split)

lemma load_absent:
  assumes "dir_ok d"
  shows "loadGoalSessionPathLocked (goalSessionPath k) d = Inl (NotFound r) \<Longrightarrow> map_of (d_files d) (goalSessionPath k) = None"
  by (auto simp: loadGoalSessionPathLocked_def split: option.splits session_file.splits if_splits)

subsection \<open>Listing\<close>

lemma load_all_map: "(\<And>x. x \<in> set xs \<Longrightarrow> f x = Inr (g x)) \<Longrightarrow> load_all f xs = Inr (map g xs)"
  by (induction xs) auto

definition journal_at :: "SessionDir \<Rightarrow> string \<Rightarrow> GoalSessionJournal" where
  "journal_at d n = (case map_of (d_files d) n of Some (SessionFile j) \<Rightarrow> j | _ \<Rightarrow> undefined)"

lemma journals_of_names:
  "\<forall>(n, f) \<in> set ps. map_of (d_files d) n = Some f \<and> (isGoalSessionFile n \<longleftrightarrow> is_session (Some f)) \<Longrightarrow>
    mset (journals_of ps) = image_mset (journal_at d) (filter_mset isGoalSessionFile (mset (map fst ps)))"
  by (induction ps rule: journals_of.induct) (auto simp: is_session_def journal_at_def)

lemma list_sessions:
  assumes "dir_ok d"
  obtains js where "listGoalSessionsLocked d = Inr js" "mset js = sessions d"
proof -
  let ?names = "filter isGoalSessionFile (sort (map fst (d_files d)))"
  have kind: "isGoalSessionFile n \<longleftrightarrow> is_session (Some f)" if "map_of (d_files d) n = Some f" for n f
    using that dir_okD(2,3) [OF assms, of n] session_file_name lineage_file_name by (cases f) (auto simp: is_session_def)
  have "loadGoalSessionPathLocked n d = Inr (journal_at d n)" if "n \<in> set ?names" for n
  proof -
    have "n \<in> dom (map_of (d_files d))" using that by (simp add: dom_map_of_conv_image_fst)
    then obtain f where f: "map_of (d_files d) n = Some f" by blast
    moreover have "isGoalSessionFile n" using that by simp
    ultimately obtain j where "f = SessionFile j" using kind by (cases f) (auto simp: is_session_def)
    then show ?thesis using f load_session [OF assms] by (simp add: journal_at_def)
  qed
  then have "load_all (\<lambda>n. loadGoalSessionPathLocked n d) ?names = Inr (map (journal_at d) ?names)"
    by (rule load_all_map)
  moreover have "mset (map (journal_at d) ?names) = sessions d"
  proof -
    have "\<forall>(n, f) \<in> set (d_files d). map_of (d_files d) n = Some f \<and> (isGoalSessionFile n \<longleftrightarrow> is_session (Some f))"
      using dir_okD(1) [OF assms] kind by auto
    from journals_of_names [OF this] show ?thesis by (simp add: sessions_def)
  qed
  ultimately show thesis
    using that by (auto simp: listGoalSessionsLocked_def)
qed

subsection \<open>Index writes\<close>

lemma lineage_entries_mset: "mset (lineage_entries l js) = image_mset lineage_entry (filter_mset (blocks l) (mset js))"
proof -
  have "goalSessionLineageStateForJournal j \<noteq> GoalSessionLineageStateFree \<longleftrightarrow> \<not> free_session j" for j
    by (auto simp: goalSessionLineageStateForJournal_def)
  then show ?thesis by (simp add: lineage_entries_def blocks_def [abs_def])
qed

text \<open>A lineage is marked when every index of it is dirty.\<close>

definition marked :: "GoalSessionLineageKey \<Rightarrow> SessionDir \<Rightarrow> bool" where
  "marked l d = (\<forall>n x. map_of (d_files d) n = Some (LineageFile x) \<longrightarrow> lx_Lineage x = l \<longrightarrow> lx_Dirty x)"

lemma lineage_path_no_session: "dir_ok d \<Longrightarrow> \<not> is_session (map_of (d_files d) (goalSessionLineagePath l))"
  using dir_okD(2) [of d "goalSessionLineagePath l"] by (auto simp: is_session_def split: option.split session_file.split)

lemma sessions_faults [simp]: "sessions (d\<lparr> d_faults := fs \<rparr>) = sessions d"
  by (simp add: sessions_def)

lemma dir_ok_faults [simp]: "dir_ok (d\<lparr> d_faults := fs \<rparr>) = dir_ok d" "marked l (d\<lparr> d_faults := fs \<rparr>) = marked l d"
  by (simp_all add: dir_ok_def index_ok_def marked_def)

definition put_index :: "goalSessionLineageIndex \<Rightarrow> SessionDir \<Rightarrow> SessionDir" where
  "put_index x d = d\<lparr> d_files := put_file (goalSessionLineagePath (lx_Lineage x)) (LineageFile x) (d_files d) \<rparr>"

lemma sessions_put_index [simp]: "dir_ok d \<Longrightarrow> sessions (put_index x d) = sessions d"
  by (simp add: sessions_def put_index_def journals_put_lineage lineage_path_no_session)

lemma dir_ok_put_index: "dir_ok d \<Longrightarrow> index_ok d x \<Longrightarrow> dir_ok (put_index x d)"
proof -
  assume d: "dir_ok d" and x: "index_ok d x"
  have i: "index_ok (put_index x d) y = index_ok d y" for y
    using d by (simp add: index_ok_def)
  show ?thesis
    unfolding dir_ok_def i sessions_put_index [OF d]
    using dir_okD [OF d] x by (auto simp: put_index_def distinct_put_file split: if_splits)
qed

lemma marked_put_index:
  "dir_ok d \<Longrightarrow> lx_Dirty x \<or> lx_Lineage x \<noteq> l \<Longrightarrow> marked l d \<or> lx_Lineage x = l \<Longrightarrow> marked l (put_index x d)"
  by (auto simp: marked_def put_index_def dest: dir_okD(3) split: if_splits)

subsection \<open>Journal writes\<close>

definition put_session :: "GoalSessionJournal \<Rightarrow> SessionDir \<Rightarrow> SessionDir" where
  "put_session j d = d\<lparr> d_files := put_file (goalSessionPath (intent_Key (sj_Intent j))) (SessionFile j) (d_files d) \<rparr>"

lemma session_path_no_index: "dir_ok d \<Longrightarrow> map_of (d_files d) (goalSessionPath k) \<noteq> Some (LineageFile x)"
  using dir_okD(3) [of d "goalSessionPath k" x] by auto

text \<open>The index of a lineage is not touched by a journal write that neither adds to nor takes from it.\<close>

lemma dir_ok_put_session:
  assumes d: "dir_ok d" and j: "session_ok j"
    and other: "\<And>l. \<not> marked l d \<Longrightarrow> blocking l (put_session j d) = blocking l d"
    and one: "\<And>l. size (blocking l (put_session j d)) \<le> 1"
  shows "dir_ok (put_session j d)"
proof -
  have i: "index_ok (put_session j d) x" if "map_of (d_files d) n = Some (LineageFile x)" for n x
  proof (cases "lx_Dirty x")
    case False
    then have "\<not> marked (lx_Lineage x) d" using that by (auto simp: marked_def)
    then show ?thesis using dir_okD(3) [OF d that] other [of "lx_Lineage x"] by (simp add: index_ok_def)
  qed (simp add: index_ok_def)
  show ?thesis
    unfolding dir_ok_def using dir_okD [OF d] j i one
    by (auto simp: put_session_def distinct_put_file split: if_splits)
qed

lemma marked_put_session [simp]: "marked l d \<Longrightarrow> marked l (put_session j d)"
  by (auto simp: marked_def put_session_def split: if_splits)

lemma sessions_put_new:
  "map_of (d_files d) (goalSessionPath (intent_Key (sj_Intent j))) = None \<Longrightarrow> sessions (put_session j d) = add_mset j (sessions d)"
  by (simp add: sessions_def put_session_def journals_put_new)

lemma sessions_put_old:
  "map_of (d_files d) (goalSessionPath (intent_Key (sj_Intent j))) = Some (SessionFile j0) \<Longrightarrow>
    add_mset j0 (sessions (put_session j d)) = add_mset j (sessions d)"
  by (simp add: sessions_def put_session_def journals_put_old)

lemma filter_replaced:
  assumes "add_mset a M = add_mset b N"
  shows "\<not> P a \<Longrightarrow> \<not> P b \<Longrightarrow> filter_mset P M = filter_mset P N"
    and "(P b \<Longrightarrow> P a) \<Longrightarrow> size (filter_mset P M) \<le> size (filter_mset P N)"
    and "size (filter_mset P M) \<le> Suc (size (filter_mset P N))"
proof -
  have e: "filter_mset P (add_mset a M) = filter_mset P (add_mset b N)" by (simp only: assms)
  then show "\<not> P a \<Longrightarrow> \<not> P b \<Longrightarrow> filter_mset P M = filter_mset P N" by simp
  have n: "(if P a then 1 else 0) + size (filter_mset P M) = (if P b then 1 else 0) + size (filter_mset P N)"
    using arg_cong [OF e, of size] by (cases "P a"; cases "P b") simp_all
  then show "(P b \<Longrightarrow> P a) \<Longrightarrow> size (filter_mset P M) \<le> size (filter_mset P N)"
    by (cases "P a"; cases "P b") simp_all
  show "size (filter_mset P M) \<le> Suc (size (filter_mset P N))"
    using n by (cases "P a"; cases "P b") simp_all
qed

text \<open>A new session in a lineage nothing blocks.\<close>

lemma put_new_ok:
  assumes d: "dir_ok d" and j: "session_ok j" and n: "map_of (d_files d) (goalSessionPath (intent_Key (sj_Intent j))) = None"
    and m: "marked (intent_LineageKey (sj_Intent j)) d" and free: "blocking (intent_LineageKey (sj_Intent j)) d = {#}"
  shows "dir_ok (put_session j d)"
proof (rule dir_ok_put_session [OF d j])
  have s: "blocking l (put_session j d) = (if blocks l j then add_mset j (blocking l d) else blocking l d)" for l
    by (simp add: sessions_put_new [OF n])
  show "blocking l (put_session j d) = blocking l d" if "\<not> marked l d" for l
    using that m by (auto simp: s blocks_def)
  show "size (blocking l (put_session j d)) \<le> 1" for l
    using dir_okD(4) [OF d, of l] free by (auto simp: s blocks_def)
qed

text \<open>A session written over itself, moving at most into a lineage nothing blocks.\<close>

lemma put_old_ok:
  assumes d: "dir_ok d" and j: "session_ok j" and o: "map_of (d_files d) (goalSessionPath (intent_Key (sj_Intent j))) = Some (SessionFile j0)"
    and m: "marked (intent_LineageKey (sj_Intent j)) d" "marked (intent_LineageKey (sj_Intent j0)) d"
    and c: "free_session j0 \<Longrightarrow> free_session j"
    and free: "intent_LineageKey (sj_Intent j) = intent_LineageKey (sj_Intent j0) \<or> blocking (intent_LineageKey (sj_Intent j)) d = {#}"
  shows "dir_ok (put_session j d)"
proof (rule dir_ok_put_session [OF d j])
  note r = filter_replaced [OF sessions_put_old [OF o]]
  show "blocking l (put_session j d) = blocking l d" if "\<not> marked l d" for l
    using that m by (intro r(1)) (auto simp: blocks_def)
  show "size (blocking l (put_session j d)) \<le> 1" for l
  proof (cases "blocks l j \<and> \<not> blocks l j0")
    case True
    then have "blocking l d = {#}" using free c by (auto simp: blocks_def)
    then show ?thesis using r(3) [of "blocks l"] by (simp only: size_empty One_nat_def)
  next
    case False
    then have "size (blocking l (put_session j d)) \<le> size (blocking l d)" by (intro r(2)) blast
    then show ?thesis using dir_okD(4) [OF d, of l] by (rule order_trans)
  qed
qed

text \<open>Removing a session whose lineage is marked.\<close>

lemma del_session_ok:
  assumes d: "dir_ok d" and o: "map_of (d_files d) n = Some (SessionFile j)" and m: "marked (intent_LineageKey (sj_Intent j)) d"
  shows "dir_ok (d\<lparr> d_files := del_file n (d_files d) \<rparr>)"
proof -
  let ?d = "d\<lparr> d_files := del_file n (d_files d) \<rparr>"
  have s: "add_mset j (sessions ?d) = sessions d"
    using journals_del [OF dir_okD(1) [OF d] o] by (simp add: sessions_def)
  then have same: "blocking l ?d = blocking l d" if "\<not> blocks l j" for l
    using that by (metis filter_mset_add_mset)
  have fewer: "size (blocking l ?d) \<le> size (blocking l d)" for l
    by (rule size_mset_mono, rule multiset_filter_mono) (metis s mset_subset_eq_insertD subset_mset.order_refl subset_mset.less_imp_le)
  have "index_ok ?d x" if x: "map_of (d_files d) m = Some (LineageFile x)" for m x
  proof (cases "lx_Dirty x")
    case False
    then have "lx_Lineage x \<noteq> intent_LineageKey (sj_Intent j)" using x m by (auto simp: marked_def)
    then have "\<not> blocks (lx_Lineage x) j" by (auto simp: blocks_def)
    then show ?thesis using dir_okD(3) [OF d x] same by (simp add: index_ok_def)
  qed (simp add: index_ok_def)
  moreover have "size (blocking l ?d) \<le> 1" for l
    using fewer [of l] dir_okD(4) [OF d, of l] by (rule order_trans)
  ultimately show ?thesis
    unfolding dir_ok_def using dir_okD(1,2,3) [OF d] by (auto simp: distinct_del_file split: if_splits)
qed

subsection \<open>The helpers under faults\<close>

text \<open>Facts about a directory that marking an index dirty, or any index write, leaves alone.\<close>

definition quiet :: "(SessionDir \<Rightarrow> bool) \<Rightarrow> bool" where
  "quiet K = ((\<forall>d fs. K d \<longrightarrow> K (d\<lparr> d_faults := fs \<rparr>)) \<and> (\<forall>d x. dir_ok d \<longrightarrow> K d \<longrightarrow> lx_Dirty x \<longrightarrow> K (put_index x d)))"

definition stable :: "(SessionDir \<Rightarrow> bool) \<Rightarrow> bool" where
  "stable K = ((\<forall>d fs. K d \<longrightarrow> K (d\<lparr> d_faults := fs \<rparr>)) \<and> (\<forall>d x. dir_ok d \<longrightarrow> K d \<longrightarrow> K (put_index x d)))"

named_theorems quiet_intros "facts kept by index writes"

lemma stable_quiet [quiet_intros]: "stable K \<Longrightarrow> quiet K"
  by (simp add: stable_def quiet_def)

lemma quiet_marked [quiet_intros]: "quiet (marked l)"
  by (simp add: quiet_def marked_put_index)

lemma stable_free [quiet_intros]: "stable (\<lambda>d. blocking l d = {#})"
  by (simp add: stable_def)

lemma stable_file [quiet_intros]: "stable (\<lambda>d. map_of (d_files d) (goalSessionPath k) = v)"
  by (simp add: stable_def put_index_def)

lemma stable_True [quiet_intros]: "stable (\<lambda>d. True)"
  by (simp add: stable_def)

lemma stable_conj [quiet_intros]: "stable K \<Longrightarrow> stable L \<Longrightarrow> stable (\<lambda>d. K d \<and> L d)"
  by (simp add: stable_def)

lemma quiet_conj [quiet_intros]: "quiet K \<Longrightarrow> quiet L \<Longrightarrow> quiet (\<lambda>d. K d \<and> L d)"
  by (simp add: quiet_def)

lemma runs_save_index:
  assumes "\<And>d. P d \<Longrightarrow> R d \<and> R (put_index x d)" "\<And>d fs. P d \<Longrightarrow> P (d\<lparr> d_faults := fs \<rparr>)" "\<And>d. P d \<Longrightarrow> Q () (put_index x d)"
  shows "runs (saveGoalSessionLineageIndexLocked x) P Q R"
proof -
  have put: "d\<lparr> d_files := put_file (goalSessionLineagePath (lx_Lineage x)) (LineageFile x) (d_files d) \<rparr> = put_index x d" for d
    by (simp add: put_index_def)
  have faulty: "d\<lparr> d_faults := fs, d_files := put_file (goalSessionLineagePath (lx_Lineage x)) (LineageFile x) (d_files d) \<rparr>
      = put_index x (d\<lparr> d_faults := fs \<rparr>)" for d fs
    by (simp add: put_index_def)
  show ?thesis
    unfolding saveGoalSessionLineageIndexLocked_def writeAtomic_def
    by (intro runs_check runs_commit; (simp only: put faulty)?) (use assms in \<open>blast+\<close>)
qed

lemma runs_begin:
  assumes "quiet K"
  shows "runs (beginGoalSessionLineageMutationLocked l) (\<lambda>d. dir_ok d \<and> K d) (\<lambda>_ d. dir_ok d \<and> marked l d \<and> K d) (\<lambda>d. dir_ok d \<and> K d)"
  unfolding beginGoalSessionLineageMutationLocked_def
  by (intro runs_check runs_save_index)
     (use assms in \<open>auto simp: quiet_def index_ok_def intro: dir_ok_put_index marked_put_index\<close>)

lemma list_faults [simp]: "listGoalSessionsLocked (d\<lparr> d_faults := fs \<rparr>) = listGoalSessionsLocked d"
  by (simp add: listGoalSessionsLocked_def loadGoalSessionPathLocked_def)

lemma list_entries:
  assumes "dir_ok d" "listGoalSessionsLocked d = Inr js"
  shows "index_ok d \<lparr> lx_SchemaVersion = v, lx_Lineage = l, lx_Dirty = b, lx_Entries = lineage_entries l js \<rparr>"
proof -
  have "mset js = sessions d" using list_sessions [OF assms(1)] assms(2) by (metis Inr_inject)
  then show ?thesis by (simp add: index_ok_def lineage_entries_mset)
qed

definition clean_index :: "GoalSessionLineageKey \<Rightarrow> SessionDir \<Rightarrow> bool" where
  "clean_index l d = (\<exists>x. map_of (d_files d) (goalSessionLineagePath l) = Some (LineageFile x) \<and> \<not> lx_Dirty x)"

lemma runs_refresh:
  assumes "stable K"
  shows "runs (refreshGoalSessionLineageIndexLocked l) (\<lambda>d. dir_ok d \<and> K d) (\<lambda>_ d. dir_ok d \<and> K d \<and> clean_index l d) (\<lambda>d. dir_ok d \<and> K d)"
  unfolding refreshGoalSessionLineageIndexLocked_def
proof (intro runs_check runs_bind runs_read)
  show "(\<lambda>js d. dir_ok d \<and> K d \<and> listGoalSessionsLocked d = Inr js) js d" if "dir_ok d \<and> K d" "listGoalSessionsLocked d = Inr js" for d js
    using that by blast
  fix js
  let ?x = "\<lparr> lx_SchemaVersion = 1, lx_Lineage = l, lx_Dirty = False, lx_Entries = lineage_entries l js \<rparr>"
  have c: "clean_index l (put_index ?x d)" for d by (simp add: clean_index_def put_index_def)
  show "runs (saveGoalSessionLineageIndexLocked ?x) (\<lambda>d. dir_ok d \<and> K d \<and> listGoalSessionsLocked d = Inr js)
      (\<lambda>_ d. dir_ok d \<and> K d \<and> clean_index l d) (\<lambda>d. dir_ok d \<and> K d)"
    by (intro runs_save_index) (use assms in \<open>auto simp: stable_def c intro: dir_ok_put_index list_entries\<close>)
qed auto

lemma ignore_refresh:
  assumes "stable K"
  shows "runs (io_ignore (refreshGoalSessionLineageIndexLocked l)) (\<lambda>d. dir_ok d \<and> K d) (\<lambda>_ d. dir_ok d \<and> K d) R"
  by (rule runs_ignore, rule runs_conseq [OF runs_refresh [OF assms]]) auto

end
