(* ===== verification/Goal_Session_Safety.thy ===== *)
theory Goal_Session_Safety
  imports Goal_Session_Dir
begin

text \<open>
  The operations of the Goal session store on whole directories, under any sequence of write faults.  A lineage index that
  is not dirty agrees with the journals, so the launch barrier answers from it what the journals say; at most one session
  blocks a lineage; and a session that is there stays with its identity and the history of its stop certificates.
\<close>

subsection \<open>The launch barrier\<close>

definition free_status :: "GoalSessionLineageKey \<Rightarrow> GoalSessionLineageStatus" where
  "free_status l = \<lparr> ls_Lineage = l, ls_State = GoalSessionLineageStateFree, ls_Blocking = False, ls_SessionKeys = [] \<rparr>"

definition blocked_status :: "GoalSessionLineageKey \<Rightarrow> GoalSessionJournal \<Rightarrow> GoalSessionLineageStatus" where
  "blocked_status l j = \<lparr> ls_Lineage = l, ls_State = goalSessionLineageStateForJournal j, ls_Blocking = True,
     ls_SessionKeys = [intent_Key (sj_Intent j)] \<rparr>"

text \<open>What the barrier promises: free when no session of the lineage blocks, else the one that does.\<close>

definition barrier :: "GoalSessionLineageKey \<Rightarrow> SessionDir \<Rightarrow> GoalSessionLineageStatus \<Rightarrow> bool" where
  "barrier l d s = ((blocking l d = {#} \<and> s = free_status l) \<or> (\<exists>j. blocking l d = {#j#} \<and> s = blocked_status l j))"

lemma state_rank: "\<not> free_session j \<Longrightarrow> 0 < lineageStateRank (goalSessionLineageStateForJournal j)"
  by (simp add: goalSessionLineageStateForJournal_def lineageStateRank_def)

lemma status_barrier:
  assumes d: "dir_ok d" and x: "index_ok d x" "\<not> lx_Dirty x"
  shows "barrier (lx_Lineage x) d (goalSessionLineageStatus x)"
proof -
  have m: "mset (lx_Entries x) = image_mset lineage_entry (blocking (lx_Lineage x) d)" using x by (simp add: index_ok_def)
  have "size (blocking (lx_Lineage x) d) \<le> 1" using d by (rule dir_okD(4))
  then consider "blocking (lx_Lineage x) d = {#}" | j where "blocking (lx_Lineage x) d = {#j#}"
    by (cases "blocking (lx_Lineage x) d") auto
  then show ?thesis
  proof cases
    case 1
    have "lx_Entries x = []" using m unfolding 1 by simp
    then show ?thesis unfolding barrier_def 1 by (simp add: goalSessionLineageStatus_def free_status_def)
  next
    case (2 j)
    have "lx_Entries x = [lineage_entry j]" using m unfolding 2 by simp
    moreover have "j \<in># blocking (lx_Lineage x) d" unfolding 2 by simp
    then have "0 < lineageStateRank (goalSessionLineageStateForJournal j)" by (simp add: blocks_def state_rank)
    moreover have "lineageStateRank GoalSessionLineageStateFree = 0" by (simp add: lineageStateRank_def)
    ultimately show ?thesis unfolding barrier_def 2
      by (simp add: goalSessionLineageStatus_def blocked_status_def lineage_entry_def)
  qed
qed

lemma load_index:
  assumes "loadGoalSessionLineageIndexLocked l d = Inr x" "dir_ok d"
  shows "lx_Lineage x = l \<and> index_ok d x \<and> map_of (d_files d) (goalSessionLineagePath l) = Some (LineageFile x)"
  using assms(1) dir_okD(3) [OF assms(2)]
  by (auto simp: loadGoalSessionLineageIndexLocked_def on_err_def split: option.splits session_file.splits if_splits)

lemma runs_locally:
  assumes "\<And>d. P d \<Longrightarrow> m d = f d d" "\<And>d. P d \<Longrightarrow> runs (f d) (\<lambda>d'. d' = d) Q R"
  shows "runs m P Q R"
  using assms by (simp add: runs_def)

lemma runs_check_lineage:
  assumes K: "stable K"
  shows "runs (checkGoalSessionLineageLocked l) (\<lambda>d. dir_ok d \<and> K d) (\<lambda>s d. dir_ok d \<and> K d \<and> barrier l d s) (\<lambda>d. dir_ok d \<and> K d)"
proof -
  let ?K = "\<lambda>d. dir_ok d \<and> K d"
  let ?Q = "\<lambda>x d. ?K d \<and> lx_Lineage x = l \<and> index_ok d x \<and> \<not> lx_Dirty x"
  let ?load = "\<lambda>d. if (case loadGoalSessionLineageIndexLocked l d of Inl (NotFound _) \<Rightarrow> True | Inr x \<Rightarrow> lx_Dirty x | _ \<Rightarrow> False)
      then io_bind (refreshGoalSessionLineageIndexLocked l) (\<lambda>_. io_read (loadGoalSessionLineageIndexLocked l))
      else io_lift (loadGoalSessionLineageIndexLocked l d)"
  have rebuilt: "runs (io_bind (refreshGoalSessionLineageIndexLocked l) (\<lambda>_. io_read (loadGoalSessionLineageIndexLocked l))) ?K ?Q ?K"
    by (rule runs_bind [OF runs_refresh [OF K]], rule runs_read, blast) (use load_index in \<open>fastforce simp: clean_index_def\<close>)
  have load: "runs (?load d) (\<lambda>d'. d' = d) ?Q ?K" if "?K d" for d
    using that by (intro runs_if runs_lift runs_conseq [OF rebuilt]) (simp_all add: load_index)
  have at: "runs (io_bind (?load d) (\<lambda>x. io_return (goalSessionLineageStatus x))) (\<lambda>d'. d' = d) (\<lambda>s d. dir_ok d \<and> K d \<and> barrier l d s) ?K" if "?K d" for d
    by (rule runs_bind [OF load [OF that]], rule runs_return) (use status_barrier in blast)
  show ?thesis
    by (rule runs_locally [OF _ at]) (simp_all only: checkGoalSessionLineageLocked_def Let_def)
qed

lemma runs_require_free:
  assumes K: "stable K"
  shows "runs (require_free l) (\<lambda>d. dir_ok d \<and> K d) (\<lambda>_ d. dir_ok d \<and> K d \<and> blocking l d = {#}) (\<lambda>d. dir_ok d \<and> K d)"
  unfolding require_free_def
  by (intro runs_bind [OF runs_check_lineage [OF K]] runs_if runs_fail runs_return)
     (auto simp: barrier_def blocked_status_def)

subsection \<open>Operations\<close>

text \<open>What one operation does to the file of a session.  \<open>same d0\<close> holds while only indexes were written.\<close>

fun moved :: "session_file option \<Rightarrow> session_file option \<Rightarrow> bool" where
  "moved (Some (SessionFile j)) (Some (SessionFile j')) = session_kept j j'"
| "moved (Some (SessionFile j)) None = (\<not> NeedsReconciliation j \<and> (sj_SessionState j = GoalSessionStateClosed \<or> sj_LaunchState j = GoalSessionLaunchStateClosed))"
| "moved None (Some (SessionFile j)) = (sj_LaunchState j = GoalSessionLaunchStateIntent \<and> consumed_list j = [])"
| "moved None None = True"
| "moved _ _ = False"

abbreviation session_at :: "SessionDir \<Rightarrow> GoalSessionKey \<Rightarrow> session_file option" where
  "session_at d k \<equiv> map_of (d_files d) (goalSessionPath k)"

definition same :: "SessionDir \<Rightarrow> SessionDir \<Rightarrow> bool" where
  "same d0 d = (sessions d = sessions d0 \<and> d_open d = d_open d0 \<and> (\<forall>k. session_at d k = session_at d0 k))"

definition evolved :: "SessionDir \<Rightarrow> SessionDir \<Rightarrow> bool" where
  "evolved d0 d = (d_open d = d_open d0 \<and> (\<forall>k. moved (session_at d0 k) (session_at d k)))"

lemma stable_same [quiet_intros]: "stable (same d0)"
  unfolding stable_def same_def by (simp add: put_index_def [THEN arg_cong [where f = d_files]] put_index_def [THEN arg_cong [where f = d_open]])

lemma stable_evolved [quiet_intros]: "stable (evolved d0)"
  by (simp add: stable_def evolved_def put_index_def)

lemma same_at: "same d0 d \<Longrightarrow> session_at d k = session_at d0 k"
  by (simp add: same_def)

lemma same_refl [simp]: "same d d"
  by (simp add: same_def)

lemma evolved_faults [simp]: "evolved d0 (d\<lparr> d_faults := fs \<rparr>) = evolved d0 d"
  by (simp add: evolved_def)

lemma moved_refl: "dir_ok d \<Longrightarrow> moved (session_at d k) (session_at d k)"
  using session_path_no_index [of d k] by (auto split: option.splits) (cases "session_at d k"; simp; metis moved.simps(1) session_file.exhaust session_kept_refl)

lemma same_evolved: "dir_ok d0 \<Longrightarrow> same d0 d \<Longrightarrow> evolved d0 d"
  by (simp add: same_def evolved_def moved_refl)

lemma put_evolved:
  assumes "dir_ok d0" "same d0 d" "moved (session_at d0 (intent_Key (sj_Intent j))) (Some (SessionFile j))"
  shows "evolved d0 (put_session j d)"
  using assms moved_refl [OF assms(1)] by (auto simp: evolved_def put_session_def same_def)

lemma runs_save_session:
  assumes "\<And>d. P d \<Longrightarrow> R d \<and> R (put_session j d)" "\<And>d fs. P d \<Longrightarrow> P (d\<lparr> d_faults := fs \<rparr>)" "\<And>d. P d \<Longrightarrow> Q () (put_session j d)"
  shows "runs (saveGoalSessionJournalLocked j) P Q R"
proof -
  have put: "d\<lparr> d_files := put_file (goalSessionPath (intent_Key (sj_Intent j))) (SessionFile j) (d_files d) \<rparr> = put_session j d" for d
    by (simp add: put_session_def)
  have faulty: "d\<lparr> d_faults := fs, d_files := put_file (goalSessionPath (intent_Key (sj_Intent j))) (SessionFile j) (d_files d) \<rparr>
      = put_session j (d\<lparr> d_faults := fs \<rparr>)" for d fs
    by (simp add: put_session_def)
  show ?thesis
    unfolding saveGoalSessionJournalLocked_def writeAtomic_def
    by (intro runs_check runs_commit; (simp only: put faulty)?) (use assms in \<open>blast+\<close>)
qed

abbreviation kept_dir :: "SessionDir \<Rightarrow> SessionDir \<Rightarrow> bool" where
  "kept_dir d0 d \<equiv> dir_ok d \<and> same d0 d"

abbreviation next_dir :: "SessionDir \<Rightarrow> SessionDir \<Rightarrow> bool" where
  "next_dir d0 d \<equiv> dir_ok d \<and> evolved d0 d"

text \<open>The journal an operation returns is the one its file holds.\<close>

abbreviation written_dir :: "SessionDir \<Rightarrow> GoalSessionKey \<Rightarrow> GoalSessionJournal \<Rightarrow> SessionDir \<Rightarrow> bool" where
  "written_dir d0 k j d \<equiv> dir_ok d \<and> evolved d0 d \<and> session_at d k = Some (SessionFile j)"

lemma session_at_put: "session_at (put_session j d) (intent_Key (sj_Intent j)) = Some (SessionFile j)"
  by (simp add: put_session_def)

lemma same_faults [simp]: "same d0 (d\<lparr> d_faults := fs \<rparr>) = same d0 d"
  by (simp add: same_def)

lemma runs_publish:
  assumes d0: "dir_ok d0"
    and ok: "\<And>d. kept_dir d0 d \<Longrightarrow> marked (intent_LineageKey (sj_Intent j)) d \<Longrightarrow> dir_ok (put_session j d)"
    and mv: "moved (session_at d0 (intent_Key (sj_Intent j))) (Some (SessionFile j))"
  shows "runs (publish_session j) (kept_dir d0) (\<lambda>j' d. j' = j \<and> written_dir d0 (intent_Key (sj_Intent j)) j d) (next_dir d0)"
proof -
  let ?l = "intent_LineageKey (sj_Intent j)"
  note e = same_evolved [OF d0]
  have start: "runs (beginGoalSessionLineageMutationLocked ?l) (kept_dir d0) (\<lambda>_ d. dir_ok d \<and> marked ?l d \<and> same d0 d) (next_dir d0)"
    by (rule runs_conseq [OF runs_begin [OF stable_quiet [OF stable_same [of d0]]]]) (auto intro: e)
  have save: "runs (saveGoalSessionJournalLocked j) (\<lambda>d. dir_ok d \<and> marked ?l d \<and> same d0 d) (\<lambda>_. written_dir d0 (intent_Key (sj_Intent j)) j) (next_dir d0)"
    by (rule runs_save_session) (auto intro: e ok put_evolved [OF d0 _ mv] simp: session_at_put)
  show ?thesis
    unfolding publish_session_def Let_def
    by (rule runs_bind [OF start], rule runs_bind [OF save], rule runs_bind [OF ignore_refresh [OF stable_conj [OF stable_evolved stable_file]]], rule runs_return) simp
qed

lemma runs_given: "(c \<Longrightarrow> runs m P Q R) \<Longrightarrow> runs m (\<lambda>d. P d \<and> c) Q R"
  by (auto simp: runs_def)

lemma runs_open: "runs m P Q R \<Longrightarrow> (\<And>d. P d \<Longrightarrow> R d) \<Longrightarrow> runs (io_open m) P Q R"
  by (rule runs_locally [of P _ "\<lambda>d. io_check (ensureOpenLocked d) m"]) (auto simp: io_open_def intro!: runs_check elim: runs_conseq)

lemma load_at:
  assumes "dir_ok d0" "kept_dir d0 d" "loadGoalSessionPathLocked (goalSessionPath k) d = Inr j"
  shows "session_at d0 k = Some (SessionFile j) \<and> goalSessionPath k = goalSessionPath (intent_Key (sj_Intent j)) \<and> session_ok j"
proof -
  have "session_at d0 k = Some (SessionFile j)"
    using assms(2,3) by (auto simp: same_def loadGoalSessionPathLocked_def split: option.splits session_file.splits if_splits)
  then show ?thesis using dir_okD(2) [OF assms(1)] by blast
qed

lemma runs_load:
  assumes d0: "dir_ok d0"
    and f: "\<And>j. session_at d0 k = Some (SessionFile j) \<Longrightarrow> goalSessionPath k = goalSessionPath (intent_Key (sj_Intent j)) \<Longrightarrow> session_ok j
      \<Longrightarrow> runs (f j) (kept_dir d0) Q (next_dir d0)"
  shows "runs (io_bind (io_read (loadGoalSessionPathLocked (goalSessionPath k))) f) (kept_dir d0) Q (next_dir d0)"
proof (rule runs_bind)
  show "runs (io_read (loadGoalSessionPathLocked (goalSessionPath k))) (kept_dir d0)
    (\<lambda>j d. kept_dir d0 d \<and> session_at d0 k = Some (SessionFile j) \<and> goalSessionPath k = goalSessionPath (intent_Key (sj_Intent j)) \<and> session_ok j) (next_dir d0)"
    by (rule runs_read) (use load_at [OF d0] same_evolved [OF d0] in blast)+
  show "runs (f j) (\<lambda>d. kept_dir d0 d \<and> session_at d0 k = Some (SessionFile j) \<and> goalSessionPath k = goalSessionPath (intent_Key (sj_Intent j)) \<and> session_ok j) Q (next_dir d0)" for j
    by (rule runs_given) (use f in blast)
qed

lemma runs_let: "(\<And>x. r = Inr x \<Longrightarrow> runs (f x) P Q R) \<Longrightarrow> (\<And>d. P d \<Longrightarrow> R d) \<Longrightarrow> runs (io_bind (io_lift r) f) P Q R"
  by (cases r) (auto simp: io_bind_def io_lift_def runs_def)

lemma mutate_next:
  assumes d0: "dir_ok d0" and f: "session_mutation f"
  shows "runs (mutateGoalSession k f) (kept_dir d0) (written_dir d0 k) (next_dir d0)"
proof -
  have go: "runs (publish_session j') (kept_dir d0) (written_dir d0 k) (next_dir d0)"
    if j: "session_at d0 k = Some (SessionFile j)" "goalSessionPath k = goalSessionPath (intent_Key (sj_Intent j))" "session_ok j"
      and j': "f j = Inr j'" "validateGoalSessionJournal j' = None" for j j'
  proof -
    have step: "session_step_ok j j'" and c: "closes j j'"
      using session_mutation_ok [OF f] session_mutation_closes [OF f] j(3) j'(1) by (auto simp: session_ok_def dest: ensuresD)
    then have i: "intent_Key (sj_Intent j') = intent_Key (sj_Intent j)" "intent_LineageKey (sj_Intent j') = intent_LineageKey (sj_Intent j)"
      by (auto simp: session_step_ok_def binding_only_def intent_Key_def intent_LineageKey_def)
    have ok: "session_ok j'" using c j'(2) by (simp add: session_ok_def closes_def)
    have "dir_ok (put_session j' d)" if "kept_dir d0 d" "marked (intent_LineageKey (sj_Intent j')) d" for d
      using that j c i by (intro put_old_ok [of d j' j] ok) (auto simp: same_def closes_def)
    moreover have "moved (session_at d0 (intent_Key (sj_Intent j'))) (Some (SessionFile j'))"
      using j step i by (simp add: session_step_ok_def)
    ultimately show ?thesis using j(2) i by (intro runs_conseq [OF runs_publish [OF d0]]) auto
  qed
  show ?thesis
    unfolding mutateGoalSession_def
    by (intro runs_check runs_open runs_load [OF d0] runs_let go) (use same_evolved [OF d0] in \<open>assumption | blast\<close>)+
qed

lemma runs_reading: "(\<And>x. runs (f x) P Q R) \<Longrightarrow> (\<And>d. P d \<Longrightarrow> R d) \<Longrightarrow> runs (io_bind (io_read r) f) P Q R"
  by (rule runs_bind [OF runs_read [of P r R "\<lambda>x. P"]])

lemma runs_free_lineage:
  assumes "dir_ok d0"
  shows "runs (require_free l) (kept_dir d0) (\<lambda>_ d. kept_dir d0 d \<and> blocking l d0 = {#}) (next_dir d0)"
  by (rule runs_conseq [OF runs_require_free [OF stable_same [of d0], of l]])
     (use same_evolved [OF assms] in \<open>auto simp only: same_def\<close>)

text \<open>A launch intent is accepted when its journal is there already, or when no session blocks its lineage.\<close>

abbreviation accepted_dir :: "SessionDir \<Rightarrow> GoalSessionJournal \<Rightarrow> SessionDir \<Rightarrow> bool" where
  "accepted_dir d0 j d \<equiv> dir_ok d \<and> evolved d0 d
     \<and> (session_at d0 (intent_Key (sj_Intent j)) = Some (SessionFile j) \<or> blocking (intent_LineageKey (sj_Intent j)) d0 = {#})"

lemma save_next:
  assumes d0: "dir_ok d0"
  shows "runs (SaveGoalSessionLaunchIntent now ids intent) (kept_dir d0) (accepted_dir d0) (next_dir d0)"
proof -
  have new: "runs (io_bind (ensureLocalHandleAvailableLocked i) (\<lambda>_.
      io_check (validateGoalSessionJournal (new_session now i)) (publish_session (new_session now i)))) (kept_dir d0) (accepted_dir d0) (next_dir d0)"
    if none: "session_at d0 (intent_Key i) = None" for i
  proof -
    have avail: "runs (ensureLocalHandleAvailableLocked i) (kept_dir d0) (\<lambda>_ d. kept_dir d0 d \<and> blocking (intent_LineageKey i) d0 = {#}) (next_dir d0)"
      unfolding ensureLocalHandleAvailableLocked_def
      by (intro runs_bind [OF runs_free_lineage [OF d0]] runs_reading runs_check runs_return) (use same_evolved [OF d0] in blast)+
    have "dir_ok (put_session (new_session now i) d)"
      if "validateGoalSessionJournal (new_session now i) = None" "blocking (intent_LineageKey i) d0 = {#}" "kept_dir d0 d" "marked (intent_LineageKey i) d" for d
      using that none by (intro put_new_ok) (auto simp: same_def session_ok_def settled_def new_session_def)
    then show ?thesis
      by (intro runs_bind [OF avail] runs_check runs_given runs_conseq [OF runs_publish [OF d0]])
         (use none same_evolved [OF d0] in \<open>auto simp: new_session_def consumed_list_def\<close>)
  qed
  have at: "runs (case loadGoalSessionPathLocked (goalSessionPath (intent_Key i)) d of
        Inr existing \<Rightarrow> if sj_Intent existing = i then (if NeedsReconciliation existing then io_fail ErrGoalSessionUncertain else io_return existing)
          else io_fail ErrGoalSessionConflict
      | Inl (NotFound _) \<Rightarrow> io_bind (ensureLocalHandleAvailableLocked i) (\<lambda>_.
           io_check (validateGoalSessionJournal (new_session now i)) (publish_session (new_session now i)))
      | Inl e \<Rightarrow> io_fail e) (\<lambda>d'. d' = d) (accepted_dir d0) (next_dir d0)" if d: "kept_dir d0 d" for d i
  proof (cases "loadGoalSessionPathLocked (goalSessionPath (intent_Key i)) d")
    case (Inr existing)
    note e = load_at [OF d0 d Inr]
    show ?thesis unfolding Inr
      by simp (intro conjI impI runs_fail runs_return; use d e same_evolved [OF d0] in simp)
  next
    case (Inl e)
    have "session_at d0 (intent_Key i) = None" if "e = NotFound r" for r
      using load_absent [of d "intent_Key i"] same_at [of d0 d "intent_Key i"] d Inl that by simp
    then show ?thesis unfolding Inl
      by (cases e; simp) (intro runs_fail runs_conseq [OF new]; use d same_evolved [OF d0] in simp)+
  qed
  have go: "runs (\<lambda>d. case loadGoalSessionPathLocked (goalSessionPath (intent_Key i)) d of
        Inr existing \<Rightarrow> if sj_Intent existing = i then (if NeedsReconciliation existing then io_fail ErrGoalSessionUncertain d else io_return existing d)
          else io_fail ErrGoalSessionConflict d
      | Inl (NotFound _) \<Rightarrow> io_bind (ensureLocalHandleAvailableLocked i) (\<lambda>_.
           io_check (validateGoalSessionJournal (new_session now i)) (publish_session (new_session now i))) d
      | Inl e \<Rightarrow> io_fail e d) (kept_dir d0) (accepted_dir d0) (next_dir d0)" for i
    by (rule runs_locally [OF _ at [where i = i]]) (simp_all split: sum.split gerror.split)
  show ?thesis
    unfolding SaveGoalSessionLaunchIntent_def
    by (intro runs_let runs_open go) (use same_evolved [OF d0] in blast)+
qed

text \<open>A rebind may move a session to another task of its work item; the barrier of that lineage was free.\<close>

lemma rebind_put:
  assumes d0: "dir_ok d0" and at: "session_at d0 k = Some (SessionFile j)" "goalSessionPath k = goalSessionPath (intent_Key (sj_Intent j))"
    and src: "validateGoalSessionResumeSource j r = None" and r: "rebind_session now r j = Inr j'" "validateGoalSessionJournal j' = None"
    and d: "kept_dir d0 d" "marked (intent_LineageKey (sj_Intent j)) d" "marked ((intent_LineageKey (sj_Intent j))\<lparr> lk_TaskID := rb_TaskID r \<rparr>) d"
    and free: "(intent_LineageKey (sj_Intent j))\<lparr> lk_TaskID := rb_TaskID r \<rparr> = intent_LineageKey (sj_Intent j)
      \<or> blocking ((intent_LineageKey (sj_Intent j))\<lparr> lk_TaskID := rb_TaskID r \<rparr>) d0 = {#}"
  shows "next_dir d0 (put_session j' d)"
proof -
  note shape = ensuresD [OF rebind_shape r(1)]
  have i: "intent_Key (sj_Intent j') = intent_Key (sj_Intent j)"
      "intent_LineageKey (sj_Intent j') = (intent_LineageKey (sj_Intent j))\<lparr> lk_TaskID := rb_TaskID r \<rparr>"
    using shape by (simp_all add: rebound_intent_def intent_Key_def intent_LineageKey_def)
  have ok: "session_ok j'" using r(2) shape by (simp add: session_ok_def settled_def)
  have open_source: "\<not> free_session j" using src by (auto simp: validateGoalSessionResumeSource_def split: if_splits)
  have "dir_ok (put_session j' d)"
    by (rule put_old_ok [of d j' j]) (use d ok at i free open_source in \<open>simp_all add: same_def\<close>)
  moreover have "evolved d0 (put_session j' d)"
    by (rule put_evolved [OF d0]) (use d at i rebind_kept [OF src r(1)] in simp_all)
  ultimately show ?thesis ..
qed

lemma rebind_key: "rebind_session now r j = Inr j' \<Longrightarrow> intent_Key (sj_Intent j') = intent_Key (sj_Intent j)"
  by (drule ensuresD [OF rebind_shape]) (simp add: rebound_intent_def intent_Key_def)

lemma runs_mark:
  assumes "dir_ok d0" "quiet K"
  shows "runs (beginGoalSessionLineageMutationLocked l) (\<lambda>d. kept_dir d0 d \<and> K d) (\<lambda>_ d. kept_dir d0 d \<and> marked l d \<and> K d) (next_dir d0)"
  by (rule runs_conseq [OF runs_begin [OF quiet_conj [OF stable_quiet [OF stable_same [of d0]] assms(2)]]])
     (use same_evolved [OF assms(1)] in auto)

text \<open>What a rebind left behind is what a replay of it looks for.\<close>

definition replayable :: "GoalSessionResumeRebind \<Rightarrow> GoalSessionJournal \<Rightarrow> bool" where
  "replayable r j = (\<not> resumeTargetConflictsWithConsumedHistory j r \<and> sameGoalSessionResumeTarget j r
     \<and> compareGoalSessionResumeCompatibility j (rb_Compatibility r) = None)"

lemma rebind_replayable:
  assumes r: "validateGoalSessionResumeRebind r = None" "\<not> resumeTargetConflictsWithConsumedHistory j r"
    and src: "validateGoalSessionResumeSource j r = None" and j': "rebind_session now r j = Inr j'"
  shows "replayable r j'"
proof -
  note shape = ensuresD [OF rebind_shape j']
  have "compareGoalSessionResumeCompatibilityFields j (rb_Compatibility r) = None"
    using src by (auto simp: validateGoalSessionResumeSource_def then_err_None_iff split: if_splits)
  then have "compareGoalSessionResumeCompatibility j' (rb_Compatibility r) = None"
    using shape by (simp add: compareGoalSessionResumeCompatibility_def compareGoalSessionResumeCompatibilityFields_def Let_def then_err_None_iff
      rebound_intent_def completeGoalSessionResumeCompatibility_def session_Compatibility_def split: if_splits)
  moreover have "rb_RunID r \<noteq> sc_RunID (rb_ExactStopCertificate r)" "rb_BindingID r \<noteq> sc_BindingID (rb_ExactStopCertificate r)"
    using r(1) by (auto simp: validateGoalSessionResumeRebind_def split: if_splits)
  then have "\<not> resumeTargetConflictsWithConsumedHistory j' r"
    using r(2) shape by (simp add: resumeTargetConflictsWithConsumedHistory_def)
  moreover have "sj_NativeSessionID j \<noteq> []" using src by (auto simp: validateGoalSessionResumeSource_def split: if_splits)
  then have "sameGoalSessionResumeTarget j' r"
    using j' by (auto simp: rebind_session_def bind_r_def sameGoalSessionResumeTarget_def NeedsReconciliation_def appendConsumedStopCertificate_def
      rebound_intent_def split: if_splits)
  ultimately show ?thesis by (simp add: replayable_def)
qed

lemma rebind_next:
  assumes d0: "dir_ok d0"
  shows "runs (RebindGoalSessionForResume now k r) (kept_dir d0) (\<lambda>j d. written_dir d0 k j d \<and> replayable r j) (next_dir d0)"
proof -
  note e = same_evolved [OF d0]
  have go: "runs (let previous = intent_LineageKey (sj_Intent j); target = previous\<lparr> lk_TaskID := rb_TaskID r \<rparr> in
       io_bind (if target \<noteq> previous then require_free target else io_return ()) (\<lambda>_.
       io_bind (beginGoalSessionLineageMutationLocked previous) (\<lambda>_.
       io_bind (if target \<noteq> previous then beginGoalSessionLineageMutationLocked target else io_return ()) (\<lambda>_.
       io_bind (io_lift (rebind_session now r j)) (\<lambda>j'.
       io_check (validateGoalSessionJournal j') (
       io_bind (saveGoalSessionJournalLocked j') (\<lambda>_.
       io_bind (io_ignore (refreshGoalSessionLineageIndexLocked previous)) (\<lambda>_.
       io_bind (if target \<noteq> previous then io_ignore (refreshGoalSessionLineageIndexLocked target) else io_return ()) (\<lambda>_.
       io_return j'))))))))) (kept_dir d0) (\<lambda>j d. written_dir d0 k j d \<and> replayable r j) (next_dir d0)"
    if at: "session_at d0 k = Some (SessionFile j)" "goalSessionPath k = goalSessionPath (intent_Key (sj_Intent j))"
      and src: "validateGoalSessionResumeSource j r = None" "validateGoalSessionResumeRebind r = None" "\<not> resumeTargetConflictsWithConsumedHistory j r" for j
  proof -
    define p where "p = intent_LineageKey (sj_Intent j)"
    define t where "t = p\<lparr> lk_TaskID := rb_TaskID r \<rparr>"
    have free: "runs (if t \<noteq> p then require_free t else io_return ()) (kept_dir d0) (\<lambda>_ d. kept_dir d0 d \<and> (t = p \<or> blocking t d0 = {#})) (next_dir d0)"
      by (intro runs_if runs_conseq [OF runs_free_lineage [OF d0]] runs_return) auto
    have mark: "runs (if t \<noteq> p then beginGoalSessionLineageMutationLocked t else io_return ())
        (\<lambda>d. kept_dir d0 d \<and> marked p d) (\<lambda>_ d. kept_dir d0 d \<and> marked t d \<and> marked p d) (next_dir d0)"
      by (intro runs_if runs_mark [OF d0 quiet_marked] runs_return) auto
    have start: "runs (beginGoalSessionLineageMutationLocked p) (kept_dir d0) (\<lambda>_ d. kept_dir d0 d \<and> marked p d) (next_dir d0)"
      by (rule runs_conseq [OF runs_mark [OF d0 stable_quiet [OF stable_True]]]) auto
    have save: "runs (saveGoalSessionJournalLocked j') (\<lambda>d. kept_dir d0 d \<and> marked t d \<and> marked p d) (\<lambda>_. written_dir d0 k j') (next_dir d0)"
      if "rebind_session now r j = Inr j'" "validateGoalSessionJournal j' = None" "t = p \<or> blocking t d0 = {#}" for j'
      by (rule runs_save_session)
         (use rebind_put [OF d0 at src(1) that(1,2)] session_at_put [of j'] rebind_key [OF that(1)] at(2) that(3) e in \<open>simp_all add: t_def p_def\<close>)
    have refresh: "runs (if t \<noteq> p then io_ignore (refreshGoalSessionLineageIndexLocked t) else io_return ()) (written_dir d0 k j') (\<lambda>_. written_dir d0 k j') (next_dir d0)" for j'
      by (intro runs_if ignore_refresh [OF stable_conj [OF stable_evolved stable_file]] runs_return)
    show ?thesis
      unfolding Let_def p_def [symmetric] t_def [symmetric]
      by (intro runs_bind [OF free] runs_given runs_bind [OF start] runs_bind [OF mark] runs_let runs_check runs_bind [OF save]
            runs_bind [OF ignore_refresh [OF stable_conj [OF stable_evolved stable_file]]] runs_bind [OF refresh] runs_return) (use e rebind_replayable [OF src(2,3,1)] in auto)
  qed
  show ?thesis
    unfolding RebindGoalSessionForResume_def
    by (intro runs_check runs_open runs_load [OF d0] runs_if runs_fail runs_return go) (use e in \<open>assumption | (simp add: same_def replayable_def; fail) | (simp add: same_def replayable_def; blast) | blast\<close>)+
qed

text \<open>A rebind with a certificate the session has consumed writes no journal.\<close>

lemma spent_rebind_fails: "rb_ExactStopCertificate r \<in> set (consumed_list j) \<Longrightarrow> \<exists>e. rebind_session now r j = Inl e"
  by (simp add: rebind_session_def appendConsumedStopCertificate_def bind_r_def consumed_list_def split: option.splits)

lemma runs_begin_kept: "runs (beginGoalSessionLineageMutationLocked l) (kept_dir d0) (\<lambda>_. kept_dir d0) (kept_dir d0)"
  by (rule runs_conseq [OF runs_begin [OF stable_quiet [OF stable_same [of d0]]]]) auto

lemma runs_free_kept: "runs (require_free l) (kept_dir d0) (\<lambda>_. kept_dir d0) (kept_dir d0)"
  by (rule runs_conseq [OF runs_require_free [OF stable_same [of d0]]]) auto

lemma spent_rebind:
  assumes d0: "dir_ok d0" and at: "session_at d0 k = Some (SessionFile j)" and spent: "rb_ExactStopCertificate r \<in> set (consumed_list j)"
  shows "runs (RebindGoalSessionForResume now k r) (kept_dir d0) (\<lambda>j' d. kept_dir d0 d \<and> j' = j) (kept_dir d0)"
proof -
  have load: "runs (io_bind (io_read (loadGoalSessionPathLocked (goalSessionPath k))) f) (kept_dir d0) Q (kept_dir d0)"
    if "runs (f j) (kept_dir d0) Q (kept_dir d0)" for f and Q :: "GoalSessionJournal \<Rightarrow> SessionDir \<Rightarrow> bool"
  proof (rule runs_bind)
    show "runs (io_read (loadGoalSessionPathLocked (goalSessionPath k))) (kept_dir d0) (\<lambda>j' d. kept_dir d0 d \<and> j' = j) (kept_dir d0)"
      by (rule runs_read) (use load_at [OF d0] at in auto)
    show "runs (f j') (\<lambda>d. kept_dir d0 d \<and> j' = j) Q (kept_dir d0)" for j'
      by (rule runs_given) (use that in simp)
  qed
  obtain e where e: "rebind_session now r j = Inl e" using spent_rebind_fails [OF spent] by blast
  have free: "runs (if c then require_free l else io_return ()) (kept_dir d0) (\<lambda>_. kept_dir d0) (kept_dir d0)" for c l
    by (simp add: runs_free_kept runs_return)
  have mark: "runs (if c then beginGoalSessionLineageMutationLocked l else io_return ()) (kept_dir d0) (\<lambda>_. kept_dir d0) (kept_dir d0)" for c l
    by (simp add: runs_begin_kept runs_return)
  have none: "runs (io_bind (io_lift (rebind_session now r j)) f) (kept_dir d0) Q (kept_dir d0)"
    for f and Q :: "GoalSessionJournal \<Rightarrow> SessionDir \<Rightarrow> bool"
    by (rule runs_let) (simp_all add: e)
  show ?thesis
    unfolding RebindGoalSessionForResume_def Let_def
    by (rule runs_check, assumption, rule runs_check, assumption, rule runs_open [OF load])
       (intro runs_if runs_fail runs_check runs_return runs_bind [OF free] runs_bind [OF runs_begin_kept] runs_bind [OF mark] none; simp)+
qed

lemma delete_next:
  assumes d0: "dir_ok d0"
  shows "runs (DeleteGoalSession k) (kept_dir d0) (\<lambda>_. next_dir d0) (next_dir d0)"
proof -
  note e = same_evolved [OF d0]
  have start: "runs (beginGoalSessionLineageMutationLocked l) (kept_dir d0) (\<lambda>_ d. kept_dir d0 d \<and> marked l d) (next_dir d0)" for l
    by (rule runs_conseq [OF runs_mark [OF d0 stable_quiet [OF stable_True]]]) auto
  have gone: "next_dir d0 (d\<lparr> d_files := del_file (goalSessionPath k) (d_files d) \<rparr>)"
    if "session_at d0 k = Some (SessionFile j)" "goalSessionPath k = goalSessionPath (intent_Key (sj_Intent j))"
      "moved (Some (SessionFile j)) None" "kept_dir d0 d" "marked (intent_LineageKey (sj_Intent j)) d" for j d
  proof
    show "dir_ok (d\<lparr> d_files := del_file (goalSessionPath k) (d_files d) \<rparr>)"
      using that by (intro del_session_ok [of d _ j]) (simp_all add: same_def)
    show "evolved d0 (d\<lparr> d_files := del_file (goalSessionPath k) (d_files d) \<rparr>)"
      using that moved_refl [OF d0] by (auto simp: evolved_def same_def)
  qed
  have faulty: "d\<lparr> d_faults := fs, d_files := del_file (goalSessionPath k) (d_files d) \<rparr>
      = (d\<lparr> d_files := del_file (goalSessionPath k) (d_files d) \<rparr>)\<lparr> d_faults := fs \<rparr>" for d :: SessionDir and fs
    by simp
  have remove: "runs (remove_file e0 (goalSessionPath k)) (\<lambda>d. kept_dir d0 d \<and> marked (intent_LineageKey (sj_Intent j)) d) (\<lambda>_. next_dir d0) (next_dir d0)"
    if "session_at d0 k = Some (SessionFile j)" "goalSessionPath k = goalSessionPath (intent_Key (sj_Intent j))" "moved (Some (SessionFile j)) None" for j e0
    unfolding remove_file_def
    by (rule runs_commit; (simp only: faulty evolved_faults dir_ok_faults)?) (use gone [OF that] e in blast)+
  show ?thesis
    unfolding DeleteGoalSession_def Let_def
    by (intro runs_check runs_open runs_load [OF d0] runs_if runs_fail runs_bind [OF start] runs_bind [OF remove] ignore_refresh [OF stable_evolved])
       (use e in \<open>auto\<close>)
qed

lemma check_next:
  assumes d0: "dir_ok d0"
  shows "runs (CheckGoalSessionLineage l) (kept_dir d0) (\<lambda>s d. next_dir d0 d \<and> barrier l d0 s) (next_dir d0)"
  unfolding CheckGoalSessionLineage_def
  by (intro runs_check runs_open runs_conseq [OF runs_check_lineage [OF stable_same [of d0]]])
     (use same_evolved [OF d0] in \<open>auto simp: barrier_def same_def\<close>)

end
