(* ===== verification/Goal_Session_Props.thy ===== *)
theory Goal_Session_Props
  imports Goal_Session_Safety
begin

text \<open>
  Properties of the Goal session store over every sequence of operations, write faults and restarts, and of the launch and
  resume protocol the journal records.
\<close>

subsection \<open>Reachable directories\<close>

text \<open>An operation runs under any outcomes of its writes.  A crash between two writes is an operation whose remaining writes
  fail.  The store may be closed and opened again at any time.\<close>

inductive session_dir_step :: "SessionDir \<Rightarrow> SessionDir \<Rightarrow> bool" where
  save: "session_dir_step d (snd (SaveGoalSessionLaunchIntent now ids intent (d\<lparr> d_faults := fs \<rparr>)))"
| mutate: "session_mutation f \<Longrightarrow> session_dir_step d (snd (mutateGoalSession k f (d\<lparr> d_faults := fs \<rparr>)))"
| rebind: "session_dir_step d (snd (RebindGoalSessionForResume now k r (d\<lparr> d_faults := fs \<rparr>)))"
| delete: "session_dir_step d (snd (DeleteGoalSession k (d\<lparr> d_faults := fs \<rparr>)))"
| check: "session_dir_step d (snd (CheckGoalSessionLineage l (d\<lparr> d_faults := fs \<rparr>)))"
| reopen: "session_dir_step d (d\<lparr> d_open := b \<rparr>)"

inductive_cases session_dir_stepE: "session_dir_step d d'"

definition reachable_sessions :: "SessionDir \<Rightarrow> bool" where
  "reachable_sessions d = (\<exists>d0. d_files d0 = [] \<and> session_dir_step\<^sup>*\<^sup>* d0 d)"

lemma runs_snd: "runs m P (\<lambda>x. Q) Q \<Longrightarrow> P d \<Longrightarrow> Q (snd (m d))"
  by (cases "m d"; cases "fst (m d)") (auto simp: runs_def dest!: spec [of _ d])

lemma runs_state:
  assumes "runs m (kept_dir d) Q (next_dir d)" "dir_ok d" "\<And>x d'. Q x d' \<Longrightarrow> next_dir d d'"
  shows "next_dir d (snd (m (d\<lparr> d_faults := fs \<rparr>)))"
  by (rule runs_snd [of m "kept_dir d"], rule runs_conseq [OF assms(1)]) (use assms in auto)

lemma dir_ok_reopen: "dir_ok (d\<lparr> d_open := b \<rparr>) = dir_ok d"
  by (simp add: dir_ok_def index_ok_def sessions_def)

text \<open>What a step does to each session, the open flag apart.\<close>

lemma session_dir_step_moves:
  assumes step: "session_dir_step d d'" and d: "dir_ok d"
  shows "dir_ok d' \<and> (\<forall>k. moved (session_at d k) (session_at d' k))"
proof -
  have "next_dir d d' \<or> (\<exists>b. d' = d\<lparr> d_open := b \<rparr>)"
    using step
  proof (cases rule: session_dir_step.cases)
    case (save now ids intent fs)
    show ?thesis unfolding save by (rule disjI1, rule runs_state [OF save_next [OF d] d]) (elim conjE, intro conjI, assumption+)
  next
    case (mutate f k fs)
    show ?thesis unfolding mutate(1) by (rule disjI1, rule runs_state [OF mutate_next [OF d mutate(2)] d]) (elim conjE, intro conjI, assumption+)
  next
    case (rebind now k r fs)
    show ?thesis unfolding rebind by (rule disjI1, rule runs_state [OF rebind_next [OF d] d]) (elim conjE, intro conjI, assumption+)
  next
    case (delete k fs)
    show ?thesis unfolding delete by (rule disjI1, rule runs_state [OF delete_next [OF d] d]) (elim conjE, intro conjI, assumption+)
  next
    case (check l fs)
    show ?thesis unfolding check by (rule disjI1, rule runs_state [OF check_next [OF d] d]) (elim conjE, intro conjI, assumption+)
  next
    case (reopen b)
    show ?thesis unfolding reopen by (intro disjI2 exI) (rule refl)
  qed
  then show ?thesis
  proof (elim disjE exE)
    assume "next_dir d d'"
    then show ?thesis unfolding evolved_def by blast
  next
    fix b
    assume d': "d' = d\<lparr> d_open := b \<rparr>"
    show ?thesis unfolding d' using d moved_refl [OF d] by (simp add: dir_ok_reopen)
  qed
qed

lemma empty_ok: "d_files d = [] \<Longrightarrow> dir_ok d"
  by (simp add: dir_ok_def sessions_def)

lemma reachable_ok:
  assumes "reachable_sessions d"
  shows "dir_ok d"
proof -
  obtain d0 where "d_files d0 = []" and r: "session_dir_step\<^sup>*\<^sup>* d0 d" using assms by (auto simp: reachable_sessions_def)
  from r this(1) show ?thesis
    by (induction rule: rtranclp_induct) (auto simp: empty_ok dest: session_dir_step_moves)
qed

subsection \<open>The journal as a state machine\<close>

definition launch_phase :: "GoalSessionJournal \<Rightarrow> nat" where
  "launch_phase j = (if sj_LaunchState j = GoalSessionLaunchStateIntent then 0 else if sj_LaunchState j = GoalSessionLaunchStateLaunching then 1
     else if sj_LaunchState j = GoalSessionLaunchStateClosed then 3 else 2)"

definition advances :: "GoalSessionJournal \<Rightarrow> GoalSessionJournal \<Rightarrow> bool" where
  "advances j j' = (launch_phase j \<le> launch_phase j' \<and> (sj_LaunchAttempted j \<longrightarrow> sj_LaunchAttempted j'))"

lemma advances_same: "sj_LaunchState j' = sj_LaunchState j \<Longrightarrow> sj_LaunchAttempted j' = sj_LaunchAttempted j \<Longrightarrow> advances j j'"
  by (simp add: advances_def launch_phase_def)

lemma advances_closed: "sj_LaunchState j' = GoalSessionLaunchStateClosed \<Longrightarrow> sj_LaunchAttempted j' = sj_LaunchAttempted j \<Longrightarrow> advances j j'"
  by (simp add: advances_def launch_phase_def)

lemma advances_reached:
  "sj_LaunchState j \<noteq> GoalSessionLaunchStateClosed \<Longrightarrow> sj_LaunchState j' = GoalSessionLaunchStateAttached \<or> sj_LaunchState j' = GoalSessionLaunchStateUncertain
    \<Longrightarrow> sj_LaunchAttempted j' \<Longrightarrow> advances j j'"
  by (auto simp: advances_def launch_phase_def)

lemma launch_checks:
  assumes "session_ok j"
  shows "list_all (\<lambda>g. \<not> fst g) (session_launch_checks j)"
  using assms by (simp only: session_ok_def validateGoalSessionJournal_def then_err_None_iff checks_None_iff list_all_iff) blast

lemma valid_launch:
  assumes "session_ok j"
  shows "sj_LaunchState j = GoalSessionLaunchStateLaunching \<or> sj_LaunchState j = GoalSessionLaunchStateUncertain \<Longrightarrow> NeedsReconciliation j"
    and "sj_LaunchState j = GoalSessionLaunchStateClosed \<Longrightarrow> \<not> NeedsReconciliation j"
    and "validGoalSessionLaunchState (sj_LaunchState j)"
    and "sj_LaunchState j = GoalSessionLaunchStateAttached \<Longrightarrow> sj_LaunchAttempted j \<and> sj_NativeSessionID j \<noteq> []"
proof -
  note c = launch_checks [OF assms, unfolded list_all_length, rule_format]
  have "\<not> (sj_LaunchState j = GoalSessionLaunchStateLaunching \<and> \<not> sj_LaunchAttempted j)"
    "\<not> (sj_LaunchState j = GoalSessionLaunchStateUncertain \<and> \<not> NeedsReconciliation j)"
    using c [of 3] c [of 5] by (simp_all add: session_launch_checks_def)
  then show "sj_LaunchState j = GoalSessionLaunchStateLaunching \<or> sj_LaunchState j = GoalSessionLaunchStateUncertain \<Longrightarrow> NeedsReconciliation j"
    by (auto simp: NeedsReconciliation_def)
  show "sj_LaunchState j = GoalSessionLaunchStateClosed \<Longrightarrow> \<not> NeedsReconciliation j"
    using assms by (simp add: session_ok_def settled_def NeedsReconciliation_def)
  show "validGoalSessionLaunchState (sj_LaunchState j)" using c [of 0] by (simp add: session_launch_checks_def)
  show "sj_LaunchState j = GoalSessionLaunchStateAttached \<Longrightarrow> sj_LaunchAttempted j \<and> sj_NativeSessionID j \<noteq> []"
    using c [of 4] by (simp add: session_launch_checks_def)
qed

lemma launch_started:
  assumes "session_ok j"
  shows "ensures (MarkGoalSessionLaunchStarted now at j)
    (\<lambda>j'. sj_LaunchState j = GoalSessionLaunchStateIntent \<and> sj_LaunchState j' = GoalSessionLaunchStateLaunching \<and> sj_LaunchAttempted j')"
  unfolding MarkGoalSessionLaunchStarted_def Let_def
  using valid_launch [OF assms]
  by (intro closes_intros) (auto simp: validGoalSessionLaunchState_def)

lemma plain_ops_advance:
  "ensures (AbortGoalSessionLaunchBeforeNativeStart now1 j) (advances j)"
  "ensures (PersistGoalSessionHandle now2 h2 expected2 j) (advances j)"
  "ensures (MarkGoalSessionResumeStartAttempted now3 j) (advances j)"
  "ensures (MarkGoalSessionResumeNativeStopped now4 j) (advances j)"
  "ensures (MarkGoalSessionResumeRejected now5 j) (advances j)"
  "ensures (MarkGoalSessionStoppedPending now6 j) (advances j)"
  "ensures (MarkGoalSessionUncertain now7 reason7 j) (advances j)"
  "ensures (ResolveGoalSessionUncertainStopped now8 expected8 j) (advances j)"
  "ensures (CloseGoalSession now9 j) (advances j)"
  "ensures (PersistGoalSessionControlAttachment now10 session10 binding10 receipt10 issued10 j) (advances j)"
  unfolding session_op_defs PersistGoalSessionControlAttachment_def Let_def
  by (intro closes_intros;
      (rule advances_same; simp add: session_frame_defs; fail)?,
      (rule advances_closed; simp add: session_frame_defs; fail)?,
      (rule advances_reached; simp add: session_frame_defs; fail)?)+

lemma resolve_advances:
  assumes "session_ok j"
  shows "ensures (ResolveGoalSessionUncertain now h expected j) (advances j)"
  unfolding ResolveGoalSessionUncertain_def
  by (intro closes_intros) (use valid_launch(2) [OF assms] in \<open>auto intro: advances_reached\<close>)

lemma set_state_advances: "ensures (SetGoalSessionState now state j) (advances j)"
  unfolding SetGoalSessionState_def
  by (intro closes_intros plain_ops_advance advances_same) simp_all

lemma append_advances: "ensures (appendConsumedStopCertificate c j) (\<lambda>j'. sj_LaunchState j' = sj_LaunchState j \<and> sj_LaunchAttempted j' = sj_LaunchAttempted j)"
  by (rule ensures_mono [OF append_consumed]) simp

lemma available_advances: "ensures (MarkGoalSessionAvailable now c j) (advances j)"
  unfolding MarkGoalSessionAvailable_def
  by (intro closes_intros ensures_mono [OF append_advances]) (auto intro: advances_same)

lemma started_advances: "session_ok j \<Longrightarrow> ensures (MarkGoalSessionLaunchStarted now at j) (advances j)"
  by (rule ensures_mono [OF launch_started]) (simp_all add: advances_def launch_phase_def)

lemma mutation_advances: "session_mutation f \<Longrightarrow> session_ok j \<Longrightarrow> ensures (f j) (advances j)"
  by (erule session_mutation.cases)
     (simp_all only: plain_ops_advance resolve_advances set_state_advances available_advances started_advances)

text \<open>Any change of one session: a mutation or a rebind whose source was accepted, and the new journal is valid.\<close>

inductive session_change :: "GoalSessionJournal \<Rightarrow> GoalSessionJournal \<Rightarrow> bool" where
  mutation: "session_mutation f \<Longrightarrow> f j = Inr j' \<Longrightarrow> validateGoalSessionJournal j' = None \<Longrightarrow> session_change j j'"
| rebound: "validateGoalSessionResumeSource j r = None \<Longrightarrow> rebind_session now r j = Inr j' \<Longrightarrow> validateGoalSessionJournal j' = None \<Longrightarrow> session_change j j'"

lemma rebind_advances:
  assumes "validateGoalSessionResumeSource j r = None" "rebind_session now r j = Inr j'"
  shows "advances j j'" "settled j'"
proof -
  have a: "sj_LaunchState j = GoalSessionLaunchStateAttached"
    using assms(1) by (auto simp: validateGoalSessionResumeSource_def split: if_splits)
  have l: "sj_LaunchAttempted j' \<and> sj_LaunchState j' = GoalSessionLaunchStateAttached"
    using assms(2) by (auto simp: rebind_session_def bind_r_def split: sum.splits)
  show "advances j j'" "settled j'" using a l by (simp_all add: advances_def launch_phase_def settled_def)
qed

lemma session_change_advances:
  assumes "session_change j j'" "session_ok j"
  shows "session_ok j' \<and> advances j j'"
  using assms(1)
proof cases
  case (mutation f)
  then show ?thesis
    using ensuresD [OF mutation_advances [OF mutation(1) assms(2)] mutation(2)] assms(2)
      ensuresD [OF session_mutation_closes [OF mutation(1)] mutation(2)]
    by (simp add: session_ok_def closes_def)
next
  case (rebound r now)
  then show ?thesis using rebind_advances [OF rebound(1,2)] by (simp add: session_ok_def)
qed

lemma session_changes_advance: "session_change\<^sup>*\<^sup>* j j' \<Longrightarrow> session_ok j \<Longrightarrow> session_ok j' \<and> advances j j'"
proof (induction rule: rtranclp_induct)
  case base
  then show ?case by (simp add: advances_def)
next
  case (step j' j'')
  then show ?case using session_change_advances [OF step(2)] by (simp add: advances_def)
qed

subsection \<open>A sample session\<close>

definition sample_handle :: string where "sample_handle = ''01234567-89ab-4cde-8fab-0123456789ab''"
definition sample_binding :: string where "sample_binding = ''11234567-89ab-4cde-8fab-0123456789ab''"
definition sample_session_id :: string where "sample_session_id = ''21234567-89ab-4cde-8fab-0123456789ab''"

definition sample_intent :: GoalSessionLaunchIntent where
  "sample_intent = \<lparr> si_LaunchIntentID = ''launch-1'', si_GoalID = ''goal-1'', si_GoalRevision = 1, si_WorkItemID = ''item-1'', si_TaskID = ''task-1'',
     si_RunID = ''run-1'', si_Generation = 1, si_AdmissionID = ''admission-1'', si_HandoffSourceRunID = [], si_LocalHandleID = sample_handle,
     si_BindingID = [], si_OwnerID = ''owner'', si_MachineID = ''machine'', si_RuntimeID = ''runtime'', si_RuntimeEpoch = 3,
     si_DaemonInstanceID = ''daemon'', si_HarnessKind = ''codex'', si_HarnessVersion = ''1'', si_AdapterVersion = ''1'', si_AdapterProtocolVersion = 1,
     si_WorkspaceFingerprint = ''tree'', si_WorkspacePath = ''/w'', si_WorkspaceOwnerRunKey = \<lparr> wo_RunID = ''run-1'', wo_Generation = 1 \<rparr>,
     si_RepositoryResourceID = sample_handle, si_SessionMode = GoalSessionModeFresh \<rparr>"

definition sample_certificate :: GoalSessionStopCertificate where
  "sample_certificate = \<lparr> sc_RunID = ''run-1'', sc_Generation = 1, sc_SessionID = sample_session_id, sc_LocalHandleID = sample_handle,
     sc_BindingID = sample_binding, sc_DeliveryDigest = replicate 64 CHR ''0'', sc_ReceiptID = sample_handle \<rparr>"

definition sample_attachment :: GoalSessionControlAttachment where
  "sample_attachment = \<lparr> ca_RunID = ''run-1'', ca_Generation = 1, ca_TaskID = ''task-1'', ca_AdmissionID = ''admission-1'',
     ca_SessionID = sample_session_id, ca_BindingID = sample_binding, ca_ReceiptID = sample_handle \<rparr>"

text \<open>A session that ran, stopped and is available to a resume.\<close>

definition sample_available :: GoalSessionJournal where
  "sample_available = (new_session 5 (sample_intent\<lparr> si_BindingID := sample_binding \<rparr>))\<lparr> sj_SessionState := GoalSessionStateAvailable,
     sj_LaunchState := GoalSessionLaunchStateAttached, sj_LaunchAttempted := True, sj_LaunchAttemptedAt := 6, sj_NativeSessionID := ''native'',
     sj_ControlSessionID := sample_session_id, sj_ControlAttachmentReceiptID := sample_handle,
     sj_ControlAttachmentLineage := Some \<lparr> cl_Original = sample_attachment, cl_Current = sample_attachment \<rparr>,
     sj_StopCertificate := Some sample_certificate \<rparr>"

definition sample_rebind :: GoalSessionResumeRebind where
  "sample_rebind = \<lparr> rb_RunID = ''run-2'', rb_Generation = 1, rb_TaskID = ''task-1'', rb_AdmissionID = ''admission-2'', rb_BindingID = sample_handle,
     rb_ExactStopCertificate = sample_certificate, rb_Compatibility = (session_Compatibility sample_available)\<lparr> gc_RuntimeEpoch := 4 \<rparr> \<rparr>"

definition session_dir :: "GoalSessionJournal list \<Rightarrow> SessionDir" where
  "session_dir js = \<lparr> d_open = True, d_files = map (\<lambda>j. (goalSessionPath (intent_Key (sj_Intent j)), SessionFile j)) js, d_faults = [] \<rparr>"

lemma sample_ids [simp]:
  "validGoalSessionUUID sample_handle" "validGoalSessionUUID sample_binding" "validGoalSessionUUID sample_session_id"
  "validRequiredString sample_handle 4096" "sample_handle \<noteq> []" "sample_binding \<noteq> []" "sample_session_id \<noteq> []" "sample_handle \<noteq> sample_binding"
  by (simp_all add: validGoalSessionUUID_def sample_handle_def sample_binding_def sample_session_id_def lower_hex_digit_def upt_rec validRequiredString_def)

lemma sample_strings [simp]:
  "validRequiredString ''launch-1'' 4096"
  "validRequiredString ''goal-1'' 4096"
  "validRequiredString ''task-1'' 4096"
  "validRequiredString ''run-1'' 4096"
  "validRequiredString ''run-2'' 4096"
  "validRequiredString ''task-2'' 4096"
  "validRequiredString ''admission-1'' 4096"
  "validRequiredString ''admission-2'' 4096"
  "validRequiredString ''machine'' 4096"
  "validRequiredString ''runtime'' 4096"
  "validRequiredString ''codex'' 4096"
  "validRequiredString ''1'' 4096"
  "validRequiredString ''tree'' 4096"
  by (simp_all add: validRequiredString_def)

lemma sample_intent_ok: "validateGoalSessionIntent sample_intent = None" "validateGoalSessionIntent (sample_intent\<lparr> si_BindingID := sample_binding \<rparr>) = None"
  by (simp_all add: validateGoalSessionIntent_def sample_intent_def intent_Key_def validateGoalSessionKey_def
    validGoalSessionMode_def validWorkspaceOwnerRunKey_def)

lemma sample_certificate_ok [simp]: "validGoalSessionStopCertificate sample_certificate"
  by (simp add: validGoalSessionStopCertificate_def sample_certificate_def validGoalDeliveryDigest_def hex_decodes_def is_hex_char_def list_all_length)

lemma sample_attachment_ok [simp]: "validGoalSessionControlAttachment sample_attachment"
  by (simp add: validGoalSessionControlAttachment_def sample_attachment_def)

lemma sample_new_ok: "session_ok (new_session 5 sample_intent)"
  by (simp add: session_ok_def settled_def validateGoalSessionJournal_def new_session_def sample_intent_ok session_launch_checks_def session_resume_checks_def
    validGoalSessionState_def validGoalSessionLaunchState_def NeedsReconciliation_def)

lemma sample_available_ok: "session_ok sample_available"
  by (simp add: session_ok_def settled_def validateGoalSessionJournal_def sample_available_def new_session_def sample_intent_ok session_launch_checks_def
    session_resume_checks_def validGoalSessionState_def validGoalSessionLaunchState_def NeedsReconciliation_def validGoalSessionControlAttachmentLineage_def)
    (simp add: sample_intent_def sample_attachment_def sample_certificate_def sample_session_id_def)

lemma sample_resume_ok: "completeGoalSessionResumeCompatibility ((session_Compatibility sample_available)\<lparr> gc_RuntimeEpoch := n \<rparr>)"
  by (simp add: completeGoalSessionResumeCompatibility_def session_Compatibility_def sample_available_def new_session_def sample_intent_def)

lemma sample_rebind_ok: "validateGoalSessionResumeRebind sample_rebind = None"
  unfolding validateGoalSessionResumeRebind_def sample_rebind_def using sample_resume_ok [of 4]
  by (simp add: sample_certificate_ok [unfolded sample_certificate_def] sample_certificate_def)

lemma sample_rebind_fresh:
  "\<not> resumeTargetConflictsWithConsumedHistory sample_available sample_rebind" "\<not> sameGoalSessionResumeTarget sample_available sample_rebind"
  by (simp_all add: resumeTargetConflictsWithConsumedHistory_def consumed_list_def sample_available_def new_session_def sameGoalSessionResumeTarget_def)

lemma sample_source_ok: "validateGoalSessionResumeSource sample_available sample_rebind = None"
proof -
  have c: "compareGoalSessionResumeCompatibilityFields sample_available (rb_Compatibility sample_rebind) = None"
    using sample_resume_ok [of 3] sample_resume_ok [of 4]
    by (simp add: compareGoalSessionResumeCompatibilityFields_def sample_rebind_def session_Compatibility_def sample_available_def new_session_def sample_intent_def)
  show ?thesis
    unfolding validateGoalSessionResumeSource_def c
    by (simp add: sample_available_def new_session_def sample_rebind_def NeedsReconciliation_def HasVerifiedControlAttachment_def
      validGoalSessionControlAttachmentLineage_def matchesGoalSessionControlAttachment_def)
      (simp add: sample_intent_def sample_attachment_def validWorkspaceOwnerRunKey_def session_Compatibility_def)
qed

lemma session_dir_ok: "session_ok j \<Longrightarrow> dir_ok (session_dir [j])"
  by (auto simp: dir_ok_def session_dir_def sessions_def intro: order_trans [OF size_filter_mset_lesseq])

lemma commit_clean: "d_faults d = [] \<Longrightarrow> commit_files e change d = (Inr (), d\<lparr> d_files := change (d_files d) \<rparr>)"
  by (simp add: commit_files_def next_fault_def)

lemmas io_eval = io_bind_def io_return_def io_fail_def io_lift_def io_check_def io_read_def io_open_def io_ignore_def
  ensureOpenLocked_def writeAtomic_def commit_clean

lemma session_dir_simps [simp]: "d_open (session_dir js)" "d_faults (session_dir js) = []" "session_dir []\<lparr> d_faults := [] \<rparr> = session_dir []"
  by (simp_all add: session_dir_def)

definition sample_lineage :: GoalSessionLineageKey where
  "sample_lineage = \<lparr> lk_GoalID = ''goal-1'', lk_WorkItemID = ''item-1'', lk_TaskID = ''task-1'' \<rparr>"

lemma sample_lineage_ok [simp]: "validateGoalSessionLineageKey sample_lineage = None" "intent_LineageKey (sj_Intent sample_available) = sample_lineage"
  "validateGoalSessionLineageIndex \<lparr> lx_SchemaVersion = 1, lx_Lineage = sample_lineage, lx_Dirty = b, lx_Entries = [] \<rparr> = None"
  "intent_LineageKey sample_intent = sample_lineage"
  by (simp_all add: validateGoalSessionLineageKey_def sample_lineage_def validateGoalSessionLineageIndex_def sample_available_def new_session_def
      intent_LineageKey_def sample_intent_def)

lemma sample_key_ok [simp]: "validateGoalSessionKey (intent_Key sample_intent) = None" "intent_Key (sj_Intent sample_available) = intent_Key sample_intent"
  by (simp_all add: validateGoalSessionKey_def intent_Key_def sample_intent_def sample_available_def new_session_def)

lemma list_empty: "journals_of (d_files d) = [] \<Longrightarrow> dir_ok d \<Longrightarrow> listGoalSessionsLocked d = Inr []"
  using list_sessions [of d] by (auto simp: sessions_def)

lemma check_empty:
  "checkGoalSessionLineageLocked sample_lineage (session_dir []) =
     (Inr (free_status sample_lineage), put_index \<lparr> lx_SchemaVersion = 1, lx_Lineage = sample_lineage, lx_Dirty = False, lx_Entries = [] \<rparr> (session_dir []))"
  by (simp add: checkGoalSessionLineageLocked_def loadGoalSessionLineageIndexLocked_def session_dir_def on_err_def Let_def
      refreshGoalSessionLineageIndexLocked_def saveGoalSessionLineageIndexLocked_def lineage_entries_def io_eval list_empty empty_ok
      goalSessionLineageStatus_def free_status_def put_index_def)

lemma check_empty_open:
  "CheckGoalSessionLineage sample_lineage (session_dir []) =
     (Inr (free_status sample_lineage), put_index \<lparr> lx_SchemaVersion = 1, lx_Lineage = sample_lineage, lx_Dirty = False, lx_Entries = [] \<rparr> (session_dir []))"
  by (simp add: CheckGoalSessionLineage_def io_open_def io_check_def ensureOpenLocked_def check_empty)

lemma empty_reachable [simp]: "reachable_sessions (session_dir [])"
  unfolding reachable_sessions_def by (rule exI [of _ "session_dir []"]) (simp add: session_dir_def)

lemma normalize_sample: "normalizeGoalSessionIntent ids sample_intent = Inr sample_intent"
proof -
  have "si_LaunchIntentID sample_intent \<noteq> []" "si_LocalHandleID sample_intent \<noteq> []" "si_SessionMode sample_intent \<noteq> []"
    "si_WorkspaceOwnerRunKey sample_intent \<noteq> zero_owner_run_key"
    by (simp_all add: sample_intent_def zero_owner_run_key_def)
  then show ?thesis by (simp add: normalizeGoalSessionIntent_def sample_intent_ok)
qed

lemma save_sample: "fst (SaveGoalSessionLaunchIntent 5 ids sample_intent (session_dir [])) = Inr (new_session 5 sample_intent)"
proof -
  let ?x = "\<lparr> lx_SchemaVersion = 1, lx_Lineage = sample_lineage, lx_Dirty = False, lx_Entries = [] \<rparr>"
  let ?d = "put_index ?x (session_dir [])"
  have d: "dir_ok ?d" by (rule dir_ok_put_index) (simp_all add: session_dir_def empty_ok index_ok_def sessions_def)
  have j: "journals_of (d_files ?d) = []" by (simp add: put_index_def session_dir_def)
  have e: "ensureLocalHandleAvailableLocked sample_intent (session_dir []) = (Inr (), ?d)"
    by (simp add: ensureLocalHandleAvailableLocked_def require_free_def io_bind_def check_empty free_status_def io_return_def io_read_def
      io_check_def list_empty [OF j d])
  have v: "validateGoalSessionJournal (new_session 5 sample_intent) = None" using sample_new_ok by (simp add: session_ok_def)
  have f: "d_faults ?d = []" by (simp add: put_index_def)
  have i: "sj_Intent (new_session 5 sample_intent) = sample_intent" by (simp add: new_session_def)
  have p: "fst (publish_session (new_session 5 sample_intent) ?d) = Inr (new_session 5 sample_intent)"
    by (simp add: publish_session_def Let_def i beginGoalSessionLineageMutationLocked_def saveGoalSessionLineageIndexLocked_def
      saveGoalSessionJournalLocked_def v io_eval f)
  have n: "loadGoalSessionPathLocked k (session_dir []) = Inl (NotFound ''goal session journal'')" for k
    by (simp add: loadGoalSessionPathLocked_def session_dir_def)
  show ?thesis
    by (simp add: SaveGoalSessionLaunchIntent_def normalize_sample io_lift_def io_bind_def io_open_def io_check_def ensureOpenLocked_def
      n e v p)
qed

definition sample_rebound :: GoalSessionJournal where
  "sample_rebound = sample_available\<lparr> sj_Intent := rebound_intent sample_rebind (sj_Intent sample_available), sj_SessionState := GoalSessionStateBusy,
     sj_ControlAttachmentReceiptID := [], sj_ResumeSourceStopCertificate := Some sample_certificate,
     sj_ConsumedStopCertificates := Some [sample_certificate], sj_ResumeStartPending := True, sj_StopCertificate := None, sj_UpdatedAt := 9 \<rparr>"

lemma sample_rebound: "rebind_session 9 sample_rebind sample_available = Inr sample_rebound"
  by (simp add: rebind_session_def appendConsumedStopCertificate_def consumed_list_def sample_rebound_def sample_rebind_def sample_available_def new_session_def)

lemma sample_rebound_ok: "session_ok sample_rebound"
proof -
  let ?b = "rebound_intent sample_rebind (sample_intent\<lparr> si_BindingID := sample_binding \<rparr>)"
  have i: "validateGoalSessionIntent ?b = None"
    by (simp add: validateGoalSessionIntent_def sample_available_def new_session_def sample_intent_def sample_rebind_def rebound_intent_def
      intent_Key_def validateGoalSessionKey_def validGoalSessionMode_def validWorkspaceOwnerRunKey_def session_Compatibility_def)
  have m: "si_SessionMode ?b = GoalSessionModeResume" "si_BindingID ?b = sample_handle" "ca_SessionID sample_attachment = sample_session_id"
    by (simp_all add: rebound_intent_def sample_rebind_def sample_attachment_def)
  show ?thesis
    unfolding sample_rebound_def sample_available_def new_session_def
    by (simp add: session_ok_def settled_def validateGoalSessionJournal_def i m session_launch_checks_def session_resume_checks_def
      validGoalSessionState_def validGoalSessionLaunchState_def NeedsReconciliation_def validGoalSessionControlAttachmentLineage_def
      validGoalSessionConsumedStopCertificateHistory_def)
qed

lemma rebind_sample:
  obtains d where "RebindGoalSessionForResume 9 (intent_Key sample_intent) sample_rebind (session_dir [sample_available]) = (Inr sample_rebound, d)"
proof -
  let ?d = "session_dir [sample_available]"
  have l: "loadGoalSessionPathLocked (goalSessionPath (intent_Key sample_intent)) ?d = Inr sample_available"
    using sample_available_ok by (simp add: loadGoalSessionPathLocked_def session_dir_def session_ok_def)
  have t: "sample_lineage\<lparr> lk_TaskID := rb_TaskID sample_rebind \<rparr> = sample_lineage" by (simp add: sample_lineage_def sample_rebind_def)
  have v: "validateGoalSessionJournal sample_rebound = None" using sample_rebound_ok by (simp add: session_ok_def)
  have "\<exists>d. RebindGoalSessionForResume 9 (intent_Key sample_intent) sample_rebind ?d = (Inr sample_rebound, d)"
    by (simp add: RebindGoalSessionForResume_def sample_rebind_ok io_eval l sample_rebind_fresh sample_source_ok Let_def t sample_rebound v
      beginGoalSessionLineageMutationLocked_def saveGoalSessionLineageIndexLocked_def saveGoalSessionJournalLocked_def)
  then show ?thesis using that by blast
qed

subsection \<open>Properties\<close>

text \<open>C1: Whatever operations ran, whichever of their writes failed and however often the store was reopened, at most one
  session of a lineage (Goal, work item, task) is not closed: the launch barrier admits no second native session.\<close>

theorem goal_session_lineage_exclusive:
  assumes "reachable_sessions d"
  shows "size (filter_mset (blocks l) (sessions d)) \<le> 1"
  using dir_okD(4) [OF reachable_ok [OF assms]] .

lemma reachable_step: "reachable_sessions d \<Longrightarrow> session_dir_step d d' \<Longrightarrow> reachable_sessions d'"
  by (auto simp: reachable_sessions_def intro: rtranclp.rtrancl_into_rtrancl)

theorem goal_session_lineage_exclusive_witness:
  "size (filter_mset (blocks sample_lineage) (sessions (snd (SaveGoalSessionLaunchIntent 6 (Inr [], Inr []) (sample_intent\<lparr> si_LocalHandleID := sample_binding \<rparr>)
     ((snd (SaveGoalSessionLaunchIntent 5 (Inr [], Inr []) sample_intent ((session_dir [])\<lparr> d_faults := [Written, NotSynced] \<rparr>)))\<lparr> d_faults := [NotWritten] \<rparr>))))) \<le> 1"
  by (rule goal_session_lineage_exclusive, rule reachable_step [OF reachable_step [OF empty_reachable save] save])

text \<open>C2: CheckGoalSessionLineage refines the abstract launch barrier: whenever it answers, from the stored index or from one it
  rebuilt, it answers free exactly when every session of the lineage is closed, and else names the one session that is not with
  that session's state.\<close>

theorem lineage_check_refines_barrier:
  assumes "reachable_sessions d" "CheckGoalSessionLineage l (d\<lparr> d_faults := fs \<rparr>) = (Inr s, d')"
  shows "barrier l d s"
proof -
  note d = reachable_ok [OF assms(1)]
  show ?thesis using check_next [OF d, of l] assms(2) d by (auto simp: runs_def dest!: spec [of _ "d\<lparr> d_faults := fs \<rparr>"])
qed

theorem lineage_check_refines_barrier_witness: "barrier sample_lineage (session_dir []) (free_status sample_lineage)"
  using lineage_check_refines_barrier [of "session_dir []" sample_lineage "[]"] check_empty_open by simp

text \<open>C32: A launch intent is accepted only as the replay of the journal already stored for its key, or when no session of its
  lineage is open.\<close>

theorem launch_accepted_only_on_free_lineage:
  assumes "reachable_sessions d" "SaveGoalSessionLaunchIntent now ids intent (d\<lparr> d_faults := fs \<rparr>) = (Inr j, d')"
  shows "session_at d (intent_Key (sj_Intent j)) = Some (SessionFile j) \<or> blocking (intent_LineageKey (sj_Intent j)) d = {#}"
proof -
  note d = reachable_ok [OF assms(1)]
  have "accepted_dir d j d'" using save_next [OF d] assms(2) d unfolding runs_def by (metis (mono_tags, lifting) case_prod_conv dir_ok_faults(1) old.sum.simps(6) same_faults same_refl)
  then show ?thesis by blast
qed

theorem launch_accepted_only_on_free_lineage_witness: "blocking sample_lineage (session_dir []) = {#}"
proof -
  obtain d' where "SaveGoalSessionLaunchIntent 5 (Inr [], Inr []) sample_intent ((session_dir [])\<lparr> d_faults := [] \<rparr>) = (Inr (new_session 5 sample_intent), d')"
    using save_sample [of "(Inr [], Inr [])"] by (metis prod.collapse session_dir_simps(3))
  from launch_accepted_only_on_free_lineage [OF empty_reachable this] show ?thesis
    by (simp add: new_session_def session_dir_def sessions_def)
qed

text \<open>C31: One operation either leaves a session in place with its identity, its first Control attachment, its creation time and
  its consumed stop certificates, whose list only grows, with a runtime epoch that does not go back; or removes it, which it
  does only to a closed session that needs no reconciliation; or adds it as an unstarted launch intent.\<close>

theorem session_operation_keeps_sessions:
  assumes "reachable_sessions d" "session_dir_step d d'"
  shows "moved (session_at d k) (session_at d' k)"
  using session_dir_step_moves [OF assms(2) reachable_ok [OF assms(1)]] by blast

theorem session_operation_keeps_sessions_witness:
  "moved (session_at (session_dir []) (intent_Key sample_intent))
     (session_at (snd (SaveGoalSessionLaunchIntent 5 (Inr [], Inr []) sample_intent ((session_dir [])\<lparr> d_faults := [Written, NotSynced] \<rparr>))) (intent_Key sample_intent))"
  by (rule session_operation_keeps_sessions [OF empty_reachable save])

text \<open>C28: A native launch is started at most once: after a session was marked as launching, no sequence of changes of it,
  a resume included, leads to a journal on which the launch can be marked as started again.\<close>

theorem native_launch_started_once:
  assumes "session_ok j" "MarkGoalSessionLaunchStarted now at j = Inr j1" "validateGoalSessionJournal j1 = None" "session_change\<^sup>*\<^sup>* j1 j2"
  shows "\<exists>e. MarkGoalSessionLaunchStarted now' at' j2 = Inl e"
proof -
  have started: "sj_LaunchState j1 = GoalSessionLaunchStateLaunching" using ensuresD [OF launch_started [OF assms(1)] assms(2)] by blast
  then have "session_ok j1" using assms(3) by (simp add: session_ok_def settled_def)
  then have j2: "session_ok j2" "advances j1 j2" using session_changes_advance [OF assms(4)] by blast+
  then have "sj_LaunchState j2 \<noteq> GoalSessionLaunchStateIntent" using started by (auto simp: advances_def launch_phase_def)
  then show ?thesis using launch_started [OF j2(1), of now' at'] by (cases "MarkGoalSessionLaunchStarted now' at' j2") auto
qed

lemma sample_started:
  "\<exists>j. MarkGoalSessionLaunchStarted 6 [] (new_session 5 sample_intent) = Inr j \<and> validateGoalSessionJournal j = None"
  by (simp add: MarkGoalSessionLaunchStarted_def new_session_def NeedsReconciliation_def validateGoalSessionJournal_def sample_intent_ok
      session_launch_checks_def session_resume_checks_def validGoalSessionState_def validGoalSessionLaunchState_def)

theorem native_launch_started_once_witness:
  "\<exists>j e. MarkGoalSessionLaunchStarted 6 [] (new_session 5 sample_intent) = Inr j \<and> MarkGoalSessionLaunchStarted 7 [] j = Inl e"
  using sample_started native_launch_started_once [OF sample_new_ok] by blast

lemma uncertain_ops:
  assumes u: "sj_LaunchState j = GoalSessionLaunchStateUncertain" "NeedsReconciliation j"
  shows "ensures (MarkGoalSessionLaunchStarted now1 at1 j) (\<lambda>j'. sj_LaunchState j' = GoalSessionLaunchStateUncertain)"
    "ensures (AbortGoalSessionLaunchBeforeNativeStart now2 j) (\<lambda>j'. sj_LaunchState j' = GoalSessionLaunchStateUncertain)"
    "ensures (PersistGoalSessionHandle now3 h3 expected3 j) (\<lambda>j'. sj_LaunchState j' = GoalSessionLaunchStateUncertain)"
    "ensures (PersistGoalSessionControlAttachment now4 session4 binding4 receipt4 issued4 j) (\<lambda>j'. sj_LaunchState j' = GoalSessionLaunchStateUncertain)"
    "ensures (MarkGoalSessionResumeStartAttempted now5 j) (\<lambda>j'. sj_LaunchState j' = GoalSessionLaunchStateUncertain)"
    "ensures (MarkGoalSessionResumeNativeStopped now6 j) (\<lambda>j'. sj_LaunchState j' = GoalSessionLaunchStateUncertain)"
    "ensures (MarkGoalSessionResumeRejected now7 j) (\<lambda>j'. sj_LaunchState j' = GoalSessionLaunchStateUncertain)"
    "ensures (MarkGoalSessionStoppedPending now8 j) (\<lambda>j'. sj_LaunchState j' = GoalSessionLaunchStateUncertain)"
    "ensures (MarkGoalSessionUncertain now9 reason9 j) (\<lambda>j'. sj_LaunchState j' = GoalSessionLaunchStateUncertain)"
    "ensures (CloseGoalSession now10 j) (\<lambda>j'. sj_LaunchState j' = GoalSessionLaunchStateUncertain)"
  unfolding session_op_defs PersistGoalSessionControlAttachment_def Let_def
  by (intro closes_intros; use u in \<open>simp add: unstarted_intent_def resume_stop_guard_def session_frame_defs\<close>)+

lemma uncertain_set_state:
  assumes u: "sj_LaunchState j = GoalSessionLaunchStateUncertain" "NeedsReconciliation j"
  shows "ensures (SetGoalSessionState now state j) (\<lambda>j'. sj_LaunchState j' = GoalSessionLaunchStateUncertain)"
  unfolding SetGoalSessionState_def by (intro closes_intros uncertain_ops [OF u]) (use u in simp)

lemma uncertain_available:
  assumes u: "sj_LaunchState j = GoalSessionLaunchStateUncertain" "NeedsReconciliation j"
  shows "ensures (MarkGoalSessionAvailable now c j) (\<lambda>j'. sj_LaunchState j' = GoalSessionLaunchStateUncertain)"
  unfolding MarkGoalSessionAvailable_def
  by (intro closes_intros ensures_mono [OF append_advances]) (use u in simp_all)

text \<open>The mutations other than the two that resolve an uncertain launch.\<close>

inductive other_mutation :: "(GoalSessionJournal \<Rightarrow> GoalSessionJournal result) \<Rightarrow> bool" where
  "other_mutation (MarkGoalSessionLaunchStarted now at)"
| "other_mutation (AbortGoalSessionLaunchBeforeNativeStart now)"
| "other_mutation (PersistGoalSessionHandle now h expected)"
| "other_mutation (PersistGoalSessionControlAttachment now session binding receipt issued)"
| "other_mutation (MarkGoalSessionResumeStartAttempted now)"
| "other_mutation (MarkGoalSessionResumeNativeStopped now)"
| "other_mutation (MarkGoalSessionResumeRejected now)"
| "other_mutation (MarkGoalSessionStoppedPending now)"
| "other_mutation (MarkGoalSessionAvailable now c)"
| "other_mutation (MarkGoalSessionUncertain now reason)"
| "other_mutation (CloseGoalSession now)"
| "other_mutation (SetGoalSessionState now state)"

lemma other_or_resolving:
  "session_mutation f \<longleftrightarrow> other_mutation f \<or> (\<exists>now h c. f = ResolveGoalSessionUncertain now h c) \<or> (\<exists>now c. f = ResolveGoalSessionUncertainStopped now c)"
  by (auto elim!: session_mutation.cases other_mutation.cases intro: session_mutation.intros other_mutation.intros)

text \<open>C33: a launch whose outcome is uncertain stays uncertain until it is resolved. Each of the twelve mutations that are not one of the two
  resolutions either refuses a valid journal with an uncertain launch or leaves the launch uncertain, and a rebind refuses it as a source.\<close>

theorem uncertain_launch_stays_until_resolved:
  assumes "session_ok j" "sj_LaunchState j = GoalSessionLaunchStateUncertain"
  shows "(\<forall>f j'. other_mutation f \<and> f j = Inr j' \<longrightarrow> sj_LaunchState j' = GoalSessionLaunchStateUncertain)
    \<and> (\<forall>r. validateGoalSessionResumeSource j r \<noteq> None)"
proof -
  note u = assms(2) valid_launch(1) [OF assms(1) disjI2 [OF assms(2)]]
  have "sj_LaunchState j' = GoalSessionLaunchStateUncertain" if "other_mutation f" "f j = Inr j'" for f j'
    using that(1)
    by cases (use that(2) in \<open>auto dest!: ensuresD [OF uncertain_ops(1) [OF u]] ensuresD [OF uncertain_ops(2) [OF u]]
      ensuresD [OF uncertain_ops(3) [OF u]] ensuresD [OF uncertain_ops(4) [OF u]] ensuresD [OF uncertain_ops(5) [OF u]]
      ensuresD [OF uncertain_ops(6) [OF u]] ensuresD [OF uncertain_ops(7) [OF u]] ensuresD [OF uncertain_ops(8) [OF u]]
      ensuresD [OF uncertain_ops(9) [OF u]] ensuresD [OF uncertain_ops(10) [OF u]] ensuresD [OF uncertain_set_state [OF u]]
      ensuresD [OF uncertain_available [OF u]]\<close>)
  moreover have "validateGoalSessionResumeSource j r \<noteq> None" for r using u(2) by (simp add: validateGoalSessionResumeSource_def)
  ultimately show ?thesis by blast
qed

definition sample_uncertain :: GoalSessionJournal where
  "sample_uncertain = (new_session 5 sample_intent)\<lparr> sj_LaunchState := GoalSessionLaunchStateUncertain, sj_SessionState := GoalSessionStateUnavailable,
     sj_LaunchAttempted := True, sj_LaunchAttemptedAt := 6, sj_RecoveryRequired := True, sj_UncertainReason := ''lost'' \<rparr>"

lemma sample_uncertain_ok: "session_ok sample_uncertain"
  by (simp add: session_ok_def settled_def validateGoalSessionJournal_def sample_uncertain_def new_session_def sample_intent_ok session_launch_checks_def
    session_resume_checks_def validGoalSessionState_def validGoalSessionLaunchState_def NeedsReconciliation_def)

theorem uncertain_launch_stays_until_resolved_witness:
  "\<exists>j. SetGoalSessionState 9 GoalSessionStateBusy sample_uncertain = Inr j \<and> sj_LaunchState j = GoalSessionLaunchStateUncertain
    \<and> validateGoalSessionResumeSource sample_uncertain sample_rebind \<noteq> None"
proof -
  have run: "SetGoalSessionState 9 GoalSessionStateBusy sample_uncertain = Inr (sample_uncertain\<lparr> sj_SessionState := GoalSessionStateBusy, sj_UpdatedAt := 9 \<rparr>)"
    by (simp add: SetGoalSessionState_def sample_uncertain_def new_session_def validGoalSessionState_def)
  have "sj_LaunchState sample_uncertain = GoalSessionLaunchStateUncertain" by (simp add: sample_uncertain_def)
  from uncertain_launch_stays_until_resolved [OF sample_uncertain_ok this] run show ?thesis using other_mutation.intros(12) by blast
qed

text \<open>C30: Repeating a rebind that succeeded returns the same journal and writes nothing.\<close>

theorem rebind_replay_idempotent:
  assumes "dir_ok d" "RebindGoalSessionForResume now k r d = (Inr j, d1)"
  shows "RebindGoalSessionForResume now' k r d1 = (Inr j, d1)"
proof -
  have "case RebindGoalSessionForResume now k r d of (Inl e, d') \<Rightarrow> next_dir d d' | (Inr x, d') \<Rightarrow> written_dir d k x d' \<and> replayable r x"
    using rebind_next [OF assms(1), of now k r] assms(1) unfolding runs_def by simp
  then have w: "written_dir d k j d1" "replayable r j" using assms(2) by simp_all
  have v: "validateGoalSessionKey k = None" "validateGoalSessionResumeRebind r = None" "ensureOpenLocked d = None"
    using assms(2) by (auto simp: RebindGoalSessionForResume_def io_check_def io_fail_def io_open_def split: option.splits)
  have o: "ensureOpenLocked d1 = None" using v(3) w(1) by (simp add: ensureOpenLocked_def evolved_def)
  have l: "loadGoalSessionPathLocked (goalSessionPath k) d1 = Inr j" using w(1) by (simp add: load_session)
  show ?thesis
    using w(2) by (simp add: RebindGoalSessionForResume_def v io_check_def io_open_def o io_bind_def io_read_def l replayable_def io_return_def)
qed

theorem rebind_replay_idempotent_witness:
  "\<exists>d. RebindGoalSessionForResume 9 (intent_Key sample_intent) sample_rebind (session_dir [sample_available]) = (Inr sample_rebound, d)
    \<and> RebindGoalSessionForResume 10 (intent_Key sample_intent) sample_rebind d = (Inr sample_rebound, d)"
  by (rule rebind_sample) (use rebind_replay_idempotent [OF session_dir_ok [OF sample_available_ok]] in blast)

text \<open>C29: A stop certificate is spent once: a rebind that presents a certificate the session has already consumed changes no
  session, and if it returns at all it returns the stored journal, as the replay it is.\<close>

theorem stop_certificate_spent_once:
  assumes "dir_ok d" "session_at d k = Some (SessionFile j)" "rb_ExactStopCertificate r \<in> set (consumed_list j)"
  shows "(\<forall>k'. session_at (snd (RebindGoalSessionForResume now k r d)) k' = session_at d k')
    \<and> (\<forall>j'. fst (RebindGoalSessionForResume now k r d) = Inr j' \<longrightarrow> j' = j)"
proof -
  have c: "case RebindGoalSessionForResume now k r d of (Inl e, d') \<Rightarrow> kept_dir d d' | (Inr x, d') \<Rightarrow> kept_dir d d' \<and> x = j"
    using spent_rebind [OF assms, of now] assms(1) unfolding runs_def by simp
  then show ?thesis by (auto simp: same_def split: prod.splits sum.splits)
qed

theorem stop_certificate_spent_once_witness:
  "session_at (snd (RebindGoalSessionForResume 11 (intent_Key (sj_Intent sample_rebound)) (sample_rebind\<lparr> rb_RunID := ''run-3'' \<rparr>) (session_dir [sample_rebound])))
     (intent_Key (sj_Intent sample_rebound)) = Some (SessionFile sample_rebound)"
proof -
  have at: "session_at (session_dir [sample_rebound]) (intent_Key (sj_Intent sample_rebound)) = Some (SessionFile sample_rebound)"
    by (simp add: session_dir_def)
  have spent: "rb_ExactStopCertificate (sample_rebind\<lparr> rb_RunID := ''run-3'' \<rparr>) \<in> set (consumed_list sample_rebound)"
    by (simp add: sample_rebind_def sample_rebound_def consumed_list_def)
  show ?thesis using stop_certificate_spent_once [OF session_dir_ok [OF sample_rebound_ok] at spent] at by simp
qed

end
