(* ===== verification/Reservation.thy ===== *)
theory Reservation
  imports Authority_Clone Goal_Delivery
begin

text \<open>
  The v2 run-leaf reservation of \<^verbatim>\<open>internal/state/state.go\<close>: the record, its validation against
  abort proofs and pre-gate stop receipts, and the relations that tie a reservation to a
  supervisor handoff, a committed authority and a stop receipt.

  The \<^verbatim>\<open>equalAuthority...\<close> helpers compare pointers by the \<^verbatim>\<open>Equal\<close> method of what they point
  to; they are \<^const>\<open>eq_ptr\<close> here.
\<close>

record LinuxCgroupReservation =
  lr_Version :: int
  lr_LaunchToken :: string
  lr_Secret :: string
  lr_PipeToken :: string
  lr_JobID :: string
  lr_OwnerUID :: "32 word"
  lr_LauncherUID :: "32 word"
  lr_RecoveryEndpoint :: string
  lr_Parent :: LinuxCgroupParentIdentity
  lr_LeafName :: string
  lr_CreateStarted :: bool
  lr_LauncherGrantPossible :: bool
  lr_LeafIdentity :: "LinuxCgroupIdentity option"
  lr_Anchor :: LinuxCgroupProcessIdentity
  lr_Helper :: "LinuxCgroupProcessIdentity option"
  lr_Launcher :: "LinuxCgroupProcessIdentity option"
  lr_LauncherExit :: "LinuxCgroupExitProof option"
  lr_Gate :: "LinuxCgroupGateIdentity option"
  lr_HelperExit :: "LinuxCgroupExitProof option"
  lr_Mirror :: "LinuxCgroupProcessIdentity option"
  lr_AbortProof :: "LinuxCgroupReservationAbortProof option"
  lr_PreGateStopReceipt :: "LinuxCgroupPreGateStopReceipt option"

definition state_validHex :: "string \<Rightarrow> bool" where
  "state_validHex v = hex_decodes v"

definition validStateLowerHex :: "string \<Rightarrow> nat \<Rightarrow> bool" where
  "validStateLowerHex v n = (length v = n \<and> v = ToLower v \<and> state_validHex v)"

subsection \<open>Abort proofs\<close>

text \<open>The source dereferences \<^verbatim>\<open>Mirror\<close> here; the validation that calls it has required it before.\<close>

definition linuxCgroupReservationAbortMatches :: "LinuxCgroupReservation \<Rightarrow> LinuxCgroupReservationAbortProof \<Rightarrow> bool" where
  "linuxCgroupReservationAbortMatches v p =
    (if lr_Version v \<noteq> 2 \<or> ReservationAbortProof_Validate p \<noteq> None \<or> lr_LauncherGrantPossible v
        \<or> \<not> opt_ex (\<lambda>m. ReservationAbortProof_ValidFor p (lr_LaunchToken v) (lr_Parent v) (lr_LeafName v) (lr_CreateStarted v)
              (lr_OwnerUID v) (lr_Anchor v) m (lr_Helper v) (lr_Launcher v)) (lr_Mirror v)
        \<or> opt_ex (\<lambda>a. \<not> ReservationAbortProof_Equal a p) (lr_AbortProof v)
        \<or> lr_Gate v \<noteq> None \<or> lr_PreGateStopReceipt v \<noteq> None
     then False
     else if ra_LeafDisposition p = LinuxCgroupAbortLeafNeverCreated then
       lr_LeafIdentity v = None \<and> lr_Helper v = None \<and> lr_HelperExit v = None \<and> lr_Launcher v = None \<and> lr_LauncherExit v = None
       \<and> ra_LeafIdentity p = None \<and> ra_LauncherExit p = None \<and> \<not> ra_LauncherGrantPossible p
     else if ra_LeafDisposition p = LinuxCgroupAbortLeafRemovedEmpty \<or> ra_LeafDisposition p = LinuxCgroupAbortLeafAbsentAfterRmdir then
       (if lr_LeafIdentity v = None \<or> ra_LeafIdentity p = None \<or> lr_LeafIdentity v \<noteq> ra_LeafIdentity p
           \<or> \<not> ra_LeafEmpty p \<or> \<not> ra_LeafAbsent p \<or> ra_LauncherGrantPossible p
        then False
        else if lr_Launcher v = None \<and> (lr_LauncherExit v \<noteq> None \<or> ra_LauncherExit p \<noteq> None) then False
        else if lr_Launcher v \<noteq> None \<and> \<not> opt_ex (\<lambda>x. opt_ex (\<lambda>y. LinuxCgroupExitProof_Equal x y \<and>
               opt_ex (\<lambda>l. opt_ex (\<lambda>h. ValidForOwnedDescendant y l h (lr_Anchor v) (lr_HelperExit v)) (lr_Helper v)) (lr_Launcher v))
               (ra_LauncherExit p)) (lr_LauncherExit v) then False
        else (case lr_Helper v of
            None \<Rightarrow> lr_HelperExit v = None \<and> ra_HelperExit p = None
          | Some h \<Rightarrow> opt_ex (\<lambda>x. opt_ex (\<lambda>y. LinuxCgroupExitProof_Equal x y \<and> LinuxCgroupExitProof_ValidFor y h (lr_Anchor v))
                        (ra_HelperExit p)) (lr_HelperExit v)))
     else False)"

subsection \<open>Validation\<close>

text \<open>The identities: token shapes, leaf, helper, launcher and gate, each bound to what must
  precede it.\<close>

definition reservation_identity_checks :: "LinuxCgroupReservation \<Rightarrow> (bool \<times> string) list" where
  "reservation_identity_checks v = [
     (lr_Version v \<noteq> 2 \<or> \<not> validStateLowerHex (lr_LaunchToken v) (TokenBytes * 2)
      \<or> \<not> validStateLowerHex (lr_Secret v) (SecretBytes * 2) \<or> \<not> validStateLowerHex (lr_PipeToken v) (TokenBytes * 2)
      \<or> \<not> validStateLowerHex (lr_JobID v) (TokenBytes * 2) \<or> \<not> validRequiredString (lr_RecoveryEndpoint v) 4096
      \<or> lr_OwnerUID v = 0 \<or> lr_LauncherUID v \<noteq> 0 \<or> CHR 0x00 \<in> set (lr_RecoveryEndpoint v)
      \<or> LinuxCgroupParentIdentity_Validate (lr_Parent v) \<noteq> None \<or> \<not> validStateLowerHex (lr_LeafName v) (TokenBytes * 2)
      \<or> LinuxCgroupProcessIdentity_Validate (lr_Anchor v) \<noteq> None
      \<or> \<not> opt_ex (\<lambda>m. LinuxCgroupProcessIdentity_Validate m = None) (lr_Mirror v), ''Linux cgroup reservation is invalid''),
     (opt_ex (\<lambda>l. \<not> lr_CreateStarted v \<or> LinuxCgroupIdentity_Validate l \<noteq> None \<or> ci_Parent l \<noteq> lr_Parent v
        \<or> ci_LeafName l \<noteq> lr_LeafName v) (lr_LeafIdentity v), ''Linux cgroup reservation leaf identity is invalid''),
     (opt_ex (\<lambda>h. lr_LeafIdentity v = None \<or> LinuxCgroupProcessIdentity_Validate h \<noteq> None) (lr_Helper v),
      ''Linux cgroup helper identity is invalid''),
     (lr_Helper v = Some (lr_Anchor v), ''Linux cgroup helper aliases the anchor process''),
     (opt_ex (\<lambda>l. lr_Helper v = None \<or> LinuxCgroupProcessIdentity_Validate l \<noteq> None) (lr_Launcher v),
      ''Linux cgroup launcher identity is invalid''),
     (lr_LauncherGrantPossible v \<and> lr_Launcher v = None, ''Linux cgroup launcher grant has no bound launcher''),
     (opt_ex (\<lambda>l. l = lr_Anchor v \<or> Some l = lr_Helper v) (lr_Launcher v), ''Linux cgroup launcher aliases another producer''),
     (opt_ex (\<lambda>x. \<not> opt_ex (\<lambda>l. opt_ex (\<lambda>h. ValidForOwnedDescendant x l h (lr_Anchor v) (lr_HelperExit v)) (lr_Helper v)) (lr_Launcher v))
        (lr_LauncherExit v), ''Linux cgroup launcher exit proof is invalid''),
     (opt_ex (\<lambda>g. \<not> lr_LauncherGrantPossible v \<or> lr_LauncherExit v = None \<or> lr_LeafIdentity v = None
        \<or> GateIdentity_Validate g \<noteq> None \<or> gi_HostUID g \<noteq> lr_OwnerUID v \<or> lr_LeafIdentity v \<noteq> Some (gi_Cgroup g)) (lr_Gate v),
      ''Linux cgroup gate identity is invalid''),
     (opt_ex (\<lambda>g. gi_Process g = lr_Anchor v \<or> Some (gi_Process g) = lr_Helper v \<or> Some (gi_Process g) = lr_Launcher v) (lr_Gate v),
      ''Linux cgroup gate aliases another producer''),
     (opt_ex (\<lambda>x. \<not> opt_ex (\<lambda>h. LinuxCgroupExitProof_ValidFor x h (lr_Anchor v)) (lr_Helper v)) (lr_HelperExit v),
      ''Linux cgroup helper exit proof is invalid''),
     (opt_ex (\<lambda>m. m = lr_Anchor v \<or> lr_Helper v = Some m \<or> lr_Launcher v = Some m \<or> opt_ex (\<lambda>g. m = gi_Process g) (lr_Gate v))
        (lr_Mirror v), ''Linux cgroup mirror aliases another producer'')]"

text \<open>The proofs: abort, pre-gate stop, their exclusion, and no effect before creation intent.
  The argument is the test that a stored pre-gate receipt has to pass.\<close>

definition reservation_proof_checks ::
  "(LinuxCgroupReservation \<Rightarrow> LinuxCgroupPreGateStopReceipt \<Rightarrow> bool) \<Rightarrow> LinuxCgroupReservation \<Rightarrow> (bool \<times> string) list" where
  "reservation_proof_checks pre v = [
     (opt_ex (\<lambda>a. \<not> linuxCgroupReservationAbortMatches v a) (lr_AbortProof v), ''Linux cgroup reservation abort proof is invalid''),
     (opt_ex (\<lambda>r. \<not> pre v r) (lr_PreGateStopReceipt v), ''Linux pre-gate cgroup stop receipt is invalid''),
     (lr_AbortProof v \<noteq> None \<and> lr_PreGateStopReceipt v \<noteq> None,
      ''Linux cgroup reservation cannot have both abort and physical-stop proof''),
     (opt_ex (\<lambda>a. (lr_HelperExit v \<noteq> None \<and> ra_HelperExit a = None) \<or> (lr_LauncherExit v \<noteq> None \<and> ra_LauncherExit a = None))
        (lr_AbortProof v), ''Linux cgroup aborted reservation lost producer-exit evidence''),
     (\<not> lr_CreateStarted v \<and> (lr_LeafIdentity v \<noteq> None \<or> lr_Helper v \<noteq> None \<or> lr_Launcher v \<noteq> None \<or> lr_LauncherExit v \<noteq> None
        \<or> lr_Gate v \<noteq> None \<or> lr_HelperExit v \<noteq> None
        \<or> opt_ex (\<lambda>a. ra_LeafDisposition a \<noteq> LinuxCgroupAbortLeafNeverCreated) (lr_AbortProof v)),
      ''Linux cgroup reservation has effects before creation intent'')]"

definition ValidateWithoutPreGateReceipt :: "LinuxCgroupReservation \<Rightarrow> gerror option" where
  "ValidateWithoutPreGateReceipt v = (let c = v\<lparr> lr_PreGateStopReceipt := None \<rparr> in
     checks (reservation_identity_checks c @ reservation_proof_checks (\<lambda>_ _. True) c))"

definition linuxCgroupPreGateReceiptMatchesReservation :: "LinuxCgroupReservation \<Rightarrow> LinuxCgroupPreGateStopReceipt \<Rightarrow> bool" where
  "linuxCgroupPreGateReceiptMatchesReservation v r =
     (lr_Version v = 2 \<and> ValidateWithoutPreGateReceipt v = None \<and> lr_CreateStarted v \<and> lr_LauncherGrantPossible v
      \<and> lr_Gate v = None \<and> lr_AbortProof v = None
      \<and> (lr_PreGateStopReceipt v = None \<or> eq_ptr PreGateStopReceipt_Equal (lr_PreGateStopReceipt v) (Some r))
      \<and> opt_ex (\<lambda>leaf. opt_ex (\<lambda>h. opt_ex (\<lambda>l. opt_ex (\<lambda>m. opt_ex (\<lambda>x.
          PreGateStopReceipt_ValidFor r (lr_LaunchToken v) leaf (lr_OwnerUID v) (lr_LauncherUID v) (lr_Anchor v) h l m x (lr_HelperExit v))
        (lr_LauncherExit v)) (lr_Mirror v)) (lr_Launcher v)) (lr_Helper v)) (lr_LeafIdentity v))"

definition Reservation_Validate :: "LinuxCgroupReservation \<Rightarrow> gerror option" where
  "Reservation_Validate v =
     checks (reservation_identity_checks v @ reservation_proof_checks linuxCgroupPreGateReceiptMatchesReservation v)"

definition Reservation_Equal :: "LinuxCgroupReservation \<Rightarrow> LinuxCgroupReservation \<Rightarrow> bool" where
  "Reservation_Equal v w = (lr_Version v = lr_Version w \<and> lr_LaunchToken v = lr_LaunchToken w \<and> lr_Secret v = lr_Secret w
     \<and> lr_PipeToken v = lr_PipeToken w \<and> lr_JobID v = lr_JobID w \<and> lr_RecoveryEndpoint v = lr_RecoveryEndpoint w
     \<and> lr_OwnerUID v = lr_OwnerUID w \<and> lr_LauncherUID v = lr_LauncherUID w \<and> lr_Parent v = lr_Parent w
     \<and> lr_LeafName v = lr_LeafName w \<and> lr_CreateStarted v = lr_CreateStarted w
     \<and> lr_LauncherGrantPossible v = lr_LauncherGrantPossible w \<and> eq_ptr (=) (lr_LeafIdentity v) (lr_LeafIdentity w)
     \<and> lr_Anchor v = lr_Anchor w \<and> eq_ptr (=) (lr_Helper v) (lr_Helper w) \<and> eq_ptr (=) (lr_Launcher v) (lr_Launcher w)
     \<and> eq_ptr LinuxCgroupExitProof_Equal (lr_LauncherExit v) (lr_LauncherExit w)
     \<and> eq_ptr GateIdentity_Equal (lr_Gate v) (lr_Gate w)
     \<and> eq_ptr LinuxCgroupExitProof_Equal (lr_HelperExit v) (lr_HelperExit w) \<and> eq_ptr (=) (lr_Mirror v) (lr_Mirror w)
     \<and> eq_ptr ReservationAbortProof_Equal (lr_AbortProof v) (lr_AbortProof w)
     \<and> eq_ptr PreGateStopReceipt_Equal (lr_PreGateStopReceipt v) (lr_PreGateStopReceipt w))"

subsection \<open>Handoffs, authorities and receipts\<close>

definition sameBoundV2Handoff :: "SupervisorHandoff option \<Rightarrow> SupervisorHandoff option \<Rightarrow> bool" where
  "sameBoundV2Handoff l r = opt_ex (\<lambda>x. opt_ex (\<lambda>y. ho_Version x = 2 \<and> ho_Version y = 2 \<and> SameLaunch x y
     \<and> ho_SupervisorPID x = ho_SupervisorPID y \<and> ho_SupervisorIdentity x = ho_SupervisorIdentity y
     \<and> eq_ptr (=) (ho_Mirror x) (ho_Mirror y)) r) l"

text \<open>A valid reservation with a launcher exit has a launcher, so the dereference of \<^verbatim>\<open>Launcher\<close>
  is safe.\<close>

definition linuxCgroupReservationMatchesHandoff :: "LinuxCgroupReservation \<Rightarrow> SupervisorHandoff \<Rightarrow> bool \<Rightarrow> bool" where
  "linuxCgroupReservationMatchesHandoff v h requireBound =
    (if Reservation_Validate v \<noteq> None \<or> lr_PreGateStopReceipt v \<noteq> None \<or> ho_Version h \<noteq> 2
        \<or> lr_LeafIdentity v = None \<or> lr_Helper v = None \<or> lr_LauncherExit v = None \<or> lr_Gate v = None
        \<or> \<not> lr_LauncherGrantPossible v
        \<or> ho_LaunchToken h \<noteq> lr_LaunchToken v \<or> ho_Secret h \<noteq> lr_Secret v
        \<or> ho_PipeToken h \<noteq> lr_PipeToken v \<or> ho_JobID h \<noteq> lr_JobID v
        \<or> ho_OwnerKind h \<noteq> OwnerKindLinuxHelper \<or> ho_OwnerContext h \<noteq> lr_RecoveryEndpoint v
        \<or> ho_OwnerUID h \<noteq> lr_OwnerUID v \<or> ho_LauncherUID h \<noteq> lr_LauncherUID v
        \<or> \<not> opt_ex (\<lambda>g. ho_TargetBirthKind h = gi_BirthKind g \<and> ho_TargetPID h = pi_PID (gi_Process g)
              \<and> ho_TargetIdentity h = pi_Identity (gi_Process g)) (lr_Gate v)
        \<or> ho_CgroupIdentity h = None \<or> ho_CgroupIdentity h \<noteq> lr_LeafIdentity v \<or> ho_AnchorPID h \<noteq> pi_PID (lr_Anchor v)
        \<or> ho_AnchorIdentity h \<noteq> pi_Identity (lr_Anchor v)
        \<or> \<not> opt_ex (\<lambda>l. ho_LauncherPID h = pi_PID l \<and> ho_LauncherIdentity h = pi_Identity l) (lr_Launcher v)
        \<or> ho_LauncherExit h = None \<or> \<not> eq_ptr LinuxCgroupExitProof_Equal (ho_LauncherExit h) (lr_LauncherExit v)
     then False
     else if ho_SupervisorPID h = 0 then \<not> requireBound \<and> ho_SupervisorIdentity h = [] \<and> ho_Mirror h = None \<and> lr_Mirror v \<noteq> None
     else requireBound \<and> opt_ex (\<lambda>p. ho_SupervisorPID h = pi_PID p \<and> ho_SupervisorIdentity h = pi_Identity p) (lr_Helper v)
       \<and> lr_Mirror v \<noteq> None \<and> eq_ptr (=) (ho_Mirror h) (lr_Mirror v))"

definition linuxCgroupReservationMatchesAuthority :: "LinuxCgroupReservation \<Rightarrow> Supervisor \<Rightarrow> bool" where
  "linuxCgroupReservationMatchesAuthority v a =
     (Reservation_Validate v = None \<and> lr_AbortProof v = None \<and> lr_PreGateStopReceipt v = None
      \<and> lr_LauncherGrantPossible v \<and> su_Version a = 2
      \<and> lr_LeafIdentity v \<noteq> None \<and> lr_Helper v \<noteq> None \<and> lr_Launcher v \<noteq> None
      \<and> lr_LauncherExit v \<noteq> None \<and> lr_Gate v \<noteq> None \<and> lr_Mirror v \<noteq> None
      \<and> su_LaunchToken a = lr_LaunchToken v \<and> su_Secret a = lr_Secret v
      \<and> su_PipeToken a = lr_PipeToken v \<and> su_JobID a = lr_JobID v
      \<and> su_OwnerKind a = OwnerKindLinuxHelper \<and> su_OwnerContext a = lr_RecoveryEndpoint v
      \<and> su_OwnerUID a = lr_OwnerUID v \<and> su_LauncherUID a = lr_LauncherUID v
      \<and> opt_ex (\<lambda>g. su_TargetBirthKind a = gi_BirthKind g \<and> su_TargetPID a = pi_PID (gi_Process g)
            \<and> su_TargetIdentity a = pi_Identity (gi_Process g)) (lr_Gate v)
      \<and> su_CgroupIdentity a \<noteq> None \<and> su_CgroupIdentity a = lr_LeafIdentity v \<and> su_AnchorPID a = pi_PID (lr_Anchor v)
      \<and> su_AnchorIdentity a = pi_Identity (lr_Anchor v)
      \<and> opt_ex (\<lambda>l. su_LauncherPID a = pi_PID l \<and> su_LauncherIdentity a = pi_Identity l) (lr_Launcher v)
      \<and> su_LauncherExit a \<noteq> None \<and> eq_ptr LinuxCgroupExitProof_Equal (su_LauncherExit a) (lr_LauncherExit v)
      \<and> opt_ex (\<lambda>p. su_SupervisorPID a = pi_PID p \<and> su_SupervisorIdentity a = pi_Identity p) (lr_Helper v)
      \<and> eq_ptr (=) (su_Mirror a) (lr_Mirror v))"

text \<open>The supervisor value a complete reservation stands for.\<close>

definition supervisorFromReservation ::
  "LinuxCgroupReservation \<Rightarrow> LinuxCgroupProcessIdentity \<Rightarrow> LinuxCgroupProcessIdentity \<Rightarrow> LinuxCgroupGateIdentity \<Rightarrow> Supervisor" where
  "supervisorFromReservation v helper launcher gate = \<lparr>
     su_Version = 2, su_Secret = lr_Secret v, su_LaunchToken = lr_LaunchToken v,
     su_OwnerKind = OwnerKindLinuxHelper, su_OwnerContext = lr_RecoveryEndpoint v, su_TargetPID = pi_PID (gi_Process gate),
     su_TargetIdentity = pi_Identity (gi_Process gate), su_OwnerUID = lr_OwnerUID v, su_LauncherUID = lr_LauncherUID v,
     su_PipeToken = lr_PipeToken v, su_JobID = lr_JobID v, su_SupervisorPID = pi_PID helper,
     su_SupervisorIdentity = pi_Identity helper, su_TargetBirthKind = gi_BirthKind gate,
     su_CgroupIdentity = lr_LeafIdentity v, su_AnchorPID = pi_PID (lr_Anchor v), su_AnchorIdentity = pi_Identity (lr_Anchor v),
     su_LauncherPID = pi_PID launcher, su_LauncherIdentity = pi_Identity launcher,
     su_LauncherExit = lr_LauncherExit v, su_Mirror = lr_Mirror v, su_CreatorSessionID = None,
     su_StopReceipt = None \<rparr>"

definition linuxCgroupReceiptMatchesReservation :: "LinuxCgroupReservation \<Rightarrow> StopReceipt \<Rightarrow> bool" where
  "linuxCgroupReceiptMatchesReservation v r =
    (if Reservation_Validate v \<noteq> None \<or> lr_AbortProof v \<noteq> None \<or> lr_PreGateStopReceipt v \<noteq> None
        \<or> \<not> lr_LauncherGrantPossible v \<or> lr_LeafIdentity v = None \<or> lr_LauncherExit v = None \<or> lr_Mirror v = None
     then False
     else opt_ex (\<lambda>h. opt_ex (\<lambda>l. opt_ex (\<lambda>g. let a = supervisorFromReservation v h l g in
       Supervisor_Validate a = None \<and> StopReceipt_ValidFor r a \<and> opt_ex (\<lambda>p.
         if sp_Kind p = LinuxCgroupStopProofMirror
         then opt_ex (\<lambda>x. opt_ex (\<lambda>y. LinuxCgroupExitProof_Equal x y) (lr_HelperExit v)) (sp_HelperExit p)
         else sp_Kind p = LinuxCgroupStopProofHelper \<and> lr_HelperExit v = None) (sr_LinuxProof r))
       (lr_Gate v)) (lr_Launcher v)) (lr_Helper v))"

subsection \<open>Lemmas\<close>

lemma eq_ptr_gate [simp]: "eq_ptr GateIdentity_Equal l r = (l = r)"
  by (rule eq_ptr_iff_eq) simp

lemma eq_ptr_abort [simp]: "eq_ptr ReservationAbortProof_Equal l r = (l = r)"
  by (rule eq_ptr_iff_eq) simp

lemma eq_ptr_pre_gate [simp]: "eq_ptr PreGateStopReceipt_Equal l r = (l = r)"
  by (rule eq_ptr_iff_eq) simp

lemma Reservation_Equal_iff [simp]: "Reservation_Equal x y = (x = y)"
proof
  assume "Reservation_Equal x y"
  note e = this [unfolded Reservation_Equal_def]
  show "x = y" by (rule LinuxCgroupReservation.equality) (use e in simp_all)
qed (simp add: Reservation_Equal_def)

lemma Reservation_Validate_None_iff:
  "Reservation_Validate v = None \<longleftrightarrow>
     checks (reservation_identity_checks v) = None \<and>
     checks (reservation_proof_checks linuxCgroupPreGateReceiptMatchesReservation v) = None"
  by (simp add: Reservation_Validate_def checks_append then_err_None_iff)

lemma checks_Cons_None: "checks ((c, m) # gs) = None \<longleftrightarrow> \<not> c \<and> checks gs = None"
  by simp

text \<open>What validation gives a user of a reservation.\<close>

lemma reservation_abort_no_grant:
  assumes "Reservation_Validate v = None" "lr_AbortProof v = Some a"
  shows "\<not> lr_LauncherGrantPossible v" "lr_Gate v = None" "lr_PreGateStopReceipt v = None"
    "linuxCgroupReservationAbortMatches v a"
proof -
  have "checks (reservation_proof_checks linuxCgroupPreGateReceiptMatchesReservation v) = None"
    using assms(1) by (simp add: Reservation_Validate_None_iff)
  note c = this [unfolded reservation_proof_checks_def checks_Cons_None]
  show m: "linuxCgroupReservationAbortMatches v a" using c assms(2) by simp
  then show "\<not> lr_LauncherGrantPossible v" "lr_Gate v = None" "lr_PreGateStopReceipt v = None"
    unfolding linuxCgroupReservationAbortMatches_def by meson+
qed

lemma reservation_gate_chain:
  assumes "Reservation_Validate v = None" "lr_Gate v = Some g"
  obtains h l x leaf where "lr_Helper v = Some h" "lr_Launcher v = Some l" "lr_LauncherExit v = Some x"
    "lr_LeafIdentity v = Some leaf" "lr_LauncherGrantPossible v" "lr_CreateStarted v"
    "ValidForOwnedDescendant x l h (lr_Anchor v) (lr_HelperExit v)" "gi_Cgroup g = leaf"
proof -
  have "checks (reservation_identity_checks v) = None"
    using assms(1) by (simp add: Reservation_Validate_None_iff)
  note c = this [unfolded reservation_identity_checks_def checks_Cons_None]
  have g: "lr_LauncherGrantPossible v" "lr_LauncherExit v \<noteq> None" "lr_LeafIdentity v = Some (gi_Cgroup g)"
    using c assms(2) by simp_all
  then obtain x where x: "lr_LauncherExit v = Some x" by blast
  have "opt_ex (\<lambda>l. opt_ex (\<lambda>h. ValidForOwnedDescendant x l h (lr_Anchor v) (lr_HelperExit v)) (lr_Helper v)) (lr_Launcher v)"
    using c x by simp
  then obtain l h where lh: "lr_Launcher v = Some l" "lr_Helper v = Some h"
      "ValidForOwnedDescendant x l h (lr_Anchor v) (lr_HelperExit v)"
    unfolding opt_ex_iff by blast
  moreover have "lr_CreateStarted v" using c g(3) by simp
  ultimately show thesis using that x g by blast
qed

end
