(* ===== verification/Journal.thy ===== *)
theory Journal
  imports Reservation
begin

text \<open>
  The run journal of \<^verbatim>\<open>internal/state/state.go\<close>: the complete record with the command, action, usage
  and scan records it contains, and the predicates that only read it.

  A nil slice and an empty one are the same list: no code that is modelled tells them apart.
\<close>

subsection \<open>Records\<close>

record RunKey =
  k_RunID :: string
  k_Generation :: int

record ContainmentScanProgress =
  sg_PendingSequence :: "64 word"
  sg_CleanResultSequence :: "64 word"
  sg_CompletedSequence :: "64 word"
  sg_SealedSequence :: "64 word"
  sg_UnprovenSequence :: "64 word"
  sg_FailureKind :: string

record ContainmentScanJournal =
  cs_Version :: int
  cs_LaunchToken :: string
  cs_TargetPID :: int
  cs_TargetIdentity :: string
  cs_SupervisorPID :: int
  cs_SupervisorIdentity :: string
  cs_MirrorIdentity :: string
  cs_Helper :: ContainmentScanProgress
  cs_Mirror :: ContainmentScanProgress

record NativeUsageObservation =
  nu_SchemaVersion :: int
  nu_InputTokens :: int
  nu_OutputTokens :: int
  nu_CachedInputTokens :: int
  nu_ReasoningOutputTokens :: int
  nu_TotalTokens :: int
  nu_ObservedAt :: time

record NativeUsageTerminalRecovery =
  nt_State :: string
  nt_Payload :: RawMessage
  nt_CommandID :: string
  nt_CommandOutcome :: string

record InputCommandIntent =
  ic_CommandID :: string
  ic_PayloadDigest :: string
  ic_RunningTransitionID :: string
  ic_AckID :: string
  ic_EventSequenceBarrier :: int
  ic_Outcome :: string
  ic_AcknowledgementDelivered :: bool

record ControlCommandIntent =
  cc_CommandID :: string
  cc_Kind :: string
  cc_PayloadDigest :: string
  cc_TransitionID :: string
  cc_AckID :: string
  cc_Outcome :: string
  cc_AcknowledgementDelivered :: bool

record ProviderActionIntent =
  pa_ActionID :: string
  pa_ActionKey :: string
  pa_RequestDigest :: string
  pa_ResourceID :: string
  pa_Operation :: string
  pa_Outcome :: string
  pa_Result :: RawMessage
  pa_FailureCode :: string

record RunJournal =
  j_RunID :: string
  j_Generation :: int
  j_RuntimeKey :: string
  j_RuntimeID :: string
  j_ClaimedRuntimeEpoch :: int
  j_ClaimID :: string
  j_LeaseToken :: string
  j_LeaseExpiresAt :: time
  j_LocalState :: string
  j_TerminalPendingAt :: time
  j_TerminalState :: string
  j_TerminalTaskResultKind :: string
  j_TerminalIntentDigest :: string
  j_TerminalCommandDigest :: string
  j_TerminalSettlementDigest :: string
  j_TerminalVerdict :: string
  j_TerminalResolvedAt :: time
  j_Work :: Work
  j_WorkspacePath :: string
  j_WorkspaceRecoveryRequired :: bool
  j_RetainWorkspace :: bool
  j_WorkspaceBindingKey :: string
  j_LinuxCloneIntent :: "LinuxCloneIntent option"
  j_LinuxCloneSeedReceipt :: "LinuxCloneSeedReceipt option"
  j_LinuxCloneCheckoutReceipt :: "LinuxCloneCheckoutReceipt option"
  j_LinuxClonePromotionIntent :: "LinuxClonePromotionIntent option"
  j_LinuxClonePromotionReceipt :: "LinuxClonePromotionReceipt option"
  j_LinuxCloneAbortPending :: bool
  j_LinuxCloneAbortProof :: "LinuxCloneAbortProof option"
  j_LinuxCloneCleanupPending :: bool
  j_LinuxCloneCleanupIntent :: "LinuxCloneCleanupIntent option"
  j_LinuxCloneTargetRemovalProof :: "LinuxCloneTargetRemovalProof option"
  j_LinuxCloneCleanupProof :: "LinuxCloneCleanupProof option"
  j_PID :: int
  j_ProcessIdentity :: string
  j_StartedAt :: time
  j_ContainmentAuthority :: "Supervisor option"
  j_ContainmentHandoff :: "SupervisorHandoff option"
  j_ContainmentCgroup :: "LinuxCgroupReservation option"
  j_ContainmentCgroupReleaseProof :: "SupervisorHandoffReleaseProof option"
  j_ContainmentCgroupPreGateReleaseProof :: "LinuxCgroupPreGateReleaseProof option"
  j_ContainmentScans :: "ContainmentScanJournal option"
  j_ContainmentUnproven :: bool
  j_LastEventSequence :: int
  j_PendingEvents :: "RunEvent list"
  j_DroppedOutputChunks :: int
  j_DroppedOutputBytes :: int
  j_PendingTransitions :: "StateTransitionRequest list"
  j_AttemptedTransitionIDs :: "string list"
  j_PendingCommandAcknowledgements :: "CommandAcknowledgement list"
  j_PendingGoalDeliveries :: "GoalDelivery list"
  j_DeliveredGoalDeliveries :: "GoalDelivery list"
  j_RetiredGoalDeliveries :: "GoalDeliveryRetirement list"
  j_GoalDeliveryEnabled :: bool
  j_NativeUsageObservation :: "NativeUsageObservation option"
  j_NativeUsageRecoveryRequired :: bool
  j_NativeUsageTerminalRecovery :: "NativeUsageTerminalRecovery option"
  j_InputCommandIntent :: "InputCommandIntent option"
  j_ControlCommandIntents :: "ControlCommandIntent list"
  j_ProviderActionIntents :: "ProviderActionIntent list"

subsection \<open>What the journal reads from outside\<close>

text \<open>\<^verbatim>\<open>protocol.ParseAdmissionInput\<close> ends in a third-party JSON-schema validator, so it is a
  parameter: an error, no admission, or an admission of which the journal code reads the
  purpose and the subject.\<close>

record Admission =
  ad_Purpose :: string
  ad_Subject :: Subject

type_synonym admission_parser = "RawMessage \<Rightarrow> Admission option result"

text \<open>The platform test \<^verbatim>\<open>runtime.GOOS == "linux" && runtime.GOARCH == "amd64"\<close>, the clock and the
  admission parser.\<close>

record Env =
  env_linux_amd64 :: bool
  env_now :: time
  env_ParseAdmissionInput :: admission_parser

subsection \<open>Identity and markers\<close>

definition journal_Key :: "RunJournal \<Rightarrow> RunKey" where
  "journal_Key j = \<lparr> k_RunID = j_RunID j, k_Generation = j_Generation j \<rparr>"

definition journal_Fence :: "RunJournal \<Rightarrow> Fence" where
  "journal_Fence j = \<lparr> f_RuntimeID = j_RuntimeID j, f_RuntimeEpoch = j_ClaimedRuntimeEpoch j,
     f_Generation = j_Generation j, f_ClaimID = j_ClaimID j, f_LeaseToken = j_LeaseToken j \<rparr>"

definition hasClaimGrant :: "RunJournal \<Rightarrow> bool" where
  "hasClaimGrant j = (\<not> blank (j_LeaseToken j) \<and> j_LeaseExpiresAt j \<noteq> 0)"

definition HasProcessDetails :: "RunJournal \<Rightarrow> bool" where
  "HasProcessDetails j = (j_PID j \<noteq> 0 \<or> j_ProcessIdentity j \<noteq> [] \<or> j_StartedAt j \<noteq> 0)"

definition HasPendingContainment :: "RunJournal \<Rightarrow> bool" where
  "HasPendingContainment j = (j_ContainmentAuthority j \<noteq> None \<or> j_ContainmentHandoff j \<noteq> None
     \<or> j_ContainmentScans j \<noteq> None \<or> opt_ex (\<lambda>r. lr_AbortProof r = None) (j_ContainmentCgroup j))"

definition HasPendingGoalDeliveries :: "RunJournal \<Rightarrow> bool" where
  "HasPendingGoalDeliveries j = (length (j_PendingGoalDeliveries j) \<noteq> 0)"

definition TerminalVerdictAccepted :: string where "TerminalVerdictAccepted = ''accepted''"
definition TerminalVerdictOwnershipLost :: string where "TerminalVerdictOwnershipLost = ''ownership_lost''"
definition TerminalVerdictGraceExpired :: string where "TerminalVerdictGraceExpired = ''terminal_grace_expired''"

definition IsConclusiveTerminalVerdict :: "string \<Rightarrow> bool" where
  "IsConclusiveTerminalVerdict v = (v = TerminalVerdictOwnershipLost \<or> v = TerminalVerdictGraceExpired)"

definition validTerminalVerdict :: "string \<Rightarrow> bool" where
  "validTerminalVerdict v = (v = TerminalVerdictAccepted \<or> v = TerminalVerdictOwnershipLost \<or> v = TerminalVerdictGraceExpired)"

definition CommandAcknowledgementRetired :: "RunJournal \<Rightarrow> bool" where
  "CommandAcknowledgementRetired j = (j_LocalState j = ''cleanup_pending''
     \<or> (j_LocalState j = ''terminal_pending'' \<and> IsConclusiveTerminalVerdict (j_TerminalVerdict j)))"

definition isTerminalTransitionState :: "string \<Rightarrow> bool" where
  "isTerminalTransitionState s = (s = ''completed'' \<or> s = ''failed'' \<or> s = ''cancelled'')"

definition hasPendingTerminalTransition :: "StateTransitionRequest list \<Rightarrow> bool" where
  "hasPendingTerminalTransition ts = list_ex (\<lambda>t. isTerminalTransitionState (tr_State t)) ts"

fun pendingTerminalState :: "StateTransitionRequest list \<Rightarrow> string" where
  "pendingTerminalState [] = []"
| "pendingTerminalState (t # ts) = (if isTerminalTransitionState (tr_State t) then tr_State t else pendingTerminalState ts)"

definition validTaskResultKind :: "string \<Rightarrow> bool" where
  "validTaskResultKind k = (k \<in> {''progress'', ''candidate_completion'', ''blocked'', ''repair_required'', ''replan_required'',
     ''failed'', ''plan_proposed''})"

subsection \<open>Containment scans\<close>

definition scans_clean :: "ContainmentScanJournal \<Rightarrow> bool" where
  "scans_clean s = (sg_PendingSequence (cs_Helper s) = 0 \<and> sg_CleanResultSequence (cs_Helper s) = 0
     \<and> sg_UnprovenSequence (cs_Helper s) = 0 \<and> sg_CompletedSequence (cs_Helper s) > 0
     \<and> sg_PendingSequence (cs_Mirror s) = 0 \<and> sg_CleanResultSequence (cs_Mirror s) = 0
     \<and> sg_UnprovenSequence (cs_Mirror s) = 0 \<and> sg_CompletedSequence (cs_Mirror s) > 0)"

definition progress_sealed :: "ContainmentScanProgress \<Rightarrow> bool" where
  "progress_sealed p = (sg_CompletedSequence p > 0 \<and> sg_SealedSequence p = sg_CompletedSequence p
     \<and> sg_PendingSequence p = 0 \<and> sg_CleanResultSequence p = 0 \<and> sg_UnprovenSequence p = 0 \<and> sg_FailureKind p = [])"

definition scans_sealed :: "ContainmentScanJournal \<Rightarrow> bool" where
  "scans_sealed s = (progress_sealed (cs_Helper s) \<and> progress_sealed (cs_Mirror s))"

definition matchesHandoff :: "ContainmentScanJournal \<Rightarrow> SupervisorHandoff \<Rightarrow> bool" where
  "matchesHandoff s h = (cs_Version s = 1 \<and> cs_LaunchToken s = ho_LaunchToken h \<and> cs_TargetPID s = ho_TargetPID h
     \<and> cs_TargetIdentity s = ho_TargetIdentity h \<and> cs_SupervisorPID s = ho_SupervisorPID h
     \<and> cs_SupervisorIdentity s = ho_SupervisorIdentity h)"

definition matchesAuthority :: "ContainmentScanJournal \<Rightarrow> Supervisor \<Rightarrow> bool" where
  "matchesAuthority s v = (cs_Version s = 1 \<and> cs_LaunchToken s = su_LaunchToken v \<and> cs_TargetPID s = su_TargetPID v
     \<and> cs_TargetIdentity s = su_TargetIdentity v \<and> cs_SupervisorPID s = su_SupervisorPID v
     \<and> cs_SupervisorIdentity s = su_SupervisorIdentity v)"

definition ContainmentObservationUnresolved :: "RunJournal \<Rightarrow> bool" where
  "ContainmentObservationUnresolved j = (case j_ContainmentCgroup j of
     Some c \<Rightarrow>
       (if lr_AbortProof c \<noteq> None then False
        else if opt_ex (\<lambda>r. linuxCgroupPreGateReceiptMatchesReservation c r) (lr_PreGateStopReceipt c) then False
        else if opt_ex (\<lambda>a. su_Version a = 2 \<and> opt_ex (\<lambda>r. StopReceipt_ValidFor r a) (su_StopReceipt a)) (j_ContainmentAuthority j) then False
        else if opt_ex (\<lambda>h. ho_Version h = 2 \<and> opt_ex (\<lambda>r. StopReceipt_ValidForHandoff r h) (ho_StopReceipt h)) (j_ContainmentHandoff j) then False
        else True)
   | None \<Rightarrow>
       (if j_ContainmentUnproven j then True
        else (case j_ContainmentScans j of
            Some s \<Rightarrow> \<not> scans_sealed s
          | None \<Rightarrow> opt_ex (\<lambda>a. su_OwnerKind a = OwnerKindLinuxHelper) (j_ContainmentAuthority j)
              \<or> opt_ex (\<lambda>h. ho_OwnerKind h = OwnerKindLinuxHelper \<and> ho_SupervisorPID h > 0) (j_ContainmentHandoff j))))"

definition RecoveryHelperScanSealEligible :: "RunJournal \<Rightarrow> bool" where
  "RecoveryHelperScanSealEligible j =
     (if j_ContainmentCgroup j \<noteq> None \<or> j_ContainmentUnproven j
         \<or> \<not> opt_ex (\<lambda>a. su_OwnerKind a = OwnerKindLinuxHelper \<and> su_StopReceipt a = None
              \<and> opt_ex (\<lambda>s. matchesAuthority s a \<and> progress_sealed (cs_Mirror s)) (j_ContainmentScans j)) (j_ContainmentAuthority j)
      then False
      else opt_ex (\<lambda>s. let p = cs_Helper s in sg_CompletedSequence p > 0 \<and> sg_CompletedSequence p \<noteq> - 1
        \<and> sg_PendingSequence p = 0 \<and> sg_CleanResultSequence p = 0 \<and> sg_SealedSequence p = 0 \<and> sg_UnprovenSequence p = 0
        \<and> sg_FailureKind p = []) (j_ContainmentScans j))"

subsection \<open>Native usage\<close>

definition NativeUsageObservation_Validate :: "NativeUsageObservation \<Rightarrow> gerror option" where
  "NativeUsageObservation_Validate ob = checks [
     (nu_SchemaVersion ob \<noteq> 1 \<or> nu_ObservedAt ob = 0 \<or> nu_InputTokens ob < 0 \<or> nu_OutputTokens ob < 0
      \<or> nu_CachedInputTokens ob < 0 \<or> nu_ReasoningOutputTokens ob < 0 \<or> nu_TotalTokens ob < 0, ''native usage observation is invalid'')]"

definition Covers :: "NativeUsageObservation \<Rightarrow> NativeUsageObservation \<Rightarrow> bool" where
  "Covers ob expected = (nu_InputTokens ob \<ge> nu_InputTokens expected \<and> nu_OutputTokens ob \<ge> nu_OutputTokens expected
     \<and> nu_CachedInputTokens ob \<ge> nu_CachedInputTokens expected \<and> nu_ReasoningOutputTokens ob \<ge> nu_ReasoningOutputTokens expected
     \<and> nu_TotalTokens ob \<ge> nu_TotalTokens expected)"

definition nativeUsageObservationRegresses :: "NativeUsageObservation \<Rightarrow> NativeUsageObservation \<Rightarrow> bool" where
  "nativeUsageObservationRegresses previous nxt =
     (if \<not> Covers nxt previous then True else Covers previous nxt \<and> nu_ObservedAt nxt < nu_ObservedAt previous)"

definition validCommandAcknowledgementOutcome :: "string \<Rightarrow> bool" where
  "validCommandAcknowledgementOutcome s = (s = ''applied'' \<or> s = ''rejected'' \<or> s = ''failed'')"

definition validNativeUsageTerminalRecovery :: "NativeUsageTerminalRecovery option \<Rightarrow> bool" where
  "validNativeUsageTerminalRecovery s = (case s of None \<Rightarrow> True
     | Some r \<Rightarrow>
        if \<not> isTerminalTransitionState (nt_State r) \<or> \<not> validRawMessage (nt_Payload r) then False
        else if nt_CommandID r = [] then nt_CommandOutcome r = []
        else validRequiredString (nt_CommandID r) 4096 \<and> validCommandAcknowledgementOutcome (nt_CommandOutcome r))"

end
