(* ===== verification/Provider.thy ===== *)
theory Provider
  imports Journal
begin

text \<open>
  Provider actions (\<^verbatim>\<open>internal/state/provider_action.go\<close>): the identity and completion of an action
  intent, the semantic normal form of a result, the capacity reserved for unresolved
  dispatches, and the journal operations that prepare, complete and recover actions.

  The serialised size of a whole journal is a function of the caller (\<open>size_of\<close> below): it stands
  for the length of \<^verbatim>\<open>serializeRunJournal\<close>, with \<^const>\<open>None\<close> for an encoding error.
\<close>

definition maxJournalFileBytes :: int where "maxJournalFileBytes = 4 * 2 ^ 20"
definition maxProviderActionBytes :: int where "maxProviderActionBytes = maxJournalFileBytes div 2"
definition maxProviderActionResultBytes :: int where "maxProviderActionResultBytes = 64 * 2 ^ 10"

definition ProviderActionOutcomeSucceeded :: string where "ProviderActionOutcomeSucceeded = ''succeeded''"
definition ProviderActionOutcomeFailed :: string where "ProviderActionOutcomeFailed = ''failed''"
definition ProviderActionOutcomeUnknown :: string where "ProviderActionOutcomeUnknown = ''unknown''"

definition ErrProviderActionConflict :: gerror where "ErrProviderActionConflict = Err ''provider action conflicts with journal''"
definition errProviderActionIntentNotFound :: gerror where
  "errProviderActionIntentNotFound = Err ''provider action intent does not match journal''"
definition ErrProviderActionNotAllowed :: gerror where
  "ErrProviderActionNotAllowed = Err ''provider action is not allowed in journal state''"
definition ErrProviderActionCapacity :: gerror where
  "ErrProviderActionCapacity = Err ''provider action capacity is exhausted''"

subsection \<open>Results\<close>

text \<open>Member order and number tokens are kept; strings are decoded and written again.  The
  separator normalisation is the same code as the one of the canonical encoder.\<close>

definition encodeProviderActionJSONString :: "string \<Rightarrow> string" where
  "encodeProviderActionJSONString v = normalizeJSONStringLineSeparators (marshal_string False v)"

fun encodeProviderActionJSONValue :: "json \<Rightarrow> string" where
  "encodeProviderActionJSONValue JNull = ''null''"
| "encodeProviderActionJSONValue (JBool b) = (if b then ''true'' else ''false'')"
| "encodeProviderActionJSONValue (JNum t) = t"
| "encodeProviderActionJSONValue (JStr raw) = encodeProviderActionJSONString (unquote_string raw)"
| "encodeProviderActionJSONValue (JArr vs) = ''['' @ intercalate '','' (map encodeProviderActionJSONValue vs) @ '']''"
| "encodeProviderActionJSONValue (JObj ms) = ''{'' @ intercalate '','' (map (\<lambda>(k, v).
     encodeProviderActionJSONString (unquote_string k) @ '':'' @ encodeProviderActionJSONValue v) ms) @ ''}''"

definition normalizeProviderActionResult :: "RawMessage \<Rightarrow> bytes result" where
  "normalizeProviderActionResult m = (let b = rm_bytes m in
     if b = [] \<or> \<not> json_Valid b \<or> RejectDuplicateJSONMembers b \<noteq> None then Inl (Err ''provider action result is invalid JSON'')
     else (case parse_json b of Some (JObj ms) \<Rightarrow> Inr (encodeProviderActionJSONValue (JObj ms))
           | _ \<Rightarrow> Inl (Err ''provider action result must be a JSON object'')))"

definition providerActionResultsEqual :: "RawMessage \<Rightarrow> RawMessage \<Rightarrow> bool" where
  "providerActionResultsEqual l r =
     (if rm_bytes l = rm_bytes r then True
      else if rm_bytes l = [] \<or> rm_bytes r = [] then False
      else (case normalizeProviderActionResult l of Inl _ \<Rightarrow> False
        | Inr x \<Rightarrow> (case normalizeProviderActionResult r of Inl _ \<Rightarrow> False | Inr y \<Rightarrow> x = y)))"

definition validProviderActionResult :: "RawMessage \<Rightarrow> bool" where
  "validProviderActionResult m = (if rm_bytes m = [] then False
     else (case normalizeProviderActionResult m of Inl _ \<Rightarrow> False | Inr n \<Rightarrow> int (length n) \<le> maxProviderActionResultBytes))"

text \<open>The raw result as the journal serialiser writes it.\<close>

definition ValidateNewProviderActionResult :: "RawMessage \<Rightarrow> gerror option" where
  "ValidateNewProviderActionResult m =
     (if \<not> validProviderActionResult m then Some (Err ''provider action result is invalid'')
      else (case marshal_raw False m of None \<Rightarrow> Some ErrProviderActionCapacity
        | Some p \<Rightarrow> if int (length p) > maxProviderActionResultBytes then Some ErrProviderActionCapacity else None))"

subsection \<open>Intents\<close>

definition sameProviderActionIdentity :: "ProviderActionIntent \<Rightarrow> ProviderActionIntent \<Rightarrow> bool" where
  "sameProviderActionIdentity l r = (pa_ActionID l = pa_ActionID r \<and> pa_ActionKey l = pa_ActionKey r
     \<and> pa_RequestDigest l = pa_RequestDigest r \<and> pa_ResourceID l = pa_ResourceID r \<and> pa_Operation l = pa_Operation r)"

definition sameProviderActionIntent :: "ProviderActionIntent \<Rightarrow> ProviderActionIntent \<Rightarrow> bool" where
  "sameProviderActionIntent l r = (sameProviderActionIdentity l r \<and> pa_Outcome l = pa_Outcome r
     \<and> providerActionResultsEqual (pa_Result l) (pa_Result r) \<and> pa_FailureCode l = pa_FailureCode r)"

definition validProviderActionOperation :: "string \<Rightarrow> bool" where
  "validProviderActionOperation s = (s = ''resource.sync'' \<or> s = ''change.upsert'' \<or> s = ''change.update'')"

definition validProviderActionIdentity :: "ProviderActionIntent \<Rightarrow> bool" where
  "validProviderActionIdentity i = (validRequiredString (pa_ActionID i) 256 \<and> validRequiredString (pa_ActionKey i) 256
     \<and> length (pa_RequestDigest i) = 64 \<and> state_validHex (pa_RequestDigest i)
     \<and> validRequiredString (pa_ResourceID i) 256 \<and> validProviderActionOperation (pa_Operation i))"

definition validPreparedProviderAction :: "ProviderActionIntent \<Rightarrow> bool" where
  "validPreparedProviderAction i = (validProviderActionIdentity i \<and> pa_Outcome i = [] \<and> rm_bytes (pa_Result i) = [] \<and> pa_FailureCode i = [])"

definition validCompletedProviderAction :: "ProviderActionIntent \<Rightarrow> bool" where
  "validCompletedProviderAction i =
    (if \<not> validProviderActionIdentity i then False
     else if pa_Outcome i = ProviderActionOutcomeSucceeded then validProviderActionResult (pa_Result i) \<and> pa_FailureCode i = []
     else if pa_Outcome i = ProviderActionOutcomeFailed then rm_bytes (pa_Result i) = [] \<and> validRequiredString (pa_FailureCode i) 256
     else if pa_Outcome i = ProviderActionOutcomeUnknown then
       (rm_bytes (pa_Result i) = [] \<or> validProviderActionResult (pa_Result i)) \<and> validRequiredString (pa_FailureCode i) 256
     else False)"

definition hasUnresolvedProviderActions :: "RunJournal \<Rightarrow> bool" where
  "hasUnresolvedProviderActions j = list_ex (\<lambda>i. pa_Outcome i = []) (j_ProviderActionIntents j)"

fun provider_intent_loop :: "bool \<Rightarrow> string list \<Rightarrow> string list \<Rightarrow> ProviderActionIntent list \<Rightarrow> gerror option" where
  "provider_intent_loop terminal keys ids [] = None"
| "provider_intent_loop terminal keys ids (i # is) =
     then_err (checks [
       (\<not> (validPreparedProviderAction i \<or> validCompletedProviderAction i), ''run journal provider action intent is invalid''),
       (pa_ActionKey i \<in> set keys, ''run journal provider action key is duplicated''),
       (pa_ActionID i \<in> set ids, ''run journal provider action ID is duplicated''),
       (terminal \<and> pa_Outcome i = [], ''terminal run journal has an unresolved provider action'')])
     (provider_intent_loop terminal (pa_ActionKey i # keys) (pa_ActionID i # ids) is)"

definition validateProviderActionIntents :: "RunJournal \<Rightarrow> gerror option" where
  "validateProviderActionIntents j =
     then_err (checks [(\<not> hasClaimGrant j \<and> length (j_ProviderActionIntents j) \<noteq> 0, ''run journal provider action intents are invalid'')])
     (provider_intent_loop (j_LocalState j = ''terminal_pending'' \<or> j_LocalState j = ''cleanup_pending'') [] [] (j_ProviderActionIntents j))"

subsection \<open>Capacity\<close>

text \<open>The largest legal completion.  Its result is not expanded here: only its length and its
  being plain text matter.\<close>

definition maxProviderActionResult :: RawMessage where
  "maxProviderActionResult = (let q = [CHR 0x22] in
     Some (''{'' @ q @ ''payload'' @ q @ '':'' @ q @ replicate (nat maxProviderActionResultBytes - 14) (CHR ''x'') @ q @ ''}''))"

definition maxProviderFailureCodeForCapacity :: string where
  "maxProviderFailureCodeForCapacity = replicate 256 (CHR 0x00)"

definition reserveCompletion :: "ProviderActionIntent \<Rightarrow> ProviderActionIntent" where
  "reserveCompletion i = (if pa_Outcome i \<noteq> [] then i
     else i\<lparr> pa_Outcome := ProviderActionOutcomeUnknown, pa_Result := maxProviderActionResult,
            pa_FailureCode := maxProviderFailureCodeForCapacity \<rparr>)"

definition reservedJournal :: "RunJournal \<Rightarrow> RunJournal" where
  "reservedJournal j = j\<lparr> j_ProviderActionIntents := map reserveCompletion (j_ProviderActionIntents j) \<rparr>"

definition validateProviderActionJournalSize :: "(RunJournal \<Rightarrow> int option) \<Rightarrow> RunJournal \<Rightarrow> gerror option" where
  "validateProviderActionJournalSize size_of j = (case size_of j of None \<Rightarrow> Some ErrProviderActionCapacity
     | Some n \<Rightarrow> if n > maxJournalFileBytes then Some ErrProviderActionCapacity else None)"

text \<open>One intent as the journal serialiser writes it.\<close>

definition provider_intent_members :: "ProviderActionIntent \<Rightarrow> (string \<times> string) list option" where
  "provider_intent_members i = (let s = marshal_string False in
     case (if rm_bytes (pa_Result i) = [] then Some [] else map_option (\<lambda>e. [(''result'', e)]) (marshal_raw False (pa_Result i))) of
       None \<Rightarrow> None
     | Some res \<Rightarrow> Some ([(''action_id'', s (pa_ActionID i)), (''action_key'', s (pa_ActionKey i)),
         (''request_digest'', s (pa_RequestDigest i)), (''resource_id'', s (pa_ResourceID i)), (''operation'', s (pa_Operation i))]
         @ (if pa_Outcome i = [] then [] else [(''outcome'', s (pa_Outcome i))]) @ res
         @ (if pa_FailureCode i = [] then [] else [(''failure_code'', s (pa_FailureCode i))])))"

definition serialize_provider_intent :: "ProviderActionIntent \<Rightarrow> string option" where
  "serialize_provider_intent i = map_option json_object (provider_intent_members i)"

fun all_some :: "'a option list \<Rightarrow> 'a list option" where
  "all_some [] = Some []"
| "all_some (x # xs) = (case x of None \<Rightarrow> None | Some v \<Rightarrow> map_option ((#) v) (all_some xs))"

definition serialize_provider_intents :: "ProviderActionIntent list \<Rightarrow> string option" where
  "serialize_provider_intents is =
     map_option (\<lambda>es. ''['' @ intercalate '','' es @ '']'') (all_some (map serialize_provider_intent is))"

definition validateProviderActionDispatchCapacity :: "(RunJournal \<Rightarrow> int option) \<Rightarrow> RunJournal \<Rightarrow> gerror option" where
  "validateProviderActionDispatchCapacity size_of j =
    (case serialize_provider_intents (j_ProviderActionIntents j) of
       None \<Rightarrow> Some ErrProviderActionCapacity
     | Some d \<Rightarrow> if int (length d) > maxProviderActionBytes then Some ErrProviderActionCapacity
                 else validateProviderActionJournalSize size_of (reservedJournal j))"

definition validateJournalSaveCapacity :: "(RunJournal \<Rightarrow> int option) \<Rightarrow> RunJournal \<Rightarrow> gerror option" where
  "validateJournalSaveCapacity size_of j =
     then_err (validateProviderActionJournalSize size_of j)
      (if \<not> hasUnresolvedProviderActions j then None
       else validateProviderActionJournalSize size_of (reservedJournal j))"

subsection \<open>Operations\<close>

text \<open>Copying a result with \<^verbatim>\<open>append(json.RawMessage(nil), result...)\<close> leaves nil for an empty one.\<close>

definition copy_raw :: "RawMessage \<Rightarrow> RawMessage" where
  "copy_raw m = (if rm_bytes m = [] then None else m)"

definition cloneProviderActionIntent :: "ProviderActionIntent \<Rightarrow> ProviderActionIntent" where
  "cloneProviderActionIntent i = i\<lparr> pa_Result := copy_raw (pa_Result i) \<rparr>"

definition providerActionDispatchAllowed :: "string \<Rightarrow> bool" where
  "providerActionDispatchAllowed s = (s = ''claimed'' \<or> s = ''running'' \<or> s = ''waiting_for_input'')"

text \<open>The journal part of \<^verbatim>\<open>PrepareProviderAction\<close>: the journal to return and whether the action is
  new, in which case the journal is saved and the caller dispatches.\<close>

definition PrepareProviderAction :: "(RunJournal \<Rightarrow> int option) \<Rightarrow> ProviderActionIntent \<Rightarrow> RunJournal \<Rightarrow> (RunJournal \<times> bool) result" where
  "PrepareProviderAction size_of intent j =
    (if \<not> validPreparedProviderAction intent then Inl (Err ''provider action intent is invalid'')
     else (case find (\<lambda>c. pa_ActionKey c = pa_ActionKey intent \<or> pa_ActionID c = pa_ActionID intent) (j_ProviderActionIntents j) of
       Some current \<Rightarrow> if \<not> sameProviderActionIdentity current intent then Inl ErrProviderActionConflict else Inr (j, False)
     | None \<Rightarrow>
       if \<not> hasClaimGrant j \<or> \<not> providerActionDispatchAllowed (j_LocalState j) then Inl ErrProviderActionNotAllowed
       else (let candidate = j\<lparr> j_ProviderActionIntents := j_ProviderActionIntents j @ [cloneProviderActionIntent intent] \<rparr>
             in on_err (validateProviderActionDispatchCapacity size_of candidate) (Inr (candidate, True)))))"

text \<open>Replacing the first intent with a given action ID, as the index loops do.\<close>

fun update_intent :: "string \<Rightarrow> (ProviderActionIntent \<Rightarrow> ProviderActionIntent) \<Rightarrow> ProviderActionIntent list \<Rightarrow> ProviderActionIntent list" where
  "update_intent aid f [] = []"
| "update_intent aid f (i # is) = (if pa_ActionID i = aid then f i # is else i # update_intent aid f is)"

definition CompleteProviderAction :: "(RunJournal \<Rightarrow> int option) \<Rightarrow> ProviderActionIntent \<Rightarrow> RunJournal \<Rightarrow> (RunJournal \<times> bool) result" where
  "CompleteProviderAction size_of completed j =
    (if \<not> validCompletedProviderAction completed then Inl (Err ''provider action completion is invalid'')
     else (case find (\<lambda>c. pa_ActionID c = pa_ActionID completed) (j_ProviderActionIntents j) of
       None \<Rightarrow> Inl errProviderActionIntentNotFound
     | Some current \<Rightarrow>
       if \<not> sameProviderActionIdentity current completed then Inl ErrProviderActionConflict
       else if pa_Outcome current \<noteq> [] then
         (if \<not> sameProviderActionIntent current completed then Inl ErrProviderActionConflict else Inr (j, False))
       else on_err (if pa_Outcome completed = ProviderActionOutcomeSucceeded
                       \<or> (pa_Outcome completed = ProviderActionOutcomeUnknown \<and> length (rm_bytes (pa_Result completed)) > 0)
                    then ValidateNewProviderActionResult (pa_Result completed) else None)
         (let j' = j\<lparr> j_ProviderActionIntents :=
                update_intent (pa_ActionID completed) (\<lambda>_. cloneProviderActionIntent completed) (j_ProviderActionIntents j) \<rparr>
          in on_err (validateProviderActionJournalSize size_of j') (Inr (j', True)))))"

definition settleUnknown :: "string \<Rightarrow> ProviderActionIntent \<Rightarrow> ProviderActionIntent" where
  "settleUnknown failureCode i = (if pa_Outcome i \<noteq> [] then i
     else i\<lparr> pa_Outcome := ProviderActionOutcomeUnknown, pa_Result := None, pa_FailureCode := failureCode \<rparr>)"

definition settleUnresolvedProviderActions :: "string \<Rightarrow> RunJournal \<Rightarrow> RunJournal \<times> bool" where
  "settleUnresolvedProviderActions failureCode j =
     (j\<lparr> j_ProviderActionIntents := map (settleUnknown failureCode) (j_ProviderActionIntents j) \<rparr>, hasUnresolvedProviderActions j)"

definition RecoverProviderActions :: "(RunJournal \<Rightarrow> int option) \<Rightarrow> string \<Rightarrow> RunJournal \<Rightarrow> (RunJournal \<times> bool) result" where
  "RecoverProviderActions size_of failureCode j =
    (if \<not> validRequiredString failureCode 256 then Inl (Err ''provider action recovery code is invalid'')
     else (let (j', changed) = settleUnresolvedProviderActions failureCode j
           in if changed then on_err (validateProviderActionJournalSize size_of j') (Inr (j', True)) else Inr (j', False)))"

definition RecoverProviderAction ::
  "(RunJournal \<Rightarrow> int option) \<Rightarrow> string \<Rightarrow> string \<Rightarrow> string \<Rightarrow> RunJournal \<Rightarrow> (RunJournal \<times> bool) result" where
  "RecoverProviderAction size_of actionID requestDigest failureCode j =
    (if \<not> validRequiredString actionID 256 \<or> length requestDigest \<noteq> 64 \<or> \<not> state_validHex requestDigest
        \<or> \<not> validRequiredString failureCode 256 then Inl (Err ''provider action recovery identity is invalid'')
     else (case find (\<lambda>c. pa_ActionID c = actionID) (j_ProviderActionIntents j) of
       None \<Rightarrow> Inl errProviderActionIntentNotFound
     | Some i \<Rightarrow>
       if pa_RequestDigest i \<noteq> requestDigest then Inl ErrProviderActionConflict
       else if pa_Outcome i \<noteq> [] then Inr (j, False)
       else (let j' = j\<lparr> j_ProviderActionIntents := update_intent actionID (settleUnknown failureCode) (j_ProviderActionIntents j) \<rparr>
             in on_err (validateProviderActionJournalSize size_of j') (Inr (j', True)))))"

end
