(* ===== verification/Journal_Clone.thy ===== *)
theory Journal_Clone
  imports Provider
begin

text \<open>
  The Linux clone evidence of a run journal (\<^verbatim>\<open>internal/state/state.go\<close>): the history each clone
  stage needs, the deterministic cleanup intent, \<^verbatim>\<open>validateLinuxCloneJournal\<close> and the two
  cleanup-eligibility predicates.
\<close>

definition linuxCloneCheckoutMatches :: "LinuxCloneIntent \<Rightarrow> LinuxCloneSeedReceipt \<Rightarrow> LinuxCloneCheckoutReceipt \<Rightarrow> bool" where
  "linuxCloneCheckoutMatches it seed r =
     (CheckoutReceipt_Validate r = None \<and> lc_RunID r = li_RunID it \<and> lc_Generation r = li_Generation it
      \<and> lc_BindingKey r = li_BindingKey it \<and> lc_ResourceID r = li_ResourceID it \<and> lc_Target r = li_Target it
      \<and> lc_Nonce r = li_Nonce it \<and> lc_SeedDigest r = ls_Digest seed \<and> lc_BaseCommit r = li_BaseCommit it
      \<and> ls_BaseCommit seed = li_BaseCommit it)"

definition linuxCloneCommittedGateReady :: "RunJournal \<Rightarrow> bool" where
  "linuxCloneCommittedGateReady j =
    (if j_LocalState j = ''terminal_pending'' \<or> j_LocalState j = ''cleanup_pending'' \<or> j_LocalState j = ''stale''
        \<or> \<not> HasProcessDetails j \<or> j_ContainmentUnproven j \<or> j_ContainmentHandoff j \<noteq> None then False
     else opt_ex (\<lambda>c. opt_ex (\<lambda>gate. opt_ex (\<lambda>owner.
        su_Version owner = 2 \<and> Supervisor_Validate owner = None \<and> su_StopReceipt owner = None
        \<and> linuxCgroupReservationMatchesAuthority c owner
        \<and> su_TargetPID owner = j_PID j \<and> su_TargetIdentity owner = j_ProcessIdentity j
        \<and> pi_PID (gi_Process gate) = j_PID j \<and> pi_Identity (gi_Process gate) = j_ProcessIdentity j)
      (j_ContainmentAuthority j)) (lr_Gate c)) (j_ContainmentCgroup j))"

definition linuxCloneStopProven :: "RunJournal \<Rightarrow> bool" where
  "linuxCloneStopProven j =
     (opt_ex (\<lambda>owner. su_Version owner = 2 \<and> opt_ex (\<lambda>r. StopReceipt_ValidFor r owner) (su_StopReceipt owner)) (j_ContainmentAuthority j)
      \<or> opt_ex (\<lambda>p. rp_Version p = 2 \<and> ReleaseProof_Validate p = None) (j_ContainmentCgroupReleaseProof j))"

definition linuxCloneAbortNoActiveOwner :: "RunJournal \<Rightarrow> bool" where
  "linuxCloneAbortNoActiveOwner j = (\<not> HasProcessDetails j \<and> j_ContainmentAuthority j = None \<and> j_ContainmentHandoff j = None
     \<and> j_ContainmentScans j = None \<and> \<not> j_ContainmentUnproven j \<and> \<not> HasPendingContainment j)"

definition linuxCloneAbortHistoryMatches :: "RunJournal \<Rightarrow> LinuxCloneAbortProof option \<Rightarrow> bool" where
  "linuxCloneAbortHistoryMatches j proof =
    (if \<not> linuxCloneAbortNoActiveOwner j \<or> opt_ex (\<lambda>p. la_NormalReleaseProof p \<noteq> None) proof then False
     else (let none = (j_ContainmentCgroup j = None \<and> j_ContainmentCgroupReleaseProof j = None
                       \<and> j_ContainmentCgroupPreGateReleaseProof j = None) in
       case proof of None \<Rightarrow> none
       | Some p \<Rightarrow>
         if la_CgroupAbortProof p \<noteq> None then
           la_PreGateReleaseProof p = None \<and> la_NormalReleaseProof p = None
           \<and> opt_ex (\<lambda>c. opt_ex (\<lambda>x. opt_ex (\<lambda>y. ReservationAbortProof_Equal x y \<and> linuxCgroupReservationAbortMatches c y)
                 (la_CgroupAbortProof p)) (lr_AbortProof c)) (j_ContainmentCgroup j)
           \<and> j_ContainmentCgroupReleaseProof j = None \<and> j_ContainmentCgroupPreGateReleaseProof j = None
         else if la_PreGateReleaseProof p \<noteq> None then
           j_ContainmentCgroup j = None \<and> j_ContainmentCgroupReleaseProof j = None
           \<and> opt_ex (\<lambda>x. opt_ex (\<lambda>y. PreGateReleaseProof_Equal x y) (la_PreGateReleaseProof p)) (j_ContainmentCgroupPreGateReleaseProof j)
         else none))"

definition linuxCloneAbortPendingReleaseUnresolved :: "RunJournal \<Rightarrow> bool" where
  "linuxCloneAbortPendingReleaseUnresolved j =
     (linuxCloneAbortNoActiveOwner j \<and> j_ContainmentCgroup j = None \<and> j_ContainmentCgroupPreGateReleaseProof j = None
      \<and> opt_ex (\<lambda>p. ReleaseProof_Validate p = None \<and> rp_Version p = 2 \<and> rp_StopReceipt p \<noteq> None) (j_ContainmentCgroupReleaseProof j))"

definition linuxCloneAbortFenceAvailable :: "RunJournal \<Rightarrow> bool" where
  "linuxCloneAbortFenceAvailable j =
    (if \<not> linuxCloneAbortNoActiveOwner j then False
     else if j_ContainmentCgroupReleaseProof j \<noteq> None then False
     else (case j_ContainmentCgroup j of
       Some c \<Rightarrow> opt_ex (\<lambda>p. lr_PreGateStopReceipt c = None \<and> lr_Gate c = None \<and> linuxCgroupReservationAbortMatches c p
           \<and> j_ContainmentCgroupPreGateReleaseProof j = None) (lr_AbortProof c)
     | None \<Rightarrow> (case j_ContainmentCgroupPreGateReleaseProof j of
         Some p \<Rightarrow> prp_Version p = 2 \<and> PreGateReleaseProof_Validate p = None
       | None \<Rightarrow> True)))"

definition linuxCloneStageCanAdvance :: "RunJournal \<Rightarrow> bool" where
  "linuxCloneStageCanAdvance j = (j_LocalState j \<noteq> ''terminal_pending'' \<and> j_LocalState j \<noteq> ''cleanup_pending''
     \<and> j_LocalState j \<noteq> ''stale'' \<and> \<not> j_LinuxCloneAbortPending j \<and> j_LinuxCloneAbortProof j = None)"

definition admitted_subject_matches :: "admission_parser \<Rightarrow> RunJournal \<Rightarrow> LinuxCloneIntent \<Rightarrow> bool" where
  "admitted_subject_matches adm j it = (case adm (w_Input (j_Work j)) of
     Inr (Some a) \<Rightarrow> Subject_Validate (ad_Subject a) = None \<and> sj_ResourceID (ad_Subject a) = li_ResourceID it
        \<and> sj_Commit (ad_Subject a) = li_BaseCommit it \<and> sj_TreeDigest (ad_Subject a) = li_BaseTreeDigest it
   | _ \<Rightarrow> False)"

definition requireLinuxCloneJournalFenceSubject :: "admission_parser \<Rightarrow> RunJournal \<Rightarrow> LinuxCloneIntent \<Rightarrow> gerror option" where
  "requireLinuxCloneJournalFenceSubject adm j it = checks [
     (\<not> admitted_subject_matches adm j it, ''admitted Subject does not match Linux clone intent'')]"

definition requireLinuxCloneJournalFence :: "admission_parser \<Rightarrow> RunJournal \<Rightarrow> Fence \<Rightarrow> LinuxCloneIntent \<Rightarrow> gerror option" where
  "requireLinuxCloneJournalFence adm j fence it = checks [
     (LinuxCloneIntent_Validate it \<noteq> None \<or> li_RunID it \<noteq> j_RunID j \<or> li_Generation it \<noteq> j_Generation j
      \<or> journal_Fence j \<noteq> fence \<or> \<not> hasClaimGrant j, ''Linux clone RunKey or fence is stale''),
     (li_BindingKey it \<noteq> j_WorkspaceBindingKey j, ''Linux clone binding key does not match the journal''),
     (\<not> admitted_subject_matches adm j it, ''Linux clone intent does not match the current admitted Subject'')]"

subsection \<open>The delivered artifact and the cleanup intent\<close>

record linuxCloneArtifactReceipt =
  ar_EvidenceID :: string
  ar_EvidenceKey :: string
  ar_SubjectHash :: string
  ar_DeliveryDigest :: string

definition artifactDelivery :: "RunJournal \<Rightarrow> Subject \<Rightarrow> string \<Rightarrow> GoalDelivery \<Rightarrow> linuxCloneArtifactReceipt option" where
  "artifactDelivery j subject subjectHash d = (case gd_Evidence d of None \<Rightarrow> None
     | Some e \<Rightarrow>
       if gd_Kind d = GoalDeliveryEvidence \<and> gd_Ready d \<and> gd_Fence d = journal_Fence j
          \<and> gd_DeliveryID d = e_EvidenceKey e \<and> validGoalDeliveryDigest (gd_PayloadDigest d)
          \<and> Evidence_Validate e = None \<and> e_RunID e = j_RunID j \<and> e_Kind e = EvidenceArtifact
          \<and> e_Subject e = subject \<and> e_SubjectHash e = subjectHash
       then (case prepareGoalDelivery (j_RunID j) (d\<lparr> gd_PayloadDigest := [] \<rparr>) of
           Inl _ \<Rightarrow> None
         | Inr c \<Rightarrow> if gd_PayloadDigest c \<noteq> gd_PayloadDigest d then None
             else Some \<lparr> ar_EvidenceID = e_EvidenceID e, ar_EvidenceKey = e_EvidenceKey e,
                         ar_SubjectHash = e_SubjectHash e, ar_DeliveryDigest = gd_PayloadDigest d \<rparr>)
       else None)"

fun first_some :: "('a \<Rightarrow> 'b option) \<Rightarrow> 'a list \<Rightarrow> 'b option" where
  "first_some f [] = None"
| "first_some f (x # xs) = (case f x of Some y \<Rightarrow> Some y | None \<Rightarrow> first_some f xs)"

definition linuxCloneDeliveredArtifactIdentity :: "admission_parser \<Rightarrow> RunJournal \<Rightarrow> linuxCloneArtifactReceipt option" where
  "linuxCloneDeliveredArtifactIdentity adm j = (case j_LinuxClonePromotionIntent j of None \<Rightarrow> None
     | Some it \<Rightarrow>
       if \<not> j_GoalDeliveryEnabled j \<or> j_TerminalState j \<noteq> ''completed'' \<or> j_TerminalTaskResultKind j \<noteq> ''candidate_completion'' then None
       else (case adm (w_Input (j_Work j)) of
         Inr (Some a) \<Rightarrow>
           if ad_Purpose a \<noteq> ''implement'' \<or> sj_ResourceID (ad_Subject a) \<noteq> ln_ResourceID it then None
           else (let subject = \<lparr> sj_ResourceID = ln_ResourceID it, sj_Commit = ln_Commit it, sj_TreeDigest = ln_TreeDigest it \<rparr> in
             case Subject_Hash subject of Inl _ \<Rightarrow> None
             | Inr h \<Rightarrow> first_some (artifactDelivery j subject h) (j_DeliveredGoalDeliveries j))
       | _ \<Rightarrow> None))"

definition linuxCloneExactArtifactDelivered :: "admission_parser \<Rightarrow> RunJournal \<Rightarrow> bool" where
  "linuxCloneExactArtifactDelivered adm j = (linuxCloneDeliveredArtifactIdentity adm j \<noteq> None)"

definition linuxCloneArtifactReceiptRequired :: "admission_parser \<Rightarrow> RunJournal \<Rightarrow> bool" where
  "linuxCloneArtifactReceiptRequired adm j =
    (if \<not> j_GoalDeliveryEnabled j \<or> j_TerminalState j \<noteq> ''completed'' then False
     else (case adm (w_Input (j_Work j)) of
       Inr (Some a) \<Rightarrow>
         if ad_Purpose a \<noteq> ''implement'' then False
         else if j_TerminalTaskResultKind j = ''candidate_completion'' then
           \<not> list_ex (\<lambda>d. gd_Kind d = GoalDeliveryEvidence \<and> opt_ex (\<lambda>e. e_Kind e = EvidenceArtifact) (gd_Evidence d))
               (j_DeliveredGoalDeliveries j)
         else \<not> (validTaskResultKind (j_TerminalTaskResultKind j))
     | _ \<Rightarrow> True))"

definition linuxCloneCleanupIntentFromJournal :: "admission_parser \<Rightarrow> RunJournal \<Rightarrow> LinuxCloneCleanupIntent result" where
  "linuxCloneCleanupIntentFromJournal adm j =
    (case (j_LinuxCloneIntent j, j_LinuxCloneSeedReceipt j, j_LinuxCloneCheckoutReceipt j, j_LinuxClonePromotionIntent j,
           j_LinuxClonePromotionReceipt j, j_ContainmentCgroupReleaseProof j) of
       (Some it, Some seed, Some checkout, Some pint, Some prec, Some rel) \<Rightarrow>
         bind_r (LinuxCloneWorkspaceRoot it) (\<lambda>root.
         bind_r (LinuxCloneBaseRef (j_RunID j) (j_Generation j)) (\<lambda>baseRef.
         let fenceDigest = ''sha256:'' @ sha_hex (print_json False (Fence_json (journal_Fence j))) in
         case linuxCloneDeliveredArtifactIdentity adm j of
           None \<Rightarrow> Inl (Err ''exact promoted candidate artifact delivery is missing'')
         | Some a \<Rightarrow>
           let cleanup = \<lparr> lk_Version = 2, lk_Intent = it, lk_FenceDigest = fenceDigest, lk_RootPath = root, lk_BaseRef = baseRef,
             lk_SeedReceipt = seed, lk_CheckoutReceipt = checkout, lk_PromotionIntent = pint, lk_PromotionReceipt = prec,
             lk_NormalReleaseProof = rel, lk_ArtifactEvidenceID = ar_EvidenceID a, lk_ArtifactEvidenceKey = ar_EvidenceKey a,
             lk_ArtifactSubjectHash = ar_SubjectHash a, lk_ArtifactDeliveryDigest = ar_DeliveryDigest a \<rparr>
           in on_err (CleanupIntent_Validate cleanup) (Inr cleanup)))
     | _ \<Rightarrow> Inl (Err ''Linux clone cleanup intent lacks complete promotion and release evidence''))"

definition linuxCloneCleanupIntentMatchesJournal :: "admission_parser \<Rightarrow> RunJournal \<Rightarrow> LinuxCloneCleanupIntent \<Rightarrow> bool" where
  "linuxCloneCleanupIntentMatchesJournal adm j expected = (case linuxCloneCleanupIntentFromJournal adm j of
     Inl _ \<Rightarrow> False | Inr actual \<Rightarrow> CleanupIntent_Equal actual expected)"

subsection \<open>Validation of the clone stages\<close>

definition clone_cleanup_evidence :: "RunJournal \<Rightarrow> bool" where
  "clone_cleanup_evidence j = (j_LinuxCloneCleanupPending j \<or> j_LinuxCloneCleanupIntent j \<noteq> None
     \<or> j_LinuxCloneTargetRemovalProof j \<noteq> None \<or> j_LinuxCloneCleanupProof j \<noteq> None)"

text \<open>The abort branch: pending, then complete.\<close>

definition validate_clone_abort :: "RunJournal \<Rightarrow> LinuxCloneIntent \<Rightarrow> gerror option" where
  "validate_clone_abort j it =
     then_err (checks [
       (j_LinuxCloneCheckoutReceipt j \<noteq> None \<or> j_LinuxClonePromotionIntent j \<noteq> None \<or> j_LinuxClonePromotionReceipt j \<noteq> None,
        ''run journal Linux clone abort state is invalid''),
       (clone_cleanup_evidence j, ''run journal clone abort conflicts with normal cleanup'')])
    (if j_LinuxCloneAbortPending j then checks [
       (\<not> linuxCloneAbortFenceAvailable j \<and> \<not> linuxCloneAbortPendingReleaseUnresolved j,
        ''run journal Linux clone abort lost its producer fence''),
       (j_WorkspacePath j \<noteq> li_Target it \<or> \<not> j_WorkspaceRecoveryRequired j,
        ''run journal pending clone abort lost its reserved target'')]
     else (case j_LinuxCloneAbortProof j of None \<Rightarrow> Some Panic
       | Some p \<Rightarrow>
         then_err (checks [
           (LinuxCloneAbortProof_ValidateForJournal p \<noteq> None \<or> \<not> LinuxCloneIntent_Equal (la_Intent p) it
            \<or> j_WorkspacePath j \<noteq> [] \<or> j_WorkspaceRecoveryRequired j, ''run journal Linux clone abort proof is invalid'')])
        (then_err (case la_NormalReleaseProof p of
            Some n \<Rightarrow> checks [
              (\<not> linuxCloneAbortPendingReleaseUnresolved j
               \<or> \<not> opt_ex (\<lambda>r. ReleaseProof_Equal r n) (j_ContainmentCgroupReleaseProof j),
               ''legacy normal-release Linux clone abort remains unresolved'')]
          | None \<Rightarrow> checks [
              (\<not> linuxCloneAbortHistoryMatches j (Some p), ''run journal Linux clone abort proof lacks exact no-gate history'')])
        (checks [
           (opt_ex (\<lambda>s. \<not> opt_ex (\<lambda>t. SeedReceipt_Equal s t) (la_SeedReceipt p)) (j_LinuxCloneSeedReceipt j),
            ''run journal Linux clone abort proof lost its bound seed receipt'')]))))"

text \<open>After a promotion receipt: the cleanup stages.\<close>

definition validate_clone_cleanup :: "admission_parser \<Rightarrow> RunJournal \<Rightarrow> LinuxCloneIntent \<Rightarrow> gerror option" where
  "validate_clone_cleanup adm j it =
    (case j_LinuxCloneCleanupIntent j of
       None \<Rightarrow> checks [
         (j_LinuxCloneCleanupPending j \<or> j_LinuxCloneTargetRemovalProof j \<noteq> None \<or> j_LinuxCloneCleanupProof j \<noteq> None
          \<or> j_WorkspacePath j \<noteq> li_Target it, ''run journal Linux clone cleanup stage is invalid'')]
     | Some stored \<Rightarrow>
       (case linuxCloneCleanupIntentFromJournal adm j of
          Inl _ \<Rightarrow> Some (Err ''run journal Linux clone cleanup intent is invalid'')
        | Inr cleanup \<Rightarrow>
          if \<not> CleanupIntent_Equal cleanup stored then Some (Err ''run journal Linux clone cleanup intent is invalid'')
          else if j_LinuxCloneCleanupPending j then checks [
            (j_LinuxCloneCleanupProof j \<noteq> None \<or> j_WorkspacePath j \<noteq> li_Target it \<or> \<not> j_WorkspaceRecoveryRequired j,
             ''run journal pending Linux clone cleanup stage is invalid''),
            (opt_ex (\<lambda>p. TargetRemovalProof_Validate p \<noteq> None \<or> \<not> CleanupIntent_Equal (lt_Intent p) cleanup) (j_LinuxCloneTargetRemovalProof j),
             ''run journal pending Linux clone target-removal proof is invalid'')]
          else checks [
            (\<not> opt_ex (\<lambda>p. TargetRemovalProof_Validate p = None \<and> CleanupIntent_Equal (lt_Intent p) cleanup
                 \<and> opt_ex (\<lambda>c. CleanupProof_Validate c = None \<and> CleanupIntent_Equal (lf_Intent c) cleanup
                      \<and> TargetRemovalProof_Equal (lf_TargetRemovalProof c) p) (j_LinuxCloneCleanupProof j)) (j_LinuxCloneTargetRemovalProof j)
             \<or> j_WorkspacePath j \<noteq> [] \<or> j_WorkspaceRecoveryRequired j, ''run journal Linux clone cleanup proof is invalid'')]))"

text \<open>After a checkout receipt: the promotion stages, with the legacy receipt that has no intent.\<close>

definition validate_clone_promotion :: "admission_parser \<Rightarrow> RunJournal \<Rightarrow> LinuxCloneIntent \<Rightarrow> gerror option" where
  "validate_clone_promotion adm j it = (let ref = LinuxClonePromotionRef (j_RunID j) (j_Generation j) in
    case j_LinuxClonePromotionIntent j of
      None \<Rightarrow>
        then_err (checks [(clone_cleanup_evidence j, ''run journal Linux clone promotion receipt has no intent'')])
        (case j_LinuxClonePromotionReceipt j of
           None \<Rightarrow> checks [(j_WorkspacePath j \<noteq> li_Target it, ''run journal Linux clone target path changed'')]
         | Some p \<Rightarrow> checks [
             (PromotionReceipt_Validate p \<noteq> None \<or> isl ref \<or> Inr (lp_Ref p) \<noteq> ref
              \<or> length (lp_Commit p) \<noteq> length (li_BaseCommit it) \<or> \<not> linuxCloneStopProven j
              \<or> j_WorkspacePath j \<noteq> li_Target it, ''run journal legacy Linux clone promotion receipt is invalid'')])
    | Some pint \<Rightarrow>
        then_err (checks [
          (PromotionIntent_Validate pint \<noteq> None \<or> ln_ResourceID pint \<noteq> li_ResourceID it
           \<or> length (ln_Commit pint) \<noteq> length (li_BaseCommit it) \<or> \<not> linuxCloneStopProven j,
           ''run journal Linux clone promotion intent is invalid'')])
        (case j_LinuxClonePromotionReceipt j of
           None \<Rightarrow> checks [
             (clone_cleanup_evidence j \<or> j_WorkspacePath j \<noteq> li_Target it, ''run journal Linux clone cleanup has no promotion receipt'')]
         | Some p \<Rightarrow>
           then_err (checks [
             (PromotionReceipt_Validate p \<noteq> None \<or> isl ref \<or> Inr (lp_Ref p) \<noteq> ref \<or> lp_Commit p \<noteq> ln_Commit pint
              \<or> lp_TreeDigest p \<noteq> ln_TreeDigest pint \<or> \<not> linuxCloneStopProven j,
              ''run journal Linux clone promotion receipt is invalid'')])
           (validate_clone_cleanup adm j it)))"

text \<open>A checkout receipt without a seed receipt is dereferenced all the same: the source passes
  \<^verbatim>\<open>*seed\<close> to \<^verbatim>\<open>linuxCloneCheckoutMatches\<close> without a nil test.\<close>

definition validateLinuxCloneJournal :: "admission_parser \<Rightarrow> RunJournal \<Rightarrow> gerror option" where
  "validateLinuxCloneJournal adm j = (case j_LinuxCloneIntent j of
     None \<Rightarrow> checks [
       (j_LinuxCloneSeedReceipt j \<noteq> None \<or> j_LinuxCloneCheckoutReceipt j \<noteq> None \<or> j_LinuxClonePromotionIntent j \<noteq> None
        \<or> j_LinuxClonePromotionReceipt j \<noteq> None \<or> j_LinuxCloneAbortPending j \<or> j_LinuxCloneAbortProof j \<noteq> None
        \<or> clone_cleanup_evidence j, ''run journal has Linux clone evidence without an intent'')]
   | Some it \<Rightarrow>
     then_err (checks [
       (LinuxCloneIntent_ValidateForJournal it \<noteq> None \<or> li_RunID it \<noteq> j_RunID j \<or> li_Generation it \<noteq> j_Generation j
        \<or> li_BindingKey it \<noteq> j_WorkspaceBindingKey j \<or> \<not> hasClaimGrant j, ''run journal Linux clone intent is invalid''),
       (requireLinuxCloneJournalFenceSubject adm j it \<noteq> None, ''run journal Linux clone intent does not match admitted Subject''),
       (opt_ex (\<lambda>s. SeedReceipt_Validate s \<noteq> None \<or> ls_BaseCommit s \<noteq> li_BaseCommit it) (j_LinuxCloneSeedReceipt j),
        ''run journal Linux clone seed receipt is invalid''),
       (j_LinuxCloneAbortPending j \<and> j_LinuxCloneAbortProof j \<noteq> None, ''run journal Linux clone abort is both pending and complete'')])
     (if j_LinuxCloneAbortPending j \<or> j_LinuxCloneAbortProof j \<noteq> None then validate_clone_abort j it
      else (case j_LinuxCloneCheckoutReceipt j of
        None \<Rightarrow> checks [
          (j_LinuxClonePromotionIntent j \<noteq> None \<or> j_LinuxClonePromotionReceipt j \<noteq> None \<or> clone_cleanup_evidence j
           \<or> j_WorkspacePath j \<noteq> li_Target it, ''run journal Linux clone promotion has no checkout receipt'')]
      | Some checkout \<Rightarrow> (case j_LinuxCloneSeedReceipt j of
          None \<Rightarrow> Some Panic
        | Some seed \<Rightarrow>
          then_err (checks [(\<not> linuxCloneCheckoutMatches it seed checkout, ''run journal Linux clone checkout receipt is invalid'')])
            (validate_clone_promotion adm j it)))))"

subsection \<open>Cleanup eligibility\<close>

definition LinuxCloneCleanupEligible :: "Env \<Rightarrow> RunJournal \<Rightarrow> RunKey \<Rightarrow> Fence \<Rightarrow> bool" where
  "LinuxCloneCleanupEligible env j key fence = (let adm = env_ParseAdmissionInput env in
    if \<not> env_linux_amd64 env \<or> journal_Key j \<noteq> key \<or> journal_Fence j \<noteq> fence
       \<or> (j_LocalState j \<noteq> ''cleanup_pending'' \<and> j_LocalState j \<noteq> ''stale'')
       \<or> (j_LocalState j = ''stale'' \<and> j_TerminalState j = [] \<and> j_LeaseExpiresAt j > env_now env)
       \<or> HasProcessDetails j \<or> HasPendingContainment j
       \<or> length (j_PendingCommandAcknowledgements j) \<noteq> 0 \<or> HasPendingGoalDeliveries j
       \<or> j_NativeUsageRecoveryRequired j \<or> length (j_PendingTransitions j) \<noteq> 0 \<or> length (j_PendingEvents j) \<noteq> 0
       \<or> j_LinuxCloneIntent j = None \<or> linuxCloneArtifactReceiptRequired adm j \<or> validateLinuxCloneJournal adm j \<noteq> None
    then False
    else (case j_LinuxCloneAbortProof j of
      Some p \<Rightarrow> LinuxCloneAbortProof_Validate p = None \<and> linuxCloneAbortHistoryMatches j (Some p)
        \<and> \<not> j_RetainWorkspace j \<and> \<not> j_LinuxCloneAbortPending j \<and> j_LinuxCloneCleanupIntent j = None
        \<and> j_LinuxCloneTargetRemovalProof j = None \<and> j_LinuxCloneCleanupProof j = None \<and> \<not> j_LinuxCloneCleanupPending j
        \<and> j_LinuxCloneCheckoutReceipt j = None \<and> j_LinuxClonePromotionIntent j = None \<and> j_LinuxClonePromotionReceipt j = None
        \<and> j_WorkspacePath j = [] \<and> \<not> j_WorkspaceRecoveryRequired j
    | None \<Rightarrow> \<not> j_LinuxCloneAbortPending j \<and> \<not> j_LinuxCloneCleanupPending j
        \<and> \<not> j_RetainWorkspace j \<and> j_TerminalState j = ''completed''
        \<and> opt_ex (\<lambda>it. opt_ex (\<lambda>t. TargetRemovalProof_Validate t = None
             \<and> opt_ex (\<lambda>c. TargetRemovalProof_Equal (lf_TargetRemovalProof c) t \<and> CleanupProof_Validate c = None
                  \<and> CleanupIntent_Equal (lf_Intent c) it) (j_LinuxCloneCleanupProof j)) (j_LinuxCloneTargetRemovalProof j)
             \<and> linuxCloneExactArtifactDelivered adm j \<and> j_WorkspacePath j = [] \<and> \<not> j_WorkspaceRecoveryRequired j
             \<and> linuxCloneCleanupIntentMatchesJournal adm j it) (j_LinuxCloneCleanupIntent j)))"

definition LinuxCloneCleanupBeginEligible :: "Env \<Rightarrow> RunJournal \<Rightarrow> RunKey \<Rightarrow> Fence \<Rightarrow> bool" where
  "LinuxCloneCleanupBeginEligible env j key fence = (let adm = env_ParseAdmissionInput env in
    if \<not> env_linux_amd64 env \<or> journal_Key j \<noteq> key \<or> journal_Fence j \<noteq> fence
       \<or> (j_LocalState j \<noteq> ''cleanup_pending'' \<and> j_LocalState j \<noteq> ''stale'')
       \<or> (j_LocalState j = ''stale'' \<and> j_TerminalState j = [] \<and> j_LeaseExpiresAt j > env_now env)
       \<or> j_TerminalState j \<noteq> ''completed'' \<or> \<not> validTerminalVerdict (j_TerminalVerdict j)
       \<or> j_TerminalTaskResultKind j \<noteq> ''candidate_completion'' \<or> \<not> j_GoalDeliveryEnabled j
       \<or> j_RetainWorkspace j \<or> j_LinuxCloneAbortPending j \<or> j_LinuxCloneAbortProof j \<noteq> None
       \<or> HasProcessDetails j \<or> HasPendingContainment j \<or> j_ContainmentAuthority j \<noteq> None
       \<or> j_ContainmentHandoff j \<noteq> None \<or> j_ContainmentCgroup j \<noteq> None \<or> j_ContainmentScans j \<noteq> None
       \<or> j_ContainmentUnproven j \<or> j_ContainmentCgroupPreGateReleaseProof j \<noteq> None
       \<or> \<not> opt_ex (\<lambda>p. ReleaseProof_Validate p = None \<and> rp_Version p = 2 \<and> rp_StopReceipt p \<noteq> None) (j_ContainmentCgroupReleaseProof j)
       \<or> length (j_PendingEvents j) \<noteq> 0 \<or> length (j_PendingTransitions j) \<noteq> 0 \<or> length (j_PendingCommandAcknowledgements j) \<noteq> 0
       \<or> HasPendingGoalDeliveries j \<or> j_NativeUsageRecoveryRequired j \<or> hasUnresolvedProviderActions j
       \<or> \<not> linuxCloneExactArtifactDelivered adm j \<or> validateLinuxCloneJournal adm j \<noteq> None
    then False
    else if j_LinuxCloneCleanupProof j \<noteq> None then False
    else (case linuxCloneCleanupIntentFromJournal adm j of
        Inl _ \<Rightarrow> False
      | Inr cleanup \<Rightarrow>
        if j_LinuxCloneCleanupPending j then opt_ex (\<lambda>it. CleanupIntent_Equal it cleanup) (j_LinuxCloneCleanupIntent j)
        else j_LinuxCloneCleanupIntent j = None))"

definition LinuxCloneCleanupIntentForJournal :: "Env \<Rightarrow> RunJournal \<Rightarrow> LinuxCloneCleanupIntent result" where
  "LinuxCloneCleanupIntentForJournal env j =
     bind_r (linuxCloneCleanupIntentFromJournal (env_ParseAdmissionInput env) j) (\<lambda>derived.
       case j_LinuxCloneCleanupIntent j of
         Some stored \<Rightarrow> if \<not> CleanupIntent_Equal stored derived
            then Inl (Err ''stored Linux clone cleanup intent differs from RunJournal authority'') else Inr stored
       | None \<Rightarrow> if \<not> LinuxCloneCleanupBeginEligible env j (journal_Key j) (journal_Fence j)
            then Inl (Err ''RunJournal is not eligible to begin Linux clone cleanup'') else Inr derived)"

end
