(* ===== verification/Journal_Valid.thy ===== *)
theory Journal_Valid
  imports Journal_Clone
begin

text \<open>
  \<^verbatim>\<open>validateJournal\<close> (\<^verbatim>\<open>internal/state/state.go\<close>) and \<^verbatim>\<open>validateControlCommandIntents\<close>
  (\<^verbatim>\<open>internal/state/control.go\<close>): the well-formedness every journal has after a load and before a
  save.  The function is split at its top-level statements; the parts run in source order.
\<close>

definition validateKey :: "RunKey \<Rightarrow> gerror option" where
  "validateKey k = checks [
     (blank (k_RunID k) \<or> length (k_RunID k) > 4096 \<or> k_Generation k \<le> 0, ''run key is invalid'')]"

subsection \<open>Parts\<close>

definition validContainmentScanProgress :: "ContainmentScanProgress \<Rightarrow> bool" where
  "validContainmentScanProgress p =
    (if sg_SealedSequence p \<noteq> 0 \<and>
        (sg_CompletedSequence p = 0 \<or> sg_SealedSequence p \<noteq> sg_CompletedSequence p \<or> sg_PendingSequence p \<noteq> 0
         \<or> sg_CleanResultSequence p \<noteq> 0 \<or> sg_UnprovenSequence p \<noteq> 0 \<or> sg_FailureKind p \<noteq> []) then False
     else if sg_PendingSequence p \<noteq> 0 \<and>
        (sg_UnprovenSequence p \<noteq> 0 \<or> sg_CompletedSequence p = - 1 \<or> sg_PendingSequence p \<noteq> sg_CompletedSequence p + 1) then False
     else if sg_CleanResultSequence p \<noteq> 0 \<and>
        (sg_PendingSequence p \<noteq> sg_CleanResultSequence p \<or> sg_CompletedSequence p = - 1
         \<or> sg_CleanResultSequence p \<noteq> sg_CompletedSequence p + 1 \<or> sg_UnprovenSequence p \<noteq> 0) then False
     else if sg_UnprovenSequence p = 0 then sg_FailureKind p = []
     else if sg_PendingSequence p \<noteq> 0 \<or> sg_CleanResultSequence p \<noteq> 0 \<or> \<not> validRequiredString (sg_FailureKind p) 128 then False
     else (sg_CompletedSequence p \<noteq> - 1 \<and> sg_UnprovenSequence p = sg_CompletedSequence p + 1)
        \<or> (sg_UnprovenSequence p = sg_CompletedSequence p \<and> sg_FailureKind p = ''clean_retire_ack_failure''))"

definition journal_process_checks :: "RunJournal \<Rightarrow> (bool \<times> string) list" where
  "journal_process_checks j = [
     (\<not> validRequiredString (j_RuntimeKey j) 4096 \<or> \<not> validRequiredString (j_RuntimeID j) 4096 \<or> j_ClaimedRuntimeEpoch j \<le> 0
      \<or> \<not> validRequiredString (j_ClaimID j) 4096 \<or> \<not> validRequiredString (j_LocalState j) 256 \<or> length (j_WorkspacePath j) > 32768
      \<or> \<not> validRequiredString (j_WorkspaceBindingKey j) 4096 \<or> j_PID j < 0 \<or> length (j_ProcessIdentity j) > 4096
      \<or> j_LastEventSequence j < 0, ''run journal is invalid''),
     (j_PID j = 0 \<and> (j_StartedAt j \<noteq> 0 \<or> j_ProcessIdentity j \<noteq> [] \<or> j_ContainmentAuthority j \<noteq> None),
      ''run journal process details are invalid''),
     (j_PID j > 0 \<and> (j_StartedAt j = 0 \<or> \<not> validRequiredString (j_ProcessIdentity j) 4096),
      ''run journal process details are invalid''),
     (j_ContainmentUnproven j \<and> \<not> HasProcessDetails j \<and> j_ContainmentHandoff j = None \<and> j_ContainmentScans j = None
      \<and> j_ContainmentCgroup j = None, ''run journal containment uncertainty is invalid'')]"

definition journal_authority_checks :: "RunJournal \<Rightarrow> (bool \<times> string) list" where
  "journal_authority_checks j = (case j_ContainmentAuthority j of None \<Rightarrow> []
     | Some a \<Rightarrow> [
       (Supervisor_Validate a \<noteq> None \<or> su_TargetPID a \<noteq> j_PID j \<or> su_TargetIdentity a \<noteq> j_ProcessIdentity j,
        ''run journal containment authority is invalid''),
       (su_Version a = 2 \<and> (\<not> opt_ex (\<lambda>c. linuxCgroupReservationMatchesAuthority c a
            \<and> opt_ex (\<lambda>g. j_StartedAt j = gi_ObservedAt g) (lr_Gate c)) (j_ContainmentCgroup j)
          \<or> j_ContainmentScans j \<noteq> None \<or> j_ContainmentCgroupReleaseProof j \<noteq> None
          \<or> (su_StopReceipt a \<noteq> None \<and> j_ContainmentUnproven j)), ''run journal v2 containment authority is invalid''),
       (su_Version a \<noteq> 2 \<and> j_ContainmentCgroup j \<noteq> None, ''v1 containment authority cannot use a v2 cgroup reservation'')])"

definition journal_handoff_checks :: "RunJournal \<Rightarrow> (bool \<times> string) list" where
  "journal_handoff_checks j = (case j_ContainmentHandoff j of None \<Rightarrow> []
     | Some h \<Rightarrow> [
       (j_ContainmentAuthority j \<noteq> None \<or> HasProcessDetails j \<or> \<not> hasClaimGrant j, ''run journal containment handoff is invalid''),
       (SupervisorHandoff_Validate h \<noteq> None, ''run journal containment handoff is invalid''),
       (ho_Version h = 2 \<and> (\<not> opt_ex (\<lambda>c. linuxCgroupReservationMatchesHandoff c h (ho_SupervisorPID h > 0)) (j_ContainmentCgroup j)
          \<or> j_ContainmentScans j \<noteq> None \<or> j_ContainmentCgroupReleaseProof j \<noteq> None
          \<or> (ho_StopReceipt h \<noteq> None \<and> j_ContainmentUnproven j)), ''run journal v2 containment handoff is invalid''),
       (ho_Version h \<noteq> 2 \<and> j_ContainmentCgroup j \<noteq> None, ''v1 containment handoff cannot use a v2 cgroup reservation'')])"

definition journal_cgroup_checks :: "RunJournal \<Rightarrow> (bool \<times> string) list" where
  "journal_cgroup_checks j = (case j_ContainmentCgroup j of None \<Rightarrow> []
     | Some c \<Rightarrow> [
       (Reservation_Validate c \<noteq> None \<or> \<not> hasClaimGrant j \<or> j_ContainmentScans j \<noteq> None, ''run journal v2 cgroup reservation is invalid''),
       (lr_AbortProof c \<noteq> None \<and> (j_ContainmentUnproven j \<or> j_ContainmentAuthority j \<noteq> None \<or> j_ContainmentHandoff j \<noteq> None
          \<or> HasProcessDetails j), ''run journal aborted cgroup reservation has active owner state''),
       (lr_PreGateStopReceipt c \<noteq> None \<and> (j_ContainmentUnproven j \<or> j_ContainmentAuthority j \<noteq> None \<or> j_ContainmentHandoff j \<noteq> None
          \<or> HasProcessDetails j), ''run journal pre-gate cgroup receipt has active owner state''),
       (j_ContainmentAuthority j = None \<and> j_ContainmentHandoff j = None \<and> HasProcessDetails j,
        ''uncommitted v2 cgroup reservation has process authority''),
       (opt_ex (\<lambda>a. su_Version a \<noteq> 2) (j_ContainmentAuthority j), ''v2 cgroup reservation cannot accompany a v1 authority''),
       (opt_ex (\<lambda>h. ho_Version h \<noteq> 2) (j_ContainmentHandoff j), ''v2 cgroup reservation cannot accompany a v1 handoff'')])"

definition journal_scans_checks :: "RunJournal \<Rightarrow> (bool \<times> string) list" where
  "journal_scans_checks j = (case j_ContainmentScans j of None \<Rightarrow> []
     | Some s \<Rightarrow> [
       (j_ContainmentCgroup j \<noteq> None \<or> cs_Version s \<noteq> 1 \<or> length (cs_LaunchToken s) \<noteq> TokenBytes * 2 \<or> \<not> state_validHex (cs_LaunchToken s)
        \<or> length (cs_MirrorIdentity s) \<noteq> TokenBytes * 2 \<or> \<not> state_validHex (cs_MirrorIdentity s) \<or> cs_TargetPID s \<le> 0
        \<or> \<not> validRequiredString (cs_TargetIdentity s) 4096 \<or> cs_SupervisorPID s \<le> 0
        \<or> \<not> validRequiredString (cs_SupervisorIdentity s) 4096
        \<or> \<not> validContainmentScanProgress (cs_Helper s) \<or> \<not> validContainmentScanProgress (cs_Mirror s),
        ''run journal containment scan state is invalid''),
       (opt_ex (\<lambda>h. ho_OwnerKind h \<noteq> OwnerKindLinuxHelper \<or> ho_SupervisorPID h \<le> 0 \<or> \<not> matchesHandoff s h) (j_ContainmentHandoff j),
        ''run journal containment scan handoff is invalid''),
       (j_ContainmentHandoff j = None \<and> opt_ex (\<lambda>a. su_OwnerKind a \<noteq> OwnerKindLinuxHelper \<or> \<not> matchesAuthority s a) (j_ContainmentAuthority j),
        ''run journal containment scan authority is invalid''),
       (j_ContainmentHandoff j = None \<and> j_ContainmentAuthority j = None, ''run journal containment scan state has no Linux owner''),
       ((sg_UnprovenSequence (cs_Helper s) \<noteq> 0 \<or> sg_UnprovenSequence (cs_Mirror s) \<noteq> 0) \<and> \<not> j_ContainmentUnproven j,
        ''run journal containment scan failure is not sticky'')])"

definition containment_cleared :: "RunJournal \<Rightarrow> bool" where
  "containment_cleared j = (j_ContainmentAuthority j = None \<and> j_ContainmentHandoff j = None \<and> j_ContainmentCgroup j = None
     \<and> j_ContainmentScans j = None \<and> \<not> HasProcessDetails j \<and> j_PID j = 0 \<and> j_ProcessIdentity j = [] \<and> j_StartedAt j = 0
     \<and> \<not> j_ContainmentUnproven j)"

definition journal_release_checks :: "RunJournal \<Rightarrow> (bool \<times> string) list" where
  "journal_release_checks j = [
     (opt_ex (\<lambda>p. ReleaseProof_Validate p \<noteq> None \<or> rp_Version p \<noteq> 2 \<or> j_ContainmentCgroupPreGateReleaseProof j \<noteq> None
        \<or> \<not> containment_cleared j) (j_ContainmentCgroupReleaseProof j), ''run journal v2 cgroup release proof is invalid''),
     (opt_ex (\<lambda>p. PreGateReleaseProof_Validate p \<noteq> None \<or> j_ContainmentCgroupReleaseProof j \<noteq> None
        \<or> \<not> containment_cleared j) (j_ContainmentCgroupPreGateReleaseProof j), ''run journal pre-gate cgroup release proof is invalid'')]"

definition validWork :: "Work \<Rightarrow> bool" where
  "validWork w = (length (w_Goal w) \<le> 65536 \<and> length (w_AgentProfile w) \<le> 4096 \<and> length (w_Workspace w) \<le> 4096
     \<and> validRawMessage (w_Input w))"

definition sameWork :: "Work \<Rightarrow> Work \<Rightarrow> bool" where
  "sameWork l r = (w_Goal l = w_Goal r \<and> w_AgentProfile l = w_AgentProfile r \<and> w_Workspace l = w_Workspace r
     \<and> rm_bytes (w_Input l) = rm_bytes (w_Input r))"

definition validDigestOrEmpty :: "string \<Rightarrow> bool" where
  "validDigestOrEmpty d = (d = [] \<or> (length d = 64 \<and> state_validHex d))"

definition validTerminalState :: "RunJournal \<Rightarrow> bool" where
  "validTerminalState j =
    (if \<not> validNativeUsageTerminalRecovery (j_NativeUsageTerminalRecovery j) then False
     else if j_LocalState j \<noteq> ''terminal_pending'' \<and> j_LocalState j \<noteq> ''cleanup_pending'' then
       \<not> hasPendingTerminalTransition (j_PendingTransitions j) \<and> j_TerminalPendingAt j = 0 \<and> j_TerminalState j = []
       \<and> j_TerminalTaskResultKind j = [] \<and> j_TerminalIntentDigest j = [] \<and> j_TerminalCommandDigest j = []
       \<and> j_TerminalSettlementDigest j = [] \<and> j_TerminalVerdict j = [] \<and> j_TerminalResolvedAt j = 0
     else if j_TerminalPendingAt j = 0 \<or> \<not> isTerminalTransitionState (j_TerminalState j) then False
     else if j_TerminalTaskResultKind j \<noteq> [] \<and> \<not> validTaskResultKind (j_TerminalTaskResultKind j) then False
     else if \<not> validDigestOrEmpty (j_TerminalIntentDigest j) then False
     else if \<not> validDigestOrEmpty (j_TerminalCommandDigest j) then False
     else if \<not> validDigestOrEmpty (j_TerminalSettlementDigest j) then False
     else if j_LocalState j = ''cleanup_pending'' then
       validTerminalVerdict (j_TerminalVerdict j) \<and> j_TerminalResolvedAt j \<noteq> 0
       \<and> length (j_PendingEvents j) = 0 \<and> length (j_PendingTransitions j) = 0
       \<and> length (j_PendingCommandAcknowledgements j) = 0 \<and> length (j_AttemptedTransitionIDs j) = 0
     else if j_TerminalVerdict j = [] then j_TerminalResolvedAt j = 0
     else validTerminalVerdict (j_TerminalVerdict j) \<and> j_TerminalResolvedAt j \<noteq> 0)"

definition journal_grant_checks :: "RunJournal \<Rightarrow> (bool \<times> string) list" where
  "journal_grant_checks j = [
     (blank (j_LeaseToken j) \<noteq> (j_LeaseExpiresAt j = 0) \<or> length (j_LeaseToken j) > 65536 \<or> \<not> validWork (j_Work j), ''run journal is invalid''),
     (\<not> validTerminalState j, ''run journal is invalid''),
     (j_NativeUsageTerminalRecovery j \<noteq> None \<and> \<not> j_NativeUsageRecoveryRequired j, ''run journal is invalid''),
     (j_DroppedOutputChunks j < 0 \<or> j_DroppedOutputBytes j < 0, ''run journal is invalid''),
     (\<not> hasClaimGrant j \<and> (j_PID j \<noteq> 0 \<or> j_StartedAt j \<noteq> 0 \<or> j_ContainmentCgroup j \<noteq> None
        \<or> j_LinuxCloneIntent j \<noteq> None \<or> j_LinuxCloneSeedReceipt j \<noteq> None \<or> j_LinuxCloneCheckoutReceipt j \<noteq> None
        \<or> j_LinuxClonePromotionIntent j \<noteq> None \<or> j_LinuxClonePromotionReceipt j \<noteq> None \<or> j_LinuxCloneAbortPending j
        \<or> j_LinuxCloneAbortProof j \<noteq> None \<or> length (j_PendingEvents j) \<noteq> 0 \<or> j_DroppedOutputChunks j \<noteq> 0
        \<or> j_DroppedOutputBytes j \<noteq> 0 \<or> length (j_PendingTransitions j) \<noteq> 0 \<or> length (j_PendingCommandAcknowledgements j) \<noteq> 0),
      ''run journal is invalid'')]"

subsection \<open>The outbox\<close>

definition validEvent :: "RunEvent \<Rightarrow> bool" where
  "validEvent e = (validRequiredString (ev_EventID e) 4096 \<and> ev_Sequence e > 0 \<and> validRequiredString (ev_Kind e) 256
     \<and> ev_OccurredAt e \<noteq> 0 \<and> validRawMessage (ev_Payload e))"

definition validTransition :: "StateTransitionRequest \<Rightarrow> bool" where
  "validTransition t = (validRequiredString (tr_TransitionID t) 4096 \<and> validRequiredString (tr_State t) 256 \<and> validRawMessage (tr_Payload t))"

definition validAcknowledgement :: "CommandAcknowledgement \<Rightarrow> RunJournal \<Rightarrow> bool" where
  "validAcknowledgement a j = (ack_RunID a = j_RunID j \<and> validRequiredString (ack_CommandID a) 4096
     \<and> validRequiredString (ack_Outcome a) 256 \<and> validRequiredString (ack_AckID a) 4096 \<and> ack_Fence a = journal_Fence j)"

text \<open>The event loop: sequences increase and stay at or below the last one.\<close>

fun events_in_order :: "int \<Rightarrow> int \<Rightarrow> RunEvent list \<Rightarrow> bool" where
  "events_in_order lst lastEvent [] = True"
| "events_in_order lst lastEvent (e # es) =
     (if \<not> validEvent e \<or> ev_Sequence e \<le> lst \<or> ev_Sequence e > lastEvent then False
      else events_in_order (ev_Sequence e) lastEvent es)"

fun attempted_loop :: "string list \<Rightarrow> string list \<Rightarrow> string list \<Rightarrow> bool" where
  "attempted_loop pendingIDs seen [] = True"
| "attempted_loop pendingIDs seen (t # ts) =
     (if \<not> validRequiredString t 4096 then False
      else if t \<notin> set pendingIDs then False
      else if t \<in> set seen then False
      else attempted_loop pendingIDs (t # seen) ts)"

definition validAttemptedTransitions :: "string list \<Rightarrow> StateTransitionRequest list \<Rightarrow> bool" where
  "validAttemptedTransitions attempted pending = attempted_loop (map tr_TransitionID pending) [] attempted"

fun acks_distinct :: "RunJournal \<Rightarrow> string list \<Rightarrow> CommandAcknowledgement list \<Rightarrow> bool" where
  "acks_distinct j seen [] = True"
| "acks_distinct j seen (a # as) =
     (if \<not> validAcknowledgement a j then False
      else if ack_CommandID a \<in> set seen then False
      else acks_distinct j (ack_CommandID a # seen) as)"

definition journal_outbox_checks :: "RunJournal \<Rightarrow> (bool \<times> string) list" where
  "journal_outbox_checks j = [
     (\<not> events_in_order 0 (j_LastEventSequence j) (j_PendingEvents j), ''run journal is invalid''),
     (\<not> list_all (\<lambda>t. validTransition t \<and> tr_Fence t = journal_Fence j) (j_PendingTransitions j), ''run journal is invalid''),
     (\<not> validAttemptedTransitions (j_AttemptedTransitionIDs j) (j_PendingTransitions j), ''run journal is invalid''),
     (\<not> acks_distinct j [] (j_PendingCommandAcknowledgements j), ''run journal is invalid'')]"

definition validateGoalDeliveries :: "RunJournal \<Rightarrow> gerror option" where
  "validateGoalDeliveries j = goal_deliveries_valid (j_RunID j) (journal_Fence j) (j_PendingGoalDeliveries j)
     (j_DeliveredGoalDeliveries j) (j_RetiredGoalDeliveries j) (j_GoalDeliveryEnabled j)"

subsection \<open>Input and control commands\<close>

definition validInputCommandOutcome :: "string \<Rightarrow> bool" where
  "validInputCommandOutcome s = (s = [] \<or> s = ''applied'' \<or> s = ''failed'')"

definition validInputCommandIntent :: "InputCommandIntent \<Rightarrow> bool" where
  "validInputCommandIntent i = (validRequiredString (ic_CommandID i) 4096 \<and> length (ic_PayloadDigest i) = 64
     \<and> state_validHex (ic_PayloadDigest i) \<and> validRequiredString (ic_RunningTransitionID i) 4096 \<and> validRequiredString (ic_AckID i) 4096
     \<and> ic_EventSequenceBarrier i \<ge> 0 \<and> validInputCommandOutcome (ic_Outcome i)
     \<and> (\<not> ic_AcknowledgementDelivered i \<or> ic_Outcome i \<noteq> []))"

definition input_ack_pending :: "InputCommandIntent \<Rightarrow> CommandAcknowledgement list \<Rightarrow> bool" where
  "input_ack_pending i as = (case find (\<lambda>a. ack_AckID a = ic_AckID i) as of None \<Rightarrow> False
     | Some a \<Rightarrow> ack_CommandID a = ic_CommandID i \<and> ack_Outcome a = ic_Outcome i)"

definition journal_input_checks :: "RunJournal \<Rightarrow> (bool \<times> string) list" where
  "journal_input_checks j = (case j_InputCommandIntent j of None \<Rightarrow> []
     | Some i \<Rightarrow> (let pending = input_ack_pending i (j_PendingCommandAcknowledgements j) in [
       (\<not> validInputCommandIntent i \<or> ic_EventSequenceBarrier i > j_LastEventSequence j, ''run journal input command intent is invalid''),
       (ic_Outcome i = [] \<and> pending, ''unresolved input command has an acknowledgement''),
       (ic_Outcome i \<noteq> [] \<and> ic_AcknowledgementDelivered i = pending, ''input command acknowledgement delivery is invalid'')]))"

definition validControlOutcome :: "string \<Rightarrow> bool" where
  "validControlOutcome s = (s = [] \<or> s = ''applied'' \<or> s = ''rejected'' \<or> s = ''failed'')"

definition validControlCommandIntent :: "ControlCommandIntent \<Rightarrow> bool" where
  "validControlCommandIntent i = (validRequiredString (cc_CommandID i) 4096
     \<and> (cc_Kind i = ''guidance'' \<or> cc_Kind i = ''pause'' \<or> cc_Kind i = ''resume'')
     \<and> length (cc_PayloadDigest i) = 64 \<and> state_validHex (cc_PayloadDigest i)
     \<and> (cc_Kind i = ''guidance'' \<or> validRequiredString (cc_TransitionID i) 4096) \<and> length (cc_TransitionID i) \<le> 4096
     \<and> validRequiredString (cc_AckID i) 4096 \<and> validControlOutcome (cc_Outcome i)
     \<and> (\<not> cc_AcknowledgementDelivered i \<or> cc_Outcome i \<noteq> []))"

text \<open>The receipt struct of a \<^verbatim>\<open>command_applied\<close> event.\<close>

definition unmarshal_receipt :: "RawMessage \<Rightarrow> (string \<Rightarrow> string) option" where
  "unmarshal_receipt m = unmarshal_strings [''command_id'', ''kind'', ''outcome''] (rm_bytes m)"

definition control_ack_mismatch :: "ControlCommandIntent \<Rightarrow> CommandAcknowledgement \<Rightarrow> bool" where
  "control_ack_mismatch i a = ((ack_CommandID a = cc_CommandID i \<or> ack_AckID a = cc_AckID i)
     \<and> (ack_CommandID a \<noteq> cc_CommandID i \<or> ack_AckID a \<noteq> cc_AckID i \<or> ack_Outcome a \<noteq> cc_Outcome i))"

definition control_ack_pending :: "ControlCommandIntent \<Rightarrow> CommandAcknowledgement list \<Rightarrow> bool" where
  "control_ack_pending i as = list_ex (\<lambda>a. ack_CommandID a = cc_CommandID i \<or> ack_AckID a = cc_AckID i) as"

definition control_receipt_mismatch :: "ControlCommandIntent \<Rightarrow> RunEvent \<Rightarrow> bool" where
  "control_receipt_mismatch i e = (ev_Kind e = ''command_applied'' \<and> opt_ex (\<lambda>r. r ''command_id'' = cc_CommandID i
     \<and> (r ''kind'' \<noteq> cc_Kind i \<or> r ''outcome'' \<noteq> cc_Outcome i \<or> cc_Outcome i = [])) (unmarshal_receipt (ev_Payload e)))"

definition control_transition_mismatch :: "ControlCommandIntent \<Rightarrow> StateTransitionRequest \<Rightarrow> bool" where
  "control_transition_mismatch i t = (cc_TransitionID i \<noteq> [] \<and> tr_TransitionID t = cc_TransitionID i \<and>
     (let expectedState = (if cc_Kind i = ''resume'' then ''running'' else ''paused'') in
      cc_Kind i = ''guidance'' \<or> cc_Outcome i \<noteq> ''applied'' \<or> tr_State t \<noteq> expectedState
      \<or> \<not> opt_ex (\<lambda>p. p ''command_id'' = cc_CommandID i) (unmarshal_strings [''command_id''] (rm_bytes (tr_Payload t)))))"

text \<open>The loop over the intents with the commands, acknowledgements and transitions seen so far
  and whether a lifecycle command is pending.\<close>

fun control_intent_loop ::
  "RunJournal \<Rightarrow> string list \<Rightarrow> string list \<Rightarrow> string list \<Rightarrow> bool \<Rightarrow> ControlCommandIntent list \<Rightarrow> gerror option" where
  "control_intent_loop j cmds acks trs lifecycle [] = None"
| "control_intent_loop j cmds acks trs lifecycle (i # is) =
    (let pendingLifecycle = (cc_Outcome i = [] \<and> cc_Kind i \<noteq> ''guidance'');
         pending = control_ack_pending i (j_PendingCommandAcknowledgements j) in
     then_err (checks [
       (\<not> hasClaimGrant j \<or> \<not> validControlCommandIntent i \<or> cc_CommandID i \<in> set cmds \<or> cc_AckID i \<in> set acks
        \<or> (cc_TransitionID i \<noteq> [] \<and> cc_TransitionID i \<in> set trs), ''run journal control command intent is invalid''),
       (pendingLifecycle \<and> lifecycle, ''multiple lifecycle control commands are pending''),
       (list_ex (control_ack_mismatch i) (j_PendingCommandAcknowledgements j), ''control command acknowledgement does not match intent''),
       ((cc_Outcome i = [] \<and> pending) \<or> (cc_Outcome i \<noteq> [] \<and> cc_AcknowledgementDelivered i = pending),
        ''control command acknowledgement delivery is invalid''),
       (cc_Outcome i = [] \<and> (j_LocalState j = ''terminal_pending'' \<or> j_LocalState j = ''cleanup_pending''),
        ''terminal journal has an unresolved control command''),
       (list_ex (control_receipt_mismatch i) (j_PendingEvents j), ''control command receipt does not match intent''),
       (list_ex (control_transition_mismatch i) (j_PendingTransitions j), ''control command transition does not match intent'')])
     (control_intent_loop j (cc_CommandID i # cmds) (cc_AckID i # acks)
       (if cc_TransitionID i \<noteq> [] then cc_TransitionID i # trs else trs) (lifecycle \<or> pendingLifecycle) is))"

definition validateControlCommandIntents :: "RunJournal \<Rightarrow> gerror option" where
  "validateControlCommandIntents j = (case j_InputCommandIntent j of
     None \<Rightarrow> control_intent_loop j [] [] [] False (j_ControlCommandIntents j)
   | Some i \<Rightarrow> control_intent_loop j [ic_CommandID i] [ic_AckID i] [ic_RunningTransitionID i] False (j_ControlCommandIntents j))"

subsection \<open>The whole journal\<close>

definition journal_containment_checks :: "RunJournal \<Rightarrow> (bool \<times> string) list" where
  "journal_containment_checks j = journal_process_checks j @ journal_authority_checks j @ journal_handoff_checks j
     @ journal_cgroup_checks j @ journal_scans_checks j @ journal_release_checks j"

definition validateJournal :: "admission_parser \<Rightarrow> RunJournal \<Rightarrow> gerror option" where
  "validateJournal adm j =
     then_err (validateKey (journal_Key j))
    (then_err (checks (journal_containment_checks j))
    (then_err (checks (journal_grant_checks j))
    (then_err (validateLinuxCloneJournal adm j)
    (then_err (checks (journal_outbox_checks j))
    (then_err (validateGoalDeliveries j)
    (then_err (when_some NativeUsageObservation_Validate (j_NativeUsageObservation j))
    (then_err (checks (journal_input_checks j))
    (then_err (validateControlCommandIntents j)
    (validateProviderActionIntents j)))))))))"

end
