(* ===== verification/Outbox.thy ===== *)
theory Outbox
  imports Journal_Valid
begin

text \<open>
  The event, transition and acknowledgement outbox (\<^verbatim>\<open>internal/state/state.go\<close>).  Each operation is
  the function the code passes to \<^verbatim>\<open>mutateJournal\<close>: it maps the loaded journal to the journal
  to be saved or to an error, which leaves the file as it is.  Sequence numbers and counters
  are \<^verbatim>\<open>int64\<close>, so additions go through \<^const>\<open>wrap_i64\<close>.
\<close>

subsection \<open>Removal of delivered items\<close>

text \<open>The three removal loops return the slice unchanged for an empty list of identifiers.\<close>

definition removeEvents :: "RunEvent list \<Rightarrow> string list \<Rightarrow> RunEvent list" where
  "removeEvents events ids = (if ids = [] then events else filter (\<lambda>e. ev_EventID e \<notin> set ids) events)"

definition removeTransitions :: "StateTransitionRequest list \<Rightarrow> string list \<Rightarrow> StateTransitionRequest list" where
  "removeTransitions transitions ids =
     (if ids = [] then transitions else filter (\<lambda>t. tr_TransitionID t \<notin> set ids) transitions)"

definition removeAcknowledgements :: "CommandAcknowledgement list \<Rightarrow> string list \<Rightarrow> CommandAcknowledgement list" where
  "removeAcknowledgements acks ids = (if ids = [] then acks else filter (\<lambda>a. ack_AckID a \<notin> set ids) acks)"

definition hasPendingTransition :: "StateTransitionRequest list \<Rightarrow> string \<Rightarrow> bool" where
  "hasPendingTransition ts transitionID = list_ex (\<lambda>t. tr_TransitionID t = transitionID) ts"

definition retainAttemptedTransitions :: "string list \<Rightarrow> StateTransitionRequest list \<Rightarrow> string list" where
  "retainAttemptedTransitions attempted pending = filter (hasPendingTransition pending) attempted"

subsection \<open>Events\<close>

definition appendEvent :: "RunJournal \<Rightarrow> RunEvent \<Rightarrow> string \<Rightarrow> RunJournal result" where
  "appendEvent j event invalidMessage =
     on_err (checks [
       (\<not> hasClaimGrant j, ''journal has no claim grant''),
       (blank (ev_EventID event) \<or> blank (ev_Kind event) \<or> ev_Sequence event \<noteq> wrap_i64 (j_LastEventSequence j + 1)
        \<or> ev_OccurredAt event = 0 \<or> \<not> validRawMessage (ev_Payload event), invalidMessage)])
     (Inr (j\<lparr> j_PendingEvents := j_PendingEvents j @ [event], j_LastEventSequence := ev_Sequence event \<rparr>))"

definition QueueEvent :: "RunEvent \<Rightarrow> RunJournal \<Rightarrow> RunJournal result" where
  "QueueEvent event j = appendEvent j event ''event is invalid''"

definition nextSequence :: "RunJournal \<Rightarrow> RunEvent \<Rightarrow> RunEvent" where
  "nextSequence j event = event\<lparr> ev_Sequence := wrap_i64 (j_LastEventSequence j + 1) \<rparr>"

definition QueueNextEvent :: "RunEvent \<Rightarrow> RunJournal \<Rightarrow> RunJournal result" where
  "QueueNextEvent event j = appendEvent j (nextSequence j event) ''event is invalid''"

definition pendingOutputBytes :: "RunEvent list \<Rightarrow> int" where
  "pendingOutputBytes es = (\<Sum>e\<leftarrow>es. if ev_Kind e = ''output'' then int (length (rm_bytes (ev_Payload e))) else 0)"

text \<open>The result carries whether the chunk was dropped.\<close>

definition QueueOutputEvent :: "RunEvent \<Rightarrow> int \<Rightarrow> RunJournal \<Rightarrow> (RunJournal \<times> bool) result" where
  "QueueOutputEvent event budget j =
     on_err (checks [
       (\<not> hasClaimGrant j, ''journal has no claim grant''),
       (ev_Kind event \<noteq> ''output'' \<or> \<not> validRequiredString (ev_EventID event) 4096 \<or> ev_OccurredAt event = 0
        \<or> \<not> validRawMessage (ev_Payload event), ''event is invalid'')])
     (let pending = pendingOutputBytes (j_PendingEvents j);
          payloadBytes = int (length (rm_bytes (ev_Payload event))) in
      if budget \<ge> 0 \<and> (pending > budget \<or> payloadBytes > budget - pending)
      then Inr (j\<lparr> j_DroppedOutputChunks := wrap_i64 (j_DroppedOutputChunks j + 1),
                   j_DroppedOutputBytes := wrap_i64 (j_DroppedOutputBytes j + payloadBytes) \<rparr>, True)
      else bind_r (appendEvent j (nextSequence j event) ''event is invalid'') (\<lambda>j'. Inr (j', False)))"

text \<open>\<^verbatim>\<open>json.Marshal\<close> of the map with the two counters, whose keys it sorts.\<close>

definition truncation_payload :: "RunJournal \<Rightarrow> RawMessage" where
  "truncation_payload j = Some (print_json False (JObj [(''dropped_bytes'', JNum (FormatInt (j_DroppedOutputBytes j))),
     (''dropped_chunks'', JNum (FormatInt (j_DroppedOutputChunks j)))]))"

text \<open>The identifier generator is asked only when there is something to report; \<^const>\<open>None\<close> is the nil
  function.\<close>

definition appendOutputTruncatedMarker :: "RunJournal \<Rightarrow> time \<Rightarrow> string result option \<Rightarrow> (RunJournal \<times> bool) result" where
  "appendOutputTruncatedMarker j at newEventID =
    (if \<not> hasClaimGrant j then Inl (Err ''journal has no claim grant'')
     else if j_DroppedOutputChunks j = 0 then Inr (j, False)
     else (case newEventID of
         None \<Rightarrow> Inl (Err ''output truncation marker ID generator is unavailable'')
       | Some gen \<Rightarrow> bind_r gen (\<lambda>eventID.
           bind_r (appendEvent j \<lparr> ev_EventID = eventID, ev_Sequence = wrap_i64 (j_LastEventSequence j + 1), ev_Kind = ''output_truncated'',
                                   ev_OccurredAt = at, ev_Payload = truncation_payload j \<rparr> ''event is invalid'')
             (\<lambda>j'. Inr (j'\<lparr> j_DroppedOutputChunks := 0, j_DroppedOutputBytes := 0 \<rparr>, True)))))"

definition QueueOutputTruncatedMarker :: "time \<Rightarrow> string result option \<Rightarrow> RunJournal \<Rightarrow> (RunJournal \<times> bool) result" where
  "QueueOutputTruncatedMarker at newEventID j = appendOutputTruncatedMarker j at newEventID"

definition MarkEventsDelivered :: "string list \<Rightarrow> RunJournal \<Rightarrow> RunJournal result" where
  "MarkEventsDelivered eventIDs j = Inr (j\<lparr> j_PendingEvents := removeEvents (j_PendingEvents j) eventIDs \<rparr>)"

definition MarkEventsDeliveredAndQueueOutputTruncatedMarker ::
  "string list \<Rightarrow> time \<Rightarrow> string result option \<Rightarrow> RunJournal \<Rightarrow> (RunJournal \<times> bool) result" where
  "MarkEventsDeliveredAndQueueOutputTruncatedMarker eventIDs at newEventID j =
     appendOutputTruncatedMarker (j\<lparr> j_PendingEvents := removeEvents (j_PendingEvents j) eventIDs \<rparr>) at newEventID"

subsection \<open>Transitions\<close>

definition prepareTransition :: "RunJournal \<Rightarrow> StateTransitionRequest \<Rightarrow> StateTransitionRequest result" where
  "prepareTransition j t =
     on_err (checks [
       (\<not> hasClaimGrant j, ''journal has no claim grant''),
       (blank (tr_TransitionID t) \<or> blank (tr_State t) \<or> \<not> validRawMessage (tr_Payload t), ''state transition is invalid'')])
     (let t' = (if tr_Fence t = zero_fence then t\<lparr> tr_Fence := journal_Fence j \<rparr> else t) in
      on_err (checks [(tr_Fence t' \<noteq> journal_Fence j, ''state transition fence does not match journal'')]) (Inr t'))"

definition queueTransition :: "RunJournal \<Rightarrow> StateTransitionRequest \<Rightarrow> RunJournal result" where
  "queueTransition j t = bind_r (prepareTransition j t) (\<lambda>p. Inr (j\<lparr> j_PendingTransitions := j_PendingTransitions j @ [p] \<rparr>))"

definition QueueTransition :: "StateTransitionRequest \<Rightarrow> RunJournal \<Rightarrow> RunJournal result" where
  "QueueTransition t j = (if isTerminalTransitionState (tr_State t) then Inl (Err ''terminal transition requires terminal queue'')
     else queueTransition j t)"

definition QueueRunningTransition :: "StateTransitionRequest \<Rightarrow> RunJournal \<Rightarrow> RunJournal result" where
  "QueueRunningTransition t j = bind_r (prepareTransition j t) (\<lambda>p.
     on_err (checks [
       (tr_State p \<noteq> ''running'', ''running transition state is invalid''),
       (j_LocalState j = ''terminal_pending'' \<or> hasPendingTerminalTransition (j_PendingTransitions j),
        ''running transition follows terminal transition'')])
     (Inr (j\<lparr> j_PendingTransitions := j_PendingTransitions j @ [p], j_LocalState := ''running'' \<rparr>)))"

definition QueueWaitingForInput :: "RunEvent \<Rightarrow> StateTransitionRequest \<Rightarrow> RunJournal \<Rightarrow> RunJournal result" where
  "QueueWaitingForInput event0 t j = (let event = nextSequence j event0 in
     if ev_Kind event \<noteq> ''waiting_for_input'' then Inl (Err ''waiting event is invalid'')
     else if j_LocalState j = ''paused'' then appendEvent j (event\<lparr> ev_Kind := ''agent_event'' \<rparr>) ''waiting event is invalid''
     else if j_LocalState j = ''terminal_pending'' \<or> hasPendingTerminalTransition (j_PendingTransitions j)
     then appendEvent j event ''waiting event is invalid''
     else bind_r (prepareTransition j t) (\<lambda>p.
       if tr_State p \<noteq> ''waiting_for_input'' then Inl (Err ''waiting transition state is invalid'')
       else bind_r (appendEvent j event ''waiting event is invalid'') (\<lambda>j1.
         let ts = j_PendingTransitions j1;
             ts' = (if ts = [] then (if j_LocalState j1 \<noteq> ''waiting_for_input'' then ts @ [p] else ts)
                    else if tr_State (last ts) = ''waiting_for_input''
                    then (if tr_TransitionID (last ts) \<notin> set (j_AttemptedTransitionIDs j1)
                          then butlast ts @ [(last ts)\<lparr> tr_Payload := tr_Payload p \<rparr>] else ts)
                    else ts @ [p])
         in Inr (j1\<lparr> j_PendingTransitions := ts', j_LocalState := ''waiting_for_input'' \<rparr>))))"

definition MarkTransitionsDelivered :: "string list \<Rightarrow> RunJournal \<Rightarrow> RunJournal result" where
  "MarkTransitionsDelivered ids j = (let ts = removeTransitions (j_PendingTransitions j) ids in
     Inr (j\<lparr> j_PendingTransitions := ts, j_AttemptedTransitionIDs := retainAttemptedTransitions (j_AttemptedTransitionIDs j) ts \<rparr>))"

definition MarkTransitionAttempted :: "string \<Rightarrow> RunJournal \<Rightarrow> RunJournal result" where
  "MarkTransitionAttempted transitionID j =
    (if \<not> validRequiredString transitionID 4096 then Inl (Err ''transition ID is invalid'')
     else if \<not> hasPendingTransition (j_PendingTransitions j) transitionID then Inl (Err ''transition is not pending'')
     else if transitionID \<notin> set (j_AttemptedTransitionIDs j)
     then Inr (j\<lparr> j_AttemptedTransitionIDs := j_AttemptedTransitionIDs j @ [transitionID] \<rparr>) else Inr j)"

subsection \<open>Acknowledgements\<close>

definition queueCommandAcknowledgement :: "RunJournal \<Rightarrow> CommandAcknowledgement \<Rightarrow> RunJournal result" where
  "queueCommandAcknowledgement j a0 =
     on_err (checks [
       (\<not> hasClaimGrant j, ''journal has no claim grant''),
       (CommandAcknowledgementRetired j, ''command acknowledgement is no longer deliverable'')])
     (let a1 = (if ack_RunID a0 = [] then a0\<lparr> ack_RunID := j_RunID j \<rparr> else a0) in
      on_err (checks [
        (ack_RunID a1 \<noteq> j_RunID j \<or> blank (ack_CommandID a1) \<or> \<not> validCommandAcknowledgementOutcome (ack_Outcome a1)
         \<or> blank (ack_AckID a1), ''command acknowledgement is invalid'')])
      (let a = (if ack_Fence a1 = zero_fence then a1\<lparr> ack_Fence := journal_Fence j \<rparr> else a1) in
       on_err (checks [(ack_Fence a \<noteq> journal_Fence j, ''command acknowledgement fence does not match journal'')])
       (case find (\<lambda>p. ack_CommandID p = ack_CommandID a) (j_PendingCommandAcknowledgements j) of
          Some p \<Rightarrow> if ack_Outcome p = ack_Outcome a then Inr j
                    else Inl (Err ''command acknowledgement outcome conflicts with pending acknowledgement'')
        | None \<Rightarrow> Inr (j\<lparr> j_PendingCommandAcknowledgements := j_PendingCommandAcknowledgements j @ [a] \<rparr>))))"

definition QueueCommandAcknowledgement :: "CommandAcknowledgement \<Rightarrow> RunJournal \<Rightarrow> RunJournal result" where
  "QueueCommandAcknowledgement a j = queueCommandAcknowledgement j a"

fun mark_control_delivered :: "string list \<Rightarrow> ControlCommandIntent list \<Rightarrow> ControlCommandIntent list result" where
  "mark_control_delivered ids [] = Inr []"
| "mark_control_delivered ids (i # is) =
    (if cc_AckID i \<in> set ids then
       (if cc_Outcome i = [] then Inl (Err ''control command acknowledgement is unresolved'')
        else bind_r (mark_control_delivered ids is) (\<lambda>is'. Inr (i\<lparr> cc_AcknowledgementDelivered := True \<rparr> # is')))
     else bind_r (mark_control_delivered ids is) (\<lambda>is'. Inr (i # is')))"

definition MarkCommandAcknowledgementsDelivered :: "string list \<Rightarrow> RunJournal \<Rightarrow> RunJournal result" where
  "MarkCommandAcknowledgementsDelivered ids j =
     bind_r (case j_InputCommandIntent j of
        Some i \<Rightarrow> if ic_AckID i \<in> set ids then
            (if ic_Outcome i = [] then Inl (Err ''input command acknowledgement is unresolved'')
             else Inr (Some (i\<lparr> ic_AcknowledgementDelivered := True \<rparr>)))
          else Inr (Some i)
      | None \<Rightarrow> Inr None) (\<lambda>input.
     bind_r (mark_control_delivered ids (j_ControlCommandIntents j)) (\<lambda>controls.
       Inr (j\<lparr> j_PendingCommandAcknowledgements := removeAcknowledgements (j_PendingCommandAcknowledgements j) ids,
               j_InputCommandIntent := input, j_ControlCommandIntents := controls \<rparr>)))"

end
