(* ===== verification/Terminal.thy ===== *)
theory Terminal
  imports Outbox
begin

text \<open>
  Terminal transitions (\<^verbatim>\<open>internal/state/state.go\<close>, with the helpers of \<^verbatim>\<open>goal_delivery.go\<close> and
  \<^verbatim>\<open>control.go\<close>): the digests that fix a terminal intent, the settlement of everything a terminal
  transition overtakes, the verdict and the passage to cleanup.
\<close>

subsection \<open>Digests\<close>

definition terminalIntentDigest :: "RunJournal \<Rightarrow> string \<Rightarrow> RawMessage \<Rightarrow> string result" where
  "terminalIntentDigest j stateName payload =
     on_err (checks [(\<not> isTerminalTransitionState stateName \<or> \<not> validRawMessage payload, ''terminal intent is invalid'')])
     (case marshal_raw False payload of None \<Rightarrow> Inl (Err ''json: error calling MarshalJSON'')
      | Some enc \<Rightarrow> Inr (sha_hex (json_object [(''fence'', json_object (fence_members (journal_Fence j))),
          (''state'', marshal_string False stateName), (''payload'', enc)])))"

definition terminalCommandIntentDigest :: "RunJournal \<Rightarrow> string \<Rightarrow> string \<Rightarrow> string result" where
  "terminalCommandIntentDigest j commandID outcome =
     on_err (checks [(\<not> validRequiredString commandID 4096 \<or> \<not> validCommandAcknowledgementOutcome outcome,
       ''terminal command intent is invalid'')])
     (Inr (sha_hex (json_object [(''fence'', json_object (fence_members (journal_Fence j))),
        (''run_id'', marshal_string False (j_RunID j)), (''command_id'', marshal_string False commandID),
        (''outcome'', marshal_string False outcome)])))"

definition fill_ack :: "RunJournal \<Rightarrow> CommandAcknowledgement \<Rightarrow> CommandAcknowledgement" where
  "fill_ack j a = (let a1 = (if ack_RunID a = [] then a\<lparr> ack_RunID := j_RunID j \<rparr> else a)
     in if ack_Fence a1 = zero_fence then a1\<lparr> ack_Fence := journal_Fence j \<rparr> else a1)"

definition terminalCommandDigest :: "RunJournal \<Rightarrow> CommandAcknowledgement \<Rightarrow> string result" where
  "terminalCommandDigest j a0 = (let a = fill_ack j a0 in
     on_err (checks [(ack_RunID a \<noteq> j_RunID j \<or> ack_Fence a \<noteq> journal_Fence j,
       ''terminal command acknowledgement does not match journal'')])
     (terminalCommandIntentDigest j (ack_CommandID a) (ack_Outcome a)))"

text \<open>\<^verbatim>\<open>StateTransitionRequest\<close> and \<^verbatim>\<open>CommandAcknowledgement\<close> embed the fence, so its members come first.\<close>

definition terminalSettlementDigest :: "RunJournal \<Rightarrow> StateTransitionRequest \<Rightarrow> CommandAcknowledgement \<Rightarrow> string result" where
  "terminalSettlementDigest j t a0 =
     bind_r (prepareTransition j t) (\<lambda>p. let a = fill_ack j a0 in
       on_err (checks [(ack_RunID a \<noteq> j_RunID j \<or> blank (ack_CommandID a) \<or> \<not> validCommandAcknowledgementOutcome (ack_Outcome a)
          \<or> blank (ack_AckID a) \<or> ack_Fence a \<noteq> journal_Fence j, ''command acknowledgement is invalid'')])
       (case marshal_raw False (tr_Payload p) of None \<Rightarrow> Inl (Err ''json: error calling MarshalJSON'')
        | Some enc \<Rightarrow> Inr (sha_hex (json_object [
            (''transition'', json_object (fence_members (tr_Fence p) @ [(''transition_id'', marshal_string False (tr_TransitionID p)),
               (''state'', marshal_string False (tr_State p)), (''payload'', enc)])),
            (''acknowledgement'', json_object (fence_members (ack_Fence a) @ [(''run_id'', marshal_string False (ack_RunID a)),
               (''command_id'', marshal_string False (ack_CommandID a)), (''outcome'', marshal_string False (ack_Outcome a)),
               (''ack_id'', marshal_string False (ack_AckID a))]))]))))"

subsection \<open>Settlement\<close>

definition settleUnresolvedInputCommand :: "RunJournal \<Rightarrow> RunJournal result" where
  "settleUnresolvedInputCommand j = (case j_InputCommandIntent j of None \<Rightarrow> Inr j
     | Some i \<Rightarrow> if ic_Outcome i \<noteq> [] then Inr j
        else queueCommandAcknowledgement (j\<lparr> j_InputCommandIntent := Some (i\<lparr> ic_Outcome := ''failed'' \<rparr>) \<rparr>)
          \<lparr> ack_Fence = zero_fence, ack_RunID = j_RunID j, ack_CommandID = ic_CommandID i, ack_Outcome = ''failed'', ack_AckID = ic_AckID i \<rparr>)"

text \<open>The index loop over the control intents: \<open>done\<close> holds the intents already visited.\<close>

fun settle_controls :: "RunJournal \<Rightarrow> ControlCommandIntent list \<Rightarrow> ControlCommandIntent list \<Rightarrow> RunJournal result" where
  "settle_controls j done [] = Inr j"
| "settle_controls j done (i # is) =
    (if cc_Outcome i \<noteq> [] then settle_controls j (done @ [i]) is
     else (let i' = i\<lparr> cc_Outcome := ''rejected'' \<rparr> in
       bind_r (queueCommandAcknowledgement (j\<lparr> j_ControlCommandIntents := done @ i' # is \<rparr>)
         \<lparr> ack_Fence = zero_fence, ack_RunID = [], ack_CommandID = cc_CommandID i, ack_Outcome = ''rejected'', ack_AckID = cc_AckID i \<rparr>)
       (\<lambda>j'. settle_controls j' (done @ [i']) is)))"

definition settleUnresolvedControlCommands :: "RunJournal \<Rightarrow> RunJournal result" where
  "settleUnresolvedControlCommands j = settle_controls j [] (j_ControlCommandIntents j)"

subsection \<open>The terminal transition\<close>

text \<open>The result is absent, present without its body, or present with the pending request.\<close>

definition authoritativeTerminalTransition :: "RunJournal \<Rightarrow> StateTransitionRequest option option" where
  "authoritativeTerminalTransition j =
    (case find (\<lambda>t. isTerminalTransitionState (tr_State t)) (j_PendingTransitions j) of
       Some t \<Rightarrow> Some (Some t)
     | None \<Rightarrow> if isTerminalTransitionState (j_TerminalState j) then Some None else None)"

definition sameStateTransition :: "StateTransitionRequest \<Rightarrow> StateTransitionRequest \<Rightarrow> bool" where
  "sameStateTransition l r = (tr_Fence l = tr_Fence r \<and> tr_TransitionID l = tr_TransitionID r \<and> tr_State l = tr_State r
     \<and> rm_bytes (tr_Payload l) = rm_bytes (tr_Payload r))"

definition terminalTaskResultKind :: "RawMessage \<Rightarrow> string result" where
  "terminalTaskResultKind payload = (case unmarshal_map (rm_bytes payload) of
     None \<Rightarrow> Inl (Err ''completed terminal payload is invalid'')
   | Some envelope \<Rightarrow> (case last_lookup ''task_result'' envelope of
       None \<Rightarrow> Inr []
     | Some v \<Rightarrow> (case unmarshal_strings [''kind''] (print_json False v) of
         None \<Rightarrow> Inl (Err ''completed terminal task result kind is invalid'')
       | Some r \<Rightarrow> if validTaskResultKind (r ''kind'') then Inr (r ''kind'')
                   else Inl (Err ''completed terminal task result kind is invalid''))))"

definition setTerminalPending :: "RunJournal \<Rightarrow> time \<Rightarrow> string \<Rightarrow> RunJournal" where
  "setTerminalPending j pendingAt terminalState = j\<lparr> j_LocalState := ''terminal_pending'',
     j_TerminalPendingAt := (if j_TerminalPendingAt j = 0 then pendingAt else j_TerminalPendingAt j),
     j_TerminalState := terminalState \<rparr>"

definition providerActionFailureTerminal :: string where "providerActionFailureTerminal = ''run_terminal_unknown''"

text \<open>A new terminal first settles every unresolved command and provider action, then installs itself.\<close>

definition settleForTerminal :: "RunJournal \<Rightarrow> RunJournal result" where
  "settleForTerminal j = bind_r (settleUnresolvedInputCommand j) (\<lambda>j1. bind_r (settleUnresolvedControlCommands j1) (\<lambda>j2.
     Inr (fst (settleUnresolvedProviderActions providerActionFailureTerminal j2))))"

definition installTerminal :: "StateTransitionRequest \<Rightarrow> string \<Rightarrow> time \<Rightarrow> RunJournal \<Rightarrow> RunJournal result" where
  "installTerminal p intentDigest pendingAt j =
    (if tr_State p = ''cancelled'' then
       Inr (setTerminalPending (j\<lparr> j_RetainWorkspace := True, j_PendingTransitions := [p],
          j_AttemptedTransitionIDs := retainAttemptedTransitions (j_AttemptedTransitionIDs j) [p],
          j_TerminalIntentDigest := intentDigest \<rparr>) pendingAt (tr_State p))
     else if pendingTerminalState (j_PendingTransitions j) \<noteq> [] then
       Inr (setTerminalPending j pendingAt (pendingTerminalState (j_PendingTransitions j)))
     else bind_r (if tr_State p = ''completed'' then terminalTaskResultKind (tr_Payload p) else Inr (j_TerminalTaskResultKind j))
       (\<lambda>kind. Inr (setTerminalPending (j\<lparr> j_TerminalTaskResultKind := kind,
          j_PendingTransitions := j_PendingTransitions j @ [p], j_TerminalIntentDigest := intentDigest \<rparr>) pendingAt (tr_State p))))"

definition queueTerminalTransition :: "RunJournal \<Rightarrow> StateTransitionRequest \<Rightarrow> time \<Rightarrow> RunJournal result" where
  "queueTerminalTransition j t pendingAt =
    (if j_TerminalVerdict j \<noteq> [] then Inl (Err ''terminal verdict is already recorded'')
     else bind_r (prepareTransition j t) (\<lambda>p.
       if \<not> isTerminalTransitionState (tr_State p) then Inl (Err ''terminal transition state is invalid'')
       else bind_r (terminalIntentDigest j (tr_State p) (tr_Payload p)) (\<lambda>intentDigest.
         if j_TerminalIntentDigest j \<noteq> [] \<and> j_TerminalIntentDigest j \<noteq> intentDigest then Inl (Err ''terminal intent conflicts with journal'')
         else (case authoritativeTerminalTransition j of
           Some existing \<Rightarrow>
             if \<not> opt_ex (\<lambda>e. sameStateTransition e p) existing then Inl (Err ''terminal transition conflicts with journal'')
             else Inr (j\<lparr> j_TerminalIntentDigest := intentDigest \<rparr>)
         | None \<Rightarrow> bind_r (settleForTerminal j) (installTerminal p intentDigest pendingAt)))))"

definition QueueTerminalTransitionAt :: "StateTransitionRequest \<Rightarrow> time \<Rightarrow> RunJournal \<Rightarrow> RunJournal result" where
  "QueueTerminalTransitionAt t pendingAt j =
     (if pendingAt = 0 then Inl (Err ''terminal pending time is invalid'') else queueTerminalTransition j t pendingAt)"

definition queueTerminalTransitionAndAcknowledgementAt ::
  "StateTransitionRequest \<Rightarrow> CommandAcknowledgement \<Rightarrow> time \<Rightarrow> string \<Rightarrow> RunJournal \<Rightarrow> RunJournal result" where
  "queueTerminalTransitionAndAcknowledgementAt t a pendingAt requiredState j =
    (if pendingAt = 0 then Inl (Err ''terminal pending time is invalid'')
     else bind_r (queueTerminalTransition j t pendingAt) (\<lambda>j1.
       if requiredState \<noteq> [] \<and> j_TerminalState j1 \<noteq> requiredState
       then Inl (Err (requiredState @ '' terminal transition state is invalid''))
       else bind_r (queueCommandAcknowledgement j1 a) (\<lambda>j2.
       bind_r (terminalCommandDigest j2 a) (\<lambda>commandDigest.
         if j_TerminalCommandDigest j2 \<noteq> [] \<and> j_TerminalCommandDigest j2 \<noteq> commandDigest
         then Inl (Err ''terminal command intent conflicts with journal'')
         else (let j3 = j2\<lparr> j_TerminalCommandDigest := commandDigest \<rparr> in
           bind_r (terminalSettlementDigest j3 t a) (\<lambda>digest.
             if j_TerminalSettlementDigest j3 \<noteq> [] \<and> j_TerminalSettlementDigest j3 \<noteq> digest
             then Inl (Err ''terminal settlement conflicts with journal'')
             else Inr (j3\<lparr> j_TerminalSettlementDigest := digest \<rparr>)))))))"

definition QueueTerminalTransitionAndAcknowledgementAt ::
  "StateTransitionRequest \<Rightarrow> CommandAcknowledgement \<Rightarrow> time \<Rightarrow> RunJournal \<Rightarrow> RunJournal result" where
  "QueueTerminalTransitionAndAcknowledgementAt t a pendingAt j = queueTerminalTransitionAndAcknowledgementAt t a pendingAt [] j"

definition QueueCancelledTransitionAndAcknowledgementAt ::
  "StateTransitionRequest \<Rightarrow> CommandAcknowledgement \<Rightarrow> time \<Rightarrow> RunJournal \<Rightarrow> RunJournal result" where
  "QueueCancelledTransitionAndAcknowledgementAt t a pendingAt j = queueTerminalTransitionAndAcknowledgementAt t a pendingAt ''cancelled'' j"

subsection \<open>Matching a recorded terminal\<close>

text \<open>The pairs are (matches, known).\<close>

definition TerminalIntentMatches :: "RunJournal \<Rightarrow> string \<Rightarrow> RawMessage \<Rightarrow> bool \<times> bool" where
  "TerminalIntentMatches j stateName payload =
    (if j_TerminalIntentDigest j = [] then
       (case find (\<lambda>t. isTerminalTransitionState (tr_State t)) (j_PendingTransitions j) of
          Some t \<Rightarrow> (tr_State t = stateName \<and> rm_bytes (tr_Payload t) = rm_bytes payload, True)
        | None \<Rightarrow> (False, j_TerminalState j \<noteq> []))
     else (case terminalIntentDigest j stateName payload of
          Inl _ \<Rightarrow> (False, True) | Inr d \<Rightarrow> (d = j_TerminalIntentDigest j, True)))"

definition TerminalCommandIntentMatches :: "RunJournal \<Rightarrow> string \<Rightarrow> string \<Rightarrow> bool \<times> bool" where
  "TerminalCommandIntentMatches j commandID outcome =
    (if j_TerminalCommandDigest j = [] then
       (case find (\<lambda>a. ack_CommandID a = commandID) (j_PendingCommandAcknowledgements j) of
          Some a \<Rightarrow> (ack_Outcome a = outcome, True) | None \<Rightarrow> (False, False))
     else (case terminalCommandIntentDigest j commandID outcome of
          Inl _ \<Rightarrow> (False, True) | Inr d \<Rightarrow> (d = j_TerminalCommandDigest j, True)))"

definition TerminalSettlementMatches :: "RunJournal \<Rightarrow> StateTransitionRequest \<Rightarrow> CommandAcknowledgement \<Rightarrow> bool \<times> bool" where
  "TerminalSettlementMatches j t a =
    (if j_TerminalSettlementDigest j = [] then (False, False)
     else (case terminalSettlementDigest j t a of
          Inl _ \<Rightarrow> (False, True) | Inr d \<Rightarrow> (d = j_TerminalSettlementDigest j, True)))"

subsection \<open>Verdict and cleanup\<close>

definition ResolveTerminal :: "string \<Rightarrow> time \<Rightarrow> RunJournal \<Rightarrow> RunJournal result" where
  "ResolveTerminal verdict resolvedAt j =
    (if \<not> validTerminalVerdict verdict \<or> resolvedAt = 0 then Inl (Err ''terminal verdict is invalid'')
     else if j_LocalState j \<noteq> ''terminal_pending'' then Inl (Err ''journal is not terminal pending'')
     else if j_TerminalVerdict j \<noteq> [] then
       (if j_TerminalVerdict j \<noteq> verdict then Inl (Err ''terminal verdict conflicts with journal'') else Inr j)
     else if j_TerminalPendingAt j = 0 \<or> \<not> isTerminalTransitionState (j_TerminalState j) then Inl (Err ''journal terminal state is invalid'')
     else Inr (j\<lparr> j_TerminalVerdict := verdict, j_TerminalResolvedAt := resolvedAt \<rparr>))"

definition ResolveTerminalForCleanup :: "string \<Rightarrow> time \<Rightarrow> RunJournal \<Rightarrow> RunJournal result" where
  "ResolveTerminalForCleanup verdict resolvedAt j =
    (if \<not> IsConclusiveTerminalVerdict verdict \<or> resolvedAt = 0 then Inl (Err ''terminal cleanup verdict is invalid'')
     else if j_LocalState j = ''cleanup_pending'' then
       (if j_TerminalVerdict j \<noteq> verdict then Inl (Err ''terminal verdict conflicts with journal'')
        else if HasProcessDetails j \<or> HasPendingContainment j then Inr (j\<lparr> j_LocalState := ''terminal_pending'' \<rparr>) else Inr j)
     else on_err (checks [
       (j_LocalState j \<noteq> ''terminal_pending'', ''journal is not terminal pending''),
       (j_TerminalVerdict j \<noteq> [] \<and> j_TerminalVerdict j \<noteq> verdict, ''terminal verdict conflicts with journal''),
       (j_TerminalPendingAt j = 0 \<or> \<not> isTerminalTransitionState (j_TerminalState j), ''journal terminal state is invalid'')])
     (let j1 = (if j_TerminalVerdict j = [] then j\<lparr> j_TerminalVerdict := verdict, j_TerminalResolvedAt := resolvedAt \<rparr> else j);
          j2 = fst (settleUnresolvedProviderActions providerActionFailureTerminal j1);
          j3 = (if j_TerminalState j2 \<noteq> ''completed'' \<and> length (j_ControlCommandIntents j2) \<noteq> 0
                then j2\<lparr> j_RetainWorkspace := True \<rparr> else j2);
          j4 = j3\<lparr> j_PendingEvents := [], j_PendingTransitions := [], j_AttemptedTransitionIDs := [],
                  j_PendingCommandAcknowledgements := [], j_InputCommandIntent := None, j_ControlCommandIntents := [] \<rparr>
      in Inr (if \<not> HasProcessDetails j4 \<and> \<not> HasPendingContainment j4 then j4\<lparr> j_LocalState := ''cleanup_pending'' \<rparr> else j4)))"

definition EnterCleanupPending :: "RunJournal \<Rightarrow> RunJournal result" where
  "EnterCleanupPending j =
    (if HasProcessDetails j \<or> HasPendingContainment j then Inl (Err ''process stop evidence remains pending'')
     else if j_LocalState j = ''cleanup_pending'' then Inr j
     else on_err (checks [
       (j_LocalState j \<noteq> ''terminal_pending'' \<or> \<not> validTerminalVerdict (j_TerminalVerdict j), ''journal is not cleanup eligible''),
       (j_NativeUsageRecoveryRequired j, ''native usage recovery remains pending''),
       (opt_ex (\<lambda>i. ic_Outcome i = [] \<or> \<not> ic_AcknowledgementDelivered i) (j_InputCommandIntent j), ''input command receipt is not delivered'')])
     (bind_r (if j_TerminalVerdict j = TerminalVerdictAccepted then
          on_err (checks [
            (list_ex (\<lambda>i. cc_Outcome i = [] \<or> \<not> cc_AcknowledgementDelivered i) (j_ControlCommandIntents j),
             ''control command receipt is not delivered''),
            (length (j_PendingTransitions j) \<noteq> 0 \<or> length (j_PendingCommandAcknowledgements j) \<noteq> 0 \<or> length (j_PendingGoalDeliveries j) \<noteq> 0,
             ''accepted terminal delivery is incomplete'')]) (Inr j)
        else Inr (j\<lparr> j_PendingTransitions := [], j_PendingCommandAcknowledgements := [], j_ControlCommandIntents := [] \<rparr>))
      (\<lambda>j1. Inr (j1\<lparr> j_PendingEvents := [], j_AttemptedTransitionIDs := [], j_LocalState := ''cleanup_pending'' \<rparr>))))"

end
