(* ===== verification/Commands.thy ===== *)
theory Commands
  imports Terminal
begin

text \<open>
  Input and control commands (\<^verbatim>\<open>internal/state/state.go\<close>, \<^verbatim>\<open>internal/state/control.go\<close>): at-most-once
  records that are written before stdin is touched, completed with an outcome and a queued
  acknowledgement, and never completed twice.
\<close>

subsection \<open>Provide input\<close>

text \<open>The flag says whether this call created the intent.\<close>

definition PrepareProvideInput :: "InputCommandIntent \<Rightarrow> RunJournal \<Rightarrow> (RunJournal \<times> bool) result" where
  "PrepareProvideInput intent j =
    (if \<not> validInputCommandIntent intent \<or> ic_Outcome intent \<noteq> [] \<or> ic_AcknowledgementDelivered intent
     then Inl (Err ''input command intent is invalid'')
     else (let create = (if j_LocalState j \<noteq> ''waiting_for_input'' then Inl (Err ''journal is not waiting for input'')
              else Inr (j\<lparr> j_InputCommandIntent := Some (intent\<lparr> ic_EventSequenceBarrier := j_LastEventSequence j \<rparr>) \<rparr>, True)) in
       case j_InputCommandIntent j of
         None \<Rightarrow> create
       | Some current \<Rightarrow>
           if ic_CommandID current = ic_CommandID intent then
             (if ic_PayloadDigest current = ic_PayloadDigest intent then Inr (j, False) else Inl (Err ''input command conflicts with journal''))
           else if \<not> ic_AcknowledgementDelivered current \<or> j_LocalState j \<noteq> ''waiting_for_input''
           then Inl (Err ''input command conflicts with journal'') else create))"

definition CompleteProvideInput :: "string \<Rightarrow> string \<Rightarrow> string \<Rightarrow> RunJournal \<Rightarrow> RunJournal result" where
  "CompleteProvideInput commandID payloadDigest outcome j =
    (if \<not> validInputCommandOutcome outcome then Inl (Err ''input command outcome is invalid'')
     else (case j_InputCommandIntent j of
       None \<Rightarrow> Inl (Err ''input command intent does not match journal'')
     | Some i0 \<Rightarrow>
       if ic_CommandID i0 \<noteq> commandID \<or> ic_PayloadDigest i0 \<noteq> payloadDigest then Inl (Err ''input command intent does not match journal'')
       else if ic_Outcome i0 \<noteq> [] \<and> ic_Outcome i0 \<noteq> outcome then Inr j
       else (let i = (if ic_Outcome i0 = [] then i0\<lparr> ic_Outcome := outcome \<rparr> else i0);
                 j1 = j\<lparr> j_InputCommandIntent := Some i \<rparr> in
         if ic_AcknowledgementDelivered i then Inr j1
         else bind_r (if outcome = ''applied'' \<and> j_LocalState j1 = ''waiting_for_input'' then
             bind_r (prepareTransition j1 \<lparr> tr_Fence = zero_fence, tr_TransitionID = ic_RunningTransitionID i, tr_State = ''running'',
                                          tr_Payload = command_id_payload (ic_CommandID i) \<rparr>) (\<lambda>p.
               let j2 = (if \<not> hasPendingTransition (j_PendingTransitions j1) (tr_TransitionID p)
                         then j1\<lparr> j_PendingTransitions := j_PendingTransitions j1 @ [p] \<rparr> else j1)
               in Inr (j2\<lparr> j_LocalState := ''running'' \<rparr>))
            else Inr j1)
           (\<lambda>j3. queueCommandAcknowledgement j3 \<lparr> ack_Fence = zero_fence, ack_RunID = j_RunID j3, ack_CommandID = ic_CommandID i,
                    ack_Outcome = ic_Outcome i, ack_AckID = ic_AckID i \<rparr>))))"

definition FailUnresolvedProvideInput :: "StateTransitionRequest \<Rightarrow> time \<Rightarrow> RunJournal \<Rightarrow> RunJournal result" where
  "FailUnresolvedProvideInput t pendingAt j =
    (if pendingAt = 0 then Inl (Err ''terminal pending time is invalid'')
     else if \<not> opt_ex (\<lambda>i. ic_Outcome i = []) (j_InputCommandIntent j) then Inr j
     else if j_LocalState j = ''terminal_pending'' \<or> j_LocalState j = ''cleanup_pending'' then settleUnresolvedInputCommand j
     else queueTerminalTransition j t pendingAt)"

subsection \<open>Control commands\<close>

definition RetainWorkspace :: "RunJournal \<Rightarrow> RunJournal result" where
  "RetainWorkspace j =
    (if j_LinuxCloneIntent j \<noteq> None \<and> clone_cleanup_evidence j
     then Inl (Err ''Linux clone retention cannot be added after normal cleanup has begun'')
     else Inr (j\<lparr> j_RetainWorkspace := True \<rparr>))"

definition controlAllowed :: "string \<Rightarrow> string \<Rightarrow> bool" where
  "controlAllowed kind localState =
    (if kind = ''guidance'' then localState = ''running'' \<or> localState = ''paused''
     else if kind = ''pause'' then localState = ''running''
     else if kind = ''resume'' then localState = ''paused''
     else False)"

definition PrepareControlCommand :: "ControlCommandIntent \<Rightarrow> RunJournal \<Rightarrow> (RunJournal \<times> bool) result" where
  "PrepareControlCommand intent j =
    (if \<not> validControlCommandIntent intent \<or> cc_Outcome intent \<noteq> [] \<or> cc_AcknowledgementDelivered intent
     then Inl (Err ''control command intent is invalid'')
     else (case find (\<lambda>c. cc_CommandID c = cc_CommandID intent) (j_ControlCommandIntents j) of
       Some c \<Rightarrow> if cc_Kind c \<noteq> cc_Kind intent \<or> cc_PayloadDigest c \<noteq> cc_PayloadDigest intent
                 then Inl (Err ''control command conflicts with journal'') else Inr (j, False)
     | None \<Rightarrow>
       if \<not> hasClaimGrant j \<or> \<not> controlAllowed (cc_Kind intent) (j_LocalState j) \<or> hasPendingTerminalTransition (j_PendingTransitions j)
       then Inl (Err ''control command is not allowed in journal state'')
       else if cc_Kind intent \<noteq> ''guidance'' \<and> list_ex (\<lambda>c. cc_Kind c \<noteq> ''guidance'' \<and> cc_Outcome c = []) (j_ControlCommandIntents j)
       then Inl (Err ''a lifecycle control command is already pending'')
       else Inr (j\<lparr> j_ControlCommandIntents := j_ControlCommandIntents j @ [intent] \<rparr>, True)))"

text \<open>Writing a map of raw members: the last value of a name, names in byte order.\<close>

definition marshal_map :: "(string \<times> json) list \<Rightarrow> string" where
  "marshal_map ms = print_json True (JObj (map (\<lambda>(k, v). (quote_raw True k, v)) (sort_key fst (map_members ms))))"

definition reject_receipt :: "RawMessage \<Rightarrow> RawMessage result" where
  "reject_receipt payload = (case unmarshal_map (rm_bytes payload) of
     None \<Rightarrow> Inl (Err ''control command receipt is invalid'')
   | Some ms \<Rightarrow> Inr (Some (marshal_map (ms @ [(''outcome'', JStr ''rejected'')]))))"

fun set_control_outcome :: "string \<Rightarrow> string \<Rightarrow> ControlCommandIntent list \<Rightarrow> ControlCommandIntent list" where
  "set_control_outcome cid out [] = []"
| "set_control_outcome cid out (i # is) =
     (if cc_CommandID i = cid then i\<lparr> cc_Outcome := out \<rparr> # is else i # set_control_outcome cid out is)"

definition CompleteControlCommand :: "string \<Rightarrow> string \<Rightarrow> string \<Rightarrow> RunEvent \<Rightarrow> RunJournal \<Rightarrow> RunJournal result" where
  "CompleteControlCommand commandID kind outcome0 event0 j =
    (if \<not> validControlOutcome outcome0 \<or> outcome0 = [] then Inl (Err ''control command outcome is invalid'')
     else if ev_Kind event0 \<noteq> ''command_applied'' \<or> \<not> opt_ex (\<lambda>r. r ''command_id'' = commandID \<and> r ''kind'' = kind \<and> r ''outcome'' = outcome0)
         (unmarshal_receipt (ev_Payload event0))
     then Inl (Err ''control command receipt does not match command'')
     else (case find (\<lambda>c. cc_CommandID c = commandID) (j_ControlCommandIntents j) of
       None \<Rightarrow> Inl (Err ''control command intent does not match journal'')
     | Some i \<Rightarrow>
       if cc_Kind i \<noteq> kind then Inl (Err ''control command intent does not match journal'')
       else if cc_Outcome i \<noteq> [] then Inr j
       else bind_r (if outcome0 = ''applied'' \<and> (\<not> controlAllowed kind (j_LocalState j) \<or> hasPendingTerminalTransition (j_PendingTransitions j))
                    then bind_r (reject_receipt (ev_Payload event0)) (\<lambda>p. Inr (''rejected'', event0\<lparr> ev_Payload := p \<rparr>))
                    else Inr (outcome0, event0)) (\<lambda>(outcome, event).
         bind_r (appendEvent j (nextSequence j event) ''control command receipt is invalid'') (\<lambda>j1.
         bind_r (if outcome = ''applied'' \<and> kind \<noteq> ''guidance'' then
             (let localState = (if kind = ''resume'' then ''running'' else ''paused'') in
              bind_r (queueTransition j1 \<lparr> tr_Fence = zero_fence, tr_TransitionID = cc_TransitionID i, tr_State = localState,
                                         tr_Payload = command_id_payload commandID \<rparr>)
                (\<lambda>j2. Inr (j2\<lparr> j_LocalState := localState \<rparr>)))
            else Inr j1) (\<lambda>j3.
         queueCommandAcknowledgement (j3\<lparr> j_ControlCommandIntents := set_control_outcome commandID outcome (j_ControlCommandIntents j3) \<rparr>)
           \<lparr> ack_Fence = zero_fence, ack_RunID = [], ack_CommandID = cc_CommandID i, ack_Outcome = outcome, ack_AckID = cc_AckID i \<rparr>)))))"

end
