(* ===== verification/Process.thy ===== *)
theory Process
  imports Commands
begin

text \<open>
  Claim, lease, workspace and process ownership (\<^verbatim>\<open>internal/state/state.go\<close>,
  \<^verbatim>\<open>internal/state/goal_usage.go\<close>): the operations on the journal's grant, its process marker, its
  version 1 containment authority, the uncertainty flag and native usage accounting.
\<close>

subsection \<open>Claim\<close>

record ClaimIntent =
  cl_Key :: RunKey
  cl_RuntimeKey :: string
  cl_RuntimeID :: string
  cl_RuntimeEpoch :: int
  cl_ClaimID :: string
  cl_LocalState :: string
  cl_Work :: Work
  cl_WorkspacePath :: string
  cl_WorkspaceBindingKey :: string

record ClaimResponse =
  cr_RunID :: string
  cr_Generation :: int
  cr_ClaimID :: string
  cr_LeaseToken :: string
  cr_LeaseExpiresAt :: time
  cr_Work :: Work

definition zero_work :: Work where
  "zero_work = \<lparr> w_Goal = [], w_AgentProfile = [], w_Workspace = [], w_Input = None, w_RequiredCapabilities = [] \<rparr>"

text \<open>The zero value of the struct.\<close>

definition zero_journal :: RunJournal where
  "zero_journal = \<lparr> j_RunID = [], j_Generation = 0, j_RuntimeKey = [], j_RuntimeID = [], j_ClaimedRuntimeEpoch = 0, j_ClaimID = [],
     j_LeaseToken = [], j_LeaseExpiresAt = 0, j_LocalState = [], j_TerminalPendingAt = 0, j_TerminalState = [],
     j_TerminalTaskResultKind = [], j_TerminalIntentDigest = [], j_TerminalCommandDigest = [], j_TerminalSettlementDigest = [],
     j_TerminalVerdict = [], j_TerminalResolvedAt = 0, j_Work = zero_work, j_WorkspacePath = [], j_WorkspaceRecoveryRequired = False,
     j_RetainWorkspace = False, j_WorkspaceBindingKey = [], j_LinuxCloneIntent = None, j_LinuxCloneSeedReceipt = None,
     j_LinuxCloneCheckoutReceipt = None, j_LinuxClonePromotionIntent = None, j_LinuxClonePromotionReceipt = None,
     j_LinuxCloneAbortPending = False, j_LinuxCloneAbortProof = None, j_LinuxCloneCleanupPending = False,
     j_LinuxCloneCleanupIntent = None, j_LinuxCloneTargetRemovalProof = None, j_LinuxCloneCleanupProof = None, j_PID = 0,
     j_ProcessIdentity = [], j_StartedAt = 0, j_ContainmentAuthority = None, j_ContainmentHandoff = None, j_ContainmentCgroup = None,
     j_ContainmentCgroupReleaseProof = None, j_ContainmentCgroupPreGateReleaseProof = None, j_ContainmentScans = None,
     j_ContainmentUnproven = False, j_LastEventSequence = 0, j_PendingEvents = [], j_DroppedOutputChunks = 0, j_DroppedOutputBytes = 0,
     j_PendingTransitions = [], j_AttemptedTransitionIDs = [], j_PendingCommandAcknowledgements = [], j_PendingGoalDeliveries = [],
     j_DeliveredGoalDeliveries = [], j_RetiredGoalDeliveries = [], j_GoalDeliveryEnabled = False, j_NativeUsageObservation = None,
     j_NativeUsageRecoveryRequired = False, j_NativeUsageTerminalRecovery = None, j_InputCommandIntent = None,
     j_ControlCommandIntents = [], j_ProviderActionIntents = [] \<rparr>"

definition claimJournal :: "ClaimIntent \<Rightarrow> RunJournal" where
  "claimJournal i = zero_journal\<lparr> j_RunID := k_RunID (cl_Key i), j_Generation := k_Generation (cl_Key i),
     j_RuntimeKey := cl_RuntimeKey i, j_RuntimeID := cl_RuntimeID i, j_ClaimedRuntimeEpoch := cl_RuntimeEpoch i,
     j_ClaimID := cl_ClaimID i, j_LocalState := (if cl_LocalState i = [] then ''claiming'' else cl_LocalState i),
     j_Work := cl_Work i, j_WorkspacePath := cl_WorkspacePath i, j_WorkspaceBindingKey := cl_WorkspaceBindingKey i \<rparr>"

definition SaveClaimGrant :: "ClaimResponse \<Rightarrow> RunJournal \<Rightarrow> RunJournal result" where
  "SaveClaimGrant g j =
    (if cr_RunID g \<noteq> j_RunID j \<or> cr_Generation g \<noteq> j_Generation j \<or> cr_ClaimID g \<noteq> j_ClaimID j \<or> blank (cr_LeaseToken g)
        \<or> cr_LeaseExpiresAt g = 0 then Inl (Err ''claim grant does not match journal'')
     else if j_ContainmentCgroup j \<noteq> None \<or> j_LinuxCloneIntent j \<noteq> None then
       (if j_LeaseToken j \<noteq> cr_LeaseToken g \<or> j_LeaseExpiresAt j \<noteq> cr_LeaseExpiresAt g \<or> \<not> sameWork (j_Work j) (cr_Work g)
        then Inl (Err ''claim grant cannot replace a v2 run authority fence'') else Inr j)
     else on_err (checks [
       (j_ContainmentCgroupReleaseProof j \<noteq> None, ''claim grant cannot change after v2 containment release''),
       (j_ContainmentCgroupPreGateReleaseProof j \<noteq> None, ''claim grant cannot change after v2 pre-gate release'')])
     (Inr (j\<lparr> j_LeaseToken := cr_LeaseToken g, j_LeaseExpiresAt := cr_LeaseExpiresAt g, j_Work := cr_Work g, j_LocalState := ''claimed'' \<rparr>)))"

subsection \<open>Lease, workspace and local state\<close>

definition UpdateLeaseExpiry :: "time \<Rightarrow> RunJournal \<Rightarrow> RunJournal result" where
  "UpdateLeaseExpiry expiry j =
    (if expiry = 0 then Inl (Err ''lease expiry is invalid'')
     else if j_LeaseToken j = [] then Inl (Err ''journal has no claim grant'')
     else Inr (j\<lparr> j_LeaseExpiresAt := expiry \<rparr>))"

definition AdvanceLeaseExpiry :: "time \<Rightarrow> RunJournal \<Rightarrow> RunJournal result" where
  "AdvanceLeaseExpiry expiry j =
    (if expiry = 0 then Inl (Err ''lease expiry is invalid'')
     else if j_LeaseToken j = [] then Inl (Err ''journal has no claim grant'')
     else if j_LocalState j = ''terminal_pending'' \<or> j_LocalState j = ''cleanup_pending'' then Inr j
     else if expiry > j_LeaseExpiresAt j then Inr (j\<lparr> j_LeaseExpiresAt := expiry \<rparr>) else Inr j)"

definition MarkWorkspaceRecoveryRequired :: "RunJournal \<Rightarrow> RunJournal result" where
  "MarkWorkspaceRecoveryRequired j = Inr (j\<lparr> j_WorkspaceRecoveryRequired := True \<rparr>)"

definition SetWorkspacePath :: "string \<Rightarrow> RunJournal \<Rightarrow> RunJournal result" where
  "SetWorkspacePath path j = (if path = [] \<or> length path > 32768 then Inl (Err ''workspace path is invalid'')
     else Inr (j\<lparr> j_WorkspacePath := path \<rparr>))"

definition SetLocalState :: "string \<Rightarrow> RunJournal \<Rightarrow> RunJournal result" where
  "SetLocalState localState j =
    (if blank localState \<or> length localState > 256 then Inl (Err ''local state is invalid'')
     else if (j_LocalState j = ''cleanup_pending'') \<noteq> (localState = ''cleanup_pending'') then Inl (Err ''cleanup state requires dedicated transition'')
     else Inr (j\<lparr> j_LocalState := localState \<rparr>))"

subsection \<open>Process marker and version 1 authority\<close>

definition process_launch_checks :: "RunJournal \<Rightarrow> (bool \<times> string) list" where
  "process_launch_checks j = [
     (j_LinuxCloneAbortPending j \<or> j_LinuxCloneAbortProof j \<noteq> None, ''process launch is fenced by Linux clone abort''),
     (j_LinuxCloneIntent j \<noteq> None, ''Linux clone run requires v2 cgroup process registration'')]"

definition SetProcessDetails :: "int \<Rightarrow> string \<Rightarrow> time \<Rightarrow> RunJournal \<Rightarrow> RunJournal result" where
  "SetProcessDetails pid identity startedAt j =
    (if pid \<le> 0 \<or> \<not> validRequiredString identity 4096 \<or> startedAt = 0 then Inl (Err ''process details are invalid'')
     else on_err (checks ([(\<not> hasClaimGrant j, ''journal has no claim grant'')] @ process_launch_checks j @ [
       (j_ContainmentCgroup j \<noteq> None, ''process details require v2 cgroup handoff mutation''),
       (j_ContainmentCgroupReleaseProof j \<noteq> None, ''process details cannot be recreated after v2 containment release''),
       (j_ContainmentCgroupPreGateReleaseProof j \<noteq> None, ''process details cannot be recreated after v2 pre-gate release''),
       (j_ContainmentHandoff j \<noteq> None, ''process details require supervisor handoff mutation''),
       (j_LocalState j = ''cleanup_pending'', ''cannot register process details during cleanup'')]))
     (if HasProcessDetails j then
        (if j_PID j \<noteq> pid \<or> j_ProcessIdentity j \<noteq> identity then Inl (Err ''process details cannot replace an uncleared owner'') else Inr j)
      else Inr (j\<lparr> j_PID := pid, j_ProcessIdentity := identity, j_StartedAt := startedAt \<rparr>)))"

text \<open>Installing an authority: an equal one is a replay, one that differs only in a receipt already
  recorded keeps the record, anything else is refused.\<close>

definition install_authority :: "Supervisor \<Rightarrow> RunJournal \<Rightarrow> RunJournal result" where
  "install_authority v j = (case j_ContainmentAuthority j of
     None \<Rightarrow> Inr (j\<lparr> j_ContainmentAuthority := Some v \<rparr>)
   | Some a \<Rightarrow>
       if Supervisor_Equal a v then Inr j
       else if Supervisor_Equal (a\<lparr> su_StopReceipt := None \<rparr>) (v\<lparr> su_StopReceipt := None \<rparr>) \<and> su_StopReceipt a \<noteq> None \<and> su_StopReceipt v = None
       then Inr j
       else Inl (Err ''containment authority cannot replace an uncleared owner''))"

definition SetProcessDetailsWithAuthority :: "int \<Rightarrow> string \<Rightarrow> time \<Rightarrow> Supervisor \<Rightarrow> RunJournal \<Rightarrow> RunJournal result" where
  "SetProcessDetailsWithAuthority pid identity startedAt v j =
    (if pid \<le> 0 \<or> \<not> validRequiredString identity 4096 \<or> startedAt = 0 then Inl (Err ''process details are invalid'')
     else on_err (Supervisor_Validate v)
      (on_err (checks ([
       (su_Version v = 2, ''v2 containment authority requires supervisor handoff commit''),
       (su_TargetPID v \<noteq> pid \<or> su_TargetIdentity v \<noteq> identity, ''containment authority target does not match process details''),
       (\<not> hasClaimGrant j, ''journal has no claim grant'')] @ process_launch_checks j @ [
       (j_ContainmentHandoff j \<noteq> None, ''process details require supervisor handoff mutation''),
       (j_ContainmentCgroup j \<noteq> None, ''process details require v2 cgroup handoff mutation''),
       (j_ContainmentCgroupReleaseProof j \<noteq> None, ''process details cannot be recreated after v2 containment release''),
       (j_ContainmentCgroupPreGateReleaseProof j \<noteq> None, ''process details cannot be recreated after v2 pre-gate release''),
       (j_LocalState j = ''cleanup_pending'', ''cannot register process details during cleanup'')]))
      (if HasProcessDetails j then
         (if j_PID j \<noteq> pid \<or> j_ProcessIdentity j \<noteq> identity then Inl (Err ''process details cannot replace an uncleared owner'')
          else install_authority v j)
       else install_authority v (j\<lparr> j_PID := pid, j_ProcessIdentity := identity, j_StartedAt := startedAt \<rparr>))))"

definition SetContainmentAuthority :: "int \<Rightarrow> string \<Rightarrow> Supervisor \<Rightarrow> RunJournal \<Rightarrow> RunJournal result" where
  "SetContainmentAuthority pid identity v j =
    (if pid \<le> 0 \<or> blank identity then Inl (Err ''process details are invalid'')
     else on_err (Supervisor_Validate v)
      (on_err (checks ([
       (su_Version v = 2, ''v2 containment authority requires supervisor handoff commit''),
       (su_TargetPID v \<noteq> pid \<or> su_TargetIdentity v \<noteq> identity, ''containment authority target does not match process details'')]
       @ process_launch_checks j @ [
       (j_ContainmentCgroup j \<noteq> None, ''v2 containment authority requires supervisor handoff commit''),
       (j_ContainmentCgroupReleaseProof j \<noteq> None, ''v2 containment authority cannot be recreated after release''),
       (j_ContainmentCgroupPreGateReleaseProof j \<noteq> None, ''v2 pre-gate containment authority cannot be recreated after release''),
       (j_ContainmentHandoff j \<noteq> None, ''containment authority requires supervisor handoff mutation''),
       (j_PID j \<noteq> pid \<or> j_ProcessIdentity j \<noteq> identity \<or> j_StartedAt j = 0, ''containment authority requires a persisted process marker'')]))
      (install_authority v j)))"

definition MarkContainmentUnproven :: "int \<Rightarrow> string \<Rightarrow> RunJournal \<Rightarrow> RunJournal result" where
  "MarkContainmentUnproven pid identity j =
    (if pid \<le> 0 \<or> \<not> validRequiredString identity 4096 then Inl (Err ''process details are invalid'')
     else if j_PID j \<noteq> pid \<or> j_ProcessIdentity j \<noteq> identity \<or> \<not> HasProcessDetails j
     then Inl (Err ''containment uncertainty requires the exact process marker'')
     else Inr (j\<lparr> j_ContainmentUnproven := True \<rparr>))"

definition ClearContainmentUnproven :: "int \<Rightarrow> string \<Rightarrow> RunJournal \<Rightarrow> RunJournal result" where
  "ClearContainmentUnproven pid identity j =
    (if pid \<le> 0 \<or> \<not> validRequiredString identity 4096 then Inl (Err ''process details are invalid'')
     else if j_ContainmentCgroup j \<noteq> None then Inl (Err ''v2 containment uncertainty clears only with an exact stop receipt'')
     else if \<not> HasProcessDetails j then Inr j
     else on_err (checks [
       (j_PID j \<noteq> pid \<or> j_ProcessIdentity j \<noteq> identity, ''persisted process details changed during containment proof''),
       (opt_ex (\<lambda>s. \<not> scans_clean s) (j_ContainmentScans j), ''containment scan uncertainty is sticky''),
       (opt_ex (\<lambda>a. su_OwnerKind a = OwnerKindLinuxHelper) (j_ContainmentAuthority j) \<and> j_ContainmentScans j = None,
        ''Linux containment scan fence is missing'')])
     (Inr (j\<lparr> j_ContainmentUnproven := False \<rparr>)))"

definition requireLinuxScansSealedForAuthority :: "RunJournal \<Rightarrow> Supervisor \<Rightarrow> gerror option" where
  "requireLinuxScansSealedForAuthority j a =
    (if su_OwnerKind a \<noteq> OwnerKindLinuxHelper then None
     else checks [
       (\<not> opt_ex (\<lambda>s. matchesAuthority s a) (j_ContainmentScans j), ''Linux supervisor scan fence is missing or mismatched''),
       (j_ContainmentUnproven j \<or> \<not> opt_ex scans_sealed (j_ContainmentScans j), ''Linux supervisor scan seals are unresolved'')])"

definition ClearProcessDetails :: "int \<Rightarrow> string \<Rightarrow> RunJournal \<Rightarrow> RunJournal result" where
  "ClearProcessDetails pid identity j =
    (if pid \<le> 0 \<or> \<not> validRequiredString identity 4096 then Inl (Err ''process details are invalid'')
     else if j_ContainmentCgroup j \<noteq> None \<or> opt_ex (\<lambda>a. su_Version a = 2) (j_ContainmentAuthority j)
     then Inl (Err ''v2 process details require ClearProcessDetailsV2'')
     else if j_ContainmentHandoff j \<noteq> None then Inl (Err ''process details require supervisor handoff mutation'')
     else if \<not> HasProcessDetails j then Inr j
     else if j_PID j \<noteq> pid \<or> j_ProcessIdentity j \<noteq> identity then Inl (Err ''persisted process details changed during termination'')
     else if j_ContainmentUnproven j then Inl (Err ''containment stop proof is unresolved'')
     else on_err (case j_ContainmentAuthority j of None \<Rightarrow> None
        | Some a \<Rightarrow> then_err (requireLinuxScansSealedForAuthority j a) (checks [
            (\<not> opt_ex (\<lambda>r. StopReceipt_ValidFor r a) (su_StopReceipt a),
             ''containment stop receipt is required before clearing process details'')]))
      (Inr (j\<lparr> j_PID := 0, j_ProcessIdentity := [], j_StartedAt := 0, j_ContainmentAuthority := None, j_ContainmentScans := None \<rparr>)))"

subsection \<open>Native usage\<close>

definition mergeNativeUsageTerminalRecovery :: "RunJournal \<Rightarrow> NativeUsageTerminalRecovery option \<Rightarrow> RunJournal result" where
  "mergeNativeUsageTerminalRecovery j settlement = (case settlement of None \<Rightarrow> Inr j
     | Some s \<Rightarrow>
       if \<not> validNativeUsageTerminalRecovery (Some s) then Inl (Err ''native usage terminal recovery is invalid'')
       else (let c = s\<lparr> nt_Payload := copy_raw (nt_Payload s) \<rparr> in
         case j_NativeUsageTerminalRecovery j of
           None \<Rightarrow> Inr (j\<lparr> j_NativeUsageTerminalRecovery := Some c \<rparr>)
         | Some e \<Rightarrow> if nt_State e \<noteq> nt_State c \<or> nt_CommandID e \<noteq> nt_CommandID c \<or> nt_CommandOutcome e \<noteq> nt_CommandOutcome c
               \<or> rm_bytes (nt_Payload e) \<noteq> rm_bytes (nt_Payload c) then Inl ErrGoalDeliveryConflict else Inr j))"

definition MarkNativeUsageRecoverySettlement :: "NativeUsageTerminalRecovery option \<Rightarrow> RunJournal \<Rightarrow> RunJournal result" where
  "MarkNativeUsageRecoverySettlement settlement j =
     mergeNativeUsageTerminalRecovery (j\<lparr> j_NativeUsageRecoveryRequired := True \<rparr>) settlement"

definition RecordNativeUsageObservation :: "NativeUsageObservation \<Rightarrow> RunJournal \<Rightarrow> RunJournal result" where
  "RecordNativeUsageObservation ob j =
     on_err (NativeUsageObservation_Validate ob)
      (if opt_ex (\<lambda>p. nativeUsageObservationRegresses p ob) (j_NativeUsageObservation j) then Inr j
       else Inr (j\<lparr> j_NativeUsageObservation := Some ob \<rparr>))"

end
