(* ===== verification/Goal_Outbox.thy ===== *)
theory Goal_Outbox
  imports Process
begin

text \<open>
  The Goal delivery outbox of a journal (\<^verbatim>\<open>internal/state/goal_delivery.go\<close>, with the native usage recovery
  barrier of \<^verbatim>\<open>state.go\<close>): queueing, the atomic evidence-and-terminal operation, delivery, retirement and
  discard.  A loop that returns at its first match is \<^const>\<open>find\<close>; the removal by slice concatenation is
  \<open>remove_first\<close>.
\<close>

definition remove_first :: "('a \<Rightarrow> bool) \<Rightarrow> 'a list \<Rightarrow> 'a list" where
  "remove_first P xs = takeWhile (\<lambda>x. \<not> P x) xs @ tl (dropWhile (\<lambda>x. \<not> P x) xs)"

subsection \<open>Comparison with what the journal holds\<close>

definition same_delivery_id :: "string \<Rightarrow> string \<Rightarrow> GoalDelivery \<Rightarrow> bool" where
  "same_delivery_id kind deliveryID d = (gd_Kind d = kind \<and> gd_DeliveryID d = deliveryID)"

definition compareGoalEvidenceDelivery :: "GoalDelivery \<Rightarrow> GoalDelivery \<Rightarrow> bool result" where
  "compareGoalEvidenceDelivery existing candidate = (case (gd_Evidence existing, gd_Evidence candidate) of
     (Some e, Some c) \<Rightarrow>
       if gd_Kind existing \<noteq> GoalDeliveryEvidence \<or> gd_Kind candidate \<noteq> GoalDeliveryEvidence then Inr False
       else if gd_DeliveryID existing \<noteq> gd_DeliveryID candidate \<and> e_EvidenceID e \<noteq> e_EvidenceID c then Inr False
       else if gd_PayloadDigest existing = gd_PayloadDigest candidate \<and> equalGoalDelivery existing candidate then Inr True
       else Inl ErrGoalDeliveryConflict
   | _ \<Rightarrow> Inr False)"

fun evidence_conflict :: "GoalDelivery \<Rightarrow> GoalDelivery list \<Rightarrow> gerror option" where
  "evidence_conflict candidate [] = None"
| "evidence_conflict candidate (d # ds) = (case compareGoalEvidenceDelivery d candidate of
     Inl e \<Rightarrow> Some e | Inr _ \<Rightarrow> evidence_conflict candidate ds)"

definition rejectGoalEvidenceIdentityConflict :: "RunJournal \<Rightarrow> GoalDelivery \<Rightarrow> gerror option" where
  "rejectGoalEvidenceIdentityConflict j candidate =
    (if gd_Kind candidate \<noteq> GoalDeliveryEvidence \<or> gd_Evidence candidate = None then None
     else then_err (evidence_conflict candidate (j_PendingGoalDeliveries j))
       (then_err (evidence_conflict candidate (j_DeliveredGoalDeliveries j))
          (evidence_conflict candidate (map gr_Delivery (j_RetiredGoalDeliveries j)))))"

fun evidence_match :: "GoalDelivery \<Rightarrow> GoalDelivery list \<Rightarrow> bool result" where
  "evidence_match candidate [] = Inr False"
| "evidence_match candidate (d # ds) = bind_r (compareGoalEvidenceDelivery d candidate) (\<lambda>matched.
     if matched then Inr True else evidence_match candidate ds)"

definition requireExactGoalEvidenceDelivery :: "RunJournal \<Rightarrow> GoalDelivery \<Rightarrow> gerror option" where
  "requireExactGoalEvidenceDelivery j candidate = (case evidence_match candidate (j_PendingGoalDeliveries j) of
     Inl e \<Rightarrow> Some e | Inr True \<Rightarrow> None
   | Inr False \<Rightarrow> (case evidence_match candidate (j_DeliveredGoalDeliveries j) of
       Inl e \<Rightarrow> Some e | Inr True \<Rightarrow> None
     | Inr False \<Rightarrow> (case evidence_match candidate (map gr_Delivery (j_RetiredGoalDeliveries j)) of
         Inl e \<Rightarrow> Some e | Inr True \<Rightarrow> Some ErrGoalDeliveryConflict
       | Inr False \<Rightarrow> Some (Err ''required Goal evidence delivery is not durable''))))"

subsection \<open>Queue\<close>

definition enqueue_delivery :: "GoalDelivery \<Rightarrow> RunJournal \<Rightarrow> RunJournal result" where
  "enqueue_delivery d j = (let same = same_delivery_id (gd_Kind d) (gd_DeliveryID d);
       exact = (\<lambda>x. gd_PayloadDigest x = gd_PayloadDigest d \<and> equalGoalDelivery x d) in
     case find same (j_PendingGoalDeliveries j) of
       Some p \<Rightarrow> if exact p then Inr j else Inl ErrGoalDeliveryConflict
     | None \<Rightarrow>
       if list_ex (\<lambda>r. same (gr_Delivery r)) (j_RetiredGoalDeliveries j) then Inl ErrGoalDeliveryConflict
       else (case find same (j_DeliveredGoalDeliveries j) of
         Some p \<Rightarrow> if exact p then Inr j else Inl ErrGoalDeliveryConflict
       | None \<Rightarrow> Inr (j\<lparr> j_PendingGoalDeliveries := j_PendingGoalDeliveries j @ [d], j_GoalDeliveryEnabled := True \<rparr>)))"

definition queueGoalDeliveryOnJournal :: "GoalDelivery \<Rightarrow> RunJournal \<Rightarrow> RunJournal result" where
  "queueGoalDeliveryOnJournal delivery j =
    (if \<not> hasClaimGrant j then Inl (Err ''run journal has no claim grant'')
     else bind_r (prepareGoalDelivery (j_RunID j) (delivery\<lparr> gd_Fence := journal_Fence j \<rparr>)) (\<lambda>d.
       on_err (rejectGoalEvidenceIdentityConflict j d) (enqueue_delivery d j)))"

definition attach_delivery :: "GoalSessionAttachDelivery \<Rightarrow> GoalDelivery" where
  "attach_delivery p = \<lparr> gd_Kind = GoalDeliverySessionAttach, gd_DeliveryID = ga_LocalHandleID p, gd_PayloadDigest = [],
     gd_Fence = zero_fence, gd_Ready = False, gd_SessionAttach = Some p, gd_SessionStopped = None, gd_Evidence = None, gd_Usage = None \<rparr>"

definition stopped_delivery :: "GoalSessionStoppedDelivery \<Rightarrow> GoalDelivery" where
  "stopped_delivery p = \<lparr> gd_Kind = GoalDeliverySessionStopped, gd_DeliveryID = gs_BindingID p, gd_PayloadDigest = [],
     gd_Fence = zero_fence, gd_Ready = True, gd_SessionAttach = None, gd_SessionStopped = Some p, gd_Evidence = None, gd_Usage = None \<rparr>"

definition evidence_delivery :: "Fence \<Rightarrow> Evidence \<Rightarrow> GoalDelivery" where
  "evidence_delivery f e = \<lparr> gd_Kind = GoalDeliveryEvidence, gd_DeliveryID = e_EvidenceKey e, gd_PayloadDigest = [],
     gd_Fence = f, gd_Ready = True, gd_SessionAttach = None, gd_SessionStopped = None, gd_Evidence = Some e, gd_Usage = None \<rparr>"

definition usage_delivery :: "Fence \<Rightarrow> Usage \<Rightarrow> GoalDelivery" where
  "usage_delivery f u = \<lparr> gd_Kind = GoalDeliveryUsage, gd_DeliveryID = u_UsageKey u, gd_PayloadDigest = [],
     gd_Fence = f, gd_Ready = True, gd_SessionAttach = None, gd_SessionStopped = None, gd_Evidence = None, gd_Usage = Some u \<rparr>"

definition QueueGoalSessionStopped :: "GoalSessionStoppedDelivery \<Rightarrow> RunJournal \<Rightarrow> RunJournal result" where
  "QueueGoalSessionStopped p j = queueGoalDeliveryOnJournal (stopped_delivery p) j"

definition DiscardUnreadyGoalSessionAttachDelivery :: "string \<Rightarrow> RunJournal \<Rightarrow> RunJournal result" where
  "DiscardUnreadyGoalSessionAttachDelivery localHandleID j =
    (if \<not> validRequiredString localHandleID 4096 then Inl (Err ''Goal session attach delivery ID is invalid'')
     else (let same = same_delivery_id GoalDeliverySessionAttach localHandleID in
       case find same (j_PendingGoalDeliveries j) of
         None \<Rightarrow> Inl (Err ''Goal session attach delivery is not pending'')
       | Some d \<Rightarrow> if gd_Ready d then Inl ErrGoalDeliveryConflict
           else Inr (j\<lparr> j_PendingGoalDeliveries := remove_first same (j_PendingGoalDeliveries j) \<rparr>)))"

subsection \<open>Evidence with the terminal transition\<close>

fun evidence_loop :: "string \<Rightarrow> Fence \<Rightarrow> string list \<Rightarrow> string list \<Rightarrow> Evidence list \<Rightarrow> GoalDelivery list result" where
  "evidence_loop runID f seenKeys seenIDs [] = Inr []"
| "evidence_loop runID f seenKeys seenIDs (e # es) =
    (if e_EvidenceKey e \<in> set seenKeys then Inl (Err ''Goal evidence set contains a duplicate evidence key'')
     else if e_EvidenceID e \<in> set seenIDs then Inl (Err ''Goal evidence set contains a duplicate evidence ID'')
     else bind_r (prepareGoalDelivery runID (evidence_delivery f e)) (\<lambda>d.
       bind_r (evidence_loop runID f (e_EvidenceKey e # seenKeys) (e_EvidenceID e # seenIDs) es) (\<lambda>ds. Inr (d # ds))))"

definition prepareGoalEvidenceDeliveries :: "RunJournal \<Rightarrow> Evidence list \<Rightarrow> GoalDelivery list result" where
  "prepareGoalEvidenceDeliveries j es =
    (if es = [] then Inl (Err ''Goal evidence set must not be empty'') else evidence_loop (j_RunID j) (journal_Fence j) [] [] es)"

fun consume_ids :: "string list \<Rightarrow> GoalDelivery list \<Rightarrow> bool" where
  "consume_ids seen [] = (seen = [])"
| "consume_ids seen (d # ds) = (case gd_Evidence d of None \<Rightarrow> False
     | Some e \<Rightarrow> e_EvidenceID e \<in> set seen \<and> consume_ids (removeAll (e_EvidenceID e) seen) ds)"

definition sameEvidenceIDSet :: "string list \<Rightarrow> GoalDelivery list \<Rightarrow> bool" where
  "sameEvidenceIDSet refs ds = (length refs = length ds \<and> distinct refs \<and> consume_ids refs ds)"

text \<open>\<^verbatim>\<open>json.Unmarshal\<close> into a \<^verbatim>\<open>[]string\<close>: null is the nil slice and a null element stays the empty string.\<close>

definition string_list_json :: "json \<Rightarrow> string list option" where
  "string_list_json v = (case v of JNull \<Rightarrow> Some []
     | JArr vs \<Rightarrow> if list_all is_string_or_null vs
         then Some (map (\<lambda>x. case x of JStr raw \<Rightarrow> unquote_string raw | _ \<Rightarrow> []) vs) else None
     | _ \<Rightarrow> None)"

definition object_members :: "json option \<Rightarrow> (string \<times> json) list option" where
  "object_members v = (case v of Some (JObj ms) \<Rightarrow> Some (map (\<lambda>(k, v). (unquote_string k, v)) ms) | _ \<Rightarrow> None)"

fun evidence_ref_values :: "string list \<Rightarrow> string list \<Rightarrow> gerror option" where
  "evidence_ref_values seen [] = None"
| "evidence_ref_values seen (v # vs) =
    (if \<not> validRequiredString v 4096 then Some (Err ''terminal transition evidence reference is invalid'')
     else if v \<in> set seen then Some (Err ''terminal transition evidence references are duplicated'')
     else evidence_ref_values (v # seen) vs)"

definition terminalEvidenceRefs :: "RawMessage \<Rightarrow> string list result" where
  "terminalEvidenceRefs payload =
    (if rm_bytes payload = [] then Inl (Err ''terminal transition evidence references are missing'')
     else (case object_members (parse_json (rm_bytes payload)) of
       None \<Rightarrow> Inl (Err ''terminal transition payload is invalid'')
     | Some envelope \<Rightarrow>
       let direct = last_lookup ''evidence_refs'' envelope; nested = last_lookup ''task_result'' envelope in
       if direct \<noteq> None \<and> nested \<noteq> None then Inl (Err ''terminal transition evidence references are ambiguous'')
       else bind_r (case nested of
           Some t \<Rightarrow> (case object_members (Some t) of
               None \<Rightarrow> Inl (Err ''terminal task result is invalid'')
             | Some task \<Rightarrow> (case last_lookup ''evidence_refs'' task of
                 None \<Rightarrow> Inl (Err ''terminal transition evidence references are missing'') | Some r \<Rightarrow> Inr r))
         | None \<Rightarrow> (case direct of
               None \<Rightarrow> Inl (Err ''terminal transition evidence references are missing'') | Some r \<Rightarrow> Inr r))
         (\<lambda>refs. case string_list_json refs of
            None \<Rightarrow> Inl (Err ''terminal transition evidence references are invalid'')
          | Some values \<Rightarrow>
            if values = [] then Inl (Err ''terminal transition evidence references are invalid'')
            else on_err (evidence_ref_values [] values) (Inr values))))"

fun require_all :: "RunJournal \<Rightarrow> GoalDelivery list \<Rightarrow> gerror option" where
  "require_all j [] = None"
| "require_all j (d # ds) = then_err (requireExactGoalEvidenceDelivery j d) (require_all j ds)"

fun queue_all :: "GoalDelivery list \<Rightarrow> RunJournal \<Rightarrow> RunJournal result" where
  "queue_all [] j = Inr j"
| "queue_all (d # ds) j = bind_r (queueGoalDeliveryOnJournal d j) (queue_all ds)"

definition QueueGoalEvidenceAndTerminalTransition ::
  "Evidence list \<Rightarrow> StateTransitionRequest \<Rightarrow> time \<Rightarrow> RunJournal \<Rightarrow> RunJournal result" where
  "QueueGoalEvidenceAndTerminalTransition evidence transition pendingAt j =
    (if evidence = [] then Inl (Err ''Goal evidence set must not be empty'')
     else if pendingAt = 0 then Inl (Err ''terminal pending time is invalid'')
     else bind_r (prepareTransition j transition) (\<lambda>prepared.
       if \<not> isTerminalTransitionState (tr_State prepared) then Inl (Err ''terminal transition state is invalid'')
       else (case authoritativeTerminalTransition j of
         Some existing \<Rightarrow>
           if \<not> opt_ex (\<lambda>e. sameStateTransition e prepared) existing then Inl ErrGoalDeliveryConflict
           else bind_r (terminalEvidenceRefs (tr_Payload prepared)) (\<lambda>refs.
             bind_r (prepareGoalEvidenceDeliveries j evidence) (\<lambda>ds.
               if \<not> sameEvidenceIDSet refs ds then Inl (Err ''terminal transition evidence references do not match deliveries'')
               else on_err (require_all j ds) (Inr j)))
       | None \<Rightarrow>
           bind_r (terminalEvidenceRefs (tr_Payload prepared)) (\<lambda>refs.
             bind_r (prepareGoalEvidenceDeliveries j evidence) (\<lambda>ds.
               if \<not> sameEvidenceIDSet refs ds then Inl (Err ''terminal transition evidence references do not match deliveries'')
               else bind_r (queue_all ds j) (\<lambda>j'. queueTerminalTransition j' prepared pendingAt))))))"

subsection \<open>Delivery and retirement\<close>

definition RetireGoalDelivery ::
  "string \<Rightarrow> string \<Rightarrow> string \<Rightarrow> int \<Rightarrow> string \<Rightarrow> string \<Rightarrow> time \<Rightarrow> RunJournal \<Rightarrow> RunJournal result" where
  "RetireGoalDelivery kind deliveryID payloadDigest statusCode code message retiredAt j =
    (if \<not> validGoalDeliveryKind kind \<or> \<not> validRequiredString deliveryID 4096 \<or> \<not> validGoalDeliveryDigest payloadDigest
        \<or> statusCode < 400 \<or> statusCode > 599 \<or> \<not> validRequiredString code 256 \<or> \<not> validRequiredString message 4096 \<or> retiredAt = 0
     then Inl (Err ''Goal delivery retirement is invalid'')
     else (let same = same_delivery_id kind deliveryID in
       case find same (j_PendingGoalDeliveries j) of
         None \<Rightarrow> Inl (Err ''Goal delivery is not pending'')
       | Some d \<Rightarrow> if gd_PayloadDigest d \<noteq> payloadDigest then Inl ErrGoalDeliveryConflict
           else Inr (j\<lparr> j_PendingGoalDeliveries := remove_first same (j_PendingGoalDeliveries j),
                  j_RetiredGoalDeliveries := j_RetiredGoalDeliveries j @ [\<lparr> gr_Delivery = d, gr_StatusCode = statusCode,
                     gr_Code = code, gr_Message = message, gr_RetiredAt = retiredAt \<rparr>] \<rparr>)))"

definition MarkGoalDeliveryDelivered :: "string \<Rightarrow> string \<Rightarrow> string \<Rightarrow> RunJournal \<Rightarrow> RunJournal result" where
  "MarkGoalDeliveryDelivered kind deliveryID payloadDigest j =
    (if \<not> validGoalDeliveryKind kind \<or> \<not> validRequiredString deliveryID 4096 \<or> \<not> validGoalDeliveryDigest payloadDigest
     then Inl (Err ''Goal delivery receipt is invalid'')
     else (let same = same_delivery_id kind deliveryID in
       case find same (j_DeliveredGoalDeliveries j) of
         Some d \<Rightarrow> if gd_PayloadDigest d \<noteq> payloadDigest then Inl ErrGoalDeliveryConflict else Inr j
       | None \<Rightarrow> (case find same (j_PendingGoalDeliveries j) of
           None \<Rightarrow> Inl (Err ''Goal delivery is not pending'')
         | Some d \<Rightarrow>
           if gd_PayloadDigest d \<noteq> payloadDigest then Inl ErrGoalDeliveryConflict
           else if \<not> gd_Ready d then Inl (Err ''Goal delivery was not ready for delivery'')
           else Inr (j\<lparr> j_PendingGoalDeliveries := remove_first same (j_PendingGoalDeliveries j),
                       j_DeliveredGoalDeliveries := j_DeliveredGoalDeliveries j @ [d] \<rparr>))))"

subsection \<open>The native usage recovery barrier\<close>

definition QueueNativeUsageRecoverySettlement ::
  "RunKey \<Rightarrow> Usage \<Rightarrow> NativeUsageTerminalRecovery option \<Rightarrow> RunJournal \<Rightarrow> RunJournal result" where
  "QueueNativeUsageRecoverySettlement key usage settlement j =
     on_err (Usage_Validate usage)
    (if u_RunID usage \<noteq> k_RunID key then Inl (Err ''native usage recovery run ID does not match journal'')
     else if \<not> hasClaimGrant j then Inl (Err ''run journal has no claim grant'')
     else bind_r (mergeNativeUsageTerminalRecovery (j\<lparr> j_NativeUsageRecoveryRequired := True \<rparr>) settlement) (\<lambda>j1.
       bind_r (prepareGoalDelivery (j_RunID j1) (usage_delivery (journal_Fence j1) usage)) (\<lambda>d. enqueue_delivery d j1)))"

definition QueueNativeUsageRecovery :: "RunKey \<Rightarrow> Usage \<Rightarrow> RunJournal \<Rightarrow> RunJournal result" where
  "QueueNativeUsageRecovery key usage j = QueueNativeUsageRecoverySettlement key usage None j"

definition hasExactUsageDelivery :: "RunJournal \<Rightarrow> Usage \<Rightarrow> bool" where
  "hasExactUsageDelivery j usage = (case prepareGoalDelivery (j_RunID j) (usage_delivery (journal_Fence j) usage) of
     Inl _ \<Rightarrow> False
   | Inr d \<Rightarrow> list_ex (\<lambda>c. gd_PayloadDigest c = gd_PayloadDigest d \<and> equalGoalDelivery c d)
       (j_PendingGoalDeliveries j @ j_DeliveredGoalDeliveries j @ map gr_Delivery (j_RetiredGoalDeliveries j)))"

definition ClearNativeUsageRecoveryRequired :: "RunKey \<Rightarrow> Usage \<Rightarrow> RunJournal \<Rightarrow> RunJournal result" where
  "ClearNativeUsageRecoveryRequired key usage j =
     on_err (Usage_Validate usage)
    (if u_RunID usage \<noteq> k_RunID key then Inl (Err ''native usage recovery run ID does not match journal'')
     else if \<not> j_NativeUsageRecoveryRequired j then Inr j
     else if \<not> hasExactUsageDelivery j usage then Inl (Err ''native usage recovery delivery is not durable'')
     else Inr (j\<lparr> j_NativeUsageRecoveryRequired := False, j_NativeUsageTerminalRecovery := None \<rparr>))"

end
