(* ===== verification/Goal_Attach.thy ===== *)
theory Goal_Attach
  imports Goal_Outbox Goal_Session_Store
begin

text \<open>
  Making the attach delivery of a run ready (\<^verbatim>\<open>internal/state/goal_delivery.go\<close>): the one change of a run journal
  that reads another file, the session journal the delivery names.
\<close>

definition sameGoalSessionAttachRepositoryResource :: "string \<Rightarrow> string option \<Rightarrow> bool" where
  "sameGoalSessionAttachRepositoryResource sessionResourceID deliveryResourceID =
    (case deliveryResourceID of None \<Rightarrow> sessionResourceID = [] | Some r \<Rightarrow> sessionResourceID = r)"

definition validateGoalSessionAttachDeliveryReadyLocked :: "SessionDir \<Rightarrow> RunJournal \<Rightarrow> GoalDelivery \<Rightarrow> string \<Rightarrow> gerror option" where
  "validateGoalSessionAttachDeliveryReadyLocked sd j delivery localHandleID = (case gd_SessionAttach delivery of
     None \<Rightarrow> Some ErrGoalDeliveryConflict
   | Some p \<Rightarrow>
      if gd_DeliveryID delivery \<noteq> localHandleID \<or> ga_LocalHandleID p \<noteq> localHandleID \<or> \<not> validRequiredString (ga_GoalID p) 4096
      then Some ErrGoalDeliveryConflict
      else (case loadGoalSessionPathLocked (goalSessionPath \<lparr> sk_GoalID = ga_GoalID p, sk_LocalHandleID = localHandleID \<rparr>) sd of
        Inl e \<Rightarrow> wrap_err ''load Goal session for attach delivery: '' (Some e)
      | Inr s \<Rightarrow> let i = sj_Intent s in
        if si_GoalID i \<noteq> ga_GoalID p \<or> si_LocalHandleID i \<noteq> localHandleID \<or> si_RunID i \<noteq> j_RunID j \<or> si_Generation i \<noteq> j_Generation j
           \<or> si_RuntimeID i \<noteq> j_RuntimeID j \<or> si_RuntimeEpoch i \<noteq> j_ClaimedRuntimeEpoch j \<or> si_HarnessKind i \<noteq> ga_HarnessKind p
           \<or> si_HarnessVersion i \<noteq> ga_HarnessVersion p \<or> si_AdapterVersion i \<noteq> ga_AdapterVersion p
           \<or> si_WorkspaceFingerprint i \<noteq> ga_WorkspaceFingerprint p
           \<or> \<not> sameGoalSessionAttachRepositoryResource (si_RepositoryResourceID i) (ga_RepositoryResourceID p)
        then Some ErrGoalDeliveryConflict
        else if NeedsReconciliation s then Some ErrGoalSessionUncertain
        else if sj_LaunchState s \<noteq> GoalSessionLaunchStateAttached
           \<or> validateGoalSessionHandle \<lparr> hn_NativeSessionID = sj_NativeSessionID s, hn_NativeSessionFilename = sj_NativeSessionFilename s \<rparr> \<noteq> None
        then Some ErrGoalSessionNotAttached
        else if si_SessionMode i = GoalSessionModeResume \<or> \<not> ga_ServerIssuedBinding p
        then (if si_BindingID i \<noteq> ga_BindingID p then Some ErrGoalDeliveryConflict else None)
        else if si_BindingID i \<noteq> [] then Some ErrGoalDeliveryConflict else None))"

definition attach_ready :: "SessionDir \<Rightarrow> string \<Rightarrow> RunJournal \<Rightarrow> RunJournal result" where
  "attach_ready sd localHandleID j = (let same = same_delivery_id GoalDeliverySessionAttach localHandleID; ds = j_PendingGoalDeliveries j in
     case find same ds of
       None \<Rightarrow> Inl (Err ''Goal session attach delivery is not pending'')
     | Some delivery \<Rightarrow>
         if gd_Ready delivery then Inr j
         else on_err (validateGoalSessionAttachDeliveryReadyLocked sd j delivery localHandleID)
           (Inr (j\<lparr> j_PendingGoalDeliveries := ds[length (takeWhile (\<lambda>d. \<not> same d) ds) := delivery\<lparr> gd_Ready := True \<rparr>] \<rparr>)))"

end
