(* ===== verification/Scans.thy ===== *)
theory Scans
  imports Process
begin

text \<open>
  The process-group scan ledger of a version 1 Linux supervisor (\<^verbatim>\<open>internal/state/state.go\<close>,
  \<^verbatim>\<open>recordSupervisorScanUpdate\<close> and \<^verbatim>\<open>RecordSupervisorRecoveryScanSeal\<close>): the durable progress of the
  helper's and of the daemon mirror's scans, the abstract machine the ledger implements and the
  refinement between them.
\<close>

subsection \<open>Operations\<close>

definition owner_progress :: "SupervisorScanUpdate \<Rightarrow> ContainmentScanJournal \<Rightarrow> ContainmentScanProgress" where
  "owner_progress u s = (if sc_Owner u = SupervisorScanOwnerMirror then cs_Mirror s else cs_Helper s)"

definition set_owner_progress :: "SupervisorScanUpdate \<Rightarrow> ContainmentScanProgress \<Rightarrow> ContainmentScanJournal \<Rightarrow> ContainmentScanJournal" where
  "set_owner_progress u p s = (if sc_Owner u = SupervisorScanOwnerMirror then s\<lparr> cs_Mirror := p \<rparr> else s\<lparr> cs_Helper := p \<rparr>)"

text \<open>The \<^verbatim>\<open>switch update.Phase\<close> of the update: the owner's new progress and the new uncertainty flag.\<close>

definition scan_begin :: "64 word \<Rightarrow> ContainmentScanProgress \<Rightarrow> ContainmentScanProgress result" where
  "scan_begin n p =
    (if sg_SealedSequence p \<noteq> 0 \<or> sg_UnprovenSequence p \<noteq> 0 \<or> (sg_PendingSequence p \<noteq> 0 \<and> sg_PendingSequence p \<noteq> n)
     then Inl (Err ''supervisor scan begin conflicts with unresolved sequence'')
     else if sg_PendingSequence p = n then
       (if sg_CleanResultSequence p \<noteq> 0 then Inl (Err ''supervisor scan is awaiting fence retirement'') else Inr p)
     else if sg_CompletedSequence p = - 1 \<or> n \<noteq> sg_CompletedSequence p + 1
     then Inl (Err ''supervisor scan begin sequence is stale or out of order'')
     else Inr (p\<lparr> sg_PendingSequence := n \<rparr>))"

definition scan_clean :: "64 word \<Rightarrow> bool \<Rightarrow> ContainmentScanProgress \<Rightarrow> ContainmentScanProgress result" where
  "scan_clean n unproven p =
    (if sg_SealedSequence p \<noteq> 0 \<or> sg_UnprovenSequence p \<noteq> 0 \<or> unproven
     then Inl (Err ''supervisor scan cannot clear unresolved observation'')
     else if sg_PendingSequence p = n then
       (if sg_CleanResultSequence p \<noteq> 0 \<and> sg_CleanResultSequence p \<noteq> n
        then Inl (Err ''supervisor clean scan result conflicts with pending sequence'')
        else Inr (p\<lparr> sg_CleanResultSequence := n \<rparr>))
     else if sg_PendingSequence p = 0 \<and> sg_CleanResultSequence p = 0 \<and> sg_CompletedSequence p = n then Inr p
     else Inl (Err ''supervisor clean scan sequence is not pending''))"

definition scan_retire :: "64 word \<Rightarrow> bool \<Rightarrow> ContainmentScanProgress \<Rightarrow> ContainmentScanProgress result" where
  "scan_retire n unproven p =
    (if sg_SealedSequence p \<noteq> 0 \<or> sg_UnprovenSequence p \<noteq> 0 \<or> unproven
     then Inl (Err ''supervisor scan fence cannot retire unresolved observation'')
     else if sg_PendingSequence p = n \<and> sg_CleanResultSequence p = n
     then Inr (p\<lparr> sg_PendingSequence := 0, sg_CleanResultSequence := 0, sg_CompletedSequence := n \<rparr>)
     else if sg_PendingSequence p = 0 \<and> sg_CleanResultSequence p = 0 \<and> sg_CompletedSequence p = n then Inr p
     else Inl (Err ''supervisor scan result is not durably ready for retirement''))"

definition scan_seal :: "64 word \<Rightarrow> bool \<Rightarrow> ContainmentScanProgress \<Rightarrow> ContainmentScanProgress result" where
  "scan_seal n unproven p =
    (if sg_SealedSequence p = n \<and> progress_sealed p then Inr p
     else if sg_SealedSequence p \<noteq> 0 \<or> sg_PendingSequence p \<noteq> 0 \<or> sg_CleanResultSequence p \<noteq> 0
        \<or> sg_UnprovenSequence p \<noteq> 0 \<or> unproven \<or> sg_CompletedSequence p = 0
        \<or> sg_CompletedSequence p \<noteq> n \<or> sg_FailureKind p \<noteq> []
     then Inl (Err ''supervisor scan seal does not match a final clean sequence'')
     else Inr (p\<lparr> sg_SealedSequence := n \<rparr>))"

definition scan_unproven :: "64 word \<Rightarrow> string \<Rightarrow> bool \<Rightarrow> ContainmentScanProgress \<Rightarrow> (ContainmentScanProgress \<times> bool) result" where
  "scan_unproven n kind unproven p =
    (if sg_UnprovenSequence p = n \<and> sg_FailureKind p = kind then Inr (p, unproven)
     else let preScanBeginFailure = kind = ''pre_scan_ack_failure'' \<and> sg_PendingSequence p = 0
                \<and> sg_CleanResultSequence p = 0 \<and> sg_SealedSequence p = 0 \<and> sg_CompletedSequence p \<noteq> - 1
                \<and> n = sg_CompletedSequence p + 1;
              cleanRetireFailure = sg_PendingSequence p = 0 \<and> sg_CompletedSequence p = n \<and> kind = ''clean_retire_ack_failure''
       in if sg_SealedSequence p \<noteq> 0 \<or> sg_UnprovenSequence p \<noteq> 0
             \<or> (sg_PendingSequence p \<noteq> n \<and> \<not> cleanRetireFailure \<and> \<not> preScanBeginFailure)
          then Inl (Err ''supervisor unproven scan sequence is not pending'')
          else Inr (p\<lparr> sg_PendingSequence := 0, sg_CleanResultSequence := 0, sg_UnprovenSequence := n, sg_FailureKind := kind \<rparr>, True))"

definition with_flag :: "bool \<Rightarrow> ContainmentScanProgress result \<Rightarrow> (ContainmentScanProgress \<times> bool) result" where
  "with_flag unproven r = bind_r r (\<lambda>p. Inr (p, unproven))"

definition scan_phase :: "SupervisorScanUpdate \<Rightarrow> bool \<Rightarrow> ContainmentScanJournal \<Rightarrow> (ContainmentScanProgress \<times> bool) result" where
  "scan_phase u unproven s = (let n = sc_Sequence u; p = owner_progress u s in
     if sc_Phase u = ''begin'' then with_flag unproven (scan_begin n p)
     else if sc_Phase u = ''clean'' then with_flag unproven (scan_clean n unproven p)
     else if sc_Phase u = ''retire'' then with_flag unproven (scan_retire n unproven p)
     else if sc_Phase u = ''seal'' then with_flag unproven (scan_seal n unproven p)
     else if sc_Phase u = ''unproven'' then scan_unproven n (sc_FailureKind u) unproven p
     else if sc_Phase u = ''assert_clean'' then
       (if n \<noteq> sg_CompletedSequence p \<or> unproven \<or> \<not> scans_clean s
        then Inl (Err ''Linux containment scan evidence is unresolved'') else Inr (p, unproven))
     else if sc_Phase u = ''assert_sealed'' then
       (if n \<noteq> sg_SealedSequence p \<or> unproven \<or> \<not> progress_sealed p
        then Inl (Err ''Linux containment scan owner seal is unresolved'') else Inr (p, unproven))
     else if sc_Phase u = ''assert_all_sealed'' then
       (if n \<noteq> sg_SealedSequence p \<or> unproven \<or> \<not> scans_sealed s
        then Inl (Err ''Linux containment scan seals are unresolved'') else Inr (p, unproven))
     else Inl (Err ''supervisor scan update phase is invalid''))"

definition scan_request_owner :: "SupervisorHandoff \<Rightarrow> SupervisorScanUpdate \<Rightarrow> SupervisorHandoff" where
  "scan_request_owner request u = request\<lparr> ho_ScanUpdate := None, ho_SupervisorPID := sc_SupervisorPID u,
     ho_SupervisorIdentity := sc_SupervisorIdentity u \<rparr>"

definition scan_owner_check :: "SupervisorHandoff \<Rightarrow> RunJournal \<Rightarrow> gerror option" where
  "scan_owner_check expected j = (case j_ContainmentHandoff j of
     Some h \<Rightarrow> checks [(ho_StopReceipt h \<noteq> None \<or> \<not> SupervisorHandoff_Equal h expected,
       ''supervisor scan update handoff identity mismatch'')]
   | None \<Rightarrow> (case ToSupervisor expected of Inl e \<Rightarrow> Some e
       | Inr v \<Rightarrow> (case j_ContainmentAuthority j of
           None \<Rightarrow> Some (Err ''supervisor scan update has no active containment authority'')
         | Some a \<Rightarrow> checks [
             (su_StopReceipt a \<noteq> None \<or> j_PID j \<noteq> su_TargetPID v \<or> j_ProcessIdentity j \<noteq> su_TargetIdentity v,
              ''supervisor scan update has no active containment authority''),
             (\<not> Supervisor_Equal (a\<lparr> su_StopReceipt := None \<rparr>) v, ''supervisor scan update authority identity mismatch'')])))"

definition recordSupervisorScanUpdate :: "SupervisorHandoff \<Rightarrow> RunJournal \<Rightarrow> RunJournal result" where
  "recordSupervisorScanUpdate request j = (case ho_ScanUpdate request of
     None \<Rightarrow> Inl (Err ''supervisor scan update is missing'')
   | Some u \<Rightarrow> (let expected = scan_request_owner request u in
       on_err (checks [
         (j_LocalState j = ''cleanup_pending'', ''Linux containment scan update arrived during cleanup''),
         (j_ContainmentUnproven j \<and> sc_Phase u \<noteq> ''unproven'', ''Linux containment observation is already unresolved'')])
      (on_err (scan_owner_check expected j)
      (case j_ContainmentScans j of
         None \<Rightarrow> Inl (Err ''supervisor scan update fence is missing or mismatched'')
       | Some s \<Rightarrow>
          if \<not> matchesHandoff s expected \<or> cs_MirrorIdentity s \<noteq> sc_MirrorIdentity u
          then Inl (Err ''supervisor scan update fence is missing or mismatched'')
          else bind_r (scan_phase u (j_ContainmentUnproven j) s) (\<lambda>(p, unproven).
            Inr (j\<lparr> j_ContainmentScans := Some (set_owner_progress u p s), j_ContainmentUnproven := unproven \<rparr>))))))"

definition recovery_seal_progress :: "64 word \<Rightarrow> ContainmentScanProgress \<Rightarrow> ContainmentScanProgress result" where
  "recovery_seal_progress n p =
    (if sg_SealedSequence p = n \<and> progress_sealed p then Inr p
     else if sg_CompletedSequence p = 0 \<or> sg_CompletedSequence p = - 1 \<or> n \<noteq> sg_CompletedSequence p + 1
        \<or> sg_PendingSequence p \<noteq> 0 \<or> sg_CleanResultSequence p \<noteq> 0 \<or> sg_SealedSequence p \<noteq> 0
        \<or> sg_UnprovenSequence p \<noteq> 0 \<or> sg_FailureKind p \<noteq> []
     then Inl (Err ''Linux helper recovery scan proof is not the exact next clean sequence'')
     else Inr (p\<lparr> sg_CompletedSequence := n, sg_SealedSequence := n \<rparr>))"

definition RecordSupervisorRecoveryScanSeal :: "Supervisor \<Rightarrow> 64 word \<Rightarrow> RunJournal \<Rightarrow> RunJournal result" where
  "RecordSupervisorRecoveryScanSeal expected n j =
     on_err (Supervisor_Validate expected)
    (on_err (checks [
       (su_OwnerKind expected \<noteq> OwnerKindLinuxHelper \<or> su_StopReceipt expected \<noteq> None \<or> n = 0,
        ''Linux helper recovery scan seal identity is invalid''),
       (\<not> opt_ex (\<lambda>a. j_PID j = su_TargetPID expected \<and> j_ProcessIdentity j = su_TargetIdentity expected \<and> su_StopReceipt a = None)
          (j_ContainmentAuthority j), ''Linux helper recovery seal has no active matching authority''),
       (\<not> opt_ex (\<lambda>a. Supervisor_Equal (a\<lparr> su_StopReceipt := None \<rparr>) (expected\<lparr> su_StopReceipt := None \<rparr>)) (j_ContainmentAuthority j),
        ''Linux helper recovery seal authority identity mismatch'')])
    (case j_ContainmentScans j of
       None \<Rightarrow> Inl (Err ''Linux helper recovery seal scan fence is missing or mismatched'')
     | Some s \<Rightarrow>
        if \<not> matchesAuthority s expected then Inl (Err ''Linux helper recovery seal scan fence is missing or mismatched'')
        else if j_ContainmentUnproven j \<or> \<not> progress_sealed (cs_Mirror s)
        then Inl (Err ''Linux helper recovery seal requires a durable clean mirror seal'')
        else bind_r (recovery_seal_progress n (cs_Helper s)) (\<lambda>p. Inr (j\<lparr> j_ContainmentScans := Some (s\<lparr> cs_Helper := p \<rparr>) \<rparr>))))"

subsection \<open>The abstract scan machine\<close>

text \<open>What one owner's ledger stands for: between scans, in a scan, with a clean result that still has
  to be retired, closed for good, or failed for good.\<close>

datatype scan_state =
    Idle "64 word"
  | Scanning "64 word"
  | CleanReady "64 word"
  | Closed "64 word"
  | Failed "64 word" string

definition scan_abs :: "ContainmentScanProgress \<Rightarrow> scan_state" where
  "scan_abs p = (if sg_UnprovenSequence p \<noteq> 0 then Failed (sg_UnprovenSequence p) (sg_FailureKind p)
     else if sg_SealedSequence p \<noteq> 0 then Closed (sg_SealedSequence p)
     else if sg_CleanResultSequence p \<noteq> 0 then CleanReady (sg_CleanResultSequence p)
     else if sg_PendingSequence p \<noteq> 0 then Scanning (sg_PendingSequence p)
     else Idle (sg_CompletedSequence p))"

inductive scan_step :: "scan_state \<Rightarrow> scan_state \<Rightarrow> bool" where
  start: "c \<noteq> - 1 \<Longrightarrow> scan_step (Idle c) (Scanning (c + 1))"
| result: "scan_step (Scanning n) (CleanReady n)"
| retire: "scan_step (CleanReady n) (Idle n)"
| seal: "n \<noteq> 0 \<Longrightarrow> scan_step (Idle n) (Closed n)"
| fail_pending: "scan_step (Scanning n) (Failed n k)"
| fail_ready: "scan_step (CleanReady n) (Failed n k)"
| fail_begin: "c \<noteq> - 1 \<Longrightarrow> scan_step (Idle c) (Failed (c + 1) ''pre_scan_ack_failure'')"
| fail_retire: "n \<noteq> 0 \<Longrightarrow> scan_step (Idle n) (Failed n ''clean_retire_ack_failure'')"

inductive_cases scan_step_ClosedE [elim!]: "scan_step (Closed n) t"
inductive_cases scan_step_FailedE [elim!]: "scan_step (Failed n k) t"
inductive_simps scan_step_Idle: "scan_step (Idle n) t"

subsection \<open>Refinement\<close>

lemma word_succ_nonzero: "n \<noteq> - 1 \<Longrightarrow> n + 1 \<noteq> (0 :: 'a::len word)"
  by (metis add.commute add_eq_0_iff)

definition scan_ok :: "ContainmentScanProgress \<Rightarrow> ContainmentScanProgress \<Rightarrow> bool" where
  "scan_ok p q = (validContainmentScanProgress q \<and> (scan_abs q = scan_abs p \<or> scan_step (scan_abs p) (scan_abs q)))"

text \<open>The ledgers the journal accepts are the concrete forms of the machine's states.\<close>

definition ledger :: "64 word \<Rightarrow> 64 word \<Rightarrow> 64 word \<Rightarrow> 64 word \<Rightarrow> 64 word \<Rightarrow> string \<Rightarrow> ContainmentScanProgress" where
  "ledger pending clean completed sealed unproven kind = \<lparr> sg_PendingSequence = pending, sg_CleanResultSequence = clean,
     sg_CompletedSequence = completed, sg_SealedSequence = sealed, sg_UnprovenSequence = unproven, sg_FailureKind = kind \<rparr>"

lemma ledger_sel [simp]:
  "sg_PendingSequence (ledger a b c d e k) = a" "sg_CleanResultSequence (ledger a b c d e k) = b"
  "sg_CompletedSequence (ledger a b c d e k) = c" "sg_SealedSequence (ledger a b c d e k) = d"
  "sg_UnprovenSequence (ledger a b c d e k) = e" "sg_FailureKind (ledger a b c d e k) = k"
  by (simp_all add: ledger_def)

lemma ledger_upd [simp]:
  "(ledger a b c d e k)\<lparr> sg_PendingSequence := x \<rparr> = ledger x b c d e k"
  "(ledger a b c d e k)\<lparr> sg_CleanResultSequence := x \<rparr> = ledger a x c d e k"
  "(ledger a b c d e k)\<lparr> sg_CompletedSequence := x \<rparr> = ledger a b x d e k"
  "(ledger a b c d e k)\<lparr> sg_SealedSequence := x \<rparr> = ledger a b c x e k"
  "(ledger a b c d e k)\<lparr> sg_UnprovenSequence := x \<rparr> = ledger a b c d x k"
  "(ledger a b c d e k)\<lparr> sg_FailureKind := s \<rparr> = ledger a b c d e s"
  by (simp_all add: ledger_def)

lemma ledger_exhaust: obtains a b c d e k where "p = ledger a b c d e k"
  by (cases p) (simp add: ledger_def)

lemma progress_cases [consumes 1, case_names idle scanning ready closed failed_next failed_retire]:
  assumes "validContainmentScanProgress p"
  obtains c where "p = ledger 0 0 c 0 0 []"
  | c where "c \<noteq> - 1" "p = ledger (c + 1) 0 c 0 0 []"
  | c where "c \<noteq> - 1" "p = ledger (c + 1) (c + 1) c 0 0 []"
  | c where "c \<noteq> 0" "p = ledger 0 0 c c 0 []"
  | c k where "c \<noteq> - 1" "validRequiredString k 128" "p = ledger 0 0 c 0 (c + 1) k"
  | c where "c \<noteq> 0" "p = ledger 0 0 c 0 c ''clean_retire_ack_failure''"
proof -
  obtain a b c d e k where p: "p = ledger a b c d e k" by (rule ledger_exhaust)
  note v = assms [unfolded p validContainmentScanProgress_def, simplified]
  consider "e = 0" "d \<noteq> 0" | "e = 0" "d = 0" "b \<noteq> 0" | "e = 0" "d = 0" "b = 0" "a \<noteq> 0" | "e = 0" "d = 0" "b = 0" "a = 0" | "e \<noteq> 0"
    by blast
  then show thesis
  proof cases
    case 1
    with v have "d = c" "c \<noteq> 0" "a = 0" "b = 0" "k = []" by (simp_all split: if_split_asm)
    with 1 p show thesis by (auto intro: that(4))
  next
    case 2
    with v have "a = c + 1" "b = c + 1" "c \<noteq> - 1" "k = []" by (simp_all split: if_split_asm)
    with 2 p show thesis by (auto intro: that(3))
  next
    case 3
    with v have "a = c + 1" "c \<noteq> - 1" "k = []" by (simp_all split: if_split_asm)
    with 3 p show thesis by (auto intro: that(2))
  next
    case 4
    with v have "k = []" by (simp_all split: if_split_asm)
    with 4 p show thesis by (auto intro: that(1))
  next
    case 5
    with v have "a = 0" "b = 0" "d = 0" and k: "validRequiredString k 128"
      and e: "c \<noteq> - 1 \<and> e = c + 1 \<or> e = c \<and> k = ''clean_retire_ack_failure''"
      by (simp_all split: if_split_asm)
    with 5 p show thesis using that(5) [OF _ k] that(6) by blast
  qed
qed

lemma validRequiredString_Nil [simp]: "\<not> validRequiredString [] n"
  by (simp add: validRequiredString_def blank_def TrimSpace_def trim_left.simps trim_right.simps space_width_end_def)

lemma valid_ledger [simp]:
  "validContainmentScanProgress (ledger 0 0 c 0 0 [])"
  "c \<noteq> - 1 \<Longrightarrow> validContainmentScanProgress (ledger (c + 1) 0 c 0 0 [])"
  "c \<noteq> - 1 \<Longrightarrow> validContainmentScanProgress (ledger (c + 1) (c + 1) c 0 0 [])"
  "c \<noteq> 0 \<Longrightarrow> validContainmentScanProgress (ledger 0 0 c c 0 [])"
  "c \<noteq> - 1 \<Longrightarrow> validRequiredString k 128 \<Longrightarrow> validContainmentScanProgress (ledger 0 0 c 0 (c + 1) k)"
  "c \<noteq> 0 \<Longrightarrow> validRequiredString ''clean_retire_ack_failure'' 128 \<Longrightarrow>
    validContainmentScanProgress (ledger 0 0 c 0 c ''clean_retire_ack_failure'')"
  by (simp_all add: validContainmentScanProgress_def word_succ_nonzero)

lemma abs_ledger [simp]:
  "scan_abs (ledger 0 0 c 0 0 []) = Idle c"
  "c \<noteq> - 1 \<Longrightarrow> scan_abs (ledger (c + 1) 0 c 0 0 []) = Scanning (c + 1)"
  "c \<noteq> - 1 \<Longrightarrow> scan_abs (ledger (c + 1) (c + 1) c 0 0 []) = CleanReady (c + 1)"
  "c \<noteq> 0 \<Longrightarrow> scan_abs (ledger 0 0 c c 0 []) = Closed c"
  "c \<noteq> - 1 \<Longrightarrow> scan_abs (ledger 0 0 c 0 (c + 1) k) = Failed (c + 1) k"
  "c \<noteq> 0 \<Longrightarrow> scan_abs (ledger 0 0 c 0 c k) = Failed c k"
  by (simp_all add: scan_abs_def word_succ_nonzero)

lemma scan_begin_ok:
  assumes "validContainmentScanProgress p" "n \<noteq> 0" "scan_begin n p = Inr q"
  shows "scan_ok p q"
  using assms
  by (cases rule: progress_cases) (auto simp: scan_ok_def scan_begin_def word_succ_nonzero split: if_split_asm intro: scan_step.intros)

lemma scan_clean_ok:
  assumes "validContainmentScanProgress p" "n \<noteq> 0" "scan_clean n b p = Inr q"
  shows "scan_ok p q"
  using assms
  by (cases rule: progress_cases) (auto simp: scan_ok_def scan_clean_def word_succ_nonzero split: if_split_asm intro: scan_step.intros)

lemma scan_retire_ok:
  assumes "validContainmentScanProgress p" "n \<noteq> 0" "scan_retire n b p = Inr q"
  shows "scan_ok p q"
  using assms
  by (cases rule: progress_cases) (auto simp: scan_ok_def scan_retire_def word_succ_nonzero split: if_split_asm intro: scan_step.intros)

lemma scan_seal_ok:
  assumes "validContainmentScanProgress p" "n \<noteq> 0" "scan_seal n b p = Inr q"
  shows "scan_ok p q"
  using assms
  by (cases rule: progress_cases)
    (auto simp: scan_ok_def scan_seal_def progress_sealed_def word_succ_nonzero split: if_split_asm intro: scan_step.intros)

lemma scan_unproven_ok:
  assumes "validContainmentScanProgress p" "n \<noteq> 0" "validRequiredString k 128" "scan_unproven n k b p = Inr (q, b')"
  shows "scan_ok p q"
  using assms
  by (cases rule: progress_cases)
    (auto simp: scan_ok_def scan_unproven_def Let_def word_succ_nonzero split: if_split_asm intro: scan_step.intros)

lemma with_flag_Inr [simp]: "with_flag b r = Inr (q, b') \<longleftrightarrow> r = Inr q \<and> b' = b"
  by (cases r) (auto simp: with_flag_def bind_r_def)

lemma scan_ok_refl: "validContainmentScanProgress p \<Longrightarrow> scan_ok p p"
  by (simp add: scan_ok_def)

lemma scan_phase_ok:
  assumes v: "validContainmentScanProgress (owner_progress u s)" and n: "sc_Sequence u \<noteq> 0"
    and k: "sc_Phase u = ''unproven'' \<Longrightarrow> validRequiredString (sc_FailureKind u) 128"
    and r: "scan_phase u b s = Inr (q, b')"
  shows "scan_ok (owner_progress u s) q"
  using r scan_begin_ok [OF v n] scan_clean_ok [OF v n] scan_retire_ok [OF v n] scan_seal_ok [OF v n]
    scan_unproven_ok [OF v n k] scan_ok_refl [OF v]
  by (auto simp: scan_phase_def Let_def split: if_splits)

lemma scan_phase_flag:
  assumes "scan_phase u b s = Inr (q, b')"
  shows "b \<longrightarrow> b'" and "b' \<longrightarrow> b \<or> sg_UnprovenSequence q = sc_Sequence u"
  using assms by (auto simp: scan_phase_def scan_unproven_def Let_def split: if_splits)

lemma owner_progress_set [simp]: "owner_progress u (set_owner_progress u p s) = p"
  by (simp add: owner_progress_def set_owner_progress_def)

definition other_progress :: "SupervisorScanUpdate \<Rightarrow> ContainmentScanJournal \<Rightarrow> ContainmentScanProgress" where
  "other_progress u s = (if sc_Owner u = SupervisorScanOwnerMirror then cs_Helper s else cs_Mirror s)"

lemma other_progress_set [simp]: "other_progress u (set_owner_progress u p s) = other_progress u s"
  by (simp add: other_progress_def set_owner_progress_def)

lemma scans_valid_split:
  "validContainmentScanProgress (cs_Helper s) \<and> validContainmentScanProgress (cs_Mirror s) \<longleftrightarrow>
   validContainmentScanProgress (owner_progress u s) \<and> validContainmentScanProgress (other_progress u s)"
  by (auto simp: owner_progress_def other_progress_def)

text \<open>The request check of \<^verbatim>\<open>SupervisorHandoff.Validate\<close> that runs before every update.\<close>

lemma validateScanUpdate_bounds:
  assumes "validateScanUpdate h u = None"
  shows "sc_Sequence u \<noteq> 0" and "sc_Phase u = ''unproven'' \<Longrightarrow> validRequiredString (sc_FailureKind u) 128"
  using assms by (auto simp: validateScanUpdate_def then_err_def validRequiredString_def validBounded_def split: option.splits if_splits)

lemma Handoff_Validate_scan:
  assumes "SupervisorHandoff_Validate h = None" "ho_ScanUpdate h = Some u"
  shows "validateScanUpdate h u = None"
  using assms by (auto simp: SupervisorHandoff_Validate_def then_err_def split: option.splits if_splits)

lemma recordSupervisorScanUpdate_Inr:
  assumes "recordSupervisorScanUpdate request j = Inr j'"
  obtains u s q b where "ho_ScanUpdate request = Some u" "j_ContainmentScans j = Some s"
    "scan_phase u (j_ContainmentUnproven j) s = Inr (q, b)"
    "j' = j\<lparr> j_ContainmentScans := Some (set_owner_progress u q s), j_ContainmentUnproven := b \<rparr>"
    "j_LocalState j \<noteq> ''cleanup_pending''" "j_ContainmentUnproven j \<longrightarrow> sc_Phase u = ''unproven''"
  using assms
  by (auto simp: recordSupervisorScanUpdate_def on_err_def bind_r_def Let_def split: option.splits if_splits sum.splits)

text \<open>C9: recording a scan update is a refinement of the abstract scan machine.  From a ledger that passes
  the journal's scan checks, every accepted update leaves a ledger that passes them again, moves the
  addressed owner by at most one step of the machine, leaves the other owner's ledger alone, and
  never withdraws a recorded failure.\<close>

theorem scan_update_refines:
  assumes "SupervisorHandoff_Validate request = None" "ho_ScanUpdate request = Some u"
    and "j_ContainmentScans j = Some s"
    and "validContainmentScanProgress (cs_Helper s)" "validContainmentScanProgress (cs_Mirror s)"
    and "recordSupervisorScanUpdate request j = Inr j'"
  shows "\<exists>s'. j_ContainmentScans j' = Some s'
    \<and> validContainmentScanProgress (cs_Helper s') \<and> validContainmentScanProgress (cs_Mirror s')
    \<and> (scan_abs (owner_progress u s') = scan_abs (owner_progress u s)
       \<or> scan_step (scan_abs (owner_progress u s)) (scan_abs (owner_progress u s')))
    \<and> other_progress u s' = other_progress u s
    \<and> (j_ContainmentUnproven j \<longrightarrow> j_ContainmentUnproven j')"
proof -
  obtain q b where q: "scan_phase u (j_ContainmentUnproven j) s = Inr (q, b)"
      and j': "j' = j\<lparr> j_ContainmentScans := Some (set_owner_progress u q s), j_ContainmentUnproven := b \<rparr>"
    by (rule recordSupervisorScanUpdate_Inr [OF assms(6)]) (simp add: assms(2,3))
  note bounds = validateScanUpdate_bounds [OF Handoff_Validate_scan [OF assms(1,2)]]
  have ok: "scan_ok (owner_progress u s) q"
    using scan_phase_ok [OF _ bounds q] assms(4,5) scans_valid_split [of s u] by blast
  have "validContainmentScanProgress (cs_Helper (set_owner_progress u q s)) \<and>
        validContainmentScanProgress (cs_Mirror (set_owner_progress u q s))"
    using ok assms(4,5) scans_valid_split [of s u] scans_valid_split [of "set_owner_progress u q s" u] by (simp add: scan_ok_def)
  then show ?thesis using ok scan_phase_flag(1) [OF q] by (auto simp: j' scan_ok_def)
qed

text \<open>A bound version 1 Linux handoff and the scan ledger its binding creates.\<close>

definition sample_hex :: "nat \<Rightarrow> string" where
  "sample_hex n = replicate n (CHR ''a'')"

definition sample_handoff :: SupervisorHandoff where
  "sample_handoff = \<lparr> ho_Version = 1, ho_LaunchToken = sample_hex 32, ho_Secret = sample_hex 64,
     ho_OwnerKind = OwnerKindLinuxHelper, ho_OwnerContext = sample_hex 32, ho_TargetPID = 7, ho_TargetIdentity = ''t7'',
     ho_OwnerUID = 0, ho_LauncherUID = 0, ho_PipeToken = sample_hex 32, ho_JobID = sample_hex 32, ho_SupervisorPID = 9,
     ho_SupervisorIdentity = ''s9'', ho_TargetBirthKind = [], ho_CgroupIdentity = None, ho_AnchorPID = 0, ho_AnchorIdentity = [],
     ho_LauncherPID = 0, ho_LauncherIdentity = [], ho_LauncherExit = None, ho_Mirror = None, ho_CreatorSessionID = None,
     ho_StopReceipt = None, ho_ScanUpdate = None \<rparr>"

definition sample_scans :: ContainmentScanJournal where
  "sample_scans = \<lparr> cs_Version = 1, cs_LaunchToken = sample_hex 32, cs_TargetPID = 7, cs_TargetIdentity = ''t7'',
     cs_SupervisorPID = 9, cs_SupervisorIdentity = ''s9'', cs_MirrorIdentity = sample_hex 32,
     cs_Helper = ledger 1 0 0 0 0 [], cs_Mirror = ledger 1 0 0 0 0 [] \<rparr>"

definition sample_scan_request :: "string \<Rightarrow> SupervisorHandoff" where
  "sample_scan_request phase = sample_handoff\<lparr> ho_SupervisorPID := 0, ho_SupervisorIdentity := [],
     ho_ScanUpdate := Some \<lparr> sc_SupervisorPID = 9, sc_SupervisorIdentity = ''s9'', sc_MirrorIdentity = sample_hex 32,
       sc_Owner = SupervisorScanOwnerMirror, sc_Sequence = 1, sc_Phase = phase, sc_FailureKind = [] \<rparr> \<rparr>"

definition sample_scan_journal :: RunJournal where
  "sample_scan_journal = zero_journal\<lparr> j_LocalState := ''running'', j_ContainmentHandoff := Some sample_handoff,
     j_ContainmentScans := Some sample_scans \<rparr>"

theorem scan_update_refines_witness:
  "\<exists>u j' s'. ho_ScanUpdate (sample_scan_request ''clean'') = Some u
    \<and> recordSupervisorScanUpdate (sample_scan_request ''clean'') sample_scan_journal = Inr j'
    \<and> j_ContainmentScans j' = Some s' \<and> validContainmentScanProgress (cs_Mirror s')
    \<and> scan_abs (cs_Mirror s') = CleanReady 1"
proof -
  let ?r = "sample_scan_request ''clean''"
  obtain u where u: "ho_ScanUpdate ?r = Some u" "sc_Owner u = SupervisorScanOwnerMirror"
    by (simp add: sample_scan_request_def)
  define j' where "j' = sample_scan_journal\<lparr> j_ContainmentScans := Some (sample_scans\<lparr> cs_Mirror := ledger 1 1 0 0 0 [] \<rparr>) \<rparr>"
  have "SupervisorHandoff_Validate ?r = None" by code_simp
  moreover have "j_ContainmentScans sample_scan_journal = Some sample_scans"
    by (simp add: sample_scan_journal_def)
  moreover have "validContainmentScanProgress (cs_Helper sample_scans)" "validContainmentScanProgress (cs_Mirror sample_scans)"
    by code_simp+
  moreover have r: "recordSupervisorScanUpdate ?r sample_scan_journal = Inr j'"
    unfolding j'_def by code_simp
  ultimately obtain s' where "j_ContainmentScans j' = Some s'" "validContainmentScanProgress (cs_Mirror s')"
    using scan_update_refines [of ?r u sample_scan_journal sample_scans j'] u(1) by blast
  moreover have "scan_abs (ledger 1 1 0 0 0 []) = CleanReady 1" by code_simp
  ultimately show ?thesis using u(1) r by (auto simp: j'_def)
qed

end
