(* ===== verification/Cgroup.thy ===== *)
theory Cgroup
  imports Scans
begin

text \<open>
  The version 2 Linux cgroup reservation in the journal (\<^verbatim>\<open>internal/state/state.go\<close>): admission of a
  native run against every other journal of the store, the compare-and-set stages of a reservation
  and its no-target abort.
\<close>

subsection \<open>Admission\<close>

text \<open>The App's snapshot of live owners is a Go map: an association list with distinct keys.\<close>

type_synonym live_owners = "(RunKey \<times> Fence) list"

definition validLinuxV2AdmissionFence :: "RunKey \<Rightarrow> Fence \<Rightarrow> bool" where
  "validLinuxV2AdmissionFence key fence = (validateKey key = None \<and> f_Generation fence = k_Generation key
     \<and> validRequiredString (f_RuntimeID fence) 4096 \<and> f_RuntimeEpoch fence > 0
     \<and> validRequiredString (f_ClaimID fence) 4096 \<and> validRequiredString (f_LeaseToken fence) 65536)"

definition linuxV2TargetCanStartNativeEffects :: "RunJournal \<Rightarrow> time \<Rightarrow> bool" where
  "linuxV2TargetCanStartNativeEffects j now =
    (if \<not> hasClaimGrant j \<or> \<not> j_LeaseExpiresAt j > now \<or> j_NativeUsageRecoveryRequired j
        \<or> j_ContainmentUnproven j \<or> j_TerminalState j \<noteq> [] \<or> j_TerminalVerdict j \<noteq> []
        \<or> hasPendingTerminalTransition (j_PendingTransitions j) \<or> j_LinuxCloneAbortPending j
        \<or> j_LinuxCloneAbortProof j \<noteq> None \<or> j_LinuxCloneCleanupPending j \<or> j_LinuxCloneCleanupIntent j \<noteq> None
        \<or> j_LinuxCloneTargetRemovalProof j \<noteq> None \<or> j_LinuxCloneCleanupProof j \<noteq> None then False
     else j_LocalState j = ''claimed'' \<or> j_LocalState j = ''running'')"

definition linuxV2JournalHasPendingEffects :: "RunJournal \<Rightarrow> bool" where
  "linuxV2JournalHasPendingEffects j = (j_ContainmentCgroup j \<noteq> None \<or> j_ContainmentCgroupReleaseProof j \<noteq> None
     \<or> j_ContainmentCgroupPreGateReleaseProof j \<noteq> None \<or> j_LinuxCloneIntent j \<noteq> None \<or> j_LinuxCloneSeedReceipt j \<noteq> None
     \<or> j_LinuxCloneCheckoutReceipt j \<noteq> None \<or> j_LinuxClonePromotionIntent j \<noteq> None \<or> j_LinuxClonePromotionReceipt j \<noteq> None
     \<or> j_LinuxCloneAbortPending j \<or> j_LinuxCloneAbortProof j \<noteq> None \<or> j_LinuxCloneCleanupPending j
     \<or> j_LinuxCloneCleanupIntent j \<noteq> None \<or> j_LinuxCloneTargetRemovalProof j \<noteq> None \<or> j_LinuxCloneCleanupProof j \<noteq> None)"

definition linuxV1StopReceiptSafelyRetires :: "RunJournal \<Rightarrow> Supervisor \<Rightarrow> bool" where
  "linuxV1StopReceiptSafelyRetires j owner =
    (if j_LocalState j \<noteq> ''terminal_pending'' \<and> j_LocalState j \<noteq> ''cleanup_pending'' \<and> j_LocalState j \<noteq> ''stale'' then False
     else Supervisor_Validate owner = None \<and> su_Version owner = 1
       \<and> opt_ex (\<lambda>r. StopReceipt_ValidFor r owner) (su_StopReceipt owner) \<and> HasProcessDetails j
       \<and> j_PID j = su_TargetPID owner \<and> j_ProcessIdentity j = su_TargetIdentity owner
       \<and> j_ContainmentHandoff j = None \<and> j_ContainmentCgroup j = None \<and> j_ContainmentCgroupReleaseProof j = None
       \<and> j_ContainmentCgroupPreGateReleaseProof j = None \<and> \<not> j_ContainmentUnproven j
       \<and> \<not> j_NativeUsageRecoveryRequired j \<and> requireLinuxScansSealedForAuthority j owner = None
       \<and> \<not> linuxV2JournalHasPendingEffects j)"

definition clone_cleanup_completed :: "admission_parser \<Rightarrow> RunJournal \<Rightarrow> LinuxCloneIntent \<Rightarrow> LinuxCloneCleanupProof \<Rightarrow> bool" where
  "clone_cleanup_completed adm j it proof =
     (opt_ex (\<lambda>ci. CleanupIntent_Validate ci = None \<and> LinuxCloneIntent_Equal (lk_Intent ci) it
        \<and> CleanupIntent_Equal (lf_Intent proof) ci \<and> linuxCloneCleanupIntentMatchesJournal adm j ci
        \<and> opt_ex (\<lambda>tr. TargetRemovalProof_Validate tr = None \<and> CleanupIntent_Equal (lt_Intent tr) ci
             \<and> TargetRemovalProof_Equal (lf_TargetRemovalProof proof) tr) (j_LinuxCloneTargetRemovalProof j)) (j_LinuxCloneCleanupIntent j)
      \<and> CleanupProof_Validate proof = None
      \<and> j_WorkspacePath j = [] \<and> \<not> j_WorkspaceRecoveryRequired j \<and> \<not> j_RetainWorkspace j)"

definition linuxV2ReleasedCloneStateSafe :: "admission_parser \<Rightarrow> RunJournal \<Rightarrow> bool" where
  "linuxV2ReleasedCloneStateSafe adm j =
    (if j_LinuxCloneAbortPending j \<or> j_LinuxCloneAbortProof j \<noteq> None \<or> j_LinuxCloneCleanupPending j then False
     else (case j_LinuxCloneIntent j of
       None \<Rightarrow> j_LinuxCloneSeedReceipt j = None \<and> j_LinuxCloneCheckoutReceipt j = None
         \<and> j_LinuxClonePromotionIntent j = None \<and> j_LinuxClonePromotionReceipt j = None
         \<and> j_LinuxCloneCleanupIntent j = None \<and> j_LinuxCloneTargetRemovalProof j = None
         \<and> j_LinuxCloneCleanupProof j = None \<and> j_WorkspacePath j = []
         \<and> \<not> j_WorkspaceRecoveryRequired j \<and> \<not> j_RetainWorkspace j
     | Some it \<Rightarrow>
       if LinuxCloneIntent_ValidateForJournal it \<noteq> None then False
       else (case j_LinuxCloneCleanupProof j of
         Some proof \<Rightarrow> clone_cleanup_completed adm j it proof
       | None \<Rightarrow> j_LinuxCloneCleanupIntent j = None \<and> j_LinuxCloneTargetRemovalProof j = None
           \<and> opt_ex (\<lambda>c. CheckoutReceipt_Validate c = None \<and> lc_Target c = li_Target it) (j_LinuxCloneCheckoutReceipt j)
           \<and> j_WorkspacePath j = li_Target it \<and> j_WorkspaceRecoveryRequired j \<and> j_RetainWorkspace j)))"

definition no_active_markers :: "RunJournal \<Rightarrow> bool" where
  "no_active_markers j = (\<not> HasProcessDetails j \<and> j_ContainmentAuthority j = None \<and> j_ContainmentHandoff j = None
     \<and> j_ContainmentScans j = None \<and> \<not> j_ContainmentUnproven j)"

definition linuxV2ForeignJournalIsSafelyRetired :: "admission_parser \<Rightarrow> RunJournal \<Rightarrow> bool" where
  "linuxV2ForeignJournalIsSafelyRetired adm j =
    (case j_ContainmentCgroupReleaseProof j of
       Some release \<Rightarrow> no_active_markers j \<and> j_ContainmentCgroup j = None \<and> j_ContainmentCgroupPreGateReleaseProof j = None
         \<and> ReleaseProof_Validate release = None \<and> rp_Version release = 2 \<and> rp_StopReceipt release \<noteq> None
         \<and> (rp_LeafDisposition release = LinuxCgroupLeafRemoved \<or> rp_LeafDisposition release = LinuxCgroupLeafAbsentAfterReceipt)
         \<and> linuxV2ReleasedCloneStateSafe adm j
     | None \<Rightarrow>
    (case j_ContainmentCgroupPreGateReleaseProof j of
       Some release \<Rightarrow> no_active_markers j \<and> j_ContainmentCgroup j = None \<and> j_ContainmentCgroupReleaseProof j = None
         \<and> PreGateReleaseProof_Validate release = None \<and> prp_Version release = 2
         \<and> gr_Outcome (pg_GateOutcome (pr_Proof (prp_Receipt release))) = LinuxCgroupGateOutcomeNeverCreated
     | None \<Rightarrow>
     if opt_ex (\<lambda>r. lr_AbortProof r \<noteq> None) (j_ContainmentCgroup j) then
       no_active_markers j \<and> j_ContainmentCgroupReleaseProof j = None \<and> j_ContainmentCgroupPreGateReleaseProof j = None
       \<and> opt_ex (\<lambda>r. Reservation_Validate r = None \<and> opt_ex (linuxCgroupReservationAbortMatches r) (lr_AbortProof r)) (j_ContainmentCgroup j)
     else (case j_LinuxCloneAbortProof j of
       Some proof \<Rightarrow> no_active_markers j \<and> LinuxCloneAbortProof_Validate proof = None \<and> linuxCloneAbortHistoryMatches j (Some proof)
     | None \<Rightarrow> opt_ex (\<lambda>owner. su_Version owner = 1 \<and> su_StopReceipt owner \<noteq> None \<and> linuxV1StopReceiptSafelyRetires j owner)
         (j_ContainmentAuthority j))))"

definition linuxV2ForeignOwnerIsHealthy :: "RunJournal \<Rightarrow> time \<Rightarrow> bool" where
  "linuxV2ForeignOwnerIsHealthy j now =
    (if j_LocalState j \<notin> {''claimed'', ''running'', ''paused'', ''waiting_for_input''} then False
     else opt_ex (\<lambda>r. opt_ex (\<lambda>owner. su_Version owner = 2 \<and> su_StopReceipt owner = None
         \<and> Reservation_Validate r = None \<and> lr_AbortProof r = None \<and> lr_PreGateStopReceipt r = None
         \<and> linuxCgroupReservationMatchesAuthority r owner
         \<and> j_PID j = su_TargetPID owner \<and> j_ProcessIdentity j = su_TargetIdentity owner) (j_ContainmentAuthority j)) (j_ContainmentCgroup j)
       \<and> j_ContainmentHandoff j = None \<and> j_ContainmentCgroupReleaseProof j = None \<and> j_ContainmentCgroupPreGateReleaseProof j = None
       \<and> j_ContainmentScans j = None \<and> \<not> j_ContainmentUnproven j \<and> \<not> j_LinuxCloneAbortPending j
       \<and> j_LinuxCloneAbortProof j = None \<and> \<not> j_LinuxCloneCleanupPending j \<and> j_LinuxCloneCleanupIntent j = None
       \<and> j_LinuxCloneTargetRemovalProof j = None \<and> j_LinuxCloneCleanupProof j = None \<and> HasProcessDetails j
       \<and> j_TerminalState j = [] \<and> j_TerminalVerdict j = [] \<and> \<not> j_NativeUsageRecoveryRequired j
       \<and> j_LeaseExpiresAt j > now \<and> hasClaimGrant j)"

definition linuxClonePathAliases :: "string \<Rightarrow> string \<Rightarrow> bool" where
  "linuxClonePathAliases l r = (l = r \<or> HasPrefix l (r @ ''/'') \<or> HasPrefix r (l @ ''/''))"

text \<open>What the scan looks for: the target run if there is one, and the resources it wants to reserve.\<close>

record admission_request =
  aq_key :: "RunKey option"
  aq_fence :: Fence
  aq_now :: time
  aq_liveOwners :: live_owners
  aq_reservation :: "LinuxCgroupReservation option"
  aq_cloneIntent :: "LinuxCloneIntent option"

text \<open>The visit of one journal with the two variables the closure captures: whether the target was
  found and how many live owners were matched.\<close>

definition foreign_owner_check :: "admission_parser \<Rightarrow> admission_request \<Rightarrow> RunJournal \<Rightarrow> gerror option" where
  "foreign_owner_check adm q f = (case map_of (aq_liveOwners q) (journal_Key f) of
     Some liveFence \<Rightarrow> checks [
       (liveFence \<noteq> journal_Fence f \<or> \<not> linuxV2ForeignOwnerIsHealthy f (aq_now q),
        ''foreign Linux v2 live-owner snapshot is stale or unhealthy for %s/%d'')]
   | None \<Rightarrow> checks [
       (\<not> linuxV2ForeignJournalIsSafelyRetired adm f, ''foreign RunJournal %s/%d has unresolved native ownership'')])"

definition foreign_resource_check :: "admission_request \<Rightarrow> RunJournal \<Rightarrow> gerror option" where
  "foreign_resource_check q f = checks [
     (opt_ex (\<lambda>it. opt_ex (\<lambda>other. \<not> (j_LinuxCloneAbortProof f \<noteq> None \<and> \<not> j_LinuxCloneAbortPending f)
         \<and> (linuxClonePathAliases (li_SeedPath it) (li_SeedPath other) \<or> linuxClonePathAliases (li_Target it) (li_Target other)
            \<or> linuxClonePathAliases (li_SeedPath it) (li_Target other) \<or> linuxClonePathAliases (li_Target it) (li_SeedPath other)))
       (j_LinuxCloneIntent f)) (aq_cloneIntent q), ''Linux clone seed or target path is already reserved''),
     (opt_ex (\<lambda>r. opt_ex (\<lambda>other. cp_Path (lr_Parent other) = cp_Path (lr_Parent r) \<and> lr_LeafName other = lr_LeafName r)
       (j_ContainmentCgroup f)) (aq_reservation q), ''Linux cgroup leaf path is already reserved'')]"

definition admission_visit :: "admission_parser \<Rightarrow> admission_request \<Rightarrow> RunJournal \<Rightarrow> bool \<times> nat \<Rightarrow> (bool \<times> nat) result" where
  "admission_visit adm q f st = (let (found, matched) = st;
       live = (if map_of (aq_liveOwners q) (journal_Key f) \<noteq> None then 1 else 0) in
     if aq_key q = Some (journal_Key f) then
       (if journal_Fence f \<noteq> aq_fence q then Inl (Err ''Linux v2 admission target changed fence during Store scan'')
        else Inr (True, matched + live))
     else on_err (foreign_owner_check adm q f) (on_err (foreign_resource_check q f) (Inr (found, matched + live))))"

text \<open>\<^verbatim>\<open>forEachJournalLocked\<close>: the journals in directory order; an entry that cannot be read, or a listing
  that fails, is an \<^const>\<open>Inl\<close> at its place.\<close>

fun forEachJournal :: "(RunJournal \<Rightarrow> 's \<Rightarrow> 's result) \<Rightarrow> 's \<Rightarrow> RunJournal result list \<Rightarrow> 's result" where
  "forEachJournal visit st [] = Inr st"
| "forEachJournal visit st (Inl e # es) = Inl e"
| "forEachJournal visit st (Inr f # es) = bind_r (visit f st) (\<lambda>st'. forEachJournal visit st' es)"

definition scanLinuxV2NativeAdmission :: "admission_parser \<Rightarrow> admission_request \<Rightarrow> RunJournal result list \<Rightarrow> gerror option" where
  "scanLinuxV2NativeAdmission adm q journals =
    (if aq_now q = 0 then Some (Err ''Linux v2 admission clock is missing'')
     else if list_ex (\<lambda>(k, f). \<not> validLinuxV2AdmissionFence k f \<or> (aq_key q = Some k \<and> f \<noteq> aq_fence q)) (aq_liveOwners q)
     then Some (Err ''Linux v2 live-owner snapshot contains an invalid RunKey/fence'')
     else (case forEachJournal (admission_visit adm q) (aq_key q = None, 0) journals of
       Inl e \<Rightarrow> wrap_err ''scan State journals before Linux v2 native admission: '' (Some e)
     | Inr (found, matched) \<Rightarrow> checks [
         (\<not> found, ''Linux v2 admission target journal is missing from the locked Store scan''),
         (matched \<noteq> length (aq_liveOwners q), ''Linux v2 live-owner snapshot has no current RunJournal for every fenced owner'')]))"

definition checkLinuxV2NativeAdmission ::
  "admission_parser \<Rightarrow> RunJournal \<Rightarrow> RunKey \<Rightarrow> Fence \<Rightarrow> time \<Rightarrow> live_owners \<Rightarrow> LinuxCgroupReservation option \<Rightarrow> LinuxCloneIntent option
   \<Rightarrow> RunJournal result list \<Rightarrow> gerror option" where
  "checkLinuxV2NativeAdmission adm target key fence now live reservation cloneIntent journals =
    (if journal_Key target \<noteq> key \<or> journal_Fence target \<noteq> fence \<or> \<not> hasClaimGrant target
        \<or> \<not> validLinuxV2AdmissionFence key fence \<or> now = 0
     then Some (Err ''Linux v2 native admission target RunKey/fence is stale'')
     else if \<not> linuxV2TargetCanStartNativeEffects target now
     then Some (Err ''Linux v2 native admission target lease or lifecycle is not effect-ready'')
     else scanLinuxV2NativeAdmission adm
       \<lparr> aq_key = Some key, aq_fence = fence, aq_now = now, aq_liveOwners = live, aq_reservation = reservation,
         aq_cloneIntent = cloneIntent \<rparr> journals)"

subsection \<open>Compare-and-set stages of a reservation\<close>

definition requireLinuxV2NativeAdmissionPlatform :: "Env \<Rightarrow> gerror option" where
  "requireLinuxV2NativeAdmissionPlatform env = checks [
     (\<not> env_linux_amd64 env, ''Linux v2 native admission is supported only on Linux/amd64'')]"

text \<open>The result tells whether the stage was already written; an error leaves the journal alone.\<close>

definition exactCgroupMutationStage :: "RunJournal \<Rightarrow> LinuxCgroupReservation \<Rightarrow> LinuxCgroupReservation \<Rightarrow> bool result" where
  "exactCgroupMutationStage j expected after = (case j_ContainmentCgroup j of
     None \<Rightarrow> Inl (Err ''Linux cgroup reservation is not mutable'')
   | Some current \<Rightarrow>
     if \<not> hasClaimGrant j \<or> j_LocalState j = ''cleanup_pending'' \<or> lr_AbortProof expected \<noteq> None \<or> lr_PreGateStopReceipt expected \<noteq> None
     then Inl (Err ''Linux cgroup reservation is not mutable'')
     else on_err (Reservation_Validate after)
       (if Reservation_Equal current after then Inr True
        else if Reservation_Equal current expected then Inr False
        else Inl (Err ''Linux cgroup reservation compare-and-set mismatch'')))"

definition advance_stage :: "LinuxCgroupReservation \<Rightarrow> LinuxCgroupReservation \<Rightarrow> RunJournal \<Rightarrow> RunJournal result" where
  "advance_stage expected after j = bind_r (exactCgroupMutationStage j expected after) (\<lambda>replayed.
     if replayed then Inr j else Inr (j\<lparr> j_ContainmentCgroup := Some after \<rparr>))"

text \<open>The checks shared by the three stages that start an external effect.\<close>

definition effect_admission ::
  "Env \<Rightarrow> live_owners \<Rightarrow> RunJournal result list \<Rightarrow> RunKey \<Rightarrow> Fence \<Rightarrow> LinuxCgroupReservation option \<Rightarrow> string \<Rightarrow> RunJournal \<Rightarrow> gerror option" where
  "effect_admission env live journals key fence reservation stale j =
     then_err (checks [(journal_Fence j \<noteq> fence \<or> \<not> validLinuxV2AdmissionFence key fence, stale)])
       (checkLinuxV2NativeAdmission (env_ParseAdmissionInput env) j key fence (env_now env) live reservation None journals)"

definition ReserveLinuxCgroup ::
  "Env \<Rightarrow> live_owners \<Rightarrow> RunJournal result list \<Rightarrow> RunKey \<Rightarrow> Fence \<Rightarrow> LinuxCgroupReservation \<Rightarrow> RunJournal \<Rightarrow> RunJournal result" where
  "ReserveLinuxCgroup env live journals key fence reservation j =
     on_err (requireLinuxV2NativeAdmissionPlatform env)
    (on_err (Reservation_Validate reservation)
    (on_err (checks [
       (lr_CreateStarted reservation \<or> lr_LeafIdentity reservation \<noteq> None \<or> lr_Helper reservation \<noteq> None
        \<or> lr_Launcher reservation \<noteq> None \<or> lr_LauncherExit reservation \<noteq> None \<or> lr_Gate reservation \<noteq> None
        \<or> lr_HelperExit reservation \<noteq> None \<or> lr_AbortProof reservation \<noteq> None \<or> lr_PreGateStopReceipt reservation \<noteq> None
        \<or> lr_Mirror reservation = None, ''Linux cgroup reservation must precede creation''),
       (\<not> hasClaimGrant j, ''journal has no claim grant'')])
    (on_err (effect_admission env live journals key fence (Some reservation) ''Linux cgroup reservation RunKey/fence is stale'' j)
    (on_err (checks [
       (j_LinuxCloneAbortPending j \<or> j_LinuxCloneAbortProof j \<noteq> None, ''Linux cgroup reservation is fenced by clone abort''),
       (j_LocalState j = ''cleanup_pending'' \<or> HasProcessDetails j \<or> j_ContainmentAuthority j \<noteq> None \<or> j_ContainmentHandoff j \<noteq> None
        \<or> j_ContainmentScans j \<noteq> None \<or> j_ContainmentUnproven j \<or> j_ContainmentCgroupReleaseProof j \<noteq> None
        \<or> j_ContainmentCgroupPreGateReleaseProof j \<noteq> None, ''Linux cgroup reservation conflicts with existing containment'')])
    (case j_ContainmentCgroup j of
       Some c \<Rightarrow> if Reservation_Equal c reservation then Inr j else Inl (Err ''Linux cgroup reservation conflicts with journal'')
     | None \<Rightarrow> Inr (j\<lparr> j_ContainmentCgroup := Some reservation \<rparr>))))))"

definition MarkLinuxCgroupCreateStarted ::
  "Env \<Rightarrow> live_owners \<Rightarrow> RunJournal result list \<Rightarrow> RunKey \<Rightarrow> Fence \<Rightarrow> LinuxCgroupReservation \<Rightarrow> RunJournal \<Rightarrow> RunJournal result" where
  "MarkLinuxCgroupCreateStarted env live journals key fence expected j =
     on_err (requireLinuxV2NativeAdmissionPlatform env)
    (on_err (Reservation_Validate expected)
    (on_err (checks [
       (lr_CreateStarted expected \<or> lr_LeafIdentity expected \<noteq> None \<or> lr_Helper expected \<noteq> None
        \<or> lr_Launcher expected \<noteq> None \<or> lr_LauncherExit expected \<noteq> None \<or> lr_Gate expected \<noteq> None
        \<or> lr_HelperExit expected \<noteq> None, ''Linux cgroup creation intent expected value is invalid'')])
    (on_err (effect_admission env live journals key fence None ''Linux cgroup creation RunKey/fence is stale'' j)
    (advance_stage expected (expected\<lparr> lr_CreateStarted := True \<rparr>) j))))"

definition BindLinuxCgroupLeaf :: "LinuxCgroupReservation \<Rightarrow> LinuxCgroupIdentity \<Rightarrow> RunJournal \<Rightarrow> RunJournal result" where
  "BindLinuxCgroupLeaf expected measured j =
     on_err (Reservation_Validate expected)
    (on_err (LinuxCgroupIdentity_Validate measured)
    (on_err (checks [
       (\<not> lr_CreateStarted expected \<or> ci_LeafName measured \<noteq> lr_LeafName expected \<or> ci_Parent measured \<noteq> lr_Parent expected,
        ''measured Linux cgroup leaf does not match reservation''),
       (lr_LeafIdentity expected \<noteq> None \<or> lr_Helper expected \<noteq> None \<or> lr_Launcher expected \<noteq> None \<or> lr_Gate expected \<noteq> None,
        ''Linux cgroup leaf must bind before its producers'')])
    (advance_stage expected (expected\<lparr> lr_LeafIdentity := Some measured \<rparr>) j)))"

definition BindLinuxCgroupHelper :: "LinuxCgroupReservation \<Rightarrow> LinuxCgroupProcessIdentity \<Rightarrow> RunJournal \<Rightarrow> RunJournal result" where
  "BindLinuxCgroupHelper expected helper j =
     on_err (Reservation_Validate expected)
    (on_err (LinuxCgroupProcessIdentity_Validate helper)
    (on_err (checks [
       (lr_LeafIdentity expected = None \<or> lr_Helper expected \<noteq> None \<or> lr_Launcher expected \<noteq> None \<or> lr_Gate expected \<noteq> None
        \<or> lr_AbortProof expected \<noteq> None \<or> lr_PreGateStopReceipt expected \<noteq> None \<or> j_ContainmentHandoff j \<noteq> None
        \<or> j_ContainmentAuthority j \<noteq> None, ''Linux cgroup helper bind is out of order'')])
    (advance_stage expected (expected\<lparr> lr_Helper := Some helper \<rparr>) j)))"

definition BindLinuxCgroupLauncher :: "LinuxCgroupReservation \<Rightarrow> LinuxCgroupProcessIdentity \<Rightarrow> RunJournal \<Rightarrow> RunJournal result" where
  "BindLinuxCgroupLauncher expected launcher j =
     on_err (Reservation_Validate expected)
    (on_err (LinuxCgroupProcessIdentity_Validate launcher)
    (on_err (checks [
       (lr_LeafIdentity expected = None \<or> lr_Helper expected = None \<or> lr_Launcher expected \<noteq> None \<or> lr_LauncherExit expected \<noteq> None
        \<or> lr_Gate expected \<noteq> None \<or> j_ContainmentHandoff j \<noteq> None \<or> j_ContainmentAuthority j \<noteq> None,
        ''Linux cgroup launcher bind is out of order'')])
    (advance_stage expected (expected\<lparr> lr_Launcher := Some launcher \<rparr>) j)))"

definition ArmLinuxCgroupLauncherGrant ::
  "Env \<Rightarrow> live_owners \<Rightarrow> RunJournal result list \<Rightarrow> RunKey \<Rightarrow> Fence \<Rightarrow> LinuxCgroupReservation \<Rightarrow> RunJournal \<Rightarrow> RunJournal result" where
  "ArmLinuxCgroupLauncherGrant env live journals key fence expected j =
     on_err (requireLinuxV2NativeAdmissionPlatform env)
    (on_err (Reservation_Validate expected)
    (on_err (checks [
       (lr_Launcher expected = None \<or> lr_LauncherGrantPossible expected \<or> lr_LauncherExit expected \<noteq> None \<or> lr_Gate expected \<noteq> None
        \<or> lr_AbortProof expected \<noteq> None, ''Linux cgroup launcher grant expected value is invalid'')])
    (on_err (effect_admission env live journals key fence None ''Linux cgroup launcher grant RunKey/fence is stale'' j)
    (on_err (checks [
       (j_ContainmentHandoff j \<noteq> None \<or> j_ContainmentAuthority j \<noteq> None \<or> j_ContainmentCgroup j = None,
        ''Linux cgroup launcher grant has no pending reservation'')])
    (advance_stage expected (expected\<lparr> lr_LauncherGrantPossible := True \<rparr>) j)))))"

definition RecordLinuxCgroupLauncherExit :: "LinuxCgroupReservation \<Rightarrow> LinuxCgroupExitProof \<Rightarrow> RunJournal \<Rightarrow> RunJournal result" where
  "RecordLinuxCgroupLauncherExit expected proof j =
     on_err (Reservation_Validate expected)
    (on_err (LinuxCgroupExitProof_Validate proof)
    (on_err (checks [
       (lr_LauncherExit expected \<noteq> None
        \<or> \<not> opt_ex (\<lambda>l. opt_ex (\<lambda>h. ValidForOwnedDescendant proof l h (lr_Anchor expected) (lr_HelperExit expected)) (lr_Helper expected))
            (lr_Launcher expected), ''Linux cgroup launcher exit proof does not match producer'')])
    (advance_stage expected (expected\<lparr> lr_LauncherExit := Some proof \<rparr>) j)))"

definition BindLinuxCgroupGate :: "LinuxCgroupReservation \<Rightarrow> LinuxCgroupGateIdentity \<Rightarrow> RunJournal \<Rightarrow> RunJournal result" where
  "BindLinuxCgroupGate expected gate j =
     on_err (Reservation_Validate expected)
    (on_err (GateIdentity_Validate gate)
    (on_err (checks [
       (lr_Helper expected = None \<or> lr_LauncherExit expected = None \<or> lr_Gate expected \<noteq> None
        \<or> \<not> opt_ex (\<lambda>leaf. gi_Cgroup gate = leaf) (lr_LeafIdentity expected)
        \<or> j_ContainmentHandoff j \<noteq> None \<or> j_ContainmentAuthority j \<noteq> None, ''Linux cgroup gate bind is out of order'')])
    (advance_stage expected (expected\<lparr> lr_Gate := Some gate \<rparr>) j)))"

definition RecordLinuxCgroupHelperExit :: "LinuxCgroupReservation \<Rightarrow> LinuxCgroupExitProof \<Rightarrow> RunJournal \<Rightarrow> RunJournal result" where
  "RecordLinuxCgroupHelperExit expected proof j =
     on_err (Reservation_Validate expected)
    (on_err (LinuxCgroupExitProof_Validate proof)
    (on_err (checks [
       (opt_ex (\<lambda>h. ho_StopReceipt h \<noteq> None) (j_ContainmentHandoff j) \<or> opt_ex (\<lambda>a. su_StopReceipt a \<noteq> None) (j_ContainmentAuthority j),
        ''Linux cgroup helper exit cannot follow a durable stop receipt''),
       (lr_HelperExit expected \<noteq> None
        \<or> \<not> opt_ex (\<lambda>h. LinuxCgroupExitProof_ValidFor proof h (lr_Anchor expected)) (lr_Helper expected),
        ''Linux cgroup helper exit proof does not match producer'')])
    (advance_stage expected (expected\<lparr> lr_HelperExit := Some proof \<rparr>) j)))"

subsection \<open>Abort without a target\<close>

definition no_owner_state :: "RunJournal \<Rightarrow> bool" where
  "no_owner_state j = (j_ContainmentAuthority j = None \<and> j_ContainmentHandoff j = None \<and> j_ContainmentScans j = None
     \<and> \<not> HasProcessDetails j \<and> \<not> j_ContainmentUnproven j)"

definition applyLinuxCgroupReservationAbort ::
  "LinuxCgroupReservation \<Rightarrow> LinuxCgroupReservationAbortProof \<Rightarrow> RunJournal \<Rightarrow> RunJournal result" where
  "applyLinuxCgroupReservationAbort expected proof j = (case j_ContainmentCgroup j of
     None \<Rightarrow> Inl (Err ''Linux cgroup reservation abort compare-and-set mismatch'')
   | Some current \<Rightarrow> (case lr_AbortProof current of
       Some p \<Rightarrow>
         if Reservation_Equal (current\<lparr> lr_AbortProof := None \<rparr>) expected \<and> ReservationAbortProof_Equal p proof \<and> no_owner_state j
         then Inr j else Inl (Err ''Linux cgroup reservation abort replay conflicts with journal'')
     | None \<Rightarrow>
         if \<not> Reservation_Equal current expected \<or> \<not> no_owner_state j
         then Inl (Err ''Linux cgroup reservation abort compare-and-set mismatch'')
         else if \<not> linuxCgroupReservationAbortMatches current proof
         then Inl (Err ''Linux cgroup reservation abort has a live or unidentified producer'')
         else Inr (j\<lparr> j_ContainmentCgroup := Some (current\<lparr> lr_AbortProof := Some proof \<rparr>) \<rparr>)))"

definition AbortLinuxCgroupReservation ::
  "LinuxCgroupReservation \<Rightarrow> LinuxCgroupReservationAbortProof \<Rightarrow> RunJournal \<Rightarrow> RunJournal result" where
  "AbortLinuxCgroupReservation expected proof j =
     on_err (Reservation_Validate expected)
    (on_err (ReservationAbortProof_Validate proof)
    (on_err (checks [
       (\<not> opt_ex (\<lambda>m. ReservationAbortProof_ValidFor proof (lr_LaunchToken expected) (lr_Parent expected) (lr_LeafName expected)
            (lr_CreateStarted expected) (lr_OwnerUID expected) (lr_Anchor expected) m (lr_Helper expected) (lr_Launcher expected))
            (lr_Mirror expected)
        \<or> lr_AbortProof expected \<noteq> None \<or> lr_PreGateStopReceipt expected \<noteq> None \<or> lr_Gate expected \<noteq> None,
        ''Linux cgroup reservation abort proof does not match a pre-effect owner'')])
    (applyLinuxCgroupReservationAbort expected proof j)))"

definition neverCreatedProof :: "LinuxCgroupReservation \<Rightarrow> LinuxCgroupProcessIdentity \<Rightarrow> LinuxCgroupReservationAbortProof" where
  "neverCreatedProof r mirror = \<lparr> ra_Version = 2, ra_LaunchToken = lr_LaunchToken r, ra_Parent = lr_Parent r,
     ra_LeafName = lr_LeafName r, ra_CreateStarted = False, ra_LauncherGrantPossible = False, ra_LeafIdentity = None,
     ra_LeafDisposition = LinuxCgroupAbortLeafNeverCreated, ra_OwnerUID = lr_OwnerUID r, ra_Anchor = lr_Anchor r,
     ra_Mirror = mirror, ra_Helper = None, ra_Launcher = None, ra_Witness = lr_Anchor r, ra_HelperExit = None,
     ra_LauncherExit = None, ra_CreatorFenced = True, ra_NoProducerCanAct = True, ra_ParentUnchanged = True,
     ra_LeafEmpty = False, ra_LeafAbsent = True, ra_LeafNeverAppeared = False, ra_RmdirSucceeded = False,
     ra_RmdirOutcomeUnknown = False \<rparr>"

definition AbortNeverCreatedLinuxCgroupReservation :: "Fence \<Rightarrow> LinuxCgroupReservation \<Rightarrow> RunJournal \<Rightarrow> RunJournal result" where
  "AbortNeverCreatedLinuxCgroupReservation fence expected j = (case lr_Mirror expected of
     None \<Rightarrow> Inl (Err ''Linux cgroup reservation is not a never-created state'')
   | Some mirror \<Rightarrow>
     on_err (checks [
       (Reservation_Validate expected \<noteq> None \<or> lr_CreateStarted expected \<or> lr_LeafIdentity expected \<noteq> None
        \<or> lr_Helper expected \<noteq> None \<or> lr_Launcher expected \<noteq> None \<or> lr_LauncherExit expected \<noteq> None \<or> lr_Gate expected \<noteq> None
        \<or> lr_HelperExit expected \<noteq> None \<or> lr_AbortProof expected \<noteq> None \<or> lr_PreGateStopReceipt expected \<noteq> None
        \<or> lr_LauncherGrantPossible expected, ''Linux cgroup reservation is not a never-created state'')])
    (let proof = neverCreatedProof expected mirror in
     on_err (checks [
       (ReservationAbortProof_Validate proof \<noteq> None \<or> \<not> linuxCgroupReservationAbortMatches expected proof,
        ''Linux cgroup never-created tombstone is invalid''),
       (journal_Fence j \<noteq> fence \<or> \<not> hasClaimGrant j, ''Linux cgroup never-created abort has a stale RunKey fence'')])
    (applyLinuxCgroupReservationAbort expected proof j)))"

end
