(* ===== verification/Handoff.thy ===== *)
theory Handoff
  imports Cgroup
begin

text \<open>
  The supervisor handoff in the journal (\<^verbatim>\<open>internal/state/state.go\<close>): prepare, bind, commit, stop
  receipts and the two ways to clear it, for the version 1 and the version 2 record.
\<close>

subsection \<open>Prepare and bind\<close>

definition requireLinuxScansCleanForAuthority :: "RunJournal \<Rightarrow> Supervisor \<Rightarrow> gerror option" where
  "requireLinuxScansCleanForAuthority j a =
    (if su_OwnerKind a \<noteq> OwnerKindLinuxHelper then None
     else checks [
       (\<not> opt_ex (\<lambda>s. matchesAuthority s a) (j_ContainmentScans j), ''Linux supervisor scan fence is missing or mismatched''),
       (j_ContainmentUnproven j \<or> \<not> opt_ex scans_clean (j_ContainmentScans j), ''Linux supervisor scan evidence is unresolved'')])"

definition requireLinuxScansSealedForHandoff :: "RunJournal \<Rightarrow> SupervisorHandoff \<Rightarrow> gerror option" where
  "requireLinuxScansSealedForHandoff j h =
    (if ho_OwnerKind h \<noteq> OwnerKindLinuxHelper then None
     else checks [
       (ho_SupervisorPID h \<le> 0 \<or> ho_SupervisorIdentity h = [] \<or> \<not> opt_ex (\<lambda>s. matchesHandoff s h) (j_ContainmentScans j),
        ''Linux supervisor scan fence is missing or mismatched''),
       (j_ContainmentUnproven j \<or> \<not> opt_ex scans_sealed (j_ContainmentScans j), ''Linux supervisor scan seals are unresolved'')])"

definition initialPrecommitLinuxScanProgressAbortable :: "ContainmentScanProgress \<Rightarrow> bool" where
  "initialPrecommitLinuxScanProgressAbortable p =
    (if sg_UnprovenSequence p \<noteq> 0 \<or> sg_FailureKind p \<noteq> [] \<or> sg_CompletedSequence p > 1 \<or> sg_PendingSequence p > 1
        \<or> sg_CleanResultSequence p > 1 \<or> sg_SealedSequence p > 1 then False
     else if sg_CompletedSequence p = 0 then sg_PendingSequence p = 1 \<and> sg_SealedSequence p = 0
     else sg_PendingSequence p = 0 \<and> sg_CleanResultSequence p = 0
       \<and> (sg_SealedSequence p = 0 \<or> sg_SealedSequence p = sg_CompletedSequence p))"

definition initialPrecommitLinuxScansAbortable :: "ContainmentScanJournal \<Rightarrow> bool" where
  "initialPrecommitLinuxScansAbortable s = (initialPrecommitLinuxScanProgressAbortable (cs_Helper s)
     \<and> initialPrecommitLinuxScanProgressAbortable (cs_Mirror s))"

definition prepareLinuxCgroupSupervisorHandoff :: "SupervisorHandoff \<Rightarrow> RunJournal \<Rightarrow> RunJournal result" where
  "prepareLinuxCgroupSupervisorHandoff h j =
     on_err (checks [
       (ho_Version h \<noteq> 2 \<or> ho_SupervisorPID h \<noteq> 0 \<or> ho_SupervisorIdentity h \<noteq> [] \<or> ho_Mirror h \<noteq> None \<or> ho_StopReceipt h \<noteq> None,
        ''Linux cgroup supervisor handoff prepare value is invalid''),
       (\<not> hasClaimGrant j \<or> j_LocalState j = ''cleanup_pending'' \<or> HasProcessDetails j \<or> j_LinuxCloneAbortPending j
        \<or> j_LinuxCloneAbortProof j \<noteq> None \<or> j_ContainmentAuthority j \<noteq> None \<or> j_ContainmentScans j \<noteq> None \<or> j_ContainmentUnproven j
        \<or> j_ContainmentCgroupReleaseProof j \<noteq> None \<or> j_ContainmentCgroupPreGateReleaseProof j \<noteq> None,
        ''Linux cgroup supervisor handoff conflicts with journal''),
       (\<not> opt_ex (\<lambda>c. linuxCgroupReservationMatchesHandoff c h False) (j_ContainmentCgroup j),
        ''Linux cgroup supervisor handoff does not match a complete leaf reservation'')])
    (case j_ContainmentHandoff j of
       None \<Rightarrow> Inr (j\<lparr> j_ContainmentHandoff := Some h \<rparr>)
     | Some current \<Rightarrow>
       if \<not> SupervisorHandoff_Equal current h \<or> ho_StopReceipt current \<noteq> None
          \<or> \<not> opt_ex (\<lambda>c. linuxCgroupReservationMatchesHandoff c current (ho_SupervisorPID current > 0)) (j_ContainmentCgroup j)
       then Inl (Err ''Linux cgroup supervisor handoff conflicts with journal'') else Inr j)"

definition PrepareSupervisorHandoff :: "SupervisorHandoff \<Rightarrow> RunJournal \<Rightarrow> RunJournal result" where
  "PrepareSupervisorHandoff h j =
     on_err (SupervisorHandoff_Validate h)
    (if ho_Version h = 2 then prepareLinuxCgroupSupervisorHandoff h j
     else if ho_ScanUpdate h \<noteq> None then recordSupervisorScanUpdate h j
     else on_err (checks [
       (ho_StopReceipt h \<noteq> None, ''supervisor handoff stop receipt requires dedicated mutation''),
       (\<not> hasClaimGrant j, ''journal has no claim grant''),
       (j_LinuxCloneIntent j \<noteq> None, ''Linux clone run requires v2 cgroup supervisor handoff''),
       (j_LinuxCloneAbortPending j \<or> j_LinuxCloneAbortProof j \<noteq> None, ''supervisor handoff is fenced by Linux clone abort''),
       (j_LocalState j = ''cleanup_pending'', ''cannot prepare supervisor handoff during cleanup''),
       (HasProcessDetails j \<or> j_ContainmentAuthority j \<noteq> None, ''supervisor handoff conflicts with committed containment''),
       (j_ContainmentCgroupReleaseProof j \<noteq> None, ''supervisor handoff cannot be recreated after v2 containment release''),
       (j_ContainmentCgroupPreGateReleaseProof j \<noteq> None, ''supervisor handoff cannot be recreated after v2 pre-gate release'')])
    (case j_ContainmentHandoff j of
       None \<Rightarrow> Inr (j\<lparr> j_ContainmentHandoff := Some h \<rparr>)
     | Some current \<Rightarrow> on_err (checks [
         (\<not> SameLaunch current h, ''supervisor handoff conflicts with journal''),
         (ho_SupervisorPID current \<noteq> 0 \<and> ho_SupervisorPID h \<noteq> 0
          \<and> (ho_SupervisorPID current \<noteq> ho_SupervisorPID h \<or> ho_SupervisorIdentity current \<noteq> ho_SupervisorIdentity h),
          ''supervisor handoff helper identity conflicts with journal''),
         (ho_SupervisorPID current = 0 \<and> ho_SupervisorPID h \<noteq> 0, ''supervisor handoff helper identity requires dedicated bind'')])
        (Inr j)))"

definition BindSupervisorHandoffV2 ::
  "SupervisorHandoff \<Rightarrow> LinuxCgroupProcessIdentity \<Rightarrow> LinuxCgroupProcessIdentity \<Rightarrow> RunJournal \<Rightarrow> RunJournal result" where
  "BindSupervisorHandoffV2 expected helper mirror j =
     on_err (SupervisorHandoff_Validate expected)
    (on_err (checks [
       (ho_Version expected \<noteq> 2 \<or> ho_SupervisorPID expected \<noteq> 0 \<or> ho_SupervisorIdentity expected \<noteq> []
        \<or> ho_Mirror expected \<noteq> None \<or> ho_StopReceipt expected \<noteq> None, ''Linux cgroup supervisor bind expected value is invalid'')])
    (on_err (LinuxCgroupProcessIdentity_Validate helper)
    (on_err (LinuxCgroupProcessIdentity_Validate mirror)
    (let after = expected\<lparr> ho_SupervisorPID := pi_PID helper, ho_SupervisorIdentity := pi_Identity helper, ho_Mirror := Some mirror \<rparr> in
     on_err (checks [
       (\<not> hasClaimGrant j \<or> j_LocalState j = ''cleanup_pending'' \<or> j_ContainmentScans j \<noteq> None \<or> j_ContainmentAuthority j \<noteq> None
        \<or> HasProcessDetails j \<or> j_ContainmentUnproven j
        \<or> \<not> opt_ex (\<lambda>c. lr_Helper c = Some helper \<and> lr_Gate c \<noteq> None \<and> lr_Mirror c = Some mirror) (j_ContainmentCgroup j),
        ''Linux cgroup supervisor bind has no matching producer reservation'')])
    (case j_ContainmentHandoff j of
       None \<Rightarrow> Inl (Err ''Linux cgroup supervisor handoff compare-and-set mismatch'')
     | Some current \<Rightarrow>
       if \<not> SameLaunch current expected \<or> ho_StopReceipt current \<noteq> None
       then Inl (Err ''Linux cgroup supervisor handoff compare-and-set mismatch'')
       else if SupervisorHandoff_Equal current after then
         (if \<not> opt_ex (\<lambda>c. lr_Mirror c = Some mirror) (j_ContainmentCgroup j)
          then Inl (Err ''Linux cgroup mirror identity conflicts with reservation'') else Inr j)
       else if \<not> SupervisorHandoff_Equal current expected
       then Inl (Err ''Linux cgroup supervisor handoff compare-and-set mismatch'')
       else Inr (j\<lparr> j_ContainmentHandoff := Some after \<rparr>))))))"

text \<open>The bind of a version 1 handoff.  A Linux request carries its scan identity; after the first
  check it is present, so its dereferences are safe.\<close>

definition bind_scan_mismatch :: "SupervisorHandoff \<Rightarrow> SupervisorScanUpdate option \<Rightarrow> RunJournal \<Rightarrow> bool" where
  "bind_scan_mismatch current u j = (ho_OwnerKind current = OwnerKindLinuxHelper
     \<and> \<not> opt_ex (\<lambda>s. matchesHandoff s current \<and> opt_ex (\<lambda>x. cs_MirrorIdentity s = sc_MirrorIdentity x) u) (j_ContainmentScans j))"

definition initial_scans :: "SupervisorHandoff \<Rightarrow> int \<Rightarrow> string \<Rightarrow> string \<Rightarrow> ContainmentScanJournal" where
  "initial_scans current pid identity mirror = \<lparr> cs_Version = 1, cs_LaunchToken = ho_LaunchToken current,
     cs_TargetPID = ho_TargetPID current, cs_TargetIdentity = ho_TargetIdentity current, cs_SupervisorPID = pid,
     cs_SupervisorIdentity = identity, cs_MirrorIdentity = mirror,
     cs_Helper = ledger 1 0 0 0 0 [], cs_Mirror = ledger 1 0 0 0 0 [] \<rparr>"

definition BindSupervisorHandoff :: "SupervisorHandoff \<Rightarrow> int \<Rightarrow> string \<Rightarrow> RunJournal \<Rightarrow> RunJournal result" where
  "BindSupervisorHandoff expected pid identity j = (let u = ho_ScanUpdate expected; base = expected\<lparr> ho_ScanUpdate := None \<rparr> in
     on_err (SupervisorHandoff_Validate expected)
    (on_err (checks [
       (ho_Version expected = 2, ''v2 handoff requires BindSupervisorHandoffV2''),
       (ho_OwnerKind expected = OwnerKindLinuxHelper
        \<and> \<not> opt_ex (\<lambda>x. sc_Phase x = ''initialize'' \<and> sc_Owner x = SupervisorScanOwnerMirror \<and> sc_Sequence x = 1 \<and> sc_MirrorIdentity x \<noteq> []) u,
        ''Linux supervisor bind requires an exact mirror scan identity''),
       (ho_OwnerKind expected \<noteq> OwnerKindLinuxHelper \<and> u \<noteq> None, ''non-Linux supervisor bind cannot carry scan state''),
       (pid \<le> 0 \<or> \<not> validRequiredString identity 4096, ''supervisor handoff helper identity is invalid''),
       (ho_StopReceipt expected \<noteq> None, ''supervisor handoff helper cannot be rebound after stop receipt'')])
    (case j_ContainmentHandoff j of
       None \<Rightarrow> Inl (Err ''supervisor handoff is not pending'')
     | Some current \<Rightarrow>
       if \<not> SupervisorHandoff_Equal current base then
         (if ho_SupervisorPID base = 0 \<and> ho_SupervisorIdentity base = [] \<and> ho_StopReceipt base = None \<and> SameLaunch current base
             \<and> ho_SupervisorPID current = pid \<and> ho_SupervisorIdentity current = identity \<and> ho_StopReceipt current = None
          then (if bind_scan_mismatch current u j then Inl (Err ''Linux supervisor bind scan identity conflicts with journal'') else Inr j)
          else Inl (Err ''supervisor handoff compare-and-set mismatch''))
       else if ho_SupervisorPID current \<noteq> 0 \<or> ho_SupervisorIdentity current \<noteq> [] then
         (if ho_SupervisorPID current = pid \<and> ho_SupervisorIdentity current = identity
          then (if bind_scan_mismatch current u j then Inl (Err ''Linux supervisor handoff scan fence is missing or mismatched'') else Inr j)
          else Inl (Err ''supervisor handoff helper identity conflicts with journal''))
       else if ho_OwnerKind current = OwnerKindLinuxHelper \<and> (j_ContainmentUnproven j \<or> j_ContainmentScans j \<noteq> None)
       then Inl (Err ''Linux supervisor handoff cannot bind over unresolved scan state'')
       else (let bound = current\<lparr> ho_SupervisorPID := pid, ho_SupervisorIdentity := identity \<rparr> in
         if ho_OwnerKind current = OwnerKindLinuxHelper then (case u of None \<Rightarrow> Inl Panic
            | Some x \<Rightarrow> Inr (j\<lparr> j_ContainmentHandoff := Some bound,
                j_ContainmentScans := Some (initial_scans current pid identity (sc_MirrorIdentity x)) \<rparr>))
         else Inr (j\<lparr> j_ContainmentHandoff := Some bound \<rparr>)))))"

subsection \<open>Commit\<close>

definition commit_replay :: "Supervisor \<Rightarrow> time \<Rightarrow> RunJournal \<Rightarrow> RunJournal result" where
  "commit_replay v startedAt j = (case j_ContainmentAuthority j of
     None \<Rightarrow> Inl (Err ''supervisor handoff is not pending'')
   | Some a \<Rightarrow>
     if j_PID j = su_TargetPID v \<and> j_ProcessIdentity j = su_TargetIdentity v \<and> j_StartedAt j \<noteq> 0 then
       on_err (checks [
         (su_Version v = 2 \<and> j_StartedAt j \<noteq> startedAt, ''v2 supervisor handoff commit timestamp changed during replay''),
         (su_Version v = 2 \<and> su_StopReceipt a \<noteq> None, ''v2 handoff commit replay must precede receipt advancement'')])
      (if Supervisor_Equal (a\<lparr> su_StopReceipt := None \<rparr>) (v\<lparr> su_StopReceipt := None \<rparr>) then
         (if su_Version v = 2 then on_err (checks [
            (j_ContainmentUnproven j \<or> \<not> opt_ex (\<lambda>c. linuxCgroupReservationMatchesAuthority c a) (j_ContainmentCgroup j),
             ''v2 committed authority has no matching cgroup reservation'')]) (Inr j)
          else on_err (requireLinuxScansCleanForAuthority j a)
            (on_err (checks [(j_ContainmentUnproven j, ''Linux supervisor initial scan observation is unresolved'')]) (Inr j)))
       else Inl (Err ''supervisor handoff is not pending''))
     else Inl (Err ''supervisor handoff is not pending''))"

definition CommitSupervisorHandoff :: "SupervisorHandoff \<Rightarrow> time \<Rightarrow> RunJournal \<Rightarrow> RunJournal result" where
  "CommitSupervisorHandoff expected startedAt j =
     on_err (SupervisorHandoff_Validate expected)
    (on_err (checks [
       (ho_StopReceipt expected \<noteq> None, ''supervisor handoff stop receipt cannot commit''),
       (startedAt = 0, ''supervisor handoff start time is invalid'')])
    (bind_r (ToSupervisor expected) (\<lambda>v.
     on_err (checks [
       (su_Version v = 2 \<and> \<not> opt_ex (\<lambda>c. opt_ex (\<lambda>g. pi_PID (gi_Process g) = su_TargetPID v
            \<and> pi_Identity (gi_Process g) = su_TargetIdentity v \<and> startedAt = gi_ObservedAt g) (lr_Gate c)) (j_ContainmentCgroup j),
        ''v2 supervisor handoff commit time must match durable gate observation'')])
    (case j_ContainmentHandoff j of
       None \<Rightarrow> commit_replay v startedAt j
     | Some current \<Rightarrow> on_err (checks [
         (\<not> SupervisorHandoff_Equal current expected, ''supervisor handoff compare-and-set mismatch''),
         (HasProcessDetails j \<or> j_ContainmentAuthority j \<noteq> None, ''supervisor handoff conflicts with committed containment''),
         (\<not> hasClaimGrant j, ''journal has no claim grant''),
         (su_OwnerKind v = OwnerKindLinuxHelper \<and> su_Version v = 2 \<and> (j_ContainmentUnproven j \<or> j_ContainmentScans j \<noteq> None
          \<or> \<not> opt_ex (\<lambda>c. lr_HelperExit c = None \<and> linuxCgroupReservationMatchesHandoff c expected True) (j_ContainmentCgroup j)),
          ''Linux cgroup initial producer fences are unresolved''),
         (su_OwnerKind v = OwnerKindLinuxHelper \<and> su_Version v \<noteq> 2 \<and> (j_ContainmentUnproven j
          \<or> \<not> opt_ex (\<lambda>s. matchesHandoff s expected \<and> scans_clean s) (j_ContainmentScans j)),
          ''Linux supervisor initial scan fences are unresolved''),
         (j_LocalState j = ''cleanup_pending'', ''cannot commit supervisor handoff during cleanup'')])
        (Inr (j\<lparr> j_PID := su_TargetPID v, j_ProcessIdentity := su_TargetIdentity v, j_StartedAt := startedAt,
           j_ContainmentAuthority := Some v, j_ContainmentHandoff := None \<rparr>))))))"

subsection \<open>Stop receipts\<close>

text \<open>Go's \<^verbatim>\<open>==\<close> on \<^verbatim>\<open>StopReceipt\<close> compares the two pointer fields as pointers.  The journal's copy and the
  caller's copy never share an object, so two receipts with a non-nil pointer are different.\<close>

definition receipt_eq :: "StopReceipt \<Rightarrow> StopReceipt \<Rightarrow> bool" where
  "receipt_eq a b = (a = b \<and> sr_CgroupIdentity a = None \<and> sr_LinuxProof a = None)"

definition recordLinuxCgroupSupervisorStopReceipt :: "SupervisorHandoff \<Rightarrow> StopReceipt \<Rightarrow> RunJournal \<Rightarrow> RunJournal result" where
  "recordLinuxCgroupSupervisorStopReceipt expected receipt j =
     on_err (checks [
       (ho_SupervisorPID expected \<le> 0 \<or> ho_SupervisorIdentity expected = [] \<or> ho_Mirror expected = None
        \<or> \<not> StopReceipt_ValidForHandoff receipt expected, ''v2 supervisor stop receipt does not match handoff''),
       (j_ContainmentScans j \<noteq> None \<or> \<not> opt_ex (\<lambda>c. linuxCgroupReceiptMatchesReservation c receipt) (j_ContainmentCgroup j),
        ''v2 stop receipt has no matching cgroup producer reservation'')])
    (case j_ContainmentHandoff j of
       Some current \<Rightarrow>
         if \<not> sameBoundV2Handoff (Some current) (Some expected) then Inl (Err ''v2 supervisor handoff compare-and-set mismatch'')
         else (case ho_StopReceipt current of
           Some r \<Rightarrow> if equalStopReceipt r receipt then Inr j
              else Inl (Err ''v2 supervisor stop receipt cannot replace an existing witness'')
         | None \<Rightarrow> if \<not> SupervisorHandoff_Equal current expected then Inl (Err ''v2 supervisor handoff compare-and-set mismatch'')
              else Inr (j\<lparr> j_ContainmentHandoff := Some (current\<lparr> ho_StopReceipt := Some receipt \<rparr>), j_ContainmentUnproven := False \<rparr>))
     | None \<Rightarrow> bind_r (ToSupervisor expected) (\<lambda>v. case j_ContainmentAuthority j of
         None \<Rightarrow> Inl (Err ''v2 supervisor handoff is not pending or committed'')
       | Some a \<Rightarrow> on_err (checks [
           (su_Version a \<noteq> 2 \<or> j_PID j \<noteq> su_TargetPID v \<or> j_ProcessIdentity j \<noteq> su_TargetIdentity v,
            ''v2 supervisor handoff is not pending or committed''),
           (\<not> Supervisor_Equal (a\<lparr> su_StopReceipt := None \<rparr>) (v\<lparr> su_StopReceipt := None \<rparr>)
            \<or> \<not> opt_ex (\<lambda>c. linuxCgroupReservationMatchesAuthority c a) (j_ContainmentCgroup j),
            ''v2 committed authority conflicts with handoff'')])
          (case su_StopReceipt a of
             Some r \<Rightarrow> if equalStopReceipt r receipt then Inr j
                else Inl (Err ''v2 supervisor stop receipt cannot replace an existing witness'')
           | None \<Rightarrow> Inr (j\<lparr> j_ContainmentAuthority := Some (a\<lparr> su_StopReceipt := Some receipt \<rparr>), j_ContainmentUnproven := False \<rparr>))))"

definition record_handoff_receipt :: "SupervisorHandoff \<Rightarrow> StopReceipt \<Rightarrow> SupervisorHandoff \<Rightarrow> RunJournal \<Rightarrow> RunJournal result" where
  "record_handoff_receipt expected receipt current j =
    (if \<not> SupervisorHandoff_Equal current expected then
       on_err (checks [
         (\<not> SameLaunch current expected \<or> ho_SupervisorPID current \<noteq> ho_SupervisorPID expected
          \<or> ho_SupervisorIdentity current \<noteq> ho_SupervisorIdentity expected
          \<or> \<not> opt_ex (\<lambda>r. receipt_eq r receipt) (ho_StopReceipt current), ''supervisor handoff compare-and-set mismatch''),
         (j_ContainmentUnproven j, ''supervisor handoff scan observation is unresolved'')])
       (on_err (requireLinuxScansSealedForHandoff j current) (Inr j))
     else on_err (checks [(j_ContainmentUnproven j, ''supervisor handoff scan observation is unresolved'')])
       (on_err (requireLinuxScansSealedForHandoff j current)
       (case ho_StopReceipt current of
          Some r \<Rightarrow> if receipt_eq r receipt then Inr j
             else Inl (Err ''supervisor handoff stop receipt cannot replace an existing witness'')
        | None \<Rightarrow> Inr (j\<lparr> j_ContainmentHandoff := Some (current\<lparr> ho_StopReceipt := Some receipt \<rparr>) \<rparr>))))"

definition record_authority_receipt :: "Supervisor \<Rightarrow> StopReceipt \<Rightarrow> RunJournal \<Rightarrow> RunJournal result" where
  "record_authority_receipt a receipt j = (case su_StopReceipt a of
     Some r \<Rightarrow> if receipt_eq r receipt then Inr j else Inl (Err ''containment stop receipt cannot replace an existing witness'')
   | None \<Rightarrow> Inr (j\<lparr> j_ContainmentAuthority := Some (a\<lparr> su_StopReceipt := Some receipt \<rparr>) \<rparr>))"

definition RecordSupervisorHandoffStopReceipt :: "SupervisorHandoff \<Rightarrow> StopReceipt \<Rightarrow> RunJournal \<Rightarrow> RunJournal result" where
  "RecordSupervisorHandoffStopReceipt expected receipt j =
     on_err (SupervisorHandoff_Validate expected)
    (if ho_Version expected = 2 then recordLinuxCgroupSupervisorStopReceipt expected receipt j
     else on_err (checks [
       (ho_SupervisorPID expected \<le> 0 \<or> ho_SupervisorIdentity expected = [], ''supervisor handoff stop receipt requires a bound helper''),
       (\<not> StopReceipt_ValidForHandoff receipt expected, ''supervisor handoff stop receipt does not match handoff'')])
    (case j_ContainmentHandoff j of
       Some current \<Rightarrow> record_handoff_receipt expected receipt current j
     | None \<Rightarrow> bind_r (ToSupervisor expected) (\<lambda>v. case j_ContainmentAuthority j of
         None \<Rightarrow> Inl (Err ''supervisor handoff is not pending or committed'')
       | Some a \<Rightarrow> on_err (checks [
           (j_PID j \<noteq> su_TargetPID v \<or> j_ProcessIdentity j \<noteq> su_TargetIdentity v, ''supervisor handoff is not pending or committed''),
           (j_ContainmentUnproven j, ''supervisor handoff scan observation is unresolved'')])
          (on_err (requireLinuxScansSealedForAuthority j a)
          (on_err (checks [
             (\<not> Supervisor_Equal (a\<lparr> su_StopReceipt := None \<rparr>) (v\<lparr> su_StopReceipt := None \<rparr>),
              ''supervisor handoff committed authority conflicts with handoff'')])
          (record_authority_receipt a receipt j))))))"

definition RecordContainmentStopReceipt :: "int \<Rightarrow> string \<Rightarrow> StopReceipt \<Rightarrow> RunJournal \<Rightarrow> RunJournal result" where
  "RecordContainmentStopReceipt pid identity receipt j =
     on_err (checks [(j_ContainmentHandoff j \<noteq> None, ''containment stop receipt requires supervisor handoff mutation'')])
    (case j_ContainmentAuthority j of
       None \<Rightarrow> Inl (Err ''containment stop receipt has no matching authority'')
     | Some a \<Rightarrow>
       if j_PID j \<noteq> pid \<or> j_ProcessIdentity j \<noteq> identity then Inl (Err ''containment stop receipt has no matching authority'')
       else if su_Version a = 2 then
         on_err (checks [
           (j_ContainmentScans j \<noteq> None \<or> \<not> opt_ex (\<lambda>c. linuxCgroupReservationMatchesAuthority c a
              \<and> linuxCgroupReceiptMatchesReservation c receipt) (j_ContainmentCgroup j) \<or> \<not> StopReceipt_ValidFor receipt a,
            ''v2 containment stop receipt does not match exact cgroup authority'')])
        (case su_StopReceipt a of
           Some r \<Rightarrow> if equalStopReceipt r receipt then Inr j
              else Inl (Err ''v2 containment stop receipt cannot replace an existing witness'')
         | None \<Rightarrow> Inr (j\<lparr> j_ContainmentAuthority := Some (a\<lparr> su_StopReceipt := Some receipt \<rparr>), j_ContainmentUnproven := False \<rparr>))
       else on_err (checks [
           (j_ContainmentCgroup j \<noteq> None, ''v1 containment receipt cannot act on a v2 cgroup reservation''),
           (j_ContainmentUnproven j, ''containment scan observation is unresolved'')])
        (on_err (requireLinuxScansSealedForAuthority j a)
        (on_err (checks [(\<not> StopReceipt_ValidFor receipt a, ''containment stop receipt does not match containment authority'')])
        (record_authority_receipt a receipt j))))"

subsection \<open>Clearing a handoff\<close>

definition ClearSupervisorHandoff :: "SupervisorHandoff \<Rightarrow> SupervisorHandoffReleaseProof \<Rightarrow> RunJournal \<Rightarrow> RunJournal result" where
  "ClearSupervisorHandoff expected proof j =
     on_err (SupervisorHandoff_Validate expected)
    (on_err (checks [
       (ho_Version expected = 2, ''v2 supervisor handoff release requires a platform cgroup release''),
       (ho_StopReceipt expected = None, ''supervisor handoff stop receipt is required before release'')])
    (on_err (ReleaseProof_Validate proof)
    (on_err (checks [(\<not> ReleaseProof_ValidFor proof expected, ''supervisor handoff release proof does not match handoff'')])
    (case j_ContainmentHandoff j of
       None \<Rightarrow> if j_ContainmentAuthority j = None \<and> \<not> HasProcessDetails j then Inr j else Inl (Err ''supervisor handoff is not pending'')
     | Some current \<Rightarrow>
       on_err (checks [
         (\<not> SupervisorHandoff_Equal current expected, ''supervisor handoff compare-and-set mismatch''),
         (j_ContainmentUnproven j, ''supervisor handoff has unresolved containment observation'')])
      (on_err (requireLinuxScansSealedForHandoff j expected)
      (on_err (checks [
         (\<not> ReleaseProof_ValidFor proof current, ''supervisor handoff release proof does not match journal''),
         (ho_StopReceipt current = None, ''supervisor handoff stop receipt is required before release''),
         (\<not> opt_ex (\<lambda>r. StopReceipt_ValidForHandoff r current \<and> opt_ex (\<lambda>x. receipt_eq r x) (ho_StopReceipt expected)) (ho_StopReceipt current),
          ''supervisor handoff stop receipt is invalid'')])
      (Inr (j\<lparr> j_ContainmentHandoff := None, j_ContainmentScans := None \<rparr>))))))))"

definition ClearSupervisorHandoffAfterAbort :: "SupervisorHandoff \<Rightarrow> SupervisorHandoffAbortProof \<Rightarrow> RunJournal \<Rightarrow> (RunJournal \<times> bool) result" where
  "ClearSupervisorHandoffAfterAbort expected proof j =
     on_err (SupervisorHandoff_Validate expected)
    (on_err (checks [
       (ho_Version expected = 2, ''v2 cgroup handoff cannot use the v1 pre-authority abort path''),
       (ho_StopReceipt expected \<noteq> None, ''supervisor handoff abort cannot carry a stop receipt'')])
    (on_err (AbortProof_Validate proof)
    (on_err (checks [(\<not> AbortProof_ValidFor proof expected, ''supervisor handoff abort proof does not match handoff'')])
    (case j_ContainmentHandoff j of
       None \<Rightarrow> Inl (Err ''supervisor handoff is not pending'')
     | Some current \<Rightarrow>
       on_err (checks [
         (\<not> SupervisorHandoff_Equal current expected, ''supervisor handoff compare-and-set mismatch''),
         (ho_StopReceipt current \<noteq> None, ''supervisor handoff abort cannot clear a durable stop receipt''),
         (j_ContainmentAuthority j \<noteq> None \<or> HasProcessDetails j, ''supervisor handoff abort conflicts with committed containment''),
         (\<not> AbortProof_ValidFor proof current, ''supervisor handoff abort proof does not match journal''),
         (j_ContainmentUnproven j, ''supervisor handoff has unresolved containment observation''),
         (ho_OwnerKind expected = OwnerKindLinuxHelper \<and> ho_SupervisorPID expected = 0 \<and> j_ContainmentScans j \<noteq> None,
          ''unbound Linux handoff unexpectedly has scan state''),
         (ho_OwnerKind expected = OwnerKindLinuxHelper \<and> ho_SupervisorPID expected \<noteq> 0
          \<and> \<not> opt_ex (\<lambda>s. matchesHandoff s expected \<and> initialPrecommitLinuxScansAbortable s) (j_ContainmentScans j),
          ''Linux supervisor pre-commit scan state is unresolved'')])
      (Inr (j\<lparr> j_ContainmentHandoff := None, j_ContainmentScans := None \<rparr>, True))))))"

end
