(* ===== verification/Clone_Ops.thy ===== *)
theory Clone_Ops
  imports Handoff
begin

text \<open>
  The Linux clone workspace stages of the journal (\<^verbatim>\<open>internal/state/state.go\<close>): intent, seed, checkout,
  promotion, the abort before checkout, the no-target retention clear and the cleanup stages.  Each operation is
  the closure its store method passes to \<^verbatim>\<open>mutateJournal\<close> behind the argument checks of the method.
\<close>

definition requireLinuxClonePlatform :: "Env \<Rightarrow> gerror option" where
  "requireLinuxClonePlatform env = checks [
     (\<not> env_linux_amd64 env, ''Linux clone-v2 mutations are supported only on Linux/amd64'')]"

subsection \<open>Intent, seed, checkout\<close>

definition ReserveLinuxCloneIntent ::
  "Env \<Rightarrow> live_owners \<Rightarrow> RunJournal result list \<Rightarrow> RunKey \<Rightarrow> Fence \<Rightarrow> LinuxCloneIntent \<Rightarrow> RunJournal \<Rightarrow> RunJournal result" where
  "ReserveLinuxCloneIntent env live journals key fence it j =
     on_err (requireLinuxClonePlatform env)
    (on_err (checks [
       (LinuxCloneIntent_Validate it \<noteq> None \<or> li_RunID it \<noteq> k_RunID key \<or> li_Generation it \<noteq> k_Generation key,
        ''Linux clone intent does not match RunKey'')])
    (on_err (requireLinuxCloneJournalFence (env_ParseAdmissionInput env) j fence it)
    (on_err (checkLinuxV2NativeAdmission (env_ParseAdmissionInput env) j key fence (env_now env) live None (Some it) journals)
    (case j_LinuxCloneIntent j of
       Some current \<Rightarrow> on_err (checks [
         (\<not> LinuxCloneIntent_Equal current it, ''Linux clone intent cannot be replaced''),
         (j_LinuxCloneAbortPending j \<or> j_LinuxCloneAbortProof j \<noteq> None, ''Linux clone intent is fenced for pre-checkout abort'')]) (Inr j)
     | None \<Rightarrow> on_err (checks [
         (j_LocalState j = ''terminal_pending'' \<or> j_LocalState j = ''cleanup_pending'' \<or> j_LocalState j = ''stale''
          \<or> HasProcessDetails j \<or> j_ContainmentHandoff j \<noteq> None \<or> j_ContainmentAuthority j \<noteq> None
          \<or> j_ContainmentCgroup j \<noteq> None \<or> j_ContainmentCgroupReleaseProof j \<noteq> None \<or> j_ContainmentCgroupPreGateReleaseProof j \<noteq> None,
          ''Linux clone intent must be reserved before process containment or terminal cleanup''),
         (j_WorkspacePath j \<noteq> [], ''Linux clone intent cannot adopt a pre-existing workspace path'')])
        (Inr (j\<lparr> j_LinuxCloneIntent := Some it, j_WorkspacePath := li_Target it, j_WorkspaceBindingKey := li_BindingKey it,
                j_WorkspaceRecoveryRequired := True \<rparr>))))))"

definition BindLinuxCloneSeed ::
  "Env \<Rightarrow> Fence \<Rightarrow> LinuxCloneIntent \<Rightarrow> LinuxCloneSeedReceipt \<Rightarrow> RunJournal \<Rightarrow> RunJournal result" where
  "BindLinuxCloneSeed env fence it seed j =
     on_err (requireLinuxClonePlatform env)
    (on_err (checks [
       (SeedReceipt_Validate seed \<noteq> None \<or> ls_BaseCommit seed \<noteq> li_BaseCommit it,
        ''Linux clone seed receipt does not match its intent'')])
    (on_err (requireLinuxCloneJournalFence (env_ParseAdmissionInput env) j fence it)
    (on_err (checks [
       (\<not> opt_ex (\<lambda>c. LinuxCloneIntent_Equal c it) (j_LinuxCloneIntent j), ''Linux clone seed intent is not durably reserved'')])
    (case j_LinuxCloneSeedReceipt j of
       Some s \<Rightarrow> if \<not> SeedReceipt_Equal s seed then Inl (Err ''Linux clone seed receipt cannot be changed'') else Inr j
     | None \<Rightarrow> if j_LinuxCloneAbortPending j \<or> j_LinuxCloneAbortProof j \<noteq> None \<or> \<not> linuxCloneStageCanAdvance j
         then Inl (Err ''Linux clone seed cannot advance after abort or terminal fencing'')
         else Inr (j\<lparr> j_LinuxCloneSeedReceipt := Some seed \<rparr>)))))"

definition RecordLinuxCloneCheckoutReady ::
  "Env \<Rightarrow> Fence \<Rightarrow> LinuxCloneIntent \<Rightarrow> LinuxCloneCheckoutReceipt \<Rightarrow> RunJournal \<Rightarrow> RunJournal result" where
  "RecordLinuxCloneCheckoutReady env fence it receipt j =
     on_err (requireLinuxClonePlatform env)
    (on_err (CheckoutReceipt_Validate receipt)
    (on_err (requireLinuxCloneJournalFence (env_ParseAdmissionInput env) j fence it)
    (on_err (checks [
       (\<not> opt_ex (\<lambda>c. LinuxCloneIntent_Equal c it) (j_LinuxCloneIntent j) \<or> j_LinuxCloneSeedReceipt j = None,
        ''Linux clone checkout is missing its reserved intent or seed''),
       (j_LinuxCloneAbortPending j \<or> j_LinuxCloneAbortProof j \<noteq> None, ''Linux clone checkout is fenced for pre-checkout abort''),
       (\<not> opt_ex (\<lambda>s. linuxCloneCheckoutMatches it s receipt) (j_LinuxCloneSeedReceipt j),
        ''Linux clone checkout receipt does not match its intent and seed'')])
    (case j_LinuxCloneCheckoutReceipt j of
       Some r \<Rightarrow> if \<not> CheckoutReceipt_Equal r receipt then Inl (Err ''Linux clone checkout receipt cannot be changed'') else Inr j
     | None \<Rightarrow> on_err (checks [
         (\<not> linuxCloneStageCanAdvance j, ''Linux clone checkout cannot advance after terminal fencing''),
         (\<not> linuxCloneCommittedGateReady j, ''Linux clone checkout requires committed v2 gate authority'')])
        (Inr (j\<lparr> j_LinuxCloneCheckoutReceipt := Some receipt \<rparr>))))))"

subsection \<open>Promotion\<close>

definition ReserveLinuxClonePromotion ::
  "Env \<Rightarrow> Fence \<Rightarrow> LinuxCloneIntent \<Rightarrow> LinuxClonePromotionIntent \<Rightarrow> RunJournal \<Rightarrow> RunJournal result" where
  "ReserveLinuxClonePromotion env fence it candidate j =
     on_err (requireLinuxClonePlatform env)
    (on_err (PromotionIntent_Validate candidate)
    (on_err (checks [
       (ln_ResourceID candidate \<noteq> li_ResourceID it \<or> length (ln_Commit candidate) \<noteq> length (li_BaseCommit it),
        ''Linux clone promotion candidate does not match its resource or object format'')])
    (on_err (requireLinuxCloneJournalFence (env_ParseAdmissionInput env) j fence it)
    (on_err (checks [
       (\<not> linuxV2TargetCanStartNativeEffects j (env_now env), ''Linux clone promotion target lease or lifecycle is not effect-ready''),
       (\<not> opt_ex (\<lambda>c. LinuxCloneIntent_Equal c it) (j_LinuxCloneIntent j) \<or> j_LinuxCloneSeedReceipt j = None
        \<or> j_LinuxCloneCheckoutReceipt j = None, ''Linux clone promotion intent is missing its reserved checkout evidence''),
       (j_LinuxCloneAbortPending j \<or> j_LinuxCloneAbortProof j \<noteq> None, ''Linux clone promotion is fenced for pre-checkout abort''),
       (j_LinuxClonePromotionIntent j = None \<and> j_LinuxClonePromotionReceipt j \<noteq> None,
        ''legacy Linux clone promotion receipt has no pre-effect candidate intent'')])
    (case j_LinuxClonePromotionIntent j of
       Some p \<Rightarrow> if \<not> PromotionIntent_Equal p candidate then Inl (Err ''Linux clone promotion intent cannot be changed'') else Inr j
     | None \<Rightarrow> on_err (checks [
         (\<not> linuxCloneStageCanAdvance j, ''Linux clone promotion intent cannot advance after terminal fencing''),
         (\<not> opt_ex (\<lambda>owner. su_Version owner = 2 \<and> opt_ex (\<lambda>r. StopReceipt_ValidFor r owner) (su_StopReceipt owner)) (j_ContainmentAuthority j)
          \<or> j_ContainmentCgroup j = None \<or> j_ContainmentHandoff j \<noteq> None \<or> j_ContainmentCgroupReleaseProof j \<noteq> None
          \<or> j_ContainmentUnproven j \<or> \<not> HasProcessDetails j,
          ''Linux clone promotion intent requires the durable v2 stop receipt before release'')])
        (Inr (j\<lparr> j_LinuxClonePromotionIntent := Some candidate \<rparr>)))))))"

definition RecordLinuxClonePromotion ::
  "Env \<Rightarrow> RunKey \<Rightarrow> Fence \<Rightarrow> LinuxCloneIntent \<Rightarrow> LinuxClonePromotionIntent \<Rightarrow> LinuxClonePromotionReceipt \<Rightarrow> RunJournal \<Rightarrow> RunJournal result" where
  "RecordLinuxClonePromotion env key fence it candidate receipt j =
     on_err (requireLinuxClonePlatform env)
    (on_err (checks [
       (PromotionIntent_Validate candidate \<noteq> None \<or> PromotionReceipt_Validate receipt \<noteq> None
        \<or> ln_ResourceID candidate \<noteq> li_ResourceID it \<or> length (ln_Commit candidate) \<noteq> length (li_BaseCommit it)
        \<or> lp_Version receipt \<noteq> ln_Version candidate \<or> lp_Commit receipt \<noteq> ln_Commit candidate
        \<or> lp_TreeDigest receipt \<noteq> ln_TreeDigest candidate, ''Linux clone promotion receipt does not match candidate intent''),
       (LinuxClonePromotionRef (k_RunID key) (k_Generation key) \<noteq> Inr (lp_Ref receipt),
        ''Linux clone promotion ref does not match RunKey'')])
    (on_err (requireLinuxCloneJournalFence (env_ParseAdmissionInput env) j fence it)
    (on_err (checks [
       (\<not> opt_ex (\<lambda>c. LinuxCloneIntent_Equal c it) (j_LinuxCloneIntent j) \<or> j_LinuxCloneSeedReceipt j = None
        \<or> j_LinuxCloneCheckoutReceipt j = None
        \<or> \<not> opt_ex (\<lambda>p. PromotionIntent_Equal p candidate) (j_LinuxClonePromotionIntent j),
        ''Linux clone promotion receipt has no exact durable intent''),
       (j_LinuxCloneAbortPending j \<or> j_LinuxCloneAbortProof j \<noteq> None \<or> \<not> linuxCloneStopProven j,
        ''Linux clone promotion receipt lacks durable physical-stop evidence'')])
    (case j_LinuxClonePromotionReceipt j of
       Some r \<Rightarrow> if \<not> PromotionReceipt_Equal r receipt then Inl (Err ''Linux clone promotion receipt cannot be changed'') else Inr j
     | None \<Rightarrow> Inr (j\<lparr> j_LinuxClonePromotionReceipt := Some receipt \<rparr>)))))"

subsection \<open>Abort before checkout\<close>

definition FenceLinuxCloneBeforeCheckout :: "Env \<Rightarrow> Fence \<Rightarrow> LinuxCloneIntent \<Rightarrow> RunJournal \<Rightarrow> RunJournal result" where
  "FenceLinuxCloneBeforeCheckout env fence it j =
     on_err (requireLinuxClonePlatform env)
    (on_err (LinuxCloneIntent_Validate it)
    (on_err (requireLinuxCloneJournalFence (env_ParseAdmissionInput env) j fence it)
    (on_err (checks [
       (\<not> opt_ex (\<lambda>c. LinuxCloneIntent_Equal c it) (j_LinuxCloneIntent j) \<or> j_LinuxCloneCheckoutReceipt j \<noteq> None
        \<or> j_LinuxClonePromotionReceipt j \<noteq> None, ''Linux clone is not eligible for pre-checkout abort fencing'')])
    (case j_LinuxCloneAbortProof j of
       Some p \<Rightarrow>
         if LinuxCloneAbortProof_Validate p = None \<and> linuxCloneAbortHistoryMatches j (Some p)
            \<and> LinuxCloneIntent_Equal (la_Intent p) it \<and> \<not> j_LinuxCloneAbortPending j
         then Inr j else Inl (Err ''Linux clone abort fence conflicts with completed proof'')
     | None \<Rightarrow>
         if j_LinuxCloneAbortPending j then
           (if \<not> linuxCloneAbortFenceAvailable j then Inl (Err ''Linux clone abort fence is unresolved after possible B release'') else Inr j)
         else if \<not> linuxCloneAbortFenceAvailable j
         then Inl (Err ''Linux clone abort fence requires no producer or a durable no-gate abort proof'')
         else Inr (j\<lparr> j_LinuxCloneAbortPending := True, j_WorkspacePath := li_Target it, j_WorkspaceBindingKey := li_BindingKey it,
                     j_WorkspaceRecoveryRequired := True \<rparr>)))))"

definition CompleteLinuxCloneAbort ::
  "Env \<Rightarrow> Fence \<Rightarrow> LinuxCloneIntent \<Rightarrow> LinuxCloneAbortProof \<Rightarrow> RunJournal \<Rightarrow> RunJournal result" where
  "CompleteLinuxCloneAbort env fence it proof j =
     on_err (requireLinuxClonePlatform env)
    (on_err (LinuxCloneAbortProof_Validate proof)
    (on_err (requireLinuxCloneJournalFence (env_ParseAdmissionInput env) j fence it)
    (on_err (checks [
       (\<not> opt_ex (\<lambda>c. LinuxCloneIntent_Equal c it) (j_LinuxCloneIntent j) \<or> \<not> LinuxCloneIntent_Equal (la_Intent proof) it
        \<or> j_LinuxCloneCheckoutReceipt j \<noteq> None \<or> j_LinuxClonePromotionReceipt j \<noteq> None,
        ''Linux clone abort proof does not match a pre-checkout intent'')])
    (case j_LinuxCloneAbortProof j of
       Some p \<Rightarrow> if \<not> LinuxCloneAbortProof_Equal p proof \<or> j_LinuxCloneAbortPending j
         then Inl (Err ''Linux clone abort proof replay conflicts with journal'') else Inr j
     | None \<Rightarrow> on_err (checks [
         (\<not> j_LinuxCloneAbortPending j, ''Linux clone abort completion has no durable creator fence''),
         (opt_ex (\<lambda>s. \<not> opt_ex (\<lambda>t. SeedReceipt_Equal s t) (la_SeedReceipt proof)) (j_LinuxCloneSeedReceipt j),
          ''Linux clone abort proof does not preserve the bound seed receipt''),
         (\<not> linuxCloneAbortHistoryMatches j (Some proof), ''Linux clone abort proof does not match durable no-gate history'')])
        (Inr (j\<lparr> j_LinuxCloneAbortProof := Some proof, j_LinuxCloneAbortPending := False, j_WorkspacePath := [],
                j_WorkspaceRecoveryRequired := False \<rparr>))))))"

definition ClearLinuxCloneNoTargetRetention ::
  "Env \<Rightarrow> Fence \<Rightarrow> LinuxCloneAbortProof \<Rightarrow> RunJournal \<Rightarrow> RunJournal result" where
  "ClearLinuxCloneNoTargetRetention env fence proof j =
     on_err (requireLinuxClonePlatform env)
    (on_err (LinuxCloneAbortProof_Validate proof)
    (on_err (requireLinuxCloneJournalFence (env_ParseAdmissionInput env) j fence (la_Intent proof))
    (on_err (checks [
       (\<not> opt_ex (\<lambda>c. LinuxCloneIntent_Equal c (la_Intent proof)) (j_LinuxCloneIntent j) \<or> j_LinuxCloneAbortPending j
        \<or> \<not> opt_ex (\<lambda>p. LinuxCloneAbortProof_Equal p proof) (j_LinuxCloneAbortProof j) \<or> j_LinuxCloneCheckoutReceipt j \<noteq> None
        \<or> j_LinuxClonePromotionReceipt j \<noteq> None \<or> j_WorkspacePath j \<noteq> [] \<or> j_WorkspaceRecoveryRequired j
        \<or> \<not> linuxCloneAbortHistoryMatches j (Some proof), ''Linux clone retention clear lacks exact no-target abort proof'')])
    (Inr (j\<lparr> j_RetainWorkspace := False \<rparr>)))))"

subsection \<open>Cleanup\<close>

definition BeginLinuxCloneCleanup :: "Env \<Rightarrow> RunKey \<Rightarrow> Fence \<Rightarrow> RunJournal \<Rightarrow> RunJournal result" where
  "BeginLinuxCloneCleanup env key fence j =
     on_err (requireLinuxClonePlatform env)
    (on_err (checks [(journal_Key j \<noteq> key \<or> journal_Fence j \<noteq> fence, ''Linux clone cleanup RunKey fence is stale'')])
    (case j_LinuxCloneCleanupIntent j of
       Some stored \<Rightarrow>
         (case LinuxCloneCleanupIntentForJournal env j of
            Inl _ \<Rightarrow> Inl (Err ''Linux clone cleanup intent readback is invalid'')
          | Inr it \<Rightarrow>
            if \<not> CleanupIntent_Equal stored it then Inl (Err ''Linux clone cleanup intent readback is invalid'')
            else (case j_LinuxCloneCleanupProof j of
              Some p \<Rightarrow> if j_LinuxCloneCleanupPending j \<or> \<not> CleanupIntent_Equal (lf_Intent p) it
                then Inl (Err ''Linux clone cleanup proof conflicts with its intent'') else Inr j
            | None \<Rightarrow> if \<not> j_LinuxCloneCleanupPending j \<or> \<not> LinuxCloneCleanupBeginEligible env j key fence
                then Inl (Err ''Linux clone cleanup intent is not durably pending'') else Inr j))
     | None \<Rightarrow>
         if j_LinuxCloneCleanupPending j \<or> j_LinuxCloneCleanupProof j \<noteq> None \<or> \<not> LinuxCloneCleanupBeginEligible env j key fence
         then Inl (Err ''Linux clone cleanup is not eligible to begin'')
         else bind_r (linuxCloneCleanupIntentFromJournal (env_ParseAdmissionInput env) j) (\<lambda>it.
           Inr (j\<lparr> j_LinuxCloneCleanupIntent := Some it, j_LinuxCloneCleanupPending := True,
                  j_WorkspacePath := li_Target (lk_Intent it), j_WorkspaceBindingKey := li_BindingKey (lk_Intent it),
                  j_WorkspaceRecoveryRequired := True \<rparr>))))"

definition RecordLinuxCloneTargetRemoval ::
  "Env \<Rightarrow> RunKey \<Rightarrow> Fence \<Rightarrow> LinuxCloneCleanupIntent \<Rightarrow> LinuxCloneTargetRemovalProof \<Rightarrow> RunJournal \<Rightarrow> RunJournal result" where
  "RecordLinuxCloneTargetRemoval env key fence expected proof j =
     on_err (requireLinuxClonePlatform env)
    (on_err (checks [
       (CleanupIntent_Validate expected \<noteq> None \<or> TargetRemovalProof_Validate proof \<noteq> None \<or> lt_Disposition proof \<noteq> ''removed''
        \<or> \<not> lt_TargetNlinkZero proof \<or> \<not> CleanupIntent_Equal (lt_Intent proof) expected,
        ''Linux clone target-removal proof does not match cleanup intent''),
       (journal_Key j \<noteq> key \<or> journal_Fence j \<noteq> fence, ''Linux clone target-removal fence is stale''),
       (\<not> j_LinuxCloneCleanupPending j \<or> \<not> opt_ex (\<lambda>c. CleanupIntent_Equal c expected) (j_LinuxCloneCleanupIntent j)
        \<or> \<not> linuxCloneCleanupIntentMatchesJournal (env_ParseAdmissionInput env) j expected
        \<or> \<not> LinuxCloneCleanupBeginEligible env j key fence,
        ''Linux clone target-removal proof lacks its exact pending cleanup intent and gates'')])
    (case j_LinuxCloneTargetRemovalProof j of
       Some p \<Rightarrow> if \<not> TargetRemovalProof_Equal p proof
         then Inl (Err ''Linux clone target-removal proof replay conflicts with journal'') else Inr j
     | None \<Rightarrow> Inr (j\<lparr> j_LinuxCloneTargetRemovalProof := Some proof \<rparr>)))"

definition CompleteLinuxCloneCleanup ::
  "Env \<Rightarrow> RunKey \<Rightarrow> Fence \<Rightarrow> LinuxCloneCleanupIntent \<Rightarrow> LinuxCloneCleanupProof \<Rightarrow> RunJournal \<Rightarrow> RunJournal result" where
  "CompleteLinuxCloneCleanup env key fence expected proof j = (let adm = env_ParseAdmissionInput env;
       removal = opt_ex (\<lambda>p. TargetRemovalProof_Equal p (lf_TargetRemovalProof proof)) (j_LinuxCloneTargetRemovalProof j);
       intent = opt_ex (\<lambda>c. CleanupIntent_Equal c expected) (j_LinuxCloneCleanupIntent j) in
     on_err (requireLinuxClonePlatform env)
    (on_err (checks [
       (CleanupIntent_Validate expected \<noteq> None \<or> CleanupProof_Validate proof \<noteq> None \<or> \<not> CleanupIntent_Equal (lf_Intent proof) expected,
        ''Linux clone cleanup proof does not match cleanup intent''),
       (journal_Key j \<noteq> key \<or> journal_Fence j \<noteq> fence, ''Linux clone cleanup completion fence is stale'')])
    (case j_LinuxCloneCleanupProof j of
       Some p \<Rightarrow> if j_LinuxCloneCleanupPending j \<or> \<not> removal \<or> \<not> intent \<or> \<not> CleanupProof_Equal p proof
         then Inl (Err ''Linux clone cleanup proof replay conflicts with journal'') else Inr j
     | None \<Rightarrow>
         if \<not> j_LinuxCloneCleanupPending j \<or> \<not> intent \<or> \<not> linuxCloneCleanupIntentMatchesJournal adm j expected
            \<or> \<not> removal \<or> \<not> LinuxCloneCleanupBeginEligible env j key fence \<or> \<not> CleanupIntent_Equal (lf_Intent proof) expected
         then Inl (Err ''Linux clone cleanup completion lacks its exact pending intent and gates'')
         else Inr (j\<lparr> j_LinuxCloneCleanupProof := Some proof, j_LinuxCloneCleanupPending := False, j_WorkspacePath := [],
                     j_WorkspaceRecoveryRequired := False \<rparr>))))"

end
