(* ===== verification/Store.thy ===== *)
theory Store
  imports Goal_Attach Clone_Ops Documents
begin

text \<open>
  The run journal files and the ledgers of late Goal usage (\<^verbatim>\<open>internal/state/state.go\<close>, \<^verbatim>\<open>goal_delivery.go\<close>): load, guarded
  save, claim, mutation, import, deletion with archiving, listing, and the Goal delivery operations that read more than one
  file.  A file holds the record itself: the JSON encoding and decoding of \<^verbatim>\<open>serializeRunJournal\<close> are taken as the identity.  In the program
  they are not on every value, since raw messages are compacted, a nil payload is written as \<^verbatim>\<open>null\<close> and invalid UTF-8 is replaced, so a
  journal read back agrees with the one written up to these changes.  \<open>size_of\<close> is the length of \<^verbatim>\<open>serializeRunJournal\<close>, with \<^const>\<open>None\<close> for an encoding error.  A ledger whose encoding is too
  large shows as a write that is not done.
\<close>

subsection \<open>Late usage ledgers\<close>

record LateGoalUsageLedger =
  lu_SchemaVersion :: int
  lu_RunID :: string
  lu_Generation :: int
  lu_Fence :: Fence
  lu_PendingUsageDeliveries :: "GoalDelivery list"
  lu_DeliveredDeliveries :: "GoalDelivery list"
  lu_RetiredDeliveries :: "GoalDeliveryRetirement list"
  lu_CreatedAt :: time
  lu_UpdatedAt :: time

definition ledger_key :: "LateGoalUsageLedger \<Rightarrow> RunKey" where
  "ledger_key l = \<lparr> k_RunID = lu_RunID l, k_Generation = lu_Generation l \<rparr>"

text \<open>One loop of the validation: the checks of a record, then that its ID is new.\<close>

fun ledger_loop :: "('a \<Rightarrow> bool) \<Rightarrow> string \<Rightarrow> ('a \<Rightarrow> string) \<Rightarrow> string list \<Rightarrow> 'a list \<Rightarrow> string list result" where
  "ledger_loop bad msg idf seen [] = Inr seen"
| "ledger_loop bad msg idf seen (x # xs) =
    (if bad x then Inl (Err msg)
     else if idf x \<in> set seen then Inl (Err ''late Goal usage delivery is duplicated'')
     else ledger_loop bad msg idf (idf x # seen) xs)"

definition validateLateGoalUsageLedger :: "LateGoalUsageLedger \<Rightarrow> gerror option" where
  "validateLateGoalUsageLedger l =
    (if lu_SchemaVersion l \<noteq> 1 \<or> validateKey (ledger_key l) \<noteq> None \<or> f_Generation (lu_Fence l) \<noteq> lu_Generation l
        \<or> lu_Fence l = zero_fence \<or> lu_CreatedAt l = 0 \<or> lu_UpdatedAt l = 0 then Some (Err ''late Goal usage ledger is invalid'')
     else (case bind_r (ledger_loop (\<lambda>d. gd_Kind d \<noteq> GoalDeliveryUsage \<or> gd_Fence d \<noteq> lu_Fence l
              \<or> validatePersistedGoalDelivery (lu_RunID l) d \<noteq> None) ''late Goal usage delivery is invalid'' gd_DeliveryID [] (lu_PendingUsageDeliveries l)) (\<lambda>seen.
           bind_r (ledger_loop (\<lambda>d. gd_Kind d \<noteq> GoalDeliveryUsage \<or> \<not> gd_Ready d \<or> gd_Fence d \<noteq> lu_Fence l
              \<or> validatePersistedGoalDelivery (lu_RunID l) d \<noteq> None) ''late Goal delivered usage is invalid'' gd_DeliveryID seen (lu_DeliveredDeliveries l)) (\<lambda>seen.
           ledger_loop (\<lambda>r. validateGoalDeliveryRetirement (lu_RunID l) (lu_Fence l) r \<noteq> None \<or> gd_Kind (gr_Delivery r) \<noteq> GoalDeliveryUsage)
              ''late Goal usage retirement is invalid'' (\<lambda>r. gd_DeliveryID (gr_Delivery r)) seen (lu_RetiredDeliveries l)))
       of Inl e \<Rightarrow> Some e | Inr _ \<Rightarrow> None))"

definition queue_late :: "time \<Rightarrow> Usage \<Rightarrow> LateGoalUsageLedger \<Rightarrow> (LateGoalUsageLedger \<times> bool) result" where
  "queue_late now u l = bind_r (prepareGoalDelivery (lu_RunID l) (usage_delivery (lu_Fence l) u)) (\<lambda>d.
     let same = (\<lambda>x. gd_DeliveryID x = gd_DeliveryID d);
         exact = (\<lambda>x. gd_PayloadDigest x = gd_PayloadDigest d \<and> equalGoalDelivery x d) in
     case find same (lu_PendingUsageDeliveries l) of
       Some p \<Rightarrow> if exact p then Inr (l, False) else Inl ErrGoalDeliveryConflict
     | None \<Rightarrow>
       if list_ex (\<lambda>r. same (gr_Delivery r)) (lu_RetiredDeliveries l) then Inl ErrGoalDeliveryConflict
       else (case find same (lu_DeliveredDeliveries l) of
         Some p \<Rightarrow> if exact p then Inr (l, False) else Inl ErrGoalDeliveryConflict
       | None \<Rightarrow> Inr (l\<lparr> lu_PendingUsageDeliveries := lu_PendingUsageDeliveries l @ [d], lu_UpdatedAt := now \<rparr>, True)))"

definition late_delivered :: "string \<Rightarrow> string \<Rightarrow> LateGoalUsageLedger \<Rightarrow> LateGoalUsageLedger result" where
  "late_delivered deliveryID digest l = (let same = (\<lambda>d. gd_DeliveryID d = deliveryID) in
     case find same (lu_DeliveredDeliveries l) of
       Some d \<Rightarrow> if gd_PayloadDigest d \<noteq> digest then Inl ErrGoalDeliveryConflict else Inr l
     | None \<Rightarrow> (case find same (lu_PendingUsageDeliveries l) of
         None \<Rightarrow> Inl (Err ''late Goal usage delivery is not pending'')
       | Some d \<Rightarrow> if gd_PayloadDigest d \<noteq> digest then Inl ErrGoalDeliveryConflict
           else Inr (l\<lparr> lu_PendingUsageDeliveries := remove_first same (lu_PendingUsageDeliveries l),
                       lu_DeliveredDeliveries := lu_DeliveredDeliveries l @ [d] \<rparr>)))"

definition late_retired :: "string \<Rightarrow> string \<Rightarrow> int \<Rightarrow> string \<Rightarrow> string \<Rightarrow> time \<Rightarrow> LateGoalUsageLedger \<Rightarrow> LateGoalUsageLedger result" where
  "late_retired deliveryID digest status code message retiredAt l =
    (if status < 400 \<or> status > 599 \<or> \<not> validRequiredString code 256 \<or> \<not> validRequiredString message 4096 \<or> retiredAt = 0
     then Inl (Err ''late Goal usage retirement is invalid'')
     else (let same = (\<lambda>d. gd_DeliveryID d = deliveryID) in
       case find same (lu_PendingUsageDeliveries l) of
         None \<Rightarrow> Inl (Err ''late Goal usage delivery is not pending'')
       | Some d \<Rightarrow> if gd_PayloadDigest d \<noteq> digest then Inl ErrGoalDeliveryConflict
           else Inr (l\<lparr> lu_PendingUsageDeliveries := remove_first same (lu_PendingUsageDeliveries l),
                       lu_RetiredDeliveries := lu_RetiredDeliveries l @ [\<lparr> gr_Delivery = d, gr_StatusCode = status, gr_Code = code,
                         gr_Message = message, gr_RetiredAt = retiredAt \<rparr>] \<rparr>)))"

subsection \<open>Files\<close>

datatype store_file = JournalFile RunJournal | LedgerFile LateGoalUsageLedger

type_synonym StoreDir = "store_file Dir"

definition journalPath :: "RunKey \<Rightarrow> string" where
  "journalPath k = ''journal-'' @ sha_hex (k_RunID k @ [CHR 0x00] @ FormatInt (k_Generation k)) @ ''.json''"

definition lateGoalUsagePath :: "RunKey \<Rightarrow> string" where
  "lateGoalUsagePath k = ''usage-'' @ sha_hex (k_RunID k @ [CHR 0x00] @ FormatInt (k_Generation k)) @ ''.json''"

definition isJournalFile :: "string \<Rightarrow> bool" where
  "isJournalFile name = (HasPrefix name ''journal-'' \<and> HasSuffix name ''.json''
     \<and> (let digest = TrimSuffix (TrimPrefix name ''journal-'') ''.json'' in length digest = 64 \<and> hex_decodes digest))"

definition isLateGoalUsageFile :: "string \<Rightarrow> bool" where
  "isLateGoalUsageFile name = (let digest = TrimSuffix (TrimPrefix name ''usage-'') ''.json'' in
     HasPrefix name ''usage-'' \<and> HasSuffix name ''.json'' \<and> length digest = 64 \<and> hex_decodes digest)"

definition loadJournalLocked :: "admission_parser \<Rightarrow> RunKey \<Rightarrow> StoreDir \<Rightarrow> RunJournal result" where
  "loadJournalLocked adm k d = (case map_of (d_files d) (journalPath k) of
     None \<Rightarrow> Inl (NotFound ''run journal'')
   | Some (LedgerFile _) \<Rightarrow> Inl (Err ''decode run journal'')
   | Some (JournalFile j) \<Rightarrow>
       if validateJournal adm j \<noteq> None then Inl (Err ''invalid run journal'')
       else if journal_Key j \<noteq> k then Inl (Err ''run journal does not match requested key'') else Inr j)"

definition readJournalEntryLocked :: "admission_parser \<Rightarrow> StoreDir \<Rightarrow> string \<Rightarrow> RunJournal result" where
  "readJournalEntryLocked adm d name = (case map_of (d_files d) name of
     None \<Rightarrow> Inl (NotFound ''run journal'')
   | Some (LedgerFile _) \<Rightarrow> Inl (Err ''decode run journal'')
   | Some (JournalFile j) \<Rightarrow>
       if validateJournal adm j \<noteq> None then Inl (Err ''invalid run journal'')
       else if journalPath (journal_Key j) \<noteq> name then Inl (Err ''run journal file does not match its key'') else Inr j)"

definition run_order :: "RunKey \<Rightarrow> string \<times> int" where
  "run_order k = (k_RunID k, k_Generation k)"

definition listJournalsLocked :: "admission_parser \<Rightarrow> StoreDir \<Rightarrow> RunJournal list result" where
  "listJournalsLocked adm d = bind_r (load_all (readJournalEntryLocked adm d) (filter isJournalFile (sort (map fst (d_files d))))) (\<lambda>js.
     Inr (sort_key (\<lambda>j. run_order (journal_Key j)) js))"

definition saveJournalLocked :: "admission_parser \<Rightarrow> (RunJournal \<Rightarrow> int option) \<Rightarrow> RunJournal \<Rightarrow> (store_file, unit) io" where
  "saveJournalLocked adm size_of j = io_check (validateJournal adm j)
     (if (case size_of j of None \<Rightarrow> True | Some n \<Rightarrow> n > maxJournalFileBytes) then io_fail ErrProviderActionCapacity
      else writeAtomic (Err ''write run journal'') (journalPath (journal_Key j)) (JournalFile j))"

definition saveJournalWithCapacityGuardLocked :: "admission_parser \<Rightarrow> (RunJournal \<Rightarrow> int option) \<Rightarrow> RunJournal \<Rightarrow> (store_file, unit) io" where
  "saveJournalWithCapacityGuardLocked adm size_of j = io_check (validateJournalSaveCapacity size_of j) (saveJournalLocked adm size_of j)"

definition loadLateGoalUsagePathLocked :: "string \<Rightarrow> StoreDir \<Rightarrow> LateGoalUsageLedger result" where
  "loadLateGoalUsagePathLocked path d = (case map_of (d_files d) path of
     None \<Rightarrow> Inl (NotFound ''late Goal usage ledger'')
   | Some (JournalFile _) \<Rightarrow> Inl (Err ''decode late Goal usage ledger'')
   | Some (LedgerFile l) \<Rightarrow>
       if validateLateGoalUsageLedger l \<noteq> None \<or> path \<noteq> lateGoalUsagePath (ledger_key l) then Inl (Err ''invalid late Goal usage ledger'') else Inr l)"

definition loadLateGoalUsageLocked :: "RunKey \<Rightarrow> StoreDir \<Rightarrow> LateGoalUsageLedger result" where
  "loadLateGoalUsageLocked k = loadLateGoalUsagePathLocked (lateGoalUsagePath k)"

definition saveLateGoalUsageLocked :: "LateGoalUsageLedger \<Rightarrow> (store_file, unit) io" where
  "saveLateGoalUsageLocked l = io_check (validateLateGoalUsageLedger l)
     (writeAtomic (Err ''write late Goal usage ledger'') (lateGoalUsagePath (ledger_key l)) (LedgerFile l))"

subsection \<open>Operations on run journals\<close>

definition LoadJournal :: "admission_parser \<Rightarrow> RunKey \<Rightarrow> (store_file, RunJournal) io" where
  "LoadJournal adm k = io_check (validateKey k) (io_open (io_read (loadJournalLocked adm k)))"

definition ListJournals :: "admission_parser \<Rightarrow> (store_file, RunJournal list) io" where
  "ListJournals adm = io_open (io_read (listJournalsLocked adm))"

definition mutateJournal ::
  "admission_parser \<Rightarrow> (RunJournal \<Rightarrow> int option) \<Rightarrow> RunKey \<Rightarrow> (RunJournal \<Rightarrow> RunJournal result) \<Rightarrow> (store_file, RunJournal) io" where
  "mutateJournal adm size_of k f = io_check (validateKey k)
     (io_open (update_document (loadJournalLocked adm) (saveJournalWithCapacityGuardLocked adm size_of) k f))"

definition mutateJournalIfChanged ::
  "admission_parser \<Rightarrow> (RunJournal \<Rightarrow> int option) \<Rightarrow> RunKey \<Rightarrow> (RunJournal \<Rightarrow> (RunJournal \<times> bool) result) \<Rightarrow> (store_file, RunJournal) io" where
  "mutateJournalIfChanged adm size_of k f = io_check (validateKey k) (io_open (
     io_bind (io_read (loadJournalLocked adm k)) (\<lambda>j. io_bind (io_lift (f j)) (\<lambda>(j', changed).
       if changed then io_bind (saveJournalWithCapacityGuardLocked adm size_of j') (\<lambda>_. io_return j') else io_return j'))))"

definition SaveClaimIntent :: "admission_parser \<Rightarrow> (RunJournal \<Rightarrow> int option) \<Rightarrow> ClaimIntent \<Rightarrow> (store_file, RunJournal) io" where
  "SaveClaimIntent adm size_of intent = io_check (validateKey (cl_Key intent))
    (io_check (checks [(\<not> validRequiredString (cl_WorkspaceBindingKey intent) 4096, ''workspace binding key is invalid'')])
    (let journal = claimJournal intent in io_check (validateJournal adm journal) (io_open (\<lambda>d.
     case loadJournalLocked adm (cl_Key intent) d of
       Inr existing \<Rightarrow>
         if j_ClaimID existing \<noteq> cl_ClaimID intent \<or> j_RuntimeID existing \<noteq> cl_RuntimeID intent \<or> j_ClaimedRuntimeEpoch existing \<noteq> cl_RuntimeEpoch intent
         then io_fail (Err ''claim intent conflicts with existing journal'') d else io_return existing d
     | Inl (NotFound _) \<Rightarrow> io_bind (saveJournalWithCapacityGuardLocked adm size_of journal) (\<lambda>_. io_return journal) d
     | Inl e \<Rightarrow> io_fail e d))))"

definition import_over :: "RunJournal \<Rightarrow> RunJournal \<Rightarrow> gerror option" where
  "import_over current journal = checks [
     (j_LinuxCloneIntent current \<noteq> None \<and> j_RetainWorkspace current \<and> \<not> j_RetainWorkspace journal,
        ''Linux clone retention requires a dedicated evidence-checked clear''),
     (j_LinuxCloneIntent current \<noteq> None \<and> (j_LinuxCloneCleanupPending current \<or> j_LinuxCloneCleanupIntent current \<noteq> None)
        \<and> j_RetainWorkspace current \<noteq> j_RetainWorkspace journal, ''Linux clone retention cannot change after normal cleanup has begun''),
     (\<not> eq_ptr ReleaseProof_Equal (j_ContainmentCgroupReleaseProof current) (j_ContainmentCgroupReleaseProof journal),
        ''v2 cgroup release proof requires dedicated clear mutation''),
     (\<not> eq_ptr PreGateReleaseProof_Equal (j_ContainmentCgroupPreGateReleaseProof current) (j_ContainmentCgroupPreGateReleaseProof journal),
        ''v2 pre-gate release proof requires dedicated clear mutation''),
     (\<not> eq_ptr LinuxCloneIntent_Equal (j_LinuxCloneIntent current) (j_LinuxCloneIntent journal)
      \<or> \<not> eq_ptr SeedReceipt_Equal (j_LinuxCloneSeedReceipt current) (j_LinuxCloneSeedReceipt journal)
      \<or> \<not> eq_ptr CheckoutReceipt_Equal (j_LinuxCloneCheckoutReceipt current) (j_LinuxCloneCheckoutReceipt journal)
      \<or> \<not> eq_ptr PromotionIntent_Equal (j_LinuxClonePromotionIntent current) (j_LinuxClonePromotionIntent journal)
      \<or> \<not> eq_ptr PromotionReceipt_Equal (j_LinuxClonePromotionReceipt current) (j_LinuxClonePromotionReceipt journal)
      \<or> j_LinuxCloneAbortPending current \<noteq> j_LinuxCloneAbortPending journal
      \<or> \<not> eq_ptr LinuxCloneAbortProof_Equal (j_LinuxCloneAbortProof current) (j_LinuxCloneAbortProof journal)
      \<or> j_LinuxCloneCleanupPending current \<noteq> j_LinuxCloneCleanupPending journal
      \<or> \<not> eq_ptr CleanupIntent_Equal (j_LinuxCloneCleanupIntent current) (j_LinuxCloneCleanupIntent journal)
      \<or> \<not> eq_ptr TargetRemovalProof_Equal (j_LinuxCloneTargetRemovalProof current) (j_LinuxCloneTargetRemovalProof journal)
      \<or> \<not> eq_ptr CleanupProof_Equal (j_LinuxCloneCleanupProof current) (j_LinuxCloneCleanupProof journal),
        ''Linux clone authority requires dedicated mutation''),
     ((j_ContainmentCgroup current \<noteq> None \<or> j_ContainmentCgroup journal \<noteq> None \<or> j_LinuxCloneIntent current \<noteq> None \<or> j_LinuxCloneIntent journal \<noteq> None)
        \<and> (j_RuntimeKey current \<noteq> j_RuntimeKey journal \<or> j_RuntimeID current \<noteq> j_RuntimeID journal
           \<or> j_ClaimedRuntimeEpoch current \<noteq> j_ClaimedRuntimeEpoch journal \<or> j_ClaimID current \<noteq> j_ClaimID journal
           \<or> j_LeaseToken current \<noteq> j_LeaseToken journal \<or> j_LeaseExpiresAt current \<noteq> j_LeaseExpiresAt journal),
        ''run fence requires dedicated mutation while v2 authority is reserved''),
     (j_TerminalTaskResultKind current \<noteq> j_TerminalTaskResultKind journal, ''terminal task result kind is immutable''),
     (j_PID current \<noteq> j_PID journal \<or> j_ProcessIdentity current \<noteq> j_ProcessIdentity journal \<or> j_StartedAt current \<noteq> j_StartedAt journal,
        ''process details require dedicated mutation''),
     (j_ContainmentUnproven current \<noteq> j_ContainmentUnproven journal, ''containment uncertainty requires dedicated mutation''),
     (\<not> eq_ptr Supervisor_Equal (j_ContainmentAuthority current) (j_ContainmentAuthority journal), ''containment authority requires dedicated mutation''),
     (\<not> eq_ptr SupervisorHandoff_Equal (j_ContainmentHandoff current) (j_ContainmentHandoff journal), ''containment handoff requires dedicated mutation''),
     (\<not> eq_ptr Reservation_Equal (j_ContainmentCgroup current) (j_ContainmentCgroup journal), ''v2 cgroup reservation requires dedicated mutation''),
     (j_ContainmentScans current \<noteq> j_ContainmentScans journal, ''containment scan progress requires dedicated mutation''),
     ((j_LocalState current = ''cleanup_pending'') \<noteq> (j_LocalState journal = ''cleanup_pending''), ''cleanup state requires dedicated transition'')]"

definition import_new :: "RunJournal \<Rightarrow> gerror option" where
  "import_new journal = checks [
     (j_ContainmentAuthority journal \<noteq> None, ''containment authority requires dedicated mutation''),
     (j_ContainmentHandoff journal \<noteq> None, ''containment handoff requires dedicated mutation''),
     (j_ContainmentScans journal \<noteq> None, ''containment scan progress requires dedicated mutation''),
     (j_ContainmentCgroup journal \<noteq> None, ''v2 cgroup reservation requires dedicated mutation''),
     (j_ContainmentCgroupReleaseProof journal \<noteq> None, ''v2 cgroup release proof requires dedicated clear mutation''),
     (j_ContainmentCgroupPreGateReleaseProof journal \<noteq> None, ''v2 pre-gate release proof requires dedicated clear mutation''),
     (j_LinuxCloneIntent journal \<noteq> None \<or> j_LinuxCloneSeedReceipt journal \<noteq> None \<or> j_LinuxCloneCheckoutReceipt journal \<noteq> None
      \<or> j_LinuxClonePromotionIntent journal \<noteq> None \<or> j_LinuxClonePromotionReceipt journal \<noteq> None \<or> j_LinuxCloneAbortPending journal
      \<or> j_LinuxCloneAbortProof journal \<noteq> None \<or> j_LinuxCloneCleanupPending journal \<or> j_LinuxCloneCleanupIntent journal \<noteq> None
      \<or> j_LinuxCloneTargetRemovalProof journal \<noteq> None \<or> j_LinuxCloneCleanupProof journal \<noteq> None,
        ''Linux clone authority requires dedicated mutation'')]"

definition SaveJournal :: "admission_parser \<Rightarrow> (RunJournal \<Rightarrow> int option) \<Rightarrow> RunJournal \<Rightarrow> (store_file, unit) io" where
  "SaveJournal adm size_of journal = io_check (validateJournal adm journal) (io_open (\<lambda>d.
     case loadJournalLocked adm (journal_Key journal) d of
       Inr current \<Rightarrow> io_check (import_over current journal) (saveJournalLocked adm size_of journal) d
     | Inl (NotFound _) \<Rightarrow> io_check (import_new journal) (saveJournalLocked adm size_of journal) d
     | Inl e \<Rightarrow> io_fail e d))"

definition usage_history :: "RunJournal \<Rightarrow> time \<Rightarrow> LateGoalUsageLedger" where
  "usage_history journal now = \<lparr> lu_SchemaVersion = 1, lu_RunID = j_RunID journal, lu_Generation = j_Generation journal,
     lu_Fence = journal_Fence journal, lu_PendingUsageDeliveries = [],
     lu_DeliveredDeliveries = filter (\<lambda>d. gd_Kind d = GoalDeliveryUsage) (j_DeliveredGoalDeliveries journal),
     lu_RetiredDeliveries = filter (\<lambda>r. gd_Kind (gr_Delivery r) = GoalDeliveryUsage) (j_RetiredGoalDeliveries journal),
     lu_CreatedAt = now, lu_UpdatedAt = now \<rparr>"

definition merge_history :: "LateGoalUsageLedger \<Rightarrow> time \<Rightarrow> LateGoalUsageLedger \<Rightarrow> LateGoalUsageLedger" where
  "merge_history history now existing =
    (let e1 = (if lu_RetiredDeliveries existing = [] \<and> lu_RetiredDeliveries history \<noteq> []
           then existing\<lparr> lu_RetiredDeliveries := lu_RetiredDeliveries history, lu_UpdatedAt := now \<rparr> else existing) in
     if lu_DeliveredDeliveries e1 = [] \<and> lu_DeliveredDeliveries history \<noteq> []
     then e1\<lparr> lu_DeliveredDeliveries := lu_DeliveredDeliveries history, lu_UpdatedAt := now \<rparr> else e1)"

definition archiveLateGoalUsageLocked :: "time \<Rightarrow> RunJournal \<Rightarrow> (store_file, unit) io" where
  "archiveLateGoalUsageLocked now journal = (\<lambda>d. let history = usage_history journal now in
     case loadLateGoalUsageLocked (journal_Key journal) d of
       Inr existing \<Rightarrow>
         if lu_Fence existing \<noteq> lu_Fence history then io_fail ErrGoalDeliveryConflict d
         else (let merged = merge_history history now existing in
           if lu_RetiredDeliveries merged \<noteq> [] \<or> lu_DeliveredDeliveries merged \<noteq> [] then saveLateGoalUsageLocked merged d else io_return () d)
     | Inl (NotFound _) \<Rightarrow> saveLateGoalUsageLocked history d
     | Inl e \<Rightarrow> io_fail e d)"

definition delete_guards :: "Env \<Rightarrow> RunKey \<Rightarrow> RunJournal \<Rightarrow> gerror option" where
  "delete_guards env k j = checks [
     (HasProcessDetails j, ''process stop evidence remains pending''),
     (HasPendingContainment j, ''containment state remains pending''),
     (j_LinuxCloneIntent j \<noteq> None \<and> \<not> LinuxCloneCleanupEligible env j k (journal_Fence j), ''Linux clone journal is not eligible for workspace deletion''),
     (j_PendingCommandAcknowledgements j \<noteq> [], ''command acknowledgement remains pending''),
     (HasPendingGoalDeliveries j, ''run journal has pending Goal delivery''),
     (j_NativeUsageRecoveryRequired j, ''native usage recovery remains pending''),
     (hasUnresolvedProviderActions j, ''provider action outcome remains pending'')]"

definition DeleteJournal :: "Env \<Rightarrow> RunKey \<Rightarrow> (store_file, unit) io" where
  "DeleteJournal env k = io_check (validateKey k) (io_open (
     io_bind (io_read (loadJournalLocked (env_ParseAdmissionInput env) k)) (\<lambda>j.
       io_check (delete_guards env k j)
         (io_bind (if j_GoalDeliveryEnabled j then archiveLateGoalUsageLocked (env_now env) j else io_return ()) (\<lambda>_.
            remove_file (Err ''delete run journal'') (journalPath k))))))"

subsection \<open>Operations on late usage ledgers\<close>

definition LoadLateGoalUsage :: "RunKey \<Rightarrow> (store_file, LateGoalUsageLedger) io" where
  "LoadLateGoalUsage k = io_check (validateKey k) (io_open (io_read (loadLateGoalUsageLocked k)))"

definition ListLateGoalUsage :: "(store_file, LateGoalUsageLedger list) io" where
  "ListLateGoalUsage = io_open (io_read (\<lambda>d.
     bind_r (load_all (\<lambda>n. loadLateGoalUsagePathLocked n d) (filter isLateGoalUsageFile (sort (map fst (d_files d))))) (\<lambda>ls.
       Inr (sort_key (\<lambda>l. run_order (ledger_key l)) ls))))"

definition mutateLateGoalUsage :: "time \<Rightarrow> RunKey \<Rightarrow> (LateGoalUsageLedger \<Rightarrow> LateGoalUsageLedger result) \<Rightarrow> (store_file, LateGoalUsageLedger) io" where
  "mutateLateGoalUsage now k f = io_check (validateKey k) (io_open
     (update_document loadLateGoalUsageLocked saveLateGoalUsageLocked k (\<lambda>l. bind_r (f l) (\<lambda>l'. Inr (l'\<lparr> lu_UpdatedAt := now \<rparr>)))))"

definition MarkLateGoalUsageDelivered :: "time \<Rightarrow> RunKey \<Rightarrow> string \<Rightarrow> string \<Rightarrow> (store_file, LateGoalUsageLedger) io" where
  "MarkLateGoalUsageDelivered now k deliveryID digest = mutateLateGoalUsage now k (late_delivered deliveryID digest)"

definition RetireLateGoalUsage ::
  "time \<Rightarrow> RunKey \<Rightarrow> string \<Rightarrow> string \<Rightarrow> int \<Rightarrow> string \<Rightarrow> string \<Rightarrow> time \<Rightarrow> (store_file, LateGoalUsageLedger) io" where
  "RetireLateGoalUsage now k deliveryID digest status code message retiredAt =
     mutateLateGoalUsage now k (late_retired deliveryID digest status code message retiredAt)"

definition QueueLateGoalUsage :: "time \<Rightarrow> RunKey \<Rightarrow> Usage \<Rightarrow> (store_file, LateGoalUsageLedger) io" where
  "QueueLateGoalUsage now k u = io_check (validateKey k) (io_open (
     io_bind (io_read (loadLateGoalUsageLocked k)) (\<lambda>l. io_bind (io_lift (queue_late now u l)) (\<lambda>(l', changed).
       if changed then io_bind (saveLateGoalUsageLocked l') (\<lambda>_. io_return l') else io_return l'))))"

subsection \<open>Deliveries queued while the run may already be deleted\<close>

definition queueGoalDelivery :: "admission_parser \<Rightarrow> (RunJournal \<Rightarrow> int option) \<Rightarrow> RunKey \<Rightarrow> GoalDelivery \<Rightarrow> (store_file, RunJournal) io" where
  "queueGoalDelivery adm size_of k delivery = io_check (validateKey k) (mutateJournal adm size_of k (queueGoalDeliveryOnJournal delivery))"

text \<open>\<^verbatim>\<open>QueueGoalSessionAttach\<close> and \<^verbatim>\<open>QueueGoalEvidence\<close> share the ledger test before and, when there is no journal, after the queueing.\<close>

definition unless_late :: "RunKey \<Rightarrow> (store_file, 'a) io \<Rightarrow> (store_file, 'a) io" where
  "unless_late k m = (\<lambda>d. case LoadLateGoalUsage k d of
     (Inr _, d1) \<Rightarrow> (Inl ErrGoalDeliveryConflict, d1)
   | (Inl (NotFound _), d1) \<Rightarrow> m d1
   | (Inl e, d1) \<Rightarrow> (Inl e, d1))"

definition queue_unless_late :: "admission_parser \<Rightarrow> (RunJournal \<Rightarrow> int option) \<Rightarrow> RunKey \<Rightarrow> GoalDelivery \<Rightarrow> (store_file, RunJournal) io" where
  "queue_unless_late adm size_of k delivery = unless_late k (\<lambda>d. case queueGoalDelivery adm size_of k delivery d of
     (Inl (NotFound r), d1) \<Rightarrow> unless_late k (io_fail (NotFound r)) d1
   | res \<Rightarrow> res)"

definition QueueGoalSessionAttach ::
  "admission_parser \<Rightarrow> (RunJournal \<Rightarrow> int option) \<Rightarrow> RunKey \<Rightarrow> GoalSessionAttachDelivery \<Rightarrow> (store_file, RunJournal) io" where
  "QueueGoalSessionAttach adm size_of k payload = io_check (checks [
     ((ga_BindingID payload = [] \<and> \<not> ga_ServerIssuedBinding payload) \<or> (ga_BindingID payload \<noteq> [] \<and> ga_ServerIssuedBinding payload),
        ''Goal session attach binding authority is invalid''),
     (ga_BindingID payload \<noteq> [] \<and> \<not> validGoalSessionUUID (ga_BindingID payload), ''Goal session attach binding ID is invalid'')])
     (queue_unless_late adm size_of k (attach_delivery payload))"

definition QueueGoalEvidence :: "admission_parser \<Rightarrow> (RunJournal \<Rightarrow> int option) \<Rightarrow> RunKey \<Rightarrow> Evidence \<Rightarrow> (store_file, RunJournal) io" where
  "QueueGoalEvidence adm size_of k e = queue_unless_late adm size_of k (evidence_delivery zero_fence e)"

text \<open>A usage taken by the ledger is answered with a journal that carries only the key.\<close>

datatype queued_usage = OnJournal RunJournal | OnLedger RunKey

definition QueueGoalUsage :: "Env \<Rightarrow> (RunJournal \<Rightarrow> int option) \<Rightarrow> RunKey \<Rightarrow> Usage \<Rightarrow> (store_file, queued_usage) io" where
  "QueueGoalUsage env size_of k u =
    (let late = io_bind (QueueLateGoalUsage (env_now env) k u) (\<lambda>_. io_return (OnLedger k)) in (\<lambda>d.
     case LoadLateGoalUsage k d of
       (Inr _, d1) \<Rightarrow> late d1
     | (Inl (NotFound _), d1) \<Rightarrow>
        (case queueGoalDelivery (env_ParseAdmissionInput env) size_of k (usage_delivery zero_fence u) d1 of
           (Inl (NotFound r), d2) \<Rightarrow> late d2
         | (Inl e, d2) \<Rightarrow> (Inl e, d2)
         | (Inr j, d2) \<Rightarrow> (Inr (OnJournal j), d2))
     | (Inl e, d1) \<Rightarrow> (Inl e, d1)))"

definition MarkGoalSessionAttachDeliveryReady ::
  "admission_parser \<Rightarrow> (RunJournal \<Rightarrow> int option) \<Rightarrow> SessionDir \<Rightarrow> RunKey \<Rightarrow> string \<Rightarrow> (store_file, RunJournal) io" where
  "MarkGoalSessionAttachDeliveryReady adm size_of sd k localHandleID =
     io_check (checks [(\<not> validRequiredString localHandleID 4096, ''Goal session attach delivery ID is invalid'')])
       (mutateJournal adm size_of k (attach_ready sd localHandleID))"

subsection \<open>Run journals and ledgers as documents\<close>

interpretation run_docs: exact_file_documents journalPath "loadJournalLocked adm" "saveJournalWithCapacityGuardLocked adm size_of" journal_Key
  JournalFile "\<lambda>j. validateJournal adm j = None" "\<lambda>k j. journal_Key j = k" "Err ''write run journal''"
  for adm size_of
  by unfold_locales (auto simp: loadJournalLocked_def saveJournalWithCapacityGuardLocked_def saveJournalLocked_def io_check_def io_fail_def
    split: option.splits store_file.splits if_splits)

interpretation import_docs: exact_file_documents journalPath "loadJournalLocked adm" "saveJournalLocked adm size_of" journal_Key
  JournalFile "\<lambda>j. validateJournal adm j = None" "\<lambda>k j. journal_Key j = k" "Err ''write run journal''"
  for adm size_of
  by unfold_locales (auto simp: loadJournalLocked_def saveJournalLocked_def io_check_def io_fail_def
    split: option.splits store_file.splits if_splits)

interpretation ledger_docs: file_documents lateGoalUsagePath loadLateGoalUsageLocked saveLateGoalUsageLocked ledger_key
  LedgerFile "\<lambda>l. validateLateGoalUsageLedger l = None" "\<lambda>k l. lateGoalUsagePath (ledger_key l) = lateGoalUsagePath k"
  "Err ''write late Goal usage ledger''"
  by unfold_locales (auto simp: loadLateGoalUsageLocked_def loadLateGoalUsagePathLocked_def saveLateGoalUsageLocked_def io_check_def io_fail_def
    split: option.splits store_file.splits if_splits)

end
