(* ===== verification/Journal_Order.thy ===== *)
theory Journal_Order
  imports Ensures Journal_Valid
begin

text \<open>
  The order in which a run journal may evolve.  \<open>keeps j j'\<close> collects what no mutation may take back: the identity
  of the run, evidence that is written once, histories that only grow, terminal facts and resolved provider
  actions.  It is a preorder, so it extends from single operations to sequences of them.
\<close>

named_theorems keeps_defs "parts of the evolution order"

definition once :: "'a \<Rightarrow> 'a \<Rightarrow> 'a \<Rightarrow> bool" where
  "once zero a b = (a = zero \<or> b = a)"

definition same_run :: "RunJournal \<Rightarrow> RunJournal \<Rightarrow> bool" where [keeps_defs]:
  "same_run j j' = (j_RunID j' = j_RunID j \<and> j_Generation j' = j_Generation j \<and> j_RuntimeKey j' = j_RuntimeKey j
     \<and> j_RuntimeID j' = j_RuntimeID j \<and> j_ClaimedRuntimeEpoch j' = j_ClaimedRuntimeEpoch j \<and> j_ClaimID j' = j_ClaimID j)"

definition clone_kept :: "RunJournal \<Rightarrow> RunJournal \<Rightarrow> bool" where [keeps_defs]:
  "clone_kept j j' = (once None (j_LinuxCloneIntent j) (j_LinuxCloneIntent j')
     \<and> once None (j_LinuxCloneSeedReceipt j) (j_LinuxCloneSeedReceipt j')
     \<and> once None (j_LinuxCloneCheckoutReceipt j) (j_LinuxCloneCheckoutReceipt j')
     \<and> once None (j_LinuxClonePromotionIntent j) (j_LinuxClonePromotionIntent j')
     \<and> once None (j_LinuxClonePromotionReceipt j) (j_LinuxClonePromotionReceipt j')
     \<and> once None (j_LinuxCloneAbortProof j) (j_LinuxCloneAbortProof j')
     \<and> once None (j_LinuxCloneCleanupIntent j) (j_LinuxCloneCleanupIntent j')
     \<and> once None (j_LinuxCloneTargetRemovalProof j) (j_LinuxCloneTargetRemovalProof j')
     \<and> once None (j_LinuxCloneCleanupProof j) (j_LinuxCloneCleanupProof j'))"

definition release_kept :: "RunJournal \<Rightarrow> RunJournal \<Rightarrow> bool" where [keeps_defs]:
  "release_kept j j' = (once None (j_ContainmentCgroupReleaseProof j) (j_ContainmentCgroupReleaseProof j')
     \<and> once None (j_ContainmentCgroupPreGateReleaseProof j) (j_ContainmentCgroupPreGateReleaseProof j'))"

definition history_kept :: "RunJournal \<Rightarrow> RunJournal \<Rightarrow> bool" where [keeps_defs]:
  "history_kept j j' = (prefix (j_DeliveredGoalDeliveries j) (j_DeliveredGoalDeliveries j')
     \<and> prefix (j_RetiredGoalDeliveries j) (j_RetiredGoalDeliveries j') \<and> (j_GoalDeliveryEnabled j \<longrightarrow> j_GoalDeliveryEnabled j'))"

definition terminal_kept :: "RunJournal \<Rightarrow> RunJournal \<Rightarrow> bool" where [keeps_defs]:
  "terminal_kept j j' = (once [] (j_TerminalState j) (j_TerminalState j') \<and> once [] (j_TerminalVerdict j) (j_TerminalVerdict j')
     \<and> once 0 (j_TerminalPendingAt j) (j_TerminalPendingAt j') \<and> once 0 (j_TerminalResolvedAt j) (j_TerminalResolvedAt j')
     \<and> once [] (j_TerminalIntentDigest j) (j_TerminalIntentDigest j')
     \<and> once [] (j_TerminalCommandDigest j) (j_TerminalCommandDigest j')
     \<and> once [] (j_TerminalSettlementDigest j) (j_TerminalSettlementDigest j'))"

text \<open>A delivery that is ready stays pending until it is delivered or retired.\<close>

definition in_ledger :: "GoalDelivery \<Rightarrow> GoalDelivery list \<Rightarrow> GoalDelivery list \<Rightarrow> GoalDeliveryRetirement list \<Rightarrow> bool" where
  "in_ledger d pending delivered retired = (d \<in> set pending \<or> d \<in> set delivered \<or> d \<in> gr_Delivery ` set retired)"

definition ready_kept :: "RunJournal \<Rightarrow> RunJournal \<Rightarrow> bool" where [keeps_defs]:
  "ready_kept j j' = (\<forall>d \<in> set (j_PendingGoalDeliveries j). gd_Ready d \<longrightarrow>
     in_ledger d (j_PendingGoalDeliveries j') (j_DeliveredGoalDeliveries j') (j_RetiredGoalDeliveries j'))"

definition usage_covered :: "NativeUsageObservation option \<Rightarrow> NativeUsageObservation option \<Rightarrow> bool" where
  "usage_covered u v = (case (u, v) of (None, _) \<Rightarrow> True | (Some a, Some b) \<Rightarrow> Covers b a | (Some a, None) \<Rightarrow> False)"

definition usage_kept :: "RunJournal \<Rightarrow> RunJournal \<Rightarrow> bool" where [keeps_defs]:
  "usage_kept j j' = usage_covered (j_NativeUsageObservation j) (j_NativeUsageObservation j')"

text \<open>A resolved provider action stays as it is, an unresolved one keeps its identity and place.\<close>

definition intent_kept :: "ProviderActionIntent \<Rightarrow> ProviderActionIntent \<Rightarrow> bool" where
  "intent_kept a b = (sameProviderActionIdentity a b \<and> (pa_Outcome a = [] \<or> b = a))"

definition provider_kept :: "RunJournal \<Rightarrow> RunJournal \<Rightarrow> bool" where [keeps_defs]:
  "provider_kept j j' = (length (j_ProviderActionIntents j) \<le> length (j_ProviderActionIntents j')
     \<and> list_all2 intent_kept (j_ProviderActionIntents j) (take (length (j_ProviderActionIntents j)) (j_ProviderActionIntents j')))"

definition keeps :: "RunJournal \<Rightarrow> RunJournal \<Rightarrow> bool" where
  "keeps j j' = (same_run j j' \<and> clone_kept j j' \<and> release_kept j j' \<and> history_kept j j' \<and> ready_kept j j' \<and> usage_kept j j'
     \<and> terminal_kept j j' \<and> provider_kept j j')"

subsection \<open>It is a preorder\<close>

lemma once_refl [simp]: "once z a a"
  by (simp add: once_def)

lemma once_zero [simp]: "once z z a"
  by (simp add: once_def)

lemma once_trans: "once z a b \<Longrightarrow> once z b c \<Longrightarrow> once z a c"
  by (auto simp: once_def)

lemma intent_kept_refl [simp]: "intent_kept a a"
  by (simp add: intent_kept_def sameProviderActionIdentity_def)

lemma intent_kept_trans: "intent_kept a b \<Longrightarrow> intent_kept b c \<Longrightarrow> intent_kept a c"
  by (auto simp: intent_kept_def sameProviderActionIdentity_def)

lemma intents_kept_refl [simp]: "list_all2 intent_kept xs xs"
  by (simp add: list_all2_same)

lemma intents_kept_map: "(\<And>x. intent_kept x (f x)) \<Longrightarrow> list_all2 intent_kept xs (map f xs)"
  by (simp add: list.rel_map list_all2_same)

lemma provider_kept_refl [simp]: "provider_kept j j"
  by (simp add: provider_kept_def)

lemma provider_kept_nth: "provider_kept j j' \<longleftrightarrow> length (j_ProviderActionIntents j) \<le> length (j_ProviderActionIntents j')
    \<and> (\<forall>i < length (j_ProviderActionIntents j). intent_kept (j_ProviderActionIntents j ! i) (j_ProviderActionIntents j' ! i))"
  by (auto simp: provider_kept_def list_all2_conv_all_nth min_def)

lemma provider_kept_trans: "provider_kept j k \<Longrightarrow> provider_kept k l \<Longrightarrow> provider_kept j l"
  unfolding provider_kept_nth by (meson intent_kept_trans le_trans less_le_trans)

lemma in_ledger_pending [simp]: "d \<in> set p \<Longrightarrow> in_ledger d p dl r"
  by (simp add: in_ledger_def)

lemma ready_kept_trans: "ready_kept j k \<Longrightarrow> history_kept k l \<Longrightarrow> ready_kept k l \<Longrightarrow> ready_kept j l"
  unfolding ready_kept_def history_kept_def in_ledger_def by (blast dest: set_mono_prefix)

lemma Covers_refl [simp]: "Covers a a"
  by (simp add: Covers_def)

lemma Covers_trans: "Covers c b \<Longrightarrow> Covers b a \<Longrightarrow> Covers c a"
  by (auto simp: Covers_def)

lemma usage_kept_trans: "usage_kept j k \<Longrightarrow> usage_kept k l \<Longrightarrow> usage_kept j l"
  by (auto simp: usage_kept_def usage_covered_def intro: Covers_trans split: option.splits)

lemma observed_same [simp]: "usage_covered v v"
  by (cases v) (auto simp: usage_covered_def)

lemma keeps_refl [simp]: "keeps j j"
  by (simp add: keeps_def keeps_defs)

lemma keeps_trans: "keeps j k \<Longrightarrow> keeps k l \<Longrightarrow> keeps j l"
  by (auto simp: keeps_def same_run_def clone_kept_def release_kept_def history_kept_def terminal_kept_def
      intro: once_trans provider_kept_trans prefix_order.trans usage_kept_trans
        ready_kept_trans [unfolded history_kept_def])

lemma keeps_rtranclp: "R\<^sup>*\<^sup>* j k \<Longrightarrow> (\<And>a b. R a b \<Longrightarrow> keeps a b) \<Longrightarrow> keeps j k"
  by (induction rule: rtranclp_induct) (auto intro: keeps_trans)

lemmas keeps_bind = ensures_bind_trans [where R = keeps, OF _ _ keeps_trans]

text \<open>Updates of fields the order does not mention.\<close>

lemma keeps_frame [simp]:
  "keeps j (j\<lparr> j_LocalState := a \<rparr>) "
  "keeps j (j\<lparr> j_PendingEvents := b \<rparr>)"
  "keeps j (j\<lparr> j_PendingTransitions := c \<rparr>)"
  by (simp_all add: keeps_def keeps_defs)

end
