(* ===== verification/Gate_Mac.thy ===== *)
theory Gate_Mac
  imports Authority Sha256
begin

unbundle bit_operations_syntax

text \<open>
  The authenticator of a launcher result that says no gate was produced
  (\<^verbatim>\<open>native/linux-gate/protocol/gate_production_linux.go\<close>): canonical hexadecimal, the length-prefixed
  payload and its HMAC-SHA256 under the per-run secret.  \<^verbatim>\<open>hmac.Equal\<close> is equality of byte strings; the
  clearing of key material has no effect on results.
\<close>

subsection \<open>Hexadecimal and HMAC of the standard library\<close>

definition unhex :: "char \<Rightarrow> nat option" where
  "unhex c = (let n = of_char c :: nat in
     if 48 \<le> n \<and> n \<le> 57 then Some (n - 48)
     else if 97 \<le> n \<and> n \<le> 102 then Some (n - 87)
     else if 65 \<le> n \<and> n \<le> 70 then Some (n - 55) else None)"

fun DecodeString :: "string \<Rightarrow> bytes option" where
  "DecodeString [] = Some []"
| "DecodeString [a] = None"
| "DecodeString (a # b # s) = (case (unhex a, unhex b, DecodeString s) of
     (Some h, Some l, Some r) \<Rightarrow> Some (char_of (16 * h + l) # r) | _ \<Rightarrow> None)"

definition xor_byte :: "nat \<Rightarrow> char \<Rightarrow> char" where
  "xor_byte m c = char_of (of_char c XOR m :: nat)"

definition hmac_sha256 :: "bytes \<Rightarrow> bytes \<Rightarrow> bytes" where
  "hmac_sha256 key msg = (let k0 = (if length key > 64 then Sum256 key else key);
       k = k0 @ replicate (64 - length k0) (char_of (0 :: nat)) in
     Sum256 (map (xor_byte 92) k @ Sum256 (map (xor_byte 54) k @ msg)))"

definition le_bytes4 :: "int \<Rightarrow> bytes" where
  "le_bytes4 n = map (\<lambda>i. char_of (nat (n div 256 ^ i mod 256))) [0, 1, 2, 3]"

subsection \<open>The authenticator\<close>

definition gateProductionDomain :: string where
  "gateProductionDomain = ''symmetry-linux-gate-production-v1'' @ [char_of (0 :: nat)]"

definition decodeCanonicalHex :: "string \<Rightarrow> nat \<Rightarrow> bytes result" where
  "decodeCanonicalHex value expectedBytes = (case DecodeString value of
     Some d \<Rightarrow> if length d \<noteq> expectedBytes \<or> EncodeToString d \<noteq> value
       then Inl (Err ''value is not canonical lowercase hexadecimal of the expected length'') else Inr d
   | None \<Rightarrow> Inl (Err ''value is not canonical lowercase hexadecimal of the expected length''))"

definition canonicalLowerHex :: "string \<Rightarrow> nat \<Rightarrow> bool" where
  "canonicalLowerHex value expectedBytes = (\<not> isl (decodeCanonicalHex value expectedBytes))"

definition appendLengthPrefixed :: "bytes \<Rightarrow> bytes \<Rightarrow> bytes" where
  "appendLengthPrefixed destination value = destination @ le_bytes4 (int (length value)) @ value"

definition gate_payload :: "string \<Rightarrow> LinuxCgroupProcessIdentity \<Rightarrow> bytes" where
  "gate_payload launchToken launcher =
     appendLengthPrefixed (appendLengthPrefixed (appendLengthPrefixed gateProductionDomain launchToken
       @ le_bytes4 (pi_PID launcher)) (pi_Identity launcher)) LinuxCgroupGateOutcomeNeverCreated"

definition SignGateNeverProducedAuthenticatorKey :: "bytes \<Rightarrow> string \<Rightarrow> LinuxCgroupProcessIdentity \<Rightarrow> bytes result" where
  "SignGateNeverProducedAuthenticatorKey secretKey launchToken launcher =
    (if length secretKey \<noteq> SecretBytes \<or> \<not> canonicalLowerHex launchToken TokenBytes \<or> LinuxCgroupProcessIdentity_Validate launcher \<noteq> None
     then Inl (Err ''gate-never-created MAC inputs are invalid'')
     else Inr (hmac_sha256 secretKey (gate_payload launchToken launcher)))"

definition SignGateNeverProducedAuthenticator :: "string \<Rightarrow> string \<Rightarrow> LinuxCgroupProcessIdentity \<Rightarrow> string result" where
  "SignGateNeverProducedAuthenticator secretHex launchToken launcher = (case decodeCanonicalHex secretHex SecretBytes of
     Inl _ \<Rightarrow> Inl (Err ''decode per-run launcher secret: %w'')
   | Inr key \<Rightarrow> bind_r (SignGateNeverProducedAuthenticatorKey key launchToken launcher) (\<lambda>mac. Inr (EncodeToString mac)))"

definition VerifyGateNeverProducedAuthenticator :: "string \<Rightarrow> LinuxCgroupGateProductionResult \<Rightarrow> gerror option" where
  "VerifyGateNeverProducedAuthenticator secretHex r =
    (if GateProductionResult_ValidateFor r (gr_LaunchToken r) (gr_Launcher r) \<noteq> None
     then Some (Err ''gate-never-created result shape is invalid'')
     else (case SignGateNeverProducedAuthenticator secretHex (gr_LaunchToken r) (gr_Launcher r) of
       Inl e \<Rightarrow> Some e
     | Inr want \<Rightarrow> (case decodeCanonicalHex (gr_Authenticator r) 32 of
         Inl _ \<Rightarrow> Some (Err ''decode gate-never-created authenticator: %w'')
       | Inr got \<Rightarrow> checks [
           (Some got \<noteq> DecodeString want, ''gate-never-created authenticator does not match per-run secret'')])))"

subsection \<open>Canonical hexadecimal is a bijection\<close>

lemma unhex_hex_digit: "n < 16 \<Longrightarrow> unhex (hex_digit n) = Some n"
  by (cases "n < 10") (simp_all add: unhex_def hex_digit_def)

lemma DecodeString_EncodeToString [simp]: "DecodeString (EncodeToString bs) = Some bs"
proof (induction bs)
  case Nil
  then show ?case by (simp add: EncodeToString_def)
next
  case (Cons c bs)
  have "DecodeString (hex_digit (of_char c div 16) # hex_digit (of_char c mod 16) # EncodeToString bs) = Some (c # bs)"
    using Cons by (simp add: unhex_hex_digit of_char_nibbles)
  then show ?case by (simp add: EncodeToString_def Let_def)
qed

lemma decodeCanonicalHex_Inr: "decodeCanonicalHex v n = Inr d \<longleftrightarrow> v = EncodeToString d \<and> length d = n"
  by (auto simp: decodeCanonicalHex_def split: option.splits if_splits)

lemma length_hmac [simp]: "length (hmac_sha256 k m) = 32"
  by (simp add: hmac_sha256_def Let_def)

lemma length_le_bytes4 [simp]: "length (le_bytes4 n) = 4"
  by (simp add: le_bytes4_def)

lemma mod_base256: "a mod 2 ^ 32 = a mod 256 + 256 * (a div 256 mod 256 + 256 * (a div 256 ^ 2 mod 256 + 256 * (a div 256 ^ 3 mod 256)))"
  for a :: int
proof -
  have step: "a mod (256 * c) = a mod 256 + 256 * (a div 256 mod c)" if "0 \<le> c" for a c :: int
    using zmod_zmult2_eq [OF that, of a 256] by simp
  have "a mod 2 ^ 32 = a mod (256 * (256 * (256 * 256)))" by simp
  also have "\<dots> = a mod 256 + 256 * (a div 256 mod 256 + 256 * (a div 256 div 256 mod 256 + 256 * (a div 256 div 256 div 256 mod 256)))"
    by (simp only: step zero_le_numeral mult_nonneg_nonneg)
  moreover have "a div 256 div 256 = a div 256 ^ 2" using zdiv_zmult2_eq [of 256 a 256] by (simp add: power2_eq_square)
  moreover have "a div 256 div 256 div 256 = a div 256 ^ 3"
    using zdiv_zmult2_eq [of 256 a "256 * 256"] zdiv_zmult2_eq [of 256 a 256] zdiv_zmult2_eq [of 256 a "256 * 256"] by (simp add: power3_eq_cube)
  ultimately show ?thesis by (simp only:)
qed

lemma char_of_nat_inj:
  assumes "(char_of (nat (a mod 256)) :: char) = char_of (nat (b mod 256))"
  shows "a mod 256 = b mod (256 :: int)"
proof -
  have small: "nat (x mod 256) mod 256 = nat (x mod 256)" for x :: int by (rule mod_less) (simp add: nat_less_iff)
  have "nat (a mod 256) mod 256 = nat (b mod 256) mod 256"
    using arg_cong [OF assms, of "of_char :: char \<Rightarrow> nat"] by (simp only: of_char_of)
  then show ?thesis unfolding small by (simp add: eq_nat_nat_iff)
qed

lemma le_bytes4_inj:
  assumes "le_bytes4 a = le_bytes4 b"
  shows "a mod 2 ^ 32 = b mod 2 ^ 32"
proof -
  have "a mod 256 = b mod 256" "a div 256 mod 256 = b div 256 mod 256"
    "a div 256 ^ 2 mod 256 = b div 256 ^ 2 mod 256" "a div 256 ^ 3 mod 256 = b div 256 ^ 3 mod 256"
    by (rule char_of_nat_inj, use assms in \<open>simp add: le_bytes4_def del: char_of_eq_iff\<close>)+
  then show ?thesis unfolding mod_base256 by (simp only:)
qed

subsection \<open>The payload determines what is signed\<close>

lemma appendLengthPrefixed_inj:
  assumes "le_bytes4 (int (length v)) @ v @ r = le_bytes4 (int (length w)) @ w @ s"
    and "length v < 2 ^ 32" "length w < 2 ^ 32"
  shows "v = w \<and> r = s"
proof -
  have "le_bytes4 (int (length v)) = le_bytes4 (int (length w))" and rest: "v @ r = w @ s"
    using assms(1) by (simp_all add: append_eq_append_conv)
  then have "int (length v) mod 2 ^ 32 = int (length w) mod 2 ^ 32" by (intro le_bytes4_inj)
  moreover have "int (length v) mod 2 ^ 32 = int (length v)" "int (length w) mod 2 ^ 32 = int (length w)"
    using assms(2,3) by (auto intro!: mod_pos_pos_trivial)
  ultimately have "length v = length w" by simp
  then show ?thesis using rest by simp
qed

lemma gate_payload_flat: "gate_payload t l = gateProductionDomain @ le_bytes4 (int (length t)) @ t @ le_bytes4 (pi_PID l)
    @ le_bytes4 (int (length (pi_Identity l))) @ pi_Identity l
    @ le_bytes4 (int (length LinuxCgroupGateOutcomeNeverCreated)) @ LinuxCgroupGateOutcomeNeverCreated"
  by (simp add: gate_payload_def appendLengthPrefixed_def)

lemma canonicalLowerHex_length: "canonicalLowerHex v n \<Longrightarrow> length v = 2 * n"
  by (auto simp: canonicalLowerHex_def isl_def decodeCanonicalHex_def split: option.splits if_splits)

text \<open>C26: A no-gate launcher result passes \<^verbatim>\<open>VerifyGateNeverProducedAuthenticator\<close> exactly when it is well
  formed and carries the authenticator that \<^verbatim>\<open>SignGateNeverProducedAuthenticator\<close> computes for its launch
  token and launcher under the same secret.  Every signed result is accepted and nothing else is.\<close>

theorem gate_authenticator_accepted_iff:
  "VerifyGateNeverProducedAuthenticator secretHex r = None
   \<longleftrightarrow> GateProductionResult_ValidateFor r (gr_LaunchToken r) (gr_Launcher r) = None
     \<and> SignGateNeverProducedAuthenticator secretHex (gr_LaunchToken r) (gr_Launcher r) = Inr (gr_Authenticator r)"
proof -
  have signed: "\<exists>mac. w = EncodeToString mac \<and> length mac = 32"
    if "SignGateNeverProducedAuthenticator secretHex t l = Inr w" for t l w
    using that by (auto simp: SignGateNeverProducedAuthenticator_def SignGateNeverProducedAuthenticatorKey_def bind_r_def
        split: sum.splits if_splits)
  show ?thesis
    by (auto simp: VerifyGateNeverProducedAuthenticator_def decodeCanonicalHex_Inr dest!: signed split: sum.splits if_splits)
       (metis decodeCanonicalHex_Inr sum.distinct(1))
qed

text \<open>C27: The signed payload is unambiguous.  Two valid inputs with the same payload have the same launch token and
  the same launcher identity string, and process IDs that agree as \<^verbatim>\<open>uint32\<close>: the length prefixes keep the
  fields apart, and only the process ID is narrowed.\<close>

theorem gate_payload_unambiguous:
  assumes "canonicalLowerHex t TokenBytes" "canonicalLowerHex t' TokenBytes"
    and "LinuxCgroupProcessIdentity_Validate l = None" "LinuxCgroupProcessIdentity_Validate l' = None"
    and "gate_payload t l = gate_payload t' l'"
  shows "t = t' \<and> pi_Identity l = pi_Identity l' \<and> pi_PID l mod 2 ^ 32 = pi_PID l' mod 2 ^ 32"
proof -
  have lens: "length t < 2 ^ 32" "length t' < 2 ^ 32" "length (pi_Identity l) < 2 ^ 32" "length (pi_Identity l') < 2 ^ 32"
    using assms(1-4) by (auto dest!: canonicalLowerHex_length
        simp: TokenBytes_def LinuxCgroupProcessIdentity_Validate_def validBounded_def split: if_splits)
  have t: "t = t'" and rest: "le_bytes4 (pi_PID l) @ le_bytes4 (int (length (pi_Identity l))) @ pi_Identity l
      @ le_bytes4 (int (length LinuxCgroupGateOutcomeNeverCreated)) @ LinuxCgroupGateOutcomeNeverCreated
    = le_bytes4 (pi_PID l') @ le_bytes4 (int (length (pi_Identity l'))) @ pi_Identity l'
      @ le_bytes4 (int (length LinuxCgroupGateOutcomeNeverCreated)) @ LinuxCgroupGateOutcomeNeverCreated"
    using appendLengthPrefixed_inj [OF assms(5) [unfolded gate_payload_flat same_append_eq] lens(1,2)] by auto
  then have pid: "le_bytes4 (pi_PID l) = le_bytes4 (pi_PID l')" by (simp add: append_eq_append_conv)
  have "pi_Identity l = pi_Identity l'"
    using appendLengthPrefixed_inj [OF rest [unfolded pid same_append_eq] lens(3,4)] by simp
  then show ?thesis using t le_bytes4_inj [OF pid] by simp
qed

definition sample_token :: string where "sample_token = EncodeToString (replicate 16 (CHR ''a''))"

theorem gate_payload_unambiguous_witness:
  "let l = \<lparr> pi_PID = 7, pi_Identity = ''boot:7'' \<rparr>; l' = \<lparr> pi_PID = 7 + 2 ^ 32, pi_Identity = ''boot:7'' \<rparr> in
   canonicalLowerHex sample_token TokenBytes \<and> LinuxCgroupProcessIdentity_Validate l = None
   \<and> LinuxCgroupProcessIdentity_Validate l' = None \<and> gate_payload sample_token l = gate_payload sample_token l'
   \<and> pi_PID l mod 2 ^ 32 = pi_PID l' mod 2 ^ 32"
proof -
  define l l' where "l = \<lparr> pi_PID = 7, pi_Identity = ''boot:7'' \<rparr>" and "l' = \<lparr> pi_PID = 7 + 2 ^ 32 :: int, pi_Identity = ''boot:7'' \<rparr>"
  have c: "canonicalLowerHex sample_token TokenBytes"
    by (simp add: canonicalLowerHex_def decodeCanonicalHex_def sample_token_def TokenBytes_def)
  have v: "LinuxCgroupProcessIdentity_Validate l = None" "LinuxCgroupProcessIdentity_Validate l' = None"
    unfolding l_def l'_def by code_simp+
  have p: "gate_payload sample_token l = gate_payload sample_token l'"
    unfolding gate_payload_flat l_def l'_def by (simp add: le_bytes4_def)
  show ?thesis using c v p gate_payload_unambiguous [OF c c v p] by (simp add: l_def l'_def Let_def)
qed

end
