(* ===== verification/Release.thy ===== *)
theory Release
  imports Clone_Ops Gate_Mac
begin

text \<open>
  Release of version 2 containment (\<^verbatim>\<open>internal/state/cgroup_release_linux.go\<close>) and the capability token of
  \<^verbatim>\<open>internal/platform/linux_cgroup_v2_linux.go\<close> it consumes: the pre-gate stop receipt and the three ways a
  reservation leaves the journal after the platform removed its leaf.
\<close>

subsection \<open>The platform's release token\<close>

record LinuxCgroupV2Release =
  rl_proof :: "SupervisorHandoffReleaseProof option"
  rl_preGateProof :: "LinuxCgroupPreGateReleaseProof option"
  rl_kind :: "8 word"
  rl_issued :: bool

text \<open>The token holds one of the two proofs; the source leaves the other struct zero, here \<^const>\<open>None\<close>, which
  no branch reads because the kind is tested first.\<close>

definition Snapshot :: "LinuxCgroupV2Release \<Rightarrow> SupervisorHandoffReleaseProof option" where
  "Snapshot r = (if \<not> rl_issued r \<or> rl_kind r \<noteq> 1 \<or> \<not> opt_ex (\<lambda>p. ReleaseProof_Validate p = None) (rl_proof r)
     then None else rl_proof r)"

definition SnapshotPreGate :: "LinuxCgroupV2Release \<Rightarrow> LinuxCgroupPreGateReleaseProof option" where
  "SnapshotPreGate r = (if \<not> rl_issued r \<or> rl_kind r \<noteq> 2 \<or> \<not> opt_ex (\<lambda>p. PreGateReleaseProof_Validate p = None) (rl_preGateProof r)
     then None else rl_preGateProof r)"

definition issueLinuxCgroupV2Release :: "SupervisorHandoffReleaseProof \<Rightarrow> LinuxCgroupV2Release result" where
  "issueLinuxCgroupV2Release p =
     on_err (wrap_err ''verified Linux cgroup v2 removal produced invalid release proof: '' (ReleaseProof_Validate p))
       (Inr \<lparr> rl_proof = Some p, rl_preGateProof = None, rl_kind = 1, rl_issued = True \<rparr>)"

definition issueLinuxCgroupV2PreGateRelease :: "LinuxCgroupPreGateReleaseProof \<Rightarrow> LinuxCgroupV2Release result" where
  "issueLinuxCgroupV2PreGateRelease p =
     on_err (wrap_err ''verified pre-gate cgroup removal produced invalid release proof: '' (PreGateReleaseProof_Validate p))
       (Inr \<lparr> rl_proof = None, rl_preGateProof = Some p, rl_kind = 2, rl_issued = True \<rparr>)"

definition linuxCgroupReleaseSnapshot :: "LinuxCgroupV2Release \<Rightarrow> SupervisorHandoffReleaseProof result" where
  "linuxCgroupReleaseSnapshot r = (case Snapshot r of
     None \<Rightarrow> Inl (Err ''platform has not issued a Linux cgroup v2 release'')
   | Some p \<Rightarrow> on_err (ReleaseProof_Validate p) (Inr p))"

subsection \<open>The pre-gate stop receipt\<close>

definition RecordLinuxCgroupPreGateStopReceipt ::
  "LinuxCgroupReservation \<Rightarrow> LinuxCgroupPreGateStopReceipt \<Rightarrow> RunJournal \<Rightarrow> RunJournal result" where
  "RecordLinuxCgroupPreGateStopReceipt expected receipt j =
     on_err (Reservation_Validate expected)
    (on_err (PreGateStopReceipt_Validate receipt)
    (on_err (checks [
       (lr_PreGateStopReceipt expected \<noteq> None \<or> \<not> linuxCgroupPreGateReceiptMatchesReservation expected receipt,
        ''pre-gate stop receipt does not match the exact reservation''),
       (VerifyGateNeverProducedAuthenticator (lr_Secret expected) (pg_GateOutcome (pr_Proof receipt)) \<noteq> None,
        ''pre-gate root launcher outcome authentication failed''),
       (j_ContainmentHandoff j \<noteq> None \<or> j_ContainmentAuthority j \<noteq> None \<or> j_ContainmentScans j \<noteq> None
        \<or> HasProcessDetails j \<or> j_ContainmentUnproven j \<or> j_ContainmentCgroup j = None,
        ''pre-gate stop receipt has an active or mismatched owner'')])
    (let after = expected\<lparr> lr_PreGateStopReceipt := Some receipt \<rparr> in
     bind_r (exactCgroupMutationStage j expected after) (\<lambda>replayed.
       if replayed then Inr j
       else if \<not> opt_ex (\<lambda>c. Reservation_Equal c expected) (j_ContainmentCgroup j)
       then Inl (Err ''pre-gate stop receipt compare-and-set mismatch'')
       else Inr (j\<lparr> j_ContainmentCgroup := Some after \<rparr>)))))"

subsection \<open>Clearing a handoff, a process or a reservation\<close>

definition ClearSupervisorHandoffV2 :: "SupervisorHandoff \<Rightarrow> LinuxCgroupV2Release \<Rightarrow> RunJournal \<Rightarrow> RunJournal result" where
  "ClearSupervisorHandoffV2 expected release j =
     bind_r (linuxCgroupReleaseSnapshot release) (\<lambda>proof.
     on_err (SupervisorHandoff_Validate expected)
    (on_err (checks [
       (ho_Version expected \<noteq> 2 \<or> \<not> opt_ex (\<lambda>r. StopReceipt_ValidForHandoff r expected) (ho_StopReceipt expected)
        \<or> \<not> ReleaseProof_ValidFor proof expected, ''v2 supervisor handoff release does not match its durable receipt'')])
    (case j_ContainmentHandoff j of
       None \<Rightarrow>
         if opt_ex (\<lambda>p. ReleaseProof_Equal p proof) (j_ContainmentCgroupReleaseProof j) \<and> j_ContainmentAuthority j = None
            \<and> \<not> HasProcessDetails j \<and> j_ContainmentCgroup j = None \<and> j_ContainmentScans j = None
         then Inr j else Inl (Err ''v2 supervisor handoff is not pending'')
     | Some current \<Rightarrow> on_err (checks [
         (\<not> sameBoundV2Handoff (Some current) (Some expected)
          \<or> \<not> opt_ex (\<lambda>r. opt_ex (\<lambda>e. equalStopReceipt r e) (ho_StopReceipt expected)
               \<and> opt_ex (\<lambda>c. linuxCgroupReservationMatchesHandoff c current True \<and> linuxCgroupReceiptMatchesReservation c r)
                   (j_ContainmentCgroup j)) (ho_StopReceipt current)
          \<or> \<not> ReleaseProof_ValidFor proof current, ''v2 supervisor handoff release compare-and-set mismatch''),
         (j_ContainmentUnproven j \<or> j_ContainmentScans j \<noteq> None \<or> j_ContainmentAuthority j \<noteq> None \<or> HasProcessDetails j,
          ''v2 supervisor handoff release state is unresolved'')])
        (Inr (j\<lparr> j_ContainmentHandoff := None, j_ContainmentCgroup := None, j_ContainmentScans := None,
                j_ContainmentCgroupReleaseProof := Some proof \<rparr>)))))"

definition ClearProcessDetailsV2 :: "int \<Rightarrow> string \<Rightarrow> LinuxCgroupV2Release \<Rightarrow> RunJournal \<Rightarrow> RunJournal result" where
  "ClearProcessDetailsV2 pid identity release j =
     on_err (checks [(pid \<le> 0 \<or> \<not> validRequiredString identity 4096, ''process details are invalid'')])
    (bind_r (linuxCgroupReleaseSnapshot release) (\<lambda>proof.
     on_err (checks [
       (rp_Version proof \<noteq> 2 \<or> rp_TargetPID proof \<noteq> pid \<or> rp_TargetIdentity proof \<noteq> identity,
        ''v2 process release does not match the expected target'')])
    (if \<not> HasProcessDetails j \<and> j_PID j = 0 \<and> j_ProcessIdentity j = [] \<and> j_StartedAt j = 0 \<and> j_ContainmentAuthority j = None
        \<and> j_ContainmentHandoff j = None \<and> j_ContainmentCgroup j = None
     then (if opt_ex (\<lambda>p. ReleaseProof_Equal p proof) (j_ContainmentCgroupReleaseProof j) then Inr j
           else Inl (Err ''v2 process release replay does not match the durable release tombstone''))
     else on_err (checks [
       (j_ContainmentHandoff j \<noteq> None \<or> j_PID j \<noteq> pid \<or> j_ProcessIdentity j \<noteq> identity
        \<or> \<not> opt_ex (\<lambda>a. su_Version a = 2) (j_ContainmentAuthority j) \<or> j_ContainmentCgroup j = None
        \<or> j_ContainmentScans j \<noteq> None \<or> j_ContainmentUnproven j, ''v2 process clear identity is unresolved or mismatched''),
       (\<not> opt_ex (\<lambda>a. su_TargetPID a = pid \<and> su_TargetIdentity a = identity
            \<and> opt_ex (\<lambda>r. StopReceipt_ValidFor r a \<and> ReleaseProof_ValidForSupervisor proof a
                 \<and> opt_ex (\<lambda>c. linuxCgroupReservationMatchesAuthority c a \<and> linuxCgroupReceiptMatchesReservation c r)
                     (j_ContainmentCgroup j)) (su_StopReceipt a)) (j_ContainmentAuthority j),
        ''v2 process clear requires exact durable receipt and platform release'')])
      (Inr (j\<lparr> j_PID := 0, j_ProcessIdentity := [], j_StartedAt := 0, j_ContainmentAuthority := None,
              j_ContainmentCgroup := None, j_ContainmentScans := None, j_ContainmentCgroupReleaseProof := Some proof \<rparr>)))))"

definition ClearLinuxCgroupReservationV2 :: "LinuxCgroupReservation \<Rightarrow> LinuxCgroupV2Release \<Rightarrow> RunJournal \<Rightarrow> RunJournal result" where
  "ClearLinuxCgroupReservationV2 expected release j =
     on_err (Reservation_Validate expected)
    (case lr_PreGateStopReceipt expected of
       None \<Rightarrow> Inl (Err ''pre-gate reservation has no exact durable stop receipt'')
     | Some receipt \<Rightarrow>
       if \<not> linuxCgroupPreGateReceiptMatchesReservation expected receipt
       then Inl (Err ''pre-gate reservation has no exact durable stop receipt'')
       else (case SnapshotPreGate release of
         None \<Rightarrow> Inl (Err ''platform has not issued a pre-gate cgroup release'')
       | Some proof \<Rightarrow>
         on_err (PreGateReleaseProof_Validate proof)
        (on_err (checks [
           (\<not> PreGateReleaseProof_ValidFor proof receipt, ''pre-gate platform release does not match its durable stop receipt'')])
        (case j_ContainmentCgroup j of
           None \<Rightarrow>
             if opt_ex (\<lambda>p. PreGateReleaseProof_Equal p proof) (j_ContainmentCgroupPreGateReleaseProof j)
                \<and> j_ContainmentCgroupReleaseProof j = None \<and> j_ContainmentAuthority j = None \<and> j_ContainmentHandoff j = None
                \<and> j_ContainmentScans j = None \<and> \<not> HasProcessDetails j \<and> j_PID j = 0 \<and> \<not> j_ContainmentUnproven j
             then Inr j else Inl (Err ''pre-gate cgroup reservation is not pending'')
         | Some current \<Rightarrow> on_err (checks [
             (\<not> Reservation_Equal current expected \<or> j_ContainmentHandoff j \<noteq> None \<or> j_ContainmentAuthority j \<noteq> None
              \<or> j_ContainmentScans j \<noteq> None \<or> HasProcessDetails j \<or> j_PID j \<noteq> 0 \<or> j_ContainmentUnproven j
              \<or> j_ContainmentCgroupReleaseProof j \<noteq> None \<or> j_ContainmentCgroupPreGateReleaseProof j \<noteq> None
              \<or> \<not> opt_ex (\<lambda>r. PreGateStopReceipt_Equal r receipt \<and> linuxCgroupPreGateReceiptMatchesReservation current r)
                  (lr_PreGateStopReceipt current), ''pre-gate reservation release compare-and-set mismatch'')])
            (Inr (j\<lparr> j_ContainmentCgroup := None, j_ContainmentCgroupPreGateReleaseProof := Some proof \<rparr>))))))"

end
