(* ===== verification/Journal_Frames.thy ===== *)
theory Journal_Frames
  imports Journal_Order Release Goal_Attach
begin

text \<open>
  Every mutation of a journal respects the evolution order \<^const>\<open>keeps\<close>.  Most operations do so whatever the journal is;
  those that install a terminal or release containment rely on the journal being valid, which the store checks
  before it applies them.
\<close>

subsection \<open>What validity gives\<close>

lemma valid_parts:
  assumes "validateJournal adm j = None"
  shows "checks (journal_containment_checks j) = None" "checks (journal_grant_checks j) = None"
    "validateLinuxCloneJournal adm j = None" "checks (journal_outbox_checks j) = None" "validateGoalDeliveries j = None"
    "checks (journal_input_checks j) = None" "validateControlCommandIntents j = None" "validateProviderActionIntents j = None"
  using assms unfolding validateJournal_def by (simp_all add: then_err_None_iff)

lemma valid_terminal: "validateJournal adm j = None \<Longrightarrow> validTerminalState j"
  by (drule valid_parts(2)) (unfold checks_None_iff journal_grant_checks_def, simp)

lemma valid_release:
  assumes "validateJournal adm j = None"
  shows "j_ContainmentCgroupReleaseProof j \<noteq> None \<Longrightarrow> containment_cleared j"
    and "j_ContainmentCgroupPreGateReleaseProof j \<noteq> None \<Longrightarrow> containment_cleared j"
  using valid_parts(1) [OF assms]
  by (unfold checks_None_iff journal_containment_checks_def journal_release_checks_def, auto)

definition terminal_wf :: "RunJournal \<Rightarrow> bool" where
  "terminal_wf j = ((j_TerminalState j = [] \<or> isTerminalTransitionState (j_TerminalState j))
     \<and> (j_TerminalVerdict j = [] \<longrightarrow> j_TerminalResolvedAt j = 0))"

lemma valid_terminal_wf: "validateJournal adm j = None \<Longrightarrow> terminal_wf j"
  by (drule valid_terminal)
     (auto simp: validTerminalState_def terminal_wf_def validTerminalVerdict_def IsConclusiveTerminalVerdict_def
       TerminalVerdictAccepted_def TerminalVerdictOwnershipLost_def TerminalVerdictGraceExpired_def split: if_splits)

subsection \<open>Operations that keep the order on any journal\<close>

text \<open>Results the order does not look into.\<close>

lemmas opaque_intros =
  ensures_any [of _ "prepareTransition a b" for a b]
  ensures_any [of _ "prepareGoalDelivery a b" for a b]
  ensures_any [of _ "mark_control_delivered a b" for a b]
  ensures_any [of _ "exactCgroupMutationStage a b c" for a b c]
  ensures_any [of _ "ToSupervisor a" for a]
  ensures_any [of _ "scan_phase a b c" for a b c]
  ensures_any [of _ "recovery_seal_progress a b" for a b]
  ensures_any [of _ "linuxCloneCleanupIntentFromJournal a b" for a b]
  ensures_any [of _ "LinuxCloneCleanupIntentForJournal a b" for a b]

lemma queueCommandAcknowledgement_keeps: "ensures (queueCommandAcknowledgement j a) (keeps j)"
  unfolding queueCommandAcknowledgement_def by (intro frame_intros; simp add: keeps_def keeps_defs)

lemma outbox_keeps:
  "ensures (QueueEvent event1 j) (keeps j)"
  "ensures (QueueNextEvent event2 j) (keeps j)"
  "ensures (QueueOutputEvent event3 budget3 j) (\<lambda>r. keeps j (fst r))"
  "ensures (QueueOutputTruncatedMarker at4 newEventID4 j) (\<lambda>r. keeps j (fst r))"
  "ensures (MarkEventsDelivered eventIDs5 j) (keeps j)"
  "ensures (MarkEventsDeliveredAndQueueOutputTruncatedMarker eventIDs6 at6 newEventID6 j) (\<lambda>r. keeps j (fst r))"
  "ensures (QueueTransition t7 j) (keeps j)"
  "ensures (QueueRunningTransition t8 j) (keeps j)"
  "ensures (QueueWaitingForInput event9 t9 j) (keeps j)"
  "ensures (MarkTransitionsDelivered ids10 j) (keeps j)"
  "ensures (MarkTransitionAttempted transitionID11 j) (keeps j)"
  "ensures (QueueCommandAcknowledgement a12 j) (keeps j)"
  "ensures (MarkCommandAcknowledgementsDelivered ids13 j) (keeps j)"
  unfolding QueueEvent_def QueueNextEvent_def QueueOutputEvent_def QueueOutputTruncatedMarker_def MarkEventsDelivered_def MarkEventsDeliveredAndQueueOutputTruncatedMarker_def QueueTransition_def QueueRunningTransition_def QueueWaitingForInput_def MarkTransitionsDelivered_def MarkTransitionAttempted_def QueueCommandAcknowledgement_def MarkCommandAcknowledgementsDelivered_def appendOutputTruncatedMarker_def appendEvent_def queueTransition_def
  by (intro frame_intros opaque_intros queueCommandAcknowledgement_keeps; simp add: keeps_def keeps_defs)+

lemma process_keeps:
  "ensures (SaveClaimGrant g1 j) (keeps j)"
  "ensures (UpdateLeaseExpiry expiry2 j) (keeps j)"
  "ensures (AdvanceLeaseExpiry expiry3 j) (keeps j)"
  "ensures (MarkWorkspaceRecoveryRequired j) (keeps j)"
  "ensures (SetWorkspacePath path5 j) (keeps j)"
  "ensures (SetLocalState localState6 j) (keeps j)"
  "ensures (SetProcessDetails pid7 identity7 startedAt7 j) (keeps j)"
  "ensures (SetProcessDetailsWithAuthority pid8 identity8 startedAt8 v8 j) (keeps j)"
  "ensures (SetContainmentAuthority pid9 identity9 v9 j) (keeps j)"
  "ensures (MarkContainmentUnproven pid10 identity10 j) (keeps j)"
  "ensures (ClearContainmentUnproven pid11 identity11 j) (keeps j)"
  "ensures (ClearProcessDetails pid12 identity12 j) (keeps j)"
  "ensures (MarkNativeUsageRecoverySettlement settlement13 j) (keeps j)"
  unfolding SaveClaimGrant_def UpdateLeaseExpiry_def AdvanceLeaseExpiry_def MarkWorkspaceRecoveryRequired_def SetWorkspacePath_def SetLocalState_def SetProcessDetails_def SetProcessDetailsWithAuthority_def SetContainmentAuthority_def MarkContainmentUnproven_def ClearContainmentUnproven_def ClearProcessDetails_def MarkNativeUsageRecoverySettlement_def install_authority_def mergeNativeUsageTerminalRecovery_def
  by (intro frame_intros opaque_intros queueCommandAcknowledgement_keeps; simp add: keeps_def keeps_defs)+

lemma not_regressing_covers: "\<not> nativeUsageObservationRegresses a b \<Longrightarrow> Covers b a"
  by (auto simp: nativeUsageObservationRegresses_def split: if_splits)

lemma RecordNativeUsageObservation_keeps: "ensures (RecordNativeUsageObservation ob j) (keeps j)"
  unfolding RecordNativeUsageObservation_def
  by (intro ensures_on_errI ensures_if_cond ensures_InrI keeps_refl)
     (cases "j_NativeUsageObservation j"; auto simp: keeps_def keeps_defs usage_covered_def not_regressing_covers)

lemma cgroup_keeps:
  "ensures (ReserveLinuxCgroup env1 live1 journals1 key1 fence1 reservation1 j) (keeps j)"
  "ensures (MarkLinuxCgroupCreateStarted env2 live2 journals2 key2 fence2 expected2 j) (keeps j)"
  "ensures (BindLinuxCgroupLeaf expected3 measured3 j) (keeps j)"
  "ensures (BindLinuxCgroupHelper expected4 helper4 j) (keeps j)"
  "ensures (BindLinuxCgroupLauncher expected5 launcher5 j) (keeps j)"
  "ensures (ArmLinuxCgroupLauncherGrant env6 live6 journals6 key6 fence6 expected6 j) (keeps j)"
  "ensures (RecordLinuxCgroupLauncherExit expected7 proof7 j) (keeps j)"
  "ensures (BindLinuxCgroupGate expected8 gate8 j) (keeps j)"
  "ensures (RecordLinuxCgroupHelperExit expected9 proof9 j) (keeps j)"
  "ensures (AbortLinuxCgroupReservation expected10 proof10 j) (keeps j)"
  "ensures (AbortNeverCreatedLinuxCgroupReservation fence11 expected11 j) (keeps j)"
  unfolding ReserveLinuxCgroup_def MarkLinuxCgroupCreateStarted_def BindLinuxCgroupLeaf_def BindLinuxCgroupHelper_def BindLinuxCgroupLauncher_def ArmLinuxCgroupLauncherGrant_def RecordLinuxCgroupLauncherExit_def BindLinuxCgroupGate_def RecordLinuxCgroupHelperExit_def AbortLinuxCgroupReservation_def AbortNeverCreatedLinuxCgroupReservation_def advance_stage_def applyLinuxCgroupReservationAbort_def
  by (intro frame_intros opaque_intros queueCommandAcknowledgement_keeps; simp add: keeps_def keeps_defs)+

lemma handoff_keeps:
  "ensures (PrepareSupervisorHandoff h1 j) (keeps j)"
  "ensures (BindSupervisorHandoffV2 expected2 helper2 mirror2 j) (keeps j)"
  "ensures (BindSupervisorHandoff expected3 pid3 identity3 j) (keeps j)"
  "ensures (CommitSupervisorHandoff expected4 startedAt4 j) (keeps j)"
  "ensures (RecordSupervisorHandoffStopReceipt expected5 receipt5 j) (keeps j)"
  "ensures (RecordContainmentStopReceipt pid6 identity6 receipt6 j) (keeps j)"
  "ensures (ClearSupervisorHandoff expected7 proof7 j) (keeps j)"
  "ensures (ClearSupervisorHandoffAfterAbort expected8 proof8 j) (\<lambda>r. keeps j (fst r))"
  "ensures (RecordSupervisorRecoveryScanSeal expected9 n9 j) (keeps j)"
  unfolding PrepareSupervisorHandoff_def BindSupervisorHandoffV2_def BindSupervisorHandoff_def CommitSupervisorHandoff_def RecordSupervisorHandoffStopReceipt_def RecordContainmentStopReceipt_def ClearSupervisorHandoff_def ClearSupervisorHandoffAfterAbort_def RecordSupervisorRecoveryScanSeal_def prepareLinuxCgroupSupervisorHandoff_def recordSupervisorScanUpdate_def commit_replay_def recordLinuxCgroupSupervisorStopReceipt_def record_handoff_receipt_def record_authority_receipt_def
  by (intro frame_intros opaque_intros queueCommandAcknowledgement_keeps; simp add: keeps_def keeps_defs)+

lemma clone_keeps:
  "ensures (ReserveLinuxCloneIntent env1 live1 journals1 key1 fence1 it1 j) (keeps j)"
  "ensures (BindLinuxCloneSeed env2 fence2 it2 seed2 j) (keeps j)"
  "ensures (RecordLinuxCloneCheckoutReady env3 fence3 it3 receipt3 j) (keeps j)"
  "ensures (ReserveLinuxClonePromotion env4 fence4 it4 candidate4 j) (keeps j)"
  "ensures (RecordLinuxClonePromotion env5 key5 fence5 it5 candidate5 receipt5 j) (keeps j)"
  "ensures (FenceLinuxCloneBeforeCheckout env6 fence6 it6 j) (keeps j)"
  "ensures (CompleteLinuxCloneAbort env7 fence7 it7 proof7 j) (keeps j)"
  "ensures (ClearLinuxCloneNoTargetRetention env8 fence8 proof8 j) (keeps j)"
  "ensures (BeginLinuxCloneCleanup env9 key9 fence9 j) (keeps j)"
  "ensures (RecordLinuxCloneTargetRemoval env10 key10 fence10 expected10 proof10 j) (keeps j)"
  "ensures (CompleteLinuxCloneCleanup env11 key11 fence11 expected11 proof11 j) (keeps j)"
  unfolding ReserveLinuxCloneIntent_def BindLinuxCloneSeed_def RecordLinuxCloneCheckoutReady_def ReserveLinuxClonePromotion_def RecordLinuxClonePromotion_def FenceLinuxCloneBeforeCheckout_def CompleteLinuxCloneAbort_def ClearLinuxCloneNoTargetRetention_def BeginLinuxCloneCleanup_def RecordLinuxCloneTargetRemoval_def CompleteLinuxCloneCleanup_def
  by (intro frame_intros opaque_intros queueCommandAcknowledgement_keeps; simp add: keeps_def keeps_defs)+

subsection \<open>Terminal transitions\<close>

lemma keeps_input: "keeps j (j\<lparr> j_InputCommandIntent := v \<rparr>)"
  by (simp add: keeps_def keeps_defs)

lemma keeps_controls: "keeps j (j\<lparr> j_ControlCommandIntents := v \<rparr>)"
  by (simp add: keeps_def keeps_defs)

lemma acknowledge_after:
  assumes "keeps j k"
  shows "ensures (queueCommandAcknowledgement k a) (keeps j)"
  by (rule ensures_mono [OF queueCommandAcknowledgement_keeps]) (rule keeps_trans [OF assms])

lemma settleUnresolvedInputCommand_keeps: "ensures (settleUnresolvedInputCommand j) (keeps j)"
  unfolding settleUnresolvedInputCommand_def by (intro frame_intros acknowledge_after keeps_input) auto

lemma settle_controls_keeps: "ensures (settle_controls j done is) (keeps j)"
proof (induction j "done" "is" rule: settle_controls.induct)
  case (2 j "done" i "is")
  then show ?case by (auto simp: Let_def intro!: keeps_bind acknowledge_after keeps_controls)
qed simp

lemma settleUnknown_kept: "intent_kept i (settleUnknown c i)"
  by (simp add: intent_kept_def settleUnknown_def sameProviderActionIdentity_def)

lemma settleUnresolvedProviderActions_keeps: "keeps j (fst (settleUnresolvedProviderActions c j))"
  by (simp add: settleUnresolvedProviderActions_def keeps_def keeps_defs intents_kept_map [OF settleUnknown_kept])

lemma settleForTerminal_keeps: "ensures (settleForTerminal j) (keeps j)"
  unfolding settleForTerminal_def settleUnresolvedControlCommands_def
  by (intro keeps_bind settleUnresolvedInputCommand_keeps settle_controls_keeps) (simp add: settleUnresolvedProviderActions_keeps)

lemma keeps_terminal_step:
  assumes "keeps j k" "j_TerminalState j = []" "once [] (j_TerminalIntentDigest j) d"
  shows "keeps j (setTerminalPending (k\<lparr> j_TerminalTaskResultKind := a, j_PendingTransitions := c, j_TerminalIntentDigest := d \<rparr>) p s)"
    and "keeps j (setTerminalPending (k\<lparr> j_RetainWorkspace := b, j_PendingTransitions := c,
       j_AttemptedTransitionIDs := e, j_TerminalIntentDigest := d \<rparr>) p s)"
  using assms by (simp add: keeps_def keeps_defs setTerminalPending_def, metis once_def)+

lemma keeps_terminal_pending: "keeps j k \<Longrightarrow> j_TerminalState j = [] \<Longrightarrow> keeps j (setTerminalPending k p s)"
  by (simp add: keeps_def keeps_defs setTerminalPending_def) (metis once_def)

lemma keeps_intent_digest: "once [] (j_TerminalIntentDigest j) d \<Longrightarrow> keeps j (j\<lparr> j_TerminalIntentDigest := d \<rparr>)"
  by (simp add: keeps_def keeps_defs)

lemma installTerminal_keeps:
  assumes "keeps j k" "j_TerminalState j = []" "once [] (j_TerminalIntentDigest j) d"
  shows "ensures (installTerminal p d pendingAt k) (keeps j)"
  unfolding installTerminal_def
  by (intro frame_intros keeps_terminal_step keeps_terminal_pending assms ensures_any [of _ "terminalTaskResultKind a" for a])

lemma queueTerminalTransition_keeps:
  assumes "terminal_wf j"
  shows "ensures (queueTerminalTransition j t pendingAt) (keeps j)"
proof -
  have fresh: "j_TerminalState j = []" if "authoritativeTerminalTransition j = None"
    using that assms by (auto simp: authoritativeTerminalTransition_def terminal_wf_def split: option.splits if_splits)
  have install: "ensures (bind_r (settleForTerminal j) (installTerminal p d pendingAt)) (keeps j)"
    if "once [] (j_TerminalIntentDigest j) d" "authoritativeTerminalTransition j = None" for p d
    unfolding ensures_bind
    by (rule ensures_mono [OF settleForTerminal_keeps]) (rule installTerminal_keeps [OF _ fresh [OF that(2)] that(1)])
  show ?thesis
    unfolding queueTerminalTransition_def
    by (intro ensures_if_cond ensures_Inl ensures_bindI ensures_caseI ensures_InrI ensures_any [of _ "prepareTransition j t"]
          ensures_any [of _ "terminalIntentDigest a b c" for a b c] keeps_intent_digest install [unfolded ensures_bind])
       (auto simp: once_def)
qed

lemma terminal_digest_keeps:
  "once [] (j_TerminalCommandDigest j) d \<Longrightarrow> keeps j (j\<lparr> j_TerminalCommandDigest := d \<rparr>)"
  "once [] (j_TerminalSettlementDigest j) d \<Longrightarrow> keeps j (j\<lparr> j_TerminalSettlementDigest := d \<rparr>)"
  by (simp_all add: keeps_def keeps_defs)

lemma terminal_digest_after:
  "keeps j k \<Longrightarrow> once [] (j_TerminalCommandDigest k) d \<Longrightarrow> keeps j (k\<lparr> j_TerminalCommandDigest := d \<rparr>)"
  "keeps j k \<Longrightarrow> once [] (j_TerminalSettlementDigest k) d \<Longrightarrow> keeps j (k\<lparr> j_TerminalSettlementDigest := d \<rparr>)"
  by (blast intro: keeps_trans terminal_digest_keeps)+

lemma once_guard: "\<not> (a \<noteq> z \<and> a \<noteq> b) \<Longrightarrow> once z a b"
  by (auto simp: once_def)

lemma terminal_acknowledgement_keeps:
  assumes "terminal_wf j"
  shows "ensures (queueTerminalTransitionAndAcknowledgementAt t a pendingAt requiredState j) (keeps j)"
proof -
  have settle: "ensures (bind_r (terminalSettlementDigest k t a) (\<lambda>digest.
             if j_TerminalSettlementDigest k \<noteq> [] \<and> j_TerminalSettlementDigest k \<noteq> digest
             then Inl (Err ''terminal settlement conflicts with journal'')
             else Inr (k\<lparr> j_TerminalSettlementDigest := digest \<rparr>))) (keeps j)" if "keeps j k" for k
    unfolding ensures_bind
    by (intro ensures_any [of _ "terminalSettlementDigest k t a"] ensures_if_cond ensures_Inl ensures_InrI)
       (use that in \<open>auto simp: once_def intro!: terminal_digest_after\<close>)
  have command: "ensures (bind_r (terminalCommandDigest k a) (\<lambda>d.
         if j_TerminalCommandDigest k \<noteq> [] \<and> j_TerminalCommandDigest k \<noteq> d
         then Inl (Err ''terminal command intent conflicts with journal'')
         else (let j3 = k\<lparr> j_TerminalCommandDigest := d \<rparr> in
           bind_r (terminalSettlementDigest j3 t a) (\<lambda>digest.
             if j_TerminalSettlementDigest j3 \<noteq> [] \<and> j_TerminalSettlementDigest j3 \<noteq> digest
             then Inl (Err ''terminal settlement conflicts with journal'')
             else Inr (j3\<lparr> j_TerminalSettlementDigest := digest \<rparr>))))) (keeps j)" if "keeps j k" for k
    unfolding ensures_bind [of "terminalCommandDigest k a"]
    by (intro ensures_any [of _ "terminalCommandDigest k a"] ensures_if_cond ensures_Inl ensures_LetI settle)
       (simp only: terminal_digest_after once_guard that not_False_eq_True)
  have ack: "ensures (queueCommandAcknowledgement k a) (\<lambda>j2. keeps j j2)" if "keeps j k" for k
    by (rule acknowledge_after [OF that])
  show ?thesis
    unfolding queueTerminalTransitionAndAcknowledgementAt_def
    by (intro ensures_ifI ensures_Inl ensures_bindI ensures_mono [OF queueTerminalTransition_keeps [OF assms]])
       (auto intro!: ensures_mono [OF ack] command)
qed

lemma resolve_keeps:
  assumes "terminal_wf j"
  shows "j_TerminalVerdict j = [] \<Longrightarrow> keeps j (j\<lparr> j_TerminalVerdict := v, j_TerminalResolvedAt := r \<rparr>)"
  using assms by (simp add: keeps_def keeps_defs terminal_wf_def)

lemma keeps_cleared_outbox:
  "keeps j k \<Longrightarrow> keeps j (k\<lparr> j_PendingEvents := a, j_PendingTransitions := b, j_AttemptedTransitionIDs := c,
     j_PendingCommandAcknowledgements := d, j_InputCommandIntent := e, j_ControlCommandIntents := f \<rparr>)"
  "keeps j k \<Longrightarrow> keeps j (k\<lparr> j_RetainWorkspace := g \<rparr>)"
  "keeps j k \<Longrightarrow> keeps j (k\<lparr> j_LocalState := h \<rparr>)"
  by (simp_all add: keeps_def keeps_defs)

lemma settle_after: "keeps j k \<Longrightarrow> keeps j (fst (settleUnresolvedProviderActions c k))"
  by (erule keeps_trans) (rule settleUnresolvedProviderActions_keeps)

lemma keeps_ifI: "(c \<Longrightarrow> keeps j a) \<Longrightarrow> keeps j b \<Longrightarrow> keeps j (if c then a else b)"
  by simp

lemma ResolveTerminalForCleanup_keeps:
  assumes "terminal_wf j"
  shows "ensures (ResolveTerminalForCleanup verdict resolvedAt j) (keeps j)"
  unfolding ResolveTerminalForCleanup_def Let_def
  by (intro ensures_ifI ensures_Inl ensures_InrI ensures_on_errI keeps_ifI keeps_cleared_outbox settle_after
        keeps_refl resolve_keeps [OF assms])

lemma ResolveTerminal_keeps: "terminal_wf j \<Longrightarrow> ensures (ResolveTerminal verdict resolvedAt j) (keeps j)"
  unfolding ResolveTerminal_def by (auto intro: resolve_keeps)

lemma EnterCleanupPending_keeps: "ensures (EnterCleanupPending j) (keeps j)"
  unfolding EnterCleanupPending_def by (intro frame_intros; simp add: keeps_def keeps_defs)

lemma terminal_keeps:
  assumes "terminal_wf j"
  shows "ensures (QueueTerminalTransitionAt t1 pendingAt1 j) (keeps j)"
    and "ensures (QueueTerminalTransitionAndAcknowledgementAt t2 a2 pendingAt2 j) (keeps j)"
    and "ensures (QueueCancelledTransitionAndAcknowledgementAt t3 a3 pendingAt3 j) (keeps j)"
  unfolding QueueTerminalTransitionAt_def QueueTerminalTransitionAndAcknowledgementAt_def
    QueueCancelledTransitionAndAcknowledgementAt_def
  by (auto intro: queueTerminalTransition_keeps terminal_acknowledgement_keeps assms)

subsection \<open>Commands\<close>

lemma command_keeps:
  "ensures (PrepareProvideInput intent1 j) (\<lambda>r. keeps j (fst r))"
  "ensures (CompleteProvideInput commandID2 payloadDigest2 outcome2 j) (keeps j)"
  "ensures (RetainWorkspace j) (keeps j)"
  "ensures (PrepareControlCommand intent4 j) (\<lambda>r. keeps j (fst r))"
  unfolding PrepareProvideInput_def CompleteProvideInput_def RetainWorkspace_def PrepareControlCommand_def
  by (intro frame_intros opaque_intros acknowledge_after; simp add: keeps_def keeps_defs)+

lemma appendEvent_keeps: "ensures (appendEvent j e m) (keeps j)"
  unfolding appendEvent_def by (intro frame_intros opaque_intros; simp add: keeps_def keeps_defs)

lemma queueTransition_keeps: "ensures (queueTransition j t) (keeps j)"
  unfolding queueTransition_def by (intro frame_intros opaque_intros; simp add: keeps_def keeps_defs)

lemma CompleteControlCommand_keeps: "ensures (CompleteControlCommand commandID kind outcome0 event0 j) (keeps j)"
proof -
  have ack: "ensures (queueCommandAcknowledgement (k\<lparr> j_ControlCommandIntents := c \<rparr>) a) (keeps j)" if "keeps j k" for k c a
    by (rule acknowledge_after) (rule keeps_trans [OF that keeps_controls])
  have moved: "keeps j (l\<lparr> j_LocalState := s \<rparr>)" if "keeps j k" "keeps k l" for k l s
    using that by (blast intro: keeps_trans keeps_frame)
  show ?thesis
    unfolding CompleteControlCommand_def
    by (intro ensures_any [of _ "if c then bind_r (reject_receipt p) f else Inr r" for c p f r] ensures_mono [OF appendEvent_keeps]
          ensures_mono [OF queueTransition_keeps] ack moved frame_intros) auto
qed

lemma FailUnresolvedProvideInput_keeps:
  "terminal_wf j \<Longrightarrow> ensures (FailUnresolvedProvideInput t pendingAt j) (keeps j)"
  unfolding FailUnresolvedProvideInput_def
  by (auto intro: settleUnresolvedInputCommand_keeps queueTerminalTransition_keeps)

subsection \<open>Provider actions\<close>

lemma update_intent_kept:
  "find (\<lambda>c. pa_ActionID c = aid) is = Some i \<Longrightarrow> intent_kept i (f i) \<Longrightarrow> list_all2 intent_kept is (update_intent aid f is)"
  by (induction "is") (auto split: if_splits)

lemma length_update_intent [simp]: "length (update_intent aid f is) = length is"
  by (induction "is") auto

lemma keeps_intents:
  "list_all2 intent_kept (j_ProviderActionIntents j) is \<Longrightarrow> keeps j (j\<lparr> j_ProviderActionIntents := is \<rparr>)"
  "keeps j (j\<lparr> j_ProviderActionIntents := j_ProviderActionIntents j @ new \<rparr>)"
  by (auto simp: keeps_def keeps_defs list_all2_lengthD)

lemma PrepareProviderAction_keeps: "ensures (PrepareProviderAction size_of intent j) (\<lambda>r. keeps j (fst r))"
  unfolding PrepareProviderAction_def by (intro frame_intros; simp add: keeps_intents)

lemma CompleteProviderAction_keeps: "ensures (CompleteProviderAction size_of completed j) (\<lambda>r. keeps j (fst r))"
  unfolding CompleteProviderAction_def Let_def
  by (intro ensures_caseI ensures_if_cond ensures_on_errI ensures_Inl ensures_InrI)
     (auto intro!: keeps_intents(1) update_intent_kept simp: intent_kept_def cloneProviderActionIntent_def sameProviderActionIdentity_def)

lemma RecoverProviderActions_keeps: "ensures (RecoverProviderActions size_of code j) (\<lambda>r. keeps j (fst r))"
  using settleUnresolvedProviderActions_keeps [of j code]
  unfolding RecoverProviderActions_def Let_def by (auto split: prod.split intro!: ensures_on_errI)

lemma RecoverProviderAction_keeps: "ensures (RecoverProviderAction size_of actionID digest code j) (\<lambda>r. keeps j (fst r))"
  unfolding RecoverProviderAction_def Let_def
  by (intro ensures_caseI ensures_if_cond ensures_on_errI ensures_Inl ensures_InrI)
     (auto intro!: keeps_intents(1) update_intent_kept settleUnknown_kept)

lemmas provider_keeps = PrepareProviderAction_keeps CompleteProviderAction_keeps RecoverProviderActions_keeps RecoverProviderAction_keeps

subsection \<open>Goal deliveries\<close>

lemma keeps_enqueued: "keeps j (j\<lparr> j_PendingGoalDeliveries := j_PendingGoalDeliveries j @ ds, j_GoalDeliveryEnabled := True \<rparr>)"
  by (simp add: keeps_def keeps_defs)

lemma enqueue_keeps: "ensures (enqueue_delivery d j) (keeps j)"
  unfolding enqueue_delivery_def by (intro frame_intros keeps_enqueued; simp)

lemma queueGoalDeliveryOnJournal_keeps: "ensures (queueGoalDeliveryOnJournal d j) (keeps j)"
  unfolding queueGoalDeliveryOnJournal_def by (intro frame_intros opaque_intros enqueue_keeps)

lemma enqueue_terminal: "ensures (enqueue_delivery d j) (\<lambda>j'. terminal_wf j' = terminal_wf j)"
  unfolding enqueue_delivery_def terminal_wf_def by (intro frame_intros; simp)

lemma queueGoalDelivery_terminal: "ensures (queueGoalDeliveryOnJournal d j) (\<lambda>j'. terminal_wf j' = terminal_wf j)"
  unfolding queueGoalDeliveryOnJournal_def by (intro frame_intros opaque_intros enqueue_terminal)

lemma queue_all_keeps: "ensures (queue_all ds j) (keeps j)"
  by (induction ds arbitrary: j) (auto intro!: keeps_bind queueGoalDeliveryOnJournal_keeps)

lemma queue_all_terminal: "ensures (queue_all ds j) (\<lambda>j'. terminal_wf j' = terminal_wf j)"
proof (induction ds arbitrary: j)
  case (Cons d ds)
  then show ?case by (auto simp: ensures_bind intro!: ensures_mono [OF queueGoalDelivery_terminal] ensures_mono [OF Cons])
qed simp

lemma QueueGoalEvidenceAndTerminalTransition_keeps:
  assumes "terminal_wf j"
  shows "ensures (QueueGoalEvidenceAndTerminalTransition es t pendingAt j) (keeps j)"
proof -
  have both: "ensures (bind_r (queue_all ds j) (\<lambda>j'. queueTerminalTransition j' p pendingAt)) (keeps j)" for ds p
  proof (cases "queue_all ds j")
    case (Inr k)
    then have "keeps j k" "terminal_wf k"
      using queue_all_keeps [of ds j] queue_all_terminal [of ds j] assms by (simp_all add: ensures_iff)
    then show ?thesis using ensures_mono [OF queueTerminalTransition_keeps keeps_trans] Inr by simp
  qed simp
  show ?thesis
    unfolding QueueGoalEvidenceAndTerminalTransition_def
    by (intro both ensures_any [of _ "terminalEvidenceRefs a" for a] ensures_any [of _ "prepareGoalEvidenceDeliveries a b" for a b]
          frame_intros opaque_intros keeps_refl)
qed

text \<open>Removing the first match loses that element only.\<close>

lemma set_remove_first: "find P xs = Some d \<Longrightarrow> x \<in> set xs \<Longrightarrow> x = d \<or> x \<in> set (remove_first P xs)"
  by (induction xs) (auto simp: remove_first_def split: if_splits)

lemma keeps_removed:
  assumes "find P (j_PendingGoalDeliveries j) = Some d"
  shows "\<not> gd_Ready d \<Longrightarrow> keeps j (j\<lparr> j_PendingGoalDeliveries := remove_first P (j_PendingGoalDeliveries j) \<rparr>)"
    and "keeps j (j\<lparr> j_PendingGoalDeliveries := remove_first P (j_PendingGoalDeliveries j),
      j_DeliveredGoalDeliveries := j_DeliveredGoalDeliveries j @ [d] \<rparr>)"
    and "gr_Delivery r = d \<Longrightarrow> keeps j (j\<lparr> j_PendingGoalDeliveries := remove_first P (j_PendingGoalDeliveries j),
      j_RetiredGoalDeliveries := j_RetiredGoalDeliveries j @ [r] \<rparr>)"
  using set_remove_first [OF assms] by (auto simp: keeps_def keeps_defs in_ledger_def)

lemma discard_keeps: "ensures (DiscardUnreadyGoalSessionAttachDelivery deliveryID j) (keeps j)"
  unfolding DiscardUnreadyGoalSessionAttachDelivery_def Let_def
  by (intro ensures_if_cond ensures_Inl ensures_InrI ensures_caseI keeps_removed(1))

lemma list_update_first:
  assumes "find P xs = Some d" "x \<in> set xs"
  shows "x = d \<or> x \<in> set (xs[length (takeWhile (\<lambda>y. \<not> P y) xs) := y])"
  using assms by (induction xs) (auto split: if_splits)

lemma attach_ready_keeps: "ensures (attach_ready sd localHandleID j) (keeps j)"
  unfolding attach_ready_def Let_def
  by (intro ensures_if_cond ensures_on_errI ensures_Inl ensures_InrI ensures_caseI keeps_refl)
     (auto simp: keeps_def keeps_defs in_ledger_def dest: list_update_first)

lemma retire_keeps: "ensures (RetireGoalDelivery kind deliveryID digest status code message at j) (keeps j)"
  unfolding RetireGoalDelivery_def Let_def
  by (intro ensures_ifI ensures_Inl ensures_InrI ensures_caseI keeps_removed(3)) simp_all

lemma delivered_keeps: "ensures (MarkGoalDeliveryDelivered kind deliveryID digest j) (keeps j)"
  unfolding MarkGoalDeliveryDelivered_def Let_def
  by (intro ensures_ifI ensures_Inl ensures_InrI ensures_caseI keeps_refl keeps_removed(2))

lemma delivery_keeps:
  "ensures (QueueGoalSessionStopped p1 j) (keeps j)"
  "ensures (ClearNativeUsageRecoveryRequired key5 usage5 j) (keeps j)"
  unfolding QueueGoalSessionStopped_def ClearNativeUsageRecoveryRequired_def
  by (intro frame_intros queueGoalDeliveryOnJournal_keeps; simp add: keeps_def keeps_defs)+

lemma merge_keeps: "ensures (mergeNativeUsageTerminalRecovery (j\<lparr> j_NativeUsageRecoveryRequired := b \<rparr>) s) (keeps j)"
  unfolding mergeNativeUsageTerminalRecovery_def by (intro frame_intros; simp add: keeps_def keeps_defs)

lemma QueueNativeUsageRecoverySettlement_keeps: "ensures (QueueNativeUsageRecoverySettlement key usage s j) (keeps j)"
  unfolding QueueNativeUsageRecoverySettlement_def
  by (intro ensures_on_errI ensures_ifI ensures_Inl ensures_bindI ensures_mono [OF merge_keeps] opaque_intros
      ensures_mono [OF enqueue_keeps]) (rule keeps_trans)

subsection \<open>Release of containment\<close>

lemma keeps_release:
  assumes "j_ContainmentCgroupReleaseProof j = None"
  shows "keeps j (j\<lparr> j_ContainmentHandoff := a, j_ContainmentCgroup := b, j_ContainmentScans := c, j_ContainmentCgroupReleaseProof := p \<rparr>)"
    and "keeps j (j\<lparr> j_PID := d, j_ProcessIdentity := e, j_StartedAt := f, j_ContainmentAuthority := g,
      j_ContainmentCgroup := b, j_ContainmentScans := c, j_ContainmentCgroupReleaseProof := p \<rparr>)"
  using assms by (simp_all add: keeps_def keeps_defs)

lemma ClearSupervisorHandoffV2_keeps:
  assumes "validateJournal adm j = None"
  shows "ensures (ClearSupervisorHandoffV2 expected release j) (keeps j)"
proof -
  have fresh: "j_ContainmentCgroupReleaseProof j = None" if "j_ContainmentHandoff j = Some h" for h
    by (rule ccontr, drule valid_release(1) [OF assms]) (simp add: that containment_cleared_def)
  show ?thesis
    unfolding ClearSupervisorHandoffV2_def
    by (intro ensures_any [of _ "linuxCgroupReleaseSnapshot release"] frame_intros keeps_refl keeps_release fresh)
qed

lemma ClearProcessDetailsV2_keeps:
  assumes "validateJournal adm j = None"
  shows "ensures (ClearProcessDetailsV2 pid identity release j) (keeps j)"
proof -
  have fresh: "j_ContainmentCgroupReleaseProof j = None" if "\<not> containment_cleared j"
    by (rule ccontr, drule valid_release(1) [OF assms]) (simp add: that)
  show ?thesis
    unfolding ClearProcessDetailsV2_def
    by (intro ensures_any [of _ "linuxCgroupReleaseSnapshot release"] ensures_on_errI ensures_bindI ensures_if_cond ensures_Inl
          ensures_InrI keeps_refl keeps_release fresh) (auto simp: containment_cleared_def)
qed

lemma ClearLinuxCgroupReservationV2_keeps: "ensures (ClearLinuxCgroupReservationV2 expected release j) (keeps j)"
  unfolding ClearLinuxCgroupReservationV2_def
  by (intro ensures_on_err_cond ensures_caseI ensures_ifI ensures_Inl ensures_InrI keeps_refl)
     (auto simp: keeps_def keeps_defs split: if_splits)

lemma RecordLinuxCgroupPreGateStopReceipt_keeps: "ensures (RecordLinuxCgroupPreGateStopReceipt expected receipt j) (keeps j)"
  unfolding RecordLinuxCgroupPreGateStopReceipt_def by (intro frame_intros opaque_intros; simp add: keeps_def keeps_defs)

end
