(* ===== verification/Journal_Samples.thy ===== *)
theory Journal_Samples
  imports Process
begin

text \<open>
  Concrete values: a small valid journal of a failed run whose terminal waits for a verdict, one of a run with a workspace
  clone, and the equations that evaluate \<^const>\<open>validateJournal\<close> on such journals.
\<close>

definition sample_action :: ProviderActionIntent where
  "sample_action = \<lparr> pa_ActionID = ''a'', pa_ActionKey = ''k'', pa_RequestDigest = replicate 64 (CHR ''0''), pa_ResourceID = ''r'',
     pa_Operation = ''resource.sync'', pa_Outcome = ''unknown'', pa_Result = None, pa_FailureCode = ''lost'' \<rparr>"

definition sample_uuid :: string where
  "sample_uuid = ''01234567-89ab-4cde-8fab-0123456789ab''"

definition sample_fence :: Fence where
  "sample_fence = \<lparr> f_RuntimeID = ''runtime'', f_RuntimeEpoch = 1, f_Generation = 1, f_ClaimID = ''claim'', f_LeaseToken = ''token'' \<rparr>"

definition sample_stop_body :: GoalDelivery where
  "sample_stop_body = \<lparr> gd_Kind = GoalDeliverySessionStopped, gd_DeliveryID = sample_uuid, gd_PayloadDigest = [],
     gd_Fence = sample_fence, gd_Ready = True, gd_SessionAttach = None,
     gd_SessionStopped = Some \<lparr> gs_SessionID = sample_uuid, gs_LocalHandleID = sample_uuid, gs_BindingID = sample_uuid \<rparr>,
     gd_Evidence = None, gd_Usage = None \<rparr>"

definition sample_stop :: GoalDelivery where
  "sample_stop = sample_stop_body\<lparr> gd_PayloadDigest := goalDeliveryDigest sample_stop_body \<rparr>"

definition sample_usage :: NativeUsageObservation where
  "sample_usage = \<lparr> nu_SchemaVersion = 1, nu_InputTokens = 10, nu_OutputTokens = 4, nu_CachedInputTokens = 2,
     nu_ReasoningOutputTokens = 1, nu_TotalTokens = 14, nu_ObservedAt = 3 \<rparr>"

definition sample_journal :: RunJournal where
  "sample_journal = zero_journal\<lparr> j_RunID := ''run'', j_Generation := 1, j_RuntimeKey := ''key'', j_RuntimeID := ''runtime'',
     j_ClaimedRuntimeEpoch := 1, j_ClaimID := ''claim'', j_LeaseToken := ''token'', j_LeaseExpiresAt := 9,
     j_LocalState := ''terminal_pending'', j_WorkspaceBindingKey := ''binding'', j_TerminalPendingAt := 5, j_TerminalState := ''failed'',
     j_PendingGoalDeliveries := [sample_stop], j_GoalDeliveryEnabled := True, j_NativeUsageObservation := Some sample_usage,
     j_ProviderActionIntents := [sample_action] \<rparr>"

definition sample_env :: Env where
  "sample_env = \<lparr> env_linux_amd64 = True, env_now = 7, env_ParseAdmissionInput = (\<lambda>_. Inr None) \<rparr>"

lemma sample_action_valid: "validCompletedProviderAction sample_action"
  by (simp add: sample_action_def validCompletedProviderAction_def validProviderActionIdentity_def validRequiredString_def
      state_validHex_def hex_decodes_def list_all_length is_hex_char_def validProviderActionOperation_def ProviderActionOutcomeSucceeded_def
      ProviderActionOutcomeFailed_def ProviderActionOutcomeUnknown_def rm_bytes_def)

lemma sample_action_resolved [simp]: "pa_Outcome sample_action = ''unknown''"
  by (simp add: sample_action_def)

lemma sample_uuid_valid: "validGoalSessionUUID sample_uuid"
  by code_simp

lemma sample_uuid_string [simp]: "validRequiredString sample_uuid 4096"
  by (simp add: sample_uuid_def validRequiredString_def)

lemma sample_stop_persisted: "validatePersistedGoalDelivery runID sample_stop = None"
  by (simp add: validatePersisted_iff prepareGoalDelivery_Inr_iff sample_stop_def)
     (simp add: sample_stop_body_def goalDeliveryBody_def validGoalDeliveryKind_def GoalDeliverySessionAttach_def
       GoalDeliverySessionStopped_def deref_def validateGoalSessionStoppedDelivery_def sample_uuid_valid sample_fence_def zero_fence_def)

lemma sample_stop_ready [simp]: "gd_Ready sample_stop" "gd_Fence sample_stop = sample_fence"
  "gd_Kind sample_stop = GoalDeliverySessionStopped" "gd_DeliveryID sample_stop = sample_uuid"
  by (simp_all add: sample_stop_def sample_stop_body_def)

lemma sample_usage_valid: "NativeUsageObservation_Validate sample_usage = None"
  by (simp add: NativeUsageObservation_Validate_def sample_usage_def)

lemmas sample_parts = sample_action_valid sample_stop_persisted sample_usage_valid pendingGoalDelivery_check_def
  deliveredGoalDelivery_check_def journal_Fence_def sample_fence_def

lemmas validity_unfold = validateJournal_def validateKey_def journal_containment_checks_def journal_process_checks_def
  journal_authority_checks_def journal_handoff_checks_def journal_cgroup_checks_def journal_scans_checks_def journal_release_checks_def
  journal_grant_checks_def validateLinuxCloneJournal_def journal_outbox_checks_def validateGoalDeliveries_def
  journal_input_checks_def validateControlCommandIntents_def validateProviderActionIntents_def journal_Key_def

lemmas validity_simps = then_err_None_iff hasClaimGrant_def validTerminalState_def zero_work_def validAttemptedTransitions_def validWork_def
  isTerminalTransitionState_def validDigestOrEmpty_def validNativeUsageTerminalRecovery_def HasProcessDetails_def
  validRequiredString_def clone_cleanup_evidence_def rm_bytes_def validRawMessage_def hasPendingTerminalTransition_def
  goal_deliveries_valid_iff when_some_def
  validTerminalVerdict_def TerminalVerdictAccepted_def

lemma sample_valid: "validateJournal adm sample_journal = None"
  unfolding validity_unfold
  by (simp add: sample_journal_def zero_journal_def validity_simps sample_parts)

subsection \<open>A journal with a workspace clone\<close>

definition sample_digest :: "char \<Rightarrow> string" where
  "sample_digest c = ''sha256:'' @ replicate 64 c"

definition sample_subject :: Subject where
  "sample_subject = \<lparr> sj_ResourceID = sample_uuid, sj_Commit = replicate 40 (CHR ''a''), sj_TreeDigest = sample_digest (CHR ''b'') \<rparr>"

definition sample_clone :: LinuxCloneIntent where
  "sample_clone = \<lparr> li_Version = 2, li_RunID = ''run'', li_Generation = 1, li_BindingKey = ''binding'', li_ResourceID = sample_uuid,
     li_BaseCommit = replicate 40 (CHR ''a''), li_BaseTreeDigest = sample_digest (CHR ''b''), li_Nonce = replicate 64 (CHR ''c''),
     li_SeedPath = ''/seeds/s'', li_Target = ''/w/binding-binding/run-run/generation-1'' \<rparr>"

definition sample_seed :: LinuxCloneSeedReceipt where
  "sample_seed = \<lparr> ls_Version = 2, ls_BaseCommit = replicate 40 (CHR ''a''), ls_Digest = sample_digest (CHR ''d''), ls_Size = 1,
     ls_Device = 1, ls_Inode = 1 \<rparr>"

text \<open>An environment whose admission parser answers the subject of the clone.\<close>

definition clone_env :: Env where
  "clone_env = \<lparr> env_linux_amd64 = True, env_now = 7, env_ParseAdmissionInput = (\<lambda>_. Inr (Some \<lparr> ad_Purpose = [], ad_Subject = sample_subject \<rparr>)) \<rparr>"

definition cloned_sample :: RunJournal where
  "cloned_sample = sample_journal\<lparr> j_LocalState := ''claimed'', j_TerminalPendingAt := 0, j_TerminalState := [],
     j_WorkspacePath := li_Target sample_clone, j_LinuxCloneIntent := Some sample_clone \<rparr>"

lemma sample_hex: "validLowerHex (replicate 64 (CHR ''c'')) 64" "validateGitObjectID (replicate 40 (CHR ''a'')) = None"
  "validLinuxCloneGitObjectID (replicate 40 (CHR ''a''))" "validLinuxCloneDigest (sample_digest (CHR ''b''))"
  "validLinuxCloneDigest (sample_digest (CHR ''d''))"
  "validateSHA256 (sample_digest (CHR ''b'')) f = None"
  by code_simp+

lemma clone_ids: "validLinuxCloneRunID ''run''" "validLinuxCloneRunID ''binding''" "validLinuxCloneResourceID sample_uuid"
  "validateUUID sample_uuid f = None"
  "\<not> linuxClonePathsOverlap ''/seeds/s'' ''/w/binding-binding/run-run/generation-1''"
  by code_simp+

lemma sample_cleaned: "path_Clean ''/seeds/s'' = ''/seeds/s''" "path_Clean ''/w'' = ''/w''"
  "path_Clean ''/w/binding-binding/run-run/generation-1'' = ''/w/binding-binding/run-run/generation-1''"
  by code_simp+

lemma sample_paths: "validLinuxClonePath ''/seeds/s''" "validLinuxClonePath ''/w''" "validLinuxClonePath ''/w/binding-binding/run-run/generation-1''"
  by (simp_all add: validLinuxClonePath_def sample_cleaned path_IsAbs_def ContainsAny_def)

lemma sample_generation: "FormatInt 1 = ''1''"
  by code_simp

lemma sample_root: "\<not> isl (linuxCloneWorkspaceRootFromIntent sample_clone)"
  using sample_paths(2)
  by (simp add: linuxCloneWorkspaceRootFromIntent_def sample_clone_def HasSuffix_def TrimSuffix_def sample_generation Let_def)

lemma sample_clone_valid: "LinuxCloneIntent_validate strict sample_clone = None"
  "SeedReceipt_Validate sample_seed = None" "Subject_Validate sample_subject = None"
  using sample_root
  by (simp_all add: LinuxCloneIntent_validate_def sample_clone_def sample_seed_def sample_subject_def SeedReceipt_Validate_def
      Subject_Validate_def sample_hex clone_ids sample_paths LinuxCloneMaxSeedBytes_def)

lemma sample_clone_accepted: "LinuxCloneIntent_Validate sample_clone = None" "LinuxCloneIntent_ValidateForJournal sample_clone = None"
  by (simp_all add: LinuxCloneIntent_Validate_def LinuxCloneIntent_ValidateForJournal_def sample_clone_valid)

lemma sample_clone_fields [simp]: "li_RunID sample_clone = ''run''" "li_Generation sample_clone = 1" "li_BindingKey sample_clone = ''binding''"
  "ls_BaseCommit sample_seed = li_BaseCommit sample_clone"
  by (simp_all add: sample_clone_def sample_seed_def)

lemma sample_admitted: "admitted_subject_matches (env_ParseAdmissionInput clone_env) j sample_clone"
  by (simp add: admitted_subject_matches_def clone_env_def sample_clone_valid) (simp add: sample_subject_def sample_clone_def)

lemma cloned_sample_valid:
  "validateJournal (env_ParseAdmissionInput clone_env) (cloned_sample\<lparr> j_LinuxCloneSeedReceipt := seed, j_WorkspaceRecoveryRequired := b \<rparr>) = None"
  if "seed = None \<or> seed = Some sample_seed"
  using that unfolding validity_unfold
  by (auto simp: cloned_sample_def sample_journal_def zero_journal_def validity_simps sample_parts sample_clone_valid sample_clone_accepted sample_admitted requireLinuxCloneJournalFenceSubject_def)
     (auto simp: sample_clone_def)

end
