(* ===== verification/Journal_Steps.thy ===== *)
theory Journal_Steps
  imports Journal_Frames Journal_Samples
begin

text \<open>
  The life of a run journal as a transition system.  \<open>store_mutation\<close> lists every closure the store applies to a
  loaded journal; \<open>journal_step\<close> is one successful application between a load and a save, both of which validate
  the journal.  The clock of the environment is read anew by every step; its platform and its admission parser are fixed.  The properties hold
  along every sequence of steps, whatever the order of the operations.  The import of a whole journal (\<^verbatim>\<open>SaveJournal\<close>) is no such closure: it is
  an operation of the store and has its own rules.
\<close>

definition saved :: "(RunJournal \<times> 'a) result \<Rightarrow> RunJournal result" where
  "saved r = bind_r r (\<lambda>p. Inr (fst p))"

inductive store_mutation :: "Env \<Rightarrow> (RunJournal \<Rightarrow> RunJournal result) \<Rightarrow> bool" where
  "store_mutation env (QueueEvent event)"
| "store_mutation env (QueueNextEvent event)"
| "store_mutation env (\<lambda>j. saved (QueueOutputEvent event budget j))"
| "store_mutation env (\<lambda>j. saved (QueueOutputTruncatedMarker at newEventID j))"
| "store_mutation env (MarkEventsDelivered eventIDs)"
| "store_mutation env (\<lambda>j. saved (MarkEventsDeliveredAndQueueOutputTruncatedMarker eventIDs at newEventID j))"
| "store_mutation env (QueueTransition t)"
| "store_mutation env (QueueRunningTransition t)"
| "store_mutation env (QueueWaitingForInput event t)"
| "store_mutation env (MarkTransitionsDelivered ids)"
| "store_mutation env (MarkTransitionAttempted transitionID)"
| "store_mutation env (QueueCommandAcknowledgement a)"
| "store_mutation env (MarkCommandAcknowledgementsDelivered ids)"
| "store_mutation env (SaveClaimGrant g)"
| "store_mutation env (UpdateLeaseExpiry expiry)"
| "store_mutation env (AdvanceLeaseExpiry expiry)"
| "store_mutation env MarkWorkspaceRecoveryRequired"
| "store_mutation env (SetWorkspacePath path)"
| "store_mutation env (SetLocalState localState)"
| "store_mutation env (SetProcessDetails pid identity startedAt)"
| "store_mutation env (SetProcessDetailsWithAuthority pid identity startedAt v)"
| "store_mutation env (SetContainmentAuthority pid identity v)"
| "store_mutation env (MarkContainmentUnproven pid identity)"
| "store_mutation env (ClearContainmentUnproven pid identity)"
| "store_mutation env (ClearProcessDetails pid identity)"
| "store_mutation env (MarkNativeUsageRecoverySettlement settlement)"
| "store_mutation env (RecordNativeUsageObservation ob)"
| "store_mutation env (ReserveLinuxCgroup env live journals key fence reservation)"
| "store_mutation env (MarkLinuxCgroupCreateStarted env live journals key fence expected)"
| "store_mutation env (BindLinuxCgroupLeaf expected measured)"
| "store_mutation env (BindLinuxCgroupHelper expected helper)"
| "store_mutation env (BindLinuxCgroupLauncher expected launcher)"
| "store_mutation env (ArmLinuxCgroupLauncherGrant env live journals key fence expected)"
| "store_mutation env (RecordLinuxCgroupLauncherExit expected proof)"
| "store_mutation env (BindLinuxCgroupGate expected gate)"
| "store_mutation env (RecordLinuxCgroupHelperExit expected proof)"
| "store_mutation env (AbortLinuxCgroupReservation expected proof)"
| "store_mutation env (AbortNeverCreatedLinuxCgroupReservation fence expected)"
| "store_mutation env (PrepareSupervisorHandoff h)"
| "store_mutation env (BindSupervisorHandoffV2 expected helper mirror)"
| "store_mutation env (BindSupervisorHandoff expected pid identity)"
| "store_mutation env (CommitSupervisorHandoff expected startedAt)"
| "store_mutation env (RecordSupervisorHandoffStopReceipt expected receipt)"
| "store_mutation env (RecordContainmentStopReceipt pid identity receipt)"
| "store_mutation env (ClearSupervisorHandoff expected proof)"
| "store_mutation env (\<lambda>j. saved (ClearSupervisorHandoffAfterAbort expected proof j))"
| "store_mutation env (RecordSupervisorRecoveryScanSeal expected n)"
| "store_mutation env (ReserveLinuxCloneIntent env live journals key fence it)"
| "store_mutation env (BindLinuxCloneSeed env fence it seed)"
| "store_mutation env (RecordLinuxCloneCheckoutReady env fence it receipt)"
| "store_mutation env (ReserveLinuxClonePromotion env fence it candidate)"
| "store_mutation env (RecordLinuxClonePromotion env key fence it candidate receipt)"
| "store_mutation env (FenceLinuxCloneBeforeCheckout env fence it)"
| "store_mutation env (CompleteLinuxCloneAbort env fence it proof)"
| "store_mutation env (ClearLinuxCloneNoTargetRetention env fence proof)"
| "store_mutation env (BeginLinuxCloneCleanup env key fence)"
| "store_mutation env (RecordLinuxCloneTargetRemoval env key fence expected proof)"
| "store_mutation env (CompleteLinuxCloneCleanup env key fence expected proof)"
| "store_mutation env (ResolveTerminalForCleanup verdict resolvedAt)"
| "store_mutation env (ResolveTerminal verdict resolvedAt)"
| "store_mutation env EnterCleanupPending"
| "store_mutation env (QueueTerminalTransitionAt t pendingAt)"
| "store_mutation env (QueueTerminalTransitionAndAcknowledgementAt t a pendingAt)"
| "store_mutation env (QueueCancelledTransitionAndAcknowledgementAt t a pendingAt)"
| "store_mutation env (\<lambda>j. saved (PrepareProvideInput intent j))"
| "store_mutation env (CompleteProvideInput commandID payloadDigest outcome)"
| "store_mutation env RetainWorkspace"
| "store_mutation env (\<lambda>j. saved (PrepareControlCommand intent j))"
| "store_mutation env (CompleteControlCommand commandID kind outcome event)"
| "store_mutation env (FailUnresolvedProvideInput t pendingAt)"
| "store_mutation env (\<lambda>j. saved (PrepareProviderAction size_of intent j))"
| "store_mutation env (\<lambda>j. saved (CompleteProviderAction size_of completed j))"
| "store_mutation env (\<lambda>j. saved (RecoverProviderActions size_of code j))"
| "store_mutation env (\<lambda>j. saved (RecoverProviderAction size_of actionID digest code j))"
| "store_mutation env (QueueGoalEvidenceAndTerminalTransition es t pendingAt)"
| "store_mutation env (queueGoalDeliveryOnJournal d)"
| "store_mutation env (QueueGoalSessionStopped p)"
| "store_mutation env (attach_ready sd localHandleID)"
| "store_mutation env (DiscardUnreadyGoalSessionAttachDelivery deliveryID)"
| "store_mutation env (RetireGoalDelivery kind deliveryID digest status code message at)"
| "store_mutation env (MarkGoalDeliveryDelivered kind deliveryID digest)"
| "store_mutation env (ClearNativeUsageRecoveryRequired key usage)"
| "store_mutation env (QueueNativeUsageRecoverySettlement key usage s)"
| "store_mutation env (ClearSupervisorHandoffV2 expected release)"
| "store_mutation env (ClearProcessDetailsV2 pid identity release)"
| "store_mutation env (ClearLinuxCgroupReservationV2 expected release)"
| "store_mutation env (RecordLinuxCgroupPreGateStopReceipt expected receipt)"

inductive journal_step :: "Env \<Rightarrow> RunJournal \<Rightarrow> RunJournal \<Rightarrow> bool" for env where
  mutate: "store_mutation (env\<lparr> env_now := now \<rparr>) f \<Longrightarrow> validateJournal (env_ParseAdmissionInput env) j = None \<Longrightarrow> f j = Inr j'
    \<Longrightarrow> validateJournal (env_ParseAdmissionInput env) j' = None \<Longrightarrow> journal_step env j j'"

inductive_cases journal_stepE: "journal_step env j j'"

abbreviation journal_steps :: "Env \<Rightarrow> RunJournal \<Rightarrow> RunJournal \<Rightarrow> bool" where
  "journal_steps env \<equiv> (journal_step env)\<^sup>*\<^sup>*"

lemma ensures_saved [ensures_simps]: "ensures (saved r) P = ensures r (\<lambda>x. P (fst x))"
  by (simp add: saved_def ensures_bind)

lemmas unconditional_keeps = outbox_keeps RecordNativeUsageObservation_keeps process_keeps cgroup_keeps handoff_keeps clone_keeps command_keeps
  CompleteControlCommand_keeps provider_keeps delivery_keeps discard_keeps attach_ready_keeps retire_keeps delivered_keeps queueGoalDeliveryOnJournal_keeps QueueNativeUsageRecoverySettlement_keeps
  EnterCleanupPending_keeps ClearLinuxCgroupReservationV2_keeps RecordLinuxCgroupPreGateStopReceipt_keeps

lemmas terminal_wf_keeps = terminal_keeps ResolveTerminal_keeps ResolveTerminalForCleanup_keeps FailUnresolvedProvideInput_keeps
  QueueGoalEvidenceAndTerminalTransition_keeps

lemma store_mutation_keeps:
  assumes "store_mutation env f" "validateJournal adm j = None"
  shows "ensures (f j) (keeps j)"
  using assms(1) valid_terminal_wf [OF assms(2)]
  by cases (simp_all only: ensures_saved unconditional_keeps terminal_wf_keeps ClearSupervisorHandoffV2_keeps [OF assms(2)]
    ClearProcessDetailsV2_keeps [OF assms(2)])

lemma journal_step_keeps: "journal_step env j j' \<Longrightarrow> keeps j j'"
  by (elim journal_stepE) (auto dest: store_mutation_keeps ensuresD)

lemma journal_steps_keep: "journal_steps env j j' \<Longrightarrow> keeps j j'"
  by (erule keeps_rtranclp) (rule journal_step_keeps)

lemma journal_steps_valid:
  "journal_steps env j j' \<Longrightarrow> validateJournal (env_ParseAdmissionInput env) j = None \<Longrightarrow> validateJournal (env_ParseAdmissionInput env) j' = None"
  by (induction rule: rtranclp_induct) (auto elim: journal_stepE)

subsection \<open>A concrete step\<close>

abbreviation resolved_sample :: RunJournal where
  "resolved_sample \<equiv> sample_journal\<lparr> j_TerminalVerdict := ''accepted'', j_TerminalResolvedAt := 7 \<rparr>"

lemma resolved_sample_valid: "validateJournal adm resolved_sample = None"
  unfolding validity_unfold by (simp add: sample_journal_def zero_journal_def validity_simps sample_parts)

lemma sample_resolves: "ResolveTerminal ''accepted'' 7 sample_journal = Inr resolved_sample"
  by (simp add: ResolveTerminal_def sample_journal_def zero_journal_def validity_simps)

lemma sample_step: "journal_step sample_env sample_journal resolved_sample"
  by (rule journal_step.mutate [where f = "ResolveTerminal ''accepted'' 7" and now = 7])
     (simp_all only: store_mutation.intros sample_valid sample_resolves resolved_sample_valid)

lemma sample_steps: "journal_steps sample_env sample_journal resolved_sample"
  by (rule r_into_rtranclp) (rule sample_step)

abbreviation delivered_sample :: RunJournal where
  "delivered_sample \<equiv> sample_journal\<lparr> j_PendingGoalDeliveries := [], j_DeliveredGoalDeliveries := [sample_stop] \<rparr>"

lemma delivered_sample_valid: "validateJournal adm delivered_sample = None"
  unfolding validity_unfold by (simp add: sample_journal_def zero_journal_def validity_simps sample_parts)

lemma sample_delivers:
  "MarkGoalDeliveryDelivered GoalDeliverySessionStopped sample_uuid (gd_PayloadDigest sample_stop) sample_journal = Inr delivered_sample"
  by (simp add: MarkGoalDeliveryDelivered_def sample_journal_def zero_journal_def validGoalDeliveryKind_def same_delivery_id_def
      remove_first_def) (simp add: sample_stop_def)

lemma sample_delivery_steps: "journal_steps sample_env sample_journal delivered_sample"
  by (rule r_into_rtranclp, rule journal_step.mutate
        [where f = "MarkGoalDeliveryDelivered GoalDeliverySessionStopped sample_uuid (gd_PayloadDigest sample_stop)" and now = 7])
     (simp_all only: store_mutation.intros sample_valid sample_delivers delivered_sample_valid)

text \<open>The clone's seed is bound and the workspace is then marked for recovery, at a later time.\<close>

abbreviation seeded_sample :: RunJournal where
  "seeded_sample \<equiv> cloned_sample\<lparr> j_LinuxCloneSeedReceipt := Some sample_seed \<rparr>"

abbreviation recovering_sample :: RunJournal where
  "recovering_sample \<equiv> seeded_sample\<lparr> j_WorkspaceRecoveryRequired := True \<rparr>"

lemma clone_samples_valid: "validateJournal (env_ParseAdmissionInput clone_env) cloned_sample = None"
  "validateJournal (env_ParseAdmissionInput clone_env) seeded_sample = None" "validateJournal (env_ParseAdmissionInput clone_env) recovering_sample = None"
  using cloned_sample_valid [of None False] cloned_sample_valid [of "Some sample_seed" False] cloned_sample_valid [of "Some sample_seed" True]
  by (simp_all add: cloned_sample_def sample_journal_def zero_journal_def)

lemma sample_binds_seed: "BindLinuxCloneSeed (clone_env\<lparr> env_now := 8 \<rparr>) sample_fence sample_clone sample_seed cloned_sample = Inr seeded_sample"
  using sample_admitted
  by (simp add: BindLinuxCloneSeed_def requireLinuxClonePlatform_def requireLinuxCloneJournalFence_def sample_clone_valid sample_clone_accepted LinuxCloneIntent_Equal_def
     clone_env_def)
   (simp add: cloned_sample_def sample_journal_def zero_journal_def sample_fence_def journal_Fence_def hasClaimGrant_def linuxCloneStageCanAdvance_def)

lemma clone_steps: "journal_steps clone_env cloned_sample recovering_sample" "journal_steps clone_env seeded_sample recovering_sample"
proof -
  have one: "journal_step clone_env cloned_sample seeded_sample"
    by (rule journal_step.mutate [where f = "BindLinuxCloneSeed (clone_env\<lparr> env_now := 8 \<rparr>) sample_fence sample_clone sample_seed" and now = 8])
       (simp_all only: store_mutation.intros clone_samples_valid sample_binds_seed)
  have two: "journal_step clone_env seeded_sample recovering_sample"
    by (rule journal_step.mutate [where f = MarkWorkspaceRecoveryRequired and now = 9])
       (simp_all only: store_mutation.intros clone_samples_valid MarkWorkspaceRecoveryRequired_def)
  show "journal_steps clone_env seeded_sample recovering_sample" using two by (rule r_into_rtranclp)
  then show "journal_steps clone_env cloned_sample recovering_sample" using one by (rule converse_rtranclp_into_rtranclp [rotated])
qed

subsection \<open>What every sequence of operations respects\<close>

text \<open>C8: a journal never changes hands. No sequence of store operations changes its run and generation, the runtime
  that claimed it, the epoch of that runtime or the claim: the fence differs at most in the lease token.\<close>

theorem journal_identity_fixed:
  assumes "journal_steps env j j'"
  shows "journal_Key j' = journal_Key j \<and> j_RuntimeKey j' = j_RuntimeKey j
    \<and> journal_Fence j' = (journal_Fence j)\<lparr> f_LeaseToken := j_LeaseToken j' \<rparr>"
  using journal_steps_keep [OF assms] by (simp add: keeps_def same_run_def journal_Key_def journal_Fence_def)

theorem journal_identity_fixed_witness:
  "journal_Key resolved_sample = journal_Key sample_journal \<and> j_RuntimeKey resolved_sample = j_RuntimeKey sample_journal
    \<and> journal_Fence resolved_sample = (journal_Fence sample_journal)\<lparr> f_LeaseToken := j_LeaseToken resolved_sample \<rparr>"
  by (rule journal_identity_fixed [OF sample_steps])

text \<open>C3: a terminal is decided once. Once the terminal state, the digests of the terminal intent, of its command and of the
  settlement, or the verdict with its time are recorded, no sequence of operations changes them.\<close>

theorem terminal_facts_immutable:
  assumes "journal_steps env j j'"
  shows "(j_TerminalState j \<noteq> [] \<longrightarrow> j_TerminalState j' = j_TerminalState j)
    \<and> (j_TerminalPendingAt j \<noteq> 0 \<longrightarrow> j_TerminalPendingAt j' = j_TerminalPendingAt j)
    \<and> (j_TerminalIntentDigest j \<noteq> [] \<longrightarrow> j_TerminalIntentDigest j' = j_TerminalIntentDigest j)
    \<and> (j_TerminalCommandDigest j \<noteq> [] \<longrightarrow> j_TerminalCommandDigest j' = j_TerminalCommandDigest j)
    \<and> (j_TerminalSettlementDigest j \<noteq> [] \<longrightarrow> j_TerminalSettlementDigest j' = j_TerminalSettlementDigest j)
    \<and> (j_TerminalVerdict j \<noteq> [] \<longrightarrow> j_TerminalVerdict j' = j_TerminalVerdict j)
    \<and> (j_TerminalResolvedAt j \<noteq> 0 \<longrightarrow> j_TerminalResolvedAt j' = j_TerminalResolvedAt j)"
  using journal_steps_keep [OF assms] unfolding keeps_def terminal_kept_def once_def by blast

theorem terminal_facts_immutable_witness:
  "j_TerminalState sample_journal \<noteq> [] \<and> j_TerminalState resolved_sample = j_TerminalState sample_journal"
  using terminal_facts_immutable [OF sample_steps] by (simp add: sample_journal_def)

text \<open>C4: provider actions settle once. Every action intent keeps its position and identity along any sequence of operations,
  new ones come after it, and one that has an outcome is never changed again, so a settled action is never dispatched anew.\<close>

theorem provider_actions_settle_once:
  assumes "journal_steps env j j'"
  shows "length (j_ProviderActionIntents j) \<le> length (j_ProviderActionIntents j')
    \<and> (\<forall>i < length (j_ProviderActionIntents j).
        sameProviderActionIdentity (j_ProviderActionIntents j ! i) (j_ProviderActionIntents j' ! i)
        \<and> (pa_Outcome (j_ProviderActionIntents j ! i) \<noteq> [] \<longrightarrow> j_ProviderActionIntents j' ! i = j_ProviderActionIntents j ! i))"
  using journal_steps_keep [OF assms] unfolding keeps_def provider_kept_nth intent_kept_def by blast

theorem provider_actions_settle_once_witness:
  "j_ProviderActionIntents sample_journal = [sample_action] \<and> pa_Outcome sample_action \<noteq> []
    \<and> j_ProviderActionIntents resolved_sample ! 0 = sample_action"
  using provider_actions_settle_once [OF sample_steps] by (simp add: sample_journal_def)

text \<open>C5: the evidence of a workspace clone and of a released containment is written once. No sequence of operations replaces
  or removes the clone intent, its receipts and proofs, or a release proof that is recorded.\<close>

theorem clone_and_release_evidence_write_once:
  assumes "journal_steps env j j'"
  shows "(j_LinuxCloneIntent j = None \<or> j_LinuxCloneIntent j' = j_LinuxCloneIntent j)
    \<and> (j_LinuxCloneSeedReceipt j = None \<or> j_LinuxCloneSeedReceipt j' = j_LinuxCloneSeedReceipt j)
    \<and> (j_LinuxCloneCheckoutReceipt j = None \<or> j_LinuxCloneCheckoutReceipt j' = j_LinuxCloneCheckoutReceipt j)
    \<and> (j_LinuxClonePromotionIntent j = None \<or> j_LinuxClonePromotionIntent j' = j_LinuxClonePromotionIntent j)
    \<and> (j_LinuxClonePromotionReceipt j = None \<or> j_LinuxClonePromotionReceipt j' = j_LinuxClonePromotionReceipt j)
    \<and> (j_LinuxCloneAbortProof j = None \<or> j_LinuxCloneAbortProof j' = j_LinuxCloneAbortProof j)
    \<and> (j_LinuxCloneCleanupIntent j = None \<or> j_LinuxCloneCleanupIntent j' = j_LinuxCloneCleanupIntent j)
    \<and> (j_LinuxCloneTargetRemovalProof j = None \<or> j_LinuxCloneTargetRemovalProof j' = j_LinuxCloneTargetRemovalProof j)
    \<and> (j_LinuxCloneCleanupProof j = None \<or> j_LinuxCloneCleanupProof j' = j_LinuxCloneCleanupProof j)
    \<and> (j_ContainmentCgroupReleaseProof j = None \<or> j_ContainmentCgroupReleaseProof j' = j_ContainmentCgroupReleaseProof j)
    \<and> (j_ContainmentCgroupPreGateReleaseProof j = None
       \<or> j_ContainmentCgroupPreGateReleaseProof j' = j_ContainmentCgroupPreGateReleaseProof j)"
  using journal_steps_keep [OF assms] unfolding keeps_def clone_kept_def release_kept_def once_def by blast

theorem clone_and_release_evidence_write_once_witness:
  "journal_steps clone_env cloned_sample recovering_sample \<and> j_LinuxCloneIntent cloned_sample = Some sample_clone
    \<and> j_LinuxCloneIntent recovering_sample = Some sample_clone
    \<and> journal_steps clone_env seeded_sample recovering_sample \<and> j_LinuxCloneSeedReceipt seeded_sample = Some sample_seed
    \<and> j_LinuxCloneSeedReceipt recovering_sample = Some sample_seed"
proof -
  have intent: "j_LinuxCloneIntent cloned_sample = Some sample_clone" by (simp add: cloned_sample_def)
  have seed: "j_LinuxCloneSeedReceipt seeded_sample = Some sample_seed" by simp
  from clone_and_release_evidence_write_once [OF clone_steps(1)] have "j_LinuxCloneIntent recovering_sample = Some sample_clone"
    unfolding intent by blast
  moreover from clone_and_release_evidence_write_once [OF clone_steps(2)] have "j_LinuxCloneSeedReceipt recovering_sample = Some sample_seed"
    unfolding seed by blast
  ultimately show ?thesis using clone_steps intent seed by blast
qed

text \<open>C6: no delivery is lost and the history only grows. Along any sequence of operations a Goal delivery that is ready
  and pending stays pending until it is in the delivered or the retired history; both histories keep their order and content
  and are only appended to.\<close>

theorem ready_deliveries_never_lost:
  assumes "journal_steps env j j'"
  shows "prefix (j_DeliveredGoalDeliveries j) (j_DeliveredGoalDeliveries j')
    \<and> prefix (j_RetiredGoalDeliveries j) (j_RetiredGoalDeliveries j')
    \<and> (\<forall>d \<in> set (j_PendingGoalDeliveries j). gd_Ready d \<longrightarrow>
         d \<in> set (j_PendingGoalDeliveries j') \<union> set (j_DeliveredGoalDeliveries j') \<union> gr_Delivery ` set (j_RetiredGoalDeliveries j'))"
  using journal_steps_keep [OF assms] unfolding keeps_def history_kept_def ready_kept_def in_ledger_def by blast

theorem ready_deliveries_never_lost_witness:
  "sample_stop \<in> set (j_PendingGoalDeliveries sample_journal) \<and> gd_Ready sample_stop
    \<and> sample_stop \<in> set (j_DeliveredGoalDeliveries delivered_sample)"
  using ready_deliveries_never_lost [OF sample_delivery_steps] by (simp add: sample_journal_def zero_journal_def)

text \<open>C7: native usage accounting never goes backwards. Once an observation is recorded, every later journal holds an
  observation whose five counters are at least as large.\<close>

theorem native_usage_monotone:
  assumes "journal_steps env j j'" "j_NativeUsageObservation j = Some a"
  shows "\<exists>b. j_NativeUsageObservation j' = Some b \<and> Covers b a"
  using journal_steps_keep [OF assms(1)] assms(2)
  by (auto simp: keeps_def usage_kept_def usage_covered_def split: option.splits)

theorem native_usage_monotone_witness:
  "\<exists>b. j_NativeUsageObservation delivered_sample = Some b \<and> Covers b sample_usage"
  by (rule native_usage_monotone [OF sample_delivery_steps]) (simp add: sample_journal_def)

end
