(* ===== verification/Store_Steps.thy ===== *)
theory Store_Steps
  imports Store Journal_Steps
begin

text \<open>
  The directory of run journals and ledgers as a transition system, under every outcome of every write.  \<open>store_step\<close> is one call of an operation
  that writes: the claim that creates a journal, a mutation, the import of a whole journal, a deletion, or an operation on a ledger; the operations
  that queue a delivery are sequences of such calls.  \<open>run_life\<close> is the same life seen from one run, without files: the directory refines it.
\<close>

abbreviation run_journals :: "admission_parser \<Rightarrow> StoreDir \<Rightarrow> RunKey \<rightharpoonup> RunJournal" where
  "run_journals adm \<equiv> holds (loadJournalLocked adm)"

abbreviation late_ledgers :: "StoreDir \<Rightarrow> RunKey \<rightharpoonup> LateGoalUsageLedger" where
  "late_ledgers \<equiv> holds loadLateGoalUsageLocked"

inductive store_step :: "Env \<Rightarrow> (RunJournal \<Rightarrow> int option) \<Rightarrow> StoreDir \<Rightarrow> StoreDir \<Rightarrow> bool" for env size_of where
  claim: "SaveClaimIntent (env_ParseAdmissionInput env) size_of intent d = (r, d') \<Longrightarrow> store_step env size_of d d'"
| mutate: "store_mutation (env\<lparr> env_now := now \<rparr>) f \<Longrightarrow> mutateJournal (env_ParseAdmissionInput env) size_of k f d = (r, d') \<Longrightarrow> store_step env size_of d d'"
| mutate_changed: "store_mutation (env\<lparr> env_now := now \<rparr>) (\<lambda>j. saved (f j))
    \<Longrightarrow> mutateJournalIfChanged (env_ParseAdmissionInput env) size_of k f d = (r, d') \<Longrightarrow> store_step env size_of d d'"
| import: "SaveJournal (env_ParseAdmissionInput env) size_of j d = (s, d') \<Longrightarrow> store_step env size_of d d'"
| delete: "DeleteJournal (env\<lparr> env_now := now \<rparr>) k d = (s, d') \<Longrightarrow> store_step env size_of d d'"
| late_queue: "QueueLateGoalUsage now k u d = (l, d') \<Longrightarrow> store_step env size_of d d'"
| late_delivered: "MarkLateGoalUsageDelivered now k deliveryID digest d = (l, d') \<Longrightarrow> store_step env size_of d d'"
| late_retired: "RetireLateGoalUsage now k deliveryID digest status code message at d = (l, d') \<Longrightarrow> store_step env size_of d d'"

inductive_cases store_stepE: "store_step env size_of d d'"

abbreviation store_steps :: "Env \<Rightarrow> (RunJournal \<Rightarrow> int option) \<Rightarrow> StoreDir \<Rightarrow> StoreDir \<Rightarrow> bool" where
  "store_steps env size_of \<equiv> (store_step env size_of)\<^sup>*\<^sup>*"

text \<open>The life of one run: claimed or imported when it has no journal, changed by its own operations, replaced by an import that passes
  the guards, deleted when it is settled.\<close>

inductive run_life :: "Env \<Rightarrow> RunJournal option \<Rightarrow> RunJournal option \<Rightarrow> bool" for env where
  claimed: "validRequiredString (cl_WorkspaceBindingKey i) 4096 \<Longrightarrow> validateJournal (env_ParseAdmissionInput env) (claimJournal i) = None
    \<Longrightarrow> run_life env None (Some (claimJournal i))"
| created: "import_new j = None \<Longrightarrow> validateJournal (env_ParseAdmissionInput env) j = None \<Longrightarrow> run_life env None (Some j)"
| changed: "journal_step env j j' \<Longrightarrow> run_life env (Some j) (Some j')"
| replaced: "import_over c j = None \<Longrightarrow> journal_Key j = journal_Key c \<Longrightarrow> validateJournal (env_ParseAdmissionInput env) j = None
    \<Longrightarrow> run_life env (Some c) (Some j)"
| deleted: "delete_guards (env\<lparr> env_now := now \<rparr>) (journal_Key j) j = None \<Longrightarrow> run_life env (Some j) None"

abbreviation run_lives :: "Env \<Rightarrow> RunJournal option \<Rightarrow> RunJournal option \<Rightarrow> bool" where
  "run_lives env \<equiv> (run_life env)\<^sup>*\<^sup>*"

subsection \<open>Names and loads\<close>

lemma path_kinds [simp]: "journalPath k \<noteq> lateGoalUsagePath k'" "lateGoalUsagePath k' \<noteq> journalPath k"
  by (simp_all add: journalPath_def lateGoalUsagePath_def)

lemma run_journals_valid: "run_journals adm d k = Some j \<Longrightarrow> validateJournal adm j = None \<and> journal_Key j = k"
  by (simp add: holds_iff run_docs.load_iff)

lemma ledgers_other:
  "(\<And>k. map_of (d_files d') (lateGoalUsagePath k) = map_of (d_files d) (lateGoalUsagePath k)) \<Longrightarrow> late_ledgers d' = late_ledgers d"
  by (simp add: fun_eq_iff holds_def ledger_docs.load_by_name [of d'])

lemma journals_other:
  "(\<And>k. map_of (d_files d') (journalPath k) = map_of (d_files d) (journalPath k)) \<Longrightarrow> run_journals adm d' = run_journals adm d"
  by (simp add: fun_eq_iff holds_def run_docs.load_by_name [of d'])

lemma io_open_cases:
  assumes "io_check e (io_open m) d = (r, d')"
  shows "(\<exists>x. r = Inl x) \<and> d' = d \<or> e = None \<and> d_open d \<and> m d = (r, d')"
  using assms by (auto simp: io_check_def io_open_def io_fail_def ensureOpenLocked_def split: option.splits)

subsection \<open>A mutation is an update of the map\<close>

lemma keeps_same_key: "keeps j j' \<Longrightarrow> journal_Key j' = journal_Key j"
  by (simp add: keeps_def same_run_def journal_Key_def)

lemma mutation_key:
  assumes "store_mutation env f"
  shows "\<forall>j j'. loadJournalLocked adm k d = Inr j \<longrightarrow> f j = Inr j' \<longrightarrow> journal_Key j' = journal_Key j"
  by (metis run_docs.load_iff ensuresD store_mutation_keeps [OF assms] keeps_same_key)

lemma mutation_step:
  assumes "store_mutation (env\<lparr> env_now := now \<rparr>) f" "run_journals (env_ParseAdmissionInput env) d k = Some j" "f j = Inr j'"
    "run_journals (env_ParseAdmissionInput env) d' k = Some j'"
  shows "journal_step env j j'"
  using assms run_journals_valid by (blast intro: journal_step.mutate)

lemma update_journal:
  assumes m: "store_mutation env f"
    and run: "update_document (loadJournalLocked adm) (saveJournalWithCapacityGuardLocked adm size_of) k f d = (r, d')"
  shows "late_ledgers d' = late_ledgers d"
    and "d_open d' = d_open d"
    and "(\<exists>j j'. r = Inr j' \<and> run_journals adm d k = Some j \<and> f j = Inr j' \<and> run_journals adm d' = (run_journals adm d)(k \<mapsto> j'))
       \<or> (\<exists>e. r = Inl e \<and> (run_journals adm d' = run_journals adm d
            \<or> (\<exists>j j'. run_journals adm d k = Some j \<and> f j = Inr j' \<and> run_journals adm d' = (run_journals adm d)(k \<mapsto> j'))))"
  by (rule ledgers_other run_docs.update_frame [OF mutation_key [OF m] run] run_docs.update_open [OF mutation_key [OF m] run]
       run_docs.update_refines [OF mutation_key [OF m] run] path_kinds)+

text \<open>The same for \<^const>\<open>mutateJournalIfChanged\<close>, which writes only what the closure reports as changed.\<close>

lemma mutate_changed_update:
  assumes "mutateJournalIfChanged adm size_of k f d = (r, d')"
  shows "d' = d \<or> (\<exists>r. update_document (loadJournalLocked adm) (saveJournalWithCapacityGuardLocked adm size_of) k (\<lambda>j. saved (f j)) d = (r, d'))"
  using io_open_cases [OF assms [unfolded mutateJournalIfChanged_def]]
  by (auto simp: update_document_def io_bind_def io_read_def io_lift_def io_return_def saved_def bind_r_def split: sum.splits prod.splits if_splits)

lemma mutate_update:
  assumes "mutateJournal adm size_of k f d = (r, d')"
  shows "(\<exists>e. r = Inl e) \<and> d' = d
    \<or> d_open d \<and> update_document (loadJournalLocked adm) (saveJournalWithCapacityGuardLocked adm size_of) k f d = (r, d')"
  using io_open_cases [OF assms [unfolded mutateJournal_def]] by blast

text \<open>An update of the map at one key, seen from any key.\<close>

lemma lives_at:
  assumes "run_journals adm d' = (run_journals adm d)(k := x)" "run_life env (run_journals adm d k) x"
  shows "run_lives env (run_journals adm d k') (run_journals adm d' k')"
  using assms by (cases "k' = k") auto

lemma update_lives:
  assumes m: "store_mutation (env\<lparr> env_now := now \<rparr>) f"
    and run: "update_document (loadJournalLocked (env_ParseAdmissionInput env)) (saveJournalWithCapacityGuardLocked (env_ParseAdmissionInput env) size_of) k f d = (r, d')"
  shows "run_lives env (run_journals (env_ParseAdmissionInput env) d k') (run_journals (env_ParseAdmissionInput env) d' k')"
proof -
  have go: "run_lives env (run_journals (env_ParseAdmissionInput env) d k') (run_journals (env_ParseAdmissionInput env) d' k')"
    if "run_journals (env_ParseAdmissionInput env) d k = Some j" "f j = Inr j'"
      "run_journals (env_ParseAdmissionInput env) d' = (run_journals (env_ParseAdmissionInput env) d)(k \<mapsto> j')" for j j'
    using mutation_step [OF m that(1,2), of d'] that by (intro lives_at [OF that(3)]) (simp add: run_life.changed)
  from update_journal(3) [OF m run] show ?thesis by (auto intro: go)
qed

subsection \<open>Claims and imports\<close>

lemma load_journal_missing: "loadJournalLocked adm k d = Inl (NotFound r) \<Longrightarrow> map_of (d_files d) (journalPath k) = None"
  by (auto simp: loadJournalLocked_def split: option.splits store_file.splits if_splits)

lemma claimJournal_key [simp]: "journal_Key (claimJournal i) = cl_Key i"
  by (simp add: claimJournal_def journal_Key_def)

lemma claim_cases:
  assumes run: "SaveClaimIntent adm size_of i d = (r, d')"
  obtains (same) "d' = d"
  | (fresh) s where "map_of (d_files d) (journalPath (cl_Key i)) = None" "validRequiredString (cl_WorkspaceBindingKey i) 4096"
      "validateJournal adm (claimJournal i) = None" "saveJournalWithCapacityGuardLocked adm size_of (claimJournal i) d = (s, d')"
  using run load_journal_missing [of adm "cl_Key i" d]
  by (auto simp: SaveClaimIntent_def Let_def io_check_def io_open_def ensureOpenLocked_def io_fail_def io_return_def io_bind_def
    split: option.splits sum.splits gerror.splits if_splits prod.splits)

lemma import_cases:
  assumes run: "SaveJournal adm size_of j d = (s, d')"
  obtains (refused) "d' = d"
  | (over) c where "run_journals adm d (journal_Key j) = Some c" "import_over c j = None" "saveJournalLocked adm size_of j d = (s, d')"
  | (fresh) "map_of (d_files d) (journalPath (journal_Key j)) = None" "import_new j = None" "saveJournalLocked adm size_of j d = (s, d')"
proof -
  consider "d' = d" | "(case loadJournalLocked adm (journal_Key j) d of
       Inr current \<Rightarrow> io_check (import_over current j) (saveJournalLocked adm size_of j) d
     | Inl (NotFound _) \<Rightarrow> io_check (import_new j) (saveJournalLocked adm size_of j) d
     | Inl e \<Rightarrow> io_fail e d) = (s, d')"
    using io_open_cases [OF run [unfolded SaveJournal_def]] by blast
  then show ?thesis
  proof cases
    case 2
    then show ?thesis
      using refused over fresh load_journal_missing
      by (auto simp: holds_iff io_check_def io_fail_def split: sum.splits gerror.splits option.splits)
  qed (use refused in blast)
qed

text \<open>A saved journal is an update of the map where its key holds the journal it replaces or its file is new; ledgers have other names.\<close>

lemma alone_key:
  assumes "map_of (d_files d) (journalPath k) = None \<or> run_journals adm d k = Some c" "journalPath k' = journalPath k" "k' \<noteq> k"
  shows "run_journals adm d k' = None"
  using assms run_docs.holds_collision [of adm d k c k'] by (auto simp: holds_def loadJournalLocked_def)

lemma fresh_journal: "map_of (d_files d) (journalPath k) = None \<Longrightarrow> run_journals adm d k = None"
  by (simp add: holds_def loadJournalLocked_def)

subsection \<open>Ledgers keep every usage\<close>

definition ledger_keeps :: "LateGoalUsageLedger \<Rightarrow> LateGoalUsageLedger \<Rightarrow> bool" where
  "ledger_keeps l l' = (ledger_key l' = ledger_key l \<and> lu_Fence l' = lu_Fence l
     \<and> set (lu_DeliveredDeliveries l) \<subseteq> set (lu_DeliveredDeliveries l') \<and> set (lu_RetiredDeliveries l) \<subseteq> set (lu_RetiredDeliveries l')
     \<and> set (lu_PendingUsageDeliveries l) \<subseteq> set (lu_PendingUsageDeliveries l') \<union> set (lu_DeliveredDeliveries l') \<union> gr_Delivery ` set (lu_RetiredDeliveries l'))"

lemma ledger_keeps_refl [simp]: "ledger_keeps l l"
  by (auto simp: ledger_keeps_def)

lemma ledger_keeps_trans: "ledger_keeps a b \<Longrightarrow> ledger_keeps b c \<Longrightarrow> ledger_keeps a c"
  by (auto simp: ledger_keeps_def) blast

lemma late_delivered_keeps: "late_delivered deliveryID digest l = Inr l' \<Longrightarrow> ledger_keeps l l'"
  using set_remove_first
  by (fastforce simp: late_delivered_def ledger_keeps_def ledger_key_def Let_def split: option.splits if_splits)

lemma late_retired_keeps: "late_retired deliveryID digest status code message at l = Inr l' \<Longrightarrow> ledger_keeps l l'"
  using set_remove_first
  by (fastforce simp: late_retired_def ledger_keeps_def ledger_key_def Let_def split: option.splits if_splits)

lemma queue_late_keeps: "queue_late now u l = Inr (l', c) \<Longrightarrow> ledger_keeps l l'"
  by (auto simp: queue_late_def ledger_keeps_def ledger_key_def Let_def bind_r_def split: option.splits if_splits sum.splits)

lemma merge_history_keeps: "ledger_keeps l (merge_history h now l)"
  by (auto simp: merge_history_def ledger_keeps_def ledger_key_def Let_def)

lemma ledger_keeps_time: "ledger_keeps l (l'\<lparr> lu_UpdatedAt := now \<rparr>) = ledger_keeps l l'"
  by (simp add: ledger_keeps_def ledger_key_def)

abbreviation ledgers_kept :: "StoreDir \<Rightarrow> StoreDir \<Rightarrow> bool" where
  "ledgers_kept d d' \<equiv> \<forall>k l. late_ledgers d k = Some l \<longrightarrow> (\<exists>l'. late_ledgers d' k = Some l' \<and> ledger_keeps l l')"

lemma ledger_same_path: "lateGoalUsagePath k' = lateGoalUsagePath k \<Longrightarrow> late_ledgers d k' = late_ledgers d k"
  by (simp add: holds_def loadLateGoalUsageLocked_def)

lemma save_ledger_keeps:
  assumes load: "loadLateGoalUsageLocked k d = Inr l" and keeps: "ledger_keeps l l'" and run: "saveLateGoalUsageLocked l' d = (s, d')"
  shows "ledgers_kept d d'" "run_journals adm d' = run_journals adm d"
proof -
  have key: "ledger_key l' = ledger_key l" using keeps by (simp add: ledger_keeps_def)
  have path: "lateGoalUsagePath (ledger_key l') = lateGoalUsagePath k" using key ledger_docs.load_path [OF load] by simp
  have at: "late_ledgers d' k = Some l' \<or> d_files d' = d_files d"
    using ledger_docs.save_same [OF load key, of d] run by (cases s) auto
  show "ledgers_kept d d'"
  proof (intro allI impI)
    fix k' x assume x: "late_ledgers d k' = Some x"
    show "\<exists>l'. late_ledgers d' k' = Some l' \<and> ledger_keeps x l'"
    proof (cases "lateGoalUsagePath k' = lateGoalUsagePath k")
      case True
      then have "x = l" using x load ledger_same_path [of k' k d] by (simp add: holds_iff)
      then show ?thesis using at ledger_same_path [OF True] x keeps ledger_docs.holds_files [of d' d] by auto
    next
      case False
      then show ?thesis using x ledger_docs.save_other [of k' l' d] path run by auto
    qed
  qed
  show "run_journals adm d' = run_journals adm d"
    by (rule journals_other) (use ledger_docs.save_frame [of _ l' d] run in auto)
qed

abbreviation ledgers_only :: "admission_parser \<Rightarrow> StoreDir \<Rightarrow> StoreDir \<Rightarrow> bool" where
  "ledgers_only adm d d' \<equiv> ledgers_kept d d' \<and> run_journals adm d' = run_journals adm d"

lemma ledgers_only_refl: "ledgers_only adm d d"
  by auto

lemma saved_ledgers_only:
  assumes "late_ledgers d k = Some l" "ledger_keeps l l'" "saveLateGoalUsageLocked l' d = (s, d')"
  shows "ledgers_only adm d d'"
  by (intro conjI save_ledger_keeps [OF assms(1) [unfolded holds_iff] assms(2,3)])

lemma mutate_late_keeps:
  assumes f: "\<And>l l'. f l = Inr l' \<Longrightarrow> ledger_keeps l l'" and run: "mutateLateGoalUsage now k f d = (r, d')"
  shows "ledgers_only adm d d'"
proof -
  let ?f = "\<lambda>l. bind_r (f l) (\<lambda>l'. Inr (l'\<lparr> lu_UpdatedAt := now \<rparr>))"
  have keeps: "ledger_keeps l l'" if "?f l = Inr l'" for l l'
    using that f by (cases "f l") (auto simp: bind_r_def ledger_keeps_time)
  have key: "\<forall>l l'. loadLateGoalUsageLocked k d = Inr l \<longrightarrow> ?f l = Inr l' \<longrightarrow> ledger_key l' = ledger_key l"
    using keeps unfolding ledger_keeps_def by blast
  consider "d' = d" | "update_document loadLateGoalUsageLocked saveLateGoalUsageLocked k ?f d = (r, d')"
    using io_open_cases [OF run [unfolded mutateLateGoalUsage_def]] by blast
  then show ?thesis
  proof cases
    case 2
    from key 2 show ?thesis
    proof (cases rule: ledger_docs.update_cases)
      case (updated l l')
      show ?thesis by (rule saved_ledgers_only [OF updated(2) keeps [OF updated(3)] updated(5)])
    next
      case (refused e)
      show ?thesis unfolding refused(2) by (rule ledgers_only_refl)
    next
      case (failed e l l')
      show ?thesis by (rule saved_ledgers_only [OF failed(2) keeps [OF failed(3)] failed(4)])
    qed
  next
    case 1
    show ?thesis unfolding 1 by (rule ledgers_only_refl)
  qed
qed

lemma queue_late_cases:
  assumes run: "QueueLateGoalUsage now k u d = (r, d')"
  obtains (refused) e where "r = Inl e" "d' = d"
  | (replayed) l l' where "r = Inr l'" "late_ledgers d k = Some l" "queue_late now u l = Inr (l', False)" "d' = d"
  | (written) l l' s where "late_ledgers d k = Some l" "queue_late now u l = Inr (l', True)" "saveLateGoalUsageLocked l' d = (s, d')"
      "r = bind_r s (\<lambda>_. Inr l')"
  using io_open_cases [OF run [unfolded QueueLateGoalUsage_def]]
  by (auto simp: io_bind_def io_read_def io_lift_def io_return_def bind_r_def holds_iff split: sum.splits prod.splits if_splits)

lemma queue_late_kept:
  assumes run: "QueueLateGoalUsage now k u d = (r, d')"
  shows "ledgers_only adm d d'"
  using run
proof (cases rule: queue_late_cases)
  case (written l l' s)
  show ?thesis by (rule saved_ledgers_only [OF written(1) queue_late_keeps [OF written(2)] written(3)])
next
  case (refused e)
  show ?thesis unfolding refused(2) by (rule ledgers_only_refl)
next
  case (replayed l l')
  show ?thesis unfolding replayed(4) by (rule ledgers_only_refl)
qed

subsection \<open>Deletion\<close>

lemma history_fields [simp]:
  "ledger_key (usage_history j now) = journal_Key j" "lu_Fence (usage_history j now) = journal_Fence j"
  by (simp_all add: usage_history_def ledger_key_def journal_Key_def)

text \<open>What the archive of a journal's usage leaves under its key: the whole history where there was no ledger, and otherwise
  the ledger that was there, its empty lists filled.\<close>

definition archive_of :: "time \<Rightarrow> RunJournal \<Rightarrow> StoreDir \<Rightarrow> LateGoalUsageLedger" where
  "archive_of now j d = (case late_ledgers d (journal_Key j) of None \<Rightarrow> usage_history j now | Some l \<Rightarrow> merge_history (usage_history j now) now l)"

text \<open>A list of the ledger that is there and has entries is kept; otherwise the given one takes its place.\<close>

definition kept_or :: "(LateGoalUsageLedger \<Rightarrow> 'a list) \<Rightarrow> LateGoalUsageLedger option \<Rightarrow> 'a list \<Rightarrow> 'a list" where
  "kept_or f l xs = (case l of None \<Rightarrow> xs | Some e \<Rightarrow> if f e = [] then xs else f e)"

lemma archive_lists:
  "lu_DeliveredDeliveries (archive_of now j d)
     = kept_or lu_DeliveredDeliveries (late_ledgers d (journal_Key j)) (filter (\<lambda>x. gd_Kind x = GoalDeliveryUsage) (j_DeliveredGoalDeliveries j))"
  "lu_RetiredDeliveries (archive_of now j d)
     = kept_or lu_RetiredDeliveries (late_ledgers d (journal_Key j)) (filter (\<lambda>r. gd_Kind (gr_Delivery r) = GoalDeliveryUsage) (j_RetiredGoalDeliveries j))"
  "lu_PendingUsageDeliveries (archive_of now j d) = kept_or lu_PendingUsageDeliveries (late_ledgers d (journal_Key j)) []"
  by (simp_all add: archive_of_def kept_or_def merge_history_def usage_history_def Let_def split: option.split)

lemma archive_key: "\<forall>l. late_ledgers d (journal_Key j) = Some l \<longrightarrow> ledger_key l = journal_Key j \<Longrightarrow> ledger_key (archive_of now j d) = journal_Key j"
  using merge_history_keeps [of _ "usage_history j now" now] by (auto simp: archive_of_def ledger_keeps_def split: option.split)

lemma merge_nothing:
  "lu_RetiredDeliveries (merge_history h now l) = [] \<Longrightarrow> lu_DeliveredDeliveries (merge_history h now l) = [] \<Longrightarrow> merge_history h now l = l"
  by (simp add: merge_history_def Let_def split: if_splits)

lemma load_ledger_missing: "loadLateGoalUsageLocked k d = Inl (NotFound r) \<Longrightarrow> map_of (d_files d) (lateGoalUsagePath k) = None"
  by (auto simp: loadLateGoalUsageLocked_def loadLateGoalUsagePathLocked_def split: option.splits store_file.splits if_splits)

lemma archive_cases:
  assumes run: "archiveLateGoalUsageLocked now j d = (a, d1)"
  obtains (refused) e where "a = Inl e" "d1 = d"
  | (unchanged) l where "late_ledgers d (journal_Key j) = Some l" "lu_Fence l = journal_Fence j" "archive_of now j d = l" "a = Inr ()" "d1 = d"
  | (merged) l where "late_ledgers d (journal_Key j) = Some l" "lu_Fence l = journal_Fence j"
      "archive_of now j d = merge_history (usage_history j now) now l" "saveLateGoalUsageLocked (archive_of now j d) d = (a, d1)"
  | (fresh) "map_of (d_files d) (lateGoalUsagePath (journal_Key j)) = None" "archive_of now j d = usage_history j now"
      "saveLateGoalUsageLocked (usage_history j now) d = (a, d1)"
proof (cases "loadLateGoalUsageLocked (journal_Key j) d")
  case (Inl e)
  then have none: "archive_of now j d = usage_history j now" by (simp add: archive_of_def holds_def)
  show ?thesis
  proof (cases e)
    case (NotFound r)
    then show ?thesis using run Inl none load_ledger_missing fresh by (simp add: archiveLateGoalUsageLocked_def Let_def)
  qed (use run Inl refused [of e] in \<open>simp_all add: archiveLateGoalUsageLocked_def Let_def io_fail_def\<close>)
next
  case (Inr l)
  then have h: "late_ledgers d (journal_Key j) = Some l" by (simp add: holds_iff)
  then have e: "archive_of now j d = merge_history (usage_history j now) now l" by (simp add: archive_of_def)
  show ?thesis
    using run Inr h e merge_nothing [of "usage_history j now" now l] refused unchanged [OF h] merged [OF h]
    by (auto simp: archiveLateGoalUsageLocked_def Let_def io_fail_def io_return_def split: if_splits)
qed

lemma fresh_ledgers_only:
  assumes absent: "map_of (d_files d) (lateGoalUsagePath (ledger_key l)) = None" and run: "saveLateGoalUsageLocked l d = (a, d1)"
  shows "ledgers_only adm d d1"
proof
  show "ledgers_kept d d1"
  proof (intro allI impI)
    fix k x assume x: "late_ledgers d k = Some x"
    then have "lateGoalUsagePath k \<noteq> lateGoalUsagePath (ledger_key l)" using absent by (auto simp: holds_iff ledger_docs.load_iff)
    then have "late_ledgers d1 k = Some x" using ledger_docs.save_other [of k l d] run x by simp
    then show "\<exists>l'. late_ledgers d1 k = Some l' \<and> ledger_keeps x l'" using ledger_keeps_refl by blast
  qed
  show "run_journals adm d1 = run_journals adm d"
    by (rule journals_other) (use ledger_docs.save_frame [of _ l d] run in auto)
qed

lemma archive_ledgers_only:
  assumes run: "archiveLateGoalUsageLocked now j d = (a, d1)"
  shows "ledgers_only adm d d1"
  using run
proof (cases rule: archive_cases)
  case (refused e)
  show ?thesis unfolding refused(2) by (rule ledgers_only_refl)
next
  case (unchanged l)
  show ?thesis unfolding unchanged(5) by (rule ledgers_only_refl)
next
  case (merged l)
  show ?thesis by (rule saved_ledgers_only [OF merged(1) _ merged(4)]) (simp add: merged(3) merge_history_keeps)
next
  case fresh
  then show ?thesis by (intro fresh_ledgers_only [OF _ fresh(3)]) simp
qed

lemma archive_result:
  assumes run: "archiveLateGoalUsageLocked now j d = (Inr (), d1)"
  shows "late_ledgers d1 (journal_Key j) = Some (archive_of now j d) \<and> lu_Fence (archive_of now j d) = journal_Fence j"
  using run
proof (cases rule: archive_cases)
  case (merged l)
  have "ledger_keeps l (archive_of now j d)" by (simp add: merged(3) merge_history_keeps)
  then show ?thesis
    using ledger_docs.save_same(1) [of "journal_Key j" d l "archive_of now j d" d] merged(1,2,4) by (simp add: ledger_keeps_def holds_iff)
next
  case fresh
  then show ?thesis using ledger_docs.save_done [of "usage_history j now" d] by (simp add: holds_iff)
qed simp_all

lemma archive_open:
  assumes run: "archiveLateGoalUsageLocked now j d = (a, d1)"
  shows "d_open d1 = d_open d"
  using run by (cases rule: archive_cases) (use ledger_docs.save_open in \<open>metis snd_conv\<close>)+

lemma delete_cases:
  assumes run: "DeleteJournal env k d = (s, d')"
  obtains (refused) e where "s = Inl e" "d' = d"
  | (archiving) j e where "run_journals (env_ParseAdmissionInput env) d k = Some j" "delete_guards env k j = None" "s = Inl e"
      "archiveLateGoalUsageLocked (env_now env) j d = (Inl e, d')"
  | (removing) j d1 where "run_journals (env_ParseAdmissionInput env) d k = Some j" "delete_guards env k j = None"
      "if j_GoalDeliveryEnabled j then archiveLateGoalUsageLocked (env_now env) j d = (Inr (), d1) else d1 = d"
      "remove_file (Err ''delete run journal'') (journalPath k) d1 = (s, d')"
proof -
  let ?load = "loadJournalLocked (env_ParseAdmissionInput env) k d"
  consider "(\<exists>e. s = Inl e) \<and> d' = d" | j where "?load = Inr j" "delete_guards env k j = None"
    "io_bind (if j_GoalDeliveryEnabled j then archiveLateGoalUsageLocked (env_now env) j else io_return ())
       (\<lambda>_. remove_file (Err ''delete run journal'') (journalPath k)) d = (s, d')"
    using io_open_cases [OF run [unfolded DeleteJournal_def]]
    by (auto simp: io_bind_read io_check_def io_fail_def split: sum.splits option.splits)
  then show ?thesis
  proof cases
    case (2 j)
    show ?thesis
    proof (cases "archiveLateGoalUsageLocked (env_now env) j d")
      case (Pair a d1)
      then show ?thesis
        using 2 archiving [of j] removing [of j] by (cases a) (auto simp: holds_iff io_bind_def io_return_def split: if_splits)
    qed
  qed (use refused in blast)
qed

lemma removed_journal:
  assumes before: "run_journals adm d k = Some j" and run: "remove_file e (journalPath k) d = (s, d')"
  shows "run_journals adm d' = (run_journals adm d)(k := None) \<or> (\<exists>x. s = Inl x) \<and> run_journals adm d' = run_journals adm d"
    and "late_ledgers d' = late_ledgers d"
proof -
  note out = remove_file_outcome [OF run, THEN conjunct2]
  show "late_ledgers d' = late_ledgers d" by (rule ledgers_other) (use out in auto)
  have "run_journals adm d' = (run_journals adm d)(k := None)" if gone: "map_of (d_files d') = (map_of (d_files d))(journalPath k := None)"
  proof
    fix k'
    show "run_journals adm d' k' = ((run_journals adm d)(k := None)) k'"
    proof (cases "journalPath k' = journalPath k")
      case True
      then have "run_journals adm d' k' = None" using gone by (simp add: holds_def loadJournalLocked_def)
      then show ?thesis using run_docs.holds_collision [OF before True] by auto
    next
      case False
      then show ?thesis using gone run_docs.load_by_name [of d' k' d adm] by (auto simp: holds_def)
    qed
  qed
  then show "run_journals adm d' = (run_journals adm d)(k := None) \<or> (\<exists>x. s = Inl x) \<and> run_journals adm d' = run_journals adm d"
    using out run_docs.holds_files [of d' d] by blast
qed

subsection \<open>Every step\<close>

lemma update_ledgers_kept:
  assumes "late_ledgers d' = late_ledgers d"
  shows "ledgers_kept d d'"
  using assms ledger_keeps_refl by simp

lemma ledgers_only_lives:
  assumes "ledgers_only (env_ParseAdmissionInput env) d d'"
  shows "run_lives env (run_journals (env_ParseAdmissionInput env) d k) (run_journals (env_ParseAdmissionInput env) d' k) \<and> ledgers_kept d d'"
  using assms by simp

lemma claim_lives:
  assumes run: "SaveClaimIntent (env_ParseAdmissionInput env) size_of i d = (r, d')"
  shows "run_lives env (run_journals (env_ParseAdmissionInput env) d k) (run_journals (env_ParseAdmissionInput env) d' k) \<and> ledgers_kept d d'"
  using run
proof (cases rule: claim_cases)
  case (fresh s)
  let ?adm = "env_ParseAdmissionInput env"
  have none: "run_journals ?adm d (cl_Key i) = None" by (rule fresh_journal [OF fresh(1)])
  have alone: "run_journals ?adm d k' = None" if "journalPath k' = journalPath (journal_Key (claimJournal i))" for k'
    using that fresh(1) fresh_journal [of d k'] by simp
  have "run_lives env (run_journals ?adm d k) (run_journals ?adm d' k)"
    using run_docs.save_refines [OF alone fresh(4)]
      lives_at [of ?adm d' d "cl_Key i" "Some (claimJournal i)" env k] run_life.claimed [OF fresh(2,3)] none by auto
  moreover have "late_ledgers d' = late_ledgers d"
    by (rule ledgers_other) (use run_docs.save_frame [of _ "claimJournal i" ?adm size_of d] fresh(4) in simp)
  ultimately show ?thesis using update_ledgers_kept by blast
qed (use ledgers_only_lives [OF ledgers_only_refl] in simp)

lemma import_lives:
  assumes run: "SaveJournal (env_ParseAdmissionInput env) size_of j d = (s, d')"
  shows "run_lives env (run_journals (env_ParseAdmissionInput env) d k) (run_journals (env_ParseAdmissionInput env) d' k) \<and> ledgers_kept d d'"
proof -
  let ?adm = "env_ParseAdmissionInput env"
  have go: "run_lives env (run_journals ?adm d k) (run_journals ?adm d' k) \<and> ledgers_kept d d'"
    if saved: "saveJournalLocked ?adm size_of j d = (s, d')"
      and at: "map_of (d_files d) (journalPath (journal_Key j)) = None \<or> run_journals ?adm d (journal_Key j) = Some c"
      and life: "validateJournal ?adm j = None \<Longrightarrow> run_life env (run_journals ?adm d (journal_Key j)) (Some j)" for c
  proof -
    have valid: "validateJournal ?adm j = None" if "run_journals ?adm d' (journal_Key j) = Some j" using run_journals_valid [OF that] by simp
    have "run_lives env (run_journals ?adm d k) (run_journals ?adm d' k)"
      using import_docs.save_refines [OF alone_key [OF at] saved] life valid lives_at [of ?adm d' d "journal_Key j" "Some j" env k] by auto
    moreover have "late_ledgers d' = late_ledgers d"
      by (rule ledgers_other) (use import_docs.save_frame [of _ j ?adm size_of d] saved in simp)
    ultimately show ?thesis using update_ledgers_kept by blast
  qed
  from run show ?thesis
  proof (cases rule: import_cases)
    case refused
    then show ?thesis using ledgers_only_lives [OF ledgers_only_refl] by simp
  next
    case (over c)
    have "journal_Key j = journal_Key c" using run_journals_valid [OF over(1)] by simp
    then show ?thesis using go [OF over(3)] over(1,2) run_life.replaced [of c j env] by metis
  next
    case fresh
    then show ?thesis using go [OF fresh(3)] fresh_journal [OF fresh(1)] run_life.created [of j env] by metis
  qed
qed

lemma delete_lives:
  assumes run: "DeleteJournal (env\<lparr> env_now := now \<rparr>) k d = (s, d')"
  shows "run_lives env (run_journals (env_ParseAdmissionInput env) d k') (run_journals (env_ParseAdmissionInput env) d' k') \<and> ledgers_kept d d'"
  using run
proof (cases rule: delete_cases)
  case (archiving j e)
  show ?thesis by (rule ledgers_only_lives [OF archive_ledgers_only [OF archiving(4)]])
next
  case (removing j d1)
  let ?adm = "env_ParseAdmissionInput env"
  have only: "ledgers_only ?adm d d1"
    using removing(3) archive_ledgers_only [of _ j d _ d1] ledgers_only_refl by (auto split: if_splits)
  have at: "run_journals ?adm d k = Some j" "journal_Key j = k" using removing(1) run_journals_valid [of ?adm d k j] by simp_all
  have life: "run_life env (Some j) None" using run_life.deleted removing(2) at(2) by blast
  have gone: "run_journals ?adm d' = (run_journals ?adm d1)(k := None) \<or> run_journals ?adm d' = run_journals ?adm d1" "late_ledgers d' = late_ledgers d1"
    using removed_journal [OF _ removing(4), of ?adm j] at only by auto
  then have "run_lives env (run_journals ?adm d k') (run_journals ?adm d' k')"
    using lives_at [of ?adm d' d k None env k'] life at only by auto
  then show ?thesis using only gone(2) by simp
qed (use ledgers_only_lives [OF ledgers_only_refl] in simp)

lemma store_step_lives:
  assumes "store_step env size_of d d'"
  shows "run_lives env (run_journals (env_ParseAdmissionInput env) d k') (run_journals (env_ParseAdmissionInput env) d' k') \<and> ledgers_kept d d'"
  using assms
proof (cases rule: store_step.cases)
  case (claim i r)
  then show ?thesis by (rule claim_lives)
next
  case (mutate now f k r)
  then show ?thesis
    using mutate_update [OF mutate(2)] update_lives [OF mutate(1)] update_ledgers_kept [OF update_journal(1) [OF mutate(1)]] ledgers_only_refl
    by (metis rtranclp.rtrancl_refl)
next
  case (mutate_changed now f k r)
  then show ?thesis
    using mutate_changed_update [OF mutate_changed(2)] update_lives [OF mutate_changed(1)]
      update_ledgers_kept [OF update_journal(1) [OF mutate_changed(1)]] ledgers_only_refl
    by (metis rtranclp.rtrancl_refl)
next
  case (import j s)
  then show ?thesis by (rule import_lives)
next
  case (delete now k s)
  then show ?thesis by (rule delete_lives)
next
  case (late_queue now k u l)
  show ?thesis by (rule ledgers_only_lives [OF queue_late_kept [OF late_queue]])
next
  case (late_delivered now k i g l)
  show ?thesis by (rule ledgers_only_lives [OF mutate_late_keeps [OF late_delivered_keeps late_delivered [unfolded MarkLateGoalUsageDelivered_def]]])
next
  case (late_retired now k i g st c m at l)
  show ?thesis by (rule ledgers_only_lives [OF mutate_late_keeps [OF late_retired_keeps late_retired [unfolded RetireLateGoalUsage_def]]])
qed

lemma store_steps_lives:
  assumes "store_steps env size_of d d'"
  shows "run_lives env (run_journals (env_ParseAdmissionInput env) d k) (run_journals (env_ParseAdmissionInput env) d' k)" "ledgers_kept d d'"
  using assms
proof (induction rule: rtranclp_induct)
  case base
  { case 1 show ?case by simp }
  { case 2 show ?case using ledger_keeps_refl by blast }
next
  case (step d1 d2)
  { case 1 show ?case using step(3) store_step_lives [OF step(2), of k] by (meson rtranclp_trans) }
  { case 2 show ?case using step(4) store_step_lives [OF step(2), of k] ledger_keeps_trans by meson }
qed

subsection \<open>The operations that queue a delivery are sequences of steps\<close>

lemma LoadLate_same: "LoadLateGoalUsage k d = (r, d') \<Longrightarrow> d' = d"
  using io_open_cases [of "validateKey k" "io_read (loadLateGoalUsageLocked k)" d r d'] by (auto simp: LoadLateGoalUsage_def io_read_def)

lemma queueGoalDelivery_steps:
  "queueGoalDelivery (env_ParseAdmissionInput env) size_of k delivery d = (r, d') \<Longrightarrow> store_steps env size_of d d'"
  by (auto simp: queueGoalDelivery_def io_check_def io_fail_def split: option.splits
    intro: store_step.mutate [where f = "queueGoalDeliveryOnJournal delivery" and now = 0] store_mutation.intros)

lemma unless_late_steps:
  assumes "unless_late k m d = (r, d')" "\<And>r' d1. m d = (r', d1) \<Longrightarrow> store_steps env size_of d d1"
  shows "store_steps env size_of d d'"
  using assms by (auto simp: unless_late_def dest: LoadLate_same split: prod.splits sum.splits gerror.splits)

lemma queue_unless_late_steps:
  assumes "queue_unless_late (env_ParseAdmissionInput env) size_of k delivery d = (r, d')"
  shows "store_steps env size_of d d'"
  using assms unfolding queue_unless_late_def
proof (rule unless_late_steps)
  fix r' d1
  assume run: "(case queueGoalDelivery (env_ParseAdmissionInput env) size_of k delivery d of
      (Inl (NotFound r), d1) \<Rightarrow> unless_late k (io_fail (NotFound r)) d1 | res \<Rightarrow> res) = (r', d1)"
  obtain q d0 where q: "queueGoalDelivery (env_ParseAdmissionInput env) size_of k delivery d = (q, d0)" by fastforce
  have "d1 = d0" using run q
    by (auto simp: unless_late_def io_fail_def dest: LoadLate_same split: sum.splits gerror.splits prod.splits)
  then show "store_steps env size_of d d1" using queueGoalDelivery_steps [OF q] by simp
qed

lemma QueueGoalUsage_steps:
  assumes "QueueGoalUsage env size_of k u d = (r, d')"
  shows "store_steps env size_of d d'"
proof -
  have late: "store_step env size_of d1 d2" if "io_bind (QueueLateGoalUsage now k u) (\<lambda>_. io_return (OnLedger k)) d1 = (x, d2)" for now d1 x d2
    using that by (auto simp: io_bind_def io_return_def intro: store_step.late_queue split: prod.splits sum.splits)
  obtain q d0 where q: "queueGoalDelivery (env_ParseAdmissionInput env) size_of k (usage_delivery zero_fence u) d = (q, d0)" by fastforce
  note steps = queueGoalDelivery_steps [OF q]
  obtain l d1 where l: "LoadLateGoalUsage k d = (l, d1)" by fastforce
  show ?thesis
    using assms q l LoadLate_same [OF l] steps late
    by (auto simp: QueueGoalUsage_def Let_def split: sum.splits gerror.splits prod.splits intro: rtranclp.rtrancl_into_rtrancl r_into_rtranclp)
qed

subsection \<open>A usage is recorded once\<close>

lemma ledger_loop_iff:
  "ledger_loop bad msg idf seen xs =
    (if list_all (\<lambda>x. \<not> bad x) xs \<and> distinct (map idf xs) \<and> set (map idf xs) \<inter> set seen = {} then Inr (rev (map idf xs) @ seen)
     else ledger_loop bad msg idf seen xs)"
  "isl (ledger_loop bad msg idf seen xs) = (\<not> (list_all (\<lambda>x. \<not> bad x) xs \<and> distinct (map idf xs) \<and> set (map idf xs) \<inter> set seen = {}))"
proof (induction xs arbitrary: seen)
  case Nil
  { case 1 show ?case by simp }
  { case 2 show ?case by simp }
next
  case (Cons a xs)
  { case 1 show ?case using Cons(1) [of "idf a # seen"] by (auto split: if_splits) }
  { case 2 show ?case using Cons(2) [of "idf a # seen"] by auto }
qed

lemma ledger_loop_Inr:
  "ledger_loop bad msg idf seen xs = Inr seen' \<longleftrightarrow>
    list_all (\<lambda>x. \<not> bad x) xs \<and> distinct (map idf xs) \<and> set (map idf xs) \<inter> set seen = {} \<and> seen' = rev (map idf xs) @ seen"
  using ledger_loop_iff [of bad msg idf seen xs] by (auto split: if_splits)

definition usage_ids :: "LateGoalUsageLedger \<Rightarrow> string list" where
  "usage_ids l = map gd_DeliveryID (lu_PendingUsageDeliveries l @ lu_DeliveredDeliveries l) @ map (\<lambda>r. gd_DeliveryID (gr_Delivery r)) (lu_RetiredDeliveries l)"

lemma ledger_valid_iff: "validateLateGoalUsageLedger l = None \<longleftrightarrow>
    lu_SchemaVersion l = 1 \<and> validateKey (ledger_key l) = None \<and> f_Generation (lu_Fence l) = lu_Generation l \<and> lu_Fence l \<noteq> zero_fence
    \<and> lu_CreatedAt l \<noteq> 0 \<and> lu_UpdatedAt l \<noteq> 0
    \<and> list_all (\<lambda>d. gd_Kind d = GoalDeliveryUsage \<and> gd_Fence d = lu_Fence l \<and> validatePersistedGoalDelivery (lu_RunID l) d = None)
        (lu_PendingUsageDeliveries l @ lu_DeliveredDeliveries l)
    \<and> list_all gd_Ready (lu_DeliveredDeliveries l)
    \<and> list_all (\<lambda>r. validateGoalDeliveryRetirement (lu_RunID l) (lu_Fence l) r = None \<and> gd_Kind (gr_Delivery r) = GoalDeliveryUsage) (lu_RetiredDeliveries l)
    \<and> distinct (usage_ids l)"
proof -
  have loops: "(case bind_r (ledger_loop b1 m1 f [] as) (\<lambda>s1. bind_r (ledger_loop b2 m2 f s1 bs) (\<lambda>s2. ledger_loop b3 m3 g s2 cs)) of Inl e \<Rightarrow> Some e | Inr _ \<Rightarrow> None) = None
      \<longleftrightarrow> list_all (\<lambda>x. \<not> b1 x) as \<and> list_all (\<lambda>x. \<not> b2 x) bs \<and> list_all (\<lambda>x. \<not> b3 x) cs \<and> distinct (map f (as @ bs) @ map g cs)"
    for b1 b2 :: "GoalDelivery \<Rightarrow> bool" and b3 :: "GoalDeliveryRetirement \<Rightarrow> bool" and m1 m2 m3 f g as bs cs
  proof -
    have "(case r of Inl e \<Rightarrow> Some e | Inr _ \<Rightarrow> None) = None \<longleftrightarrow> (\<exists>x. r = Inr x)" for r :: "string list result" by (cases r) simp_all
    moreover have "bind_r r h = Inr y \<longleftrightarrow> (\<exists>x. r = Inr x \<and> h x = Inr y)" for r :: "string list result" and h and y :: "string list"
      by (cases r) (simp_all add: bind_r_def)
    ultimately show ?thesis by (auto simp: ledger_loop_Inr image_Un)
  qed
  have guard: "(if c then Some e else x) = None \<longleftrightarrow> \<not> c \<and> x = None" for c and e :: gerror and x by simp
  show ?thesis unfolding validateLateGoalUsageLedger_def usage_ids_def guard loops by (auto simp: list_all_iff)
qed

lemma ledger_ids_distinct: "validateLateGoalUsageLedger l = None \<Longrightarrow> distinct (usage_ids l)"
  by (simp add: ledger_valid_iff)

lemma find_distinct:
  "distinct (map f xs) \<Longrightarrow> x \<in> set xs \<Longrightarrow> find (\<lambda>y. f y = f x) xs = Some x"
  by (induction xs) (auto simp: image_iff)

lemma queue_late_replay:
  assumes valid: "validateLateGoalUsageLedger l = None"
    and prep: "prepareGoalDelivery (lu_RunID l) (usage_delivery (lu_Fence l) u) = Inr x"
  shows "x \<in> set (lu_DeliveredDeliveries l) \<Longrightarrow> queue_late now u l = Inr (l, False)"
    and "x \<in> gr_Delivery ` set (lu_RetiredDeliveries l) \<Longrightarrow> queue_late now u l = Inl ErrGoalDeliveryConflict"
proof -
  have ids: "distinct (usage_ids l)" by (rule ledger_ids_distinct [OF valid])
  have pending: "find (\<lambda>y. gd_DeliveryID y = gd_DeliveryID x) (lu_PendingUsageDeliveries l) = None"
    if "gd_DeliveryID x \<in> gd_DeliveryID ` set (lu_DeliveredDeliveries l) \<union> (\<lambda>r. gd_DeliveryID (gr_Delivery r)) ` set (lu_RetiredDeliveries l)"
    using ids that by (force simp: usage_ids_def find_None_iff)
  show "queue_late now u l = Inl ErrGoalDeliveryConflict" if "x \<in> gr_Delivery ` set (lu_RetiredDeliveries l)"
    using pending prep that by (auto simp: queue_late_def bind_r_def Let_def list_ex_iff split: option.split)
  show "queue_late now u l = Inr (l, False)" if d: "x \<in> set (lu_DeliveredDeliveries l)"
  proof -
    have "find (\<lambda>y. gd_DeliveryID y = gd_DeliveryID x) (lu_DeliveredDeliveries l) = Some x"
      using ids d by (intro find_distinct) (auto simp: usage_ids_def)
    moreover have "\<not> list_ex (\<lambda>r. gd_DeliveryID (gr_Delivery r) = gd_DeliveryID x) (lu_RetiredDeliveries l)"
      using ids d by (force simp: usage_ids_def list_ex_iff)
    ultimately show ?thesis using pending prep d by (simp add: queue_late_def bind_r_def Let_def equalGoalDelivery_def)
  qed
qed

lemma QueueGoalUsage_late:
  assumes "d_open d" "validateKey k = None" "late_ledgers d k = Some l" "queue_late (env_now env) u l = q"
  shows "q = Inr (l, False) \<Longrightarrow> QueueGoalUsage env size_of k u d = (Inr (OnLedger k), d)"
    and "q = Inl e \<Longrightarrow> QueueGoalUsage env size_of k u d = (Inl e, d)"
  using assms by (auto simp: QueueGoalUsage_def QueueLateGoalUsage_def LoadLateGoalUsage_def io_check_def io_open_def
    ensureOpenLocked_def io_bind_read io_read_def io_bind_def io_lift_def io_return_def holds_iff Let_def)

text \<open>A usage whose ID is not in the ledger is queued there.\<close>

lemma queue_late_new:
  assumes valid: "validateLateGoalUsageLedger l = None"
    and prep: "prepareGoalDelivery (lu_RunID l) (usage_delivery (lu_Fence l) u) = Inr x"
    and new: "gd_DeliveryID x \<notin> set (usage_ids l)" and now: "now \<noteq> 0"
  defines "l' \<equiv> l\<lparr> lu_PendingUsageDeliveries := lu_PendingUsageDeliveries l @ [x], lu_UpdatedAt := now \<rparr>"
  shows "queue_late now u l = Inr (l', True)" "validateLateGoalUsageLedger l' = None"
proof -
  have find: "find (\<lambda>y. gd_DeliveryID y = gd_DeliveryID x) xs = None" if "gd_DeliveryID x \<notin> gd_DeliveryID ` set xs" for xs
    using that by (force simp: find_None_iff)
  have ids: "gd_DeliveryID x \<notin> gd_DeliveryID ` set (lu_PendingUsageDeliveries l)" "gd_DeliveryID x \<notin> gd_DeliveryID ` set (lu_DeliveredDeliveries l)"
    "\<not> list_ex (\<lambda>r. gd_DeliveryID (gr_Delivery r) = gd_DeliveryID x) (lu_RetiredDeliveries l)"
    using new by (force simp: usage_ids_def list_ex_iff)+
  show "queue_late now u l = Inr (l', True)" using prep find [OF ids(1)] find [OF ids(2)] ids(3) by (simp add: queue_late_def bind_r_def Let_def l'_def)
  have persisted: "validatePersistedGoalDelivery (lu_RunID l) x = None" using prep unfolding validatePersisted_iff prepareGoalDelivery_Inr_iff by auto
  have x: "gd_Kind x = GoalDeliveryUsage" "gd_Fence x = lu_Fence l" using prep unfolding prepareGoalDelivery_Inr_iff by (auto simp: usage_delivery_def)
  have "distinct (usage_ids l')" using new ledger_ids_distinct [OF valid] by (auto simp: usage_ids_def l'_def)
  then show "validateLateGoalUsageLedger l' = None" using valid x persisted now unfolding ledger_valid_iff by (simp add: l'_def ledger_key_def)
qed

lemma QueueGoalUsage_new:
  assumes "d_open d" "validateKey k = None" "late_ledgers d k = Some l" "queue_late (env_now env) u l = Inr (l', True)"
    "validateLateGoalUsageLedger l' = None" "ledger_key l' = k" "d_faults d = []"
  shows "\<exists>d'. QueueGoalUsage env size_of k u d = (Inr (OnLedger k), d') \<and> late_ledgers d' k = Some l'"
proof -
  let ?d' = "d\<lparr> d_files := put_file (lateGoalUsagePath k) (LedgerFile l') (d_files d) \<rparr>"
  have save: "saveLateGoalUsageLocked l' d = (Inr (), ?d')"
    using assms(5-7) by (simp add: saveLateGoalUsageLocked_def io_check_def writeAtomic_def commit_files_def next_fault_def)
  have "QueueGoalUsage env size_of k u d = (Inr (OnLedger k), ?d')"
    using assms(1-4) save by (simp add: QueueGoalUsage_def QueueLateGoalUsage_def LoadLateGoalUsage_def io_check_def io_open_def
      ensureOpenLocked_def io_bind_read io_read_def io_bind_def io_lift_def io_return_def holds_iff Let_def)
  moreover have "late_ledgers ?d' k = Some l'" using assms(5,6) by (simp add: holds_iff ledger_docs.load_iff)
  ultimately show ?thesis by blast
qed

end
