(* ===== verification/Store_Props.thy ===== *)
theory Store_Props
  imports Store_Steps
begin

text \<open>
  What the store of run journals promises its callers, for every sequence of calls and every outcome of their writes: a mutation is one map update,
  the directory refines the life of each run, a deletion archives before it removes, a settled usage is not taken again, and an import cannot touch
  the state that has operations of its own.
\<close>

subsection \<open>A concrete store\<close>

definition sample_late_usage :: Usage where
  "sample_late_usage = \<lparr> u_SchemaVersion = ''symmetry.usage.v1'', u_UsageID = sample_uuid, u_RunID = sample_uuid, u_UsageKey = ''usage-1'',
     u_Provider = ''provider'', u_Model = ''model'', u_InputTokens = Some 3, u_OutputTokens = None, u_CachedInputTokens = None,
     u_CostMicrousd = None, u_CostBasis = ''unknown'', u_PriceVersion = None, u_SupersedesID = None, u_ObservedAt = ''2026-01-02T03:04:05Z'' \<rparr>"

definition charge_of :: "Usage \<Rightarrow> GoalDelivery" where
  "charge_of u = (usage_delivery sample_fence u)\<lparr> gd_PayloadDigest := goalDeliveryDigest (usage_delivery sample_fence u) \<rparr>"

abbreviation sample_charge :: GoalDelivery where
  "sample_charge \<equiv> charge_of sample_late_usage"

definition settled_sample :: RunJournal where
  "settled_sample = sample_journal\<lparr> j_RunID := sample_uuid, j_PendingGoalDeliveries := [], j_DeliveredGoalDeliveries := [sample_charge] \<rparr>"

definition sample_dir :: "RunJournal \<Rightarrow> write_outcome list \<Rightarrow> StoreDir" where
  "sample_dir j fs = \<lparr> d_open = True, d_files = [(journalPath (journal_Key j), JournalFile j)], d_faults = fs \<rparr>"

abbreviation sample_adm :: admission_parser where
  "sample_adm \<equiv> env_ParseAdmissionInput sample_env"

abbreviation small :: "RunJournal \<Rightarrow> int option" where
  "small \<equiv> \<lambda>_. Some 1"

lemma sample_late_usage_valid: "Usage_Validate sample_late_usage = None"
  by code_simp

lemma charge_prepared:
  assumes "Usage_Validate u = None" "u_RunID u = sample_uuid" "validRequiredString (u_UsageKey u) 4096"
  shows "prepareGoalDelivery sample_uuid (usage_delivery sample_fence u) = Inr (charge_of u)"
  using assms unfolding prepareGoalDelivery_Inr_iff charge_of_def
  by (simp add: usage_delivery_def goalDeliveryBody_def validGoalDeliveryKind_def GoalDeliverySessionAttach_def
       GoalDeliverySessionStopped_def GoalDeliveryEvidence_def GoalDeliveryUsage_def deref_def sample_fence_def zero_fence_def wrap_err_def)

lemma sample_usage_key [simp]: "u_RunID sample_late_usage = sample_uuid" "validRequiredString (u_UsageKey sample_late_usage) 4096"
  by (simp_all add: sample_late_usage_def validRequiredString_def)

lemmas sample_charge_prepared = charge_prepared [OF sample_late_usage_valid sample_usage_key]

lemma charge_persisted:
  assumes "prepareGoalDelivery sample_uuid (usage_delivery sample_fence u) = Inr (charge_of u)"
  shows "validatePersistedGoalDelivery sample_uuid (charge_of u) = None"
  using assms unfolding validatePersisted_iff prepareGoalDelivery_Inr_iff by (simp add: charge_of_def)

lemmas sample_charge_persisted = charge_persisted [OF sample_charge_prepared]

lemma charge_fields [simp]: "gd_Ready (charge_of u)" "gd_Fence (charge_of u) = sample_fence" "gd_Kind (charge_of u) = GoalDeliveryUsage"
  "gd_DeliveryID (charge_of u) = u_UsageKey u"
  by (simp_all add: charge_of_def usage_delivery_def)

lemma sample_uuid_key [simp]: "sample_uuid \<noteq> []" "length sample_uuid = 36"
  by (simp_all add: sample_uuid_def)

lemma sample_uuid_not_blank [simp]: "\<not> blank sample_uuid"
  by code_simp

lemma settled_sample_valid: "validateJournal adm settled_sample = None"
  unfolding validity_unfold settled_sample_def
  by (simp add: sample_journal_def zero_journal_def validity_simps sample_parts sample_charge_persisted [unfolded sample_fence_def])

lemma sample_dir_open [simp]: "d_open (sample_dir j fs)"
  by (simp add: sample_dir_def)

lemma sample_dir_load [simp]: "validateJournal adm j = None \<Longrightarrow> loadJournalLocked adm (journal_Key j) (sample_dir j fs) = Inr j"
  by (simp add: loadJournalLocked_def sample_dir_def)

lemma sample_dir_ledgers [simp]: "late_ledgers (sample_dir j fs) k = None"
  by (simp add: holds_def loadLateGoalUsageLocked_def loadLateGoalUsagePathLocked_def sample_dir_def)

lemma valid_key: "validateJournal adm j = None \<Longrightarrow> validateKey (journal_Key j) = None"
  unfolding validateJournal_def by (simp add: then_err_None_iff)

lemma io_check_None: "io_check None m = m"
  by (simp add: io_check_def)

lemma io_open_run: "d_open d \<Longrightarrow> io_open m d = m d"
  by (simp add: io_open_def io_check_def ensureOpenLocked_def)

lemma io_bind_lift: "io_bind (io_lift (Inr x)) f = f x"
  by (simp add: io_bind_def io_lift_def fun_eq_iff)

lemma io_bind_return: "io_bind m (\<lambda>_. io_return y) d = (let (s, d') = m d in (bind_r s (\<lambda>_. Inr y), d'))"
  by (simp add: io_bind_def io_return_def bind_r_def split: prod.split sum.split)

lemmas io_run = io_check_None io_open_run io_bind_read io_bind_lift io_bind_return

lemma mutateJournal_run:
  assumes "d_open d" "loadJournalLocked adm k d = Inr j" "f j = Inr j'" "validateJournal adm j' = None" "journal_Key j' = k"
    "validateJournalSaveCapacity size_of j' = None" "size_of j' = Some n" "n \<le> maxJournalFileBytes"
  shows "mutateJournal adm size_of k f d =
    (let (s, d') = writeAtomic (Err ''write run journal'') (journalPath k) (JournalFile j') d in (bind_r s (\<lambda>_. Inr j'), d'))"
  using assms valid_key [OF assms(4)]
  by (simp add: mutateJournal_def update_document_def io_run saveJournalWithCapacityGuardLocked_def saveJournalLocked_def)

lemma small_capacity [simp]: "validateJournalSaveCapacity small j = None"
  by (simp add: validateJournalSaveCapacity_def validateProviderActionJournalSize_def then_err_None_iff maxJournalFileBytes_def)

lemma sample_write: "journal_Key j' = journal_Key j \<Longrightarrow>
   writeAtomic e (journalPath (journal_Key j)) (JournalFile j') (sample_dir j (w # ws))
     = (if w = Written then Inr () else Inl e, sample_dir (if w = NotWritten then j else j') ws)"
  by (cases w) (simp_all add: writeAtomic_def commit_files_def next_fault_def sample_dir_def)

lemma settled_fence: "journal_Fence settled_sample = sample_fence"
  by (simp add: settled_sample_def sample_journal_def sample_fence_def journal_Fence_def zero_journal_def)

abbreviation sample_ledger :: LateGoalUsageLedger where
  "sample_ledger \<equiv> usage_history settled_sample 7"

lemma sample_ledger_fields:
  "lu_SchemaVersion sample_ledger = 1" "lu_RunID sample_ledger = sample_uuid" "lu_Generation sample_ledger = 1" "lu_PendingUsageDeliveries sample_ledger = []"
  "lu_DeliveredDeliveries sample_ledger = [sample_charge]" "lu_RetiredDeliveries sample_ledger = []" "lu_CreatedAt sample_ledger = 7"
  "lu_UpdatedAt sample_ledger = 7" "f_Generation sample_fence = 1" "sample_fence \<noteq> zero_fence"
  by (simp_all add: usage_history_def settled_sample_def sample_journal_def zero_journal_def sample_fence_def zero_fence_def)

lemma sample_ledger_valid: "validateLateGoalUsageLedger sample_ledger = None"
  by (simp add: validateLateGoalUsageLedger_def settled_fence bind_r_def valid_key [OF settled_sample_valid] sample_ledger_fields sample_charge_persisted)

lemma settled_sample_guards: "delete_guards env (journal_Key settled_sample) settled_sample = None"
  unfolding delete_guards_def checks_None_iff
  by (simp add: settled_sample_def sample_journal_def zero_journal_def HasProcessDetails_def HasPendingContainment_def HasPendingGoalDeliveries_def
    hasUnresolvedProviderActions_def)

definition archived_dir :: "StoreDir" where
  "archived_dir = \<lparr> d_open = True, d_files = [(lateGoalUsagePath (journal_Key settled_sample), LedgerFile sample_ledger)], d_faults = [] \<rparr>"

lemma sample_deletes:
  "DeleteJournal sample_env (journal_Key settled_sample) (sample_dir settled_sample []) = (Inr (), archived_dir)"
proof -
  let ?mid = "(sample_dir settled_sample [])\<lparr> d_files := d_files (sample_dir settled_sample []) @ d_files archived_dir \<rparr>"
  have enabled: "j_GoalDeliveryEnabled settled_sample" by (simp add: settled_sample_def sample_journal_def)
  have now: "env_now sample_env = 7" by (simp add: sample_env_def)
  have archive: "archiveLateGoalUsageLocked 7 settled_sample (sample_dir settled_sample []) = (Inr (), ?mid)"
    by (simp add: archiveLateGoalUsageLocked_def Let_def loadLateGoalUsageLocked_def loadLateGoalUsagePathLocked_def sample_dir_def
      saveLateGoalUsageLocked_def sample_ledger_valid io_run writeAtomic_def commit_files_def next_fault_def archived_dir_def)
  have remove: "remove_file e (journalPath (journal_Key settled_sample)) ?mid = (Inr (), archived_dir)" for e
    by (simp add: remove_file_def commit_files_def next_fault_def sample_dir_def archived_dir_def del_file_def)
  show ?thesis
    by (simp add: DeleteJournal_def io_run valid_key [OF settled_sample_valid] settled_sample_valid settled_sample_guards enabled now
      io_bind_def [of "archiveLateGoalUsageLocked 7 settled_sample"] archive remove)
qed

lemma resolve_mutation: "store_mutation env (ResolveTerminal verdict at)"
  by (rule store_mutation.intros)

lemma sample_mutates:
  "mutateJournal sample_adm small (journal_Key sample_journal) (ResolveTerminal ''accepted'' 7) (sample_dir sample_journal [NotSynced])
     = (Inl (Err ''write run journal''), sample_dir resolved_sample [])"
proof -
  have key: "journal_Key resolved_sample = journal_Key sample_journal" by (simp add: journal_Key_def)
  show ?thesis
    by (subst mutateJournal_run [where j = sample_journal and j' = resolved_sample and n = 1])
       (simp_all add: sample_valid resolved_sample_valid key sample_write [OF key] sample_resolves bind_r_def maxJournalFileBytes_def)
qed

subsection \<open>Mutations\<close>

text \<open>C12: a mutation of a run journal is one update of the map from run keys to journals. Whatever the outcome of its write, the store afterwards
  holds the journals it held, or those with exactly the journal under the key replaced by the mutation's result; an answer without error means the
  replacement took place and is the answer; an error never leaves a third journal. No ledger changes. No assumption on the file names is needed:
  two keys whose names collide never see each other's journal. The update is of the journal as the mutation computed it: that the encoding keeps
  it is part of the model.\<close>

theorem mutation_is_map_update:
  assumes "store_mutation env f" and "mutateJournal (env_ParseAdmissionInput env) size_of k f d = (r, d')"
  shows "late_ledgers d' = late_ledgers d
    \<and> ((\<exists>j j'. r = Inr j' \<and> run_journals (env_ParseAdmissionInput env) d k = Some j \<and> f j = Inr j'
          \<and> run_journals (env_ParseAdmissionInput env) d' = (run_journals (env_ParseAdmissionInput env) d)(k \<mapsto> j'))
     \<or> (\<exists>e. r = Inl e \<and> (run_journals (env_ParseAdmissionInput env) d' = run_journals (env_ParseAdmissionInput env) d
          \<or> (\<exists>j j'. run_journals (env_ParseAdmissionInput env) d k = Some j \<and> f j = Inr j'
               \<and> run_journals (env_ParseAdmissionInput env) d' = (run_journals (env_ParseAdmissionInput env) d)(k \<mapsto> j')))))"
  using mutate_update [OF assms(2)] update_journal(1) [OF assms(1)] update_journal(3) [OF assms(1)] by blast

theorem mutation_is_map_update_witness:
  "\<exists>r d'. mutateJournal sample_adm small (journal_Key sample_journal) (ResolveTerminal ''accepted'' 7) (sample_dir sample_journal [NotSynced]) = (r, d')
    \<and> run_journals sample_adm (sample_dir sample_journal [NotSynced]) (journal_Key sample_journal) = Some sample_journal
    \<and> late_ledgers d' = late_ledgers (sample_dir sample_journal [NotSynced])"
  using mutation_is_map_update [OF resolve_mutation sample_mutates] sample_mutates
  by (simp add: holds_iff sample_valid)

text \<open>C13: the store refines the life of each run. Along any sequence of claims, mutations, imports and deletions of any runs and of ledger operations,
  with any write outcomes and at any times, what the store holds under a key develops by the steps of that run alone: a journal comes into being by a
  claim or an import that brings no authority, changes by an operation of its own or an import that passes the guards, and goes by a deletion that
  passes the guards of deletion. A journal found under a key is the journal of that key.\<close>

theorem run_history_is_journal_history:
  assumes "store_steps env size_of d d'"
  shows "run_lives env (run_journals (env_ParseAdmissionInput env) d k) (run_journals (env_ParseAdmissionInput env) d' k)
    \<and> (\<forall>j. run_journals (env_ParseAdmissionInput env) d' k = Some j \<longrightarrow> journal_Key j = k)"
  using store_steps_lives(1) [OF assms, of k] run_journals_valid [of "env_ParseAdmissionInput env" d' k] by blast

definition sample_intent :: ClaimIntent where
  "sample_intent = \<lparr> cl_Key = \<lparr> k_RunID = ''run'', k_Generation = 1 \<rparr>, cl_RuntimeKey = ''key'', cl_RuntimeID = ''runtime'', cl_RuntimeEpoch = 1,
     cl_ClaimID = ''claim'', cl_LocalState = [], cl_Work = zero_work, cl_WorkspacePath = [], cl_WorkspaceBindingKey = ''binding'' \<rparr>"

abbreviation claimed_sample :: RunJournal where
  "claimed_sample \<equiv> claimJournal sample_intent"

abbreviation recovered_claim :: RunJournal where
  "recovered_claim \<equiv> claimed_sample\<lparr> j_WorkspaceRecoveryRequired := True \<rparr>"

lemma claimed_sample_valid: "validateJournal adm claimed_sample = None" "validateJournal adm recovered_claim = None"
  unfolding validity_unfold by (simp_all add: claimJournal_def sample_intent_def zero_journal_def validity_simps)

lemma sample_claims:
  "SaveClaimIntent sample_adm small sample_intent \<lparr> d_open = True, d_files = [], d_faults = [NotSynced] \<rparr>
     = (Inl (Err ''write run journal''), sample_dir claimed_sample [])"
  using valid_key [OF claimed_sample_valid(1) [of sample_adm]]
  by (simp add: SaveClaimIntent_def Let_def io_run loadJournalLocked_def saveJournalWithCapacityGuardLocked_def saveJournalLocked_def claimed_sample_valid
      maxJournalFileBytes_def writeAtomic_def commit_files_def next_fault_def sample_dir_def bind_r_def)
     (simp add: sample_intent_def validRequiredString_def)

lemma claim_recovers:
  "mutateJournal sample_adm small (cl_Key sample_intent) MarkWorkspaceRecoveryRequired (sample_dir claimed_sample []) = (Inr recovered_claim, sample_dir recovered_claim [])"
proof -
  have key: "journal_Key recovered_claim = cl_Key sample_intent" by (simp add: journal_Key_def claimJournal_def)
  have put: "writeAtomic e (journalPath (cl_Key sample_intent)) (JournalFile recovered_claim) (sample_dir claimed_sample []) = (Inr (), sample_dir recovered_claim [])" for e
    by (simp add: writeAtomic_def commit_files_def next_fault_def sample_dir_def key)
  show ?thesis
    using sample_dir_load [OF claimed_sample_valid(1), of sample_adm "[]"]
    by (subst mutateJournal_run [where j = claimed_sample and j' = recovered_claim and n = 1])
       (simp_all add: claimed_sample_valid key MarkWorkspaceRecoveryRequired_def put bind_r_def maxJournalFileBytes_def)
qed

theorem run_history_is_journal_history_witness:
  "store_steps sample_env small \<lparr> d_open = True, d_files = [], d_faults = [NotSynced] \<rparr> (sample_dir recovered_claim [])
    \<and> run_journals sample_adm (sample_dir recovered_claim []) (cl_Key sample_intent) = Some recovered_claim
    \<and> run_lives sample_env None (Some recovered_claim) \<and> journal_Key recovered_claim = cl_Key sample_intent"
proof -
  let ?d = "\<lparr> d_open = True, d_files = [], d_faults = [NotSynced] \<rparr> :: StoreDir" and ?d' = "sample_dir recovered_claim []" and ?k = "cl_Key sample_intent"
  have one: "store_step sample_env small ?d (sample_dir claimed_sample [])" by (rule store_step.claim [OF sample_claims])
  have two: "store_step sample_env small (sample_dir claimed_sample []) ?d'"
    by (rule store_step.mutate [where now = 8, OF _ claim_recovers]) (rule store_mutation.intros)
  have steps: "store_steps sample_env small ?d ?d'" by (rule converse_rtranclp_into_rtranclp [of "store_step sample_env small"], rule one, rule r_into_rtranclp, rule two)
  have none: "run_journals sample_adm ?d ?k = None" by (simp add: fresh_journal)
  have key: "journal_Key recovered_claim = ?k" by (simp add: journal_Key_def claimJournal_def)
  have some: "run_journals sample_adm ?d' ?k = Some recovered_claim"
    using sample_dir_load [OF claimed_sample_valid(2), of sample_adm "[]"] by (simp add: holds_iff key)
  have "run_lives sample_env None (Some recovered_claim)" using run_history_is_journal_history [OF steps, of ?k] unfolding none some by (rule conjunct1)
  then show ?thesis by (intro conjI steps some key)
qed

subsection \<open>Deletion and late usage\<close>

text \<open>C11: a deletion archives before it removes. Whatever the outcomes of its two writes, either every journal is still in the store, or exactly the
  journal under the key is gone and was settled: no process, no containment, no acknowledgement, delivery, provider action or usage recovery pending.
  A journal that took part in Goal delivery leaves a ledger under its fence. A list of delivered or of retired usage that was empty, or had no ledger,
  is now the journal's; one that was not empty is left as it was, and pending usage stays. An answer without error means the journal is gone.\<close>

theorem deletion_archives_before_removal:
  assumes "DeleteJournal env k d = (s, d')" and "run_journals (env_ParseAdmissionInput env) d k = Some j"
  shows "(s = Inr () \<longrightarrow> run_journals (env_ParseAdmissionInput env) d' k = None)
    \<and> (run_journals (env_ParseAdmissionInput env) d' = run_journals (env_ParseAdmissionInput env) d
      \<or> run_journals (env_ParseAdmissionInput env) d' = (run_journals (env_ParseAdmissionInput env) d)(k := None)
        \<and> \<not> HasProcessDetails j \<and> \<not> HasPendingContainment j \<and> j_PendingCommandAcknowledgements j = [] \<and> j_PendingGoalDeliveries j = []
        \<and> \<not> j_NativeUsageRecoveryRequired j \<and> \<not> hasUnresolvedProviderActions j
        \<and> (j_GoalDeliveryEnabled j \<longrightarrow> (\<exists>l. late_ledgers d' k = Some l \<and> lu_Fence l = journal_Fence j
             \<and> lu_DeliveredDeliveries l = kept_or (lu_DeliveredDeliveries) (late_ledgers d k) (filter (\<lambda>x. gd_Kind x = GoalDeliveryUsage) (j_DeliveredGoalDeliveries j))
             \<and> lu_RetiredDeliveries l = kept_or (lu_RetiredDeliveries) (late_ledgers d k)
                 (filter (\<lambda>r. gd_Kind (gr_Delivery r) = GoalDeliveryUsage) (j_RetiredGoalDeliveries j))
             \<and> lu_PendingUsageDeliveries l = kept_or lu_PendingUsageDeliveries (late_ledgers d k) [])))"
  using assms(1)
proof (cases rule: delete_cases)
  case (archiving i e)
  then show ?thesis using archive_ledgers_only [OF archiving(4), of "env_ParseAdmissionInput env"] by simp
next
  case (removing i d1)
  have i: "i = j" "journal_Key j = k" using removing(1) assms(2) run_journals_valid by auto
  have same: "run_journals (env_ParseAdmissionInput env) d1 = run_journals (env_ParseAdmissionInput env) d"
    using removing(3) archive_ledgers_only [of _ i d _ d1 "env_ParseAdmissionInput env"] by (auto split: if_splits)
  note gone = removed_journal [OF assms(2) [folded same] removing(4)]
  have ledger: "late_ledgers d1 k = Some (archive_of (env_now env) j d) \<and> lu_Fence (archive_of (env_now env) j d) = journal_Fence j" if "j_GoalDeliveryEnabled j"
    using removing(3) archive_result [of _ j d d1] that i by auto
  have settled: "\<not> HasProcessDetails j \<and> \<not> HasPendingContainment j \<and> j_PendingCommandAcknowledgements j = [] \<and> j_PendingGoalDeliveries j = []
      \<and> \<not> j_NativeUsageRecoveryRequired j \<and> \<not> hasUnresolvedProviderActions j"
    using removing(2) unfolding i delete_guards_def checks_None_iff by (simp add: HasPendingGoalDeliveries_def)
  show ?thesis using gone ledger same settled archive_lists [of "env_now env" j d] unfolding i(2) by auto
qed simp

theorem deletion_archives_before_removal_witness:
  "DeleteJournal sample_env (journal_Key settled_sample) (sample_dir settled_sample []) = (Inr (), archived_dir)
    \<and> run_journals sample_adm archived_dir (journal_Key settled_sample) = None
    \<and> (\<exists>l. late_ledgers archived_dir (journal_Key settled_sample) = Some l \<and> lu_DeliveredDeliveries l = [sample_charge])"
proof -
  let ?k = "journal_Key settled_sample" and ?d = "sample_dir settled_sample []"
  have at: "run_journals sample_adm ?d ?k = Some settled_sample" by (simp add: holds_iff settled_sample_valid)
  have fields: "j_GoalDeliveryEnabled settled_sample" "j_DeliveredGoalDeliveries settled_sample = [sample_charge]"
    by (simp_all add: settled_sample_def sample_journal_def)
  have gone: "run_journals sample_adm archived_dir ?k = None" using deletion_archives_before_removal [OF sample_deletes at] by blast
  then have "run_journals sample_adm archived_dir \<noteq> run_journals sample_adm ?d" using at by auto
  then have "\<exists>l. late_ledgers archived_dir ?k = Some l \<and> lu_DeliveredDeliveries l = [sample_charge]"
    using deletion_archives_before_removal [OF sample_deletes at] fields by (auto simp: kept_or_def)
  then show ?thesis using sample_deletes gone by blast
qed

text \<open>C10: accounting that arrives after the run's deletion is never lost. Along any sequence of store operations with any write outcomes a ledger
  stays, under its fence; what it holds as delivered or retired stays so, and a pending usage is pending, delivered or retired.\<close>

theorem late_usage_never_lost:
  assumes "store_steps env size_of d d'" and "late_ledgers d k = Some l"
  shows "\<exists>l'. late_ledgers d' k = Some l' \<and> lu_Fence l' = lu_Fence l
    \<and> set (lu_DeliveredDeliveries l) \<subseteq> set (lu_DeliveredDeliveries l') \<and> set (lu_RetiredDeliveries l) \<subseteq> set (lu_RetiredDeliveries l')
    \<and> set (lu_PendingUsageDeliveries l) \<subseteq> set (lu_PendingUsageDeliveries l') \<union> set (lu_DeliveredDeliveries l') \<union> gr_Delivery ` set (lu_RetiredDeliveries l')"
  using store_steps_lives(2) [OF assms(1)] assms(2) unfolding ledger_keeps_def by blast

theorem late_usage_never_lost_witness:
  "late_ledgers archived_dir (journal_Key settled_sample) = Some sample_ledger
    \<and> (\<exists>l' d' r. QueueLateGoalUsage 9 (journal_Key settled_sample) (sample_late_usage\<lparr> u_UsageKey := ''usage-2'' \<rparr>) archived_dir = (r, d')
        \<and> late_ledgers d' (journal_Key settled_sample) = Some l' \<and> sample_charge \<in> set (lu_DeliveredDeliveries l'))"
proof -
  let ?k = "journal_Key settled_sample" and ?u = "sample_late_usage\<lparr> u_UsageKey := ''usage-2'' \<rparr>"
  have l: "late_ledgers archived_dir ?k = Some sample_ledger"
    by (simp add: holds_iff ledger_docs.load_iff archived_dir_def sample_ledger_valid)
  obtain r d' where run: "QueueLateGoalUsage 9 ?k ?u archived_dir = (r, d')" by fastforce
  have "store_steps sample_env small archived_dir d'" by (rule r_into_rtranclp, rule store_step.late_queue [OF run])
  from late_usage_never_lost [OF this l] l run show ?thesis by (auto simp: sample_ledger_fields)
qed

text \<open>C15: a usage settled before the deletion of its run is not taken a second time after it. Once the journal is deleted, queueing again a usage it
  held as delivered is answered by the ledger and changes nothing, and one it held as retired is refused. This holds when the deletion found no ledger
  under the key, or found the ledger of this run with that list empty or already holding the usage; a ledger from an earlier, unfinished deletion that
  holds other usage in the list is outside, since there the usage is taken again.\<close>

theorem deleted_usage_not_recharged:
  assumes "DeleteJournal env k d = (Inr (), d')" and "run_journals (env_ParseAdmissionInput env) d k = Some j"
    and "j_GoalDeliveryEnabled j" and "\<forall>l. late_ledgers d k = Some l \<longrightarrow> ledger_key l = k"
    and "prepareGoalDelivery (j_RunID j) (usage_delivery (journal_Fence j) u) = Inr x"
  shows "(x \<in> set (j_DeliveredGoalDeliveries j)
        \<and> (\<forall>l. late_ledgers d k = Some l \<longrightarrow> lu_DeliveredDeliveries l = [] \<or> x \<in> set (lu_DeliveredDeliveries l))
        \<longrightarrow> QueueGoalUsage env' size_of k u d' = (Inr (OnLedger k), d'))
    \<and> (x \<in> gr_Delivery ` set (j_RetiredGoalDeliveries j)
        \<and> (\<forall>l. late_ledgers d k = Some l \<longrightarrow> lu_RetiredDeliveries l = [] \<or> x \<in> gr_Delivery ` set (lu_RetiredDeliveries l))
        \<longrightarrow> QueueGoalUsage env' size_of k u d' = (Inl ErrGoalDeliveryConflict, d'))"
  using assms(1)
proof (cases rule: delete_cases)
  case (removing i d1)
  have i: "i = j" "journal_Key j = k" "validateKey k = None"
    using removing(1) assms(2) run_journals_valid [OF assms(2)] valid_key [of "env_ParseAdmissionInput env" j] by auto
  have archive: "archiveLateGoalUsageLocked (env_now env) j d = (Inr (), d1)" using removing(3) i(1) assms(3) by simp
  let ?l = "archive_of (env_now env) j d"
  have "run_journals (env_ParseAdmissionInput env) d1 k = Some j"
    using archive_ledgers_only [OF archive, of "env_ParseAdmissionInput env"] assms(2) by simp
  then have "late_ledgers d' k = late_ledgers d1 k" using removed_journal(2) [OF _ removing(4)] by simp
  then have l: "late_ledgers d' k = Some ?l" and fence: "lu_Fence ?l = journal_Fence j" using archive_result [OF archive] i(2) by simp_all
  have run_id: "lu_RunID ?l = j_RunID j" using archive_key [of d j "env_now env"] assms(4) i(2) by (auto simp: ledger_key_def journal_Key_def)
  have open': "d_open d'"
    using io_open_cases [OF assms(1) [unfolded DeleteJournal_def]] archive_open [OF archive] remove_file_outcome [OF removing(4)] by auto
  have valid: "validateLateGoalUsageLedger ?l = None" using l by (simp add: holds_iff ledger_docs.load_iff)
  have kind: "gd_Kind x = GoalDeliveryUsage" using assms(5) by (auto simp: prepareGoalDelivery_Inr_iff usage_delivery_def)
  have prep: "prepareGoalDelivery (lu_RunID ?l) (usage_delivery (lu_Fence ?l) u) = Inr x" using assms(5) run_id fence by simp
  note replay = queue_late_replay [OF valid prep, of "env_now env'"]
  note lists = archive_lists [of "env_now env" j d, unfolded i(2)]
  have delivered: "x \<in> set (lu_DeliveredDeliveries ?l)" if "x \<in> set (j_DeliveredGoalDeliveries j)"
      "\<forall>l. late_ledgers d k = Some l \<longrightarrow> lu_DeliveredDeliveries l = [] \<or> x \<in> set (lu_DeliveredDeliveries l)"
    using that kind lists(1) by (auto simp: kept_or_def split: option.splits)
  have retired: "x \<in> gr_Delivery ` set (lu_RetiredDeliveries ?l)" if "x \<in> gr_Delivery ` set (j_RetiredGoalDeliveries j)"
      "\<forall>l. late_ledgers d k = Some l \<longrightarrow> lu_RetiredDeliveries l = [] \<or> x \<in> gr_Delivery ` set (lu_RetiredDeliveries l)"
    using that kind lists(2) by (force simp: kept_or_def split: option.splits)
  show ?thesis
    by (intro conjI impI QueueGoalUsage_late(1) [OF open' i(3) l refl] QueueGoalUsage_late(2) [OF open' i(3) l refl] replay delivered retired) auto
qed simp_all

theorem deleted_usage_not_recharged_witness:
  "QueueGoalUsage sample_env small (journal_Key settled_sample) sample_late_usage archived_dir = (Inr (OnLedger (journal_Key settled_sample)), archived_dir)"
proof -
  have fields: "j_GoalDeliveryEnabled settled_sample" "j_RunID settled_sample = sample_uuid" "j_DeliveredGoalDeliveries settled_sample = [sample_charge]"
    by (simp_all add: settled_sample_def sample_journal_def)
  have at: "run_journals sample_adm (sample_dir settled_sample []) (journal_Key settled_sample) = Some settled_sample"
    by (simp add: holds_iff settled_sample_valid)
  show ?thesis
    using deleted_usage_not_recharged [OF sample_deletes at fields(1), of sample_late_usage sample_charge sample_env small]
    by (simp add: fields settled_fence sample_charge_prepared)
qed

text \<open>C16: a usage settled between two deletions of its run is taken again. When a deletion archived the journal's usage but could not remove the journal,
  the ledger is already there with delivered usage, and the archive of the next deletion leaves that list as it is. A usage the journal delivered in
  between is then in no ledger, and after the deletion the store queues it a second time as pending.\<close>

theorem usage_taken_again_after_second_deletion:
  assumes "DeleteJournal env k d = (Inr (), d')" and "run_journals (env_ParseAdmissionInput env) d k = Some j" and "j_GoalDeliveryEnabled j"
    and "late_ledgers d k = Some l" and "ledger_key l = k" and "lu_DeliveredDeliveries l \<noteq> []"
    and "prepareGoalDelivery (j_RunID j) (usage_delivery (journal_Fence j) u) = Inr x" and "x \<in> set (j_DeliveredGoalDeliveries j)"
    and "gd_DeliveryID x \<notin> set (usage_ids l)" and "gd_DeliveryID x \<notin> (\<lambda>r. gd_DeliveryID (gr_Delivery r)) ` set (j_RetiredGoalDeliveries j)"
    and "d_faults d' = []" and "env_now env' \<noteq> 0"
  shows "\<exists>d'' l'. QueueGoalUsage env' size_of k u d' = (Inr (OnLedger k), d'') \<and> late_ledgers d'' k = Some l' \<and> x \<in> set (lu_PendingUsageDeliveries l')"
  using assms(1)
proof (cases rule: delete_cases)
  case (removing i d1)
  have i: "i = j" "journal_Key j = k" "validateKey k = None"
    using removing(1) assms(2) run_journals_valid [OF assms(2)] valid_key [of "env_ParseAdmissionInput env" j] by auto
  have archive: "archiveLateGoalUsageLocked (env_now env) j d = (Inr (), d1)" using removing(3) i(1) assms(3) by simp
  let ?l = "archive_of (env_now env) j d"
  have "run_journals (env_ParseAdmissionInput env) d1 k = Some j"
    using archive_ledgers_only [OF archive, of "env_ParseAdmissionInput env"] assms(2) by simp
  then have "late_ledgers d' k = late_ledgers d1 k" using removed_journal(2) [OF _ removing(4)] by simp
  then have l: "late_ledgers d' k = Some ?l" and fence: "lu_Fence ?l = journal_Fence j" using archive_result [OF archive] i(2) by simp_all
  have key: "ledger_key ?l = k" using archive_key [of d j "env_now env"] assms(4,5) i(2) by simp
  have open': "d_open d'"
    using io_open_cases [OF assms(1) [unfolded DeleteJournal_def]] archive_open [OF archive] remove_file_outcome [OF removing(4)] by auto
  have valid: "validateLateGoalUsageLedger ?l = None" using l by (simp add: holds_iff ledger_docs.load_iff)
  have run_id: "lu_RunID ?l = j_RunID j" using key i(2) by (auto simp: ledger_key_def journal_Key_def)
  have prep: "prepareGoalDelivery (lu_RunID ?l) (usage_delivery (lu_Fence ?l) u) = Inr x" using assms(7) run_id fence by simp
  have new: "gd_DeliveryID x \<notin> set (usage_ids ?l)"
    using assms(6,9,10) archive_lists [of "env_now env" j d] i(2) assms(4) by (auto simp: usage_ids_def kept_or_def split: if_splits)
  note queued = queue_late_new [OF valid prep new assms(12)]
  have "ledger_key (?l\<lparr> lu_PendingUsageDeliveries := lu_PendingUsageDeliveries ?l @ [x], lu_UpdatedAt := env_now env' \<rparr>) = k"
    using key by (simp add: ledger_key_def)
  from QueueGoalUsage_new [OF open' i(3) l queued this assms(11), of size_of] show ?thesis by auto
qed simp_all

text \<open>Such a run: the first deletion cannot remove the journal; a native usage recovery then queues a second usage, which is delivered.\<close>

abbreviation second_usage :: Usage where
  "second_usage \<equiv> sample_late_usage\<lparr> u_UsageKey := ''usage-2'' \<rparr>"

abbreviation twice_settled :: RunJournal where
  "twice_settled \<equiv> settled_sample\<lparr> j_DeliveredGoalDeliveries := [sample_charge, charge_of second_usage] \<rparr>"

abbreviation queued_again :: RunJournal where
  "queued_again \<equiv> settled_sample\<lparr> j_NativeUsageRecoveryRequired := True, j_PendingGoalDeliveries := [charge_of second_usage] \<rparr>"

abbreviation settled_key :: RunKey where
  "settled_key \<equiv> journal_Key settled_sample"

definition both_dir :: "RunJournal \<Rightarrow> StoreDir" where
  "both_dir j = \<lparr> d_open = True, d_files = [(journalPath settled_key, JournalFile j), (lateGoalUsagePath settled_key, LedgerFile sample_ledger)], d_faults = [] \<rparr>"

lemma second_usage_valid: "Usage_Validate second_usage = None"
  by code_simp

lemma second_charge_prepared: "prepareGoalDelivery sample_uuid (usage_delivery sample_fence second_usage) = Inr (charge_of second_usage)"
  by (rule charge_prepared [OF second_usage_valid]) (simp_all add: validRequiredString_def)

lemma sample_usage_ids [simp]: "u_UsageKey sample_late_usage = ''usage-1''"
  by (simp add: sample_late_usage_def)

lemmas second_parts = sample_parts sample_charge_persisted [unfolded sample_fence_def] charge_persisted [OF second_charge_prepared, unfolded sample_fence_def]

lemma second_samples_valid: "validateJournal adm queued_again = None" "validateJournal adm (twice_settled\<lparr> j_NativeUsageRecoveryRequired := True \<rparr>) = None"
  "validateJournal adm twice_settled = None"
  unfolding validity_unfold settled_sample_def
  by (simp_all add: sample_journal_def zero_journal_def validity_simps second_parts goalDeliveryIdentity_def)

lemma second_keys: "journal_Key queued_again = settled_key" "journal_Key twice_settled = settled_key"
  "journal_Key (twice_settled\<lparr> j_NativeUsageRecoveryRequired := b \<rparr>) = settled_key"
  by (simp_all add: journal_Key_def)

lemma both_dir_open [simp]: "d_open (both_dir j)"
  by (simp add: both_dir_def)

lemma both_dir_steps:
  assumes "store_mutation (sample_env\<lparr> env_now := now \<rparr>) f" "f j = Inr j'" "validateJournal sample_adm j = None" "validateJournal sample_adm j' = None"
    "journal_Key j = settled_key" "journal_Key j' = settled_key"
  shows "store_step sample_env small (both_dir j) (both_dir j')"
proof -
  have load: "loadJournalLocked sample_adm settled_key (both_dir j) = Inr j" using assms(3,5) by (simp add: loadJournalLocked_def both_dir_def)
  have put: "writeAtomic e (journalPath settled_key) (JournalFile j') (both_dir j) = (Inr (), both_dir j')" for e
    by (simp add: writeAtomic_def commit_files_def next_fault_def both_dir_def)
  have "mutateJournal sample_adm small settled_key f (both_dir j) = (Inr j', both_dir j')"
    using load assms put by (subst mutateJournal_run [where j = j and j' = j' and n = 1]) (simp_all add: both_dir_def bind_r_def maxJournalFileBytes_def)
  then show ?thesis by (rule store_step.mutate [OF assms(1)])
qed

lemma settled_fields: "j_RunID settled_sample = sample_uuid" "k_RunID settled_key = sample_uuid" "j_GoalDeliveryEnabled settled_sample" "hasClaimGrant settled_sample"
  "j_PendingGoalDeliveries settled_sample = []" "j_DeliveredGoalDeliveries settled_sample = [sample_charge]" "j_RetiredGoalDeliveries settled_sample = []"
  "\<not> j_NativeUsageRecoveryRequired settled_sample" "j_NativeUsageTerminalRecovery settled_sample = None"
  by (simp_all add: settled_sample_def sample_journal_def zero_journal_def hasClaimGrant_def journal_Key_def)

lemma second_deletion_reached: "store_steps sample_env small (sample_dir settled_sample [Written, NotWritten]) (both_dir twice_settled)"
proof -
  let ?mid = "both_dir settled_sample\<lparr> d_faults := [NotWritten] \<rparr>"
  have archive: "archiveLateGoalUsageLocked 7 settled_sample (sample_dir settled_sample [Written, NotWritten]) = (Inr (), ?mid)"
    by (simp add: archiveLateGoalUsageLocked_def Let_def loadLateGoalUsageLocked_def loadLateGoalUsagePathLocked_def sample_dir_def
      saveLateGoalUsageLocked_def sample_ledger_valid io_run writeAtomic_def commit_files_def next_fault_def both_dir_def)
  have remove: "remove_file e (journalPath settled_key) ?mid = (Inl e, both_dir settled_sample)" for e
    by (simp add: remove_file_def commit_files_def next_fault_def both_dir_def)
  have "DeleteJournal (sample_env\<lparr> env_now := 7 \<rparr>) settled_key (sample_dir settled_sample [Written, NotWritten]) = (Inl (Err ''delete run journal''), both_dir settled_sample)"
    by (simp add: DeleteJournal_def io_run valid_key [OF settled_sample_valid] settled_sample_valid settled_sample_guards settled_fields
      io_bind_def [of "archiveLateGoalUsageLocked 7 settled_sample"] archive remove)
  then have one: "store_step sample_env small (sample_dir settled_sample [Written, NotWritten]) (both_dir settled_sample)" by (rule store_step.delete)
  have queue: "QueueNativeUsageRecoverySettlement settled_key second_usage None settled_sample = Inr queued_again"
    using settled_fence second_charge_prepared
    by (simp add: QueueNativeUsageRecoverySettlement_def second_usage_valid settled_fields mergeNativeUsageTerminalRecovery_def bind_r_def journal_Fence_def
      enqueue_delivery_def Let_def same_delivery_id_def)
  have two: "store_step sample_env small (both_dir settled_sample) (both_dir queued_again)"
    by (rule both_dir_steps [where now = 8 and f = "QueueNativeUsageRecoverySettlement settled_key second_usage None"])
       (simp_all add: store_mutation.intros queue settled_sample_valid second_samples_valid second_keys)
  have deliver: "MarkGoalDeliveryDelivered GoalDeliveryUsage ''usage-2'' (gd_PayloadDigest (charge_of second_usage)) queued_again
      = Inr (twice_settled\<lparr> j_NativeUsageRecoveryRequired := True \<rparr>)"
    by (simp add: MarkGoalDeliveryDelivered_def settled_fields validGoalDeliveryKind_def same_delivery_id_def remove_first_def validRequiredString_def)
       (simp add: charge_of_def)
  have three: "store_step sample_env small (both_dir queued_again) (both_dir (twice_settled\<lparr> j_NativeUsageRecoveryRequired := True \<rparr>))"
    by (rule both_dir_steps [where now = 9 and f = "MarkGoalDeliveryDelivered GoalDeliveryUsage ''usage-2'' (gd_PayloadDigest (charge_of second_usage))"])
       (simp_all add: store_mutation.intros deliver second_samples_valid second_keys)
  have clear: "ClearNativeUsageRecoveryRequired settled_key second_usage (twice_settled\<lparr> j_NativeUsageRecoveryRequired := True \<rparr>) = Inr twice_settled"
    using settled_fence second_charge_prepared
    by (simp add: ClearNativeUsageRecoveryRequired_def second_usage_valid settled_fields hasExactUsageDelivery_def journal_Fence_def equalGoalDelivery_def)
  have four: "store_step sample_env small (both_dir (twice_settled\<lparr> j_NativeUsageRecoveryRequired := True \<rparr>)) (both_dir twice_settled)"
    by (rule both_dir_steps [where now = 10 and f = "ClearNativeUsageRecoveryRequired settled_key second_usage"])
       (simp_all add: store_mutation.intros clear second_samples_valid second_keys)
  show ?thesis by (rule one two three four rtranclp.rtrancl_refl converse_rtranclp_into_rtranclp [of "store_step sample_env small"])+
qed

lemma sample_deletes_again:
  "DeleteJournal sample_env settled_key (both_dir twice_settled) = (Inr (), archived_dir)"
proof -
  have now: "env_now sample_env = 7" by (simp add: sample_env_def)
  have key: "journal_Key twice_settled = settled_key" "journal_Fence twice_settled = sample_fence"
    using settled_fence by (simp_all add: journal_Key_def journal_Fence_def)
  have load: "loadJournalLocked sample_adm settled_key (both_dir twice_settled) = Inr twice_settled"
    by (simp add: loadJournalLocked_def both_dir_def second_samples_valid key)
  have guards: "delete_guards sample_env settled_key twice_settled = None"
    using settled_sample_guards [of sample_env] unfolding delete_guards_def checks_None_iff
    by (simp add: HasProcessDetails_def HasPendingContainment_def HasPendingGoalDeliveries_def hasUnresolvedProviderActions_def)
       (simp add: settled_sample_def sample_journal_def zero_journal_def)
  have ledger: "loadLateGoalUsageLocked settled_key (both_dir twice_settled) = Inr sample_ledger"
    by (simp add: loadLateGoalUsageLocked_def loadLateGoalUsagePathLocked_def both_dir_def sample_ledger_valid)
  have merged: "merge_history (usage_history twice_settled 7) 7 sample_ledger = sample_ledger"
    by (simp add: merge_history_def Let_def sample_ledger_fields) (simp add: usage_history_def settled_fields)
  have archive: "archiveLateGoalUsageLocked 7 twice_settled (both_dir twice_settled) = (Inr (), both_dir twice_settled)"
    by (simp add: archiveLateGoalUsageLocked_def Let_def key ledger merged sample_ledger_fields settled_fence saveLateGoalUsageLocked_def sample_ledger_valid io_run)
       (simp add: writeAtomic_def commit_files_def next_fault_def both_dir_def)
  have remove: "remove_file e (journalPath settled_key) (both_dir twice_settled) = (Inr (), archived_dir)" for e
    by (simp add: remove_file_def commit_files_def next_fault_def both_dir_def archived_dir_def del_file_def)
  show ?thesis
    by (simp add: DeleteJournal_def io_run valid_key [OF settled_sample_valid] load guards settled_fields now io_bind_def [of "archiveLateGoalUsageLocked 7 twice_settled"] archive remove)
qed

theorem usage_taken_again_after_second_deletion_witness:
  "store_steps sample_env small (sample_dir settled_sample [Written, NotWritten]) (both_dir twice_settled)
    \<and> run_journals sample_adm (both_dir twice_settled) settled_key = Some twice_settled \<and> charge_of second_usage \<in> set (j_DeliveredGoalDeliveries twice_settled)
    \<and> DeleteJournal sample_env settled_key (both_dir twice_settled) = (Inr (), archived_dir)
    \<and> (\<exists>d l. QueueGoalUsage sample_env small settled_key second_usage archived_dir = (Inr (OnLedger settled_key), d)
         \<and> late_ledgers d settled_key = Some l \<and> charge_of second_usage \<in> set (lu_PendingUsageDeliveries l))"
proof -
  have at: "run_journals sample_adm (both_dir twice_settled) settled_key = Some twice_settled"
    by (simp add: holds_def loadJournalLocked_def both_dir_def second_samples_valid) (simp add: journal_Key_def)
  have ledger: "late_ledgers (both_dir twice_settled) settled_key = Some sample_ledger"
    by (simp add: holds_def loadLateGoalUsageLocked_def loadLateGoalUsagePathLocked_def both_dir_def sample_ledger_valid)
  have fence: "journal_Fence twice_settled = sample_fence" using settled_fence by (simp add: journal_Fence_def)
  have "\<exists>d l. QueueGoalUsage sample_env small settled_key second_usage archived_dir = (Inr (OnLedger settled_key), d)
         \<and> late_ledgers d settled_key = Some l \<and> charge_of second_usage \<in> set (lu_PendingUsageDeliveries l)"
    by (rule usage_taken_again_after_second_deletion [OF sample_deletes_again at _ ledger])
       (simp_all add: settled_fields fence second_charge_prepared sample_ledger_fields usage_ids_def archived_dir_def sample_env_def)
  then show ?thesis using second_deletion_reached at sample_deletes_again by simp
qed

subsection \<open>Imports\<close>

lemma import_result:
  assumes run: "SaveJournal adm size_of j d = (s, d')" and before: "run_journals adm d k = Some c" and after: "run_journals adm d' k = Some c'"
  shows "c' = c \<or> c' = j \<and> import_over c j = None"
  using run
proof (cases rule: import_cases)
  case refused
  then show ?thesis using before after by simp
next
  case (over i)
  show ?thesis
  proof (cases "journalPath k = journalPath (journal_Key j)")
    case True
    then have "k = journal_Key j" using run_docs.holds_collision [OF over(1) True] before by auto
    then show ?thesis
      using over before after import_docs.save_done [where adm = adm and size_of = size_of and j = j and d = d]
        import_docs.save_failed [where adm = adm and size_of = size_of and j = j and d = d] run_docs.load_files [of d' d]
      by (cases s) (auto simp: holds_iff)
  next
    case False
    then show ?thesis using over(3) before after import_docs.save_other [of k j adm size_of d] by simp
  qed
next
  case fresh
  then have "journalPath k \<noteq> journalPath (journal_Key j)" using before by (auto simp: holds_iff run_docs.load_iff)
  then show ?thesis using fresh(3) before after import_docs.save_other [of k j adm size_of d] by simp
qed

text \<open>The handoff without its request-only field, which has no place in the file.\<close>

abbreviation durable_handoff :: "RunJournal \<Rightarrow> SupervisorHandoff option" where
  "durable_handoff j \<equiv> map_option (\<lambda>h. h\<lparr> ho_ScanUpdate := None \<rparr>) (j_ContainmentHandoff j)"

lemma eq_ptr_handoff:
  "eq_ptr SupervisorHandoff_Equal l r = (map_option (\<lambda>h. h\<lparr> ho_ScanUpdate := None \<rparr>) l = map_option (\<lambda>h. h\<lparr> ho_ScanUpdate := None \<rparr>) r)"
  by (cases l; cases r) (simp_all add: SupervisorHandoff_Equal_iff)

lemma eq_ptr_records:
  "eq_ptr ReleaseProof_Equal rp rp' = (rp = rp')" "eq_ptr PreGateReleaseProof_Equal pp pp' = (pp = pp')" "eq_ptr Supervisor_Equal sv sv' = (sv = sv')"
  "eq_ptr Reservation_Equal rs rs' = (rs = rs')" "eq_ptr LinuxCloneAbortProof_Equal ap ap' = (ap = ap')" "eq_ptr CleanupIntent_Equal ci ci' = (ci = ci')"
  "eq_ptr TargetRemovalProof_Equal tp tp' = (tp = tp')" "eq_ptr CleanupProof_Equal cp cp' = (cp = cp')" "eq_ptr PromotionReceipt_Equal pr pr' = (pr = pr')"
  "eq_ptr SeedReceipt_Equal sr sr' = (sr = sr')" "eq_ptr PromotionIntent_Equal pi pi' = (pi = pi')" "eq_ptr CheckoutReceipt_Equal cr cr' = (cr = cr')" "eq_ptr LinuxCloneIntent_Equal li li' = (li = li')"
  by (rule eq_ptr_iff_eq, simp)+

lemma import_over_fields:
  assumes "import_over c j = None"
  shows "j_ContainmentAuthority j = j_ContainmentAuthority c" "durable_handoff j = durable_handoff c" "j_ContainmentCgroup j = j_ContainmentCgroup c"
    "j_ContainmentScans j = j_ContainmentScans c" "j_ContainmentCgroupReleaseProof j = j_ContainmentCgroupReleaseProof c"
    "j_ContainmentCgroupPreGateReleaseProof j = j_ContainmentCgroupPreGateReleaseProof c" "j_LinuxCloneIntent j = j_LinuxCloneIntent c"
    "j_LinuxCloneSeedReceipt j = j_LinuxCloneSeedReceipt c" "j_LinuxCloneCheckoutReceipt j = j_LinuxCloneCheckoutReceipt c"
    "j_LinuxClonePromotionIntent j = j_LinuxClonePromotionIntent c" "j_LinuxClonePromotionReceipt j = j_LinuxClonePromotionReceipt c"
    "j_LinuxCloneAbortProof j = j_LinuxCloneAbortProof c" "j_LinuxCloneCleanupIntent j = j_LinuxCloneCleanupIntent c"
    "j_LinuxCloneTargetRemovalProof j = j_LinuxCloneTargetRemovalProof c" "j_LinuxCloneCleanupProof j = j_LinuxCloneCleanupProof c"
    "j_PID j = j_PID c" "j_ProcessIdentity j = j_ProcessIdentity c" "j_StartedAt j = j_StartedAt c" "j_ContainmentUnproven j = j_ContainmentUnproven c"
    "j_TerminalTaskResultKind j = j_TerminalTaskResultKind c" "j_LinuxCloneAbortPending j = j_LinuxCloneAbortPending c"
    "j_LinuxCloneCleanupPending j = j_LinuxCloneCleanupPending c" "(j_LocalState j = ''cleanup_pending'') = (j_LocalState c = ''cleanup_pending'')"
  using assms unfolding import_over_def checks_None_iff by (simp_all only: list.set ball_simps fst_conv eq_ptr_handoff eq_ptr_records de_Morgan_disj not_not)

lemma import_over_fence:
  assumes "import_over c j = None"
  shows "j_ContainmentCgroup c \<noteq> None \<or> j_LinuxCloneIntent c \<noteq> None \<Longrightarrow>
      (j_RuntimeKey j, j_RuntimeID j, j_ClaimedRuntimeEpoch j, j_ClaimID j, j_LeaseToken j, j_LeaseExpiresAt j)
      = (j_RuntimeKey c, j_RuntimeID c, j_ClaimedRuntimeEpoch c, j_ClaimID c, j_LeaseToken c, j_LeaseExpiresAt c)"
    and "j_LinuxCloneIntent c \<noteq> None \<and> j_RetainWorkspace c \<Longrightarrow> j_RetainWorkspace j"
    and "j_LinuxCloneIntent c \<noteq> None \<and> (j_LinuxCloneCleanupPending c \<or> j_LinuxCloneCleanupIntent c \<noteq> None) \<Longrightarrow> j_RetainWorkspace j = j_RetainWorkspace c"
  using assms unfolding import_over_def checks_None_iff list.set ball_simps fst_conv de_Morgan_conj de_Morgan_disj not_not by metis+

text \<open>C14: importing a journal over an existing one cannot forge what the import guards. Whatever the import answers, the journal afterwards under the
  key is the old one, or the imported one with the same containment authority, handoff, reservation, scans and release proofs, the same clone records
  and clone flags, the same process details, containment uncertainty and terminal result kind, and in cleanup exactly if the old one was. Where a
  reservation or a clone is recorded the runtime, the fence and the lease are the same; a retained clone stays retained, and once its cleanup has begun
  the retention is the same. The import decides freely on everything else: the terminal state with its digests and verdict, the outboxes, histories and
  intents, the workspace path, and the lease of a run with neither reservation nor clone.\<close>

theorem import_keeps_protected_state:
  assumes "SaveJournal adm size_of j d = (s, d')" and "run_journals adm d k = Some c" and "run_journals adm d' k = Some c'"
  shows "c' = c \<or> c' = j
    \<and> (j_ContainmentAuthority j, durable_handoff j, j_ContainmentCgroup j, j_ContainmentScans j)
      = (j_ContainmentAuthority c, durable_handoff c, j_ContainmentCgroup c, j_ContainmentScans c)
    \<and> (j_ContainmentCgroupReleaseProof j, j_ContainmentCgroupPreGateReleaseProof j)
      = (j_ContainmentCgroupReleaseProof c, j_ContainmentCgroupPreGateReleaseProof c)
    \<and> (j_LinuxCloneIntent j, j_LinuxCloneSeedReceipt j, j_LinuxCloneCheckoutReceipt j, j_LinuxClonePromotionIntent j, j_LinuxClonePromotionReceipt j)
      = (j_LinuxCloneIntent c, j_LinuxCloneSeedReceipt c, j_LinuxCloneCheckoutReceipt c, j_LinuxClonePromotionIntent c, j_LinuxClonePromotionReceipt c)
    \<and> (j_LinuxCloneAbortPending j, j_LinuxCloneAbortProof j, j_LinuxCloneCleanupPending j, j_LinuxCloneCleanupIntent j, j_LinuxCloneTargetRemovalProof j,
         j_LinuxCloneCleanupProof j)
      = (j_LinuxCloneAbortPending c, j_LinuxCloneAbortProof c, j_LinuxCloneCleanupPending c, j_LinuxCloneCleanupIntent c, j_LinuxCloneTargetRemovalProof c,
         j_LinuxCloneCleanupProof c)
    \<and> (j_PID j, j_ProcessIdentity j, j_StartedAt j, j_ContainmentUnproven j, j_TerminalTaskResultKind j)
      = (j_PID c, j_ProcessIdentity c, j_StartedAt c, j_ContainmentUnproven c, j_TerminalTaskResultKind c)
    \<and> (j_LocalState j = ''cleanup_pending'') = (j_LocalState c = ''cleanup_pending'')
    \<and> (j_ContainmentCgroup c \<noteq> None \<or> j_LinuxCloneIntent c \<noteq> None \<longrightarrow>
        j_RuntimeKey j = j_RuntimeKey c \<and> journal_Fence j = journal_Fence c \<and> j_LeaseExpiresAt j = j_LeaseExpiresAt c)
    \<and> (j_LinuxCloneIntent c \<noteq> None \<and> j_RetainWorkspace c \<longrightarrow> j_RetainWorkspace j)
    \<and> (j_LinuxCloneIntent c \<noteq> None \<and> (j_LinuxCloneCleanupPending c \<or> j_LinuxCloneCleanupIntent c \<noteq> None) \<longrightarrow> j_RetainWorkspace j = j_RetainWorkspace c)"
  using import_result [OF assms]
proof
  assume imported: "c' = j \<and> import_over c j = None"
  then have guards: "import_over c j = None" by simp
  have "j_Generation j = j_Generation c"
    using imported run_journals_valid [OF assms(2)] run_journals_valid [OF assms(3)] by (auto simp: journal_Key_def)
  then show ?thesis
    using imported import_over_fence [OF guards] by (simp add: import_over_fields [OF guards, THEN sym] journal_Fence_def)
qed simp

text \<open>A journal with a workspace clone is imported with the workspace marked for recovery.\<close>

abbreviation clone_adm :: admission_parser where
  "clone_adm \<equiv> env_ParseAdmissionInput clone_env"

lemma recovering_sample_key: "journal_Key recovering_sample = journal_Key seeded_sample"
  by (simp add: journal_Key_def)

lemma recovering_sample_guards: "import_over seeded_sample recovering_sample = None"
  unfolding import_over_def checks_None_iff by (simp add: eq_ptr_handoff eq_ptr_records)

lemma sample_imports: "SaveJournal clone_adm small recovering_sample (sample_dir seeded_sample []) = (Inr (), sample_dir recovering_sample [])"
proof -
  have put: "writeAtomic e (journalPath (journal_Key seeded_sample)) (JournalFile recovering_sample) (sample_dir seeded_sample [])
      = (Inr (), sample_dir recovering_sample [])" for e
    by (simp add: writeAtomic_def commit_files_def next_fault_def sample_dir_def recovering_sample_key)
  show ?thesis
    by (simp add: SaveJournal_def io_run clone_samples_valid recovering_sample_key recovering_sample_guards saveJournalLocked_def
      maxJournalFileBytes_def put)
qed

theorem import_keeps_protected_state_witness:
  "SaveJournal clone_adm small recovering_sample (sample_dir seeded_sample []) = (Inr (), sample_dir recovering_sample [])
    \<and> j_LinuxCloneIntent seeded_sample \<noteq> None \<and> journal_Fence recovering_sample = journal_Fence seeded_sample
    \<and> j_LeaseExpiresAt recovering_sample = j_LeaseExpiresAt seeded_sample"
proof -
  have intent: "j_LinuxCloneIntent seeded_sample \<noteq> None" and other: "recovering_sample \<noteq> seeded_sample"
    by (simp_all add: cloned_sample_def sample_journal_def zero_journal_def)
  have "run_journals clone_adm (sample_dir seeded_sample []) (journal_Key seeded_sample) = Some seeded_sample"
    "run_journals clone_adm (sample_dir recovering_sample []) (journal_Key seeded_sample) = Some recovering_sample"
    using sample_dir_load [OF clone_samples_valid(3), of "[]"] by (simp_all add: holds_iff clone_samples_valid recovering_sample_key)
  from import_keeps_protected_state [OF sample_imports this] intent other sample_imports show ?thesis by blast
qed

subsection \<open>Progress\<close>

text \<open>C17: a legal mutation takes effect. On an open store whose next write succeeds, a mutation of an existing journal whose result is valid and
  within the size limits answers that result and puts it into the file of its key; the store stays open and no other file changes.\<close>

theorem legal_mutation_takes_effect:
  assumes "store_mutation env f" and "d_open d" and "d_faults d = []"
    and "run_journals (env_ParseAdmissionInput env) d k = Some j" and "f j = Inr j'"
    and "validateJournal (env_ParseAdmissionInput env) j' = None"
    and "validateJournalSaveCapacity size_of j' = None" and "size_of j' = Some n" and "n \<le> maxJournalFileBytes"
  shows "\<exists>d'. mutateJournal (env_ParseAdmissionInput env) size_of k f d = (Inr j', d') \<and> d_open d'
    \<and> map_of (d_files d') = (map_of (d_files d))(journalPath k \<mapsto> JournalFile j')"
proof -
  have load: "loadJournalLocked (env_ParseAdmissionInput env) k d = Inr j" using assms(4) by (simp add: holds_iff)
  have "journal_Key j' = journal_Key j" using mutation_key [OF assms(1)] load assms(5) by blast
  then have key: "journal_Key j' = k" using run_journals_valid [OF assms(4)] by simp
  let ?d = "d\<lparr> d_files := put_file (journalPath k) (JournalFile j') (d_files d) \<rparr>"
  have put: "writeAtomic (Err ''write run journal'') (journalPath k) (JournalFile j') d = (Inr (), ?d)"
    using assms(3) by (simp add: writeAtomic_def commit_files_def next_fault_def)
  have "mutateJournal (env_ParseAdmissionInput env) size_of k f d = (Inr j', ?d)"
    by (subst mutateJournal_run [where f = f and size_of = size_of and j = j and j' = j' and n = n, OF assms(2) load assms(5,6) key assms(7)]) (simp_all add: assms(8,9) put bind_r_def)
  then show ?thesis using assms(2) by (auto simp: fun_eq_iff)
qed

theorem legal_mutation_takes_effect_witness:
  "\<exists>d'. mutateJournal sample_adm small (journal_Key sample_journal) (ResolveTerminal ''accepted'' 7) (sample_dir sample_journal []) = (Inr resolved_sample, d')
    \<and> d_open d' \<and> map_of (d_files d') = (map_of (d_files (sample_dir sample_journal [])))(journalPath (journal_Key sample_journal) \<mapsto> JournalFile resolved_sample)"
  by (rule legal_mutation_takes_effect [OF resolve_mutation, where n = 1 and j = sample_journal])
     (simp_all add: holds_iff sample_valid sample_resolves resolved_sample_valid maxJournalFileBytes_def sample_dir_def [of _ "[]"] loadJournalLocked_def)

end
