(* ===== verification/Stream_Decoder.thy ===== *)
theory Stream_Decoder
  imports Go_Json
begin

text \<open>
  Incremental decoders of newline-framed streams.  \<open>feed\<close> takes a chunk of arbitrary size and answers what is complete, with an error if the stream
  must stop.  \<open>stream_decoder\<close> is the contract every harness decoder meets: feeding what follows an accepted chunk is feeding both at once.
  \<open>stable_decoder\<close> adds that an error does not depend on what follows either, so that the way a stream is cut into chunks never matters.
  \<open>line_loop\<close> is the loop the OpenCode and the pi decoder share.
\<close>

type_synonym ('s, 'a) feed = "'s \<Rightarrow> bytes \<Rightarrow> ('a list \<times> gerror option) \<times> 's"

definition prepend :: "'a list \<Rightarrow> ('a list \<times> gerror option) \<times> 's \<Rightarrow> ('a list \<times> gerror option) \<times> 's" where
  "prepend xs r = (case r of ((ys, e), s) \<Rightarrow> ((xs @ ys, e), s))"

lemma prepend_simps [simp]: "prepend xs ((ys, e), s) = ((xs @ ys, e), s)" "prepend [] r = r"
  by (simp_all add: prepend_def split: prod.split)

lemma prepend_prepend [simp]: "prepend xs (prepend ys r) = prepend (xs @ ys) r"
  by (simp add: prepend_def split: prod.split)

text \<open>A reader feeds one chunk after the other and stops at the first error.\<close>

fun feeds :: "('s, 'a) feed \<Rightarrow> 's \<Rightarrow> bytes \<Rightarrow> bytes list \<Rightarrow> ('a list \<times> gerror option) \<times> 's" where
  "feeds feed s c [] = feed s c"
| "feeds feed s c (c' # cs) = (case feed s c of
     ((xs, None), s1) \<Rightarrow> prepend xs (feeds feed s1 c' cs)
   | r \<Rightarrow> r)"

subsection \<open>The contract\<close>

locale stream_decoder =
  fixes feed :: "('s, 'a) feed"
  assumes feed_append: "feed s xs = ((o1, None), s1) \<Longrightarrow> feed s (xs @ ys) = prepend o1 (feed s1 ys)"
begin

lemma feeds_accepted:
  "feeds feed s c cs = ((out, None), s') \<Longrightarrow> feed s (concat (c # cs)) = ((out, None), s')"
proof (induction cs arbitrary: s c out)
  case (Cons c' cs)
  obtain o1 e s1 where f: "feed s c = ((o1, e), s1)" by (metis prod.exhaust)
  with Cons.prems have e: "e = None" by (cases e) auto
  obtain o2 where rest: "feeds feed s1 c' cs = ((o2, None), s')" "out = o1 @ o2"
    using Cons.prems f e by (auto simp: prepend_def split: prod.splits)
  from Cons.IH [OF rest(1)] feed_append [OF f [unfolded e], of "concat (c' # cs)"] rest(2) show ?case by simp
qed simp

text \<open>Two ways to cut a stream that are both accepted give the same records and the same state.\<close>

lemma feeds_agree:
  assumes "feeds feed s c cs = ((o1, None), s1)" "feeds feed s b bs = ((o2, None), s2)" "concat (c # cs) = concat (b # bs)"
  shows "o1 = o2 \<and> s1 = s2"
  using feeds_accepted [OF assms(1)] feeds_accepted [OF assms(2)] assms(3) by simp

end

locale stable_decoder = stream_decoder +
  assumes feed_failed: "feed s xs = ((o1, Some e), s1) \<Longrightarrow> feed s (xs @ ys) = ((o1, Some e), s1)"
begin

lemma feeds_concat: "feeds feed s c cs = feed s (concat (c # cs))"
proof (induction cs arbitrary: s c)
  case (Cons c' cs)
  obtain o1 e s1 where f: "feed s c = ((o1, e), s1)" by (metis prod.exhaust)
  show ?case
  proof (cases e)
    case None
    then show ?thesis using f Cons.IH [of s1 c'] feed_append [of s c o1 s1 "concat (c' # cs)"] by simp
  next
    case (Some x)
    then show ?thesis using f feed_failed [of s c o1 x s1 "concat (c' # cs)"] by simp
  qed
qed simp

end

subsection \<open>The line loop\<close>

definition is_line_end :: "char \<Rightarrow> bool" where
  "is_line_end c = (c = CHR 0x0A)"

text \<open>\<open>tail_over\<close> is the limit test on an unfinished line and \<open>line_over\<close> on a finished one, both with what is buffered before the
  chunk; \<open>consume\<close> handles a finished line.  The result carries the state and the buffer, which an error empties.\<close>

lemma shorter_rest: "xs \<noteq> [] \<Longrightarrow> length (dropWhile P xs) - Suc 0 < length xs"
  using length_dropWhile_le [of P xs] by (cases xs) auto

function line_loop :: "(bytes \<Rightarrow> bool) \<Rightarrow> (bytes \<Rightarrow> bool) \<Rightarrow> gerror \<Rightarrow> ('s, 'a) feed \<Rightarrow> 's \<Rightarrow> bytes \<Rightarrow> bytes \<Rightarrow> ('a list \<times> gerror option) \<times> ('s \<times> bytes)" where
  "line_loop tail_over line_over err consume s buffer chunk =
    (if chunk = [] then (([], None), (s, buffer))
     else let line = takeWhile (\<lambda>c. \<not> is_line_end c) chunk; rest = dropWhile (\<lambda>c. \<not> is_line_end c) chunk in
       if rest = [] then
         (if tail_over (buffer @ chunk) then (([], Some err), (s, [])) else (([], None), (s, buffer @ chunk)))
       else if line_over (buffer @ line) then (([], Some err), (s, []))
       else (case consume s (buffer @ line) of
           ((xs, Some e), s1) \<Rightarrow> (([], Some e), (s1, []))
         | ((xs, None), s1) \<Rightarrow> prepend xs (line_loop tail_over line_over err consume s1 [] (tl rest))))"
  by pat_completeness auto
termination
  by (relation "measure (\<lambda>(_, _, _, _, _, _, chunk). length chunk)") (auto simp: shorter_rest)

declare line_loop.simps [simp del]

lemma line_loop_Nil [simp]: "line_loop tail_over line_over err consume s buffer [] = (([], None), (s, buffer))"
  by (simp add: line_loop.simps)

lemma line_loop_tail:
  "xs \<noteq> [] \<Longrightarrow> list_all (\<lambda>c. \<not> is_line_end c) xs \<Longrightarrow> line_loop tail_over line_over err consume s buffer xs =
    (if tail_over (buffer @ xs) then (([], Some err), (s, [])) else (([], None), (s, buffer @ xs)))"
  by (subst line_loop.simps) (simp add: list_all_iff)

lemma line_loop_line:
  "list_all (\<lambda>c. \<not> is_line_end c) xs \<Longrightarrow> line_loop tail_over line_over err consume s buffer (xs @ CHR 0x0A # ys) =
    (if line_over (buffer @ xs) then (([], Some err), (s, []))
     else (case consume s (buffer @ xs) of
         ((zs, Some e), s1) \<Rightarrow> (([], Some e), (s1, []))
       | ((zs, None), s1) \<Rightarrow> prepend zs (line_loop tail_over line_over err consume s1 [] ys)))"
  by (subst line_loop.simps) (simp add: list_all_iff takeWhile_append dropWhile_append is_line_end_def split: prod.split option.split)

text \<open>Every chunk is an unfinished line, or a finished one and a rest.\<close>

lemma line_cases:
  obtains (tail) "list_all (\<lambda>c. \<not> is_line_end c) xs"
  | (line) l ys where "list_all (\<lambda>c. \<not> is_line_end c) l" "xs = l @ CHR 0x0A # ys"
proof (cases "dropWhile (\<lambda>c. \<not> is_line_end c) xs")
  case Nil
  then show ?thesis using tail by (simp add: list_all_iff)
next
  case (Cons c ys)
  then have "c = CHR 0x0A" using hd_dropWhile [of "\<lambda>c. \<not> is_line_end c" xs] by (simp add: is_line_end_def)
  moreover have "xs = takeWhile (\<lambda>c. \<not> is_line_end c) xs @ c # ys" by (metis Cons takeWhile_dropWhile_id)
  moreover have "list_all (\<lambda>c. \<not> is_line_end c) (takeWhile (\<lambda>c. \<not> is_line_end c) xs)" by (auto simp: list_all_iff dest: set_takeWhileD)
  ultimately show ?thesis using line by blast
qed

lemma line_loop_append:
  assumes "line_loop tail_over line_over err consume s buffer xs = ((o1, None), (s1, b1))"
  shows "line_loop tail_over line_over err consume s buffer (xs @ ys) = prepend o1 (line_loop tail_over line_over err consume s1 b1 ys)"
  using assms
proof (induction "length xs" arbitrary: xs s buffer o1 rule: less_induct)
  case less
  show ?case
  proof (cases xs rule: line_cases)
    case tail
    show ?thesis
    proof (cases "xs = [] \<or> ys = []")
      case True
      then show ?thesis using less.prems by auto
    next
      case False
      then have st: "o1 = []" "s1 = s" "b1 = buffer @ xs" using less.prems tail by (auto simp: line_loop_tail split: if_splits)
      show ?thesis
      proof (cases ys rule: line_cases)
        case tail2: tail
        then show ?thesis using False st tail by (simp add: line_loop_tail)
      next
        case (line l zs)
        then show ?thesis using st tail line_loop_line [of "xs @ l" tail_over line_over err consume s buffer zs] by (simp add: line_loop_line)
      qed
    qed
  next
    case (line l zs)
    obtain out s2 where c: "consume s (buffer @ l) = ((out, None), s2)" and over: "\<not> line_over (buffer @ l)"
      using less.prems line by (auto simp: line_loop_line split: if_splits prod.splits option.splits)
    obtain o2 where rest: "line_loop tail_over line_over err consume s2 [] zs = ((o2, None), (s1, b1))" "o1 = out @ o2"
      using less.prems line c over by (auto simp: line_loop_line prepend_def split: prod.splits)
    have "line_loop tail_over line_over err consume s2 [] (zs @ ys) = prepend o2 (line_loop tail_over line_over err consume s1 b1 ys)"
      using less.hyps [OF _ rest(1)] line(2) by simp
    then show ?thesis using c over rest(2) line by (simp add: line_loop_line)
  qed
qed

text \<open>With one limit for finished and unfinished lines an error is decided by the bytes before it.\<close>

lemma line_loop_failed:
  assumes mono: "\<And>xs ys. tail_over xs \<Longrightarrow> tail_over (xs @ ys) \<and> line_over (xs @ ys)"
    and "line_loop tail_over line_over err consume s buffer xs = ((o1, Some e), r)"
  shows "line_loop tail_over line_over err consume s buffer (xs @ ys) = ((o1, Some e), r)"
  using assms(2)
proof (induction "length xs" arbitrary: xs s buffer o1 rule: less_induct)
  case less
  then have "xs \<noteq> []" by auto
  show ?case
  proof (cases xs rule: line_cases)
    case tail
    then have st: "o1 = []" "e = err" "r = (s, [])" "tail_over (buffer @ xs)"
      using less.prems \<open>xs \<noteq> []\<close> by (auto simp: line_loop_tail split: if_splits)
    show ?thesis
    proof (cases ys rule: line_cases)
      case tail2: tail
      then show ?thesis using st tail \<open>xs \<noteq> []\<close> mono [OF st(4), of ys] by (simp add: line_loop_tail)
    next
      case (line l zs)
      then show ?thesis using st tail mono [OF st(4), of l] line_loop_line [of "xs @ l" tail_over line_over err consume s buffer zs] by simp
    qed
  next
    case (line l zs)
    show ?thesis
    proof (cases "line_over (buffer @ l)")
      case True
      then show ?thesis using less.prems line by (simp add: line_loop_line)
    next
      case False
      obtain out ce s2 where c: "consume s (buffer @ l) = ((out, ce), s2)" by (metis prod.exhaust)
      show ?thesis
      proof (cases ce)
        case None
        obtain o2 where rest: "line_loop tail_over line_over err consume s2 [] zs = ((o2, Some e), r)" "o1 = out @ o2"
          using less.prems line c False None by (auto simp: line_loop_line prepend_def split: prod.splits)
        from less.hyps [OF _ rest(1)] line(2) rest(2) line c False None show ?thesis by (simp add: line_loop_line)
      next
        case (Some x)
        then show ?thesis using less.prems line c False by (simp add: line_loop_line)
      qed
    qed
  qed
qed

text \<open>What the handler keeps of the state and promises of its output holds of the loop.\<close>

lemma line_loop_inv:
  assumes step: "\<And>s l. P s \<Longrightarrow> \<not> line_over l \<Longrightarrow> P (snd (consume s l)) \<and> list_all Q (fst (fst (consume s l)))"
    and "P s"
  shows "P (fst (snd (line_loop tail_over line_over err consume s buffer xs)))
    \<and> list_all Q (fst (fst (line_loop tail_over line_over err consume s buffer xs)))"
  using assms(2)
proof (induction "length xs" arbitrary: xs s buffer rule: less_induct)
  case less
  show ?case
  proof (cases xs rule: line_cases)
    case tail
    then show ?thesis using less.prems by (cases "xs = []") (auto simp: line_loop_tail)
  next
    case (line l ys)
    obtain out e s2 where c: "consume s (buffer @ l) = ((out, e), s2)" by (metis prod.exhaust)
    show ?thesis
      using less.hyps [of ys s2 "[]"] less.prems step [of s "buffer @ l"] line c
      by (auto simp: line_loop_line prepend_def split: option.split prod.splits)
  qed
qed

lemma line_loop_buffer:
  "line_loop tail_over line_over err consume s buffer xs = (r, (s1, b1)) \<Longrightarrow> \<not> tail_over buffer \<Longrightarrow> \<not> tail_over [] \<Longrightarrow> \<not> tail_over b1"
proof (induction "length xs" arbitrary: xs s buffer r rule: less_induct)
  case less
  show ?case
  proof (cases xs rule: line_cases)
    case tail
    then show ?thesis using less.prems by (cases "xs = []") (auto simp: line_loop_tail split: if_splits)
  next
    case (line l ys)
    then show ?thesis
      using less.hyps [of ys] less.prems
      by (auto simp: line_loop_line prepend_def split: if_splits prod.splits option.splits)
  qed
qed

end
