(* ===== verification/Opencode_Sse.thy ===== *)
theory Opencode_Sse
  imports Stream_Decoder "HOL-Library.Word"
begin

text \<open>
  The framing of OpenCode's event stream (\<^verbatim>\<open>internal/harness/opencode/sse.go\<close>, lines 11 to 127).  Lengths are mathematical integers: a line is
  at most the limit before it is counted, so the sums stay far below the range of a Go \<^verbatim>\<open>int\<close>.  A nil decoder answers an error
  and has no state to model.
\<close>

abbreviation ErrFrameTooLarge :: gerror where "ErrFrameTooLarge \<equiv> Err ''opencode SSE frame exceeds limit''"
abbreviation ErrIncompleteFrame :: gerror where "ErrIncompleteFrame \<equiv> Err ''opencode SSE stream ended with an incomplete frame''"
abbreviation ErrInvalidSSEField :: gerror where "ErrInvalidSSEField \<equiv> Err ''opencode SSE frame contains an unsupported field''"

record SseDecoder =
  sd_max :: int
  sd_line :: bytes
  sd_data :: "bytes list"
  sd_frameLen :: int
  sd_sequence :: "64 word"
  sd_failed :: "gerror option"

record Frame =
  fr_Sequence :: "64 word"
  fr_Data :: RawMessage

text \<open>\<^verbatim>\<open>append(json.RawMessage(nil), data...)\<close> is nil for no bytes.\<close>

definition raw_copy :: "bytes \<Rightarrow> RawMessage" where
  "raw_copy b = (if b = [] then None else Some b)"

definition sse_NewDecoder :: "int \<Rightarrow> SseDecoder" where
  "sse_NewDecoder maxFrameBytes = \<lparr> sd_max = (if maxFrameBytes \<le> 0 then 1048576 else maxFrameBytes), sd_line = [], sd_data = [], sd_frameLen = 0,
     sd_sequence = 0, sd_failed = None \<rparr>"

definition finishFrame :: "SseDecoder \<Rightarrow> Frame list \<times> SseDecoder" where
  "finishFrame dec = (let data = intercalate [CHR 0x0A] (sd_data dec); n = sd_sequence dec + 1 in
     ([\<lparr> fr_Sequence = n, fr_Data = raw_copy data \<rparr>], dec\<lparr> sd_data := [], sd_frameLen := 0, sd_sequence := n \<rparr>))"

definition sse_fail :: "gerror \<Rightarrow> SseDecoder \<Rightarrow> SseDecoder" where
  "sse_fail e dec = dec\<lparr> sd_line := [], sd_data := [], sd_frameLen := 0, sd_failed := Some e \<rparr>"

definition consumeLine :: "(SseDecoder, Frame) feed" where
  "consumeLine dec line =
    (if line = [] then
       (if sd_data dec = [] then (([], None), dec\<lparr> sd_frameLen := 0 \<rparr>) else (case finishFrame dec of (fs, dec') \<Rightarrow> ((fs, None), dec')))
     else if int (length line) > sd_max dec \<or> sd_frameLen dec + int (length line) + 1 > sd_max dec then (([], Some ErrFrameTooLarge), dec)
     else (let dec1 = dec\<lparr> sd_frameLen := sd_frameLen dec + (int (length line) + 1) \<rparr> in
       if hd line = CHR '':'' then (([], None), dec1)
       else (let field = takeWhile (\<lambda>c. c \<noteq> CHR '':'') line; after = dropWhile (\<lambda>c. c \<noteq> CHR '':'') line in
         if after = [] \<or> field \<noteq> ''data'' then (([], Some ErrInvalidSSEField), dec1)
         else (let value = tl after; value = (if value \<noteq> [] \<and> hd value = CHR '' '' then tl value else value) in
           (([], None), dec1\<lparr> sd_data := sd_data dec1 @ [value] \<rparr>)))))"

definition strip_cr :: "bytes \<Rightarrow> bytes" where
  "strip_cr line = (if line \<noteq> [] \<and> last line = CHR 0x0D then butlast line else line)"

definition sse_Feed :: "(SseDecoder, Frame) feed" where
  "sse_Feed dec chunk = (case sd_failed dec of
     Some e \<Rightarrow> (([], Some e), dec)
   | None \<Rightarrow> (let over = (\<lambda>bs. int (length bs) > sd_max dec) in
       case line_loop over over ErrFrameTooLarge (\<lambda>d line. consumeLine d (strip_cr line)) (dec\<lparr> sd_line := [] \<rparr>) (sd_line dec) chunk of
         ((frames, None), (dec1, line)) \<Rightarrow> ((frames, None), dec1\<lparr> sd_line := line \<rparr>)
       | ((frames, Some e), (dec1, line)) \<Rightarrow> ((frames, Some e), sse_fail e dec1)))"

definition sse_Close :: "SseDecoder \<Rightarrow> (Frame list \<times> gerror option) \<times> SseDecoder" where
  "sse_Close dec = (case sd_failed dec of
     Some e \<Rightarrow> (([], Some e), dec)
   | None \<Rightarrow>
     if sd_line dec \<noteq> [] then (([], Some ErrIncompleteFrame), sse_fail ErrIncompleteFrame dec)
     else if sd_data dec \<noteq> [] then (case finishFrame dec of (fs, dec') \<Rightarrow> ((fs, None), dec'))
     else (([], None), dec))"

subsection \<open>Chunks do not matter\<close>

lemma consumeLine_keeps:
  "sd_line (snd (consumeLine d l)) = sd_line d \<and> sd_max (snd (consumeLine d l)) = sd_max d \<and> sd_failed (snd (consumeLine d l)) = sd_failed d"
  by (simp add: consumeLine_def finishFrame_def Let_def)

lemma sse_loop_keeps:
  fixes d d1 :: SseDecoder
  assumes "line_loop t ov e (\<lambda>d line. consumeLine d (strip_cr line)) d buf xs = (r, (d1, b1))"
  shows "sd_line d1 = sd_line d \<and> sd_max d1 = sd_max d \<and> sd_failed d1 = sd_failed d"
  using line_loop_inv [of "\<lambda>d1. sd_line d1 = sd_line d \<and> sd_max d1 = sd_max d \<and> sd_failed d1 = sd_failed d" ov "\<lambda>d line. consumeLine d (strip_cr line)" "\<lambda>_. True" d t e buf xs]
    assms by (simp add: consumeLine_keeps list_all_iff)

interpretation sse: stable_decoder sse_Feed
proof
  fix s s1 :: SseDecoder and xs ys :: bytes and o1
  let ?loop = "\<lambda>d buf. line_loop (\<lambda>bs. int (length bs) > sd_max s) (\<lambda>bs. int (length bs) > sd_max s) ErrFrameTooLarge
    (\<lambda>d line. consumeLine d (strip_cr line)) d buf"
  { assume f: "sse_Feed s xs = ((o1, None), s1)"
    then obtain d1 b1 where l: "?loop (s\<lparr> sd_line := [] \<rparr>) (sd_line s) xs = ((o1, None), (d1, b1))" "s1 = d1\<lparr> sd_line := b1 \<rparr>" "sd_failed s = None"
      by (auto simp: sse_Feed_def Let_def split: option.splits prod.splits)
    have k: "sd_line d1 = []" "sd_max d1 = sd_max s" "sd_failed d1 = None" using sse_loop_keeps [OF l(1)] l(3) by auto
    then have s1: "s1\<lparr> sd_line := [] \<rparr> = d1" "sd_line s1 = b1" "sd_max s1 = sd_max s" "sd_failed s1 = None" using l(2) by simp_all
    show "sse_Feed s (xs @ ys) = prepend o1 (sse_Feed s1 ys)"
      using line_loop_append [OF l(1), of ys] s1 l(3) by (simp add: sse_Feed_def Let_def prepend_def split: prod.splits option.splits)
  }
  fix e
  assume f: "sse_Feed s xs = ((o1, Some e), s1)"
  show "sse_Feed s (xs @ ys) = ((o1, Some e), s1)"
  proof (cases "sd_failed s")
    case None
    then obtain d1 b1 where l: "?loop (s\<lparr> sd_line := [] \<rparr>) (sd_line s) xs = ((o1, Some e), (d1, b1))" "s1 = sse_fail e d1"
      using f by (auto simp: sse_Feed_def Let_def split: option.splits prod.splits)
    show ?thesis using line_loop_failed [OF _ l(1), of ys] l(2) None by (simp add: sse_Feed_def Let_def)
  next
    case (Some x)
    then show ?thesis using f by (simp add: sse_Feed_def)
  qed
qed

text \<open>C20: how a server's bytes are cut into chunks never changes what the decoder makes of them: feeding the chunks one after the other, up to
  the first error, gives the frames, the error and the state of feeding them all at once.\<close>

theorem sse_chunking_irrelevant: "feeds sse_Feed dec c cs = sse_Feed dec (concat (c # cs))"
  by (rule sse.feeds_concat)

subsection \<open>Bounded memory\<close>

definition sse_buffered :: "SseDecoder \<Rightarrow> int" where
  "sse_buffered dec = int (length (sd_line dec)) + (\<Sum>d \<leftarrow> sd_data dec. int (length d) + 1)"

definition sse_wf :: "SseDecoder \<Rightarrow> bool" where
  "sse_wf dec = (0 < sd_max dec \<and> int (length (sd_line dec)) \<le> sd_max dec \<and> (\<Sum>d \<leftarrow> sd_data dec. int (length d) + 1) \<le> sd_frameLen dec
     \<and> 0 \<le> sd_frameLen dec \<and> sd_frameLen dec \<le> sd_max dec)"

lemma length_intercalate: "xs \<noteq> [] \<Longrightarrow> int (length (intercalate [c] xs)) + 1 = (\<Sum>x \<leftarrow> xs. int (length x) + 1)"
  by (induction "[c]" xs rule: intercalate.induct) auto

lemma finishFrame_bound:
  "sse_wf dec \<Longrightarrow> sd_data dec \<noteq> [] \<Longrightarrow>
    sse_wf (snd (finishFrame dec)) \<and> list_all (\<lambda>f. int (length (rm_bytes (fr_Data f))) \<le> sd_max dec) (fst (finishFrame dec))"
  using length_intercalate [of "sd_data dec" "CHR 0x0A"]
  by (auto simp: finishFrame_def sse_wf_def Let_def raw_copy_def rm_bytes_def)

lemma field_value_length: "after = dropWhile P line \<Longrightarrow> length (tl after) \<le> length line - 1"
  using length_dropWhile_le [of P line] by simp

lemma consumeLine_bound:
  assumes "sse_wf dec"
  shows "sse_wf (snd (consumeLine dec line)) \<and> list_all (\<lambda>f. int (length (rm_bytes (fr_Data f))) \<le> sd_max dec) (fst (fst (consumeLine dec line)))"
proof (cases "line = []")
  case True
  then show ?thesis using assms finishFrame_bound [OF assms] by (auto simp: consumeLine_def sse_wf_def split: prod.split)
next
  case False
  have "length (tl (dropWhile (\<lambda>c. c \<noteq> CHR '':'') line)) < length line"
    using field_value_length [OF refl, of "\<lambda>c. c \<noteq> CHR '':''" line] False by (cases line) auto
  then show ?thesis using assms False by (auto simp: consumeLine_def sse_wf_def Let_def)
qed

lemma sse_Feed_bound:
  assumes wf: "sse_wf dec"
  shows "sse_wf (snd (sse_Feed dec chunk)) \<and> list_all (\<lambda>f. int (length (rm_bytes (fr_Data f))) \<le> sd_max dec) (fst (fst (sse_Feed dec chunk)))
    \<and> sd_max (snd (sse_Feed dec chunk)) = sd_max dec"
proof (cases "sd_failed dec")
  case None
  let ?over = "\<lambda>bs. int (length bs) > sd_max dec" and ?d = "dec\<lparr> sd_line := [] \<rparr>"
  obtain fs e d1 b1 where l: "line_loop ?over ?over ErrFrameTooLarge (\<lambda>d line. consumeLine d (strip_cr line)) ?d (sd_line dec) chunk = ((fs, e), (d1, b1))"
    by (metis prod.exhaust)
  have keeps: "sd_line d1 = []" "sd_max d1 = sd_max dec" using sse_loop_keeps [OF l] by simp_all
  let ?P = "\<lambda>d. sse_wf d \<and> sd_max d = sd_max dec" and ?Q = "\<lambda>f. int (length (rm_bytes (fr_Data f))) \<le> sd_max dec"
  have step: "?P (snd (consumeLine d (strip_cr line))) \<and> list_all ?Q (fst (fst (consumeLine d (strip_cr line))))" if "?P d" for d line
    using that consumeLine_bound [of d "strip_cr line"] consumeLine_keeps [of d "strip_cr line"] by simp
  have "?P ?d" using wf by (simp add: sse_wf_def)
  from line_loop_inv [where P = ?P and Q = ?Q and consume = "\<lambda>d line. consumeLine d (strip_cr line)", OF step this] l
  have "?P d1 \<and> list_all ?Q fs" by (metis fst_conv snd_conv)
  moreover have "\<not> ?over b1" using line_loop_buffer [OF l] wf by (simp add: sse_wf_def)
  ultimately show ?thesis using None l keeps by (cases e) (auto simp: sse_Feed_def sse_wf_def sse_fail_def)
qed (use wf in \<open>simp add: sse_Feed_def\<close>)

lemma sse_feeds_bound:
  assumes "sse_wf dec"
  shows "sse_wf (snd (feeds sse_Feed dec c cs)) \<and> list_all (\<lambda>f. int (length (rm_bytes (fr_Data f))) \<le> sd_max dec) (fst (fst (feeds sse_Feed dec c cs)))
    \<and> sd_max (snd (feeds sse_Feed dec c cs)) = sd_max dec"
  unfolding sse.feeds_concat by (rule sse_Feed_bound [OF assms])

text \<open>C21: the decoder's memory is bounded whatever the server sends: after any chunks it holds at most twice the configured number of bytes, and no
  frame it hands out is longer than the limit.\<close>

theorem sse_memory_bounded:
  "sse_buffered (snd (feeds sse_Feed (sse_NewDecoder m) c cs)) \<le> 2 * sd_max (sse_NewDecoder m)
    \<and> list_all (\<lambda>f. int (length (rm_bytes (fr_Data f))) \<le> sd_max (sse_NewDecoder m)) (fst (fst (feeds sse_Feed (sse_NewDecoder m) c cs)))"
proof -
  have "sse_wf (sse_NewDecoder m)" by (simp add: sse_wf_def sse_NewDecoder_def)
  from sse_feeds_bound [OF this, of c cs] show ?thesis by (auto simp: sse_wf_def sse_buffered_def)
qed

subsection \<open>Framing and decoding\<close>

text \<open>An event as a server sends it: its payload line by line in data fields, ended by an empty line.\<close>

definition sse_event_bytes :: "bytes list \<Rightarrow> bytes" where
  "sse_event_bytes ls = concat (map (\<lambda>l. ''data: '' @ l @ [CHR 0x0A]) ls) @ [CHR 0x0A]"

definition event_fits :: "int \<Rightarrow> bytes list \<Rightarrow> bool" where
  "event_fits m ls = (ls \<noteq> [] \<and> list_all (\<lambda>l. CHR 0x0A \<notin> set l \<and> (l = [] \<or> last l \<noteq> CHR 0x0D)) ls \<and> (\<Sum>l \<leftarrow> ls. int (length l) + 7) \<le> m)"

fun number_frames :: "64 word \<Rightarrow> bytes list list \<Rightarrow> Frame list" where
  "number_frames n [] = []"
| "number_frames n (ls # es) = \<lparr> fr_Sequence = n + 1, fr_Data = raw_copy (intercalate [CHR 0x0A] ls) \<rparr> # number_frames (n + 1) es"

abbreviation sse_lines :: "int \<Rightarrow> SseDecoder \<Rightarrow> bytes \<Rightarrow> (Frame list \<times> gerror option) \<times> (SseDecoder \<times> bytes)" where
  "sse_lines m d \<equiv> line_loop (\<lambda>bs. int (length bs) > m) (\<lambda>bs. int (length bs) > m) ErrFrameTooLarge (\<lambda>d line. consumeLine d (strip_cr line)) d []"

lemma consume_data_line:
  assumes "l = [] \<or> last l \<noteq> CHR 0x0D" "sd_frameLen d + (int (length l) + 7) \<le> sd_max d" "0 \<le> sd_frameLen d"
  shows "consumeLine d (strip_cr (''data: '' @ l)) = (([], None), d\<lparr> sd_frameLen := sd_frameLen d + (int (length l) + 7), sd_data := sd_data d @ [l] \<rparr>)"
  using assms by (auto simp: consumeLine_def strip_cr_def Let_def)

lemma sse_data_lines:
  assumes "list_all (\<lambda>l. CHR 0x0A \<notin> set l \<and> (l = [] \<or> last l \<noteq> CHR 0x0D)) ls" "sd_frameLen d + (\<Sum>l \<leftarrow> ls. int (length l) + 7) \<le> sd_max d" "0 \<le> sd_frameLen d"
  shows "sse_lines (sd_max d) d (concat (map (\<lambda>l. ''data: '' @ l @ [CHR 0x0A]) ls) @ ys) =
    sse_lines (sd_max d) (d\<lparr> sd_frameLen := sd_frameLen d + (\<Sum>l \<leftarrow> ls. int (length l) + 7), sd_data := sd_data d @ ls \<rparr>) ys"
  using assms
proof (induction ls arbitrary: d)
  case (Cons l ls)
  have sum: "0 \<le> (\<Sum>l \<leftarrow> ls. int (length l) + 7)" by (rule sum_list_nonneg) auto
  let ?d = "d\<lparr> sd_frameLen := sd_frameLen d + (int (length l) + 7), sd_data := sd_data d @ [l] \<rparr>"
  have ends: "list_all (\<lambda>c. \<not> is_line_end c) (''data: '' @ l)" using Cons.prems(1) by (auto simp: is_line_end_def list_all_iff)
  have c: "consumeLine d (strip_cr (''data: '' @ l)) = (([], None), ?d)"
    using Cons.prems sum by (intro consume_data_line) auto
  have short: "\<not> int (length (''data: '' @ l)) > sd_max d" using Cons.prems sum by auto
  have "sse_lines (sd_max d) d (concat (map (\<lambda>l. ''data: '' @ l @ [CHR 0x0A]) (l # ls)) @ ys) =
      sse_lines (sd_max d) d ((''data: '' @ l) @ CHR 0x0A # (concat (map (\<lambda>l. ''data: '' @ l @ [CHR 0x0A]) ls) @ ys))" by simp
  also have "\<dots> = sse_lines (sd_max d) ?d (concat (map (\<lambda>l. ''data: '' @ l @ [CHR 0x0A]) ls) @ ys)"
    unfolding line_loop_line [OF ends] by (simp only: append_Nil c short if_False prod.case option.case prepend_simps)
  also have "\<dots> = sse_lines (sd_max d) (?d\<lparr> sd_frameLen := sd_frameLen ?d + (\<Sum>l \<leftarrow> ls. int (length l) + 7), sd_data := sd_data ?d @ ls \<rparr>) ys"
    using Cons.IH [of ?d] Cons.prems by simp
  finally show ?case by (simp add: add.assoc)
qed simp

lemma sse_event:
  assumes fits: "event_fits (sd_max d) ls" and d: "sd_data d = []" "sd_frameLen d = 0"
  shows "sse_lines (sd_max d) d (sse_event_bytes ls @ ys) =
    prepend (number_frames (sd_sequence d) [ls]) (sse_lines (sd_max d) (d\<lparr> sd_sequence := sd_sequence d + 1 \<rparr>) ys)"
proof -
  let ?d = "d\<lparr> sd_frameLen := \<Sum>l \<leftarrow> ls. int (length l) + 7, sd_data := ls \<rparr>"
  have "0 \<le> (\<Sum>l \<leftarrow> tl ls. int (length l) + 7)" by (rule sum_list_nonneg) auto
  then have m: "0 < sd_max d" using fits by (cases ls) (auto simp: event_fits_def)
  have "sse_lines (sd_max d) d (sse_event_bytes ls @ ys) = sse_lines (sd_max d) ?d (CHR 0x0A # ys)"
    using sse_data_lines [of ls d "CHR 0x0A # ys"] fits d by (simp add: sse_event_bytes_def event_fits_def)
  also have "\<dots> = prepend (number_frames (sd_sequence d) [ls]) (sse_lines (sd_max d) (d\<lparr> sd_sequence := sd_sequence d + 1 \<rparr>) ys)"
  proof -
    have c: "consumeLine ?d (strip_cr []) = ((number_frames (sd_sequence d) [ls], None), d\<lparr> sd_sequence := sd_sequence d + 1 \<rparr>)"
      using fits d by (simp add: consumeLine_def strip_cr_def finishFrame_def event_fits_def Let_def)
    have short: "\<not> int (length ([] :: bytes)) > sd_max d" using m by simp
    have ends: "list_all (\<lambda>c. \<not> is_line_end c) []" by simp
    show ?thesis
      by (subst line_loop_line [OF ends, where buffer = "[]", unfolded append_Nil]) (simp only: c short if_False prod.case option.case)
  qed
  finally show ?thesis .
qed

lemma sse_events:
  assumes "list_all (event_fits (sd_max d)) es" "sd_data d = []" "sd_frameLen d = 0"
  shows "sse_lines (sd_max d) d (concat (map sse_event_bytes es)) =
    ((number_frames (sd_sequence d) es, None), (d\<lparr> sd_sequence := sd_sequence d + of_nat (length es) \<rparr>, []))"
  using assms
proof (induction es arbitrary: d)
  case (Cons ls es)
  let ?d = "d\<lparr> sd_sequence := sd_sequence d + 1 \<rparr>"
  have "sse_lines (sd_max d) ?d (concat (map sse_event_bytes es)) =
      ((number_frames (sd_sequence d + 1) es, None), (?d\<lparr> sd_sequence := sd_sequence d + 1 + of_nat (length es) \<rparr>, []))"
    using Cons.IH [of ?d] Cons.prems by simp
  then show ?case using sse_event [of d ls "concat (map sse_event_bytes es)"] Cons.prems by (simp add: add.assoc)
qed simp

text \<open>C22: what a server frames the decoder hands out. Events whose lines carry no line ends and that fit the limit are decoded to exactly their
  payloads, in order and numbered from one, and leave the decoder as it was but for the count.\<close>

theorem sse_round_trip:
  assumes "list_all (event_fits (sd_max (sse_NewDecoder m))) es"
  shows "sse_Feed (sse_NewDecoder m) (concat (map sse_event_bytes es)) =
    ((number_frames 0 es, None), (sse_NewDecoder m)\<lparr> sd_sequence := of_nat (length es) \<rparr>)"
  using sse_events [OF assms] by (simp add: sse_Feed_def sse_NewDecoder_def Let_def)

theorem sse_round_trip_witness:
  "sse_Feed (sse_NewDecoder 64) (sse_event_bytes [''{}''] @ sse_event_bytes [''a'', ''b'']) =
    (([\<lparr> fr_Sequence = 1, fr_Data = Some ''{}'' \<rparr>, \<lparr> fr_Sequence = 2, fr_Data = Some (''a'' @ [CHR 0x0A] @ ''b'') \<rparr>], None),
     (sse_NewDecoder 64)\<lparr> sd_sequence := 2 \<rparr>)"
  using sse_round_trip [of 64 "[[''{}''], [''a'', ''b'']]"]
  by (simp add: event_fits_def sse_NewDecoder_def raw_copy_def)

end
