(* ===== verification/Harness_Json.thy ===== *)
theory Harness_Json
  imports Goal_Records Stream_Decoder
begin

text \<open>
  What the harness decoders use of \<^verbatim>\<open>encoding/json\<close> beyond the run journal: decoding a raw member into a string, a
  boolean or an integer, the strict validity of \<^verbatim>\<open>encoding/json/jsontext\<close>, and the strict objects of the decoders.  A raw
  member is kept as the value it denotes; the decoders compare one only with the literals.
\<close>

definition utf8_Valid :: "bytes \<Rightarrow> bool" where
  "utf8_Valid s = (rune_count (map of_char s) \<noteq> None)"

subsection \<open>Raw members\<close>

text \<open>\<^verbatim>\<open>json.Unmarshal\<close> into a zero variable: null leaves the zero value, a value of another kind is an error.\<close>

definition into_string :: "json \<Rightarrow> string option" where
  "into_string v = (case v of JStr raw \<Rightarrow> Some (unquote_string raw) | JNull \<Rightarrow> Some [] | _ \<Rightarrow> None)"

definition into_bool :: "json \<Rightarrow> bool option" where
  "into_bool v = (case v of JBool b \<Rightarrow> Some b | JNull \<Rightarrow> Some False | _ \<Rightarrow> None)"

definition decimal :: "string \<Rightarrow> int option" where
  "decimal s = (if s \<noteq> [] \<and> list_all is_digit s then Some (foldl (\<lambda>a c. 10 * a + (int (of_char c :: nat) - 48)) 0 s) else None)"

definition into_int64 :: "json \<Rightarrow> int option" where
  "into_int64 v = (case v of JNull \<Rightarrow> Some 0
     | JNum tok \<Rightarrow>
        (case (if tok \<noteq> [] \<and> hd tok = CHR ''-'' then map_option uminus (decimal (tl tok)) else decimal tok) of
           None \<Rightarrow> None | Some n \<Rightarrow> if in_i64 n then Some n else None)
     | _ \<Rightarrow> None)"

definition into_uint64 :: "json \<Rightarrow> int option" where
  "into_uint64 v = (case v of JNull \<Rightarrow> Some 0
     | JNum tok \<Rightarrow> (case decimal tok of None \<Rightarrow> None | Some n \<Rightarrow> if n < 2 ^ 64 then Some n else None)
     | _ \<Rightarrow> None)"

subsection \<open>Objects\<close>

type_synonym json_object = "(string \<times> json) list"

definition members :: "(string \<times> json) list \<Rightarrow> json_object" where
  "members ms = map (\<lambda>(k, v). (unquote_string k, v)) ms"

definition top_distinct :: "(string \<times> json) list \<Rightarrow> bool" where
  "top_distinct ms = distinct (map fst (members ms))"

subsection \<open>Strict values\<close>

text \<open>Escapes that denote code points: a high surrogate is followed by a low one and no low one stands alone.\<close>

function sound_escapes :: "string \<Rightarrow> bool" where
  "sound_escapes s = (case s of [] \<Rightarrow> True
     | c # t \<Rightarrow>
       if c = CHR 0x5C then
         (case t of [] \<Rightarrow> False
          | e # u \<Rightarrow>
            if e = CHR ''u'' then
              (let r = hex4_val (take 4 u); v = drop 4 u in
               if is_surrogate r then
                 (let r2 = hex4_val (take 4 (drop 2 v)) in
                  take 2 v = [CHR 0x5C, CHR ''u''] \<and> r < 0xDC00 \<and> 0xDC00 \<le> r2 \<and> r2 < 0xE000 \<and> sound_escapes (drop 6 v))
               else sound_escapes v)
            else sound_escapes u)
       else sound_escapes t)"
  by pat_completeness auto
termination
  by (relation "measure length") auto

declare sound_escapes.simps [simp del]

fun sound_strings :: "json \<Rightarrow> bool" where
  "sound_strings (JStr raw) = sound_escapes raw"
| "sound_strings (JArr vs) = list_all sound_strings vs"
| "sound_strings (JObj ms) = list_all (\<lambda>(k, v). sound_escapes k \<and> sound_strings v) ms"
| "sound_strings _ = True"

text \<open>\<^verbatim>\<open>jsontext.Value.IsValid\<close>: valid UTF-8, one value, escapes that denote code points, no member twice.\<close>

definition jsontext_IsValid :: "bytes \<Rightarrow> bool" where
  "jsontext_IsValid s = (utf8_Valid s \<and> (case parse_json s of None \<Rightarrow> False | Some v \<Rightarrow> sound_strings v \<and> no_dup_members v))"

end
