(* ===== verification/Claude_Stream.thy ===== *)
theory Claude_Stream
  imports Harness_Json
begin

text \<open>
  The stream-json transport of Claude (\<^verbatim>\<open>internal/harness/claude/stream.go\<close>): the record decoder, the event envelope and
  the validator that decides whether a finished stream is a success.  A nil decoder or validator answers an error and has no state to model.
\<close>

abbreviation claude_ErrRecordTooLarge :: gerror where "claude_ErrRecordTooLarge \<equiv> Err ''Claude stream-json record exceeds limit''"
abbreviation claude_ErrIncompleteRecord :: gerror where "claude_ErrIncompleteRecord \<equiv> Err ''Claude stream-json stream ended with an incomplete record''"
abbreviation claude_ErrMalformedJSON :: gerror where "claude_ErrMalformedJSON \<equiv> Err ''Claude stream-json record is not valid JSON''"
abbreviation claude_ErrNonObjectRecord :: gerror where "claude_ErrNonObjectRecord \<equiv> Err ''Claude stream-json record must be a JSON object''"
abbreviation claude_ErrInvalidEventType :: gerror where "claude_ErrInvalidEventType \<equiv> Err ''Claude stream-json record type must be a non-empty string''"
abbreviation claude_ErrUnsupportedEvent :: gerror where "claude_ErrUnsupportedEvent \<equiv> Err ''Claude stream-json event type is unsupported: %q''"
abbreviation ErrInvalidSessionID :: gerror where "ErrInvalidSessionID \<equiv> Err ''Claude stream-json session_id must be a non-empty string''"
abbreviation ErrInvalidResult :: gerror where "ErrInvalidResult \<equiv> Err ''Claude stream-json result is invalid''"
abbreviation ErrMissingStructuredOutput :: gerror where
  "ErrMissingStructuredOutput \<equiv> Err ''Claude stream-json successful result must contain a structured_output JSON object''"
abbreviation ErrInvalidControlRequest :: gerror where "ErrInvalidControlRequest \<equiv> Err ''Claude stream-json control_request is invalid''"
abbreviation ErrMissingResult :: gerror where "ErrMissingResult \<equiv> Err ''Claude stream-json stream ended without a result event''"
abbreviation ErrMissingResultIdentity :: gerror where "ErrMissingResultIdentity \<equiv> Err ''Claude stream-json result did not establish a session identity''"
abbreviation ErrConflictingIdentity :: gerror where "ErrConflictingIdentity \<equiv> Err ''Claude stream-json event session identity conflicts''"
abbreviation ErrRepeatedResult :: gerror where "ErrRepeatedResult \<equiv> Err ''Claude stream-json stream contains more than one result event''"
abbreviation ErrEventAfterResult :: gerror where "ErrEventAfterResult \<equiv> Err ''Claude stream-json stream contains an event after the result event''"
abbreviation ErrResultReportedError :: gerror where "ErrResultReportedError \<equiv> Err ''Claude stream-json result reports an error''"
abbreviation ErrUnexpectedResultSubtype :: gerror where "ErrUnexpectedResultSubtype \<equiv> Err ''Claude stream-json result subtype is not a verified success: %q''"
abbreviation ErrNonSuccessTerminalReason :: gerror where
  "ErrNonSuccessTerminalReason \<equiv> Err ''Claude stream-json result terminal_reason is not a verified success: %q''"
abbreviation ErrControlRequestUnsupported :: gerror where "ErrControlRequestUnsupported \<equiv> Err ''Claude stream-json control requests are unsupported''"

abbreviation EventResult :: string where "EventResult \<equiv> ''result''"
abbreviation EventControlRequest :: string where "EventControlRequest \<equiv> ''control_request''"

subsection \<open>Events\<close>

record ClaudeResult =
  cr_Subtype :: string
  cr_TerminalReason :: string
  cr_IsError :: bool
  cr_Output :: "json option"
  cr_StructuredOutput :: "json option"
  cr_Usage :: "json option"

record ControlRequest =
  cq_RequestID :: string
  cq_Request :: json

record ClaudeEvent =
  ce_Sequence :: "64 word"
  ce_Type :: string
  ce_SessionID :: string
  ce_Subtype :: string
  ce_Raw :: bytes
  ce_Result :: "ClaudeResult option"
  ce_ControlRequest :: "ControlRequest option"
  ce_DecodeError :: "gerror option"

definition invalidEvent :: "64 word \<Rightarrow> bytes \<Rightarrow> gerror \<Rightarrow> ClaudeEvent" where
  "invalidEvent sequence raw decodeError = \<lparr> ce_Sequence = sequence, ce_Type = [], ce_SessionID = [], ce_Subtype = [], ce_Raw = raw,
     ce_Result = None, ce_ControlRequest = None, ce_DecodeError = Some decodeError \<rparr>"

definition supportedEventType :: "string \<Rightarrow> bool" where
  "supportedEventType t = (t \<in> {''assistant'', ''user'', ''system'', EventResult, ''log'', EventControlRequest})"

definition decodeJSONNonNullString :: "json \<Rightarrow> string option" where
  "decodeJSONNonNullString v = (if v = JNull then None else into_string v)"

text \<open>An optional string member of a result: absent it stays empty.\<close>

definition optional_result_string :: "json_object \<Rightarrow> string \<Rightarrow> string option" where
  "optional_result_string obj name = (case last_lookup name obj of None \<Rightarrow> Some [] | Some v \<Rightarrow> decodeJSONNonNullString v)"

definition decodeResult :: "json_object \<Rightarrow> ClaudeResult option" where
  "decodeResult obj = (case last_lookup ''is_error'' obj of
     Some (JBool b) \<Rightarrow>
       (case (optional_result_string obj ''subtype'', optional_result_string obj ''terminal_reason'') of
          (Some s, Some t) \<Rightarrow> Some \<lparr> cr_Subtype = s, cr_TerminalReason = t, cr_IsError = b, cr_Output = last_lookup ''result'' obj,
             cr_StructuredOutput = last_lookup ''structured_output'' obj, cr_Usage = last_lookup ''usage'' obj \<rparr>
        | _ \<Rightarrow> None)
   | _ \<Rightarrow> None)"

definition decodeControlRequest :: "json_object \<Rightarrow> ControlRequest option" where
  "decodeControlRequest obj = (case last_lookup ''request_id'' obj of
     None \<Rightarrow> None
   | Some v \<Rightarrow> (case into_string v of
       None \<Rightarrow> None
     | Some i \<Rightarrow> if blank i then None
         else map_option (\<lambda>r. \<lparr> cq_RequestID = i, cq_Request = r \<rparr>) (last_lookup ''request'' obj)))"

definition decode_payload :: "json_object \<Rightarrow> ClaudeEvent \<Rightarrow> ClaudeEvent" where
  "decode_payload obj event =
    (if ce_Type event = EventResult then
       (case decodeResult obj of
          None \<Rightarrow> event\<lparr> ce_DecodeError := Some ErrInvalidResult \<rparr>
        | Some r \<Rightarrow> event\<lparr> ce_Result := Some r, ce_Subtype := cr_Subtype r \<rparr>)
     else if ce_Type event = EventControlRequest then
       (case decodeControlRequest obj of
          None \<Rightarrow> event\<lparr> ce_DecodeError := Some ErrInvalidControlRequest \<rparr>
        | Some c \<Rightarrow> event\<lparr> ce_ControlRequest := Some c \<rparr>)
     else (case last_lookup ''subtype'' obj of
         None \<Rightarrow> event
       | Some v \<Rightarrow> (case into_string v of
           None \<Rightarrow> event\<lparr> ce_DecodeError := Some (Err ''Claude stream-json record type must be a non-empty string: subtype must be a string'') \<rparr>
         | Some s \<Rightarrow> event\<lparr> ce_Subtype := s \<rparr>)))"

definition claude_decodeEvent :: "64 word \<Rightarrow> bytes \<Rightarrow> ClaudeEvent" where
  "claude_decodeEvent sequence line = (let raw = TrimSpace line in
     if \<not> jsontext_IsValid raw then invalidEvent sequence raw claude_ErrMalformedJSON
     else (case parse_json raw of
       Some (JObj ms) \<Rightarrow> (let obj = members ms in
         case map_option into_string (last_lookup ''type'' obj) of
           Some (Some t) \<Rightarrow>
             if blank t then invalidEvent sequence raw claude_ErrInvalidEventType
             else (let event = \<lparr> ce_Sequence = sequence, ce_Type = t, ce_SessionID = [], ce_Subtype = [], ce_Raw = raw,
                      ce_Result = None, ce_ControlRequest = None, ce_DecodeError = None \<rparr> in
               if \<not> supportedEventType t then event\<lparr> ce_DecodeError := Some claude_ErrUnsupportedEvent \<rparr>
               else (case last_lookup ''session_id'' obj of
                   None \<Rightarrow> decode_payload obj event
                 | Some v \<Rightarrow> (case into_string v of
                     None \<Rightarrow> event\<lparr> ce_DecodeError := Some ErrInvalidSessionID \<rparr>
                   | Some i \<Rightarrow> if blank i then event\<lparr> ce_SessionID := i, ce_DecodeError := Some ErrInvalidSessionID \<rparr>
                       else decode_payload obj (event\<lparr> ce_SessionID := i \<rparr>))))
         | _ \<Rightarrow> invalidEvent sequence raw claude_ErrInvalidEventType)
     | _ \<Rightarrow> invalidEvent sequence raw claude_ErrNonObjectRecord))"

subsection \<open>Records\<close>

record ClaudeDecoder =
  cd_max :: int
  cd_buffer :: bytes
  cd_sequence :: "64 word"

definition claude_NewDecoder :: "int \<Rightarrow> ClaudeDecoder" where
  "claude_NewDecoder maxRecordBytes = \<lparr> cd_max = (if maxRecordBytes \<le> 0 then 1048576 else maxRecordBytes), cd_buffer = [], cd_sequence = 0 \<rparr>"

function claude_records :: "int \<Rightarrow> 64 word \<Rightarrow> bytes \<Rightarrow> (ClaudeEvent list \<times> gerror option) \<times> (64 word \<times> bytes)" where
  "claude_records m n buffer = (let line = takeWhile (\<lambda>c. \<not> is_line_end c) buffer; rest = dropWhile (\<lambda>c. \<not> is_line_end c) buffer in
     if rest = [] then
       (if int (length buffer) > m then (([], Some claude_ErrRecordTooLarge), (n, [])) else (([], None), (n, buffer)))
     else if int (length line) > m then (([], Some claude_ErrRecordTooLarge), (n, tl rest))
     else if blank line then claude_records m n (tl rest)
     else prepend [claude_decodeEvent (n + 1) line] (claude_records m (n + 1) (tl rest)))"
  by pat_completeness auto
termination
  by (relation "measure (\<lambda>(_, _, buffer). length buffer)") (auto intro!: shorter_rest)

declare claude_records.simps [simp del]

definition claude_Feed :: "(ClaudeDecoder, ClaudeEvent) feed" where
  "claude_Feed dec chunk = (case claude_records (cd_max dec) (cd_sequence dec) (cd_buffer dec @ chunk) of
     (r, (n, buffer)) \<Rightarrow> (r, dec\<lparr> cd_sequence := n, cd_buffer := buffer \<rparr>))"

definition claude_Close :: "ClaudeDecoder \<Rightarrow> (ClaudeEvent list \<times> gerror option) \<times> ClaudeDecoder" where
  "claude_Close dec = (if blank (cd_buffer dec) then (([], None), dec\<lparr> cd_buffer := [] \<rparr>)
     else (let n = cd_sequence dec + 1 in
       (([invalidEvent n (cd_buffer dec) claude_ErrIncompleteRecord], Some claude_ErrIncompleteRecord), dec\<lparr> cd_sequence := n, cd_buffer := [] \<rparr>)))"

subsection \<open>The terminal validator\<close>

record Terminal =
  tm_SessionID :: string
  tm_Result :: ClaudeResult

record TerminalValidator =
  tv_expectedSessionID :: string
  tv_observedSessionID :: string
  tv_result :: "ClaudeResult option"
  tv_failed :: "gerror option"

definition NewTerminalValidator :: "string \<Rightarrow> TerminalValidator" where
  "NewTerminalValidator expectedSessionID = \<lparr> tv_expectedSessionID = TrimSpace expectedSessionID, tv_observedSessionID = [], tv_result = None, tv_failed = None \<rparr>"

definition claude_isJSONObject :: "json option \<Rightarrow> bool" where
  "claude_isJSONObject v = (case v of Some (JObj _) \<Rightarrow> True | _ \<Rightarrow> False)"

text \<open>The first violation of a result event, in the order of the code.\<close>

definition result_violation :: "ClaudeEvent \<Rightarrow> gerror option" where
  "result_violation event = (case ce_Result event of
     None \<Rightarrow> Some ErrInvalidResult
   | Some r \<Rightarrow>
     if ce_SessionID event = [] then Some ErrMissingResultIdentity
     else if cr_IsError r then Some ErrResultReportedError
     else if cr_Subtype r \<noteq> ''success'' then Some ErrUnexpectedResultSubtype
     else if cr_TerminalReason r \<noteq> [] \<and> cr_TerminalReason r \<noteq> ''success'' \<and> cr_TerminalReason r \<noteq> ''completed'' then Some ErrNonSuccessTerminalReason
     else if \<not> claude_isJSONObject (cr_StructuredOutput r) then Some ErrMissingStructuredOutput
     else None)"

definition claude_Observe :: "ClaudeEvent \<Rightarrow> TerminalValidator \<Rightarrow> TerminalValidator" where
  "claude_Observe event v = (let fail = (\<lambda>v e. v\<lparr> tv_failed := Some e \<rparr>) in
     if tv_failed v \<noteq> None then v
     else if tv_result v \<noteq> None then fail v (if ce_Type event = EventResult then ErrRepeatedResult else ErrEventAfterResult)
     else if ce_DecodeError event \<noteq> None then v\<lparr> tv_failed := ce_DecodeError event \<rparr>
     else if ce_SessionID event \<noteq> [] \<and> (tv_expectedSessionID v \<noteq> [] \<and> ce_SessionID event \<noteq> tv_expectedSessionID v
              \<or> tv_observedSessionID v \<noteq> [] \<and> ce_SessionID event \<noteq> tv_observedSessionID v) then fail v ErrConflictingIdentity
     else (let v1 = (if ce_SessionID event \<noteq> [] then v\<lparr> tv_observedSessionID := ce_SessionID event \<rparr> else v) in
       if ce_Type event = EventControlRequest then fail v1 ErrControlRequestUnsupported
       else if ce_Type event \<noteq> EventResult then v1
       else (case result_violation event of
           Some e \<Rightarrow> fail v1 e
         | None \<Rightarrow> v1\<lparr> tv_result := ce_Result event \<rparr>)))"

definition claude_Finish :: "TerminalValidator \<Rightarrow> Terminal result" where
  "claude_Finish v = (case tv_failed v of
     Some e \<Rightarrow> Inl e
   | None \<Rightarrow> (case tv_result v of
       None \<Rightarrow> Inl ErrMissingResult
     | Some r \<Rightarrow> if tv_observedSessionID v = [] then Inl ErrMissingResultIdentity
         else Inr \<lparr> tm_SessionID = tv_observedSessionID v, tm_Result = r \<rparr>))"

subsection \<open>Accepted streams do not depend on chunks\<close>

lemma claude_records_tail:
  "list_all (\<lambda>c. \<not> is_line_end c) xs \<Longrightarrow>
    claude_records m n xs = (if int (length xs) > m then (([], Some claude_ErrRecordTooLarge), (n, [])) else (([], None), (n, xs)))"
  by (subst claude_records.simps) (simp add: list_all_iff)

lemma claude_records_line:
  "list_all (\<lambda>c. \<not> is_line_end c) xs \<Longrightarrow> claude_records m n (xs @ CHR 0x0A # ys) =
    (if int (length xs) > m then (([], Some claude_ErrRecordTooLarge), (n, ys))
     else if blank xs then claude_records m n ys
     else prepend [claude_decodeEvent (n + 1) xs] (claude_records m (n + 1) ys))"
  by (subst claude_records.simps) (simp add: list_all_iff takeWhile_append dropWhile_append is_line_end_def)

lemma claude_records_append:
  "claude_records m n xs = ((o1, None), (n1, b1)) \<Longrightarrow> claude_records m n (xs @ ys) = prepend o1 (claude_records m n1 (b1 @ ys))"
proof (induction "length xs" arbitrary: xs n o1 rule: less_induct)
  case less
  show ?case
  proof (cases xs rule: line_cases)
    case tail
    then show ?thesis using less.prems by (auto simp: claude_records_tail split: if_splits)
  next
    case (line l zs)
    have over: "\<not> int (length l) > m" using less.prems line by (auto simp: claude_records_line)
    show ?thesis
    proof (cases "blank l")
      case True
      then show ?thesis using less.hyps [of zs n o1] less.prems line over by (simp add: claude_records_line)
    next
      case False
      then obtain o2 where rest: "claude_records m (n + 1) zs = ((o2, None), (n1, b1))" "o1 = claude_decodeEvent (n + 1) l # o2"
        using less.prems line over by (auto simp: claude_records_line prepend_def split: prod.splits)
      then show ?thesis using less.hyps [OF _ rest(1)] line over False by (simp add: claude_records_line)
    qed
  qed
qed

interpretation claude: stream_decoder claude_Feed
proof
  fix s s1 :: ClaudeDecoder and xs ys :: bytes and o1
  assume f: "claude_Feed s xs = ((o1, None), s1)"
  then obtain n1 b1 where l: "claude_records (cd_max s) (cd_sequence s) (cd_buffer s @ xs) = ((o1, None), (n1, b1))"
    "s1 = s\<lparr> cd_sequence := n1, cd_buffer := b1 \<rparr>"
    by (auto simp: claude_Feed_def split: prod.splits)
  show "claude_Feed s (xs @ ys) = prepend o1 (claude_Feed s1 ys)"
    using claude_records_append [OF l(1), of ys] l(2) by (simp add: claude_Feed_def prepend_def split: prod.splits)
qed

text \<open>C24: two ways of cutting one native output into chunks that the decoder both accepts give the same events, numbered alike, and the same state.\<close>

theorem claude_chunking_irrelevant:
  assumes "feeds claude_Feed dec c cs = ((es, None), d1)" and "feeds claude_Feed dec b bs = ((fs, None), d2)" and "concat (c # cs) = concat (b # bs)"
  shows "es = fs \<and> d1 = d2"
  by (rule claude.feeds_agree [OF assms])

theorem claude_chunking_irrelevant_witness:
  "\<exists>es fs d1 d2. feeds claude_Feed (claude_NewDecoder 8) ''{'' [''}'' @ [CHR 0x0A]] = ((es, None), d1)
     \<and> feeds claude_Feed (claude_NewDecoder 8) (''{}'' @ [CHR 0x0A]) [] = ((fs, None), d2) \<and> es = fs \<and> d1 = d2"
proof -
  have run: "claude_records 8 0 (''{}'' @ [CHR 0x0A]) = (([claude_decodeEvent 1 ''{}''], None), (1, []))"
    "claude_records 8 0 ''{'' = (([], None), (0, ''{''))"
    using claude_records_line [of "''{}''" 8 0 "[]"] claude_records_tail [of "[]" 8 1] claude_records_tail [of "''{''" 8 0]
    by (simp_all add: is_line_end_def blank_def TrimSpace_def trim_left.simps trim_right.simps space_width_end_def)
  have feeds: "feeds claude_Feed (claude_NewDecoder 8) ''{'' [''}'' @ [CHR 0x0A]] = (([claude_decodeEvent 1 ''{}''], None), (claude_NewDecoder 8)\<lparr> cd_sequence := 1 \<rparr>)"
    "feeds claude_Feed (claude_NewDecoder 8) (''{}'' @ [CHR 0x0A]) [] = (([claude_decodeEvent 1 ''{}''], None), (claude_NewDecoder 8)\<lparr> cd_sequence := 1 \<rparr>)"
    using run by (simp_all add: claude_Feed_def claude_NewDecoder_def)
  from claude_chunking_irrelevant [OF feeds] feeds show ?thesis by blast
qed

subsection \<open>What a success is\<close>

definition quiet_event :: "string \<Rightarrow> ClaudeEvent \<Rightarrow> bool" where
  "quiet_event sid e = (ce_DecodeError e = None \<and> ce_Type e \<noteq> EventResult \<and> ce_Type e \<noteq> EventControlRequest \<and> (ce_SessionID e = [] \<or> ce_SessionID e = sid))"

definition success_result :: "ClaudeResult \<Rightarrow> bool" where
  "success_result r = (\<not> cr_IsError r \<and> cr_Subtype r = ''success'' \<and> cr_TerminalReason r \<in> {[], ''success'', ''completed''}
     \<and> (\<exists>ms. cr_StructuredOutput r = Some (JObj ms)))"

text \<open>A successful stream: quiet events of one session, the last event its only result, and the result a verified success.\<close>

definition successful_stream :: "string \<Rightarrow> ClaudeEvent list \<Rightarrow> Terminal \<Rightarrow> bool" where
  "successful_stream expected es t = (es \<noteq> [] \<and> list_all (quiet_event (tm_SessionID t)) (butlast es)
     \<and> ce_DecodeError (last es) = None \<and> ce_Type (last es) = EventResult \<and> ce_Result (last es) = Some (tm_Result t) \<and> success_result (tm_Result t)
     \<and> ce_SessionID (last es) = tm_SessionID t \<and> tm_SessionID t \<noteq> [] \<and> (expected = [] \<or> tm_SessionID t = expected))"

abbreviation running :: "TerminalValidator \<Rightarrow> bool" where
  "running v \<equiv> tv_failed v = None \<and> tv_result v = None"

definition same_session :: "TerminalValidator \<Rightarrow> string \<Rightarrow> bool" where
  "same_session v sid = (sid = [] \<or> (tv_expectedSessionID v = [] \<or> sid = tv_expectedSessionID v) \<and> (tv_observedSessionID v = [] \<or> sid = tv_observedSessionID v))"

definition joined :: "TerminalValidator \<Rightarrow> string \<Rightarrow> TerminalValidator" where
  "joined v sid = (if sid = [] then v else v\<lparr> tv_observedSessionID := sid \<rparr>)"

lemma result_violation_None:
  "result_violation e = None \<longleftrightarrow> (\<exists>r. ce_Result e = Some r \<and> ce_SessionID e \<noteq> [] \<and> success_result r)"
  by (auto simp: result_violation_def success_result_def claude_isJSONObject_def split: option.splits json.splits if_splits)

lemma observe_running:
  assumes "running v"
  shows "running (claude_Observe e v) \<longleftrightarrow>
      ce_DecodeError e = None \<and> ce_Type e \<noteq> EventResult \<and> ce_Type e \<noteq> EventControlRequest \<and> same_session v (ce_SessionID e)"
    and "running (claude_Observe e v) \<Longrightarrow> claude_Observe e v = joined v (ce_SessionID e)"
    and "tv_failed (claude_Observe e v) = None \<and> tv_result (claude_Observe e v) = Some r \<longleftrightarrow>
      ce_DecodeError e = None \<and> ce_Type e = EventResult \<and> same_session v (ce_SessionID e) \<and> ce_Result e = Some r \<and> ce_SessionID e \<noteq> [] \<and> success_result r"
    and "tv_failed (claude_Observe e v) = None \<Longrightarrow> tv_observedSessionID (claude_Observe e v) = tv_observedSessionID (joined v (ce_SessionID e))"
  using assms result_violation_None [of e]
  by (auto simp: claude_Observe_def Let_def same_session_def joined_def split: option.splits if_splits)

lemma observe_stuck: "\<not> running v \<Longrightarrow> tv_failed (claude_Observe e v) \<noteq> None"
  by (cases "tv_failed v"; cases "tv_result v") (simp_all add: claude_Observe_def Let_def)

definition observed :: "string \<Rightarrow> ClaudeEvent list \<Rightarrow> TerminalValidator" where
  "observed expected es = fold claude_Observe es (NewTerminalValidator expected)"

lemma observed_simps:
  "observed expected [] = NewTerminalValidator expected"
  "observed expected (es @ [e]) = claude_Observe e (observed expected es)"
  by (simp_all add: observed_def)

lemma observed_expected: "tv_expectedSessionID (observed expected es) = TrimSpace expected"
proof (induction es rule: rev_induct)
  case (snoc e es)
  have "tv_expectedSessionID (claude_Observe e v) = tv_expectedSessionID v" for v
    by (simp add: claude_Observe_def Let_def split: option.split)
  then show ?case using snoc by (simp add: observed_simps)
qed (simp add: observed_simps NewTerminalValidator_def)

text \<open>Events without a decision leave the validator running, bound to the one session they name.\<close>

definition one_session :: "string \<Rightarrow> ClaudeEvent list \<Rightarrow> string \<Rightarrow> bool" where
  "one_session expected es sid = (list_all (quiet_event sid) es \<and> (sid \<noteq> [] \<longrightarrow> (\<exists>e \<in> set es. ce_SessionID e = sid) \<and> (expected = [] \<or> sid = expected)))"

lemma one_session_snoc:
  "one_session expected (es @ [e]) sid \<longleftrightarrow> ce_DecodeError e = None \<and> ce_Type e \<noteq> EventResult \<and> ce_Type e \<noteq> EventControlRequest
    \<and> (if ce_SessionID e = [] then one_session expected es sid
       else ce_SessionID e = sid \<and> (expected = [] \<or> sid = expected) \<and> (one_session expected es [] \<or> one_session expected es sid))"
  by (auto simp: one_session_def quiet_event_def list_all_iff)

lemma step_running:
  "running (claude_Observe e v) \<and> tv_observedSessionID (claude_Observe e v) = sid
    \<longleftrightarrow> ce_DecodeError e = None \<and> ce_Type e \<noteq> EventResult \<and> ce_Type e \<noteq> EventControlRequest
      \<and> (if ce_SessionID e = [] then running v \<and> tv_observedSessionID v = sid
         else ce_SessionID e = sid \<and> (tv_expectedSessionID v = [] \<or> sid = tv_expectedSessionID v)
           \<and> (running v \<and> tv_observedSessionID v = [] \<or> running v \<and> tv_observedSessionID v = sid))"
proof (cases "running v")
  case True
  have "running (claude_Observe e v) \<and> tv_observedSessionID (claude_Observe e v) = sid
      \<longleftrightarrow> running (claude_Observe e v) \<and> tv_observedSessionID (joined v (ce_SessionID e)) = sid"
    using observe_running(2) [OF True, of e] by metis
  then show ?thesis unfolding observe_running(1) [OF True] using True
    by (cases "ce_SessionID e = []"; cases "ce_SessionID e = sid"; cases "tv_observedSessionID v = []") (simp_all add: same_session_def joined_def conj_ac eq_commute)
next
  case False
  then show ?thesis using observe_stuck [OF False, of e] by auto
qed

lemma observed_running:
  "running (observed expected es) \<and> tv_observedSessionID (observed expected es) = sid \<longleftrightarrow> one_session (TrimSpace expected) es sid"
proof (induction es arbitrary: sid rule: rev_induct)
  case Nil
  then show ?case by (auto simp: observed_simps NewTerminalValidator_def one_session_def)
next
  case (snoc e es)
  show ?case unfolding observed_simps one_session_snoc step_running observed_expected snoc.IH ..
qed

text \<open>The step that decides: only a verified success turns a running validator into one with a result.\<close>

lemma step_finish:
  "claude_Finish (claude_Observe e v) = Inr t \<longleftrightarrow> (running v \<and> same_session v (tm_SessionID t)) \<and> ce_DecodeError e = None \<and> ce_Type e = EventResult
    \<and> ce_Result e = Some (tm_Result t) \<and> ce_SessionID e = tm_SessionID t \<and> tm_SessionID t \<noteq> [] \<and> success_result (tm_Result t)"
proof (cases "running v")
  case True
  have "claude_Finish w = Inr t \<longleftrightarrow> (tv_failed w = None \<and> tv_result w = Some (tm_Result t)) \<and> tv_observedSessionID w = tm_SessionID t \<and> tm_SessionID t \<noteq> []" for w
    by (cases t) (auto simp: claude_Finish_def split: option.split)
  then have "claude_Finish (claude_Observe e v) = Inr t \<longleftrightarrow> (tv_failed (claude_Observe e v) = None \<and> tv_result (claude_Observe e v) = Some (tm_Result t))
      \<and> tv_observedSessionID (joined v (ce_SessionID e)) = tm_SessionID t \<and> tm_SessionID t \<noteq> []"
    using observe_running(4) [OF True, of e] by metis
  then show ?thesis unfolding observe_running(3) [OF True] using True
    by (cases "ce_SessionID e = tm_SessionID t"; cases "ce_SessionID e = []") (simp_all add: joined_def conj_ac)
next
  case False
  then show ?thesis using observe_stuck [OF False, of e] by (auto simp: claude_Finish_def)
qed

text \<open>C18: the validator accepts exactly the successful streams. Finishing after a list of events answers a terminal if and only if the events are
  undisturbed messages of one session, the expected one if one is given, closed by exactly one result event that reports verified success and
  carries a JSON object as its structured output; the terminal is that session and that result.\<close>

theorem claude_success_characterised:
  "claude_Finish (observed expected es) = Inr t \<longleftrightarrow> successful_stream (TrimSpace expected) es t"
proof (cases es rule: rev_cases)
  case Nil
  then show ?thesis by (simp add: claude_Finish_def observed_simps NewTerminalValidator_def successful_stream_def)
next
  case (snoc pre e)
  have quiet: "list_all (quiet_event (tm_SessionID t)) pre \<and> (TrimSpace expected = [] \<or> tm_SessionID t = TrimSpace expected)
    \<longleftrightarrow> (one_session (TrimSpace expected) pre [] \<or> one_session (TrimSpace expected) pre (tm_SessionID t))
      \<and> (TrimSpace expected = [] \<or> tm_SessionID t = TrimSpace expected)"
    by (auto simp: one_session_def quiet_event_def list_all_iff)
  have run: "running (observed expected pre) \<and> same_session (observed expected pre) (tm_SessionID t) \<longleftrightarrow>
      list_all (quiet_event (tm_SessionID t)) pre \<and> (TrimSpace expected = [] \<or> tm_SessionID t = TrimSpace expected)" if "tm_SessionID t \<noteq> []"
    unfolding quiet observed_running [symmetric] using that by (auto simp: same_session_def observed_expected)
  show ?thesis
  proof (cases "tm_SessionID t = []")
    case False
    then show ?thesis unfolding snoc observed_simps step_finish run [OF False] successful_stream_def by simp blast
  qed (simp add: snoc observed_simps step_finish successful_stream_def)
qed

end
