(* ===== verification/Pi_Rpc.thy ===== *)
theory Pi_Rpc
  imports Harness_Json "HOL-Library.AList"
begin

text \<open>
  The rpc transport of pi (\<^verbatim>\<open>internal/harness/pi/rpc.go\<close>): requests, the record decoder with its strict objects, and the validator that
  correlates responses and follows the life of one prompt.  Register, Expire and Observe answer the failure they leave in the validator, so each is
  a function on validators.  A nil decoder or validator answers an error and has no state to model.  The task result inside a final message is left
  to the contract schemas and is not decoded here.
\<close>

abbreviation pi_ErrRecordTooLarge :: gerror where "pi_ErrRecordTooLarge \<equiv> Err ''pi rpc record exceeds limit''"
abbreviation pi_ErrIncompleteRecord :: gerror where "pi_ErrIncompleteRecord \<equiv> Err ''pi rpc stream ended with an incomplete record''"
abbreviation pi_ErrMalformedJSON :: gerror where "pi_ErrMalformedJSON \<equiv> Err ''pi rpc record is not valid JSON''"
abbreviation pi_ErrInvalidUTF8 :: gerror where "pi_ErrInvalidUTF8 \<equiv> Err ''pi rpc record is not valid UTF-8''"
abbreviation pi_ErrNonObjectRecord :: gerror where "pi_ErrNonObjectRecord \<equiv> Err ''pi rpc record must be a JSON object''"
abbreviation pi_ErrDuplicateField :: gerror where "pi_ErrDuplicateField \<equiv> Err ''pi rpc record contains a duplicate field: %q''"
abbreviation pi_ErrInvalidRecordType :: gerror where "pi_ErrInvalidRecordType \<equiv> Err ''pi rpc record type must be a non-empty string''"
abbreviation pi_ErrInvalidResponse :: gerror where "pi_ErrInvalidResponse \<equiv> Err ''pi rpc response is invalid''"
abbreviation pi_ErrInvalidResponseID :: gerror where "pi_ErrInvalidResponseID \<equiv> Err ''pi rpc response id must be a non-empty string''"
abbreviation pi_ErrInvalidResponseCommand :: gerror where "pi_ErrInvalidResponseCommand \<equiv> Err ''pi rpc response command must be a non-empty string''"
abbreviation pi_ErrInvalidResponseSuccess :: gerror where "pi_ErrInvalidResponseSuccess \<equiv> Err ''pi rpc response success must be a boolean''"
abbreviation pi_ErrPromptNotAccepted :: gerror where "pi_ErrPromptNotAccepted \<equiv> Err ''pi rpc prompt was not accepted''"
abbreviation pi_ErrMissingSessionState :: gerror where "pi_ErrMissingSessionState \<equiv> Err ''pi rpc completion has no observed session state''"
abbreviation pi_ErrNotSettled :: gerror where "pi_ErrNotSettled \<equiv> Err ''pi rpc stream has not reached agent_settled''"
abbreviation pi_ErrPendingResponse :: gerror where "pi_ErrPendingResponse \<equiv> Err ''pi rpc completion still has an unacknowledged request''"
abbreviation pi_ErrMissingAgentEnd :: gerror where "pi_ErrMissingAgentEnd \<equiv> Err ''pi rpc stream settled without an agent_end event''"
abbreviation pi_ErrMissingAssistantMessage :: gerror where
  "pi_ErrMissingAssistantMessage \<equiv> Err ''pi rpc stream settled without a complete assistant message''"
abbreviation pi_ErrUnexpectedAssistantStop :: gerror where
  "pi_ErrUnexpectedAssistantStop \<equiv> Err ''pi rpc final assistant message did not stop normally''"
abbreviation pi_ErrDuplicateSettled :: gerror where "pi_ErrDuplicateSettled \<equiv> Err ''pi rpc stream contains more than one agent_settled event''"
abbreviation pi_ErrDuplicateAgentEnd :: gerror where
  "pi_ErrDuplicateAgentEnd \<equiv> Err ''pi rpc stream contains more than one agent_end event for a run''"
abbreviation pi_ErrResumeStateIncomplete :: gerror where
  "pi_ErrResumeStateIncomplete \<equiv> Err ''pi resume state omits streaming or queue status''"
abbreviation pi_ErrResumeStateActive :: gerror where
  "pi_ErrResumeStateActive \<equiv> Err ''pi resume state has active streaming or queued work''"
abbreviation pi_invalid_request :: "string \<Rightarrow> gerror" where "pi_invalid_request t \<equiv> Err (''pi rpc request is invalid: '' @ t)"
abbreviation pi_unexpected_event :: "string \<Rightarrow> gerror" where
  "pi_unexpected_event t \<equiv> Err (''pi rpc agent event is not valid for the active operation: '' @ t)"

subsection \<open>Requests\<close>

abbreviation CommandPrompt :: string where "CommandPrompt \<equiv> ''prompt''"
abbreviation CommandGetState :: string where "CommandGetState \<equiv> ''get_state''"
abbreviation CommandClearQueue :: string where "CommandClearQueue \<equiv> ''clear_queue''"
abbreviation CommandAbort :: string where "CommandAbort \<equiv> ''abort''"

record PiRequest =
  pq_ID :: string
  pq_Type :: string
  pq_Message :: string
  pq_StreamingBehavior :: string

definition PiRequest_Validate :: "PiRequest \<Rightarrow> gerror option" where
  "PiRequest_Validate request =
    (if blank (pq_ID request) then Some (pi_invalid_request ''id must be non-empty'')
     else if pq_Type request = CommandPrompt then
       (if blank (pq_Message request) then Some (pi_invalid_request ''prompt message must be non-empty'') else None)
     else if pq_Type request \<in> {CommandGetState, CommandClearQueue, CommandAbort} then
       (if pq_Message request \<noteq> [] \<or> pq_StreamingBehavior request \<noteq> [] then Some (pi_invalid_request ''command %q cannot include prompt fields'')
        else None)
     else Some (pi_invalid_request ''unsupported command %q''))"

definition pi_request :: "string \<Rightarrow> string \<Rightarrow> string \<Rightarrow> string \<Rightarrow> PiRequest result" where
  "pi_request ident command message streamingBehavior =
    (let request = \<lparr> pq_ID = TrimSpace ident, pq_Type = command, pq_Message = message, pq_StreamingBehavior = streamingBehavior \<rparr> in
     case PiRequest_Validate request of Some e \<Rightarrow> Inl e | None \<Rightarrow> Inr request)"

definition GetStateRequest :: "string \<Rightarrow> PiRequest result" where
  "GetStateRequest ident = pi_request ident CommandGetState [] []"

definition PromptRequest :: "string \<Rightarrow> string \<Rightarrow> string \<Rightarrow> PiRequest result" where
  "PromptRequest ident message streamingBehavior =
    (if blank message then Inl (pi_invalid_request ''prompt message must be non-empty'')
     else if streamingBehavior \<notin> {[], ''steer'', ''followUp''} then Inl (pi_invalid_request ''unknown prompt streaming behavior %q'')
     else pi_request ident CommandPrompt message streamingBehavior)"

definition ClearThenAbortRequests :: "string \<Rightarrow> string \<Rightarrow> (PiRequest \<times> PiRequest) result" where
  "ClearThenAbortRequests clearQueueID abortID =
    (if TrimSpace clearQueueID = TrimSpace abortID \<and> TrimSpace clearQueueID \<noteq> [] then Inl (pi_invalid_request ''clear_queue and abort ids must differ'')
     else bind_r (pi_request clearQueueID CommandClearQueue [] []) (\<lambda>clear.
          bind_r (pi_request abortID CommandAbort [] []) (\<lambda>abort. Inr (clear, abort))))"

subsection \<open>Strict objects\<close>

text \<open>A token reader turns a number into a \<^verbatim>\<open>float64\<close> and fails if it rounds to infinity; \<open>strconv\<close> stops collecting an exponent at 10000.\<close>

definition capped_exponent :: "string \<Rightarrow> int" where
  "capped_exponent s = foldl (\<lambda>e c. if e < 10000 then 10 * e + (int (of_char c :: nat) - 48) else e) 0 s"

definition float_exponent :: "string \<Rightarrow> int" where
  "float_exponent s = (case s of [] \<Rightarrow> 0
     | _ # t \<Rightarrow> (case t of [] \<Rightarrow> 0
        | c # u \<Rightarrow> if c = CHR ''-'' then - capped_exponent u else if c = CHR ''+'' then capped_exponent u else capped_exponent t))"

definition float64_overflow :: "string \<Rightarrow> bool" where
  "float64_overflow tok =
    (let t = (if tok \<noteq> [] \<and> hd tok = CHR ''-'' then tl tok else tok);
         whole = takeWhile is_digit t; r = dropWhile is_digit t;
         frac = (if r \<noteq> [] \<and> hd r = CHR ''.'' then takeWhile is_digit (tl r) else []);
         r' = (if r \<noteq> [] \<and> hd r = CHR ''.'' then dropWhile is_digit (tl r) else r);
         mant = foldl (\<lambda>a c. 10 * a + (int (of_char c :: nat) - 48)) 0 (whole @ frac);
         scale = float_exponent r' - int (length frac); limit = 2 ^ 1024 - 2 ^ 970
     in if mant = 0 then False
        else if scale \<ge> 0 then mant * 10 ^ nat scale \<ge> limit
        else mant \<ge> limit * 10 ^ nat (- scale))"

text \<open>The first violation in document order.\<close>

fun pi_scanJSONValue :: "json \<Rightarrow> gerror option" and scan_elements :: "json list \<Rightarrow> gerror option"
  and scan_members :: "string list \<Rightarrow> (string \<times> json) list \<Rightarrow> gerror option" where
  "pi_scanJSONValue (JNum tok) = (if float64_overflow tok then Some pi_ErrMalformedJSON else None)"
| "pi_scanJSONValue (JArr vs) = scan_elements vs"
| "pi_scanJSONValue (JObj ms) = scan_members [] ms"
| "pi_scanJSONValue _ = None"
| "scan_elements [] = None"
| "scan_elements (v # vs) = (case pi_scanJSONValue v of Some e \<Rightarrow> Some e | None \<Rightarrow> scan_elements vs)"
| "scan_members seen [] = None"
| "scan_members seen ((k, v) # ms) =
     (let key = unquote_string k in
      if key \<in> set seen then Some pi_ErrDuplicateField
      else case pi_scanJSONValue v of Some e \<Rightarrow> Some e | None \<Rightarrow> scan_members (key # seen) ms)"

definition strict_value :: "json \<Rightarrow> json_object result" where
  "strict_value v = (case pi_scanJSONValue v of
     Some e \<Rightarrow> Inl e
   | None \<Rightarrow> (case v of JObj ms \<Rightarrow> Inr (members ms) | _ \<Rightarrow> Inl pi_ErrNonObjectRecord))"

definition strictObject :: "bytes \<Rightarrow> json_object result" where
  "strictObject raw = (if \<not> utf8_Valid raw then Inl pi_ErrMalformedJSON
     else case parse_json raw of None \<Rightarrow> Inl pi_ErrMalformedJSON | Some v \<Rightarrow> strict_value v)"

text \<open>The same on a raw member, which may be absent.\<close>

definition strict_member :: "json option \<Rightarrow> json_object result" where
  "strict_member v = (case v of None \<Rightarrow> Inl pi_ErrMalformedJSON | Some w \<Rightarrow> strict_value w)"

definition nonEmptyString :: "json option \<Rightarrow> string option" where
  "nonEmptyString v = (case v of
     None \<Rightarrow> None
   | Some w \<Rightarrow> if w = JNull then None else (case into_string w of None \<Rightarrow> None | Some s \<Rightarrow> if blank s then None else Some s))"

definition pi_isJSONObject :: "json option \<Rightarrow> bool" where
  "pi_isJSONObject v = (\<not> isl (strict_member v))"

definition isJSONArray :: "json option \<Rightarrow> bool" where
  "isJSONArray v = (case v of Some (JArr vs) \<Rightarrow> pi_scanJSONValue (JArr vs) = None | _ \<Rightarrow> False)"

definition required_bool :: "json option \<Rightarrow> bool option" where
  "required_bool v = (case v of None \<Rightarrow> None | Some w \<Rightarrow> if w = JNull then None else into_bool w)"

subsection \<open>Records\<close>

record PiResponse =
  pr_ID :: string
  pr_Command :: string
  pr_Success :: bool
  pr_Data :: "json option"
  pr_Error :: string

record PiEvent =
  pe_Type :: string
  pe_Message :: "json option"
  pe_AgentEndMessages :: "json option"
  pe_WillRetry :: bool

record PiRecord =
  pc_Sequence :: "64 word"
  pc_Raw :: bytes
  pc_Response :: "PiResponse option"
  pc_Event :: "PiEvent option"
  pc_DecodeError :: "gerror option"

abbreviation EventAgentStart :: string where "EventAgentStart \<equiv> ''agent_start''"
abbreviation EventAgentEnd :: string where "EventAgentEnd \<equiv> ''agent_end''"
abbreviation EventAgentSettled :: string where "EventAgentSettled \<equiv> ''agent_settled''"
abbreviation EventMessageEnd :: string where "EventMessageEnd \<equiv> ''message_end''"
abbreviation EventExtensionUIRequest :: string where "EventExtensionUIRequest \<equiv> ''extension_ui_request''"

definition invalidRecord :: "64 word \<Rightarrow> bytes \<Rightarrow> gerror \<Rightarrow> PiRecord" where
  "invalidRecord sequence raw e = \<lparr> pc_Sequence = sequence, pc_Raw = raw, pc_Response = None, pc_Event = None, pc_DecodeError = Some e \<rparr>"

definition decodeResponse :: "json_object \<Rightarrow> PiResponse result" where
  "decodeResponse obj = (case nonEmptyString (last_lookup ''id'' obj) of
     None \<Rightarrow> Inl pi_ErrInvalidResponseID
   | Some i \<Rightarrow> (case nonEmptyString (last_lookup ''command'' obj) of
       None \<Rightarrow> Inl pi_ErrInvalidResponseCommand
     | Some c \<Rightarrow> (case required_bool (last_lookup ''success'' obj) of
         None \<Rightarrow> Inl pi_ErrInvalidResponseSuccess
       | Some ok \<Rightarrow>
         (let failure = nonEmptyString (last_lookup ''error'' obj) in
          if last_lookup ''error'' obj \<noteq> None \<and> failure = None then Inl pi_ErrInvalidResponse
          else if \<not> ok \<and> failure = None then Inl pi_ErrInvalidResponse
          else if ok \<and> failure \<noteq> None then Inl pi_ErrInvalidResponse
          else Inr \<lparr> pr_ID = i, pr_Command = c, pr_Success = ok, pr_Data = last_lookup ''data'' obj,
                      pr_Error = (case failure of None \<Rightarrow> [] | Some t \<Rightarrow> t) \<rparr>))))"

definition supportedEvent :: "string \<Rightarrow> bool" where
  "supportedEvent t = (t \<in> set [EventAgentStart, EventAgentEnd, EventAgentSettled, ''turn_start'', ''turn_end'', ''message_start'',
     ''message_update'', EventMessageEnd, ''bash_execution_update'', ''tool_execution_start'', ''tool_execution_update'',
     ''tool_execution_end'', ''queue_update'', ''entry_appended'', ''session_info_changed'', ''thinking_level_changed'',
     ''compaction_start'', ''compaction_end'', ''auto_retry_start'', ''auto_retry_end'', ''summarization_retry_scheduled'',
     ''summarization_retry_attempt_start'', ''summarization_retry_finished'', ''extension_error'', EventExtensionUIRequest])"

definition pi_decodeEvent :: "string \<Rightarrow> json_object \<Rightarrow> PiEvent result" where
  "pi_decodeEvent eventType obj =
    (if \<not> supportedEvent eventType then Inl (Err ''pi rpc event type is unsupported: %q'')
     else if eventType = EventExtensionUIRequest then Inl (Err ''pi rpc extension UI request is unsupported'')
     else if eventType = EventMessageEnd then
       (if \<not> pi_isJSONObject (last_lookup ''message'' obj) then Inl (Err ''pi rpc event payload is invalid: message_end.message must be an object'')
        else Inr \<lparr> pe_Type = eventType, pe_Message = last_lookup ''message'' obj, pe_AgentEndMessages = None, pe_WillRetry = False \<rparr>)
     else if eventType = EventAgentEnd then
       (if \<not> isJSONArray (last_lookup ''messages'' obj) then Inl (Err ''pi rpc event payload is invalid: agent_end.messages must be an array'')
        else case required_bool (last_lookup ''willRetry'' obj) of
          None \<Rightarrow> Inl (Err ''pi rpc event payload is invalid: agent_end.willRetry must be a boolean'')
        | Some b \<Rightarrow> Inr \<lparr> pe_Type = eventType, pe_Message = None, pe_AgentEndMessages = last_lookup ''messages'' obj, pe_WillRetry = b \<rparr>)
     else Inr \<lparr> pe_Type = eventType, pe_Message = None, pe_AgentEndMessages = None, pe_WillRetry = False \<rparr>)"

definition decodeRecord :: "64 word \<Rightarrow> bytes \<Rightarrow> PiRecord" where
  "decodeRecord sequence line = (let raw = TrimSpace line in
     if \<not> utf8_Valid raw then invalidRecord sequence raw pi_ErrInvalidUTF8
     else case strictObject raw of
       Inl e \<Rightarrow> invalidRecord sequence raw e
     | Inr obj \<Rightarrow> (case nonEmptyString (last_lookup ''type'' obj) of
         None \<Rightarrow> invalidRecord sequence raw pi_ErrInvalidRecordType
       | Some t \<Rightarrow>
         if t = ''response'' then
           (case decodeResponse obj of
              Inl e \<Rightarrow> invalidRecord sequence raw e
            | Inr r \<Rightarrow> \<lparr> pc_Sequence = sequence, pc_Raw = raw, pc_Response = Some r, pc_Event = None, pc_DecodeError = None \<rparr>)
         else
           (case pi_decodeEvent t obj of
              Inl e \<Rightarrow> invalidRecord sequence raw e
            | Inr ev \<Rightarrow> \<lparr> pc_Sequence = sequence, pc_Raw = raw, pc_Response = None, pc_Event = Some ev, pc_DecodeError = None \<rparr>)))"

record PiDecoder =
  pd_max :: int
  pd_buffer :: bytes
  pd_sequence :: "64 word"
  pd_failed :: "gerror option"

definition pi_NewDecoder :: "int \<Rightarrow> PiDecoder" where
  "pi_NewDecoder maxRecordBytes =
    \<lparr> pd_max = (if maxRecordBytes \<le> 0 then 1048576 else maxRecordBytes), pd_buffer = [], pd_sequence = 0, pd_failed = None \<rparr>"

definition hasTrailingCR :: "bytes \<Rightarrow> bool" where
  "hasTrailingCR line = (line \<noteq> [] \<and> last line = CHR 0x0D)"

definition pi_line_over :: "int \<Rightarrow> bytes \<Rightarrow> bool" where
  "pi_line_over m line = (int (length line) > m + 1 \<or> int (length line) > m \<and> \<not> hasTrailingCR line)"

definition pi_line :: "(64 word, PiRecord) feed" where
  "pi_line n line = (let l = (if hasTrailingCR line then butlast line else line) in
     if blank l then (([], None), n) else (([decodeRecord (n + 1) l], None), n + 1))"

definition pi_Feed :: "(PiDecoder, PiRecord) feed" where
  "pi_Feed dec chunk = (if pd_failed dec \<noteq> None then (([], pd_failed dec), dec)
     else case line_loop (\<lambda>line. int (length line) > pd_max dec) (pi_line_over (pd_max dec)) pi_ErrRecordTooLarge pi_line (pd_sequence dec) (pd_buffer dec) chunk of
       ((records, e), (n, buffer)) \<Rightarrow> ((records, e), dec\<lparr> pd_sequence := n, pd_buffer := buffer, pd_failed := e \<rparr>))"

definition pi_Close :: "PiDecoder \<Rightarrow> (PiRecord list \<times> gerror option) \<times> PiDecoder" where
  "pi_Close dec = (if pd_failed dec \<noteq> None then (([], pd_failed dec), dec)
     else if blank (pd_buffer dec) then (([], None), dec\<lparr> pd_buffer := [] \<rparr>)
     else (let n = pd_sequence dec + 1 in
       (([invalidRecord n (pd_buffer dec) pi_ErrIncompleteRecord], Some pi_ErrIncompleteRecord),
        dec\<lparr> pd_sequence := n, pd_buffer := [], pd_failed := Some pi_ErrIncompleteRecord \<rparr>)))"

subsection \<open>Session state\<close>

record PiSessionState =
  ps_SessionID :: string
  ps_SessionFile :: string
  ps_isStreaming :: bool
  ps_isCompacting :: bool
  ps_pendingMessageCount :: int
  ps_streamingStatusObserved :: bool
  ps_compactingStatusObserved :: bool
  ps_queueStatusObserved :: bool

text \<open>An optional member of the state: absent it is not observed.\<close>

definition optional_status :: "(json \<Rightarrow> 'a option) \<Rightarrow> 'a \<Rightarrow> json option \<Rightarrow> gerror \<Rightarrow> ('a \<times> bool) result" where
  "optional_status dec zero v err = (case v of
     None \<Rightarrow> Inr (zero, False)
   | Some w \<Rightarrow> if w = JNull then Inl err else (case dec w of None \<Rightarrow> Inl err | Some x \<Rightarrow> Inr (x, True)))"

definition decodeSessionState :: "json option \<Rightarrow> PiSessionState result" where
  "decodeSessionState raw = (case strict_member raw of
     Inl e \<Rightarrow> Inl (Err ''pi rpc completion has no observed session state: state data: %v'')
   | Inr obj \<Rightarrow> (case nonEmptyString (last_lookup ''sessionId'' obj) of
       None \<Rightarrow> Inl (Err ''pi rpc completion has no observed session state: sessionId must be non-empty'')
     | Some i \<Rightarrow> (case nonEmptyString (last_lookup ''sessionFile'' obj) of
         None \<Rightarrow> Inl (Err ''pi rpc completion has no observed session state: sessionFile must be non-empty'')
       | Some f \<Rightarrow>
         bind_r (optional_status into_bool False (last_lookup ''isStreaming'' obj) (Err ''pi rpc response is invalid: isStreaming must be boolean''))
           (\<lambda>(streaming, streamingSeen).
         bind_r (optional_status into_bool False (last_lookup ''isCompacting'' obj) (Err ''pi rpc response is invalid: isCompacting must be boolean''))
           (\<lambda>(compacting, compactingSeen).
         bind_r (optional_status (\<lambda>w. case into_int64 w of None \<Rightarrow> None | Some n \<Rightarrow> if n < 0 then None else Some n) 0
             (last_lookup ''pendingMessageCount'' obj) (Err ''pi rpc response is invalid: pendingMessageCount must be a non-negative integer''))
           (\<lambda>(count, queueSeen).
         Inr \<lparr> ps_SessionID = i, ps_SessionFile = f, ps_isStreaming = streaming, ps_isCompacting = compacting, ps_pendingMessageCount = count,
           ps_streamingStatusObserved = streamingSeen, ps_compactingStatusObserved = compactingSeen, ps_queueStatusObserved = queueSeen \<rparr>))))))"

definition ValidateResumeReady :: "PiSessionState \<Rightarrow> gerror option" where
  "ValidateResumeReady state =
    (if \<not> ps_streamingStatusObserved state \<or> \<not> ps_compactingStatusObserved state \<or> \<not> ps_queueStatusObserved state then Some pi_ErrResumeStateIncomplete
     else if ps_isStreaming state \<or> ps_isCompacting state \<or> ps_pendingMessageCount state \<noteq> 0 then Some pi_ErrResumeStateActive
     else None)"

definition sameSessionIdentity :: "PiSessionState \<Rightarrow> PiSessionState \<Rightarrow> bool" where
  "sameSessionIdentity left right = (ps_SessionID left = ps_SessionID right \<and> ps_SessionFile left = ps_SessionFile right)"

definition assistantMessage :: "json option \<Rightarrow> bool" where
  "assistantMessage raw = (case strict_member raw of
     Inl e \<Rightarrow> False
   | Inr obj \<Rightarrow> nonEmptyString (last_lookup ''role'' obj) = Some ''assistant'')"

definition normalAssistantStop :: "json option \<Rightarrow> gerror option" where
  "normalAssistantStop raw = (case strict_member raw of
     Inl e \<Rightarrow> Some pi_ErrUnexpectedAssistantStop
   | Inr obj \<Rightarrow> if nonEmptyString (last_lookup ''stopReason'' obj) = Some ''stop'' then None
       else Some (Err ''pi rpc final assistant message did not stop normally: %q''))"

subsection \<open>The validator\<close>

datatype lifecycleState = lifecycleAwaitingStart | lifecycleRunning | lifecycleBetweenRuns | lifecycleSettled

record PiValidator =
  pv_expected :: "PiSessionState option"
  pv_state :: "PiSessionState option"
  pv_pending :: "(string \<times> string) list"
  pv_responded :: "string list"
  pv_promptPending :: bool
  pv_promptAccepted :: bool
  pv_lifecycle :: lifecycleState
  pv_agentStarted :: bool
  pv_agentEnded :: bool
  pv_lastWillRetry :: bool
  pv_settled :: bool
  pv_currentAssistant :: "json option"
  pv_finalAssistant :: "json option"
  pv_agentEndMessages :: "json option"
  pv_failed :: "gerror option"

record NativeCompletion =
  nc_State :: PiSessionState
  nc_FinalAssistant :: "json option"
  nc_AgentEndMessages :: "json option"

definition NewValidator :: "PiSessionState option \<Rightarrow> PiValidator" where
  "NewValidator expected = \<lparr> pv_expected = expected, pv_state = None, pv_pending = [], pv_responded = [], pv_promptPending = False,
     pv_promptAccepted = False, pv_lifecycle = lifecycleAwaitingStart, pv_agentStarted = False, pv_agentEnded = False, pv_lastWillRetry = False,
     pv_settled = False, pv_currentAssistant = None, pv_finalAssistant = None, pv_agentEndMessages = None, pv_failed = None \<rparr>"

definition pv_fail :: "gerror \<Rightarrow> PiValidator \<Rightarrow> PiValidator" where
  "pv_fail e v = v\<lparr> pv_failed := Some e \<rparr>"

definition Register :: "PiRequest \<Rightarrow> PiValidator \<Rightarrow> PiValidator" where
  "Register request v =
    (if pv_failed v \<noteq> None then v
     else case PiRequest_Validate request of
       Some e \<Rightarrow> pv_fail e v
     | None \<Rightarrow>
       if map_of (pv_pending v) (pq_ID request) \<noteq> None \<or> pq_ID request \<in> set (pv_responded v)
         then pv_fail (Err ''pi rpc request id is already pending: %q'') v
       else if pq_Type request = CommandPrompt \<and> (pv_promptPending v \<or> pv_promptAccepted v \<or> pv_agentStarted v \<or> pv_settled v)
         then pv_fail (pi_invalid_request ''only one prompt can be in flight'') v
       else v\<lparr> pv_promptPending := (pv_promptPending v \<or> pq_Type request = CommandPrompt),
               pv_pending := AList.update (pq_ID request) (pq_Type request) (pv_pending v) \<rparr>)"

definition Expire :: "string \<Rightarrow> PiValidator \<Rightarrow> PiValidator" where
  "Expire ident v =
    (if pv_failed v \<noteq> None then v
     else if map_of (pv_pending v) ident = None then pv_fail (Err ''pi rpc response does not match a pending request: %q'') v
     else pv_fail (Err ''pi rpc request timed out; late response is unsafe: %q'') v)"

definition bindState :: "PiSessionState \<Rightarrow> PiValidator \<Rightarrow> PiValidator" where
  "bindState state v =
    (if (case pv_expected v of None \<Rightarrow> False | Some x \<Rightarrow> \<not> sameSessionIdentity x state)
       then pv_fail (Err ''pi rpc session state conflicts with the retained identity: expected %q/%q, got %q/%q'') v
     else if (case pv_state v of None \<Rightarrow> False | Some x \<Rightarrow> \<not> sameSessionIdentity x state)
       then pv_fail (Err ''pi rpc session state conflicts with the retained identity: observed %q/%q, got %q/%q'') v
     else v\<lparr> pv_state := Some state \<rparr>)"

definition observeResponse :: "PiResponse \<Rightarrow> PiValidator \<Rightarrow> PiValidator" where
  "observeResponse response v = (case map_of (pv_pending v) (pr_ID response) of
     None \<Rightarrow> if pr_ID response \<in> set (pv_responded v) then pv_fail (Err ''pi rpc response was already observed: %q'') v
       else pv_fail (Err ''pi rpc response does not match a pending request: %q'') v
   | Some command \<Rightarrow>
     if command \<noteq> pr_Command response
       then pv_fail (Err ''pi rpc response command does not match its request: request %q expected %q, got %q'') v
     else (let v1 = v\<lparr> pv_pending := AList.delete (pr_ID response) (pv_pending v), pv_responded := pr_ID response # pv_responded v \<rparr> in
       if \<not> pr_Success response then pv_fail (Err (''pi rpc command was rejected: '' @ pr_Error response)) v1
       else if command = CommandGetState then
         (case decodeSessionState (pr_Data response) of
            Inl e \<Rightarrow> pv_fail e v1
          | Inr state \<Rightarrow> bindState state v1)
       else if command = CommandPrompt then v1\<lparr> pv_promptPending := False, pv_promptAccepted := True \<rparr>
       else v1))"

definition observeEvent :: "PiEvent \<Rightarrow> PiValidator \<Rightarrow> PiValidator" where
  "observeEvent event v =
    (if pv_settled v then
       (if pe_Type event = EventAgentSettled then pv_fail pi_ErrDuplicateSettled v
        else pv_fail (Err (''pi rpc stream contains an event after agent_settled: '' @ pe_Type event)) v)
     else if pe_Type event = EventAgentStart then
       (if \<not> pv_promptPending v \<and> \<not> pv_promptAccepted v then pv_fail (pi_unexpected_event ''agent_start before prompt'') v
        else if pv_lifecycle v \<noteq> lifecycleAwaitingStart \<and> pv_lifecycle v \<noteq> lifecycleBetweenRuns
          then pv_fail (pi_unexpected_event ''nested or terminal agent_start'') v
        else v\<lparr> pv_lifecycle := lifecycleRunning, pv_agentStarted := True, pv_agentEnded := False, pv_currentAssistant := None, pv_finalAssistant := None \<rparr>)
     else if pe_Type event = EventAgentEnd then
       (if pv_lifecycle v = lifecycleBetweenRuns then pv_fail pi_ErrDuplicateAgentEnd v
        else if pv_lifecycle v \<noteq> lifecycleRunning then pv_fail (pi_unexpected_event ''agent_end before agent_start'') v
        else v\<lparr> pv_lifecycle := lifecycleBetweenRuns, pv_agentEnded := True, pv_lastWillRetry := pe_WillRetry event,
                pv_agentEndMessages := pe_AgentEndMessages event, pv_finalAssistant := pv_currentAssistant v \<rparr>)
     else if pe_Type event = EventMessageEnd then
       (if pv_lifecycle v \<noteq> lifecycleRunning then pv_fail (pi_unexpected_event ''message_end outside an active agent run'') v
        else if assistantMessage (pe_Message event) then v\<lparr> pv_currentAssistant := pe_Message event \<rparr>
        else v)
     else if pe_Type event = EventAgentSettled then
       (if pv_lifecycle v \<noteq> lifecycleBetweenRuns then pv_fail (pi_unexpected_event ''agent_settled requires a completed agent run'') v
        else v\<lparr> pv_lifecycle := lifecycleSettled, pv_settled := True \<rparr>)
     else v)"

definition pi_Observe :: "PiRecord \<Rightarrow> PiValidator \<Rightarrow> PiValidator" where
  "pi_Observe rec v =
    (if pv_failed v \<noteq> None then v
     else case pc_DecodeError rec of
       Some e \<Rightarrow> pv_fail e v
     | None \<Rightarrow> (case pc_Response rec of
         Some response \<Rightarrow> observeResponse response v
       | None \<Rightarrow> (case pc_Event rec of Some event \<Rightarrow> observeEvent event v | None \<Rightarrow> pv_fail pi_ErrMalformedJSON v)))"

definition pi_Finish :: "PiValidator \<Rightarrow> NativeCompletion result" where
  "pi_Finish v = (case pv_failed v of
     Some e \<Rightarrow> Inl e
   | None \<Rightarrow> (case pv_state v of
       None \<Rightarrow> Inl pi_ErrMissingSessionState
     | Some state \<Rightarrow>
       if \<not> pv_promptAccepted v then Inl pi_ErrPromptNotAccepted
       else if \<not> pv_settled v then Inl pi_ErrNotSettled
       else if pv_pending v \<noteq> [] then Inl pi_ErrPendingResponse
       else if \<not> pv_agentEnded v then Inl pi_ErrMissingAgentEnd
       else if pv_finalAssistant v = None then Inl pi_ErrMissingAssistantMessage
       else (case normalAssistantStop (pv_finalAssistant v) of
           Some e \<Rightarrow> Inl e
         | None \<Rightarrow> Inr \<lparr> nc_State = state, nc_FinalAssistant = pv_finalAssistant v, nc_AgentEndMessages = pv_agentEndMessages v \<rparr>)))"

end
