(* ===== verification/Pi_Life.thy ===== *)
theory Pi_Life
  imports Pi_Rpc
begin

text \<open>
  The life cycle the pi validator follows, against the events it has observed: complete agent runs one after the other, the run that is open, and the
  settlement after the last one.
\<close>

subsection \<open>What an accepted event does\<close>

lemma guarded:
  "pv_failed (if b then pv_fail x v else w) = None \<longleftrightarrow> \<not> b \<and> pv_failed w = None"
  "pv_failed (if b then (if c then pv_fail x v else pv_fail y v) else w) = None \<longleftrightarrow> \<not> b \<and> pv_failed w = None"
  by (simp_all add: pv_fail_def)

lemma event_kinds:
  "EventAgentEnd \<noteq> EventAgentStart" "EventMessageEnd \<noteq> EventAgentStart" "EventMessageEnd \<noteq> EventAgentEnd"
  "EventAgentSettled \<noteq> EventAgentStart" "EventAgentSettled \<noteq> EventAgentEnd" "EventAgentSettled \<noteq> EventMessageEnd"
  by simp_all

lemma observe_start:
  assumes "pe_Type e = EventAgentStart" "pv_failed (observeEvent e v) = None"
  shows "\<not> pv_settled v" "pv_lifecycle v = lifecycleAwaitingStart \<or> pv_lifecycle v = lifecycleBetweenRuns"
    "observeEvent e v = v\<lparr> pv_lifecycle := lifecycleRunning, pv_agentStarted := True, pv_agentEnded := False, pv_currentAssistant := None,
       pv_finalAssistant := None \<rparr>"
proof -
  have "\<not> pv_settled v \<and> \<not> (\<not> pv_promptPending v \<and> \<not> pv_promptAccepted v)
    \<and> \<not> (pv_lifecycle v \<noteq> lifecycleAwaitingStart \<and> pv_lifecycle v \<noteq> lifecycleBetweenRuns)"
    using assms(2) unfolding observeEvent_def assms(1) by (simp only: guarded simp_thms if_True)
  moreover from this show "observeEvent e v = v\<lparr> pv_lifecycle := lifecycleRunning, pv_agentStarted := True, pv_agentEnded := False,
      pv_currentAssistant := None, pv_finalAssistant := None \<rparr>"
    unfolding observeEvent_def assms(1) by (simp only: simp_thms if_True if_False)
  ultimately show "\<not> pv_settled v" "pv_lifecycle v = lifecycleAwaitingStart \<or> pv_lifecycle v = lifecycleBetweenRuns" by blast+
qed

lemma observe_message:
  assumes "pe_Type e = EventMessageEnd" "pv_failed (observeEvent e v) = None"
  shows "\<not> pv_settled v" "pv_lifecycle v = lifecycleRunning"
    "observeEvent e v = (if assistantMessage (pe_Message e) then v\<lparr> pv_currentAssistant := pe_Message e \<rparr> else v)"
proof -
  have "\<not> pv_settled v \<and> \<not> pv_lifecycle v \<noteq> lifecycleRunning"
    using assms(2) unfolding observeEvent_def assms(1) by (simp only: guarded simp_thms if_True if_False event_kinds)
  moreover from this show "observeEvent e v = (if assistantMessage (pe_Message e) then v\<lparr> pv_currentAssistant := pe_Message e \<rparr> else v)"
    unfolding observeEvent_def assms(1) by (simp only: simp_thms if_True if_False event_kinds)
  ultimately show "\<not> pv_settled v" "pv_lifecycle v = lifecycleRunning" by blast+
qed

lemma observe_end:
  assumes "pe_Type e = EventAgentEnd" "pv_failed (observeEvent e v) = None"
  shows "\<not> pv_settled v" "pv_lifecycle v = lifecycleRunning"
    "observeEvent e v = v\<lparr> pv_lifecycle := lifecycleBetweenRuns, pv_agentEnded := True, pv_lastWillRetry := pe_WillRetry e,
       pv_agentEndMessages := pe_AgentEndMessages e, pv_finalAssistant := pv_currentAssistant v \<rparr>"
proof -
  have "\<not> pv_settled v \<and> pv_lifecycle v \<noteq> lifecycleBetweenRuns \<and> \<not> pv_lifecycle v \<noteq> lifecycleRunning"
    using assms(2) unfolding observeEvent_def assms(1) by (simp only: guarded simp_thms if_True if_False event_kinds) blast
  moreover from this show "observeEvent e v = v\<lparr> pv_lifecycle := lifecycleBetweenRuns, pv_agentEnded := True, pv_lastWillRetry := pe_WillRetry e,
       pv_agentEndMessages := pe_AgentEndMessages e, pv_finalAssistant := pv_currentAssistant v \<rparr>"
    unfolding observeEvent_def assms(1) by (simp only: simp_thms if_True if_False event_kinds lifecycleState.distinct)
  ultimately show "\<not> pv_settled v" "pv_lifecycle v = lifecycleRunning" by blast+
qed

lemma observe_settled:
  assumes "pe_Type e = EventAgentSettled" "pv_failed (observeEvent e v) = None"
  shows "pv_lifecycle v = lifecycleBetweenRuns" "observeEvent e v = v\<lparr> pv_lifecycle := lifecycleSettled, pv_settled := True \<rparr>"
proof -
  have "\<not> pv_settled v \<and> \<not> pv_lifecycle v \<noteq> lifecycleBetweenRuns"
    using assms(2) unfolding observeEvent_def assms(1) by (simp only: guarded simp_thms if_True if_False event_kinds)
  moreover from this show "observeEvent e v = v\<lparr> pv_lifecycle := lifecycleSettled, pv_settled := True \<rparr>"
    unfolding observeEvent_def assms(1) by (simp only: simp_thms if_True if_False event_kinds)
  ultimately show "pv_lifecycle v = lifecycleBetweenRuns" by blast
qed

lemma observe_other:
  assumes "pe_Type e \<notin> {EventAgentStart, EventAgentEnd, EventMessageEnd, EventAgentSettled}" "pv_failed (observeEvent e v) = None"
  shows "\<not> pv_settled v" "observeEvent e v = v"
proof -
  have k: "pe_Type e \<noteq> EventAgentStart" "pe_Type e \<noteq> EventAgentEnd" "pe_Type e \<noteq> EventMessageEnd" "pe_Type e \<noteq> EventAgentSettled" using assms(1) by blast+
  show live: "\<not> pv_settled v" using assms(2) unfolding observeEvent_def by (simp only: guarded simp_thms if_False k)
  then show "observeEvent e v = v" unfolding observeEvent_def by (simp only: simp_thms if_False k)
qed

subsection \<open>Agent runs and their settlement\<close>

definition marks :: "PiEvent list \<Rightarrow> PiEvent list" where
  "marks es = filter (\<lambda>e. pe_Type e \<in> {EventAgentStart, EventAgentEnd, EventMessageEnd, EventAgentSettled}) es"

text \<open>A complete run is a start, the messages that ended in it, and an end; its final assistant is the last assistant message among them.\<close>

definition agent_run :: "PiEvent list \<Rightarrow> bool" where
  "agent_run es = (es \<noteq> [] \<and> tl es \<noteq> [] \<and> pe_Type (hd es) = EventAgentStart \<and> list_all (\<lambda>e. pe_Type e = EventMessageEnd) (butlast (tl es))
     \<and> pe_Type (last es) = EventAgentEnd)"

definition final_assistant :: "PiEvent list \<Rightarrow> json option" where
  "final_assistant es = foldl (\<lambda>a e. if pe_Type e = EventMessageEnd \<and> assistantMessage (pe_Message e) then pe_Message e else a) None es"

definition completed :: "PiEvent list list \<Rightarrow> json option \<Rightarrow> json option \<Rightarrow> bool" where
  "completed runs final messages = (runs \<noteq> [] \<and> list_all agent_run runs \<and> final = final_assistant (last runs)
     \<and> messages = pe_AgentEndMessages (last (last runs)))"

text \<open>The events so far, by the state of the life cycle, the current and the final assistant message and the messages of the last end.\<close>

fun life :: "lifecycleState \<Rightarrow> json option \<Rightarrow> json option \<Rightarrow> json option \<Rightarrow> PiEvent list \<Rightarrow> bool" where
  "life lifecycleAwaitingStart current final messages es = (marks es = [])"
| "life lifecycleRunning current final messages es =
    (\<exists>runs ms. marks es = concat runs @ ms \<and> list_all agent_run runs \<and> ms \<noteq> [] \<and> pe_Type (hd ms) = EventAgentStart
       \<and> list_all (\<lambda>e. pe_Type e = EventMessageEnd) (tl ms) \<and> current = final_assistant ms)"
| "life lifecycleBetweenRuns current final messages es = (\<exists>runs. marks es = concat runs \<and> completed runs final messages)"
| "life lifecycleSettled current final messages es =
    (\<exists>runs. marks es = concat runs @ [last es] \<and> pe_Type (last es) = EventAgentSettled \<and> completed runs final messages)"

definition followed :: "PiEvent list \<Rightarrow> PiValidator \<Rightarrow> bool" where
  "followed es v = ((pv_settled v \<longleftrightarrow> pv_lifecycle v = lifecycleSettled)
     \<and> life (pv_lifecycle v) (pv_currentAssistant v) (pv_finalAssistant v) (pv_agentEndMessages v) es)"

lemma followed_cong:
  "followed es v \<Longrightarrow> pv_settled w = pv_settled v \<Longrightarrow> pv_lifecycle w = pv_lifecycle v \<Longrightarrow> pv_currentAssistant w = pv_currentAssistant v
    \<Longrightarrow> pv_finalAssistant w = pv_finalAssistant v \<Longrightarrow> pv_agentEndMessages w = pv_agentEndMessages v \<Longrightarrow> followed es w"
  by (simp only: followed_def)

lemma final_assistant_snoc:
  "final_assistant (es @ [e]) = (if pe_Type e = EventMessageEnd \<and> assistantMessage (pe_Message e) then pe_Message e else final_assistant es)"
  by (simp add: final_assistant_def)

lemma followed_start:
  assumes "followed es v" "pe_Type e = EventAgentStart" "pv_failed (observeEvent e v) = None"
  shows "followed (es @ [e]) (observeEvent e v)"
proof -
  note step = observe_start [OF assms(2,3)]
  obtain runs where runs: "marks es = concat runs" "list_all agent_run runs"
  proof (cases "pv_lifecycle v = lifecycleAwaitingStart")
    case True
    then show ?thesis using assms(1) that [of "[]"] by (simp add: followed_def)
  next
    case False
    then show ?thesis using assms(1) step(2) that by (auto simp: followed_def completed_def)
  qed
  have "marks (es @ [e]) = concat runs @ [e]" using runs(1) assms(2) by (simp add: marks_def)
  moreover have "None = final_assistant [e]" using assms(2) by (simp add: final_assistant_def)
  ultimately have "life lifecycleRunning None None m (es @ [e])" for m
    unfolding life.simps using runs(2) assms(2) by (intro exI [of _ runs] exI [of _ "[e]"]) simp
  then show ?thesis unfolding step(3) using step(1) by (simp add: followed_def del: life.simps)
qed

lemma followed_message:
  assumes "followed es v" "pe_Type e = EventMessageEnd" "pv_failed (observeEvent e v) = None"
  shows "followed (es @ [e]) (observeEvent e v)"
proof -
  note step = observe_message [OF assms(2,3)]
  obtain runs ms where r: "marks es = concat runs @ ms" "list_all agent_run runs" "ms \<noteq> []" "pe_Type (hd ms) = EventAgentStart"
      "list_all (\<lambda>e. pe_Type e = EventMessageEnd) (tl ms)" "pv_currentAssistant v = final_assistant ms"
    using assms(1) step(2) unfolding followed_def by auto
  have "marks (es @ [e]) = concat runs @ (ms @ [e])" using r(1) assms(2) by (simp add: marks_def)
  moreover have "pe_Type (hd (ms @ [e])) = EventAgentStart" "list_all (\<lambda>e. pe_Type e = EventMessageEnd) (tl (ms @ [e]))" "ms @ [e] \<noteq> []"
    using r(3-5) assms(2) by simp_all
  ultimately have "life lifecycleRunning (final_assistant (ms @ [e])) f m (es @ [e])" for f m
    unfolding life.simps using r(2) by blast
  moreover have "pv_currentAssistant (observeEvent e v) = final_assistant (ms @ [e])"
    unfolding step(3) final_assistant_snoc using r(6) assms(2) by simp
  moreover have "pv_lifecycle (observeEvent e v) = lifecycleRunning" "\<not> pv_settled (observeEvent e v)" unfolding step(3) using step(1,2) by simp_all
  ultimately show ?thesis by (simp add: followed_def del: life.simps)
qed

lemma followed_end:
  assumes "followed es v" "pe_Type e = EventAgentEnd" "pv_failed (observeEvent e v) = None"
  shows "followed (es @ [e]) (observeEvent e v)"
proof -
  note step = observe_end [OF assms(2,3)]
  obtain runs ms where r: "marks es = concat runs @ ms" "list_all agent_run runs" "ms \<noteq> []" "pe_Type (hd ms) = EventAgentStart"
      "list_all (\<lambda>e. pe_Type e = EventMessageEnd) (tl ms)" "pv_currentAssistant v = final_assistant ms"
    using assms(1) step(2) unfolding followed_def by auto
  have "marks (es @ [e]) = concat (runs @ [ms @ [e]])" using r(1) assms(2) by (simp add: marks_def)
  moreover have "agent_run (ms @ [e])" using r(3-5) assms(2) by (simp add: agent_run_def)
  moreover have "final_assistant (ms @ [e]) = final_assistant ms" using assms(2) by (simp add: final_assistant_snoc)
  ultimately have "life lifecycleBetweenRuns f (final_assistant ms) (pe_AgentEndMessages e) (es @ [e])" for f
    unfolding life.simps using r(2) by (intro exI [of _ "runs @ [ms @ [e]]"]) (simp add: completed_def)
  then show ?thesis unfolding step(3) using step(1) r(6) by (simp add: followed_def del: life.simps)
qed

lemma followed_settled:
  assumes "followed es v" "pe_Type e = EventAgentSettled" "pv_failed (observeEvent e v) = None"
  shows "followed (es @ [e]) (observeEvent e v)"
proof -
  note step = observe_settled [OF assms(2,3)]
  obtain runs where "marks es = concat runs" "completed runs (pv_finalAssistant v) (pv_agentEndMessages v)"
    using assms(1) step(1) by (auto simp: followed_def)
  then have "marks (es @ [e]) = concat runs @ [last (es @ [e])] \<and> completed runs (pv_finalAssistant v) (pv_agentEndMessages v)"
    using assms(2) by (simp add: marks_def)
  then have "life lifecycleSettled c (pv_finalAssistant v) (pv_agentEndMessages v) (es @ [e])" for c
    unfolding life.simps using assms(2) by auto
  then show ?thesis unfolding step(2) by (simp add: followed_def del: life.simps)
qed

lemma followed_other:
  assumes "followed es v" "pe_Type e \<notin> {EventAgentStart, EventAgentEnd, EventMessageEnd, EventAgentSettled}" "pv_failed (observeEvent e v) = None"
  shows "followed (es @ [e]) (observeEvent e v)"
proof -
  note step = observe_other [OF assms(2,3)]
  have "marks (es @ [e]) = marks es" using assms(2) by (simp add: marks_def)
  then have "life l c f m (es @ [e]) = life l c f m es" if "l \<noteq> lifecycleSettled" for l c f m using that by (cases l) simp_all
  then show ?thesis unfolding step(2) using assms(1) step(1) by (simp add: followed_def)
qed

end
