(* ===== verification/Pi_Rpc_Props.thy ===== *)
theory Pi_Rpc_Props
  imports Pi_Life
begin

text \<open>
  What the pi transport promises: accepted streams do not depend on how they are cut, the limit of a record that ends in CR LF does, and a finished
  validator is evidence of one prompt answered, every request acknowledged, complete agent runs and one settlement at their end.
\<close>

subsection \<open>Chunks\<close>

interpretation pirpc: stream_decoder pi_Feed
proof
  fix s s1 :: PiDecoder and xs ys :: bytes and o1
  let ?loop = "line_loop (\<lambda>line. int (length line) > pd_max s) (pi_line_over (pd_max s)) pi_ErrRecordTooLarge pi_line"
  assume f: "pi_Feed s xs = ((o1, None), s1)"
  then obtain n b where l: "?loop (pd_sequence s) (pd_buffer s) xs = ((o1, None), (n, b))"
    "s1 = s\<lparr> pd_sequence := n, pd_buffer := b, pd_failed := None \<rparr>" "pd_failed s = None"
    by (auto simp: pi_Feed_def split: prod.splits if_splits)
  show "pi_Feed s (xs @ ys) = prepend o1 (pi_Feed s1 ys)"
    using line_loop_append [OF l(1), of ys] l(2,3) by (simp add: pi_Feed_def prepend_def split: prod.splits)
qed

text \<open>C25: two ways of cutting one pi output into chunks that the decoder both accepts give the same records, numbered alike, and the same state.\<close>

theorem pi_chunking_irrelevant:
  assumes "feeds pi_Feed dec c cs = ((rs, None), d1)" and "feeds pi_Feed dec b bs = ((qs, None), d2)" and "concat (c # cs) = concat (b # bs)"
  shows "rs = qs \<and> d1 = d2"
  by (rule pirpc.feeds_agree [OF assms])

theorem pi_chunking_irrelevant_witness:
  "\<exists>rs qs d1 d2. feeds pi_Feed (pi_NewDecoder 8) ''{'' [''}'' @ [CHR 0x0A]] = ((rs, None), d1)
     \<and> feeds pi_Feed (pi_NewDecoder 8) (''{}'' @ [CHR 0x0A]) [] = ((qs, None), d2) \<and> rs = qs \<and> d1 = d2"
proof -
  have "\<not> blank ''{}''" by code_simp
  then have line: "pi_line 0 ''{}'' = (([decodeRecord 1 ''{}''], None), 1)" by (simp add: pi_line_def hasTrailingCR_def)
  let ?loop = "line_loop (\<lambda>line. int (length line) > 8) (pi_line_over 8) pi_ErrRecordTooLarge pi_line"
  have loop: "?loop 0 [] ''{'' = (([], None), (0, ''{''))" "?loop 0 ''{'' (''}'' @ [CHR 0x0A]) = (([decodeRecord 1 ''{}''], None), (1, []))"
    "?loop 0 [] (''{}'' @ [CHR 0x0A]) = (([decodeRecord 1 ''{}''], None), (1, []))"
    by (simp add: line_loop_tail is_line_end_def, subst line_loop_line, simp add: is_line_end_def, simp add: pi_line_over_def line,
        subst line_loop_line, simp add: is_line_end_def, simp add: pi_line_over_def line)
  have feeds: "feeds pi_Feed (pi_NewDecoder 8) ''{'' [''}'' @ [CHR 0x0A]] = (([decodeRecord 1 ''{}''], None), (pi_NewDecoder 8)\<lparr> pd_sequence := 1 \<rparr>)"
    "feeds pi_Feed (pi_NewDecoder 8) (''{}'' @ [CHR 0x0A]) [] = (([decodeRecord 1 ''{}''], None), (pi_NewDecoder 8)\<lparr> pd_sequence := 1 \<rparr>)"
    using loop by (simp_all add: pi_Feed_def pi_NewDecoder_def)
  from pi_chunking_irrelevant [OF feeds] feeds show ?thesis by blast
qed

text \<open>C23: the limit of a record that ends in CR LF depends on the chunks. A record of exactly the limit is accepted when its CR and LF arrive in one
  chunk, and rejected as too large when the chunk ends between them, although the CR is no part of the record in either case.\<close>

theorem pi_crlf_limit_depends_on_chunks:
  assumes "0 < m" and "int (length r) = m" and "list_all (\<lambda>c. \<not> is_line_end c) r"
  shows "snd (fst (feeds pi_Feed (pi_NewDecoder m) (r @ [CHR 0x0D, CHR 0x0A]) [])) = None
    \<and> snd (fst (feeds pi_Feed (pi_NewDecoder m) (r @ [CHR 0x0D]) [[CHR 0x0A]])) = Some pi_ErrRecordTooLarge"
proof
  let ?loop = "line_loop (\<lambda>line. int (length line) > m) (pi_line_over m) pi_ErrRecordTooLarge pi_line 0 []"
  have cr: "list_all (\<lambda>c. \<not> is_line_end c) (r @ [CHR 0x0D])" using assms(3) by (simp add: is_line_end_def)
  have "\<exists>out n. ?loop ((r @ [CHR 0x0D]) @ [CHR 0x0A]) = ((out, None), (n, []))"
    unfolding line_loop_line [OF cr, where ys = "[]"] using assms(2) by (simp add: pi_line_over_def hasTrailingCR_def pi_line_def Let_def)
  then show "snd (fst (feeds pi_Feed (pi_NewDecoder m) (r @ [CHR 0x0D, CHR 0x0A]) [])) = None"
    using assms(1) by (auto simp: pi_Feed_def pi_NewDecoder_def)
  have "?loop (r @ [CHR 0x0D]) = (([], Some pi_ErrRecordTooLarge), (0, []))" by (subst line_loop_tail [OF _ cr]) (use assms(2) in simp_all)
  then show "snd (fst (feeds pi_Feed (pi_NewDecoder m) (r @ [CHR 0x0D]) [[CHR 0x0A]])) = Some pi_ErrRecordTooLarge"
    using assms(1) by (simp add: pi_Feed_def pi_NewDecoder_def)
qed

theorem pi_crlf_limit_depends_on_chunks_witness:
  "snd (fst (feeds pi_Feed (pi_NewDecoder 2) (''{}'' @ [CHR 0x0D, CHR 0x0A]) [])) = None
    \<and> snd (fst (feeds pi_Feed (pi_NewDecoder 2) (''{}'' @ [CHR 0x0D]) [[CHR 0x0A]])) = Some pi_ErrRecordTooLarge"
  by (rule pi_crlf_limit_depends_on_chunks) (simp_all add: is_line_end_def)

subsection \<open>The trace of a validator\<close>

datatype pi_input = Registered PiRequest | Expired string | Observed PiRecord

fun pi_step :: "pi_input \<Rightarrow> PiValidator \<Rightarrow> PiValidator" where
  "pi_step (Registered request) = Register request"
| "pi_step (Expired ident) = Expire ident"
| "pi_step (Observed rec) = pi_Observe rec"

definition pi_run :: "PiSessionState option \<Rightarrow> pi_input list \<Rightarrow> PiValidator" where
  "pi_run expected inputs = fold pi_step inputs (NewValidator expected)"

fun input_requests :: "pi_input \<Rightarrow> PiRequest list" where
  "input_requests (Registered request) = [request]"
| "input_requests _ = []"

fun input_responses :: "pi_input \<Rightarrow> PiResponse list" where
  "input_responses (Observed rec) = (case pc_Response rec of Some response \<Rightarrow> [response] | None \<Rightarrow> [])"
| "input_responses _ = []"

fun input_events :: "pi_input \<Rightarrow> PiEvent list" where
  "input_events (Observed rec) = (case pc_Response rec of Some response \<Rightarrow> []
     | None \<Rightarrow> (case pc_Event rec of Some event \<Rightarrow> [event] | None \<Rightarrow> []))"
| "input_events _ = []"

abbreviation trace_requests :: "pi_input list \<Rightarrow> PiRequest list" where "trace_requests inputs \<equiv> concat (map input_requests inputs)"
abbreviation trace_responses :: "pi_input list \<Rightarrow> PiResponse list" where "trace_responses inputs \<equiv> concat (map input_responses inputs)"
abbreviation trace_events :: "pi_input list \<Rightarrow> PiEvent list" where "trace_events inputs \<equiv> concat (map input_events inputs)"

text \<open>A step is a registration, a timeout or one observed response or event; the first failure is final.\<close>

lemma step_failed: "pv_failed v \<noteq> None \<Longrightarrow> pi_step i v = v"
  by (cases i) (simp_all add: Register_def Expire_def pi_Observe_def)

lemma step_cases [consumes 1, case_names registered response event]:
  assumes "pv_failed (pi_step i v) = None"
  obtains (registered) request where "i = Registered request" "pi_step i v = Register request v"
  | (response) rec r where "i = Observed rec" "input_responses i = [r]" "input_events i = []" "pi_step i v = observeResponse r v"
  | (event) rec e where "i = Observed rec" "input_responses i = []" "input_events i = [e]" "pi_step i v = observeEvent e v"
  using assms
  by (cases i) (auto simp: Expire_def pi_Observe_def pv_fail_def split: option.splits if_splits)

lemma run_simps:
  "pi_run expected [] = NewValidator expected"
  "pi_run expected (inputs @ [i]) = pi_step i (pi_run expected inputs)"
  by (simp_all add: pi_run_def)

subsection \<open>Every request is acknowledged\<close>

abbreviation request_pairs :: "PiRequest list \<Rightarrow> (string \<times> string) list" where
  "request_pairs qs \<equiv> map (\<lambda>q. (pq_ID q, pq_Type q)) qs"

abbreviation prompts :: "PiRequest list \<Rightarrow> PiRequest list" where
  "prompts qs \<equiv> filter (\<lambda>q. pq_Type q = CommandPrompt) qs"

definition correlated :: "PiRequest list \<Rightarrow> PiResponse list \<Rightarrow> PiValidator \<Rightarrow> bool" where
  "correlated qs rs v = (distinct (map pq_ID qs) \<and> distinct (map pr_ID rs) \<and> set (pv_responded v) = set (map pr_ID rs)
     \<and> (\<forall>i. map_of (pv_pending v) i = (if i \<in> set (map pr_ID rs) then None else map_of (request_pairs qs) i))
     \<and> list_all (\<lambda>r. pr_Success r \<and> map_of (request_pairs qs) (pr_ID r) = Some (pr_Command r)) rs
     \<and> length (prompts qs) \<le> 1 \<and> (pv_promptPending v \<or> pv_promptAccepted v \<longleftrightarrow> prompts qs \<noteq> []))"

definition identified :: "PiSessionState option \<Rightarrow> PiResponse list \<Rightarrow> PiValidator \<Rightarrow> bool" where
  "identified expected rs v = (pv_expected v = expected
     \<and> (\<forall>st. pv_state v = Some st \<longrightarrow> (\<forall>x. expected = Some x \<longrightarrow> sameSessionIdentity x st))
     \<and> list_all (\<lambda>r. pr_Command r = CommandGetState \<longrightarrow>
         (\<exists>st x. pv_state v = Some st \<and> decodeSessionState (pr_Data r) = Inr x \<and> sameSessionIdentity x st)) rs)"

lemma Register_effect:
  assumes "pv_failed (Register q v) = None"
  shows "pv_failed v = None" "map_of (pv_pending v) (pq_ID q) = None" "pq_ID q \<notin> set (pv_responded v)"
    and "pq_Type q = CommandPrompt \<Longrightarrow> \<not> pv_promptPending v \<and> \<not> pv_promptAccepted v"
    and "Register q v = v\<lparr> pv_promptPending := (pv_promptPending v \<or> pq_Type q = CommandPrompt),
           pv_pending := AList.update (pq_ID q) (pq_Type q) (pv_pending v) \<rparr>"
  using assms by (auto simp: Register_def pv_fail_def split: option.splits if_splits)

lemma observeResponse_effect:
  assumes "pv_failed (observeResponse r v) = None"
  shows "pv_failed v = None" "map_of (pv_pending v) (pr_ID r) = Some (pr_Command r)" "pr_Success r"
    and "pv_pending (observeResponse r v) = AList.delete (pr_ID r) (pv_pending v)" "pv_responded (observeResponse r v) = pr_ID r # pv_responded v"
    and "pv_promptPending (observeResponse r v) \<or> pv_promptAccepted (observeResponse r v) \<longleftrightarrow>
      pr_Command r = CommandPrompt \<or> pv_promptPending v \<or> pv_promptAccepted v"
    and "pv_expected (observeResponse r v) = pv_expected v"
    and "pr_Command r \<noteq> CommandGetState \<Longrightarrow> pv_state (observeResponse r v) = pv_state v"
    and "pr_Command r = CommandGetState \<Longrightarrow> \<exists>x. decodeSessionState (pr_Data r) = Inr x \<and> pv_state (observeResponse r v) = Some x
      \<and> (\<forall>y. pv_expected v = Some y \<longrightarrow> sameSessionIdentity y x) \<and> (\<forall>y. pv_state v = Some y \<longrightarrow> sameSessionIdentity y x)"
  using assms by (auto simp: observeResponse_def bindState_def pv_fail_def Let_def split: option.splits if_splits sum.splits)

lemma observeEvent_frame:
  "pv_pending (observeEvent e v) = pv_pending v" "pv_responded (observeEvent e v) = pv_responded v" "pv_expected (observeEvent e v) = pv_expected v"
  "pv_state (observeEvent e v) = pv_state v" "pv_promptPending (observeEvent e v) = pv_promptPending v"
  "pv_promptAccepted (observeEvent e v) = pv_promptAccepted v"
  by (simp_all add: observeEvent_def pv_fail_def)

lemma correlated_Register:
  assumes "correlated qs rs v" "pv_failed (Register q v) = None"
  shows "correlated (qs @ [q]) rs (Register q v)"
proof -
  note e = Register_effect [OF assms(2)]
  from assms(1) have c: "distinct (map pq_ID qs)" "distinct (map pr_ID rs)" "set (pv_responded v) = set (map pr_ID rs)"
    "\<And>i. map_of (pv_pending v) i = (if i \<in> set (map pr_ID rs) then None else map_of (request_pairs qs) i)"
    "list_all (\<lambda>r. pr_Success r \<and> map_of (request_pairs qs) (pr_ID r) = Some (pr_Command r)) rs"
    "length (prompts qs) \<le> 1" "pv_promptPending v \<or> pv_promptAccepted v \<longleftrightarrow> prompts qs \<noteq> []"
    unfolding correlated_def by blast+
  have new: "map_of (request_pairs qs) (pq_ID q) = None" "pq_ID q \<notin> set (map pr_ID rs)" using c(3,4) e(2,3) by auto
  have fresh: "pq_ID q \<notin> set (map pq_ID qs)" using new(1) by (auto simp: map_of_eq_None_iff image_image)
  have pairs: "map_of (request_pairs (qs @ [q])) i = (if i = pq_ID q then Some (pq_Type q) else map_of (request_pairs qs) i)" for i
    using new(1) by (auto simp: map_add_def split: option.split)
  have pending: "map_of (pv_pending (Register q v)) i = (if i \<in> set (map pr_ID rs) then None else map_of (request_pairs (qs @ [q])) i)" for i
    unfolding pairs e(5) using c(4) new(2) by (simp add: update_conv)
  have "list_all (\<lambda>r. pr_Success r \<and> map_of (request_pairs (qs @ [q])) (pr_ID r) = Some (pr_Command r)) rs"
    unfolding pairs list_all_iff
  proof
    fix r assume r: "r \<in> set rs"
    then have "pr_ID r \<noteq> pq_ID q" using new(2) by (metis imageI set_map)
    then show "pr_Success r \<and> (if pr_ID r = pq_ID q then Some (pq_Type q) else map_of (request_pairs qs) (pr_ID r)) = Some (pr_Command r)"
      using c(5) r by (simp add: list_all_iff)
  qed
  moreover have "length (prompts (qs @ [q])) \<le> 1" using c(6,7) e(4) by auto
  moreover have "pv_promptPending (Register q v) \<or> pv_promptAccepted (Register q v) \<longleftrightarrow> prompts (qs @ [q]) \<noteq> []" unfolding e(5) using c(7) by auto
  moreover have "distinct (map pq_ID (qs @ [q]))" using c(1) fresh by simp
  moreover have "set (pv_responded (Register q v)) = set (map pr_ID rs)" unfolding e(5) using c(3) by simp
  ultimately show ?thesis unfolding correlated_def using c(2) pending by blast
qed

lemma correlated_response:
  assumes "correlated qs rs v" "pv_failed (observeResponse r v) = None"
  shows "correlated qs (rs @ [r]) (observeResponse r v)"
proof -
  note e = observeResponse_effect [OF assms(2)]
  have known: "pr_ID r \<notin> set (map pr_ID rs)" "map_of (request_pairs qs) (pr_ID r) = Some (pr_Command r)"
    using assms(1) e(2) by (auto simp: correlated_def split: if_splits)
  have "prompts qs \<noteq> []" if "pr_Command r = CommandPrompt"
    using map_of_SomeD [OF known(2)] that by (auto simp: filter_empty_conv)
  then have "pv_promptPending (observeResponse r v) \<or> pv_promptAccepted (observeResponse r v) \<longleftrightarrow> prompts qs \<noteq> []"
    unfolding e(6) using assms(1) by (auto simp: correlated_def)
  moreover have "map_of (pv_pending (observeResponse r v)) i = (if i \<in> set (map pr_ID (rs @ [r])) then None else map_of (request_pairs qs) i)" for i
    unfolding e(4) using assms(1) by (simp add: correlated_def delete_conv)
  ultimately show ?thesis using assms(1) e(3) known unfolding correlated_def e(5) by simp
qed

lemma correlated_run:
  "pv_failed (pi_run expected inputs) = None \<Longrightarrow> correlated (trace_requests inputs) (trace_responses inputs) (pi_run expected inputs)"
proof (induction inputs rule: rev_induct)
  case Nil
  then show ?case by (simp add: run_simps NewValidator_def correlated_def)
next
  case (snoc i inputs)
  let ?v = "pi_run expected inputs"
  have live: "pv_failed (pi_step i ?v) = None" using snoc.prems by (simp add: run_simps)
  then have "pv_failed ?v = None" using step_failed [of ?v i] by metis
  note IH = snoc.IH [OF this]
  from live show ?case
  proof (cases rule: step_cases)
    case (registered request)
    then show ?thesis using correlated_Register [OF IH, of request] live by (simp add: run_simps)
  next
    case (response rec r)
    then show ?thesis using correlated_response [OF IH, of r] live by (simp add: run_simps)
  next
    case (event rec e)
    then show ?thesis using IH by (simp add: run_simps correlated_def observeEvent_frame)
  qed
qed

lemma identified_cong:
  "identified expected rs v \<Longrightarrow> pv_expected w = pv_expected v \<Longrightarrow> pv_state w = pv_state v \<Longrightarrow> identified expected rs w"
  by (simp only: identified_def) blast

lemma identified_response:
  assumes "identified expected rs v" "pv_failed (observeResponse r v) = None"
  shows "identified expected (rs @ [r]) (observeResponse r v)"
proof (cases "pr_Command r = CommandGetState")
  case True
  have bound: "pv_expected v = expected" using assms(1) by (simp only: identified_def)
  obtain x where x: "decodeSessionState (pr_Data r) = Inr x" "pv_state (observeResponse r v) = Some x"
    "\<And>y. expected = Some y \<Longrightarrow> sameSessionIdentity y x" "\<And>y. pv_state v = Some y \<Longrightarrow> sameSessionIdentity y x"
    using observeResponse_effect(9) [OF assms(2) True] unfolding bound by blast
  have "\<exists>y. decodeSessionState (pr_Data q) = Inr y \<and> sameSessionIdentity y x" if q: "q \<in> set (rs @ [r])" "pr_Command q = CommandGetState" for q
  proof (cases "q = r")
    case True
    then show ?thesis using x(1) by (simp add: sameSessionIdentity_def)
  next
    case False
    then have "q \<in> set rs" using q(1) by simp
    then obtain st y where st: "pv_state v = Some st" "decodeSessionState (pr_Data q) = Inr y" "sameSessionIdentity y st"
      using assms(1) q(2) unfolding identified_def list_all_iff by blast
    from x(4) [OF st(1)] st(2,3) show ?thesis unfolding sameSessionIdentity_def by simp
  qed
  moreover have "pv_expected (observeResponse r v) = expected" unfolding observeResponse_effect(7) [OF assms(2)] by (rule bound)
  ultimately show ?thesis unfolding identified_def list_all_iff using x(2,3) by (simp only: option.inject) blast
next
  case False
  then have "identified expected rs (observeResponse r v)"
    using identified_cong [OF assms(1)] observeResponse_effect(7,8) [OF assms(2)] by simp
  then show ?thesis using False by (simp add: identified_def)
qed

lemma identified_run:
  "pv_failed (pi_run expected inputs) = None \<Longrightarrow> identified expected (trace_responses inputs) (pi_run expected inputs)"
proof (induction inputs rule: rev_induct)
  case Nil
  then show ?case by (simp add: run_simps NewValidator_def identified_def)
next
  case (snoc i inputs)
  let ?v = "pi_run expected inputs"
  have live: "pv_failed (pi_step i ?v) = None" using snoc.prems by (simp add: run_simps)
  then have "pv_failed ?v = None" using step_failed [of ?v i] by metis
  note IH = snoc.IH [OF this]
  from live show ?case
  proof (cases rule: step_cases)
    case (registered request)
    then have "pv_expected (Register request ?v) = pv_expected ?v" "pv_state (Register request ?v) = pv_state ?v"
      using Register_effect(5) [of request ?v] live by simp_all
    then show ?thesis using registered identified_cong [OF IH] by (simp add: run_simps)
  next
    case (response rec r)
    then show ?thesis using identified_response [OF IH, of r] live by (simp add: run_simps)
  next
    case (event rec e)
    then show ?thesis using identified_cong [OF IH, of "observeEvent e ?v"] by (simp add: run_simps observeEvent_frame)
  qed
qed

lemma followed_run: "pv_failed (pi_run expected inputs) = None \<Longrightarrow> followed (trace_events inputs) (pi_run expected inputs)"
proof (induction inputs rule: rev_induct)
  case Nil
  then show ?case by (simp add: run_simps NewValidator_def followed_def marks_def)
next
  case (snoc i inputs)
  let ?v = "pi_run expected inputs"
  have live: "pv_failed (pi_step i ?v) = None" using snoc.prems by (simp add: run_simps)
  then have "pv_failed ?v = None" using step_failed [of ?v i] by metis
  note IH = snoc.IH [OF this]
  from live show ?case
  proof (cases rule: step_cases)
    case (registered request)
    then have "followed (trace_events inputs) (Register request ?v)"
      using followed_cong [OF IH, of "Register request ?v"] Register_effect(5) [of request ?v] live by simp
    then show ?thesis using registered by (simp add: run_simps)
  next
    case (response rec r)
    have "followed (trace_events inputs) (observeResponse r ?v)"
      by (rule followed_cong [OF IH]) (simp_all add: observeResponse_def bindState_def pv_fail_def Let_def split: option.split sum.split)
    then show ?thesis using response by (simp add: run_simps)
  next
    case (event rec e)
    then have "followed (trace_events inputs @ [e]) (observeEvent e ?v)"
      using followed_start [OF IH] followed_message [OF IH] followed_end [OF IH] followed_settled [OF IH] followed_other [OF IH] live
      by (cases "pe_Type e \<in> {EventAgentStart, EventAgentEnd, EventMessageEnd, EventAgentSettled}") auto
    then show ?thesis using event by (simp add: run_simps)
  qed
qed

subsection \<open>What a completion is evidence of\<close>

lemma Finish_effect:
  assumes "pi_Finish v = Inr c"
  shows "pv_failed v = None" "pv_state v = Some (nc_State c)" "pv_promptAccepted v" "pv_settled v" "pv_pending v = []"
    "nc_FinalAssistant c = pv_finalAssistant v" "nc_AgentEndMessages c = pv_agentEndMessages v" "normalAssistantStop (nc_FinalAssistant c) = None"
    "nc_FinalAssistant c \<noteq> None"
  using assms unfolding pi_Finish_def by (cases c; simp split: option.splits if_splits)+

definition acknowledged :: "PiRequest list \<Rightarrow> PiResponse list \<Rightarrow> bool" where
  "acknowledged qs rs = (distinct (map pq_ID qs) \<and> distinct (map pr_ID rs)
     \<and> set (request_pairs qs) = set (map (\<lambda>r. (pr_ID r, pr_Command r)) rs) \<and> list_all pr_Success rs)"

definition settled_stream :: "PiEvent list \<Rightarrow> NativeCompletion \<Rightarrow> bool" where
  "settled_stream es c = (\<exists>runs. marks es = concat runs @ [last es] \<and> runs \<noteq> [] \<and> list_all agent_run runs \<and> pe_Type (last es) = EventAgentSettled
     \<and> nc_FinalAssistant c = final_assistant (last runs) \<and> nc_AgentEndMessages c = pe_AgentEndMessages (last (last runs)))"

definition same_identity :: "PiSessionState option \<Rightarrow> PiResponse list \<Rightarrow> NativeCompletion \<Rightarrow> bool" where
  "same_identity expected rs c = ((\<forall>x. expected = Some x \<longrightarrow> sameSessionIdentity x (nc_State c))
     \<and> list_all (\<lambda>r. pr_Command r = CommandGetState \<longrightarrow> (\<exists>x. decodeSessionState (pr_Data r) = Inr x \<and> sameSessionIdentity x (nc_State c))) rs)"

lemma all_acknowledged:
  assumes "correlated qs rs v" "pv_pending v = []"
  shows "acknowledged qs rs"
proof -
  have c: "distinct (map pq_ID qs)" "distinct (map pr_ID rs)"
    "\<And>i. map_of (pv_pending v) i = (if i \<in> set (map pr_ID rs) then None else map_of (request_pairs qs) i)"
    "list_all (\<lambda>r. pr_Success r \<and> map_of (request_pairs qs) (pr_ID r) = Some (pr_Command r)) rs"
    using assms(1) unfolding correlated_def by blast+
  have "set (request_pairs qs) \<subseteq> set (map (\<lambda>r. (pr_ID r, pr_Command r)) rs)"
  proof (rule subrelI)
    fix i t
    assume it: "(i, t) \<in> set (request_pairs qs)"
    have "distinct (map fst (request_pairs qs))" using c(1) by (simp add: comp_def)
    then have m: "map_of (request_pairs qs) i = Some t" using it by (rule map_of_is_SomeI)
    then have "i \<in> set (map pr_ID rs)" using c(3) [of i] assms(2) by (auto split: if_splits)
    then obtain r where "r \<in> set rs" "pr_ID r = i" by auto
    moreover then have "pr_Command r = t" using c(4) m by (auto simp: list_all_iff)
    ultimately show "(i, t) \<in> set (map (\<lambda>r. (pr_ID r, pr_Command r)) rs)" by force
  qed
  moreover have "set (map (\<lambda>r. (pr_ID r, pr_Command r)) rs) \<subseteq> set (request_pairs qs)"
  proof (rule subrelI)
    fix i t
    assume "(i, t) \<in> set (map (\<lambda>r. (pr_ID r, pr_Command r)) rs)"
    then obtain r where "r \<in> set rs" "i = pr_ID r" "t = pr_Command r" by auto
    then have "map_of (request_pairs qs) i = Some t" using c(4) unfolding list_all_iff by blast
    then show "(i, t) \<in> set (request_pairs qs)" by (rule map_of_SomeD)
  qed
  moreover have "list_all pr_Success rs" using c(4) by (simp add: list_all_iff)
  ultimately show ?thesis unfolding acknowledged_def using c(1,2) by blast
qed

text \<open>C19: a native completion is evidence of the whole exchange. If the validator finishes after a trace of registrations, timeouts and observed
  records, then exactly one prompt was registered; every registered request has exactly one response, for its own command and successful, and there
  is no other response; the agent events are complete runs followed by one settlement, which is the last event of the stream; the final assistant
  message is the last one of the last run and stopped normally; and every observed session state has the identity of the completion, the expected
  one if one was given.\<close>

theorem pi_completion_is_evidence:
  assumes "pi_Finish (pi_run expected inputs) = Inr c"
  shows "length (prompts (trace_requests inputs)) = 1 \<and> acknowledged (trace_requests inputs) (trace_responses inputs)
    \<and> settled_stream (trace_events inputs) c \<and> normalAssistantStop (nc_FinalAssistant c) = None
    \<and> same_identity expected (trace_responses inputs) c"
proof -
  note f = Finish_effect [OF assms]
  have corr: "correlated (trace_requests inputs) (trace_responses inputs) (pi_run expected inputs)" using f(1) by (rule correlated_run)
  then have prompt: "length (prompts (trace_requests inputs)) \<le> 1" "prompts (trace_requests inputs) \<noteq> []"
    using f(3) unfolding correlated_def by blast+
  then have one: "length (prompts (trace_requests inputs)) = 1" by (metis le_antisym length_greater_0_conv less_eq_Suc_le One_nat_def)
  have "followed (trace_events inputs) (pi_run expected inputs)" using f(1) by (rule followed_run)
  then have "life lifecycleSettled (pv_currentAssistant (pi_run expected inputs)) (nc_FinalAssistant c) (nc_AgentEndMessages c) (trace_events inputs)"
    unfolding followed_def f(6,7) using f(4) by metis
  then have settled: "settled_stream (trace_events inputs) c" unfolding life.simps completed_def settled_stream_def by blast
  have "identified expected (trace_responses inputs) (pi_run expected inputs)" using f(1) by (rule identified_run)
  then have "same_identity expected (trace_responses inputs) c"
    unfolding identified_def same_identity_def f(2) list_all_iff by (simp only: option.inject) blast
  then show ?thesis using one settled all_acknowledged [OF corr f(5)] f(8) by blast
qed

text \<open>A short exchange: the session state and the prompt are asked for, the prompt is accepted, and one run with one assistant message settles.\<close>

definition sample_exchange :: "pi_input list" where
  "sample_exchange = (let
     response = (\<lambda>n i c d. Observed \<lparr> pc_Sequence = n, pc_Raw = [],
       pc_Response = Some \<lparr> pr_ID = i, pr_Command = c, pr_Success = True, pr_Data = d, pr_Error = [] \<rparr>, pc_Event = None, pc_DecodeError = None \<rparr>);
     event = (\<lambda>n t m ms. Observed \<lparr> pc_Sequence = n, pc_Raw = [], pc_Response = None,
       pc_Event = Some \<lparr> pe_Type = t, pe_Message = m, pe_AgentEndMessages = ms, pe_WillRetry = False \<rparr>, pc_DecodeError = None \<rparr>)
   in [Registered \<lparr> pq_ID = ''s'', pq_Type = CommandGetState, pq_Message = [], pq_StreamingBehavior = [] \<rparr>,
       response 1 ''s'' CommandGetState (Some (JObj [(''sessionId'', JStr ''i''), (''sessionFile'', JStr ''f'')])),
       Registered \<lparr> pq_ID = ''p'', pq_Type = CommandPrompt, pq_Message = ''go'', pq_StreamingBehavior = [] \<rparr>,
       response 2 ''p'' CommandPrompt None, event 3 EventAgentStart None None,
       event 4 EventMessageEnd (Some (JObj [(''role'', JStr ''assistant''), (''stopReason'', JStr ''stop'')])) None,
       event 5 EventAgentEnd None (Some (JArr [])), event 6 EventAgentSettled None None])"

theorem pi_completion_is_evidence_witness:
  "\<exists>c. pi_Finish (pi_run None sample_exchange) = Inr c \<and> length (prompts (trace_requests sample_exchange)) = 1
    \<and> acknowledged (trace_requests sample_exchange) (trace_responses sample_exchange) \<and> settled_stream (trace_events sample_exchange) c
    \<and> normalAssistantStop (nc_FinalAssistant c) = None \<and> same_identity None (trace_responses sample_exchange) c"
proof -
  have "\<not> isl (pi_Finish (pi_run None sample_exchange))" by code_simp
  then obtain c where "pi_Finish (pi_run None sample_exchange) = Inr c" by (cases "pi_Finish (pi_run None sample_exchange)") auto
  from this pi_completion_is_evidence [OF this] show ?thesis by blast
qed

end
