(* ===== verification/Spec2Isabelle.thy ===== *)
theory Spec2Isabelle
  imports Go_Json_Props Goal_Session_Props Store_Props Opencode_Sse Claude_Stream Pi_Rpc_Props
begin

text \<open>
  A verification library for the Symmetry daemon (\<^verbatim>\<open>src/daemon\<close>): its durable state and the transports of its harnesses.

  The program.  The daemon claims runs from a control plane, starts native agents in containment, and must survive a crash at any point.  What it
  knows is in files: one journal per run, one journal per native Goal session, one ledger of usage per deleted run.  Every change goes through
  the package \<^verbatim>\<open>internal/state\<close>, which loads a record, applies a closure that checks its guards and changes the record, validates the result and
  writes the file atomically.  The records of \<^verbatim>\<open>internal/authority\<close> and \<^verbatim>\<open>internal/protocol\<close> are stored in them.  The adapters in
  \<^verbatim>\<open>internal/harness\<close> read the output of an agent in chunks; a decoder turns it into records and a validator decides whether the stream is evidence
  of a finished turn.

  Language and library.
  \<^item> \<^verbatim>\<open>Go_Prelude\<close>: byte strings, errors as values, guard lists, white space, hexadecimal, times, 64-bit wrap-around.
  \<^item> \<^verbatim>\<open>Go_Json\<close>, \<^verbatim>\<open>Go_Json_Props\<close>: the JSON scanner and printer, with the round trip.  The parser runs with fuel; its fuel is a function of
    the length of the input and \<^verbatim>\<open>Go_Json_Props\<close> shows that it is enough for every printed value.
  \<^item> \<^verbatim>\<open>Sha256\<close>: the digests of the records.  \<^verbatim>\<open>Harness_Json\<close>: decoding of raw members and strict validity.
  \<^item> \<^verbatim>\<open>Files\<close>: a directory of files, with the outcome of each atomic write taken from a list: done, not done, or renamed without a synced
    directory, in which case the writer sees an error and the new file is there.

  Records.
  \<^item> \<^verbatim>\<open>Authority\<close>, \<^verbatim>\<open>Authority_Supervisor\<close>, \<^verbatim>\<open>Authority_Clone\<close> (\<^verbatim>\<open>internal/authority/authority.go\<close>): the bindings and proofs of containment,
    supervision and clone workspaces with their validation and comparison.
  \<^item> \<^verbatim>\<open>Protocol\<close>, \<^verbatim>\<open>Goal_Records\<close>, \<^verbatim>\<open>Goal_Evidence\<close>, \<^verbatim>\<open>Goal_Receipts\<close> (\<^verbatim>\<open>internal/protocol\<close>): wire records, subjects, evidence, receipts, usage.
  \<^item> \<^verbatim>\<open>Goal_Delivery\<close> (\<^verbatim>\<open>state/goal_delivery.go\<close>) and \<^verbatim>\<open>Reservation\<close>, \<^verbatim>\<open>Journal\<close> (\<^verbatim>\<open>state/state.go\<close>): the delivery, the cgroup reservation and the
    run journal itself.
  \<^item> \<^verbatim>\<open>Journal_Clone\<close>, \<^verbatim>\<open>Journal_Valid\<close>: \<^verbatim>\<open>validateJournal\<close> and all it calls.

  Operations on a run journal, one definition per closure of \<^verbatim>\<open>internal/state\<close>, a function from a journal to a journal or an error.
  \<^item> \<^verbatim>\<open>Provider\<close>, \<^verbatim>\<open>Outbox\<close>, \<^verbatim>\<open>Terminal\<close>, \<^verbatim>\<open>Commands\<close>, \<^verbatim>\<open>Process\<close>, \<^verbatim>\<open>Scans\<close>, \<^verbatim>\<open>Cgroup\<close>, \<^verbatim>\<open>Handoff\<close>, \<^verbatim>\<open>Clone_Ops\<close>, \<^verbatim>\<open>Release\<close>, \<^verbatim>\<open>Goal_Outbox\<close>,
    \<^verbatim>\<open>Goal_Attach\<close>.  \<^verbatim>\<open>Gate_Mac\<close> is the authenticator of \<^verbatim>\<open>native/linux-gate\<close>.
  \<^item> \<^verbatim>\<open>Ensures\<close> is the calculus for their results, \<^verbatim>\<open>Journal_Order\<close> what no operation may take back, \<^verbatim>\<open>Journal_Frames\<close> that each operation
    respects it, and \<^verbatim>\<open>Journal_Steps\<close> the transition system of a journal with the properties of its life: identity, terminal facts, settled
    provider actions, clone and release evidence, ready deliveries and native usage.  \<^verbatim>\<open>Scans\<close> refines an abstract scan machine.
    \<^verbatim>\<open>Journal_Samples\<close> holds the concrete journals of the witnesses.

  Stores.
  \<^item> \<^verbatim>\<open>Documents\<close>: the contract of a keyed set of files as locales, from the laws of a file format to the laws of load, save and update; it is
    interpreted for session journals, lineage indexes, run journals and ledgers.
  \<^item> \<^verbatim>\<open>Store\<close>, \<^verbatim>\<open>Store_Steps\<close>, \<^verbatim>\<open>Store_Props\<close> (\<^verbatim>\<open>state/state.go\<close>, \<^verbatim>\<open>state/goal_delivery.go\<close>): run journals and late usage ledgers as files.  A mutation
    is one update of a map; under claims, mutations, imports and deletions of all runs the directory refines the life of each run; a deletion archives
    before it removes; late usage is never lost and not charged twice, except for usage settled between two deletions of a run, which is shown to be
    taken again; an import keeps what it guards; and a legal mutation takes effect.
  \<^item> \<^verbatim>\<open>Goal_Session\<close>, \<^verbatim>\<open>Goal_Session_Ops\<close>, \<^verbatim>\<open>Goal_Session_Store\<close>, \<^verbatim>\<open>Goal_Session_Inv\<close>, \<^verbatim>\<open>Goal_Session_Dir\<close>, \<^verbatim>\<open>Goal_Session_Safety\<close>, \<^verbatim>\<open>Goal_Session_Props\<close>
    (\<^verbatim>\<open>state/goal_session.go\<close>): Goal sessions with their lineage indexes.  Under any write outcomes and restarts a lineage has at most one open
    session, the launch barrier answers what the journals say, a launch starts once and a stop certificate is spent once.

  Transports.
  \<^item> \<^verbatim>\<open>Stream_Decoder\<close>: the contract of an incremental decoder as locales, and the line loop two decoders share; it is interpreted for all three.
  \<^item> \<^verbatim>\<open>Opencode_Sse\<close> (\<^verbatim>\<open>harness/opencode/sse.go\<close>): chunks never matter, memory is bounded, framed events are decoded to their payloads.
  \<^item> \<^verbatim>\<open>Claude_Stream\<close> (\<^verbatim>\<open>harness/claude/stream.go\<close>): accepted chunks do not matter, and exactly the successful streams are accepted.
  \<^item> \<^verbatim>\<open>Pi_Rpc\<close>, \<^verbatim>\<open>Pi_Life\<close>, \<^verbatim>\<open>Pi_Rpc_Props\<close> (\<^verbatim>\<open>harness/pi/rpc.go\<close>): accepted chunks do not matter, the limit of a record that ends in CR LF depends on
    them, and a completion is evidence of the whole exchange.

  Conventions.  A Go pointer is an option, an error a value of \<^typ>\<open>gerror\<close> with its text, where formatted values stay as their verbs.  Times are
  integers with 0 for the zero time; 64-bit counters are words or carry an explicit wrap.  The clock, the admission parser and the size of an encoded
  journal are parameters; each step of a sequence has its own time.  A file holds a record itself, so the JSON encoding and decoding are the identity
  on what the store writes.  In the program they compact raw messages, turn a nil payload into \<^verbatim>\<open>null\<close> and replace invalid UTF-8, and what the
  theorems say of a journal read back holds up to that.  The properties of sequences of journal operations are about the closures the store applies;
  the import of a whole journal is outside them and is treated with the store.  Raw members of native output are the values they denote.

  Not modelled.  Goroutines, timers, signals, processes, cgroups, git and sockets: \<^verbatim>\<open>internal/app\<close>, \<^verbatim>\<open>execution\<close>, \<^verbatim>\<open>platform\<close>, \<^verbatim>\<open>workspace\<close>, the
  adapters around the decoders, \<^verbatim>\<open>control\<close>, the native launcher and the command line programs, because their behaviour is that of the operating system
  and of other services.  The contract schemas and the parsers that use them, because their validator is third-party code.  The typed OpenCode events
  and the task result in a pi message.  The byte encoding of files and the recovery of temporary files.  The control plane and its portal, which are
  separate programs.
\<close>

end
